(* ===== verification/Prelude.thy ===== *)
theory Prelude
  imports Main "HOL-Library.Code_Target_Nat"
begin

text \<open>
  What every component of the model shares: the Go error values the program builds and
  inspects, results as sums (\<open>Inl\<close> an error, \<open>Inr\<close> a value), operations that thread a
  state and may fail (a Go function that returns an error and acts on the outside world),
  the loop that stops at the first error, and lemmas on lists that several components use.
\<close>

section \<open>Lemma collections\<close>

named_theorems trim_simps \<open>rules about trimming, prefixes and suffixes of Go strings\<close>
named_theorems io_simps \<open>unfolding of state-threading operations\<close>

section \<open>Error values\<close>

text \<open>
  The error values of the program: \<open>Err\<close> is a plain error (\<open>errors.New\<close>,
  \<open>errors.Errorf\<close>), \<open>WithMessage\<close> the wrapping of \<open>github.com/pkg/errors\<close>, the others
  are the error types that the code declares or distinguishes with \<open>errors.As\<close> and
  \<open>errors.Is\<close>. \<open>MultiErr\<close> is \<open>multierr.Append\<close> of two errors.
  \<open>Panic\<close> is a run-time panic, which no function of the program recovers from.
\<close>

datatype go_error =
    Err string
  | WithMessage go_error string
  | MultiErr go_error go_error
  | TagNotFound string
  | FailedToFindRelease string string string
  | RateLimited nat string "int option"
  | PackageNotFound string
  | NotFoundError string
  | UnsupportedDistribution string
  | CannotDependOnSelf
  | ConfigNotFound
  | FailedToConfigure
  | ExitError int
  | InactiveService
  | ServiceNotFound string
  | InvalidConnectURL
  | ConnectHostNotCovered
  | VerificationTimeout
  | InvalidStatusCode nat
  | UnableToSetupNode string
  | Canceled
  | NotExist string
  | AlreadyRunning int
  | UnknownAuthority
  | CertificateInvalid
  | GroupAlreadyExists string
  | UserAlreadyExists string
  | PermissionDenied string
  | HostNotFound string
  | DeadlineExceeded
  | ConnectionRefused
  | Panic string

text \<open>The errors that \<open>errors.As\<close> and \<open>errors.Is\<close> look at, outermost first.\<close>

fun error_chain :: "go_error \<Rightarrow> go_error list" where
  "error_chain (WithMessage e m) = WithMessage e m # error_chain e"
| "error_chain (MultiErr a b) = MultiErr a b # error_chain a @ error_chain b"
| "error_chain e = [e]"

definition error_as :: "(go_error \<Rightarrow> bool) \<Rightarrow> go_error \<Rightarrow> bool" where
  "error_as p e = list_ex p (error_chain e)"

lemma error_as_simps [simp]:
  "error_as p (WithMessage e m) = (p (WithMessage e m) \<or> error_as p e)"
  "error_as p (Err s) = p (Err s)"
  "error_as p (TagNotFound s) = p (TagNotFound s)"
  "error_as p (FailedToFindRelease a b c) = p (FailedToFindRelease a b c)"
  "error_as p (RateLimited n s r) = p (RateLimited n s r)"
  "error_as p (ExitError i) = p (ExitError i)"
  "error_as p InactiveService = p InactiveService"
  "error_as p (ServiceNotFound s) = p (ServiceNotFound s)"
  "error_as p (NotFoundError s) = p (NotFoundError s)"
  "error_as p Canceled = p Canceled"
  by (simp_all add: error_as_def)

section \<open>Results\<close>

type_synonym 'a result = "go_error + 'a"

definition with_message :: "string \<Rightarrow> 'a result \<Rightarrow> 'a result" where
  "with_message m r = (case r of Inl e \<Rightarrow> Inl (WithMessage e m) | Inr x \<Rightarrow> Inr x)"

lemma with_message_simps [simp]:
  "with_message m (Inl e) = Inl (WithMessage e m)"
  "with_message m (Inr x) = Inr x"
  by (simp_all add: with_message_def)

lemma with_message_Inr_iff [simp]: "with_message m r = Inr x \<longleftrightarrow> r = Inr x"
  by (cases r) auto

section \<open>Operations that thread a state and may fail\<close>

text \<open>
  A Go function that acts on the outside world and returns a value and an error is a
  function from the state to a result and the next state: the state survives an error, as
  what has been done is done.
\<close>

type_synonym ('s, 'a) io = "'s \<Rightarrow> 'a result \<times> 's"

definition retE :: "'a \<Rightarrow> ('s, 'a) io" where
  "retE x s = (Inr x, s)"

definition failE :: "go_error \<Rightarrow> ('s, 'a) io" where
  "failE e s = (Inl e, s)"

definition bindE :: "('s, 'a) io \<Rightarrow> ('a \<Rightarrow> ('s, 'b) io) \<Rightarrow> ('s, 'b) io" where
  "bindE m f s = (case m s of (Inl e, t) \<Rightarrow> (Inl e, t) | (Inr x, t) \<Rightarrow> f x t)"

definition wrapE :: "string \<Rightarrow> ('s, 'a) io \<Rightarrow> ('s, 'a) io" where
  "wrapE msg m s = (case m s of (r, t) \<Rightarrow> (with_message msg r, t))"

text \<open>\<open>catchE m h\<close> is \<open>if err := m(); err != nil { return h(err) }\<close>.\<close>

definition catchE :: "('s, 'a) io \<Rightarrow> (go_error \<Rightarrow> ('s, 'a) io) \<Rightarrow> ('s, 'a) io" where
  "catchE m h s = (case m s of (Inl e, t) \<Rightarrow> h e t | (Inr x, t) \<Rightarrow> (Inr x, t))"

text \<open>\<open>defer\<close>: \<open>finallyE m f\<close> runs \<open>f\<close> when \<open>m\<close> has returned, whatever it returned.\<close>

definition finallyE :: "('s, 'a) io \<Rightarrow> ('s, unit) io \<Rightarrow> ('s, 'a) io" where
  "finallyE m f s = (case m s of (r, t) \<Rightarrow> (r, snd (f t)))"

lemma finallyE_eq: "finallyE m f s = (r, u) \<longleftrightarrow> (\<exists>t. m s = (r, t) \<and> u = snd (f t))"
  by (auto simp: finallyE_def split: prod.splits)

lemma bindE_Inl [io_simps]: "m s = (Inl e, t) \<Longrightarrow> bindE m f s = (Inl e, t)"
  by (simp add: bindE_def)

lemma bindE_Inr [io_simps]: "m s = (Inr x, t) \<Longrightarrow> bindE m f s = f x t"
  by (simp add: bindE_def)

lemma bindE_retE [simp]: "bindE (retE x) f = f x"
  by (rule ext) (simp add: bindE_def retE_def)

lemma bindE_failE [simp]: "bindE (failE e) f = failE e"
  by (rule ext) (simp add: bindE_def failE_def)

lemma retE_eq_iff [simp]:
  "retE x s = (Inr y, t) \<longleftrightarrow> x = y \<and> s = t"
  "retE x s \<noteq> (Inl e, t)"
  by (auto simp: retE_def)

lemma failE_eq_iff [simp]:
  "failE e s = (Inl e', t) \<longleftrightarrow> e = e' \<and> s = t"
  "failE e s \<noteq> (Inr y, t)"
  by (auto simp: failE_def)

lemma snd_retE [simp]: "snd (retE x s) = s"
  by (simp add: retE_def)

lemma snd_failE [simp]: "snd (failE e s) = s"
  by (simp add: failE_def)

lemma bindE_assoc: "bindE (bindE m f) g = bindE m (\<lambda>x. bindE (f x) g)"
  by (rule ext) (simp add: bindE_def split: prod.splits sum.splits)

lemma bindE_Inr_iff:
  "bindE m f s = (Inr y, u) \<longleftrightarrow> (\<exists>x t. m s = (Inr x, t) \<and> f x t = (Inr y, u))"
  by (auto simp: bindE_def split: prod.splits sum.splits)

lemma bindE_Inl_iff:
  "bindE m f s = (Inl e, u) \<longleftrightarrow>
     (m s = (Inl e, u) \<or> (\<exists>x t. m s = (Inr x, t) \<and> f x t = (Inl e, u)))"
  by (auto simp: bindE_def split: prod.splits sum.splits)

lemma wrapE_Inr_iff [simp]: "wrapE msg m s = (Inr x, t) \<longleftrightarrow> m s = (Inr x, t)"
  by (auto simp: wrapE_def split: prod.splits)

lemma wrapE_Inl_iff:
  "wrapE msg m s = (Inl e, t) \<longleftrightarrow> (\<exists>e'. m s = (Inl e', t) \<and> e = WithMessage e' msg)"
  by (auto simp: wrapE_def with_message_def split: prod.splits sum.splits)

lemma catchE_Inr_iff:
  "catchE m h s = (Inr y, u) \<longleftrightarrow> m s = (Inr y, u) \<or> (\<exists>e t. m s = (Inl e, t) \<and> h e t = (Inr y, u))"
  by (auto simp: catchE_def split: prod.splits sum.splits)

lemma catchE_Inl_iff:
  "catchE m h s = (Inl e', u) \<longleftrightarrow> (\<exists>e t. m s = (Inl e, t) \<and> h e t = (Inl e', u))"
  by (auto simp: catchE_def split: prod.splits sum.splits)

lemma snd_wrapE [simp]: "snd (wrapE msg m s) = snd (m s)"
  by (simp add: wrapE_def split: prod.splits)

lemma snd_bindE:
  "snd (bindE m f s) = (case fst (m s) of Inl e \<Rightarrow> snd (m s) | Inr x \<Rightarrow> snd (f x (snd (m s))))"
  by (simp add: bindE_def split: prod.splits sum.splits)

lemma snd_catchE:
  "snd (catchE m h s) = (case fst (m s) of Inl e \<Rightarrow> snd (h e (snd (m s))) | Inr x \<Rightarrow> snd (m s))"
  by (simp add: catchE_def split: prod.splits sum.splits)

lemmas io_unfold = retE_def failE_def bindE_def wrapE_def catchE_def

text \<open>The loop \<open>for _, x := range xs { if err := f(x); err != nil { return err } }\<close>.\<close>

fun eachE :: "('a \<Rightarrow> ('s, unit) io) \<Rightarrow> 'a list \<Rightarrow> ('s, unit) io" where
  "eachE f [] = retE ()"
| "eachE f (x # xs) = bindE (f x) (\<lambda>_. eachE f xs)"

lemma eachE_append: "eachE f (xs @ ys) = bindE (eachE f xs) (\<lambda>_. eachE f ys)"
  by (induction xs) (simp_all add: bindE_assoc)

lemma eachE_cong: "(\<And>x. x \<in> set xs \<Longrightarrow> f x = g x) \<Longrightarrow> eachE f xs = eachE g xs"
  by (induction xs) auto

text \<open>A relation between states that every step keeps is kept by sequencing and loops.\<close>

definition keeps :: "('s \<Rightarrow> 's \<Rightarrow> bool) \<Rightarrow> ('s, 'a) io \<Rightarrow> bool" where
  "keeps R m \<longleftrightarrow> (\<forall>s. R s (snd (m s)))"

lemma keepsI: "(\<And>s. R s (snd (m s))) \<Longrightarrow> keeps R m"
  by (simp add: keeps_def)

lemma keepsD: "keeps R m \<Longrightarrow> R s (snd (m s))"
  by (simp add: keeps_def)

lemma keeps_retE: "reflp R \<Longrightarrow> keeps R (retE x)"
  by (simp add: keeps_def reflpD)

lemma keeps_failE: "reflp R \<Longrightarrow> keeps R (failE e)"
  by (simp add: keeps_def reflpD)

lemma keeps_bindE:
  assumes "transp R" "keeps R m" "\<And>x. keeps R (f x)"
  shows "keeps R (bindE m f)"
proof (rule keepsI)
  fix s
  have m: "R s (snd (m s))" by (rule keepsD [OF assms(2)])
  have "R (snd (m s)) (snd (f x (snd (m s))))" for x by (rule keepsD [OF assms(3)])
  with m show "R s (snd (bindE m f s))"
    using assms(1) by (auto simp: snd_bindE split: sum.split dest: transpD)
qed

lemma keeps_wrapE: "keeps R m \<Longrightarrow> keeps R (wrapE msg m)"
  by (simp add: keeps_def)

lemma keeps_catchE:
  assumes "transp R" "keeps R m" "\<And>e. keeps R (h e)"
  shows "keeps R (catchE m h)"
proof (rule keepsI)
  fix s
  have m: "R s (snd (m s))" by (rule keepsD [OF assms(2)])
  have "R (snd (m s)) (snd (h e (snd (m s))))" for e by (rule keepsD [OF assms(3)])
  with m show "R s (snd (catchE m h s))"
    using assms(1) by (auto simp: snd_catchE split: sum.split dest: transpD)
qed

lemma keeps_finallyE:
  assumes "transp R" "keeps R m" "keeps R f"
  shows "keeps R (finallyE m f)"
proof (rule keepsI)
  fix s
  obtain r t where m: "m s = (r, t)" by fastforce
  with keepsD [OF assms(2), of s] have "R s t" by simp
  moreover have "R t (snd (f t))" by (rule keepsD [OF assms(3)])
  ultimately show "R s (snd (finallyE m f s))" using assms(1) m by (auto simp: finallyE_def dest: transpD)
qed

lemma keeps_eachE:
  assumes "reflp R" "transp R" "\<And>x. keeps R (f x)"
  shows "keeps R (eachE f xs)"
  by (induction xs) (auto intro: keeps_retE keeps_bindE assms)

section \<open>First-match loops\<close>

text \<open>The loop that returns the first value \<open>f\<close> yields.\<close>

fun first_some :: "('a \<Rightarrow> 'b option) \<Rightarrow> 'a list \<Rightarrow> 'b option" where
  "first_some f [] = None"
| "first_some f (x # xs) = (case f x of Some y \<Rightarrow> Some y | None \<Rightarrow> first_some f xs)"

lemma first_some_None_iff: "first_some f xs = None \<longleftrightarrow> (\<forall>x \<in> set xs. f x = None)"
  by (induction xs) (auto split: option.splits)

lemma first_some_Some_iff:
  "first_some f xs = Some y \<longleftrightarrow>
     (\<exists>as x bs. xs = as @ x # bs \<and> f x = Some y \<and> (\<forall>a \<in> set as. f a = None))"
proof (induction xs)
  case Nil
  then show ?case by simp
next
  case (Cons z zs)
  show ?case
  proof (cases "f z")
    case None
    have "(\<exists>as x bs. z # zs = as @ x # bs \<and> f x = Some y \<and> (\<forall>a \<in> set as. f a = None)) \<longleftrightarrow>
          (\<exists>as x bs. zs = as @ x # bs \<and> f x = Some y \<and> (\<forall>a \<in> set as. f a = None))"
      (is "?l \<longleftrightarrow> ?r")
    proof
      assume ?l
      then obtain as x bs where 1: "z # zs = as @ x # bs" "f x = Some y" "\<forall>a \<in> set as. f a = None"
        by blast
      with None obtain as' where "as = z # as'" by (cases as) auto
      with 1 show ?r by auto
    next
      assume ?r
      then obtain as x bs where "zs = as @ x # bs" "f x = Some y" "\<forall>a \<in> set as. f a = None"
        by blast
      with None show ?l by (intro exI [of _ "z # as"] exI [of _ x] exI [of _ bs]) auto
    qed
    with Cons.IH None show ?thesis by simp
  next
    case (Some w)
    then show ?thesis
      by (metis (no_types, lifting) append_Nil append_eq_Cons_conv first_some.simps(2)
          list.set_intros(1) list.set(1) empty_iff option.distinct(1) option.inject option.simps(5))
  qed
qed

section \<open>Duplicates\<close>

text \<open>The loop with a \<open>seen\<close> map (\<open>dedupStrings\<close>, \<open>lo.Uniq\<close>): first occurrences, in order.\<close>

fun dedup_from :: "'a list \<Rightarrow> 'a list \<Rightarrow> 'a list" where
  "dedup_from seen [] = []"
| "dedup_from seen (x # xs) =
     (if x \<in> set seen then dedup_from seen xs else x # dedup_from (x # seen) xs)"

definition dedup :: "'a list \<Rightarrow> 'a list" where
  "dedup xs = dedup_from [] xs"

lemma set_dedup_from: "set (dedup_from seen xs) = set xs - set seen"
  by (induction xs arbitrary: seen) auto

lemma distinct_dedup_from: "distinct (dedup_from seen xs)"
  by (induction xs arbitrary: seen) (auto simp: set_dedup_from)

lemma set_dedup [simp]: "set (dedup xs) = set xs"
  by (simp add: dedup_def set_dedup_from)

lemma distinct_dedup [simp]: "distinct (dedup xs)"
  by (simp add: dedup_def distinct_dedup_from)

lemma dedup_from_id: "distinct xs \<Longrightarrow> set xs \<inter> set seen = {} \<Longrightarrow> dedup_from seen xs = xs"
  by (induction xs arbitrary: seen) auto

lemma dedup_id: "distinct xs \<Longrightarrow> dedup xs = xs"
  by (simp add: dedup_def dedup_from_id)

end
