(* ===== verification/GoStrings.thy ===== *)
theory GoStrings
  imports Prelude
begin

text \<open>
  The functions of Go's \<open>strings\<close>, \<open>strconv\<close> and \<open>bufio\<close> packages that the program uses,
  on byte strings. White space is the ASCII white space of \<open>unicode.IsSpace\<close>: inputs are
  ASCII (file paths, versions, package names, addresses, command output), on which bytes
  and runes agree.
\<close>

section \<open>Prefixes, suffixes, substrings\<close>

fun has_prefix :: "string \<Rightarrow> string \<Rightarrow> bool" where
  "has_prefix s [] = True"
| "has_prefix [] (c # cs) = False"
| "has_prefix (d # ds) (c # cs) = (d = c \<and> has_prefix ds cs)"

definition has_suffix :: "string \<Rightarrow> string \<Rightarrow> bool" where
  "has_suffix s p = has_prefix (rev s) (rev p)"

fun contains_str :: "string \<Rightarrow> string \<Rightarrow> bool" where
  "contains_str [] sub = (sub = [])"
| "contains_str (c # cs) sub = (has_prefix (c # cs) sub \<or> contains_str cs sub)"

definition trim_prefix :: "string \<Rightarrow> string \<Rightarrow> string" where
  "trim_prefix s p = (if has_prefix s p then drop (length p) s else s)"

definition trim_suffix :: "string \<Rightarrow> string \<Rightarrow> string" where
  "trim_suffix s p = (if has_suffix s p then take (length s - length p) s else s)"

definition contains_any :: "string \<Rightarrow> string \<Rightarrow> bool" where
  "contains_any s cutset = list_ex (\<lambda>c. c \<in> set cutset) s"

lemma has_prefix_iff: "has_prefix s p \<longleftrightarrow> (\<exists>t. s = p @ t)"
  by (induction s p rule: has_prefix.induct) auto

lemma has_prefix_append [simp]: "has_prefix (p @ t) p"
  by (auto simp: has_prefix_iff)

lemma has_prefix_refl [simp]: "has_prefix s s"
  using has_prefix_append [of s "[]"] by simp

lemma has_prefix_trans: "has_prefix a b \<Longrightarrow> has_prefix b c \<Longrightarrow> has_prefix a c"
  by (auto simp: has_prefix_iff)

lemma has_prefix_length: "has_prefix s p \<Longrightarrow> length p \<le> length s"
  by (auto simp: has_prefix_iff)

lemma has_suffix_iff: "has_suffix s p \<longleftrightarrow> (\<exists>t. s = t @ p)"
  unfolding has_suffix_def has_prefix_iff
  by (metis rev_append rev_rev_ident)

lemma contains_str_iff: "contains_str s sub \<longleftrightarrow> (\<exists>a b. s = a @ sub @ b)"
proof (induction s sub rule: contains_str.induct)
  case (1 sub)
  then show ?case by auto
next
  case (2 c cs sub)
  have "(\<exists>a b. c # cs = a @ sub @ b) \<longleftrightarrow> (\<exists>b. c # cs = sub @ b) \<or> (\<exists>a b. cs = a @ sub @ b)"
    by (metis append_eq_Cons_conv append_Cons append_Nil)
  with "2.IH" show ?case by (simp add: has_prefix_iff)
qed

lemma contains_str_self [simp]: "contains_str (a @ sub @ b) sub"
  by (auto simp: contains_str_iff)

lemma trim_prefix_append [simp]: "trim_prefix (p @ s) p = s"
  by (simp add: trim_prefix_def)

lemma trim_prefix_noop: "\<not> has_prefix s p \<Longrightarrow> trim_prefix s p = s"
  by (simp add: trim_prefix_def)

section \<open>Trimming\<close>

definition go_space :: "char \<Rightarrow> bool" where
  "go_space c \<longleftrightarrow> c \<in> set [CHR 0x09, CHR 0x0A, CHR 0x0B, CHR 0x0C, CHR 0x0D, CHR '' '']"

definition trim_left :: "(char \<Rightarrow> bool) \<Rightarrow> string \<Rightarrow> string" where
  "trim_left p s = dropWhile p s"

definition trim_right :: "(char \<Rightarrow> bool) \<Rightarrow> string \<Rightarrow> string" where
  "trim_right p s = rev (dropWhile p (rev s))"

definition trim_space :: "string \<Rightarrow> string" where
  "trim_space s = trim_right go_space (trim_left go_space s)"

definition trim_right_set :: "string \<Rightarrow> string \<Rightarrow> string" where
  "trim_right_set s cutset = trim_right (\<lambda>c. c \<in> set cutset) s"

text \<open>No white space at either end.\<close>

definition trimmed :: "string \<Rightarrow> bool" where
  "trimmed s \<longleftrightarrow> (s = [] \<or> \<not> go_space (hd s) \<and> \<not> go_space (last s))"

lemma dropWhile_id: "(s = [] \<or> \<not> p (hd s)) \<Longrightarrow> dropWhile p s = s"
  by (cases s) auto

lemma trim_space_id [trim_simps]: "trimmed s \<Longrightarrow> trim_space s = s"
  by (auto simp: trimmed_def trim_space_def trim_left_def trim_right_def
      dropWhile_id hd_rev)

lemma last_trim_right: "trim_right p s \<noteq> [] \<Longrightarrow> \<not> p (last (trim_right p s))"
proof -
  assume ne: "trim_right p s \<noteq> []"
  then have "dropWhile p (rev s) \<noteq> []" by (simp add: trim_right_def)
  then have "\<not> p (hd (dropWhile p (rev s)))" by (rule hd_dropWhile)
  with ne show ?thesis by (simp add: trim_right_def last_rev)
qed

lemma trim_right_prefix: "\<exists>t. s = trim_right p s @ t \<and> list_all p t"
proof -
  have "rev s = takeWhile p (rev s) @ dropWhile p (rev s)" by simp
  then have "s = rev (dropWhile p (rev s)) @ rev (takeWhile p (rev s))"
    by (metis rev_append rev_rev_ident)
  moreover have "list_all p (rev (takeWhile p (rev s)))"
    by (auto simp: list_all_iff dest: set_takeWhileD)
  ultimately show ?thesis by (auto simp: trim_right_def)
qed

lemma trimmed_trim_space [simp, trim_simps]: "trimmed (trim_space s)"
proof (cases "trim_space s = []")
  case True
  then show ?thesis by (simp add: trimmed_def)
next
  case False
  let ?l = "trim_left go_space s"
  from False have r: "trim_right go_space ?l \<noteq> []" by (simp add: trim_space_def)
  obtain t where t: "?l = trim_right go_space ?l @ t" using trim_right_prefix by blast
  with r have "hd ?l = hd (trim_right go_space ?l)" and "?l \<noteq> []"
    by (metis hd_append2, metis Nil_is_append_conv)
  moreover from \<open>?l \<noteq> []\<close> have "\<not> go_space (hd ?l)"
    unfolding trim_left_def by (rule hd_dropWhile)
  ultimately have "\<not> go_space (hd (trim_space s))" by (simp add: trim_space_def)
  moreover from r have "\<not> go_space (last (trim_space s))"
    by (simp add: trim_space_def last_trim_right)
  ultimately show ?thesis by (simp add: trimmed_def)
qed

lemma trim_space_idem [simp]: "trim_space (trim_space s) = trim_space s"
  by (rule trim_space_id) simp

lemma set_trim_right: "set (trim_right p s) \<subseteq> set s"
  by (metis trim_right_prefix set_append Un_upper1)

lemma set_trim_space: "set (trim_space s) \<subseteq> set s"
  using set_trim_right [of go_space "trim_left go_space s"] set_dropWhileD [of _ go_space s]
  by (auto simp: trim_space_def trim_left_def)

lemma trim_space_Nil [simp]: "trim_space [] = []"
  by (simp add: trim_space_def trim_left_def trim_right_def)

section \<open>Splitting and joining\<close>

text \<open>\<open>strings.Split\<close> on a one-byte separator.\<close>

fun split_char :: "char \<Rightarrow> string \<Rightarrow> string list" where
  "split_char c [] = [[]]"
| "split_char c (x # xs) =
     (if x = c then [] # split_char c xs
      else (case split_char c xs of [] \<Rightarrow> [[x]] | h # t \<Rightarrow> (x # h) # t))"

fun join_with :: "string \<Rightarrow> string list \<Rightarrow> string" where
  "join_with sep [] = []"
| "join_with sep [x] = x"
| "join_with sep (x # y # ys) = x @ sep @ join_with sep (y # ys)"

text \<open>\<open>strings.Cut\<close>, and \<open>strings.SplitN(s, sep, 2)\<close>.\<close>

fun cut_str :: "string \<Rightarrow> string \<Rightarrow> (string \<times> string) option" where
  "cut_str sep [] = (if sep = [] then Some ([], []) else None)"
| "cut_str sep (c # cs) =
     (if has_prefix (c # cs) sep then Some ([], drop (length sep) (c # cs))
      else map_option (\<lambda>(a, b). (c # a, b)) (cut_str sep cs))"

definition split_n2 :: "string \<Rightarrow> string \<Rightarrow> string list" where
  "split_n2 sep s = (case cut_str sep s of None \<Rightarrow> [s] | Some (a, b) \<Rightarrow> [a, b])"

lemma split_char_ne [simp]: "split_char c s \<noteq> []"
  by (induction s) (auto split: list.splits)

lemma length_split_char_pos [simp]: "0 < length (split_char c s)"
  by (simp add: length_greater_0_conv)

lemma split_char_no_sep: "p \<in> set (split_char c s) \<Longrightarrow> c \<notin> set p"
proof (induction s arbitrary: p)
  case Nil
  then show ?case by simp
next
  case (Cons x xs)
  then show ?case by (cases "split_char c xs") (auto split: if_splits)
qed

lemma set_split_char: "p \<in> set (split_char c s) \<Longrightarrow> set p \<subseteq> set s"
proof (induction s arbitrary: p)
  case Nil
  then show ?case by simp
next
  case (Cons x xs)
  obtain h t where "split_char c xs = h # t" by (cases "split_char c xs") auto
  with Cons show ?case by (fastforce split: if_splits)
qed

lemma join_with_Cons: "ys \<noteq> [] \<Longrightarrow> join_with sep (x # ys) = x @ sep @ join_with sep ys"
  by (cases ys) auto

lemma join_split_char [simp]: "join_with [c] (split_char c s) = s"
proof (induction s)
  case Nil
  then show ?case by simp
next
  case (Cons x xs)
  obtain h t where ht: "split_char c xs = h # t" by (cases "split_char c xs") auto
  with Cons.IH show ?case by (cases t) (auto simp: join_with_Cons)
qed

lemma split_char_notin [simp]: "c \<notin> set s \<Longrightarrow> split_char c s = [s]"
  by (induction s) auto

lemma split_char_append: "c \<notin> set s \<Longrightarrow> split_char c (s @ c # t) = s # split_char c t"
  by (induction s) auto

lemma split_char_join:
  "xs \<noteq> [] \<Longrightarrow> (\<And>x. x \<in> set xs \<Longrightarrow> c \<notin> set x) \<Longrightarrow> split_char c (join_with [c] xs) = xs"
  by (induction "[c]" xs rule: join_with.induct) (auto simp: split_char_append)

lemma cut_str_Some: "cut_str sep s = Some (a, b) \<Longrightarrow> s = a @ sep @ b"
proof (induction sep s arbitrary: a b rule: cut_str.induct)
  case (1 sep)
  then show ?case by (auto split: if_splits)
next
  case (2 sep c cs)
  then show ?case by (auto simp: has_prefix_iff split: if_splits)
qed

lemma cut_str_char: "c \<notin> set a \<Longrightarrow> cut_str [c] (a @ c # b) = Some (a, b)"
  by (induction a) auto

lemma append_sep_cancel:
  "c \<notin> set x \<Longrightarrow> c \<notin> set x' \<Longrightarrow> x @ c # y = x' @ c # y' \<longleftrightarrow> x = x' \<and> y = y'"
proof (induction x arbitrary: x')
  case Nil
  then show ?case by (cases x') auto
next
  case (Cons a x)
  then show ?case by (cases x') auto
qed

lemma cut_str_None_char: "cut_str [c] s = None \<longleftrightarrow> c \<notin> set s"
  by (induction s) auto

lemma split_n2_char: "c \<notin> set a \<Longrightarrow> split_n2 [c] (a @ c # b) = [a, b]"
  by (simp add: split_n2_def cut_str_char)

lemma split_n2_notin: "c \<notin> set s \<Longrightarrow> split_n2 [c] s = [s]"
  using cut_str_None_char [of c s] by (simp add: split_n2_def)

section \<open>Replacing\<close>

text \<open>\<open>strings.ReplaceAll\<close> with a non-empty old string.\<close>

function replace_all :: "string \<Rightarrow> string \<Rightarrow> string \<Rightarrow> string" where
  "replace_all old new [] = []"
| "replace_all old new (c # cs) =
     (if old \<noteq> [] \<and> has_prefix (c # cs) old
      then new @ replace_all old new (drop (length old) (c # cs))
      else c # replace_all old new cs)"
  by pat_completeness auto
termination
  by (relation "measure (\<lambda>(old, new, s). length s)")
    (auto simp: length_greater_0_conv [symmetric] simp del: length_greater_0_conv)

lemma replace_all_id: "\<not> contains_str s old \<Longrightarrow> replace_all old new s = s"
  by (induction s) auto

lemma set_replace_all: "set (replace_all old new s) \<subseteq> set s \<union> set new"
proof (induction old new s rule: replace_all.induct)
  case (1 old new)
  then show ?case by simp
next
  case (2 old new c cs)
  have "set (drop (length old) (c # cs)) \<subseteq> set (c # cs)" by (rule set_drop_subset)
  with 2 show ?case by auto
qed

lemma replace_all_char_gone: "c \<notin> set new \<Longrightarrow> c \<notin> set (replace_all [c] new s)"
  by (induction "[c]" new s rule: replace_all.induct) auto

section \<open>Numbers\<close>

definition is_digit :: "char \<Rightarrow> bool" where
  "is_digit c \<longleftrightarrow> c \<in> set ''0123456789''"

definition digit_val :: "char \<Rightarrow> nat" where
  "digit_val c = of_char c - 48"

definition digit_char :: "nat \<Rightarrow> char" where
  "digit_char n = ''0123456789'' ! n"

fun digits_val :: "nat \<Rightarrow> string \<Rightarrow> nat" where
  "digits_val acc [] = acc"
| "digits_val acc (c # cs) = digits_val (10 * acc + digit_val c) cs"

text \<open>
  \<open>strconv.Atoi\<close> on a 64-bit platform: an optional sign, at least one decimal digit,
  nothing else, and a value that fits \<open>int64\<close>.
\<close>

definition atoi_magnitude :: "string \<Rightarrow> nat option" where
  "atoi_magnitude s = (if s \<noteq> [] \<and> list_all is_digit s then Some (digits_val 0 s) else None)"

definition go_atoi :: "string \<Rightarrow> int option" where
  "go_atoi s =
     (case s of
        [] \<Rightarrow> None
      | c # cs \<Rightarrow>
          if c = CHR ''-'' then
            (case atoi_magnitude cs of
               Some n \<Rightarrow> if n \<le> 2 ^ 63 then Some (- int n) else None
             | None \<Rightarrow> None)
          else
            (case atoi_magnitude (if c = CHR ''+'' then cs else s) of
               Some n \<Rightarrow> if n < 2 ^ 63 then Some (int n) else None
             | None \<Rightarrow> None))"

text \<open>\<open>strconv.Itoa\<close> of a non-negative number.\<close>

fun itoa_nat :: "nat \<Rightarrow> string" where
  "itoa_nat n = (if n < 10 then [digit_char n] else itoa_nat (n div 10) @ [digit_char (n mod 10)])"

declare itoa_nat.simps [simp del]

lemma digit_char_cases: "n < 10 \<Longrightarrow> n \<in> {0, 1, 2, 3, 4, 5, 6, 7, 8, 9}" for n :: nat
  by auto

lemma digit_char [simp]:
  assumes "n < 10"
  shows "is_digit (digit_char n)" "digit_val (digit_char n) = n"
  using digit_char_cases [OF assms]
  by (auto simp: is_digit_def digit_val_def digit_char_def nth_Cons')

lemma digits_val_append: "digits_val acc (s @ t) = digits_val (digits_val acc s) t"
  by (induction s arbitrary: acc) auto

lemma itoa_nat_ne [simp]: "itoa_nat n \<noteq> []"
  by (subst itoa_nat.simps) simp

lemma itoa_nat_digits: "list_all is_digit (itoa_nat n)"
proof (induction n rule: itoa_nat.induct)
  case (1 n)
  then show ?case by (cases "n < 10") (simp_all add: itoa_nat.simps [of n])
qed

lemma digits_val_itoa: "digits_val 0 (itoa_nat n) = n"
proof (induction n rule: itoa_nat.induct)
  case (1 n)
  show ?case
  proof (cases "n < 10")
    case True
    then show ?thesis by (simp add: itoa_nat.simps [of n])
  next
    case False
    with 1 have "digits_val 0 (itoa_nat (n div 10)) = n div 10" by simp
    with False show ?thesis
      by (simp add: itoa_nat.simps [of n] digits_val_append)
  qed
qed

lemma not_digit [simp]:
  "\<not> is_digit (CHR ''.'')" "\<not> is_digit (CHR '':'')" "\<not> is_digit (CHR ''/'')"
  "\<not> is_digit (CHR ''-'')" "\<not> is_digit (CHR ''+'')" "\<not> is_digit (CHR ''['')" "\<not> is_digit (CHR '']'')"
  "\<not> is_digit (CHR '' '')" "\<not> is_digit (CHR 0x0A)"
  by (simp_all add: is_digit_def)

lemma is_digit_not_sign: "is_digit c \<Longrightarrow> c \<noteq> CHR ''-'' \<and> c \<noteq> CHR ''+'' \<and> c \<noteq> CHR '':'' \<and> c \<noteq> CHR ''.''"
  by (auto simp: is_digit_def)

lemma itoa_nat_notin: "\<not> is_digit c \<Longrightarrow> c \<notin> set (itoa_nat n)"
  using itoa_nat_digits [of n] by (auto simp: list_all_iff)

text \<open>The round trip \<open>Atoi (Itoa n) = n\<close>.\<close>

lemma atoi_itoa: "n < 2 ^ 63 \<Longrightarrow> go_atoi (itoa_nat n) = Some (int n)"
proof -
  assume n: "n < 2 ^ 63"
  obtain c cs where s: "itoa_nat n = c # cs" by (cases "itoa_nat n") auto
  with itoa_nat_digits [of n] have "is_digit c" by simp
  then have "c \<noteq> CHR ''-''" "c \<noteq> CHR ''+''" using is_digit_not_sign by blast+
  moreover have "atoi_magnitude (itoa_nat n) = Some n"
    by (simp add: atoi_magnitude_def itoa_nat_digits digits_val_itoa)
  ultimately show ?thesis using n s by (simp add: go_atoi_def)
qed

section \<open>Lines\<close>

text \<open>
  \<open>bufio.Scanner\<close> with its default split function and buffer: lines end at a newline, a
  carriage return before it is dropped, a last line without newline counts if it is not
  empty, and scanning stops at the first line that does not fit the 64 KiB buffer.
\<close>

definition drop_cr :: "string \<Rightarrow> string" where
  "drop_cr l = (if l \<noteq> [] \<and> last l = CHR 0x0D then butlast l else l)"

definition raw_lines :: "string \<Rightarrow> string list" where
  "raw_lines s = (let ls = split_char (CHR 0x0A) s in if last ls = [] then butlast ls else ls)"

definition scan_lines :: "string \<Rightarrow> string list" where
  "scan_lines s = map drop_cr (takeWhile (\<lambda>l. length l < 65536) (raw_lines s))"

lemma raw_lines_no_nl: "l \<in> set (raw_lines s) \<Longrightarrow> CHR 0x0A \<notin> set l"
  by (auto simp: raw_lines_def Let_def split: if_splits dest: in_set_butlastD split_char_no_sep)

section \<open>Letter case\<close>

definition ascii_lower :: "char \<Rightarrow> char" where
  "ascii_lower c = (let n = of_char c :: nat in if 65 \<le> n \<and> n \<le> 90 then char_of (n + 32) else c)"

definition to_lower :: "string \<Rightarrow> string" where
  "to_lower s = map ascii_lower s"

definition equal_fold :: "string \<Rightarrow> string \<Rightarrow> bool" where
  "equal_fold a b \<longleftrightarrow> to_lower a = to_lower b"

lemma equal_fold_refl [simp]: "equal_fold a a"
  by (simp add: equal_fold_def)

end
