(* ===== verification/ReleaseFinder.thy ===== *)
theory ReleaseFinder
  imports GoStrings
begin

text \<open>
  \<open>pkg/releasefinder/release_finder.go\<close>: version strings, the choice of a release and of its
  asset from a GitHub release list, the requests and the rate-limit retry loop. The HTTP
  client and the JSON decoder are parameters.
\<close>

section \<open>Data\<close>

record asset =
  asset_url :: string
  asset_name :: string
  browser_download_url :: string

record releases =
  tag_name :: string
  prerelease :: bool
  draft :: bool
  assets :: "asset list"

record release =
  rel_url :: string
  rel_tag :: string
  rel_asset :: string

record find_options =
  opt_tag :: string
  opt_tag_prefix :: string
  opt_allow_prerelease :: bool
  opt_no_retry :: bool

section \<open>Choosing a release\<close>

definition asset_pattern :: "string \<Rightarrow> string \<Rightarrow> string \<Rightarrow> string" where
  "asset_pattern tag os arch = tag @ ''-'' @ os @ ''-'' @ arch @ ''.''"

definition match_asset :: "releases \<Rightarrow> string \<Rightarrow> string \<Rightarrow> release option" where
  "match_asset r os arch =
     first_some (\<lambda>a. if contains_str (asset_name a) (asset_pattern (tag_name r) os arch)
       then Some \<lparr>rel_url = browser_download_url a, rel_tag = tag_name r, rel_asset = asset_name a\<rparr>
       else None) (assets r)"

fun find_in_releases ::
  "find_options \<Rightarrow> string \<Rightarrow> string \<Rightarrow> string \<Rightarrow> releases list \<Rightarrow> release result" where
  "find_in_releases opts os arch first_tag [] = Inl (FailedToFindRelease os arch first_tag)"
| "find_in_releases opts os arch first_tag (r # rs) =
     (if \<not> opt_allow_prerelease opts \<and> (prerelease r \<or> draft r)
      then find_in_releases opts os arch first_tag rs
      else if opt_tag_prefix opts \<noteq> [] \<and> \<not> has_prefix (tag_name r) (opt_tag_prefix opts)
      then find_in_releases opts os arch first_tag rs
      else let first_tag = (if first_tag = [] then tag_name r else first_tag) in
        case match_asset r os arch of
          Some m \<Rightarrow> Inr m
        | None \<Rightarrow> find_in_releases opts os arch first_tag rs)"

definition find_release_from_list ::
  "(string \<Rightarrow> releases list result) \<Rightarrow> string \<Rightarrow> string \<Rightarrow> string \<Rightarrow> find_options \<Rightarrow> release result" where
  "find_release_from_list decode body os arch opts =
     (case decode body of
        Inl e \<Rightarrow> Inl (WithMessage e ''failed to decode GitHub API response'')
      | Inr rs \<Rightarrow> find_in_releases opts os arch [] rs)"

fun find_tag_in_releases :: "string \<Rightarrow> string \<Rightarrow> string \<Rightarrow> releases list \<Rightarrow> release result" where
  "find_tag_in_releases os arch tag [] = Inl (TagNotFound tag)"
| "find_tag_in_releases os arch tag (r # rs) =
     (if tag_name r \<noteq> tag then find_tag_in_releases os arch tag rs
      else case match_asset r os arch of
          Some m \<Rightarrow> Inr m
        | None \<Rightarrow> Inl (FailedToFindRelease os arch (tag_name r)))"

definition find_release_by_tag_from_list ::
  "(string \<Rightarrow> releases list result) \<Rightarrow> string \<Rightarrow> string \<Rightarrow> string \<Rightarrow> string \<Rightarrow> release result" where
  "find_release_by_tag_from_list decode body os arch tag =
     (case decode body of
        Inl e \<Rightarrow> Inl (WithMessage e ''failed to decode releases list'')
      | Inr rs \<Rightarrow> find_tag_in_releases os arch tag rs)"

definition find_release_from_single_response ::
  "(string \<Rightarrow> releases result) \<Rightarrow> string \<Rightarrow> string \<Rightarrow> string \<Rightarrow> release result" where
  "find_release_from_single_response decode1 body os arch =
     (case decode1 body of
        Inl e \<Rightarrow> Inl (WithMessage e ''failed to decode GitHub API response'')
      | Inr r \<Rightarrow>
         (case match_asset r os arch of
            Some m \<Rightarrow> Inr m
          | None \<Rightarrow> Inl (FailedToFindRelease os arch (tag_name r))))"

section \<open>Requests\<close>

datatype fetch_mode = ListMode | SingularMode

text \<open>\<open>url.PathEscape\<close>: everything but unreserved characters and \<open>$&+:=@\<close> is escaped.\<close>

definition path_unescaped :: "char \<Rightarrow> bool" where
  "path_unescaped c \<longleftrightarrow>
     c \<in> set (''abcdefghijklmnopqrstuvwxyzABCDEFGHIJKLMNOPQRSTUVWXYZ0123456789'' @ ''-_.~$&+:=@'')"

definition hex_digit :: "nat \<Rightarrow> char" where
  "hex_digit n = ''0123456789ABCDEF'' ! n"

definition path_escape :: "string \<Rightarrow> string" where
  "path_escape s = concat (map (\<lambda>c. if path_unescaped c then [c]
     else let n = of_char c :: nat in [CHR ''%'', hex_digit (n div 16), hex_digit (n mod 16)]) s)"

definition build_request_url :: "string \<Rightarrow> find_options \<Rightarrow> string \<times> fetch_mode" where
  "build_request_url api opts =
     (if opt_tag opts \<noteq> []
      then (trim_suffix api ''/'' @ ''/tags/'' @ path_escape (opt_tag opts), SingularMode)
      else (api @ (if contains_str api ''?'' then ''&'' else ''?'') @ ''per_page=100'', ListMode))"

record http_response =
  status_code :: nat
  resp_body :: string
  resp_header :: "string \<Rightarrow> string"

text \<open>Where a request failed: building it, sending it, reading its body.\<close>

datatype http_failure = NewRequestFailed go_error | DoFailed go_error | ReadFailed go_error

record 's http_env =
  http_get :: "string \<Rightarrow> 's \<Rightarrow> (http_failure + http_response) \<times> 's"
  decode_list :: "string \<Rightarrow> releases list result"
  decode_single :: "string \<Rightarrow> releases result"
  decode_message :: "string \<Rightarrow> string option"
  time_until :: "int \<Rightarrow> 's \<Rightarrow> int"
  wait_for :: "int \<Rightarrow> ('s, unit) io"

text \<open>
  \<open>strconv.ParseInt(h, 10, 64)\<close> accepts what \<open>Atoi\<close> accepts on a 64-bit platform; the one
  Unix time that is Go's zero time counts as no reset time.
\<close>

definition parse_reset :: "string \<Rightarrow> int option" where
  "parse_reset h =
     (if h = [] then None
      else case go_atoi h of None \<Rightarrow> None
        | Some n \<Rightarrow> if n = -62135596800 then None else Some n)"

definition handle_error_response :: "'s http_env \<Rightarrow> http_response \<Rightarrow> go_error" where
  "handle_error_response ev r =
     (let msg = (case decode_message ev (resp_body r) of
            Some m \<Rightarrow>
              if m \<noteq> [] then ''GitHub API error (status '' @ itoa_nat (status_code r) @ ''): '' @ m
              else ''GitHub API returned status code '' @ itoa_nat (status_code r)
          | None \<Rightarrow> ''GitHub API returned status code '' @ itoa_nat (status_code r))
      in if status_code r = 403 \<or> status_code r = 429
         then RateLimited (status_code r) msg (parse_reset (resp_header r ''X-RateLimit-Reset''))
         else Err msg)"

definition fetch_release ::
  "'s http_env \<Rightarrow> string \<Rightarrow> fetch_mode \<Rightarrow> string \<Rightarrow> string \<Rightarrow> find_options \<Rightarrow> ('s, release) io" where
  "fetch_release ev url mode os arch opts s =
     (case http_get ev url s of
        (Inl (NewRequestFailed e), t) \<Rightarrow> (Inl (WithMessage e ''failed to create request''), t)
      | (Inl (DoFailed e), t) \<Rightarrow> (Inl (WithMessage e ''failed to get releases''), t)
      | (Inl (ReadFailed e), t) \<Rightarrow> (Inl (WithMessage e ''failed to read response body''), t)
      | (Inr r, t) \<Rightarrow>
          (if status_code r = 404 \<and> mode = SingularMode then Inl (TagNotFound (opt_tag opts))
           else if status_code r \<noteq> 200 then Inl (handle_error_response ev r)
           else if mode = SingularMode
           then find_release_from_single_response (decode_single ev) (resp_body r) os arch
           else find_release_from_list (decode_list ev) (resp_body r) os arch opts, t))"

definition find_from_static_list ::
  "'s http_env \<Rightarrow> string \<Rightarrow> string \<Rightarrow> string \<Rightarrow> find_options \<Rightarrow> ('s, release) io" where
  "find_from_static_list ev url os arch opts s =
     (case http_get ev url s of
        (Inl (NewRequestFailed e), t) \<Rightarrow> (Inl (WithMessage e ''failed to create request''), t)
      | (Inl (DoFailed e), t) \<Rightarrow> (Inl (WithMessage e ''failed to get releases''), t)
      | (Inl (ReadFailed e), t) \<Rightarrow> (Inl (WithMessage e ''failed to read response body''), t)
      | (Inr r, t) \<Rightarrow>
          (if status_code r \<noteq> 200
           then Inl (Err (''release list request failed with status code '' @ itoa_nat (status_code r)))
           else if opt_tag opts \<noteq> []
           then find_release_by_tag_from_list (decode_list ev) (resp_body r) os arch (opt_tag opts)
           else find_release_from_list (decode_list ev) (resp_body r) os arch opts, t))"

section \<open>Rate limiting and retries\<close>

fun rate_limit_of :: "go_error \<Rightarrow> int option option" where
  "rate_limit_of (RateLimited st m reset) = Some reset"
| "rate_limit_of e = None"

definition as_rate_limit :: "go_error \<Rightarrow> int option option" where
  "as_rate_limit e = first_some rate_limit_of (error_chain e)"

definition is_rate_limit_error :: "go_error \<Rightarrow> bool" where
  "is_rate_limit_error e = (as_rate_limit e \<noteq> None)"

definition should_retry :: "go_error \<Rightarrow> bool" where
  "should_retry e = is_rate_limit_error e"

text \<open>Durations are nanoseconds, as \<open>time.Duration\<close>.\<close>

definition second :: int where "second = 1000000000"

definition max_wait :: int where "max_wait = 2 * 60 * second"

definition calculate_wait_duration ::
  "'s http_env \<Rightarrow> go_error \<Rightarrow> int \<Rightarrow> 's \<Rightarrow> int" where
  "calculate_wait_duration ev last_err backoff s =
     (case as_rate_limit last_err of
        Some (Some reset) \<Rightarrow>
          (let w = time_until ev reset s + second in if w > max_wait then max_wait else w)
      | _ \<Rightarrow> backoff)"

text \<open>
  The attempts after the first, \<open>n\<close> of them left: wait, double the backoff, fetch. After the
  last one the last error is returned, wrapped.
\<close>

fun retry_attempts ::
  "'s http_env \<Rightarrow> ('s, release) io \<Rightarrow> nat \<Rightarrow> go_error \<Rightarrow> int \<Rightarrow> ('s, release) io" where
  "retry_attempts ev fetch 0 last_err backoff = failE (WithMessage last_err ''failed after retries'')"
| "retry_attempts ev fetch (Suc n) last_err backoff = (\<lambda>s.
     let w = calculate_wait_duration ev last_err backoff s in
     bindE (if w > 0 then wait_for ev w else retE ()) (\<lambda>_ t.
       case fetch t of
         (Inr r, u) \<Rightarrow> (Inr r, u)
       | (Inl e, u) \<Rightarrow>
           if \<not> should_retry e then (Inl e, u)
           else retry_attempts ev fetch n e (backoff * 2) u) s)"

definition max_retries :: nat where "max_retries = 5"

definition initial_backoff :: int where "initial_backoff = 2 * second"

definition find_with_options ::
  "'s http_env \<Rightarrow> string \<Rightarrow> string \<Rightarrow> string \<Rightarrow> find_options \<Rightarrow> ('s, release) io" where
  "find_with_options ev api os arch opts s =
     (let (url, mode) = build_request_url api opts;
          retries = (if opt_no_retry opts then 0 else max_retries);
          fetch = fetch_release ev url mode os arch opts
      in case fetch s of
           (Inr r, t) \<Rightarrow> (Inr r, t)
         | (Inl e, t) \<Rightarrow>
             if \<not> should_retry e then (Inl e, t)
             else retry_attempts ev fetch retries e initial_backoff t)"

definition default_find_options :: find_options where
  "default_find_options =
     \<lparr>opt_tag = [], opt_tag_prefix = [], opt_allow_prerelease = False, opt_no_retry = False\<rparr>"

definition find_release_default ::
  "'s http_env \<Rightarrow> string \<Rightarrow> string \<Rightarrow> string \<Rightarrow> ('s, release) io" where
  "find_release_default ev api os arch = find_with_options ev api os arch default_find_options"

section \<open>Version strings\<close>

record normalized_tag =
  full_tag :: string
  tag_prefix :: string

definition version_char :: "char \<Rightarrow> bool" where
  "version_char c \<longleftrightarrow> is_digit c \<or> c = CHR ''.''"

text \<open>
  The regular expression \<open>^([0-9.]*)(.*)$\<close>: the longest run of digits and dots, then the
  rest, which must not hold a newline.
\<close>

definition version_split :: "string \<Rightarrow> (string \<times> string) option" where
  "version_split s =
     (let rest = dropWhile version_char s
      in if CHR 0x0A \<in> set rest then None else Some (takeWhile version_char s, rest))"

definition strip_v :: "string \<Rightarrow> string" where
  "strip_v s = (case s of c # cs \<Rightarrow> if c = CHR ''v'' \<or> c = CHR ''V'' then cs else s | [] \<Rightarrow> [])"

definition invalid_version :: "string \<Rightarrow> string \<Rightarrow> go_error" where
  "invalid_version input why = Err (''invalid version \"'' @ input @ ''\"'' @ why)"

definition normalize_tag :: "string \<Rightarrow> normalized_tag result" where
  "normalize_tag inp =
     (let input = trim_space inp in
      if input = [] then Inr \<lparr>full_tag = [], tag_prefix = []\<rparr>
      else case version_split (strip_v input) of
        None \<Rightarrow> Inl (invalid_version input [])
      | Some (version, suffix) \<Rightarrow>
          if version = [] then Inl (invalid_version input [])
          else let parts = split_char (CHR ''.'') version in
            if [] \<in> set parts then Inl (invalid_version input '' (empty segment)'')
            else if length parts = 1 then
              (if suffix \<noteq> [] then Inl (invalid_version input '' (suffix without minor/patch)'')
               else Inr \<lparr>full_tag = [], tag_prefix = ''v'' @ parts ! 0 @ ''.''\<rparr>)
            else if length parts = 2 then
              (if suffix \<noteq> [] then Inl (invalid_version input '' (suffix without patch)'')
               else Inr \<lparr>full_tag = [], tag_prefix = ''v'' @ parts ! 0 @ ''.'' @ parts ! 1 @ ''.''\<rparr>)
            else if length parts = 3 then
              Inr \<lparr>full_tag = ''v'' @ parts ! 0 @ ''.'' @ parts ! 1 @ ''.'' @ parts ! 2 @ suffix,
                   tag_prefix = []\<rparr>
            else Inl (invalid_version input '' (too many segments)''))"

definition has_prerelease_suffix :: "normalized_tag \<Rightarrow> bool" where
  "has_prerelease_suffix t =
     (full_tag t \<noteq> [] \<and> list_ex (\<lambda>c. \<not> version_char c) (trim_prefix (full_tag t) ''v''))"

definition is_major_v3 :: "normalized_tag \<Rightarrow> bool" where
  "is_major_v3 t =
     (if full_tag t \<noteq> [] then full_tag t = ''v3'' \<or> has_prefix (full_tag t) ''v3.''
      else if tag_prefix t \<noteq> [] then has_prefix (tag_prefix t) ''v3.''
      else False)"

definition is_at_least_v4_2 :: "string \<Rightarrow> bool" where
  "is_at_least_v4_2 tag0 =
     (let tag = trim_space tag0 in
      if tag = [] then False
      else case version_split (strip_v tag) of
        None \<Rightarrow> False
      | Some (v, _) \<Rightarrow>
          let version = trim_suffix v ''.'' in
          if version = [] then False
          else let parts = split_char (CHR ''.'') version in
            if length parts < 2 then False
            else case go_atoi (parts ! 0) of
              None \<Rightarrow> False
            | Some major \<Rightarrow>
                (case go_atoi (parts ! 1) of
                   None \<Rightarrow> False
                 | Some minor \<Rightarrow> major > 4 \<or> (major = 4 \<and> minor \<ge> 2)))"


section \<open>Lemmas\<close>

subsection \<open>Choice of a release\<close>

lemma match_asset_Some:
  "match_asset r os arch = Some m \<Longrightarrow>
     rel_tag m = tag_name r \<and>
     (\<exists>a \<in> set (assets r). rel_asset m = asset_name a \<and> rel_url m = browser_download_url a \<and>
        contains_str (asset_name a) (asset_pattern (tag_name r) os arch))"
  by (auto simp: match_asset_def first_some_Some_iff split: if_splits)

lemma match_asset_None_iff:
  "match_asset r os arch = None \<longleftrightarrow>
     (\<forall>a \<in> set (assets r). \<not> contains_str (asset_name a) (asset_pattern (tag_name r) os arch))"
  by (auto simp: match_asset_def first_some_None_iff split: if_splits)

text \<open>The releases that list mode looks at.\<close>

definition eligible :: "find_options \<Rightarrow> releases \<Rightarrow> bool" where
  "eligible opts r \<longleftrightarrow>
     (opt_allow_prerelease opts \<or> \<not> (prerelease r \<or> draft r)) \<and> has_prefix (tag_name r) (opt_tag_prefix opts)"

lemma find_in_releases_Cons:
  "find_in_releases opts os arch ft (r # rs) =
     (if \<not> eligible opts r then find_in_releases opts os arch ft rs
      else case match_asset r os arch of
          Some m \<Rightarrow> Inr m
        | None \<Rightarrow> find_in_releases opts os arch (if ft = [] then tag_name r else ft) rs)"
  by (auto simp: eligible_def Let_def split: option.splits)

declare find_in_releases.simps(2) [simp del]

lemma find_in_releases_Inr_iff:
  "find_in_releases opts os arch ft rs = Inr m \<longleftrightarrow>
     first_some (\<lambda>r. if eligible opts r then match_asset r os arch else None) rs = Some m"
  by (induction rs arbitrary: ft) (auto simp: find_in_releases_Cons split: option.splits)

definition first_eligible_tag :: "find_options \<Rightarrow> string \<Rightarrow> releases list \<Rightarrow> string" where
  "first_eligible_tag opts ft rs =
     (if ft \<noteq> [] then ft
      else case filter (\<lambda>r. eligible opts r \<and> tag_name r \<noteq> []) rs of [] \<Rightarrow> [] | r # _ \<Rightarrow> tag_name r)"

lemma first_eligible_tag_Cons:
  "first_eligible_tag opts ft (r # rs) =
     first_eligible_tag opts (if eligible opts r \<and> ft = [] then tag_name r else ft) rs"
  by (simp add: first_eligible_tag_def)

lemma find_in_releases_Inl:
  "find_in_releases opts os arch ft rs = Inl e \<Longrightarrow>
     e = FailedToFindRelease os arch (first_eligible_tag opts ft rs)"
proof (induction rs arbitrary: ft)
  case Nil
  then show ?case by (auto simp: first_eligible_tag_def)
next
  case (Cons r rs)
  show ?case
  proof (cases "eligible opts r")
    case False
    with Cons.prems have "find_in_releases opts os arch ft rs = Inl e"
      by (simp add: find_in_releases_Cons)
    from Cons.IH [OF this] False show ?thesis by (simp add: first_eligible_tag_Cons)
  next
    case True
    with Cons.prems have "find_in_releases opts os arch (if ft = [] then tag_name r else ft) rs = Inl e"
      by (cases "match_asset r os arch") (simp_all add: find_in_releases_Cons)
    from Cons.IH [OF this] True show ?thesis by (simp add: first_eligible_tag_Cons)
  qed
qed

lemma find_tag_in_releases_eq:
  "find_tag_in_releases os arch tag rs =
     (case List.find (\<lambda>r. tag_name r = tag) rs of
        None \<Rightarrow> Inl (TagNotFound tag)
      | Some r \<Rightarrow> (case match_asset r os arch of
                   Some m \<Rightarrow> Inr m
                 | None \<Rightarrow> Inl (FailedToFindRelease os arch tag)))"
  by (induction rs) (auto split: option.splits)

subsection \<open>Version strings\<close>

lemma version_split_append:
  assumes "list_all version_char v" "w = [] \<or> \<not> version_char (hd w)" "CHR 0x0A \<notin> set w"
  shows "version_split (v @ w) = Some (v, w)"
proof -
  have t: "takeWhile version_char w = []" and d: "dropWhile version_char w = w"
    using assms(2) by (cases w; simp)+
  have "takeWhile version_char (v @ w) = v" and "dropWhile version_char (v @ w) = w"
    using assms(1) t d by (simp_all add: list_all_iff)
  with assms(3) show ?thesis by (simp add: version_split_def)
qed

lemma version_split_Some:
  "version_split s = Some (v, w) \<Longrightarrow>
     s = v @ w \<and> list_all version_char v \<and> (w = [] \<or> \<not> version_char (hd w)) \<and> CHR 0x0A \<notin> set w"
  by (auto simp: version_split_def Let_def list_all_iff hd_dropWhile dest: set_takeWhileD split: if_splits)

lemma strip_v_v [simp]: "strip_v (CHR ''v'' # s) = s"
  by (simp add: strip_v_def)

lemma not_version_char [simp]:
  "\<not> version_char (CHR ''v'')" "\<not> go_space (CHR ''v'')" "version_char (CHR ''.'')"
  by (simp_all add: version_char_def is_digit_def go_space_def)

lemma version_char_not_space: "version_char c \<Longrightarrow> \<not> go_space c"
  by (auto simp: version_char_def is_digit_def go_space_def)

lemma list_all_version_split:
  "list_all version_char v \<Longrightarrow> p \<in> set (split_char (CHR ''.'') v) \<Longrightarrow> list_all is_digit p"
  using set_split_char [of p "CHR ''.''" v] split_char_no_sep [of p "CHR ''.''" v]
  by (auto simp: list_all_iff version_char_def)

lemma length_3_cases: "length xs = 3 \<Longrightarrow> \<exists>a b c. xs = [a, b, c]"
  by (auto simp: numeral_3_eq_3 length_Suc_conv)

lemma length_2_cases: "length xs = 2 \<Longrightarrow> \<exists>a b. xs = [a, b]"
  by (auto simp: numeral_2_eq_2 length_Suc_conv)

lemma length_1_cases: "length xs = Suc 0 \<Longrightarrow> \<exists>a. xs = [a]"
  by (auto simp: length_Suc_conv)

lemma split_parts:
  "split_char (CHR ''.'') v = ps \<Longrightarrow> v = join_with ''.'' ps"
  using join_split_char [of "CHR ''.''" v] by simp

text \<open>What \<open>NormalizeTag\<close> makes of a string that splits into segments and a suffix.\<close>

lemma normalize_tag_parts:
  assumes "trim_space s \<noteq> []" "version_split (strip_v (trim_space s)) = Some (v, w)" "v \<noteq> []"
  shows "[] \<notin> set (split_char (CHR ''.'') v) \<Longrightarrow> split_char (CHR ''.'') v = [a] \<Longrightarrow>
      normalize_tag s = (if w \<noteq> [] then Inl (invalid_version (trim_space s) '' (suffix without minor/patch)'')
        else Inr \<lparr>full_tag = [], tag_prefix = ''v'' @ a @ ''.''\<rparr>)"
    and "[] \<notin> set (split_char (CHR ''.'') v) \<Longrightarrow> split_char (CHR ''.'') v = [a, b] \<Longrightarrow>
      normalize_tag s = (if w \<noteq> [] then Inl (invalid_version (trim_space s) '' (suffix without patch)'')
        else Inr \<lparr>full_tag = [], tag_prefix = ''v'' @ a @ ''.'' @ b @ ''.''\<rparr>)"
    and "[] \<notin> set (split_char (CHR ''.'') v) \<Longrightarrow> split_char (CHR ''.'') v = [a, b, c] \<Longrightarrow>
      normalize_tag s = Inr \<lparr>full_tag = ''v'' @ a @ ''.'' @ b @ ''.'' @ c @ w, tag_prefix = []\<rparr>"
  using assms by (simp_all add: normalize_tag_def Let_def)

text \<open>The inputs that \<open>NormalizeTag\<close> accepts, by cases.\<close>

lemma normalize_tag_cases:
  assumes "normalize_tag s = Inr t" "trim_space s \<noteq> []"
  obtains (major) a where "split_char (CHR ''.'') a = [a]" "a \<noteq> []" "list_all is_digit a"
      "strip_v (trim_space s) = a" "t = \<lparr>full_tag = [], tag_prefix = ''v'' @ a @ ''.''\<rparr>"
  | (minor) a b where "a \<noteq> []" "b \<noteq> []" "list_all is_digit a" "list_all is_digit b"
      "strip_v (trim_space s) = a @ ''.'' @ b"
      "t = \<lparr>full_tag = [], tag_prefix = ''v'' @ a @ ''.'' @ b @ ''.''\<rparr>"
  | (full) a b c w where "a \<noteq> []" "b \<noteq> []" "c \<noteq> []" "list_all is_digit a" "list_all is_digit b"
      "list_all is_digit c" "w = [] \<or> \<not> version_char (hd w)" "CHR 0x0A \<notin> set w"
      "strip_v (trim_space s) = a @ ''.'' @ b @ ''.'' @ c @ w"
      "t = \<lparr>full_tag = ''v'' @ a @ ''.'' @ b @ ''.'' @ c @ w, tag_prefix = []\<rparr>"
proof -
  let ?i = "trim_space s"
  obtain v w where vw: "version_split (strip_v ?i) = Some (v, w)"
    using assms by (cases "version_split (strip_v ?i)") (auto simp: normalize_tag_def Let_def)
  let ?ps = "split_char (CHR ''.'') v"
  have iv: "strip_v ?i = v @ w" and vc: "list_all version_char v"
    and w: "w = [] \<or> \<not> version_char (hd w)" "CHR 0x0A \<notin> set w"
    using version_split_Some [OF vw] by auto
  have v: "v \<noteq> []"
  proof
    assume "v = []"
    with assms vw show False by (simp add: normalize_tag_def Let_def)
  qed
  have nz: "[] \<notin> set ?ps"
  proof
    assume "[] \<in> set ?ps"
    with assms vw v show False by (simp add: normalize_tag_def Let_def)
  qed
  have dig: "p \<in> set ?ps \<Longrightarrow> list_all is_digit p" for p
    using list_all_version_split [OF vc] by blast
  have "length ?ps = 1 \<or> length ?ps = 2 \<or> length ?ps = 3"
  proof (rule ccontr)
    assume "\<not> (length ?ps = 1 \<or> length ?ps = 2 \<or> length ?ps = 3)"
    with assms vw v nz show False by (simp add: normalize_tag_def Let_def)
  qed
  then consider (1) a where "?ps = [a]" | (2) a b where "?ps = [a, b]" | (3) a b c where "?ps = [a, b, c]"
    using length_3_cases length_2_cases length_1_cases by fastforce
  then show thesis
  proof cases
    case 1
    then have va: "v = a" using split_parts [OF 1] by simp
    have "w = [] \<and> t = \<lparr>full_tag = [], tag_prefix = ''v'' @ a @ ''.''\<rparr>"
      using normalize_tag_parts(1) [OF assms(2) vw v nz 1] assms(1) by (simp split: if_splits)
    with 1 va iv nz dig [of a] show thesis by (intro major [of a]) auto
  next
    case 2
    then have va: "v = a @ ''.'' @ b" using split_parts [OF 2] by simp
    have "w = [] \<and> t = \<lparr>full_tag = [], tag_prefix = ''v'' @ a @ ''.'' @ b @ ''.''\<rparr>"
      using normalize_tag_parts(2) [OF assms(2) vw v nz 2] assms(1) by (simp split: if_splits)
    with 2 va iv nz dig [of a] dig [of b] show thesis by (intro minor [of a b]) auto
  next
    case 3
    then have va: "v = a @ ''.'' @ b @ ''.'' @ c" using split_parts [OF 3] by simp
    have "t = \<lparr>full_tag = ''v'' @ a @ ''.'' @ b @ ''.'' @ c @ w, tag_prefix = []\<rparr>"
      using normalize_tag_parts(3) [OF assms(2) vw v nz 3] assms(1) by simp
    moreover have "list_all is_digit a" "list_all is_digit b" "list_all is_digit c"
      using dig 3 by simp_all
    moreover have "a \<noteq> []" "b \<noteq> []" "c \<noteq> []" using nz 3 by auto
    moreover have "strip_v ?i = a @ ''.'' @ b @ ''.'' @ c @ w" using iv va by simp
    ultimately show thesis using w by - (rule full [of a b c w])
  qed
qed

lemma digits_dot_version: "list_all is_digit a \<Longrightarrow> list_all version_char a"
  by (auto simp: list_all_iff version_char_def)

lemma digit_not_dot: "list_all is_digit a \<Longrightarrow> CHR ''.'' \<notin> set a"
  using not_digit(1) by (auto simp: list_all_iff)

lemma version_split_parts:
  assumes "list_all is_digit a" "list_all is_digit b" "list_all is_digit c"
    "w = [] \<or> \<not> version_char (hd w)" "CHR 0x0A \<notin> set w"
  shows "version_split (a @ ''.'' @ b @ ''.'' @ c @ w) = Some (a @ ''.'' @ b @ ''.'' @ c, w)"
  using version_split_append [of "a @ ''.'' @ b @ ''.'' @ c" w] assms digits_dot_version by simp

lemma split_three:
  assumes "list_all is_digit a" "list_all is_digit b" "list_all is_digit c"
  shows "split_char (CHR ''.'') (a @ ''.'' @ b @ ''.'' @ c) = [a, b, c]"
  using assms digit_not_dot split_char_append [of "CHR ''.''" a "b @ ''.'' @ c"]
    split_char_append [of "CHR ''.''" b c] by simp

lemma last_strip_v: "strip_v s \<noteq> [] \<Longrightarrow> last (strip_v s) = last s"
  by (cases s) (auto simp: strip_v_def split: if_splits)

lemma trimmed_v_strip:
  assumes "trimmed s" "strip_v s \<noteq> []"
  shows "trimmed (CHR ''v'' # strip_v s)"
proof -
  have "s \<noteq> []" using assms(2) by (auto simp: strip_v_def)
  then have "\<not> go_space (last s)" using assms(1) by (simp add: trimmed_def)
  then show ?thesis using last_strip_v [OF assms(2)] assms(2) by (simp add: trimmed_def)
qed

subsection \<open>Escaping\<close>

lemma hex_digit_unescaped: "n < 16 \<Longrightarrow> hex_digit n \<in> set ''0123456789ABCDEF''"
  unfolding hex_digit_def by (rule nth_mem) simp

definition path_escape_char :: "char \<Rightarrow> string" where
  "path_escape_char c = (if path_unescaped c then [c]
     else let n = of_char c :: nat in [CHR ''%'', hex_digit (n div 16), hex_digit (n mod 16)])"

lemma path_escape_concat: "path_escape s = concat (map path_escape_char s)"
  by (simp add: path_escape_def path_escape_char_def [abs_def])

lemma path_escape_char_chars: "c \<in> set (path_escape_char d) \<Longrightarrow> path_unescaped c \<or> c = CHR ''%''"
proof -
  assume c: "c \<in> set (path_escape_char d)"
  have hex: "n < 16 \<Longrightarrow> path_unescaped (hex_digit n)" for n
    using hex_digit_unescaped [of n] by (auto simp: path_unescaped_def)
  have "(of_char d :: nat) < 256" by simp
  then have "(of_char d :: nat) div 16 < 16" by arith
  moreover have "(of_char d :: nat) mod 16 < 16" by simp
  ultimately show ?thesis
    using c hex by (cases "path_unescaped d") (auto simp: path_escape_char_def Let_def)
qed

lemma path_escape_chars: "c \<in> set (path_escape s) \<Longrightarrow> path_unescaped c \<or> c = CHR ''%''"
  unfolding path_escape_concat by (auto dest: path_escape_char_chars)

subsection \<open>Retries\<close>

lemma calculate_wait_le:
  "calculate_wait_duration ev e b s \<le> max max_wait b"
  by (auto simp: calculate_wait_duration_def Let_def max_def split: option.splits)

lemma fetch_release_counts:
  assumes "\<And>url s. cnt (snd (http_get ev url s)) = Suc (cnt s)"
  shows "cnt (snd (fetch_release ev url mode os arch opts s)) = Suc (cnt s)"
  using assms [of url s] by (auto simp: fetch_release_def split: prod.splits sum.splits http_failure.splits)

lemma retry_attempts_counts:
  assumes "\<And>s. cnt (snd (fetch s)) = Suc (cnt s)" and "\<And>d s. cnt (snd (wait_for ev d s)) = cnt s"
  shows "cnt s \<le> cnt (snd (retry_attempts ev fetch n e b s)) \<and>
    cnt (snd (retry_attempts ev fetch n e b s)) \<le> cnt s + n"
proof (induction n arbitrary: e b s)
  case 0
  then show ?case by simp
next
  case (Suc n)
  let ?w = "calculate_wait_duration ev e b s"
  let ?m = "if ?w > 0 then wait_for ev ?w else retE ()"
  have w: "cnt (snd (?m s)) = cnt s" by (simp add: assms(2))
  show ?case
  proof (cases "?m s")
    case (Pair r t)
    with w have t: "cnt t = cnt s" by simp
    show ?thesis
    proof (cases r)
      case (Inl e')
      with Pair t show ?thesis by (simp add: Let_def bindE_def)
    next
      case (Inr x)
      obtain q u where f: "fetch t = (q, u)" by (cases "fetch t")
      with assms(1) [of t] t have u: "cnt u = Suc (cnt s)" by simp
      show ?thesis
        using Inr Pair f u t Suc.IH [of u _ "b * 2"]
        by (cases q) (simp_all add: Let_def bindE_def le_SucI Suc_leD)
    qed
  qed
qed

section \<open>Properties\<close>

text \<open>
  C1: \<open>findReleaseFromList\<close> returns the asset of the first release of the list that is
  eligible (stable unless prereleases are allowed, with the wanted tag prefix) and has a
  matching asset; if there is none it fails with \<open>FailedToFindReleaseError\<close>, which carries
  the tag of the first eligible release.
\<close>

theorem find_release_from_list_first:
  assumes "decode body = Inr rs"
  shows "(\<exists>m as r bs. find_release_from_list decode body os arch opts = Inr m \<and> rs = as @ r # bs \<and>
            eligible opts r \<and> match_asset r os arch = Some m \<and> rel_tag m = tag_name r \<and>
            (\<forall>a \<in> set as. \<not> (eligible opts a \<and> match_asset a os arch \<noteq> None)))
       \<or> (find_release_from_list decode body os arch opts =
            Inl (FailedToFindRelease os arch (first_eligible_tag opts [] rs)) \<and>
          (\<forall>r \<in> set rs. \<not> (eligible opts r \<and> match_asset r os arch \<noteq> None)))"
proof -
  have eq: "find_release_from_list decode body os arch opts = find_in_releases opts os arch [] rs"
    using assms by (simp add: find_release_from_list_def)
  let ?f = "\<lambda>r. if eligible opts r then match_asset r os arch else None"
  show ?thesis
  proof (cases "find_in_releases opts os arch [] rs")
    case (Inl e)
    then have "first_some ?f rs = None"
      using find_in_releases_Inr_iff [of opts os arch "[]" rs] by (cases "first_some ?f rs") auto
    then show ?thesis
      using eq Inl find_in_releases_Inl [OF Inl] by (auto simp: first_some_None_iff split: if_splits)
  next
    case (Inr m)
    then obtain as r bs where "rs = as @ r # bs" "?f r = Some m" "\<forall>a \<in> set as. ?f a = None"
      unfolding find_in_releases_Inr_iff first_some_Some_iff by blast
    moreover from this have "eligible opts r" "match_asset r os arch = Some m" by (auto split: if_splits)
    ultimately show ?thesis using eq Inr match_asset_Some [of r os arch m] by (auto split: if_splits)
  qed
qed

definition example_release :: releases where
  "example_release = \<lparr>tag_name = ''v4.1.2'', prerelease = False, draft = False,
     assets = [\<lparr>asset_url = ''u'', asset_name = ''gameap-v4.1.2-linux-amd64.tar.gz'',
                browser_download_url = ''d''\<rparr>]\<rparr>"

theorem find_release_from_list_first_witness:
  "find_release_from_list (\<lambda>_. Inr [example_release]) [] ''linux'' ''amd64'' default_find_options =
     Inr \<lparr>rel_url = ''d'', rel_tag = ''v4.1.2'', rel_asset = ''gameap-v4.1.2-linux-amd64.tar.gz''\<rparr>"
  using find_release_from_list_first
    [of "\<lambda>_. Inr [example_release]" "[]" "[example_release]" "''linux''" "''amd64''" default_find_options]
  by (simp add: find_release_from_list_def find_in_releases_Cons eligible_def default_find_options_def
      match_asset_def example_release_def asset_pattern_def)

text \<open>
  Looking a tag up in a static release list gives what the GitHub endpoint for that tag
  gives: \<open>TagNotFoundError\<close> when no release has the tag, and otherwise the answer of
  \<open>findReleaseFromSingleResponse\<close> on the first release with it, whatever its
  prerelease and draft flags.
\<close>

theorem tag_lookup_like_github:
  assumes "decode body = Inr rs"
  shows "find_release_by_tag_from_list decode body os arch tag =
    (case List.find (\<lambda>r. tag_name r = tag) rs of
       None \<Rightarrow> Inl (TagNotFound tag)
     | Some r \<Rightarrow> find_release_from_single_response (\<lambda>_. Inr r) [] os arch)"
proof (cases "List.find (\<lambda>r. tag_name r = tag) rs")
  case None
  with assms show ?thesis by (simp add: find_release_by_tag_from_list_def find_tag_in_releases_eq)
next
  case (Some r)
  then have "tag_name r = tag" by (auto simp: find_Some_iff)
  with assms Some show ?thesis
    by (simp add: find_release_by_tag_from_list_def find_tag_in_releases_eq
        find_release_from_single_response_def split: option.split)
qed

theorem tag_lookup_like_github_witness:
  "find_release_by_tag_from_list (\<lambda>_. Inr [example_release]) [] ''linux'' ''arm64'' ''v4.1.2'' =
     Inl (FailedToFindRelease ''linux'' ''arm64'' ''v4.1.2'')"
  using tag_lookup_like_github
    [of "\<lambda>_. Inr [example_release]" "[]" "[example_release]" "''linux''" "''arm64''" "''v4.1.2''"]
  by (simp add: example_release_def find_release_from_single_response_def match_asset_def asset_pattern_def)

text \<open>
  \<open>NormalizeTag\<close> is idempotent on the tags it pins: a full tag that it returns is
  itself normalised to the same tag, so re-normalising a recorded tag never changes it.
\<close>

theorem normalize_tag_idempotent:
  assumes "normalize_tag s = Inr t" "full_tag t \<noteq> []"
  shows "normalize_tag (full_tag t) = Inr t"
proof -
  have ne: "trim_space s \<noteq> []" using assms by (auto simp: normalize_tag_def)
  from assms(1) ne show ?thesis
  proof (cases rule: normalize_tag_cases)
    case (full a b c w)
    have ft: "full_tag t = CHR ''v'' # strip_v (trim_space s)" using full by simp
    moreover have "trimmed (CHR ''v'' # strip_v (trim_space s))"
      by (rule trimmed_v_strip) (use full in simp_all)
    ultimately have tr: "trim_space (full_tag t) = full_tag t"
      by (simp add: trim_space_id)
    have sv: "strip_v (trim_space (full_tag t)) = a @ ''.'' @ b @ ''.'' @ c @ w"
      using tr ft full by simp
    show ?thesis
      using normalize_tag_parts(3) [of "full_tag t" "a @ ''.'' @ b @ ''.'' @ c" w a b c]
        tr ft sv full version_split_parts [of a b c w] split_three [of a b c] by simp
  qed (use assms in simp_all)
qed

theorem normalize_tag_idempotent_witness:
  "normalize_tag ''v4.1.2beta1'' = Inr \<lparr>full_tag = ''v4.1.2beta1'', tag_prefix = []\<rparr>"
proof -
  have 1: "normalize_tag '' v4.1.2beta1'' = Inr \<lparr>full_tag = ''v4.1.2beta1'', tag_prefix = []\<rparr>"
    by code_simp
  show ?thesis using normalize_tag_idempotent [OF 1] by simp
qed

text \<open>
  A partial version \<open>a.b\<close> selects exactly its own minor line: the tag prefix
  \<open>NormalizeTag\<close> gives for it is a prefix of the tag \<open>vc.d.\<dots>\<close> if and only if \<open>c = a\<close>
  and \<open>d = b\<close> (so \<open>4.1\<close> never selects \<open>v4.10.0\<close>).
\<close>

theorem partial_version_selects_its_line:
  assumes "list_all is_digit a" "list_all is_digit b" "a \<noteq> []" "b \<noteq> []"
    and "list_all is_digit c" "list_all is_digit d"
  shows "\<exists>t. normalize_tag (a @ ''.'' @ b) = Inr t \<and> full_tag t = [] \<and>
    (has_prefix (''v'' @ c @ ''.'' @ d @ ''.'' @ rest) (tag_prefix t) \<longleftrightarrow> c = a \<and> d = b)"
proof -
  let ?s = "a @ ''.'' @ b"
  have digit_space: "is_digit x \<Longrightarrow> \<not> go_space x" for x
    by (rule version_char_not_space) (simp add: version_char_def)
  have "\<not> go_space (hd ?s)" "\<not> go_space (last ?s)"
    using assms(1-4) digit_space by (auto simp: list_all_iff neq_Nil_conv)
  then have tr: "trim_space ?s = ?s" by (intro trim_space_id) (simp add: trimmed_def)
  have sv: "strip_v ?s = ?s"
    using assms(1,3) by (cases a) (auto simp: strip_v_def is_digit_def)
  have vs: "version_split ?s = Some (?s, [])"
    using version_split_append [of ?s "[]"] assms(1,2) digits_dot_version by simp
  have sp: "split_char (CHR ''.'') ?s = [a, b]"
    using split_char_append [of "CHR ''.''" a b] digit_not_dot assms(1,2) by simp
  have n: "normalize_tag ?s = Inr \<lparr>full_tag = [], tag_prefix = ''v'' @ a @ ''.'' @ b @ ''.''\<rparr>"
    using normalize_tag_parts(2) [of ?s ?s "[]" a b] tr sv vs sp assms(3,4) by simp
  note nd = digit_not_dot [OF assms(1)] digit_not_dot [OF assms(2)]
    digit_not_dot [OF assms(5)] digit_not_dot [OF assms(6)]
  have "(c @ CHR ''.'' # d @ CHR ''.'' # rest = a @ CHR ''.'' # b @ CHR ''.'' # t) \<longleftrightarrow>
      c = a \<and> d = b \<and> rest = t" for t
    using append_sep_cancel [OF nd(3) nd(1), of "d @ CHR ''.'' # rest" "b @ CHR ''.'' # t"]
      append_sep_cancel [OF nd(4) nd(2), of rest t] by simp
  then have "has_prefix (''v'' @ c @ ''.'' @ d @ ''.'' @ rest) (''v'' @ a @ ''.'' @ b @ ''.'') \<longleftrightarrow> c = a \<and> d = b"
    by (simp add: has_prefix_iff)
  with n show ?thesis by simp
qed

theorem partial_version_selects_its_line_witness:
  "\<exists>t. normalize_tag ''4.1'' = Inr t \<and> \<not> has_prefix ''v4.10.0'' (tag_prefix t)"
  using partial_version_selects_its_line [of "''4''" "''1''" "''4''" "''10''" "''0''"]
  by (auto simp: is_digit_def)

text \<open>
  \<open>IsAtLeastV4_2\<close> compares major and minor numbers, not strings: for every tag
  \<open>vM.m.\<dots>\<close> whose numbers fit \<open>int\<close> the answer is whether \<open>(M, m)\<close> is at least
  \<open>(4, 2)\<close> lexicographically, whatever follows (so \<open>v4.10.0\<close> counts as newer).
\<close>

theorem at_least_v4_2_lexicographic:
  assumes "major < 2 ^ 63" "minor < 2 ^ 63" "rest \<noteq> []" "\<not> go_space (last rest)" "CHR 0x0A \<notin> set rest"
  shows "is_at_least_v4_2 (''v'' @ itoa_nat major @ ''.'' @ itoa_nat minor @ ''.'' @ rest) \<longleftrightarrow>
    (4 < major \<or> major = 4 \<and> 2 \<le> minor)"
proof -
  let ?M = "itoa_nat major" and ?m = "itoa_nat minor"
  let ?t = "?M @ ''.'' @ ?m @ ''.'' @ rest"
  have tr: "trim_space (CHR ''v'' # ?t) = CHR ''v'' # ?t"
    by (rule trim_space_id) (use assms(3,4) in \<open>simp add: trimmed_def\<close>)
  define r1 r2 where r: "r1 = takeWhile version_char rest" "r2 = dropWhile version_char rest"
  have vM: "list_all version_char (?M @ ''.'' @ ?m @ ''.'')"
    using itoa_nat_digits digits_dot_version by simp
  have rr: "rest = r1 @ r2" using r by simp
  have "list_all version_char r1" using r by (auto simp: list_all_iff dest: set_takeWhileD)
  moreover have "r2 = [] \<or> \<not> version_char (hd r2)" using r hd_dropWhile [of version_char rest] by blast
  moreover have "CHR 0x0A \<notin> set r2" using assms(5) rr by auto
  ultimately have vs: "version_split ?t = Some (?M @ ''.'' @ ?m @ ''.'' @ r1, r2)"
    using version_split_append [of "?M @ ''.'' @ ?m @ ''.'' @ r1" r2] vM rr by simp
  define v where "v = trim_suffix (?M @ ''.'' @ ?m @ ''.'' @ r1) ''.''"
  have dots: "CHR ''.'' \<notin> set ?M" "CHR ''.'' \<notin> set ?m"
    using itoa_nat_notin not_digit(1) by blast+
  have "\<exists>x. v = ?M @ ''.'' @ ?m @ x \<and> (x = [] \<or> (\<exists>y. x = ''.'' @ y))"
  proof (cases "r1 = []")
    case True
    then have "v = ?M @ ''.'' @ ?m"
      by (simp add: v_def trim_suffix_def has_suffix_def)
    then show ?thesis by simp
  next
    case False
    then obtain z c where "r1 = z @ [c]" by (cases r1 rule: rev_cases) auto
    then show ?thesis
      by (cases "c = CHR ''.''") (auto simp: v_def trim_suffix_def has_suffix_def)
  qed
  then obtain x where x: "v = ?M @ ''.'' @ ?m @ x" "x = [] \<or> (\<exists>y. x = ''.'' @ y)" by blast
  have "\<exists>ps. split_char (CHR ''.'') v = ?M # ?m # ps"
    using x dots split_char_append [of "CHR ''.''" ?M] split_char_append [of "CHR ''.''" ?m]
    by auto
  then obtain ps where ps: "split_char (CHR ''.'') v = ?M # ?m # ps" by blast
  have ne: "v \<noteq> []" using x by simp
  have "is_at_least_v4_2 (CHR ''v'' # ?t) = (int major > 4 \<or> (int major = 4 \<and> int minor \<ge> 2))"
    using tr vs ps [unfolded v_def] ne [unfolded v_def] atoi_itoa [OF assms(1)] atoi_itoa [OF assms(2)]
    by (simp add: is_at_least_v4_2_def Let_def)
  then show ?thesis by auto
qed

theorem at_least_v4_2_lexicographic_witness:
  "is_at_least_v4_2 ''v4.10.0'' \<and> \<not> is_at_least_v4_2 ''v4.1.9''"
proof -
  have n: "itoa_nat 4 = ''4''" "itoa_nat 10 = ''10''" "itoa_nat 1 = ''1''" by code_simp+
  show ?thesis
    using at_least_v4_2_lexicographic [of 4 10 "''0''"] at_least_v4_2_lexicographic [of 4 1 "''9''"]
    by (simp add: n n [simplified] go_space_def)
qed

text \<open>
  A pinned tag cannot leave its path segment: the request goes to \<open>/tags/\<close> followed by
  an escaped tag without slash, question mark, hash or white space, whatever the user typed.
\<close>

theorem tag_stays_in_its_segment:
  assumes "opt_tag opts \<noteq> []"
  shows "\<exists>seg. build_request_url api opts = (trim_suffix api ''/'' @ ''/tags/'' @ seg, SingularMode) \<and>
    set seg \<inter> set ''/?# '' = {}"
proof -
  have "c \<in> set (path_escape (opt_tag opts)) \<Longrightarrow> c \<notin> set ''/?# ''" for c
    by (drule path_escape_chars) (auto simp: path_unescaped_def)
  then have "set (path_escape (opt_tag opts)) \<inter> set ''/?# '' = {}" by blast
  with assms show ?thesis by (auto simp: build_request_url_def)
qed

theorem tag_stays_in_its_segment_witness:
  "fst (build_request_url ''https://h/releases/'' (default_find_options\<lparr>opt_tag := ''v1/../x''\<rparr>)) =
     ''https://h/releases/tags/v1%2F..%2Fx''"
proof -
  have "path_escape ''v1/../x'' = ''v1%2F..%2Fx''" "trim_suffix ''https://h/releases/'' ''/'' = ''https://h/releases''"
    by code_simp+
  then show ?thesis
    using tag_stays_in_its_segment [of "default_find_options\<lparr>opt_tag := ''v1/../x''\<rparr>" "''https://h/releases/''"]
    by (simp add: build_request_url_def)
qed


text \<open>
  One lookup sends at least one and at most six requests, and exactly one when retries
  are disabled (waiting sends none, each fetch sends one).
\<close>

theorem find_with_options_requests:
  assumes "\<And>url s. cnt (snd (http_get ev url s)) = Suc (cnt s)"
    and "\<And>d s. cnt (snd (wait_for ev d s)) = cnt s"
  shows "Suc (cnt s) \<le> cnt (snd (find_with_options ev api os arch opts s)) \<and>
    cnt (snd (find_with_options ev api os arch opts s)) \<le> cnt s + (if opt_no_retry opts then 1 else 6)"
proof -
  obtain url mode where b: "build_request_url api opts = (url, mode)" by fastforce
  let ?fetch = "fetch_release ev url mode os arch opts"
  have f: "cnt (snd (?fetch u)) = Suc (cnt u)" for u
    by (rule fetch_release_counts) (rule assms(1))
  have retry: "cnt u \<le> cnt (snd (retry_attempts ev ?fetch n e bo u)) \<and>
      cnt (snd (retry_attempts ev ?fetch n e bo u)) \<le> cnt u + n" for n e bo u
    by (rule retry_attempts_counts) (rule f, rule assms(2))
  obtain q u where q: "?fetch s = (q, u)" by fastforce
  with f [of s] have u: "cnt u = Suc (cnt s)" by simp
  show ?thesis
  proof (cases q)
    case (Inr x)
    with b q u show ?thesis by (auto simp: find_with_options_def)
  next
    case (Inl e)
    have "find_with_options ev api os arch opts s =
      (if \<not> should_retry e then (Inl e, u)
       else retry_attempts ev ?fetch (if opt_no_retry opts then 0 else max_retries) e initial_backoff u)"
      using b q Inl by (simp add: find_with_options_def Let_def)
    with u retry [of u "if opt_no_retry opts then 0 else max_retries" e initial_backoff]
    show ?thesis by (auto simp: max_retries_def)
  qed
qed

definition counting_env :: "nat http_env" where
  "counting_env = \<lparr>http_get = (\<lambda>url s. (Inr \<lparr>status_code = 429, resp_body = [], resp_header = (\<lambda>_. [])\<rparr>, Suc s)),
     decode_list = (\<lambda>_. Inr []), decode_single = (\<lambda>_. Inl (Err [])), decode_message = (\<lambda>_. None),
     time_until = (\<lambda>_ _. 0), wait_for = (\<lambda>d. retE ())\<rparr>"

theorem find_with_options_requests_witness:
  "snd (find_with_options counting_env ''https://h'' ''linux'' ''amd64'' default_find_options 0) \<in> {1..6}"
  using find_with_options_requests
    [of "\<lambda>n. n" counting_env 0 "''https://h''" "''linux''" "''amd64''" default_find_options]
  by (simp add: counting_env_def default_find_options_def)

end
