(* ===== verification/ReleaseSource.thy ===== *)
theory ReleaseSource
  imports ReleaseFinder "HOL-Library.Multiset"
begin

text \<open>
  \<open>pkg/releasesource\<close>: the GitHub API and the CDN mirrors as release sources, their probing
  and ordering (once per process), the fall-back from one source to the next, and the
  download over the candidate URLs. Probes and downloads are parameters.
\<close>

section \<open>Sources (\<open>source.go\<close>)\<close>

definition component_gameapctl :: string where "component_gameapctl = ''gameapctl''"
definition component_panel :: string where "component_panel = ''gameap''"
definition component_daemon :: string where "component_daemon = ''gameap-daemon''"

datatype source_kind = KindGitHub | KindCDN

definition source_name_github :: string where "source_name_github = ''github''"
definition cdn_gameap_com :: string where "cdn_gameap_com = ''cdn.gameap.com''"
definition cdn_gameap_ru :: string where "cdn_gameap_ru = ''cdn.gameap.ru''"

record source =
  src_name :: string
  src_kind :: source_kind
  base_url :: string

definition default_sources :: "source list" where
  "default_sources =
     [\<lparr>src_name = source_name_github, src_kind = KindGitHub, base_url = ''https://api.github.com''\<rparr>,
      \<lparr>src_name = cdn_gameap_com, src_kind = KindCDN, base_url = ''https://'' @ cdn_gameap_com\<rparr>,
      \<lparr>src_name = cdn_gameap_ru, src_kind = KindCDN, base_url = ''https://'' @ cdn_gameap_ru\<rparr>]"

definition github_releases_path :: "string \<Rightarrow> string option" where
  "github_releases_path c =
     map_of [(component_gameapctl, ''/repos/gameap/gameapctl/releases''),
             (component_panel, ''/repos/gameap/gameap/releases''),
             (component_daemon, ''/repos/gameap/daemon/releases'')] c"

definition probe_request :: "source \<Rightarrow> string \<times> string" where
  "probe_request src =
     (if src_kind src = KindGitHub then (''GET'', base_url src @ ''/rate_limit'')
      else (''HEAD'', base_url src @ ''/'' @ component_gameapctl @ ''/releases.json''))"

text \<open>A Go map yields the zero value for a missing key.\<close>

definition releases_url :: "source \<Rightarrow> string \<Rightarrow> string" where
  "releases_url src c =
     (if src_kind src = KindGitHub
      then base_url src @ (case github_releases_path c of Some p \<Rightarrow> p | None \<Rightarrow> [])
      else base_url src @ ''/'' @ c @ ''/releases.json'')"

definition download_url :: "source \<Rightarrow> string \<Rightarrow> release \<Rightarrow> string" where
  "download_url src c rel =
     (if src_kind src = KindGitHub then rel_url rel
      else base_url src @ ''/'' @ c @ ''/'' @ rel_tag rel @ ''/'' @ rel_asset rel)"

section \<open>The resolved release and its download (\<open>releasesource.go\<close>)\<close>

record resolved_release =
  res_tag :: string
  res_asset :: string
  res_urls :: "string list"

definition primary_url :: "resolved_release \<Rightarrow> string" where
  "primary_url r = (case res_urls r of [] \<Rightarrow> [] | u # _ \<Rightarrow> u)"

text \<open>
  The loop over the candidate URLs; \<open>cancelled\<close> is \<open>ctx.Err() != nil\<close>. The last error is
  \<open>None\<close> before the first attempt.
\<close>

fun download_loop ::
  "('s \<Rightarrow> bool) \<Rightarrow> (string \<Rightarrow> ('s, unit) io) \<Rightarrow> go_error option \<Rightarrow> string list \<Rightarrow> ('s, unit) io" where
  "download_loop cancelled dl last_err [] =
     (case last_err of
        None \<Rightarrow> retE ()
      | Some e \<Rightarrow> failE (WithMessage e ''failed to download from all sources''))"
| "download_loop cancelled dl last_err (u # us) = (\<lambda>s.
     case dl u s of
       (Inr _, t) \<Rightarrow> (Inr (), t)
     | (Inl e, t) \<Rightarrow> if cancelled t then (Inl e, t) else download_loop cancelled dl (Some e) us t)"

definition download_with ::
  "('s \<Rightarrow> bool) \<Rightarrow> (string \<Rightarrow> ('s, unit) io) \<Rightarrow> resolved_release option \<Rightarrow> ('s, unit) io" where
  "download_with cancelled dl rel =
     (case rel of
        None \<Rightarrow> failE (Err ''release has no download URLs'')
      | Some r \<Rightarrow>
          if res_urls r = [] then failE (Err ''release has no download URLs'')
          else download_loop cancelled dl None (res_urls r))"

section \<open>Probing (\<open>selector.go\<close>)\<close>

text \<open>What one probe request yields: no request, no response, or status, header and latency.\<close>

datatype probe_reply =
    ProbeNoRequest
  | ProbeNoResponse
  | ProbeResponse nat string int

record probe_result =
  pr_src :: source
  pr_latency :: int
  pr_available :: bool

definition probe :: "(string \<Rightarrow> string \<Rightarrow> probe_reply) \<Rightarrow> source \<Rightarrow> probe_result" where
  "probe reply src =
     (let (method, url) = probe_request src in
      case reply method url of
        ProbeNoRequest \<Rightarrow> \<lparr>pr_src = src, pr_latency = 0, pr_available = False\<rparr>
      | ProbeNoResponse \<Rightarrow> \<lparr>pr_src = src, pr_latency = 0, pr_available = False\<rparr>
      | ProbeResponse status remaining latency \<Rightarrow>
          if status \<noteq> 200 then \<lparr>pr_src = src, pr_latency = 0, pr_available = False\<rparr>
          else if src_kind src = KindGitHub \<and> remaining = ''0''
          then \<lparr>pr_src = src, pr_latency = 0, pr_available = False\<rparr>
          else \<lparr>pr_src = src, pr_latency = latency, pr_available = True\<rparr>)"

text \<open>\<open>slices.SortStableFunc\<close> with \<open>cmp.Compare\<close> on the latency is the stable \<open>sort_key\<close>.\<close>

definition probe_and_sort :: "(string \<Rightarrow> string \<Rightarrow> probe_reply) \<Rightarrow> source list \<Rightarrow> source list" where
  "probe_and_sort reply sources =
     (let results = map (probe reply) sources;
          available = filter pr_available results;
          unavailable = map pr_src (filter (\<lambda>r. \<not> pr_available r) results)
      in map pr_src (sort_key pr_latency available) @ unavailable)"

definition cdn_availability :: "(string \<Rightarrow> string \<Rightarrow> probe_reply) \<Rightarrow> source list \<Rightarrow> (string \<rightharpoonup> bool)" where
  "cdn_availability reply sources =
     fold (\<lambda>r m. m(src_name (pr_src r) \<mapsto> pr_available r))
       (map (probe reply) (filter (\<lambda>src. src_kind src = KindCDN) sources)) Map.empty"

section \<open>Finding a release (\<open>selector.go\<close>)\<close>

text \<open>
  The selector's state is the order it memoizes (\<open>sync.Once\<close> and \<open>ordered\<close>), next to the
  outside world. \<open>attempt_http\<close> is the HTTP client under the one-minute attempt timeout,
  \<open>plain_http\<close> the one without. Probes run in parallel on the world as it is and do not
  change it.
\<close>

type_synonym 's selector_state = "source list option \<times> 's"

record 's source_env =
  attempt_http :: "'s http_env"
  plain_http :: "'s http_env"
  probe_world :: "'s \<Rightarrow> string \<Rightarrow> string \<Rightarrow> probe_reply"
  forced_source :: string
  ctx_done :: "'s \<Rightarrow> bool"

definition ordered_sources ::
  "'s source_env \<Rightarrow> source list \<Rightarrow> 's selector_state \<Rightarrow> source list \<times> 's selector_state" where
  "ordered_sources ev sources st =
     (case st of
        (Some srcs, s) \<Rightarrow> (srcs, st)
      | (None, s) \<Rightarrow> let srcs = probe_and_sort (probe_world ev s) sources in (srcs, (Some srcs, s)))"

definition source_names :: "source list \<Rightarrow> string list" where
  "source_names srcs = map src_name srcs"

definition sources_for_find ::
  "'s source_env \<Rightarrow> source list \<Rightarrow> ('s selector_state, source list) io" where
  "sources_for_find ev sources st =
     (if forced_source ev = []
      then (case ordered_sources ev sources st of (srcs, st') \<Rightarrow> (Inr srcs, st'))
      else case List.find (\<lambda>src. src_name src = forced_source ev) sources of
             Some src \<Rightarrow> (Inr [src], st)
           | None \<Rightarrow> (Inl (Err (''unknown GAMEAP_RELEASE_SOURCE value '' @ forced_source ev @
               '' (expected one of: '' @ join_with '', '' (source_names sources) @ '')'')), st))"

definition build_release :: "source \<Rightarrow> source list \<Rightarrow> string \<Rightarrow> release \<Rightarrow> resolved_release" where
  "build_release chosen ordered c rel =
     \<lparr>res_tag = rel_tag rel, res_asset = rel_asset rel,
      res_urls = download_url chosen c rel #
        map (\<lambda>src. download_url src c rel) (filter (\<lambda>src. src_name src \<noteq> src_name chosen) ordered)\<rparr>"

definition find_from_source ::
  "'s source_env \<Rightarrow> source \<Rightarrow> string \<Rightarrow> string \<Rightarrow> string \<Rightarrow> find_options \<Rightarrow> bool \<Rightarrow> ('s, release) io" where
  "find_from_source ev src c os arch opts quick_fail =
     (if src_kind src = KindGitHub
      then find_with_options (attempt_http ev) (releases_url src c) os arch
             (if quick_fail then opts\<lparr>opt_no_retry := True\<rparr> else opts)
      else find_from_static_list (attempt_http ev) (releases_url src c) os arch opts)"

fun is_content_root :: "go_error \<Rightarrow> bool" where
  "is_content_root (TagNotFound t) = True"
| "is_content_root (FailedToFindRelease os arch t) = True"
| "is_content_root e = False"

definition is_content_error :: "go_error \<Rightarrow> bool" where
  "is_content_error e = error_as is_content_root e"

definition retry_github ::
  "'s source_env \<Rightarrow> source list \<Rightarrow> string \<Rightarrow> string \<Rightarrow> string \<Rightarrow> find_options \<Rightarrow> ('s, resolved_release) io" where
  "retry_github ev srcs c os arch opts =
     (case List.find (\<lambda>src. src_kind src = KindGitHub) srcs of
        None \<Rightarrow> failE (Err ''no GitHub source configured'')
      | Some src \<Rightarrow>
          bindE (find_with_options (plain_http ev) (releases_url src c) os arch opts)
            (\<lambda>rel. retE (build_release src srcs c rel)))"

record find_progress =
  first_err :: "go_error option"
  content_err :: "go_error option"
  github_limited :: bool

definition note_failure :: "source \<Rightarrow> go_error \<Rightarrow> find_progress \<Rightarrow> find_progress" where
  "note_failure src e p =
     \<lparr>first_err = (case first_err p of None \<Rightarrow> Some e | Some x \<Rightarrow> Some x),
      content_err = (case content_err p of
          None \<Rightarrow> if is_content_error e then Some e else None | Some x \<Rightarrow> Some x),
      github_limited = (github_limited p \<or> src_kind src = KindGitHub \<and> is_rate_limit_error e)\<rparr>"

text \<open>
  The loop over the sources: \<open>Inr\<close> of a release (with the source that had it), or the error
  to return at once when the context is done, or what the failures were.
\<close>

datatype find_outcome =
    Found source release
  | Aborted go_error
  | Exhausted find_progress

fun try_sources ::
  "('s \<Rightarrow> bool) \<Rightarrow> (source \<Rightarrow> ('s, release) io) \<Rightarrow> find_progress \<Rightarrow> source list \<Rightarrow> 's \<Rightarrow> find_outcome \<times> 's" where
  "try_sources done attempt p [] s = (Exhausted p, s)"
| "try_sources done attempt p (src # srcs) s =
     (case attempt src s of
        (Inr rel, t) \<Rightarrow> (Found src rel, t)
      | (Inl e, t) \<Rightarrow>
          if done t then (Aborted e, t)
          else try_sources done attempt (note_failure src e p) srcs t)"

definition no_failures :: find_progress where
  "no_failures = \<lparr>first_err = None, content_err = None, github_limited = False\<rparr>"

text \<open>
  \<open>findRelease\<close>. With no source at all Go returns a nil release and a nil error, which is
  \<open>Inr None\<close> here.
\<close>

definition find_in_sources ::
  "'s source_env \<Rightarrow> string \<Rightarrow> string \<Rightarrow> string \<Rightarrow> find_options \<Rightarrow> source list \<Rightarrow> ('s, resolved_release option) io" where
  "find_in_sources ev c os arch opts srcs s =
     (case try_sources (ctx_done ev) (\<lambda>src. find_from_source ev src c os arch opts (length srcs > 1))
             no_failures srcs s of
        (Found src rel, t) \<Rightarrow> (Inr (Some (build_release src srcs c rel)), t)
      | (Aborted e, t) \<Rightarrow> (Inl e, t)
      | (Exhausted p, t) \<Rightarrow>
          (let final = (case content_err p of
                 Some e \<Rightarrow> Inl e
               | None \<Rightarrow> (case first_err p of Some e \<Rightarrow> Inl e | None \<Rightarrow> Inr None))
           in if github_limited p \<and> content_err p = None
              then (case retry_github ev srcs c os arch opts t of
                      (Inr r, u) \<Rightarrow> (Inr (Some r), u)
                    | (Inl _, u) \<Rightarrow> (final, u))
              else (final, t)))"

definition find_release ::
  "'s source_env \<Rightarrow> source list \<Rightarrow> string \<Rightarrow> string \<Rightarrow> string \<Rightarrow> find_options \<Rightarrow>
   ('s selector_state, resolved_release option) io" where
  "find_release ev sources c os arch opts st =
     (if github_releases_path c = None then (Inl (Err (''unknown component '' @ c)), st)
      else case sources_for_find ev sources st of
        (Inl e, st') \<Rightarrow> (Inl e, st')
      | (Inr srcs, (memo, s)) \<Rightarrow>
          (case find_in_sources ev c os arch opts srcs s of (r, t) \<Rightarrow> (r, (memo, t))))"

section \<open>Lemmas\<close>

lemma pr_src_probe [simp]: "pr_src (probe reply src) = src"
  by (simp add: probe_def Let_def split: prod.split probe_reply.split)

lemma map_pr_src_probe [simp]: "map pr_src (map (probe reply) srcs) = srcs"
  by (induction srcs) auto

lemma mset_filter_split: "mset (filter P xs) + mset (filter (\<lambda>x. \<not> P x) xs) = mset xs"
  by (induction xs) auto

lemma mset_probe_and_sort: "mset (probe_and_sort reply sources) = mset sources"
proof -
  let ?rs = "map (probe reply) sources"
  have "mset (probe_and_sort reply sources) =
      mset (map pr_src (sort_key pr_latency (filter pr_available ?rs))) +
      mset (map pr_src (filter (\<lambda>r. \<not> pr_available r) ?rs))"
    unfolding probe_and_sort_def Let_def by (rule mset_append)
  also have "\<dots> = image_mset pr_src (mset (filter pr_available ?rs)) +
      image_mset pr_src (mset (filter (\<lambda>r. \<not> pr_available r) ?rs))"
    by (simp only: mset_map mset_sort)
  also have "\<dots> = image_mset pr_src (mset ?rs)"
    by (simp only: image_mset_union [symmetric] mset_filter_split)
  also have "\<dots> = mset (map pr_src ?rs)" by (simp only: mset_map)
  finally show ?thesis by (simp only: map_pr_src_probe)
qed

lemma set_probe_and_sort [simp]: "set (probe_and_sort reply sources) = set sources"
  by (metis mset_probe_and_sort mset_eq_setD)

text \<open>The state after a run of attempts that all fail.\<close>

fun all_fail :: "('x \<Rightarrow> ('s, 'a) io) \<Rightarrow> 'x list \<Rightarrow> 's \<Rightarrow> 's option" where
  "all_fail f [] s = Some s"
| "all_fail f (x # xs) s = (case f x s of (Inl e, t) \<Rightarrow> all_fail f xs t | (Inr _, t) \<Rightarrow> None)"

text \<open>One failing attempt of the loop.\<close>

lemma download_loop_step:
  "dl u s = (Inl e, t) \<Longrightarrow> \<not> cancelled t \<Longrightarrow>
     download_loop cancelled dl le (u # us) s = download_loop cancelled dl (Some e) us t"
  by simp

lemma download_loop_Inr:
  "\<forall>t. \<not> cancelled t \<Longrightarrow>
   download_loop cancelled dl le us s = (Inr (), t) \<Longrightarrow> le \<noteq> None \<or> us \<noteq> [] \<Longrightarrow>
     \<exists>as u bs s'. us = as @ u # bs \<and> all_fail dl as s = Some s' \<and> dl u s' = (Inr (), t)"
proof (induction us arbitrary: le s)
  case Nil
  then show ?case by (auto split: option.splits)
next
  case (Cons u us)
  show ?case
  proof (cases "dl u s")
    case (Pair q t')
    show ?thesis
    proof (cases q)
      case (Inr x)
      with Pair Cons.prems(2) show ?thesis by (auto intro: exI [of _ "[]"])
    next
      case (Inl e)
      have "\<not> cancelled t'" using Cons.prems(1) by blast
      with Pair Inl Cons.prems(2) have "download_loop cancelled dl (Some e) us t' = (Inr (), t)"
        using download_loop_step [of dl u s e t' cancelled le us] by simp
      from Cons.IH [OF Cons.prems(1) this]
      obtain as v bs s' where "us = as @ v # bs" "all_fail dl as t' = Some s'" "dl v s' = (Inr (), t)"
        by auto
      with Pair Inl show ?thesis
        by (intro exI [of _ "u # as"] exI [of _ v] exI [of _ bs] exI [of _ s']) auto
    qed
  qed
qed

lemma download_loop_all_fail:
  "\<forall>t. \<not> cancelled t \<Longrightarrow> all_fail dl us s = Some t \<Longrightarrow> le \<noteq> None \<or> us \<noteq> [] \<Longrightarrow>
     \<exists>e. download_loop cancelled dl le us s = (Inl e, t)"
proof (induction us arbitrary: le s)
  case Nil
  then show ?case by auto
next
  case (Cons u us)
  obtain q v where d: "dl u s = (q, v)" by fastforce
  with Cons.prems(2) obtain e where q: "q = Inl e" "all_fail dl us v = Some t" by (cases q) auto
  have "\<not> cancelled v" using Cons.prems(1) by blast
  then have "download_loop cancelled dl le (u # us) s = download_loop cancelled dl (Some e) us v"
    using download_loop_step d q by metis
  then show ?case using Cons.IH [OF Cons.prems(1) q(2), of "Some e"] by simp
qed

lemma download_loop_first:
  "\<forall>t. \<not> cancelled t \<Longrightarrow> all_fail dl as s = Some s' \<Longrightarrow> dl u s' = (Inr (), t) \<Longrightarrow>
     download_loop cancelled dl le (as @ u # bs) s = (Inr (), t)"
proof (induction as arbitrary: le s)
  case Nil
  then show ?case by simp
next
  case (Cons a as)
  obtain q v where d: "dl a s = (q, v)" by fastforce
  with Cons.prems(2) obtain e where q: "q = Inl e" "all_fail dl as v = Some s'" by (cases q) auto
  have "\<not> cancelled v" using Cons.prems(1) by blast
  then have "download_loop cancelled dl le (a # as @ u # bs) s = download_loop cancelled dl (Some e) (as @ u # bs) v"
    using download_loop_step d q by metis
  then show ?case using Cons.IH [OF Cons.prems(1) q(2) Cons.prems(3)] by simp
qed

lemma all_fail_dichotomy:
  "(\<exists>t. all_fail f xs s = Some t) \<or>
   (\<exists>as x bs s' y t. xs = as @ x # bs \<and> all_fail f as s = Some s' \<and> f x s' = (Inr y, t))"
proof (induction xs arbitrary: s)
  case Nil
  then show ?case by simp
next
  case (Cons x xs)
  show ?case
  proof (cases "f x s")
    case (Pair q t)
    show ?thesis
    proof (cases q)
      case (Inr y)
      with Pair show ?thesis by (auto intro: exI [of _ "[]"])
    next
      case (Inl e)
      from Cons.IH [of t] show ?thesis
      proof
        assume "\<exists>u. all_fail f xs t = Some u"
        with Pair Inl show ?thesis by simp
      next
        assume "\<exists>as z bs s' y u. xs = as @ z # bs \<and> all_fail f as t = Some s' \<and> f z s' = (Inr y, u)"
        then obtain as z bs s' y u where
          "xs = as @ z # bs" "all_fail f as t = Some s'" "f z s' = (Inr y, u)" by blast
        with Pair Inl show ?thesis
          by (intro disjI2 exI [of _ "x # as"] exI [of _ z] exI [of _ bs] exI [of _ s']
              exI [of _ y] exI [of _ u]) auto
      qed
    qed
  qed
qed

lemma try_sources_Found:
  "try_sources done attempt p srcs s = (Found src rel, t) \<Longrightarrow>
     \<exists>as bs s'. srcs = as @ src # bs \<and> all_fail attempt as s = Some s' \<and> attempt src s' = (Inr rel, t)"
proof (induction srcs arbitrary: p s)
  case Nil
  then show ?case by simp
next
  case (Cons x srcs)
  show ?case
  proof (cases "attempt x s")
    case (Pair q t')
    show ?thesis
    proof (cases q)
      case (Inr y)
      with Pair Cons.prems show ?thesis by (auto intro: exI [of _ "[]"])
    next
      case (Inl e)
      with Pair Cons.prems have "try_sources done attempt (note_failure x e p) srcs t' = (Found src rel, t)"
        by (simp split: if_splits)
      from Cons.IH [OF this] obtain as bs s' where
        "srcs = as @ src # bs" "all_fail attempt as t' = Some s'" "attempt src s' = (Inr rel, t)" by blast
      with Pair Inl show ?thesis by (intro exI [of _ "x # as"] exI [of _ bs] exI [of _ s']) auto
    qed
  qed
qed

lemma note_failure_first [simp]: "first_err (note_failure src e p) \<noteq> None"
  by (simp add: note_failure_def split: option.split)

lemma note_failure_content:
  "content_err p = Some e' \<Longrightarrow> content_err (note_failure src e p) = Some e'"
  by (simp add: note_failure_def)

lemma try_sources_Exhausted_first:
  "try_sources done attempt p srcs s = (Exhausted p', t) \<Longrightarrow> srcs \<noteq> [] \<or> first_err p \<noteq> None \<Longrightarrow>
     first_err p' \<noteq> None"
proof (induction srcs arbitrary: p s)
  case Nil
  then show ?case by simp
next
  case (Cons x srcs)
  obtain q u where qu: "attempt x s = (q, u)" by fastforce
  show ?case
  proof (cases q)
    case (Inr y)
    with qu Cons.prems show ?thesis by simp
  next
    case (Inl e)
    with qu Cons.prems have "try_sources done attempt (note_failure x e p) srcs u = (Exhausted p', t)"
      by (simp split: if_splits)
    then show ?thesis by (rule Cons.IH) simp
  qed
qed

section \<open>Properties\<close>

text \<open>
  Probing only orders the sources: the result is a permutation of them in which every
  reachable source comes before every unreachable one and the reachable ones are in order
  of latency.
\<close>

theorem probe_and_sort_order:
  "mset (probe_and_sort reply sources) = mset sources \<and>
   sorted_wrt (\<lambda>a b. pr_available (probe reply b) \<longrightarrow>
       pr_available (probe reply a) \<and> pr_latency (probe reply a) \<le> pr_latency (probe reply b))
     (probe_and_sort reply sources)"
proof -
  let ?R = "\<lambda>a b. pr_available (probe reply b) \<longrightarrow>
       pr_available (probe reply a) \<and> pr_latency (probe reply a) \<le> pr_latency (probe reply b)"
  define rs where "rs = map (probe reply) sources"
  define av where "av = sort_key pr_latency (filter pr_available rs)"
  define un where "un = map pr_src (filter (\<lambda>r. \<not> pr_available r) rs)"
  have rs: "probe reply (pr_src r) = r" if "r \<in> set rs" for r using that by (auto simp: rs_def)
  have av: "probe reply (pr_src r) = r \<and> pr_available r" if "r \<in> set av" for r
    using that rs [of r] by (simp add: av_def)
  have un: "\<not> pr_available (probe reply b)" if "b \<in> set un" for b
    using that rs by (auto simp: un_def)
  have "sorted_wrt (\<lambda>a b. pr_latency a \<le> pr_latency b) av"
    using sorted_sort_key [of pr_latency "filter pr_available rs"] by (simp add: av_def sorted_map)
  then have "sorted_wrt (\<lambda>a b. ?R (pr_src a) (pr_src b)) av"
  proof (rule sorted_wrt_mono_rel [rotated])
    fix a b
    assume "a \<in> set av" "b \<in> set av" "pr_latency a \<le> pr_latency b"
    then show "?R (pr_src a) (pr_src b)" using av [of a] av [of b] by simp
  qed
  then have 1: "sorted_wrt ?R (map pr_src av)" by (simp only: sorted_wrt_map)
  have 2: "sorted_wrt ?R un"
  proof (rule sorted_wrt_mono_rel)
    show "sorted_wrt (\<lambda>_ _. True) un" by (induction un) auto
    show "?R a b" if "a \<in> set un" "b \<in> set un" True for a b using un [OF that(2)] by simp
  qed
  have 3: "?R a b" if "b \<in> set un" for a b using un [OF that] by simp
  have eq: "probe_and_sort reply sources = map pr_src av @ un"
    by (simp add: probe_and_sort_def Let_def av_def un_def rs_def)
  have "sorted_wrt ?R (map pr_src av @ un)"
    unfolding sorted_wrt_append using 1 2 3 by blast
  then show ?thesis using mset_probe_and_sort [of reply sources] unfolding eq by blast
qed

theorem probe_and_sort_order_witness:
  "map src_name (probe_and_sort (\<lambda>m _. ProbeResponse 200 [] (if m = ''HEAD'' then 1 else 2)) default_sources) =
     [cdn_gameap_com, cdn_gameap_ru, source_name_github] \<and>
   mset (probe_and_sort (\<lambda>m _. ProbeResponse 200 [] (if m = ''HEAD'' then 1 else 2)) default_sources) =
     mset default_sources"
proof -
  have "map src_name (probe_and_sort (\<lambda>m _. ProbeResponse 200 [] (if m = ''HEAD'' then 1 else 2)) default_sources) =
     [cdn_gameap_com, cdn_gameap_ru, source_name_github]" by code_simp
  then show ?thesis
    using probe_and_sort_order [of "\<lambda>m _. ProbeResponse 200 [] (if m = ''HEAD'' then 1 else 2)" default_sources] by blast
qed

text \<open>
  The order of the sources is fixed for the process: once a lookup has ordered them, every
  later one gets the same order, whatever the network then answers to probes.
\<close>

theorem source_order_memoized:
  assumes "ordered_sources ev sources st = (srcs, (memo, s))"
  shows "memo = Some srcs \<and> ordered_sources ev' sources (memo, s') = (srcs, (memo, s'))"
  using assms by (cases st) (auto simp: ordered_sources_def Let_def split: option.splits)

definition offline_http :: "unit http_env" where
  "offline_http =
     \<lparr>http_get = (\<lambda>url s. (Inl (DoFailed (Err ''no route to host'')), s)),
      decode_list = (\<lambda>_. Inr []), decode_single = (\<lambda>_. Inl (Err ''unexpected end of JSON input'')),
      decode_message = (\<lambda>_. None), time_until = (\<lambda>_ _. 0), wait_for = (\<lambda>_. retE ())\<rparr>"

definition offline_env :: "unit source_env" where
  "offline_env = \<lparr>attempt_http = offline_http, plain_http = offline_http,
     probe_world = (\<lambda>_ _ _. ProbeNoResponse), forced_source = [], ctx_done = (\<lambda>_. False)\<rparr>"

definition late_env :: "unit source_env" where
  "late_env = offline_env\<lparr>probe_world := (\<lambda>_ m _. ProbeResponse 200 [] (if m = ''HEAD'' then 1 else 2))\<rparr>"

theorem source_order_memoized_witness:
  "ordered_sources late_env default_sources (Some default_sources, ()) =
     (default_sources, (Some default_sources, ()))"
proof -
  have "ordered_sources offline_env default_sources (None, ()) =
      (default_sources, (Some default_sources, ()))"
    by code_simp
  from source_order_memoized [OF this, of late_env "()"] show ?thesis by simp
qed

text \<open>
  The candidate URLs of a resolved release name every source once, the source that
  resolved it first and the others in probed order: one URL per source, and the same URLs
  as downloading that asset from each source.
\<close>

theorem build_release_urls:
  assumes "distinct (map src_name srcs)" "src \<in> set srcs"
  shows "primary_url (build_release src srcs c rel) = download_url src c rel \<and>
    mset (res_urls (build_release src srcs c rel)) = mset (map (\<lambda>x. download_url x c rel) srcs) \<and>
    length (res_urls (build_release src srcs c rel)) = length srcs"
proof -
  have eq: "x \<in> set srcs \<Longrightarrow> src_name x = src_name src \<Longrightarrow> x = src" for x
    using assms by (metis distinct_map inj_on_def)
  have "distinct srcs" using assms(1) by (simp only: distinct_map)
  have "filter (\<lambda>x. src_name x = src_name src) srcs = filter (\<lambda>x. x = src) srcs"
    by (rule filter_cong) (use eq in auto)
  also have "\<dots> = [src]"
    using \<open>distinct srcs\<close> assms(2) by (induction srcs) (auto simp: filter_empty_conv)
  finally have one: "filter (\<lambda>x. src_name x = src_name src) srcs = [src]" .
  have "mset srcs = mset [src] + mset (filter (\<lambda>x. src_name x \<noteq> src_name src) srcs)"
    using mset_filter_split [of "\<lambda>x. src_name x = src_name src" srcs] unfolding one by simp
  then have m: "mset srcs = add_mset src (mset (filter (\<lambda>x. src_name x \<noteq> src_name src) srcs))"
    by simp
  have ms: "mset (res_urls (build_release src srcs c rel)) = mset (map (\<lambda>x. download_url x c rel) srcs)"
    using arg_cong [OF m, of "image_mset (\<lambda>x. download_url x c rel)"] by (simp add: build_release_def)
  then have "length (res_urls (build_release src srcs c rel)) = length (map (\<lambda>x. download_url x c rel) srcs)"
    by (rule mset_eq_length)
  with ms show ?thesis by (simp add: build_release_def primary_url_def)
qed

theorem build_release_urls_witness:
  "res_urls (build_release (default_sources ! 1) default_sources ''gameap''
      \<lparr>rel_url = ''g'', rel_tag = ''v4'', rel_asset = ''a''\<rparr>) =
     [''https://cdn.gameap.com/gameap/v4/a'', ''g'', ''https://cdn.gameap.ru/gameap/v4/a''] \<and>
   primary_url (build_release (default_sources ! 1) default_sources ''gameap''
      \<lparr>rel_url = ''g'', rel_tag = ''v4'', rel_asset = ''a''\<rparr>) = ''https://cdn.gameap.com/gameap/v4/a''"
proof -
  have d: "distinct (map src_name default_sources)" "default_sources ! 1 \<in> set default_sources"
    by (simp_all add: default_sources_def source_name_github_def cdn_gameap_com_def cdn_gameap_ru_def)
  show ?thesis
    using build_release_urls [OF d, of "''gameap''" "\<lparr>rel_url = ''g'', rel_tag = ''v4'', rel_asset = ''a''\<rparr>"]
    by (simp add: build_release_def download_url_def default_sources_def source_name_github_def
        cdn_gameap_com_def cdn_gameap_ru_def)
qed

text \<open>
  A release that \<open>findRelease\<close> returns was really offered: its tag and asset are those
  that one of the sources answered, and its URLs are built from that source and the ordered
  list; with at least one source it never returns neither a release nor an error.
\<close>

theorem find_in_sources_sound:
  assumes "find_in_sources ev c os arch opts srcs s = (Inr r, t)" "srcs \<noteq> []"
  shows "\<exists>src rel u v qf. src \<in> set srcs \<and> r = Some (build_release src srcs c rel) \<and>
    (find_from_source ev src c os arch opts qf u = (Inr rel, v) \<or>
     find_with_options (plain_http ev) (releases_url src c) os arch opts u = (Inr rel, v))"
proof -
  let ?f = "\<lambda>src. find_from_source ev src c os arch opts (length srcs > 1)"
  obtain out u where o: "try_sources (ctx_done ev) ?f no_failures srcs s = (out, u)" by fastforce
  show ?thesis
  proof (cases out)
    case (Found src rel)
    with o obtain as bs s' where "srcs = as @ src # bs" "?f src s' = (Inr rel, u)"
      using try_sources_Found by fastforce
    moreover have "r = Some (build_release src srcs c rel)"
      using assms(1) o Found by (simp add: find_in_sources_def)
    ultimately show ?thesis by (metis in_set_conv_decomp)
  next
    case (Aborted e)
    with assms o show ?thesis by (simp add: find_in_sources_def)
  next
    case (Exhausted p)
    have fe: "first_err p \<noteq> None"
      by (rule try_sources_Exhausted_first [of "ctx_done ev" ?f no_failures srcs s p u])
        (use o Exhausted assms(2) in simp_all)
    have not: "(case content_err p of Some e \<Rightarrow> Inl e | None \<Rightarrow> (case first_err p of Some e \<Rightarrow> Inl e | None \<Rightarrow> Inr None))
        \<noteq> (Inr r :: resolved_release option result)"
      using fe by (auto split: option.splits)
    obtain q w where qw: "retry_github ev srcs c os arch opts u = (q, w)" by fastforce
    have "find_in_sources ev c os arch opts srcs s =
        (if github_limited p \<and> content_err p = None
         then (case q of Inr x \<Rightarrow> (Inr (Some x), w) | Inl _ \<Rightarrow>
           (case content_err p of Some e \<Rightarrow> Inl e | None \<Rightarrow> (case first_err p of Some e \<Rightarrow> Inl e | None \<Rightarrow> Inr None), w))
         else (case content_err p of Some e \<Rightarrow> Inl e | None \<Rightarrow> (case first_err p of Some e \<Rightarrow> Inl e | None \<Rightarrow> Inr None), u))"
      unfolding find_in_sources_def o Exhausted by (simp only: prod.case find_outcome.case Let_def qw)
    then obtain x where x: "retry_github ev srcs c os arch opts u = (Inr x, t)" "r = Some x"
      using assms(1) not qw by (cases q) (simp_all split: if_splits)
    obtain src where src: "List.find (\<lambda>src. src_kind src = KindGitHub) srcs = Some src"
      using x by (cases "List.find (\<lambda>src. src_kind src = KindGitHub) srcs") (auto simp: retry_github_def)
    then have "src \<in> set srcs" by (auto simp: find_Some_iff)
    moreover obtain rel where
      "find_with_options (plain_http ev) (releases_url src c) os arch opts u = (Inr rel, t)"
      "x = build_release src srcs c rel"
      using x src by (auto simp: retry_github_def bindE_Inr_iff)
    ultimately show ?thesis using x by blast
  qed
qed

definition static_env :: "unit source_env" where
  "static_env = offline_env\<lparr>attempt_http :=
     \<lparr>http_get = (\<lambda>url s. (Inr \<lparr>status_code = 200, resp_body = [], resp_header = (\<lambda>_. [])\<rparr>, s)),
      decode_list = (\<lambda>_. Inr [example_release]), decode_single = (\<lambda>_. Inl (Err [])),
      decode_message = (\<lambda>_. None), time_until = (\<lambda>_ _. 0), wait_for = (\<lambda>_. retE ())\<rparr>\<rparr>"

theorem find_in_sources_sound_witness:
  "\<exists>src. src \<in> set [default_sources ! 2] \<and> src_kind src = KindCDN"
proof -
  have "find_in_sources static_env ''gameap'' ''linux'' ''amd64'' default_find_options [default_sources ! 2] () =
      (Inr (Some (build_release (default_sources ! 2) [default_sources ! 2] ''gameap''
         \<lparr>rel_url = ''d'', rel_tag = ''v4.1.2'', rel_asset = ''gameap-v4.1.2-linux-amd64.tar.gz''\<rparr>)), ())"
    by (simp add: find_in_sources_def find_from_source_def default_sources_def static_env_def
        find_from_static_list_def default_find_options_def find_release_from_list_def
        find_in_releases_Cons eligible_def match_asset_def example_release_def asset_pattern_def)
  from find_in_sources_sound [OF this] show ?thesis
    by (auto simp: default_sources_def)
qed

text \<open>
  A missing tag or a missing platform asset reported by a mirror is the final answer: when
  every source has failed and one of the failures is such a content error, that error is
  returned and nothing more is sent or waited for, even if GitHub was rate limited.
\<close>

theorem content_error_is_final:
  assumes "try_sources (ctx_done ev) (\<lambda>src. find_from_source ev src c os arch opts (length srcs > 1))
      no_failures srcs s = (Exhausted p, t)"
    and "content_err p = Some e"
  shows "find_in_sources ev c os arch opts srcs s = (Inl e, t)"
  using assms by (simp add: find_in_sources_def)

theorem content_error_is_final_witness:
  "find_in_sources static_env ''gameap'' ''linux'' ''arm64'' default_find_options [default_sources ! 2] () =
     (Inl (FailedToFindRelease ''linux'' ''arm64'' ''v4.1.2''), ())"
proof (rule content_error_is_final)
  show "try_sources (ctx_done static_env)
      (\<lambda>src. find_from_source static_env src ''gameap'' ''linux'' ''arm64'' default_find_options
         (length [default_sources ! 2] > 1)) no_failures [default_sources ! 2] () =
      (Exhausted (note_failure (default_sources ! 2) (FailedToFindRelease ''linux'' ''arm64'' ''v4.1.2'')
         no_failures), ())"
    by (simp add: find_from_source_def default_sources_def static_env_def offline_env_def
        find_from_static_list_def default_find_options_def find_release_from_list_def
        find_in_releases_Cons eligible_def match_asset_def example_release_def asset_pattern_def)
qed (simp add: note_failure_def no_failures_def is_content_error_def)

text \<open>
  A download succeeds exactly when some candidate URL works: while the context is not
  cancelled the URLs are tried in order, each failure moves on to the next, and an error is
  returned only after all of them have failed.
\<close>

theorem download_with_first_working:
  assumes "\<forall>t. \<not> cancelled t"
  shows "download_with cancelled dl (Some r) s = (Inr (), t) \<longleftrightarrow>
    (\<exists>as u bs s'. res_urls r = as @ u # bs \<and> all_fail dl as s = Some s' \<and> dl u s' = (Inr (), t))"
proof
  assume l: "download_with cancelled dl (Some r) s = (Inr (), t)"
  then have ne: "res_urls r \<noteq> []" by (auto simp: download_with_def)
  with l have "download_loop cancelled dl None (res_urls r) s = (Inr (), t)" by (simp add: download_with_def)
  then show "\<exists>as u bs s'. res_urls r = as @ u # bs \<and> all_fail dl as s = Some s' \<and> dl u s' = (Inr (), t)"
    by (rule download_loop_Inr [OF assms]) (simp add: ne)
next
  assume "\<exists>as u bs s'. res_urls r = as @ u # bs \<and> all_fail dl as s = Some s' \<and> dl u s' = (Inr (), t)"
  then obtain as u bs s' where
    "res_urls r = as @ u # bs" "all_fail dl as s = Some s'" "dl u s' = (Inr (), t)" by blast
  then show "download_with cancelled dl (Some r) s = (Inr (), t)"
    using download_loop_first [OF assms] by (simp add: download_with_def)
qed

theorem download_with_first_working_witness:
  "download_with (\<lambda>_. False) (\<lambda>u s. if u = ''b'' then (Inr (), u # s) else (Inl (Err u), u # s))
     (Some \<lparr>res_tag = [], res_asset = [], res_urls = [''a'', ''b'', ''c'']\<rparr>) [] = (Inr (), [''b'', ''a''])"
  by (rule download_with_first_working [THEN iffD2])
    (simp, rule exI [of _ "[''a'']"], rule exI [of _ "''b''"], rule exI [of _ "[''c'']"], simp)

end
