(* ===== verification/NetAddr.thy ===== *)
theory NetAddr
  imports GoStrings
begin

text \<open>
  Network addresses, as the program uses them from Go's standard library (\<open>net.ParseIP\<close>,
  \<open>IP.String\<close>, \<open>net.SplitHostPort\<close>, \<open>net.JoinHostPort\<close>, \<open>url.Parse\<close>) and from
  \<open>pkg/utils/net.go\<close>. An address is the list of its eight 16-bit groups; IPv4 addresses are
  the ones mapped into IPv6, as in Go's 16-byte form.
\<close>

section \<open>IP addresses\<close>

type_synonym ip = "nat list"

definition ip_v4 :: "nat \<Rightarrow> nat \<Rightarrow> nat \<Rightarrow> nat \<Rightarrow> ip" where
  "ip_v4 a b c d = [0, 0, 0, 0, 0, 65535, 256 * a + b, 256 * c + d]"

definition is_v4 :: "ip \<Rightarrow> bool" where
  "is_v4 ip \<longleftrightarrow> take 6 ip = [0, 0, 0, 0, 0, 65535]"

text \<open>One field of a dotted quad: one to three digits, no leading zero, at most 255.\<close>

definition v4_field :: "string \<Rightarrow> nat option" where
  "v4_field s =
     (if s = [] \<or> length s > 3 \<or> \<not> list_all is_digit s \<or> (length s > 1 \<and> hd s = CHR ''0'') then None
      else let n = digits_val 0 s in if n \<le> 255 then Some n else None)"

definition v4_fields :: "string \<Rightarrow> (nat \<times> nat \<times> nat \<times> nat) option" where
  "v4_fields s =
     (case map v4_field (split_char (CHR ''.'') s) of
        [Some a, Some b, Some c, Some d] \<Rightarrow> Some (a, b, c, d)
      | _ \<Rightarrow> None)"

definition hex_val :: "char \<Rightarrow> nat option" where
  "hex_val c =
     (let n = of_char c :: nat in
      if 48 \<le> n \<and> n \<le> 57 then Some (n - 48)
      else if 97 \<le> n \<and> n \<le> 102 then Some (n - 87)
      else if 65 \<le> n \<and> n \<le> 70 then Some (n - 55)
      else None)"

fun hex_fold :: "nat \<Rightarrow> string \<Rightarrow> nat" where
  "hex_fold acc [] = acc"
| "hex_fold acc (c # cs) = hex_fold (16 * acc + (case hex_val c of Some n \<Rightarrow> n | None \<Rightarrow> 0)) cs"

definition is_hex :: "char \<Rightarrow> bool" where
  "is_hex c = (hex_val c \<noteq> None)"

text \<open>
  The groups of an IPv6 address: at most \<open>n\<close> more, \<open>gs\<close> the groups so far, \<open>ell\<close> where the
  ellipsis was. The answer is the groups, the place of the ellipsis and what is left.
\<close>

fun v6_groups ::
  "nat \<Rightarrow> nat list \<Rightarrow> nat option \<Rightarrow> string \<Rightarrow> (nat list \<times> nat option \<times> string) option" where
  "v6_groups 0 gs ell s = Some (gs, ell, s)"
| "v6_groups (Suc n) gs ell s =
     (let field = takeWhile is_hex s; rest = dropWhile is_hex s in
      if field = [] \<or> length field > 4 then None
      else if rest \<noteq> [] \<and> hd rest = CHR ''.'' then
        (if ell = None \<and> length gs \<noteq> 6 then None
         else if length gs > 6 then None
         else case v4_fields s of
           None \<Rightarrow> None
         | Some (a, b, c, d) \<Rightarrow> Some (gs @ [256 * a + b, 256 * c + d], ell, []))
      else let gs = gs @ [hex_fold 0 field] in
        if rest = [] then Some (gs, ell, [])
        else if hd rest \<noteq> CHR '':'' \<or> length rest = 1 then None
        else if rest ! 1 = CHR '':'' then
          (if ell \<noteq> None then None
           else if length rest = 2 then Some (gs, Some (length gs), [])
           else v6_groups n gs (Some (length gs)) (drop 2 rest))
        else v6_groups n gs ell (tl rest))"

definition v6_finish :: "nat list \<Rightarrow> nat option \<Rightarrow> string \<Rightarrow> ip option" where
  "v6_finish gs ell s =
     (if s \<noteq> [] then None
      else case ell of
        None \<Rightarrow> if length gs = 8 then Some gs else None
      | Some k \<Rightarrow>
          if length gs < 8 then Some (take k gs @ replicate (8 - length gs) 0 @ drop k gs) else None)"

definition parse_v6 :: "string \<Rightarrow> ip option" where
  "parse_v6 s =
     (if s = ''::'' then Some (replicate 8 0)
      else let start = (if has_prefix s ''::'' then v6_groups 8 [] (Some 0) (drop 2 s)
                        else v6_groups 8 [] None s)
        in case start of None \<Rightarrow> None | Some (gs, ell, rest) \<Rightarrow> v6_finish gs ell rest)"

text \<open>\<open>net.ParseIP\<close>: the first dot or colon decides; zones are not accepted.\<close>

definition parse_ip :: "string \<Rightarrow> ip option" where
  "parse_ip s =
     (case dropWhile (\<lambda>c. c \<noteq> CHR ''.'' \<and> c \<noteq> CHR '':'' \<and> c \<noteq> CHR ''%'') s of
        [] \<Rightarrow> None
      | c # _ \<Rightarrow>
          if c = CHR ''.'' then map_option (\<lambda>(a, b, c, d). ip_v4 a b c d) (v4_fields s)
          else if c = CHR '':'' then (if CHR ''%'' \<in> set s then None else parse_v6 s)
          else None)"

fun hex_nat :: "nat \<Rightarrow> string" where
  "hex_nat n =
     (if n < 16 then [''0123456789abcdef'' ! n] else hex_nat (n div 16) @ [''0123456789abcdef'' ! (n mod 16)])"

declare hex_nat.simps [simp del]

text \<open>The longest run of zero groups, the first one on a tie: its start and its length.\<close>

fun zero_run :: "nat \<Rightarrow> nat list \<Rightarrow> nat \<times> nat" where
  "zero_run i [] = (0, 0)"
| "zero_run i (g # gs) =
     (let here = length (takeWhile (\<lambda>x. x = 0) (g # gs)); (j, l) = zero_run (Suc i) gs
      in if here > 0 \<and> here \<ge> l then (i, here) else (j, l))"

definition ip_string :: "ip \<Rightarrow> string" where
  "ip_string ip =
     (if is_v4 ip then
        join_with ''.'' [itoa_nat (ip ! 6 div 256), itoa_nat (ip ! 6 mod 256),
                         itoa_nat (ip ! 7 div 256), itoa_nat (ip ! 7 mod 256)]
      else let (i, l) = zero_run 0 ip in
        if l < 2 then join_with '':'' (map hex_nat ip)
        else join_with '':'' (map hex_nat (take i ip)) @ ''::'' @
             join_with '':'' (map hex_nat (drop (i + l) ip)))"

definition ip_loopback :: "ip \<Rightarrow> bool" where
  "ip_loopback ip \<longleftrightarrow>
     (if is_v4 ip then ip ! 6 div 256 = 127 else ip = [0, 0, 0, 0, 0, 0, 0, 1])"

definition ip_unspecified :: "ip \<Rightarrow> bool" where
  "ip_unspecified ip \<longleftrightarrow> ip = ip_v4 0 0 0 0 \<or> ip = replicate 8 0"

definition ip_link_local :: "ip \<Rightarrow> bool" where
  "ip_link_local ip \<longleftrightarrow>
     (if is_v4 ip then ip ! 6 = 256 * 169 + 254 else ip \<noteq> [] \<and> hd ip div 64 = 1018)"

section \<open>Host and port\<close>

text \<open>The part before and the part after the last occurrence of a character.\<close>

definition cut_last :: "char \<Rightarrow> string \<Rightarrow> (string \<times> string) option" where
  "cut_last c s =
     (if c \<notin> set s then None
      else let k = length (takeWhile (\<lambda>x. x \<noteq> c) (rev s))
        in Some (take (length s - Suc k) s, drop (length s - k) s))"

definition split_host_port :: "string \<Rightarrow> (string \<times> string) option" where
  "split_host_port hp =
     (case cut_last (CHR '':'') hp of
        None \<Rightarrow> None
      | Some (host, port) \<Rightarrow>
          if has_prefix hp ''['' then
            (if CHR '']'' \<notin> set hp then None
             else let e = length (takeWhile (\<lambda>c. c \<noteq> CHR '']'') hp) in
               if Suc e \<noteq> length host then None
               else if CHR ''['' \<in> set (drop 1 hp) \<or> CHR '']'' \<in> set (drop (Suc e) hp) then None
               else Some (take (e - 1) (drop 1 hp), port))
          else if CHR '':'' \<in> set host then None
          else if CHR ''['' \<in> set hp \<or> CHR '']'' \<in> set hp then None
          else Some (host, port))"

definition join_host_port :: "string \<Rightarrow> string \<Rightarrow> string" where
  "join_host_port host port =
     (if CHR '':'' \<in> set host then ''['' @ host @ '']:'' @ port else host @ '':'' @ port)"

section \<open>URLs\<close>

record url =
  url_scheme :: string
  url_host :: string
  url_path :: string

definition is_letter :: "char \<Rightarrow> bool" where
  "is_letter c \<longleftrightarrow> c \<in> set ''abcdefghijklmnopqrstuvwxyzABCDEFGHIJKLMNOPQRSTUVWXYZ''"

definition scheme_char :: "char \<Rightarrow> bool" where
  "scheme_char c \<longleftrightarrow> is_letter c \<or> is_digit c \<or> c \<in> set ''+-.''"

text \<open>\<open>getScheme\<close>: \<open>None\<close> is the error "missing protocol scheme".\<close>

definition get_scheme :: "string \<Rightarrow> (string \<times> string) option" where
  "get_scheme s =
     (let p = takeWhile scheme_char s; r = dropWhile scheme_char s in
      case p of
        [] \<Rightarrow> if r \<noteq> [] \<and> hd r = CHR '':'' then None else Some ([], s)
      | c # _ \<Rightarrow>
          if \<not> is_letter c then Some ([], s)
          else if r \<noteq> [] \<and> hd r = CHR '':'' then Some (p, tl r) else Some ([], s))"

text \<open>\<open>unescape\<close> for paths.\<close>

fun unescape_path :: "string \<Rightarrow> string option" where
  "unescape_path [] = Some []"
| "unescape_path (c # cs) =
     (if c \<noteq> CHR ''%'' then map_option (\<lambda>r. c # r) (unescape_path cs)
      else case cs of
        a # b # r \<Rightarrow>
          (case (hex_val a, hex_val b) of
             (Some x, Some y) \<Rightarrow> map_option (\<lambda>t. char_of (16 * x + y) # t) (unescape_path r)
           | _ \<Rightarrow> None)
      | _ \<Rightarrow> None)"

text \<open>
  \<open>unescape\<close> for hosts: \<open>%25\<close> and the escapes of non-ASCII bytes are the only ones allowed,
  and of the plain ASCII characters only those a host may hold.
\<close>

definition host_char :: "char \<Rightarrow> bool" where
  "host_char c \<longleftrightarrow> is_letter c \<or> is_digit c \<or> digit7 c \<or>
     c \<in> set ''-_.~!$&'()*+,;=:[]<>'' \<or> c = CHR 0x22"

fun unescape_host :: "string \<Rightarrow> string option" where
  "unescape_host [] = Some []"
| "unescape_host (c # cs) =
     (if c \<noteq> CHR ''%'' then (if host_char c then map_option (\<lambda>r. c # r) (unescape_host cs) else None)
      else case cs of
        a # b # r \<Rightarrow>
          (case (hex_val a, hex_val b) of
             (Some x, Some y) \<Rightarrow>
               if x < 8 \<and> \<not> (a = CHR ''2'' \<and> b = CHR ''5'') then None
               else map_option (\<lambda>t. char_of (16 * x + y) # t) (unescape_host r)
           | _ \<Rightarrow> None)
      | _ \<Rightarrow> None)"

definition valid_optional_port :: "string \<Rightarrow> bool" where
  "valid_optional_port s \<longleftrightarrow> (s = [] \<or> hd s = CHR '':'' \<and> list_all is_digit (tl s))"

text \<open>
  \<open>parseHost\<close>, for hosts without IPv6 zone: a bracketed host with a zone identifier is not
  modelled and counts as refused (\<open>SplitHostPort\<close> and the later dial would accept it).
\<close>

definition url_parse_host :: "string \<Rightarrow> string option" where
  "url_parse_host h =
     (if has_prefix h ''['' then
        (case cut_last (CHR '']'') h of
           None \<Rightarrow> None
         | Some (a, port) \<Rightarrow>
             if \<not> valid_optional_port port \<or> contains_str a ''%25'' then None else unescape_host h)
      else case cut_last (CHR '':'') h of
          None \<Rightarrow> unescape_host h
        | Some (a, port) \<Rightarrow> if valid_optional_port (CHR '':'' # port) then unescape_host h else None)"

definition userinfo_char :: "char \<Rightarrow> bool" where
  "userinfo_char c \<longleftrightarrow> is_letter c \<or> is_digit c \<or> c \<in> set ''-._:~!$&'()*+,;=%@''"

definition url_parse_authority :: "string \<Rightarrow> string option" where
  "url_parse_authority a =
     (case cut_last (CHR ''@'') a of
        None \<Rightarrow> url_parse_host a
      | Some (u, h) \<Rightarrow>
          (case url_parse_host h of
             None \<Rightarrow> None
           | Some host \<Rightarrow>
               if list_all userinfo_char u \<and> unescape_path u \<noteq> None then Some host else None))"

definition before_char :: "char \<Rightarrow> string \<Rightarrow> string" where
  "before_char c s = takeWhile (\<lambda>x. x \<noteq> c) s"

text \<open>The ASCII control characters: below 32 (the three high bits are clear), and 127.\<close>

definition ctl_char :: "char \<Rightarrow> bool" where
  "ctl_char c \<longleftrightarrow> \<not> digit5 c \<and> \<not> digit6 c \<and> \<not> digit7 c \<or> c = CHR 0x7F"

definition has_ctl :: "string \<Rightarrow> bool" where
  "has_ctl s = list_ex ctl_char s"

definition url_parse :: "string \<Rightarrow> url option" where
  "url_parse raw =
     (let s = before_char (CHR ''#'') raw; frag = drop (Suc (length s)) raw in
      if has_ctl s \<or> unescape_path frag = None then None
      else if s = ''*'' then Some \<lparr>url_scheme = [], url_host = [], url_path = ''*''\<rparr>
      else case get_scheme s of
        None \<Rightarrow> None
      | Some (sch, r0) \<Rightarrow>
          let scheme = to_lower sch; r = before_char (CHR ''?'') r0 in
          if \<not> has_prefix r ''/'' \<and> scheme \<noteq> [] then
            Some \<lparr>url_scheme = scheme, url_host = [], url_path = []\<rparr>
          else if \<not> has_prefix r ''/'' \<and> CHR '':'' \<in> set (before_char (CHR ''/'') r) then None
          else if (scheme \<noteq> [] \<or> \<not> has_prefix r ''///'') \<and> has_prefix r ''//'' then
            (let a = before_char (CHR ''/'') (drop 2 r); p = drop (length a) (drop 2 r) in
             case url_parse_authority a of
               None \<Rightarrow> None
             | Some h \<Rightarrow>
                 map_option (\<lambda>q. \<lparr>url_scheme = scheme, url_host = h, url_path = q\<rparr>) (unescape_path p))
          else map_option (\<lambda>q. \<lparr>url_scheme = scheme, url_host = [], url_path = q\<rparr>) (unescape_path r))"

section \<open>\<open>pkg/utils/net.go\<close>\<close>

definition is_ipv4 :: "string \<Rightarrow> bool" where
  "is_ipv4 s \<longleftrightarrow> parse_ip s \<noteq> None \<and> CHR ''.'' \<in> set s"

definition is_ipv6 :: "string \<Rightarrow> bool" where
  "is_ipv6 s \<longleftrightarrow> parse_ip s \<noteq> None \<and> CHR '':'' \<in> set s"

definition remove_local_ips :: "string list \<Rightarrow> string list" where
  "remove_local_ips ips =
     filter (\<lambda>ip. \<not> (is_ipv4 ip \<and> take 4 ip = ''127.'') \<and>
       \<not> (is_ipv6 ip \<and> (ip = ''::1'' \<or> take 2 ip = ''fc'' \<or> take 2 ip = ''fd'' \<or> take 2 ip = ''fe''))) ips"

end
