(* ===== verification/ConnectAddress.thy ===== *)
theory ConnectAddress
  imports NetAddr "HOL-Library.Multiset" "HOL-Library.Word"
begin

text \<open>
  The connect URL of the daemon installation and the address it is rewritten to
  (\<open>internal/actions/daemon/install/connect_url.go\<close>, \<open>resolve_address.go\<close>), and the choice
  of the listen address with Go's binary heap (\<open>daemon_install.go\<close>). The TLS probe is a
  parameter; verifying a host name against a certificate is modelled as \<open>crypto/x509\<close> does it.
\<close>

section \<open>Connect URLs\<close>

record connect_info =
  ci_host :: string
  ci_port :: "16 word"
  ci_setup_key :: string

definition invalid_connect_url :: "string \<Rightarrow> connect_info result" where
  "invalid_connect_url msg = Inl (WithMessage InvalidConnectURL msg)"

definition parse_connect_url :: "string \<Rightarrow> connect_info result" where
  "parse_connect_url raw =
     (case url_parse raw of
        None \<Rightarrow> invalid_connect_url ''failed to parse URL''
      | Some u \<Rightarrow>
          if url_scheme u \<noteq> ''grpc'' then invalid_connect_url ''scheme must be \"grpc\"''
          else case split_host_port (url_host u) of
            None \<Rightarrow> invalid_connect_url ''host and port are required''
          | Some (host, port) \<Rightarrow>
              if host = [] then invalid_connect_url ''host is required''
              else case go_atoi port of
                None \<Rightarrow> invalid_connect_url ''port must be between 1 and 65535''
              | Some n \<Rightarrow>
                  if n < 1 \<or> n > 65535 then invalid_connect_url ''port must be between 1 and 65535''
                  else let key = trim_prefix (url_path u) ''/'' in
                    if key = [] then invalid_connect_url ''setup key is required''
                    else Inr \<lparr>ci_host = host, ci_port = word_of_int n, ci_setup_key = key\<rparr>)"

definition connect_address :: "connect_info \<Rightarrow> string" where
  "connect_address c = join_host_port (ci_host c) (itoa_nat (unat (ci_port c)))"

definition connect_url :: "connect_info \<Rightarrow> string" where
  "connect_url c = ''grpc://'' @ connect_address c @ ''/'' @ ci_setup_key c"

section \<open>Certificates\<close>

record certificate =
  cert_raw :: string
  cert_ips :: "ip list"
  cert_dns :: "string list"

definition match_exactly :: "string \<Rightarrow> string \<Rightarrow> bool" where
  "match_exactly a b \<longleftrightarrow>
     a \<noteq> [] \<and> a \<noteq> ''.'' \<and> b \<noteq> [] \<and> b \<noteq> ''.'' \<and> to_lower a = to_lower b"

fun match_labels :: "string list \<Rightarrow> string list \<Rightarrow> bool" where
  "match_labels (p # ps) (h # hs) \<longleftrightarrow> (p = ''*'' \<or> p = h) \<and> ps = hs"
| "match_labels ps hs \<longleftrightarrow> ps = hs"

definition match_hostnames :: "string \<Rightarrow> string \<Rightarrow> bool" where
  "match_hostnames pat host =
     (let p = to_lower pat; h = to_lower (trim_suffix host ''.'') in
      p \<noteq> [] \<and> h \<noteq> [] \<and> match_labels (split_char (CHR ''.'') p) (split_char (CHR ''.'') h))"

definition valid_label :: "string \<Rightarrow> bool" where
  "valid_label l \<longleftrightarrow>
     l \<noteq> [] \<and> hd l \<noteq> CHR ''-'' \<and> list_all (\<lambda>c. is_letter c \<or> is_digit c \<or> c = CHR ''-'' \<or> c = CHR ''_'') l"

definition valid_hostname :: "bool \<Rightarrow> string \<Rightarrow> bool" where
  "valid_hostname is_pattern host =
     (let h = (if is_pattern then host else trim_suffix host ''.'') in
      h \<noteq> [] \<and> h \<noteq> ''*'' \<and>
      (case split_char (CHR ''.'') h of
         [] \<Rightarrow> True
       | l # ls \<Rightarrow> (valid_label l \<or> is_pattern \<and> l = ''*'') \<and> list_all valid_label ls))"

definition cert_covers_host :: "certificate \<Rightarrow> string \<Rightarrow> bool" where
  "cert_covers_host cert h =
     (let cand = (if length h \<ge> 3 \<and> hd h = CHR ''['' \<and> last h = CHR '']'' then butlast (tl h) else h) in
      case parse_ip cand of
        Some ip \<Rightarrow> ip \<in> set (cert_ips cert)
      | None \<Rightarrow>
          let name = to_lower h in
          list_ex (\<lambda>m. if valid_hostname False name \<and> valid_hostname True m
                       then match_hostnames m name else match_exactly m name) (cert_dns cert))"

definition same_certificate :: "certificate \<Rightarrow> certificate \<Rightarrow> bool" where
  "same_certificate a b \<longleftrightarrow> cert_raw a = cert_raw b"

section \<open>The best listen address\<close>

text \<open>Go's \<open>container/heap\<close> on a slice of weighted values; \<open>Less\<close> compares with \<open>>\<close>.\<close>

record weight_struct =
  ws_v :: string
  ws_w :: int

type_synonym weight_heap = "weight_struct list"

definition heap_less :: "weight_heap \<Rightarrow> nat \<Rightarrow> nat \<Rightarrow> bool" where
  "heap_less h i j \<longleftrightarrow> ws_w (h ! i) > ws_w (h ! j)"

definition heap_swap :: "nat \<Rightarrow> nat \<Rightarrow> weight_heap \<Rightarrow> weight_heap" where
  "heap_swap i j h = h[j := h ! i, i := h ! j]"

function heap_up :: "weight_heap \<Rightarrow> nat \<Rightarrow> weight_heap" where
  "heap_up h j =
     (let i = (j - 1) div 2 in
      if i = j \<or> \<not> heap_less h j i then h else heap_up (heap_swap i j h) i)"
  by pat_completeness auto
termination by (relation "measure snd") auto

text \<open>The child of \<open>i\<close> that \<open>down\<close> compares with it.\<close>

definition heap_child :: "weight_heap \<Rightarrow> nat \<Rightarrow> nat \<Rightarrow> nat" where
  "heap_child h i n =
     (let j1 = 2 * i + 1 in if j1 + 1 < n \<and> heap_less h (j1 + 1) j1 then j1 + 1 else j1)"

lemma heap_child_gt: "i < heap_child h i n"
  by (simp add: heap_child_def Let_def)

lemma heap_child_less: "2 * i + 1 < n \<Longrightarrow> heap_child h i n < n"
  by (simp add: heap_child_def Let_def)

function heap_down :: "weight_heap \<Rightarrow> nat \<Rightarrow> nat \<Rightarrow> weight_heap" where
  "heap_down h i n =
     (if 2 * i + 1 \<ge> n then h
      else let j = heap_child h i n in
        if \<not> heap_less h j i then h else heap_down (heap_swap i j h) j n)"
  by pat_completeness auto
termination
proof (relation "measure (\<lambda>(h, i, n). n - i)")
  fix h :: weight_heap and i n j :: nat
  assume "\<not> n \<le> 2 * i + 1" "j = heap_child h i n"
  then show "((heap_swap i j h, j, n), h, i, n) \<in> measure (\<lambda>(h, i, n). n - i)"
    using heap_child_gt [of i h n] by simp
qed simp

declare heap_up.simps [simp del] heap_down.simps [simp del]

definition heap_push :: "weight_struct \<Rightarrow> weight_heap \<Rightarrow> weight_heap" where
  "heap_push x h = heap_up (h @ [x]) (length h)"

definition heap_pop :: "weight_heap \<Rightarrow> weight_struct \<times> weight_heap" where
  "heap_pop h =
     (let n = length h - 1; h' = heap_down (heap_swap 0 n h) 0 n in (last h', butlast h'))"

definition ip_preference_weight :: "string \<Rightarrow> int" where
  "ip_preference_weight ip =
     (if is_ipv6 ip then 0
      else if has_prefix ip ''127.'' then 100
      else if has_prefix ip ''169.'' then 200
      else if has_prefix ip ''172.'' then 300
      else if has_prefix ip ''10.'' then 400
      else if has_prefix ip ''192.168'' then 500
      else 1000)"

definition choose_best_ip :: "string list \<Rightarrow> string" where
  "choose_best_ip ips =
     (if ips = [] then ''0.0.0.0''
      else ws_v (fst (heap_pop
        (fold (\<lambda>ip. heap_push \<lparr>ws_v = ip, ws_w = ip_preference_weight ip\<rparr>) ips []))))"

section \<open>Candidate addresses\<close>

definition normalize_host :: "string \<Rightarrow> string" where
  "normalize_host h = (case parse_ip h of Some ip \<Rightarrow> ip_string ip | None \<Rightarrow> h)"

text \<open>\<open>sort.SliceStable\<close> by descending weight.\<close>

definition sort_ips_by_preference :: "string list \<Rightarrow> string list" where
  "sort_ips_by_preference ips = sort_key (\<lambda>ip. - ip_preference_weight ip) ips"

definition parsed_ips :: "string list \<Rightarrow> string list" where
  "parsed_ips ips = map ip_string (List.map_filter parse_ip ips)"

definition san_wanted :: "string \<Rightarrow> ip \<Rightarrow> bool" where
  "san_wanted orig ip \<longleftrightarrow>
     \<not> (ip_string ip = normalize_host orig \<or> ip_unspecified ip \<or> ip_link_local ip)"

definition dns_wanted :: "string \<Rightarrow> string \<Rightarrow> bool" where
  "dns_wanted orig name \<longleftrightarrow> \<not> (contains_str name ''*'' \<or> equal_fold name orig)"

definition candidate_hosts_from_cert :: "certificate \<Rightarrow> string list \<Rightarrow> string \<Rightarrow> string list" where
  "candidate_hosts_from_cert cert local orig =
     (let sans = filter (san_wanted orig) (cert_ips cert);
          loopback = map ip_string (filter ip_loopback sans);
          local_san = filter (\<lambda>s. s \<in> set (parsed_ips local))
            (map ip_string (filter (\<lambda>ip. \<not> ip_loopback ip) sans));
          names = filter (dns_wanted orig) (cert_dns cert)
      in dedup (sort_ips_by_preference local_san @ loopback @
           filter (\<lambda>n. \<not> equal_fold n ''localhost'') names @
           (if list_ex (\<lambda>n. equal_fold n ''localhost'') names then [''localhost''] else [])))"

definition local_probe_candidates :: "string list \<Rightarrow> string \<Rightarrow> string list" where
  "local_probe_candidates local orig =
     dedup (sort_ips_by_preference
       (filter (\<lambda>s. s \<noteq> normalize_host orig)
         (map ip_string (filter (\<lambda>ip. \<not> (ip_loopback ip \<or> ip_unspecified ip \<or> ip_link_local ip))
           (List.map_filter parse_ip local)))) @ [''127.0.0.1''])"

section \<open>Resolving the connect address\<close>

text \<open>
  The TLS probe answers an error when nothing accepts the connection, else the certificate
  it saw, if any. \<open>suggested\<close> stands for what is printed on the terminal.
\<close>

record 's resolve_deps =
  tls_probe :: "string \<Rightarrow> ('s, certificate option) io"
  local_ips :: "'s \<Rightarrow> string list"
  suggest :: "string \<Rightarrow> 's \<Rightarrow> 's"

fun suggest_candidates :: "'s resolve_deps \<Rightarrow> connect_info \<Rightarrow> string list \<Rightarrow> 's \<Rightarrow> 's" where
  "suggest_candidates deps info [] s = s"
| "suggest_candidates deps info (c # cs) s =
     (case tls_probe deps (connect_address (info\<lparr>ci_host := c\<rparr>)) s of
        (Inr (Some leaf), t) \<Rightarrow>
          if cert_covers_host leaf c then suggest deps (connect_url (info\<lparr>ci_host := c\<rparr>)) t
          else suggest_candidates deps info cs t
      | (_, t) \<Rightarrow> suggest_candidates deps info cs t)"

definition suggest_local_panel :: "'s resolve_deps \<Rightarrow> connect_info \<Rightarrow> 's \<Rightarrow> 's" where
  "suggest_local_panel deps info s =
     suggest_candidates deps info (local_probe_candidates (local_ips deps s) (ci_host info)) s"

fun try_candidates ::
  "'s resolve_deps \<Rightarrow> connect_info \<Rightarrow> certificate \<Rightarrow> string list \<Rightarrow> ('s, string) io" where
  "try_candidates deps info orig [] s = (Inl (WithMessage ConnectHostNotCovered (ci_host info)), s)"
| "try_candidates deps info orig (c # cs) s =
     (case tls_probe deps (connect_address (info\<lparr>ci_host := c\<rparr>)) s of
        (Inr (Some leaf), t) \<Rightarrow>
          if \<not> same_certificate leaf orig \<or> \<not> cert_covers_host leaf c
          then try_candidates deps info orig cs t
          else (Inr (connect_url (info\<lparr>ci_host := c\<rparr>)), t)
      | (_, t) \<Rightarrow> try_candidates deps info orig cs t)"

definition rewrite_to_covered_candidate ::
  "'s resolve_deps \<Rightarrow> connect_info \<Rightarrow> certificate \<Rightarrow> ('s, string) io" where
  "rewrite_to_covered_candidate deps info orig s =
     try_candidates deps info orig (candidate_hosts_from_cert orig (local_ips deps s) (ci_host info)) s"

definition resolve_connect_address :: "'s resolve_deps \<Rightarrow> string \<Rightarrow> ('s, string) io" where
  "resolve_connect_address deps raw s =
     (case parse_connect_url raw of
        Inl e \<Rightarrow> (Inl (WithMessage e ''invalid connect URL''), s)
      | Inr info \<Rightarrow>
          (case tls_probe deps (connect_address info) s of
             (Inl e, t) \<Rightarrow> (Inl e, suggest_local_panel deps info t)
           | (Inr None, t) \<Rightarrow> (Inr raw, t)
           | (Inr (Some leaf), t) \<Rightarrow>
               if cert_covers_host leaf (ci_host info) then (Inr raw, t)
               else rewrite_to_covered_candidate deps info leaf t))"

section \<open>Lemmas\<close>

subsection \<open>Priority queues\<close>

text \<open>
  What a client of a priority queue relies on: pushing adds one element, popping a
  non-empty queue takes out one of greatest priority.
\<close>

locale max_queue =
  fixes empty :: 'q
    and push :: "'a \<Rightarrow> 'q \<Rightarrow> 'q"
    and pop :: "'q \<Rightarrow> 'a \<times> 'q"
    and items :: "'q \<Rightarrow> 'a multiset"
    and wf :: "'q \<Rightarrow> bool"
    and prio :: "'a \<Rightarrow> 'p::linorder"
  assumes wf_empty: "wf empty" and items_empty: "items empty = {#}"
    and wf_push: "wf q \<Longrightarrow> wf (push x q)"
    and items_push: "wf q \<Longrightarrow> items (push x q) = add_mset x (items q)"
    and pop_item: "wf q \<Longrightarrow> items q \<noteq> {#} \<Longrightarrow> fst (pop q) \<in># items q"
    and pop_max: "wf q \<Longrightarrow> x \<in># items q \<Longrightarrow> prio x \<le> prio (fst (pop q))"
    and pop_items: "wf q \<Longrightarrow> items q \<noteq> {#} \<Longrightarrow> items (snd (pop q)) = items q - {#fst (pop q)#}"
begin

definition push_all :: "'a list \<Rightarrow> 'q" where
  "push_all xs = fold push xs empty"

lemma fold_push: "wf q \<Longrightarrow> wf (fold push xs q) \<and> items (fold push xs q) = mset xs + items q"
  by (induction xs arbitrary: q) (simp_all add: wf_push items_push)

lemma push_all: "wf (push_all xs)" "items (push_all xs) = mset xs"
  using fold_push [OF wf_empty, of xs] by (simp_all add: push_all_def items_empty)

lemma best_of_all:
  assumes "xs \<noteq> []"
  shows "fst (pop (push_all xs)) \<in> set xs" "x \<in> set xs \<Longrightarrow> prio x \<le> prio (fst (pop (push_all xs)))"
  using pop_item [OF push_all(1), of xs] pop_max [OF push_all(1), of x xs] assms
  by (simp_all add: push_all(2))

end

definition heap_ok :: "weight_heap \<Rightarrow> bool" where
  "heap_ok h \<longleftrightarrow> (\<forall>k. 0 < k \<and> k < length h \<longrightarrow> ws_w (h ! k) \<le> ws_w (h ! ((k - 1) div 2)))"

text \<open>The heap order holds except that the element at \<open>j\<close> may be too heavy for its place.\<close>

definition heap_ok_but :: "nat \<Rightarrow> weight_heap \<Rightarrow> bool" where
  "heap_ok_but j h \<longleftrightarrow>
     (\<forall>k. 0 < k \<and> k < length h \<and> k \<noteq> j \<longrightarrow> ws_w (h ! k) \<le> ws_w (h ! ((k - 1) div 2))) \<and>
     (\<forall>k. 0 < k \<and> k < length h \<and> (k - 1) div 2 = j \<and> 0 < j \<longrightarrow> ws_w (h ! k) \<le> ws_w (h ! ((j - 1) div 2)))"

lemma length_heap_swap [simp]: "length (heap_swap i j h) = length h"
  by (simp add: heap_swap_def)

lemma mset_heap_swap: "i < length h \<Longrightarrow> j < length h \<Longrightarrow> mset (heap_swap i j h) = mset h"
  unfolding heap_swap_def by (rule mset_swap)

lemma nth_heap_swap:
  "i < length h \<Longrightarrow> j < length h \<Longrightarrow>
     heap_swap i j h ! k = (if k = i then h ! j else if k = j then h ! i else h ! k)"
  by (auto simp: heap_swap_def nth_list_update)

lemma heap_swap_ok_but:
  assumes "heap_ok_but j h" "0 < j" "j < length h" and i: "(j - 1) div 2 = i"
    and gt: "ws_w (h ! i) < ws_w (h ! j)"
  shows "heap_ok_but i (heap_swap i j h)"
proof -
  define par :: "nat \<Rightarrow> nat" where "par k = (k - 1) div 2" for k
  define w where "w k = ws_w (h ! k)" for k
  define w' where "w' k = ws_w (heap_swap i j h ! k)" for k
  have ij: "i < j" and il: "i < length h" using assms(2,3) i by auto
  have pj: "par j = i" using i by (simp add: par_def)
  have v: "w' k = (if k = i then w j else if k = j then w i else w k)" for k
    using nth_heap_swap [OF il assms(3), of k] by (simp add: w_def w'_def)
  have gt: "w i < w j" using gt by (simp add: w_def)
  have o1: "w k \<le> w (par k)" if "0 < k" "k < length h" "k \<noteq> j" for k
    using assms(1) that by (simp add: heap_ok_but_def w_def par_def)
  have o2: "w k \<le> w i" if "0 < k" "k < length h" "par k = j" for k
    using assms(1,2) that i by (simp add: heap_ok_but_def w_def par_def)
  have 1: "w' k \<le> w' (par k)" if k: "0 < k" "k < length h" "k \<noteq> i" for k
  proof (cases "k = j")
    case True
    then show ?thesis using gt ij pj by (simp add: v)
  next
    case False
    then show ?thesis
      using o1 [OF k(1,2) False] o2 [OF k(1,2)] gt k(3) by (cases "par k = i") (simp_all add: v)
  qed
  have 2: "w' k \<le> w' (par i)" if k: "0 < k" "k < length h" "par k = i" "0 < i" for k
  proof -
    have p: "par i < i" using k(4) by (simp add: par_def)
    have ki: "k \<noteq> i" using k(1,3) by (auto simp: par_def)
    have ip: "w i \<le> w (par i)" using o1 [of i] k(4) il ij by simp
    then show ?thesis using o1 [OF k(1,2)] k(3) p ki ij by (cases "k = j") (simp_all add: v)
  qed
  from 1 2 show ?thesis unfolding heap_ok_but_def length_heap_swap w'_def par_def by blast
qed

lemma heap_up_ok:
  "heap_ok_but j h \<Longrightarrow> j < length h \<Longrightarrow> heap_ok (heap_up h j) \<and> mset (heap_up h j) = mset h"
proof (induction h j rule: heap_up.induct)
  case (1 h j)
  let ?i = "(j - 1) div 2"
  show ?case
  proof (cases "?i = j \<or> \<not> heap_less h j ?i")
    case True
    have "j = 0 \<or> ws_w (h ! j) \<le> ws_w (h ! ?i)"
    proof (cases "j = 0")
      case False
      then have "?i \<noteq> j" by arith
      with True show ?thesis by (auto simp: heap_less_def)
    qed simp
    with "1.prems"(1) have "heap_ok h" by (auto simp: heap_ok_def heap_ok_but_def)
    moreover have "heap_up h j = h" using True by (simp add: heap_up.simps [of h j] Let_def)
    ultimately show ?thesis by simp
  next
    case False
    then have j: "0 < j" by (cases j) auto
    have eq: "heap_up h j = heap_up (heap_swap ?i j h) ?i"
      using False by (simp add: heap_up.simps [of h j] Let_def)
    have il: "?i < length h" using "1.prems"(2) by simp
    have "heap_ok_but ?i (heap_swap ?i j h)"
      by (rule heap_swap_ok_but [OF "1.prems"(1) j "1.prems"(2) refl])
        (use False in \<open>simp add: heap_less_def\<close>)
    with False "1.IH" [OF refl] il show ?thesis
      unfolding eq by (simp add: mset_heap_swap "1.prems"(2))
  qed
qed

lemma heap_push_ok: "heap_ok h \<Longrightarrow> heap_ok (heap_push x h) \<and> mset (heap_push x h) = add_mset x (mset h)"
proof -
  assume ok: "heap_ok h"
  have "heap_ok_but (length h) (h @ [x])"
    unfolding heap_ok_but_def
  proof (intro conjI allI impI)
    fix k
    assume k: "0 < k \<and> k < length (h @ [x]) \<and> k \<noteq> length h"
    then have "k < length h" "(k - 1) div 2 < length h" by auto
    with ok k show "ws_w ((h @ [x]) ! k) \<le> ws_w ((h @ [x]) ! ((k - 1) div 2))"
      by (simp add: heap_ok_def nth_append)
  next
    fix k
    assume k: "0 < k \<and> k < length (h @ [x]) \<and> (k - 1) div 2 = length h \<and> 0 < length h"
    then have "(k - 1) div 2 < length h" by auto
    with k show "ws_w ((h @ [x]) ! k) \<le> ws_w ((h @ [x]) ! ((length h - 1) div 2))" by simp
  qed
  from heap_up_ok [OF this] show ?thesis by (simp add: heap_push_def)
qed

lemma heap_root_max: "heap_ok h \<Longrightarrow> k < length h \<Longrightarrow> ws_w (h ! k) \<le> ws_w (h ! 0)"
proof (induction k rule: less_induct)
  case (less k)
  show ?case
  proof (cases "k = 0")
    case False
    then have "(k - 1) div 2 < k" by arith
    with less have "ws_w (h ! ((k - 1) div 2)) \<le> ws_w (h ! 0)" by simp
    moreover have "ws_w (h ! k) \<le> ws_w (h ! ((k - 1) div 2))"
      using less.prems False by (simp add: heap_ok_def)
    ultimately show ?thesis by simp
  qed simp
qed

lemma heap_down_keeps:
  "n \<le> length h \<Longrightarrow> i < n \<or> n = 0 \<Longrightarrow>
     mset (heap_down h i n) = mset h \<and> length (heap_down h i n) = length h \<and>
     (\<forall>k. n \<le> k \<longrightarrow> heap_down h i n ! k = h ! k)"
proof (induction h i n rule: heap_down.induct)
  case (1 h i n)
  let ?j = "heap_child h i n"
  show ?case
  proof (cases "2 * i + 1 \<ge> n \<or> \<not> heap_less h ?j i")
    case True
    then have "heap_down h i n = h" by (subst heap_down.simps) (auto simp: Let_def)
    then show ?thesis by simp
  next
    case False
    then have lt: "2 * i + 1 < n" and less: "heap_less h ?j i" by simp_all
    have j: "?j < n" and il: "i < n" using heap_child_less [OF lt] lt by simp_all
    have eq: "heap_down h i n = heap_down (heap_swap i ?j h) ?j n"
      using lt less by (subst heap_down.simps) (simp add: Let_def)
    have len: "i < length h" "?j < length h" using j il "1.prems"(1) by linarith+
    have sw: "heap_swap i ?j h ! k = h ! k" if "n \<le> k" for k
      using that j il by (simp add: nth_heap_swap [OF len])
    have "mset (heap_down (heap_swap i ?j h) ?j n) = mset (heap_swap i ?j h) \<and>
      length (heap_down (heap_swap i ?j h) ?j n) = length (heap_swap i ?j h) \<and>
      (\<forall>k. n \<le> k \<longrightarrow> heap_down (heap_swap i ?j h) ?j n ! k = heap_swap i ?j h ! k)"
      by (rule "1.IH" [OF _ refl]) (use lt less j "1.prems"(1) in simp_all)
    then show ?thesis unfolding eq using mset_heap_swap [OF len] sw by simp
  qed
qed

lemma heap_pop_root:
  assumes "h \<noteq> []"
  shows "fst (heap_pop h) = h ! 0" "mset (snd (heap_pop h)) = mset h - {#h ! 0#}"
proof -
  let ?n = "length h - 1"
  let ?s = "heap_swap 0 ?n h"
  have n: "?n < length h" "0 < length h" using assms by simp_all
  have sn: "?s ! ?n = h ! 0" using nth_heap_swap [OF n(2,1), of ?n] by simp
  let ?d = "heap_down ?s 0 ?n"
  have "mset ?d = mset ?s \<and> length ?d = length ?s \<and> (\<forall>k. ?n \<le> k \<longrightarrow> ?d ! k = ?s ! k)"
    by (rule heap_down_keeps) auto
  then have m: "mset ?d = mset h" and len: "length ?d = length h" and "?d ! ?n = h ! 0"
    using mset_heap_swap [OF n(2,1)] sn by simp_all
  then have d: "?d \<noteq> []" "last ?d = h ! 0" using assms by (simp_all add: last_conv_nth flip: length_greater_0_conv)
  then show "fst (heap_pop h) = h ! 0" by (simp add: heap_pop_def Let_def)
  have "?d = butlast ?d @ [h ! 0]" using append_butlast_last_id [OF d(1)] d(2) by simp
  then have "mset ?d = add_mset (h ! 0) (mset (butlast ?d))" by (metis mset_append mset.simps add_mset_add_single)
  with m show "mset (snd (heap_pop h)) = mset h - {#h ! 0#}" by (simp add: heap_pop_def Let_def)
qed

interpretation go_heap: max_queue "[]" heap_push heap_pop mset heap_ok ws_w
proof unfold_locales
  fix x q
  show "heap_ok []" "mset [] = {#}" by (simp_all add: heap_ok_def)
  assume q: "heap_ok q"
  show "heap_ok (heap_push x q)" "mset (heap_push x q) = add_mset x (mset q)"
    using heap_push_ok [OF q] by simp_all
  show "fst (heap_pop q) \<in># mset q" if "mset q \<noteq> {#}" using that heap_pop_root(1) [of q] by simp
  show "mset (snd (heap_pop q)) = mset q - {#fst (heap_pop q)#}" if "mset q \<noteq> {#}"
    using that heap_pop_root [of q] by simp
  show "ws_w x \<le> ws_w (fst (heap_pop q))" if "x \<in># mset q"
  proof -
    from that obtain k where "k < length q" "x = q ! k" by (auto simp: in_set_conv_nth)
    moreover from that have "q \<noteq> []" by auto
    ultimately show ?thesis using heap_root_max [OF q] heap_pop_root(1) by simp
  qed
qed

subsection \<open>Connect URLs\<close>

lemma takeWhile_neq: "c \<notin> set a \<Longrightarrow> takeWhile (\<lambda>x. x \<noteq> c) (a @ c # b) = a"
  by (induction a) auto

lemma cut_last_append:
  assumes "c \<notin> set b"
  shows "cut_last c (a @ c # b) = Some (a, b)"
proof -
  have "takeWhile (\<lambda>x. x \<noteq> c) (rev (a @ c # b)) = rev b"
    using takeWhile_neq [of c "rev b" "rev a"] assms by simp
  then show ?thesis by (simp add: cut_last_def Let_def)
qed

lemma cut_last_None: "c \<notin> set s \<Longrightarrow> cut_last c s = None"
  by (simp add: cut_last_def)

lemma before_char_notin: "c \<notin> set s \<Longrightarrow> before_char c s = s"
  by (induction s) (auto simp: before_char_def)

lemma before_char_append: "c \<notin> set s \<Longrightarrow> before_char c (s @ c # t) = s"
  by (induction s) (auto simp: before_char_def)

text \<open>The characters of host names and IP addresses, and those of an address with a port.\<close>

definition plain_host_chars :: string where
  "plain_host_chars = ''abcdefghijklmnopqrstuvwxyzABCDEFGHIJKLMNOPQRSTUVWXYZ0123456789-_.:''"

definition plain_host :: "string \<Rightarrow> bool" where
  "plain_host h \<longleftrightarrow> h \<noteq> [] \<and> set h \<subseteq> set plain_host_chars"

definition plain_key :: "string \<Rightarrow> bool" where
  "plain_key k \<longleftrightarrow> k \<noteq> [] \<and> \<not> has_ctl k \<and> set k \<inter> set ''%#?'' = {}"

lemma address_char_facts:
  "list_all (\<lambda>c. host_char c \<and> c \<notin> set ''#?/@%'' \<and> \<not> ctl_char c)
     (plain_host_chars @ ''[]'')"
  by code_simp

lemma address_char:
  assumes "c \<in> set (plain_host_chars @ ''[]'')"
  shows "host_char c" "c \<notin> set ''#?/@%''" "\<not> ctl_char c"
  using address_char_facts assms unfolding list_all_iff by blast+

lemma digit_plain: "is_digit c \<Longrightarrow> c \<in> set plain_host_chars"
  by (auto simp: is_digit_def plain_host_chars_def)

lemma plain_no_bracket: "CHR ''['' \<notin> set plain_host_chars" "CHR '']'' \<notin> set plain_host_chars"
  by (simp_all add: plain_host_chars_def)

lemma colon_plain: "CHR '':'' \<in> set plain_host_chars"
  by (simp add: plain_host_chars_def)

lemma set_itoa_plain: "set (itoa_nat n) \<subseteq> set plain_host_chars"
  using itoa_nat_digits [of n] digit_plain by (auto simp: list_all_iff)

lemma set_connect_address:
  "plain_host (ci_host c) \<Longrightarrow> set (connect_address c) \<subseteq> set (plain_host_chars @ ''[]'')"
  using set_itoa_plain [of "unat (ci_port c)"]
    colon_plain by (auto simp: connect_address_def join_host_port_def plain_host_def)

lemma unescape_host_id:
  "set s \<subseteq> set (plain_host_chars @ ''[]'') \<Longrightarrow> unescape_host s = Some s"
proof (induction s)
  case (Cons c s)
  then have c: "c \<in> set (plain_host_chars @ ''[]'')" by simp
  have "host_char c" "c \<noteq> CHR ''%''" using address_char(1,2) [OF c] by auto
  with Cons show ?case by simp
qed simp

lemma unescape_path_id: "CHR ''%'' \<notin> set s \<Longrightarrow> unescape_path s = Some s"
  by (induction s) auto

lemma split_join_host_port:
  assumes "plain_host h" "list_all is_digit port"
  shows "split_host_port (join_host_port h port) = Some (h, port)"
proof -
  have nc: "CHR '':'' \<notin> set port" "CHR '']'' \<notin> set port" "CHR ''['' \<notin> set port"
    using assms(2) not_digit by (auto simp: list_all_iff)
  have nb: "CHR ''['' \<notin> set h" "CHR '']'' \<notin> set h"
    using assms(1) plain_no_bracket by (auto simp: plain_host_def)
  show ?thesis
  proof (cases "CHR '':'' \<in> set h")
    case True
    have tw: "takeWhile (\<lambda>c. c \<noteq> CHR '']'') (''['' @ h @ '']:'' @ port) = ''['' @ h"
      using takeWhile_neq [of "CHR '']''" "''['' @ h" "'':'' @ port"] nb(2) by simp
    have cl: "cut_last (CHR '':'') (''['' @ h @ '']:'' @ port) = Some (''['' @ h @ '']'', port)"
      using cut_last_append [OF nc(1), of "''['' @ h @ '']''"] by simp
    show ?thesis
      using True nb nc tw cl by (simp add: split_host_port_def join_host_port_def)
  next
    case False
    have "cut_last (CHR '':'') (h @ '':'' @ port) = Some (h, port)"
      using cut_last_append [OF nc(1), of h] by simp
    moreover have "\<not> has_prefix (h @ '':'' @ port) ''[''"
      using nb assms(1) by (cases h) (auto simp: plain_host_def)
    ultimately show ?thesis
      using False nb nc by (simp add: split_host_port_def join_host_port_def)
  qed
qed

lemma url_parse_host_join:
  assumes "plain_host h" "list_all is_digit port"
    and addr: "set (join_host_port h port) \<subseteq> set (plain_host_chars @ ''[]'')"
  shows "url_parse_host (join_host_port h port) = Some (join_host_port h port)"
proof -
  have nc: "CHR '':'' \<notin> set port" "CHR '']'' \<notin> set port" using assms(2) not_digit by (auto simp: list_all_iff)
  have nb: "CHR ''['' \<notin> set h" "CHR '']'' \<notin> set h"
    using assms(1) plain_no_bracket by (auto simp: plain_host_def)
  show ?thesis
  proof (cases "CHR '':'' \<in> set h")
    case True
    have "cut_last (CHR '']'') (''['' @ h @ '']:'' @ port) = Some (''['' @ h, '':'' @ port)"
      using cut_last_append [of "CHR '']''" "'':'' @ port" "''['' @ h"] nc by simp
    moreover have "\<not> contains_str (''['' @ h) ''%25''"
    proof
      assume "contains_str (''['' @ h) ''%25''"
      then obtain a b where ab: "''['' @ h = a @ ''%25'' @ b" by (auto simp: contains_str_iff)
      have "CHR ''%'' \<in> set (''['' @ h)" unfolding ab by simp
      then show False using address_char(2) [of "CHR ''%''"] assms(1) by (auto simp: plain_host_def)
    qed
    ultimately show ?thesis
      using True unescape_host_id [OF addr] assms(2)
      by (simp add: url_parse_host_def join_host_port_def valid_optional_port_def)
  next
    case False
    have "cut_last (CHR '':'') (h @ '':'' @ port) = Some (h, port)"
      using cut_last_append [OF nc(1), of h] by simp
    moreover have "\<not> has_prefix (h @ '':'' @ port) ''[''"
      using nb assms(1) by (cases h) (auto simp: plain_host_def)
    ultimately show ?thesis
      using False unescape_host_id [OF addr] assms(2)
      by (simp add: url_parse_host_def join_host_port_def valid_optional_port_def)
  qed
qed

lemma has_ctl_append: "has_ctl (a @ b) = (has_ctl a \<or> has_ctl b)"
  by (simp add: has_ctl_def)

lemma get_scheme_grpc: "get_scheme (''grpc://'' @ s) = Some (''grpc'', ''//'' @ s)"
proof -
  have "list_all scheme_char ''grpc'' \<and> \<not> scheme_char (CHR '':'') \<and> is_letter (CHR ''g'')" by code_simp
  then show ?thesis by (simp add: get_scheme_def Let_def)
qed

lemma url_parse_connect:
  assumes "plain_host (ci_host c)" "plain_key (ci_setup_key c)"
  shows "url_parse (connect_url c) =
    Some \<lparr>url_scheme = ''grpc'', url_host = connect_address c, url_path = ''/'' @ ci_setup_key c\<rparr>"
proof -
  let ?a = "connect_address c" and ?k = "ci_setup_key c"
  have a: "set ?a \<subseteq> set (plain_host_chars @ ''[]'')" by (rule set_connect_address [OF assms(1)])
  have an: "x \<notin> set ?a" if "x \<in> set ''#?/@%''" for x using a address_char(2) that by blast
  have ctl: "\<not> has_ctl ?a"
    using a address_char(3) unfolding has_ctl_def list_ex_iff by blast
  have kn: "CHR ''#'' \<notin> set ?k" "CHR ''?'' \<notin> set ?k" "CHR ''%'' \<notin> set ?k" "\<not> has_ctl ?k"
    using assms(2) by (auto simp: plain_key_def)
  have raw: "connect_url c = ''grpc://'' @ ?a @ ''/'' @ ?k" by (simp add: connect_url_def)
  have h: "before_char (CHR ''#'') (connect_url c) = connect_url c"
    unfolding raw by (rule before_char_notin) (use an kn in simp)
  have c0: "\<not> has_ctl (connect_url c)"
    using ctl kn(4) unfolding raw by (simp add: has_ctl_append) (simp add: has_ctl_def ctl_char_def)
  have q: "before_char (CHR ''?'') (''//'' @ ?a @ ''/'' @ ?k) = ''//'' @ ?a @ ''/'' @ ?k"
    by (rule before_char_notin) (use an kn in simp)
  have sl: "before_char (CHR ''/'') (?a @ ''/'' @ ?k) = ?a"
    using before_char_append [of "CHR ''/''" ?a ?k] an by simp
  have dig: "list_all is_digit (itoa_nat n)" for n by (rule itoa_nat_digits)
  have "url_parse_authority ?a = Some ?a"
    using url_parse_host_join [OF assms(1) dig] a cut_last_None [of "CHR ''@''" ?a] an
    by (simp add: url_parse_authority_def connect_address_def)
  moreover have "get_scheme (connect_url c) = Some (''grpc'', ''//'' @ ?a @ ''/'' @ ?k)"
    unfolding raw by (rule get_scheme_grpc)
  moreover have "unescape_path (''/'' @ ?k) = Some (''/'' @ ?k)"
    by (rule unescape_path_id) (use kn in simp)
  moreover have "to_lower ''grpc'' = ''grpc''" by code_simp
  moreover have "connect_url c \<noteq> ''*''" by (simp add: raw)
  ultimately show ?thesis
    using h c0 q sl by (simp add: url_parse_def Let_def)
qed

subsection \<open>Candidates\<close>

lemma set_sort_ips [simp]: "set (sort_ips_by_preference ips) = set ips"
  by (simp add: sort_ips_by_preference_def)

text \<open>Every candidate is named by the certificate, and an IP candidate is one of this machine's.\<close>

definition cert_candidate :: "certificate \<Rightarrow> string list \<Rightarrow> string \<Rightarrow> string \<Rightarrow> bool" where
  "cert_candidate cert local orig h \<longleftrightarrow>
     (\<exists>ip \<in> set (cert_ips cert). h = ip_string ip \<and> h \<noteq> normalize_host orig \<and>
        (ip_loopback ip \<or> h \<in> set (parsed_ips local))) \<or>
     (h \<in> set (cert_dns cert) \<and> \<not> equal_fold h orig) \<or>
     (h = ''localhost'' \<and> (\<exists>n \<in> set (cert_dns cert). equal_fold n ''localhost''))"

lemma candidate_hosts_sound:
  "h \<in> set (candidate_hosts_from_cert cert local orig) \<Longrightarrow> cert_candidate cert local orig h"
  by (auto simp: candidate_hosts_from_cert_def cert_candidate_def Let_def san_wanted_def dns_wanted_def
      list_ex_iff split: if_splits)

lemma try_candidates_Inr:
  "try_candidates deps info orig cs s = (Inr u, t) \<Longrightarrow>
     \<exists>h leaf s'. h \<in> set cs \<and> u = connect_url (info\<lparr>ci_host := h\<rparr>) \<and>
       tls_probe deps (connect_address (info\<lparr>ci_host := h\<rparr>)) s' = (Inr (Some leaf), t) \<and>
       same_certificate leaf orig \<and> cert_covers_host leaf h"
proof (induction cs arbitrary: s)
  case Nil
  then show ?case by simp
next
  case (Cons c cs)
  obtain q v where p: "tls_probe deps (connect_address (info\<lparr>ci_host := c\<rparr>)) s = (q, v)" by fastforce
  consider leaf where "q = Inr (Some leaf)" "same_certificate leaf orig" "cert_covers_host leaf c"
    | "try_candidates deps info orig (c # cs) s = try_candidates deps info orig cs v"
  proof (cases "\<exists>leaf. q = Inr (Some leaf) \<and> same_certificate leaf orig \<and> cert_covers_host leaf c")
    case True
    with that(1) show thesis by blast
  next
    case False
    with p have "try_candidates deps info orig (c # cs) s = try_candidates deps info orig cs v"
      by (auto split: sum.split option.split)
    with that(2) show thesis by blast
  qed
  then show ?case
  proof cases
    case 1
    with Cons.prems p have "u = connect_url (info\<lparr>ci_host := c\<rparr>)" "v = t" by simp_all
    with 1 p show ?thesis by (intro exI [of _ c] exI [of _ leaf] exI [of _ s]) simp
  next
    case 2
    with Cons.prems have "try_candidates deps info orig cs v = (Inr u, t)" by simp
    from Cons.IH [OF this] show ?thesis by auto
  qed
qed

section \<open>Properties\<close>

text \<open>
  C3: a connect URL survives being printed and parsed: for every host name, IPv4 or IPv6
  address, every port but 0 and every setup key without \<open>%\<close>, \<open>#\<close>, \<open>?\<close> and control characters,
  \<open>ParseConnectURL(info.URL())\<close> is \<open>info\<close>.
\<close>

theorem connect_url_roundtrip:
  assumes "plain_host (ci_host c)" "plain_key (ci_setup_key c)" "ci_port c \<noteq> 0"
  shows "parse_connect_url (connect_url c) = Inr c"
proof -
  let ?n = "unat (ci_port c)"
  have sp: "split_host_port (connect_address c) = Some (ci_host c, itoa_nat ?n)"
    unfolding connect_address_def by (rule split_join_host_port [OF assms(1) itoa_nat_digits])
  have b: "?n < 65536" using unsigned_less [of "ci_port c"] by simp
  then have at: "go_atoi (itoa_nat ?n) = Some (int ?n)" by (intro atoi_itoa) simp
  have "0 < ?n" using assms(3) by (simp add: unat_gt_0)
  then have pos: "\<not> int ?n < 1" by linarith
  have le: "\<not> 65535 < int ?n" using b by linarith
  have w: "word_of_int (int ?n) = ci_port c" by simp
  have ne: "ci_host c \<noteq> []" "ci_setup_key c \<noteq> []"
    using assms(1,2) by (simp_all add: plain_host_def plain_key_def)
  have tp: "trim_prefix (''/'' @ ci_setup_key c) ''/'' = ci_setup_key c" by (rule trim_prefix_append)
  show ?thesis
    unfolding parse_connect_url_def url_parse_connect [OF assms(1,2)]
    using sp at pos le w ne tp by (simp add: Let_def)
qed

theorem connect_url_roundtrip_witness:
  "parse_connect_url ''grpc://[fd00::7]:31718/setup-key'' =
     Inr \<lparr>ci_host = ''fd00::7'', ci_port = 31718, ci_setup_key = ''setup-key''\<rparr>"
proof -
  let ?c = "\<lparr>ci_host = ''fd00::7'', ci_port = 31718, ci_setup_key = ''setup-key''\<rparr>"
  have "itoa_nat 31718 = ''31718''" by code_simp
  then have "connect_url ?c = ''grpc://[fd00::7]:31718/setup-key''"
    by (simp add: connect_url_def connect_address_def join_host_port_def)
  moreover have "plain_host (ci_host ?c)" "plain_key (ci_setup_key ?c)"
    by (simp_all add: plain_host_def plain_host_chars_def plain_key_def has_ctl_def ctl_char_def)
  ultimately show ?thesis using connect_url_roundtrip [of ?c] by simp
qed

text \<open>
  C2: the connect URL is only ever rewritten to an address of this panel: a successful
  \<open>resolveConnectAddress\<close> returns the URL the user gave, unless the certificate that the
  panel presented there does not cover its host; then the returned URL has the same port and
  setup key and a host named by that certificate, where the very same certificate was seen
  and which that certificate covers.
\<close>

theorem resolve_connect_address_sound:
  assumes "resolve_connect_address deps raw s = (Inr u, t)"
  shows "\<exists>info. parse_connect_url raw = Inr info \<and> (u = raw \<or>
    (\<exists>orig h leaf s1 s2 s3. tls_probe deps (connect_address info) s = (Inr (Some orig), s1) \<and>
       \<not> cert_covers_host orig (ci_host info) \<and> u = connect_url (info\<lparr>ci_host := h\<rparr>) \<and>
       cert_candidate orig (local_ips deps s1) (ci_host info) h \<and>
       tls_probe deps (connect_address (info\<lparr>ci_host := h\<rparr>)) s2 = (Inr (Some leaf), s3) \<and>
       cert_raw leaf = cert_raw orig \<and> cert_covers_host leaf h))"
proof -
  obtain info where info: "parse_connect_url raw = Inr info"
    using assms by (cases "parse_connect_url raw") (simp_all add: resolve_connect_address_def)
  obtain q s1 where p: "tls_probe deps (connect_address info) s = (q, s1)" by fastforce
  have "u = raw \<or> (\<exists>orig. q = Inr (Some orig) \<and> \<not> cert_covers_host orig (ci_host info) \<and>
      rewrite_to_covered_candidate deps info orig s1 = (Inr u, t))"
    using assms info p
    by (cases q) (auto simp: resolve_connect_address_def split: option.splits if_splits)
  then show ?thesis
  proof
    assume "u = raw"
    with info show ?thesis by blast
  next
    assume "\<exists>orig. q = Inr (Some orig) \<and> \<not> cert_covers_host orig (ci_host info) \<and>
      rewrite_to_covered_candidate deps info orig s1 = (Inr u, t)"
    then obtain orig where o: "q = Inr (Some orig)" "\<not> cert_covers_host orig (ci_host info)"
      "rewrite_to_covered_candidate deps info orig s1 = (Inr u, t)" by blast
    from try_candidates_Inr [OF o(3) [unfolded rewrite_to_covered_candidate_def]]
    obtain h leaf s2 where
      "h \<in> set (candidate_hosts_from_cert orig (local_ips deps s1) (ci_host info))"
      and h: "u = connect_url (info\<lparr>ci_host := h\<rparr>)"
      "tls_probe deps (connect_address (info\<lparr>ci_host := h\<rparr>)) s2 = (Inr (Some leaf), t)"
      "same_certificate leaf orig" "cert_covers_host leaf h" by blast
    then have "cert_candidate orig (local_ips deps s1) (ci_host info) h"
      by (simp add: candidate_hosts_sound)
    with info p o h show ?thesis unfolding same_certificate_def by blast
  qed
qed

definition nat_panel_cert :: certificate where
  "nat_panel_cert = \<lparr>cert_raw = ''panel'', cert_ips = [], cert_dns = [''panel'']\<rparr>"

definition nat_panel_deps :: "unit resolve_deps" where
  "nat_panel_deps = \<lparr>tls_probe = (\<lambda>a. retE (Some nat_panel_cert)), local_ips = (\<lambda>_. []), suggest = (\<lambda>_ s. s)\<rparr>"

theorem resolve_connect_address_sound_witness:
  "\<exists>info. parse_connect_url ''grpc://example:31718/k'' = Inr info \<and>
     fst (resolve_connect_address nat_panel_deps ''grpc://example:31718/k'' ()) = Inr ''grpc://panel:31718/k''"
proof -
  have r: "resolve_connect_address nat_panel_deps ''grpc://example:31718/k'' () = (Inr ''grpc://panel:31718/k'', ())"
    by code_simp
  from resolve_connect_address_sound [OF r] r show ?thesis by auto
qed

text \<open>
  When the panel cannot be reached the installation fails with the connection error: a
  panel found on this machine is at most suggested to the user, never used.
\<close>

theorem unreachable_panel_never_replaced:
  assumes "parse_connect_url raw = Inr info" "tls_probe deps (connect_address info) s = (Inl e, t)"
  shows "fst (resolve_connect_address deps raw s) = Inl e"
  using assms by (simp add: resolve_connect_address_def)

theorem unreachable_panel_never_replaced_witness:
  "fst (resolve_connect_address
      (nat_panel_deps\<lparr>tls_probe := (\<lambda>a. if a = ''example:1'' then failE (Err ''refused'') else retE (Some nat_panel_cert)),
         local_ips := (\<lambda>_. [''10.0.0.5''])\<rparr>)
      ''grpc://example:1/k'' ()) = Inl (Err ''refused'')"
proof -
  let ?i = "\<lparr>ci_host = ''example'', ci_port = 1, ci_setup_key = ''k''\<rparr>"
  have "parse_connect_url ''grpc://example:1/k'' = Inr ?i" and a: "connect_address ?i = ''example:1''"
    by code_simp+
  then show ?thesis
    by (intro unreachable_panel_never_replaced [of _ ?i _ "()" _ "()"]) (simp_all add: failE_def)
qed

text \<open>
  C4: \<open>chooseBestIP\<close> returns one of the addresses it is given, and none of them is preferred
  to it: the heap with its reversed \<open>Less\<close> really pops a maximal weight.
\<close>

theorem choose_best_ip_maximal:
  assumes "ips \<noteq> []"
  shows "choose_best_ip ips \<in> set ips \<and>
    (\<forall>ip \<in> set ips. ip_preference_weight ip \<le> ip_preference_weight (choose_best_ip ips))"
proof -
  let ?w = "\<lambda>ip. \<lparr>ws_v = ip, ws_w = ip_preference_weight ip\<rparr>"
  have f: "fold (\<lambda>ip. heap_push (?w ip)) ips [] = go_heap.push_all (map ?w ips)"
    by (simp add: go_heap.push_all_def fold_map comp_def)
  have ne: "map ?w ips \<noteq> []" using assms by simp
  let ?b = "fst (heap_pop (go_heap.push_all (map ?w ips)))"
  from go_heap.best_of_all(1) [OF ne] obtain b where b: "b \<in> set ips" "?b = ?w b" by auto
  have "ip_preference_weight ip \<le> ip_preference_weight b" if "ip \<in> set ips" for ip
    using go_heap.best_of_all(2) [OF ne, of "?w ip"] that b(2) by simp
  with b assms show ?thesis by (simp add: choose_best_ip_def f)
qed

theorem choose_best_ip_maximal_witness:
  "choose_best_ip [''127.0.0.1'', ''::1'', ''192.168.1.5'', ''203.0.113.9''] = ''203.0.113.9'' \<and>
   ip_preference_weight ''::1'' \<le> ip_preference_weight ''203.0.113.9''"
proof -
  let ?ips = "[''127.0.0.1'', ''::1'', ''192.168.1.5'', ''203.0.113.9'']"
  have "choose_best_ip ?ips = ''203.0.113.9''" by code_simp
  then show ?thesis using choose_best_ip_maximal [of ?ips] by auto
qed

end
