(* ===== verification/System.thy ===== *)
theory System
  imports GoStrings
begin

text \<open>
  The machine the program works on: files with their contents, directories, and the rest of
  the world as a type parameter. File operations are executable on this state; which of them
  the operating system refuses, and what a refused write leaves behind, are parameters.
  Paths are handled as by \<open>path/filepath\<close> on Unix.
\<close>

section \<open>Paths\<close>

text \<open>\<open>filepath.Clean\<close>: the components left, last one first.\<close>

fun clean_parts :: "bool \<Rightarrow> string list \<Rightarrow> string list \<Rightarrow> string list" where
  "clean_parts rooted acc [] = acc"
| "clean_parts rooted acc (c # cs) =
     (if c = [] \<or> c = ''.'' then clean_parts rooted acc cs
      else if c = ''..'' then
        (case acc of
           [] \<Rightarrow> clean_parts rooted (if rooted then [] else [''..'']) cs
         | d # ds \<Rightarrow>
             if d = ''..'' then clean_parts rooted (''..'' # acc) cs else clean_parts rooted ds cs)
      else clean_parts rooted (c # acc) cs)"

definition path_is_abs :: "string \<Rightarrow> bool" where
  "path_is_abs p \<longleftrightarrow> has_prefix p ''/''"

definition path_clean :: "string \<Rightarrow> string" where
  "path_clean p =
     (let r = path_is_abs p; ps = rev (clean_parts r [] (split_char (CHR ''/'') p))
      in if r then ''/'' @ join_with ''/'' ps
         else if ps = [] then ''.'' else join_with ''/'' ps)"

definition path_join :: "string list \<Rightarrow> string" where
  "path_join ps =
     (let qs = filter (\<lambda>p. p \<noteq> []) ps in if qs = [] then [] else path_clean (join_with ''/'' qs))"

definition path_dir :: "string \<Rightarrow> string" where
  "path_dir p = path_clean (rev (dropWhile (\<lambda>c. c \<noteq> CHR ''/'') (rev p)))"

text \<open>A path with all the directories above it, as \<open>os.MkdirAll\<close> makes them.\<close>

fun path_prefixes :: "string \<Rightarrow> string \<Rightarrow> string list" where
  "path_prefixes acc [] = [acc]"
| "path_prefixes acc (c # cs) =
     (if c = CHR ''/'' \<and> acc \<noteq> [] then acc # path_prefixes (acc @ [c]) cs
      else path_prefixes (acc @ [c]) cs)"

section \<open>Files\<close>

text \<open>The service managers of \<open>pkg/service\<close>; the loaded one is a variable of the program.\<close>

datatype service_kind = WindowsService | SystemdService | BasicService

record 'w machine =
  files :: "string \<rightharpoonup> string"
  dirs :: "string set"
  world :: 'w
  service_memo :: "service_kind option option"

datatype fs_op =
    OpRead string
  | OpStat string
  | OpWrite string
  | OpCreate string
  | OpRename string string
  | OpRemove string
  | OpMkdir string

text \<open>
  \<open>fault\<close> is the error of the operating system, if it refuses an operation; \<open>torn\<close> is what
  a write that fails midway leaves in the file (\<open>None\<close>: it is as before).
\<close>

record 'w os_env =
  fault :: "fs_op \<Rightarrow> 'w machine \<Rightarrow> go_error option"
  torn :: "string \<Rightarrow> string \<Rightarrow> 'w machine \<Rightarrow> string option"
  command_available :: "string \<Rightarrow> 'w machine \<Rightarrow> bool"

type_synonym ('w, 'a) sys = "('w machine, 'a) io"

definition path_exists :: "'w machine \<Rightarrow> string \<Rightarrow> bool" where
  "path_exists m p \<longleftrightarrow> files m p \<noteq> None \<or> p \<in> dirs m"

datatype stat_reply = StatOk | StatMissing | StatFailed go_error

definition stat_file :: "'w os_env \<Rightarrow> string \<Rightarrow> 'w machine \<Rightarrow> stat_reply" where
  "stat_file os p m =
     (case fault os (OpStat p) m of
        Some e \<Rightarrow> StatFailed e
      | None \<Rightarrow> if path_exists m p then StatOk else StatMissing)"

definition read_file :: "'w os_env \<Rightarrow> string \<Rightarrow> ('w, string) sys" where
  "read_file os p m =
     (case fault os (OpRead p) m of
        Some e \<Rightarrow> (Inl e, m)
      | None \<Rightarrow> (case files m p of None \<Rightarrow> (Inl (NotExist p), m) | Some c \<Rightarrow> (Inr c, m)))"

definition put_file :: "string \<Rightarrow> string \<Rightarrow> 'w machine \<Rightarrow> 'w machine" where
  "put_file p c m = m\<lparr>files := (files m)(p \<mapsto> c)\<rparr>"

definition write_file :: "'w os_env \<Rightarrow> string \<Rightarrow> string \<Rightarrow> ('w, unit) sys" where
  "write_file os p c m =
     (case fault os (OpWrite p) m of
        Some e \<Rightarrow> (Inl e, case torn os p c m of None \<Rightarrow> m | Some d \<Rightarrow> put_file p d m)
      | None \<Rightarrow> (Inr (), put_file p c m))"

text \<open>\<open>os.OpenFile\<close> with \<open>O_CREATE|O_EXCL\<close> and the write of the whole content after it.\<close>

definition create_file :: "'w os_env \<Rightarrow> string \<Rightarrow> ('w, unit) sys" where
  "create_file os p m =
     (case fault os (OpCreate p) m of
        Some e \<Rightarrow> (Inl e, m)
      | None \<Rightarrow> if path_exists m p then (Inl (Err (''file exists: '' @ p)), m) else (Inr (), put_file p [] m))"

definition remove_file :: "'w os_env \<Rightarrow> string \<Rightarrow> ('w, unit) sys" where
  "remove_file os p m =
     (case fault os (OpRemove p) m of
        Some e \<Rightarrow> (Inl e, m)
      | None \<Rightarrow> (if files m p = None then (Inl (NotExist p), m)
                else (Inr (), m\<lparr>files := (files m)(p := None)\<rparr>)))"

definition rename_file :: "'w os_env \<Rightarrow> string \<Rightarrow> string \<Rightarrow> ('w, unit) sys" where
  "rename_file os p q m =
     (case fault os (OpRename p q) m of
        Some e \<Rightarrow> (Inl e, m)
      | None \<Rightarrow> (case files m p of
            None \<Rightarrow> (Inl (NotExist p), m)
          | Some c \<Rightarrow> (Inr (), m\<lparr>files := (files m)(p := None, q \<mapsto> c)\<rparr>)))"

definition mkdir_all :: "'w os_env \<Rightarrow> string \<Rightarrow> ('w, unit) sys" where
  "mkdir_all os p m =
     (case fault os (OpMkdir p) m of
        Some e \<Rightarrow> (Inl e, m)
      | None \<Rightarrow> (Inr (), m\<lparr>dirs := dirs m \<union> set (path_prefixes [] p)\<rparr>))"

text \<open>\<open>os.Mkdir\<close>: one directory, whose parent must be there.\<close>

definition make_dir :: "'w os_env \<Rightarrow> string \<Rightarrow> ('w, unit) sys" where
  "make_dir os p m =
     (case fault os (OpMkdir p) m of
        Some e \<Rightarrow> (Inl e, m)
      | None \<Rightarrow>
          if path_exists m p then (Inl (Err (''file exists: '' @ p)), m)
          else if path_dir p \<notin> dirs m then (Inl (NotExist p), m)
          else (Inr (), m\<lparr>dirs := insert p (dirs m)\<rparr>))"

text \<open>\<open>filepath.Base\<close>.\<close>

definition path_base :: "string \<Rightarrow> string" where
  "path_base p =
     (let q = rev (dropWhile (\<lambda>c. c = CHR ''/'') (rev p))
      in if p = [] then ''.'' else if q = [] then ''/''
         else rev (takeWhile (\<lambda>c. c \<noteq> CHR ''/'') (rev q)))"

text \<open>Errors whose value is only logged: \<open>_ = f()\<close>, \<open>if err := f(); err != nil { log }\<close>.\<close>

definition quietly :: "('s, 'a) io \<Rightarrow> ('s, unit) io" where
  "quietly m s = (Inr (), snd (m s))"

text \<open>An operating system that refuses nothing, for examples.\<close>

definition calm_os :: "'w os_env" where
  "calm_os = \<lparr>fault = (\<lambda>_ _. None), torn = (\<lambda>_ _ _. None), command_available = (\<lambda>_ _. True)\<rparr>"

section \<open>Lemmas\<close>

lemma quietly_eq [simp]: "quietly m s = (Inr x, t) \<longleftrightarrow> t = snd (m s)"
  by (auto simp: quietly_def)

lemma quietly_not_Inl [simp]: "quietly m s \<noteq> (Inl e, t)"
  by (simp add: quietly_def)

lemma files_put [simp]: "files (put_file p c m) = (files m)(p \<mapsto> c)" "dirs (put_file p c m) = dirs m"
  "world (put_file p c m) = world m"
  by (simp_all add: put_file_def)

lemma read_file_Inr: "read_file os p m = (Inr c, m') \<longleftrightarrow> fault os (OpRead p) m = None \<and> files m p = Some c \<and> m' = m"
  by (auto simp: read_file_def split: option.splits)

lemma read_file_state: "snd (read_file os p m) = m"
  by (simp add: read_file_def split: option.split)

lemma read_file_Inl: "read_file os p m = (Inl e, m') \<Longrightarrow> m' = m"
  by (auto simp: read_file_def split: option.splits)

lemma write_file_Inr: "write_file os p c m = (Inr u, m') \<longleftrightarrow> fault os (OpWrite p) m = None \<and> m' = put_file p c m"
  by (auto simp: write_file_def split: option.splits)

lemma write_file_others: "q \<noteq> p \<Longrightarrow> files (snd (write_file os p c m)) q = files m q"
  by (simp add: write_file_def split: option.split)

lemma create_file_Inr:
  "create_file os p m = (Inr u, m') \<longleftrightarrow> fault os (OpCreate p) m = None \<and> \<not> path_exists m p \<and> m' = put_file p [] m"
  by (auto simp: create_file_def split: option.splits)

lemma create_file_Inl: "create_file os p m = (Inl e, m') \<Longrightarrow> m' = m"
  by (auto simp: create_file_def split: option.splits if_splits)

lemma remove_file_others: "q \<noteq> p \<Longrightarrow> files (snd (remove_file os p m)) q = files m q"
  by (simp add: remove_file_def split: option.split)

lemma mkdir_all_files [simp]: "files (snd (mkdir_all os p m)) = files m"
  by (simp add: mkdir_all_def split: option.split)

text \<open>An operation that leaves a file as it is.\<close>

definition leaves :: "string \<Rightarrow> ('w, 'a) sys \<Rightarrow> bool" where
  "leaves p m \<longleftrightarrow> keeps (\<lambda>a b. files b p = files a p) m"

lemma leavesD: "leaves p m \<Longrightarrow> m s = (r, t) \<Longrightarrow> files t p = files s p"
  using keepsD [of "\<lambda>a b. files b p = files a p" m s] by (simp add: leaves_def)

lemma leavesI: "(\<And>s. files (snd (m s)) p = files s p) \<Longrightarrow> leaves p m"
  by (simp add: leaves_def keeps_def)

lemma leaves_basic [intro]:
  "leaves p (retE x)" "leaves p (failE e)"
  "leaves p m \<Longrightarrow> leaves p (wrapE msg m)" "leaves p m \<Longrightarrow> leaves p (quietly m)"
  by (simp_all add: leaves_def keeps_def quietly_def)

lemma leaves_bindE: "leaves p m \<Longrightarrow> (\<And>x. leaves p (f x)) \<Longrightarrow> leaves p (bindE m f)"
  unfolding leaves_def by (rule keeps_bindE) (auto simp: transp_def)

lemma leaves_finallyE: "leaves p m \<Longrightarrow> leaves p f \<Longrightarrow> leaves p (finallyE m f)"
  unfolding leaves_def by (rule keeps_finallyE) (auto simp: transp_def)

lemma leaves_write: "p \<noteq> q \<Longrightarrow> leaves p (write_file os q c)"
  by (intro leavesI write_file_others)

lemma leaves_remove: "p \<noteq> q \<Longrightarrow> leaves p (remove_file os q)"
  by (intro leavesI remove_file_others)

lemma leaves_read [simp]: "leaves p (read_file os q)"
  by (intro leavesI) (simp add: read_file_state)

lemma leaves_mkdir [simp]: "leaves p (mkdir_all os q)"
  by (intro leavesI) simp

lemma leaves_rename: "p \<noteq> a \<Longrightarrow> p \<noteq> b \<Longrightarrow> leaves p (rename_file os a b)"
  by (intro leavesI) (auto simp: rename_file_def split: option.split)

lemma leaves_catchE: "leaves p m \<Longrightarrow> (\<And>e. leaves p (h e)) \<Longrightarrow> leaves p (catchE m h)"
  unfolding leaves_def by (rule keeps_catchE) (auto simp: transp_def)

end
