(* ===== verification/Scopes.thy ===== *)
theory Scopes
  imports System
begin

text \<open>
  Installation scopes and the paths they imply: \<open>pkg/gameap/scope.go\<close>, \<open>daemon_paths*.go\<close>,
  \<open>panel_paths*.go\<close> and their constants, and the panel scope of the update, control and
  uninstall commands (\<open>internal/pkg/panel/scope.go\<close>). The home directory is a parameter
  (\<open>None\<close> where \<open>os.UserHomeDir\<close> fails).
\<close>

section \<open>Scopes\<close>

definition scope_system :: string where "scope_system = ''system''"
definition scope_user :: string where "scope_user = ''user''"

definition scope_or_default :: "string \<Rightarrow> string" where
  "scope_or_default scope = (if scope = [] then scope_system else scope)"

definition resolve_scope_for_os :: "string \<Rightarrow> string \<Rightarrow> string result" where
  "resolve_scope_for_os scope goos =
     (if scope_or_default scope = scope_system then Inr scope_system
      else if scope_or_default scope = scope_user then
        (if goos \<noteq> ''linux''
         then Inl (Err (''--scope=user requires Linux with systemd (current OS: '' @ goos @ '')''))
         else Inr scope_user)
      else Inl (Err (''unknown --scope value '' @ scope)))"

section \<open>Daemon paths\<close>

record daemon_paths =
  dp_scope :: string
  dp_work_path :: string
  dp_steamcmd_path :: string
  dp_tools_path :: string
  dp_certs_path :: string
  dp_daemon_file_path :: string
  dp_config_file_path :: string
  dp_config_dir :: string
  dp_output_log_path :: string
  dp_systemd_unit_path :: string
  dp_systemd_unit_dir :: string

definition default_work_path :: string where "default_work_path = ''/srv/gameap''"
definition default_daemon_cert_path :: string where "default_daemon_cert_path = ''/etc/gameap-daemon/certs''"
definition default_tools_path :: string where "default_tools_path = ''/srv/gameap''"
definition default_steamcmd_path :: string where "default_steamcmd_path = ''/srv/gameap/steamcmd''"
definition default_daemon_file_path :: string where "default_daemon_file_path = ''/usr/bin/gameap-daemon''"
definition default_daemon_config_file_path :: string where
  "default_daemon_config_file_path = ''/etc/gameap-daemon/gameap-daemon.yaml''"
definition default_output_log_path :: string where
  "default_output_log_path = ''/var/log/gameap-daemon/output.log''"
definition system_daemon_unit_path :: string where
  "system_daemon_unit_path = ''/etc/systemd/system/gameap-daemon.service''"

definition system_daemon_paths :: daemon_paths where
  "system_daemon_paths =
     \<lparr>dp_scope = scope_system, dp_work_path = default_work_path,
      dp_steamcmd_path = default_steamcmd_path, dp_tools_path = default_tools_path,
      dp_certs_path = default_daemon_cert_path, dp_daemon_file_path = default_daemon_file_path,
      dp_config_file_path = default_daemon_config_file_path,
      dp_config_dir = path_dir default_daemon_config_file_path,
      dp_output_log_path = default_output_log_path,
      dp_systemd_unit_path = system_daemon_unit_path,
      dp_systemd_unit_dir = path_dir system_daemon_unit_path\<rparr>"

definition user_daemon_paths_from_home :: "string \<Rightarrow> daemon_paths" where
  "user_daemon_paths_from_home home =
     (let work = path_join [home, ''gameap''];
          config_dir = path_join [home, ''.config'', ''gameap-daemon''];
          unit_dir = path_join [home, ''.config'', ''systemd'', ''user''];
          state_dir = path_join [home, ''.local'', ''state'', ''gameap-daemon'']
      in \<lparr>dp_scope = scope_user, dp_work_path = work,
          dp_steamcmd_path = path_join [work, ''steamcmd''], dp_tools_path = work,
          dp_certs_path = path_join [config_dir, ''certs''],
          dp_daemon_file_path = path_join [home, ''.local'', ''bin'', ''gameap-daemon''],
          dp_config_file_path = path_join [config_dir, ''gameap-daemon.yaml''],
          dp_config_dir = config_dir,
          dp_output_log_path = path_join [state_dir, ''output.log''],
          dp_systemd_unit_path = path_join [unit_dir, ''gameap-daemon.service''],
          dp_systemd_unit_dir = unit_dir\<rparr>)"

definition user_home :: "string option \<Rightarrow> string result" where
  "user_home home =
     (case home of
        None \<Rightarrow> Inl (Err ''failed to detect user home directory'')
      | Some h \<Rightarrow> if h = [] then Inl (Err ''empty user home directory'') else Inr h)"

definition daemon_paths_for_scope :: "string option \<Rightarrow> string \<Rightarrow> daemon_paths result" where
  "daemon_paths_for_scope home scope =
     (if scope = [] \<or> scope = scope_system then Inr system_daemon_paths
      else if scope = scope_user then
        (case user_home home of Inl e \<Rightarrow> Inl e | Inr h \<Rightarrow> Inr (user_daemon_paths_from_home h))
      else Inl (Err (''unknown daemon scope '' @ scope)))"

section \<open>Panel paths\<close>

record panel_paths =
  pp_scope :: string
  pp_config_dir :: string
  pp_config_file_path :: string
  pp_data_dir :: string
  pp_files_base_path :: string
  pp_binary_path :: string
  pp_systemd_unit_path :: string
  pp_systemd_unit_dir :: string
  pp_user :: string
  pp_group :: string

definition default_config_file_path :: string where "default_config_file_path = ''/etc/gameap/config.env''"
definition default_data_path :: string where "default_data_path = ''/var/lib/gameap''"
definition default_binary_path :: string where "default_binary_path = ''/usr/bin/gameap''"
definition system_panel_unit_path :: string where
  "system_panel_unit_path = ''/etc/systemd/system/gameap.service''"

definition system_panel_paths :: panel_paths where
  "system_panel_paths =
     \<lparr>pp_scope = scope_system, pp_config_dir = path_dir default_config_file_path,
      pp_config_file_path = default_config_file_path, pp_data_dir = default_data_path,
      pp_files_base_path = path_join [default_data_path, ''files''],
      pp_binary_path = default_binary_path, pp_systemd_unit_path = system_panel_unit_path,
      pp_systemd_unit_dir = path_dir system_panel_unit_path,
      pp_user = ''gameap'', pp_group = ''gameap''\<rparr>"

definition user_panel_paths_from_home :: "string \<Rightarrow> panel_paths" where
  "user_panel_paths_from_home home =
     (let config_dir = path_join [home, ''.config'', ''gameap''];
          data_dir = path_join [home, ''.local'', ''share'', ''gameap''];
          unit_dir = path_join [home, ''.config'', ''systemd'', ''user'']
      in \<lparr>pp_scope = scope_user, pp_config_dir = config_dir,
          pp_config_file_path = path_join [config_dir, ''config.env''],
          pp_data_dir = data_dir, pp_files_base_path = path_join [data_dir, ''files''],
          pp_binary_path = path_join [home, ''.local'', ''bin'', ''gameap''],
          pp_systemd_unit_path = path_join [unit_dir, ''gameap.service''],
          pp_systemd_unit_dir = unit_dir, pp_user = [], pp_group = []\<rparr>)"

definition panel_paths_for_scope :: "string option \<Rightarrow> string \<Rightarrow> panel_paths result" where
  "panel_paths_for_scope home scope =
     (if scope = [] \<or> scope = scope_system then Inr system_panel_paths
      else if scope = scope_user then
        (case user_home home of Inl e \<Rightarrow> Inl e | Inr h \<Rightarrow> Inr (user_panel_paths_from_home h))
      else Inl (Err (''unknown panel scope '' @ scope)))"

section \<open>The scope of a panel command\<close>

definition detect_scope_from_paths :: "'w machine \<Rightarrow> panel_paths \<Rightarrow> panel_paths \<Rightarrow> string" where
  "detect_scope_from_paths m sys_paths user_paths =
     (if path_exists m (pp_systemd_unit_path user_paths) then scope_user
      else if path_exists m (pp_systemd_unit_path sys_paths) then scope_system
      else if path_exists m (pp_binary_path user_paths) \<and> \<not> path_exists m (pp_binary_path sys_paths)
      then scope_user
      else scope_system)"

text \<open>
  \<open>recorded\<close> is the scope of the panel install state, \<open>None\<close> when the state cannot be loaded.
\<close>

definition resolve_panel_scope ::
  "string \<Rightarrow> string option \<Rightarrow> string option \<Rightarrow> 'w machine \<Rightarrow> string \<Rightarrow> panel_paths result" where
  "resolve_panel_scope goos home recorded m flag =
     (if flag \<noteq> [] then
        (case resolve_scope_for_os flag goos of
           Inl e \<Rightarrow> Inl e
         | Inr scope \<Rightarrow> panel_paths_for_scope home scope)
      else case recorded of
        Some (c # cs) \<Rightarrow> panel_paths_for_scope home (c # cs)
      | _ \<Rightarrow>
          (case panel_paths_for_scope home scope_system of
             Inl e \<Rightarrow> Inl (WithMessage e ''failed to resolve panel paths'')
           | Inr sys_paths \<Rightarrow>
               (case panel_paths_for_scope home scope_user of
                  Inl e \<Rightarrow> Inr sys_paths
                | Inr user_paths \<Rightarrow>
                    if detect_scope_from_paths m sys_paths user_paths = scope_user
                    then Inr user_paths else Inr sys_paths)))"

definition check_binary_installed :: "'w machine \<Rightarrow> panel_paths \<Rightarrow> unit result" where
  "check_binary_installed m paths =
     (if path_exists m (pp_binary_path paths) then Inr ()
      else Inl (WithMessage (Err ''gameap is not installed'')
        (''gameap binary not found at '' @ pp_binary_path paths)))"

section \<open>Lemmas\<close>

text \<open>Path components that \<open>filepath.Clean\<close> keeps as they are.\<close>

definition plain_part :: "string \<Rightarrow> bool" where
  "plain_part s \<longleftrightarrow> s \<noteq> [] \<and> s \<noteq> ''.'' \<and> s \<noteq> ''..'' \<and> CHR ''/'' \<notin> set s"

lemma clean_parts_append: "clean_parts r acc (xs @ ys) = clean_parts r (clean_parts r acc xs) ys"
  by (induction r acc xs rule: clean_parts.induct) (auto split: list.splits)

lemma clean_parts_plain: "list_all plain_part xs \<Longrightarrow> clean_parts r acc xs = rev xs @ acc"
  by (induction xs arbitrary: acc) (auto simp: plain_part_def)

lemma clean_parts_rooted:
  "list_all plain_part acc \<Longrightarrow> \<forall>x \<in> set xs. CHR ''/'' \<notin> set x \<Longrightarrow> list_all plain_part (clean_parts True acc xs)"
proof (induction xs arbitrary: acc)
  case Nil
  then show ?case by simp
next
  case (Cons c cs)
  consider "c = [] \<or> c = ''.''" | "c = ''..''" | "c \<noteq> []" "c \<noteq> ''.''" "c \<noteq> ''..''" by blast
  then show ?case
  proof cases
    case 1
    with Cons show ?thesis by auto
  next
    case 2
    show ?thesis
    proof (cases acc)
      case Nil
      with 2 Cons show ?thesis by simp
    next
      case (Cons d ds)
      with Cons.prems have "plain_part d" and ds: "list_all plain_part ds" by simp_all
      then have "d \<noteq> ''..''" by (simp add: plain_part_def)
      with 2 Cons Cons.IH [of ds] Cons.prems ds show ?thesis by simp
    qed
  next
    case 3
    with Cons.prems have "plain_part c" by (simp add: plain_part_def)
    with Cons.prems have "list_all plain_part (c # acc)" by simp
    with 3 Cons.IH [of "c # acc"] Cons.prems show ?thesis by simp
  qed
qed

text \<open>The components of an absolute path once it is clean.\<close>

definition parts :: "string \<Rightarrow> string list" where
  "parts p = rev (clean_parts True [] (split_char (CHR ''/'') p))"

lemma parts_plain: "list_all plain_part (parts p)"
  unfolding parts_def list_all_rev
  by (rule clean_parts_rooted) (auto dest: split_char_no_sep)

lemma path_clean_parts: "path_is_abs p \<Longrightarrow> path_clean p = ''/'' @ join_with ''/'' (parts p)"
  by (simp add: path_clean_def parts_def Let_def)

lemma split_join_plain: "list_all plain_part ps \<Longrightarrow> ps \<noteq> [] \<Longrightarrow> split_char (CHR ''/'') (join_with ''/'' ps) = ps"
  by (rule split_char_join) (auto simp: plain_part_def list_all_iff)

lemma parts_of_plain:
  assumes "list_all plain_part ps"
  shows "parts (''/'' @ join_with ''/'' ps) = ps"
proof (cases "ps = []")
  case True
  then show ?thesis by (simp add: parts_def)
next
  case False
  then have "split_char (CHR ''/'') (''/'' @ join_with ''/'' ps) = [] # ps"
    using split_join_plain [OF assms] by simp
  then show ?thesis using assms by (simp add: parts_def clean_parts_plain)
qed

lemma split_append_sep: "split_char c (s @ [c] @ t) = split_char c s @ split_char c t"
  by (induction s) (auto split: list.splits)

lemma join_with_append:
  "xs \<noteq> [] \<Longrightarrow> ys \<noteq> [] \<Longrightarrow> join_with sep (xs @ ys) = join_with sep xs @ sep @ join_with sep ys"
proof (induction sep xs rule: join_with.induct)
  case (2 sep x)
  then show ?case by (simp add: join_with_Cons)
next
  case (3 sep x y ys)
  then show ?case by simp
qed simp

lemma path_join_abs:
  assumes "path_is_abs h" "list_all plain_part ss" "ss \<noteq> []"
  shows "path_join (h # ss) = ''/'' @ join_with ''/'' (parts h @ ss)"
proof -
  have h: "h \<noteq> []" using assms(1) by (auto simp: path_is_abs_def)
  have "filter (\<lambda>p. p \<noteq> []) (h # ss) = h # ss"
    using h assms(2) by (auto simp: plain_part_def list_all_iff filter_id_conv)
  moreover have j: "join_with ''/'' (h # ss) = h @ ''/'' @ join_with ''/'' ss"
    using assms(3) by (simp add: join_with_Cons)
  moreover have a: "path_is_abs (h @ ''/'' @ join_with ''/'' ss)"
    using assms(1) h by (cases h) (auto simp: path_is_abs_def)
  moreover have "parts (h @ ''/'' @ join_with ''/'' ss) = parts h @ ss"
    using split_append_sep [of "CHR ''/''" h "join_with ''/'' ss"] split_join_plain [OF assms(2,3)]
      clean_parts_plain [OF assms(2)] by (simp add: parts_def clean_parts_append)
  ultimately show ?thesis using path_clean_parts [OF a] by (simp add: path_join_def)
qed

lemma parts_path_join:
  "path_is_abs h \<Longrightarrow> list_all plain_part ss \<Longrightarrow> ss \<noteq> [] \<Longrightarrow> parts (path_join (h # ss)) = parts h @ ss"
  using parts_of_plain [of "parts h @ ss"] parts_plain [of h] by (simp add: path_join_abs)

lemma path_join_is_abs: "path_is_abs h \<Longrightarrow> list_all plain_part ss \<Longrightarrow> ss \<noteq> [] \<Longrightarrow> path_is_abs (path_join (h # ss))"
  by (simp add: path_join_abs) (simp add: path_is_abs_def)

text \<open>A path strictly below a directory: the components of the directory come first.\<close>

definition below :: "string \<Rightarrow> string \<Rightarrow> bool" where
  "below dir p \<longleftrightarrow> path_is_abs p \<and> (\<exists>ss. ss \<noteq> [] \<and> parts p = parts dir @ ss)"

lemma below_join: "path_is_abs h \<Longrightarrow> list_all plain_part ss \<Longrightarrow> ss \<noteq> [] \<Longrightarrow> below h (path_join (h # ss))"
  by (auto simp: below_def parts_path_join path_join_is_abs)

lemma below_join_trans:
  assumes "below h d" "list_all plain_part ss" "ss \<noteq> []"
  shows "below h (path_join (d # ss))"
  using assms parts_path_join [of d ss] path_join_is_abs [of d ss] by (auto simp: below_def)

lemma below_join2:
  "path_is_abs h \<Longrightarrow> list_all plain_part ss \<Longrightarrow> ss \<noteq> [] \<Longrightarrow> list_all plain_part ts \<Longrightarrow> ts \<noteq> [] \<Longrightarrow>
     below h (path_join (path_join (h # ss) # ts))"
  by (rule below_join_trans) (rule below_join)

lemma user_paths_below:
  assumes "path_is_abs home"
  shows "let p = user_daemon_paths_from_home home in
    list_all (below home) [dp_work_path p, dp_steamcmd_path p, dp_tools_path p, dp_certs_path p,
      dp_daemon_file_path p, dp_config_file_path p, dp_config_dir p, dp_output_log_path p,
      dp_systemd_unit_path p, dp_systemd_unit_dir p]"
    and "let p = user_panel_paths_from_home home in
    list_all (below home) [pp_config_dir p, pp_config_file_path p, pp_data_dir p, pp_files_base_path p,
      pp_binary_path p, pp_systemd_unit_path p, pp_systemd_unit_dir p]"
  by (auto simp: user_daemon_paths_from_home_def user_panel_paths_from_home_def Let_def plain_part_def
      intro: below_join below_join2 assms)

section \<open>Properties\<close>

text \<open>
  A rootless installation stays in the user's home directory: every path that the user
  scope yields, for the daemon and for the panel, lies strictly below it, so nothing of a
  user-scope installation needs or touches a system directory.
\<close>

theorem user_scope_below_home:
  assumes "path_is_abs home" "daemon_paths_for_scope (Some home) scope_user = Inr d"
    and "panel_paths_for_scope (Some home) scope_user = Inr p"
  shows "list_all (below home) [dp_work_path d, dp_steamcmd_path d, dp_tools_path d, dp_certs_path d,
      dp_daemon_file_path d, dp_config_file_path d, dp_config_dir d, dp_output_log_path d,
      dp_systemd_unit_path d, dp_systemd_unit_dir d, pp_config_dir p, pp_config_file_path p,
      pp_data_dir p, pp_files_base_path p, pp_binary_path p, pp_systemd_unit_path p,
      pp_systemd_unit_dir p]"
proof -
  have "home \<noteq> []" using assms(1) by (auto simp: path_is_abs_def)
  moreover have "scope_user \<noteq> []" "scope_user \<noteq> scope_system"
    by (simp_all add: scope_user_def scope_system_def)
  ultimately have "d = user_daemon_paths_from_home home" "p = user_panel_paths_from_home home"
    using assms(2,3) by (simp_all add: daemon_paths_for_scope_def panel_paths_for_scope_def user_home_def)
  then show ?thesis using user_paths_below [OF assms(1)] by (simp add: Let_def)
qed

theorem user_scope_below_home_witness:
  "below ''/home/tester'' ''/home/tester/.config/gameap/config.env''"
proof -
  let ?d = "user_daemon_paths_from_home ''/home/tester''" and ?p = "user_panel_paths_from_home ''/home/tester''"
  have e: "daemon_paths_for_scope (Some ''/home/tester'') scope_user = Inr ?d"
    "panel_paths_for_scope (Some ''/home/tester'') scope_user = Inr ?p"
    by (simp_all add: daemon_paths_for_scope_def panel_paths_for_scope_def user_home_def scope_user_def
        scope_system_def)
  have a: "path_is_abs ''/home/tester''" by code_simp
  have c: "pp_config_file_path ?p = ''/home/tester/.config/gameap/config.env''" by code_simp
  have "below ''/home/tester'' (pp_config_file_path ?p)"
    using user_scope_below_home [OF a e] by (simp only: list.pred_inject)
  then show ?thesis by (simp only: c)
qed

text \<open>
  The scope a panel command acts on: a \<open>--scope\<close> flag decides alone, then the recorded
  scope; only without both are files probed, and then an existing user unit wins over a
  system one and a system unit over the binaries.
\<close>

theorem resolve_panel_scope_precedence:
  "(flag \<noteq> [] \<longrightarrow> resolve_panel_scope goos home rec1 m1 flag = resolve_panel_scope goos home rec2 m2 flag) \<and>
   (scope \<noteq> [] \<longrightarrow> resolve_panel_scope goos home (Some scope) m1 [] = panel_paths_for_scope home scope) \<and>
   (user_home home = Inr h \<longrightarrow>
     resolve_panel_scope goos home None m1 [] =
       (if path_exists m1 (pp_systemd_unit_path (user_panel_paths_from_home h)) then Inr (user_panel_paths_from_home h)
        else if path_exists m1 system_panel_unit_path then Inr system_panel_paths
        else if path_exists m1 (pp_binary_path (user_panel_paths_from_home h)) \<and> \<not> path_exists m1 default_binary_path
        then Inr (user_panel_paths_from_home h) else Inr system_panel_paths))"
proof -
  have n: "scope_user \<noteq> []" "scope_user \<noteq> scope_system" "scope_system \<noteq> scope_user"
    by (simp_all add: scope_user_def scope_system_def)
  have "flag \<noteq> [] \<longrightarrow> resolve_panel_scope goos home rec1 m1 flag = resolve_panel_scope goos home rec2 m2 flag"
    by (simp add: resolve_panel_scope_def)
  moreover have "scope \<noteq> [] \<longrightarrow> resolve_panel_scope goos home (Some scope) m1 [] = panel_paths_for_scope home scope"
    by (cases scope) (simp_all add: resolve_panel_scope_def)
  ultimately show ?thesis
    by (simp add: resolve_panel_scope_def panel_paths_for_scope_def detect_scope_from_paths_def
        system_panel_paths_def n)
qed

theorem resolve_panel_scope_precedence_witness:
  "resolve_panel_scope ''linux'' (Some ''/root'') None
     \<lparr>files = [''/etc/systemd/system/gameap.service'' \<mapsto> []], dirs = {}, world = (), service_memo = None\<rparr> [] = Inr system_panel_paths"
proof -
  let ?m = "\<lparr>files = [''/etc/systemd/system/gameap.service'' \<mapsto> []], dirs = {}, world = (), service_memo = None\<rparr>"
  have u: "pp_systemd_unit_path (user_panel_paths_from_home ''/root'') = ''/root/.config/systemd/user/gameap.service''"
    by code_simp
  have "\<not> path_exists ?m (pp_systemd_unit_path (user_panel_paths_from_home ''/root''))"
    "path_exists ?m system_panel_unit_path"
    unfolding u by (simp_all add: path_exists_def system_panel_unit_path_def)
  then show ?thesis
    using resolve_panel_scope_precedence [of "[]" "''linux''" "Some ''/root''" None ?m None ?m "[]" "''/root''"]
    by (simp add: user_home_def)
qed

end
