(* ===== verification/DaemonConfig.thy ===== *)
theory DaemonConfig
  imports Scopes ReleaseSource
begin

text \<open>
  The daemon's configuration file: loading, editing and saving it with its comments
  (\<open>internal/pkg/daemon/config.go\<close>, \<open>repository_replacements.go\<close>), its overrides and its
  first version (\<open>internal/actions/daemon/install/daemon_install.go\<close>). The YAML library is
  a parameter; the syntax tree it yields is data.
\<close>

section \<open>YAML\<close>

text \<open>
  The syntax trees of the library: a mapping knows whether it is in flow style; a key may
  have no token and an entry no value.
\<close>

datatype ynode =
    YNull
  | YScalar string
  | YSeq "ynode list"
  | YMap bool "(string option \<times> ynode option) list"

datatype 'a yread = YFound 'a | YMissing | YFailed go_error

text \<open>The values of \<open>map[string]interface{}\<close> after unmarshalling.\<close>

datatype yval =
    VNull
  | VBool bool
  | VStr string
  | VOther string
  | VMap "string \<Rightarrow> yval option"

record yaml_lib =
  yl_parse :: "string \<Rightarrow> ynode list result"
  yl_print :: "ynode list \<Rightarrow> string"
  yl_path :: "string \<Rightarrow> go_error option"
  yl_read_string :: "string \<Rightarrow> string \<Rightarrow> string yread"
  yl_read_uint :: "string \<Rightarrow> string \<Rightarrow> nat yread"
  yl_filter :: "string \<Rightarrow> ynode list \<Rightarrow> unit yread"
  yl_merge :: "string \<Rightarrow> string \<Rightarrow> ynode list \<Rightarrow> ynode list result"
  yl_replace :: "string \<Rightarrow> string \<Rightarrow> ynode list \<Rightarrow> ynode list result"
  yl_unmarshal :: "string \<Rightarrow> (string \<rightharpoonup> yval) result"
  yl_marshal :: "(string \<rightharpoonup> yval) \<Rightarrow> string result"

section \<open>The configuration file (\<open>config.go\<close>)\<close>

record config_file =
  cf_docs :: "ynode list"
  cf_data :: string
  cf_path :: string

definition load_config :: "'w os_env \<Rightarrow> yaml_lib \<Rightarrow> string \<Rightarrow> ('w, config_file) sys" where
  "load_config os yl path =
     bindE (wrapE (''failed to read daemon config '' @ path) (read_file os path)) (\<lambda>data.
       case yl_parse yl data of
         Inl e \<Rightarrow> failE (WithMessage e (''failed to parse daemon config '' @ path))
       | Inr docs \<Rightarrow> retE \<lparr>cf_docs = docs, cf_data = data, cf_path = path\<rparr>)"

text \<open>\<open>ReadString\<close> and \<open>ReadUint\<close>: the value, and whether it was found.\<close>

definition cf_read ::
  "yaml_lib \<Rightarrow> (string \<Rightarrow> string \<Rightarrow> 'a yread) \<Rightarrow> 'a \<Rightarrow> config_file \<Rightarrow> string \<Rightarrow> ('a \<times> bool) result" where
  "cf_read yl rd zero c p =
     (case yl_path yl p of
        Some e \<Rightarrow> Inl (WithMessage e (''invalid yaml path '' @ p))
      | None \<Rightarrow>
          (case rd p (cf_data c) of
             YFound v \<Rightarrow> Inr (v, True)
           | YMissing \<Rightarrow> Inr (zero, False)
           | YFailed e \<Rightarrow> Inl (WithMessage e (''failed to read yaml path '' @ p))))"

definition read_string :: "yaml_lib \<Rightarrow> config_file \<Rightarrow> string \<Rightarrow> (string \<times> bool) result" where
  "read_string yl c p = cf_read yl (yl_read_string yl) [] c p"

definition read_uint :: "yaml_lib \<Rightarrow> config_file \<Rightarrow> string \<Rightarrow> (nat \<times> bool) result" where
  "read_uint yl c p = cf_read yl (yl_read_uint yl) 0 c p"

text \<open>The value and the flag of a read whose error is ignored (\<open>v, ok, _ := \<dots>\<close>).\<close>

definition ignore_error :: "'a \<Rightarrow> ('a \<times> bool) result \<Rightarrow> 'a \<times> bool" where
  "ignore_error zero r = (case r of Inl e \<Rightarrow> (zero, False) | Inr x \<Rightarrow> x)"

text \<open>\<open>fmt.Sprintf("%q", s)\<close>, for printable ASCII.\<close>

definition go_quote :: "string \<Rightarrow> string" where
  "go_quote s = [CHR 0x22] @
     concat (map (\<lambda>c. if c = CHR 0x22 \<or> c = CHR 0x5C then [CHR 0x5C, c] else [c]) s) @ [CHR 0x22]"

definition set_under_grpc :: "yaml_lib \<Rightarrow> string \<Rightarrow> string \<Rightarrow> ynode list \<Rightarrow> ynode list result" where
  "set_under_grpc yl key src docs =
     (let p = ''$.grpc.'' @ key in
      case yl_path yl p of
        Some e \<Rightarrow> Inl (WithMessage e (''failed to build yaml path '' @ p))
      | None \<Rightarrow>
          (case yl_filter yl p docs of
             YFound _ \<Rightarrow> with_message (''failed to replace '' @ p) (yl_replace yl p src docs)
           | YFailed e \<Rightarrow> Inl (WithMessage e (''failed to probe '' @ p))
           | YMissing \<Rightarrow>
               (case yl_path yl ''$.grpc'' of
                  Some e \<Rightarrow> Inl (WithMessage e ''failed to build yaml path $.grpc'')
                | None \<Rightarrow> with_message (''failed to merge '' @ key @ '' into $.grpc'')
                    (yl_merge yl ''$.grpc'' (key @ '': '' @ src @ [CHR 0x0A]) docs))))"

definition grpc_block :: "string \<Rightarrow> string" where
  "grpc_block address =
     ''grpc:'' @ [CHR 0x0A] @ ''  enabled: true'' @ [CHR 0x0A] @
     (if address \<noteq> [] then ''  address: '' @ go_quote address @ [CHR 0x0A] else [])"

definition append_grpc_block :: "yaml_lib \<Rightarrow> string \<Rightarrow> ynode list \<Rightarrow> ynode list result" where
  "append_grpc_block yl address docs =
     (case yl_path yl ''$'' of
        Some e \<Rightarrow> Inl (WithMessage e ''failed to build yaml root path'')
      | None \<Rightarrow> with_message ''failed to merge grpc block'' (yl_merge yl ''$'' (grpc_block address) docs))"

definition ensure_grpc_enabled :: "yaml_lib \<Rightarrow> string \<Rightarrow> config_file \<Rightarrow> config_file result" where
  "ensure_grpc_enabled yl address c =
     (case yl_path yl ''$.grpc'' of
        Some e \<Rightarrow> Inl (WithMessage e ''failed to build yaml path $.grpc'')
      | None \<Rightarrow>
          (let r = (case yl_filter yl ''$.grpc'' (cf_docs c) of
               YFound _ \<Rightarrow>
                 (case set_under_grpc yl ''enabled'' ''true'' (cf_docs c) of
                    Inl e \<Rightarrow> Inl e
                  | Inr docs \<Rightarrow>
                      if address \<noteq> [] then set_under_grpc yl ''address'' (go_quote address) docs
                      else Inr docs)
             | YMissing \<Rightarrow> append_grpc_block yl address (cf_docs c)
             | YFailed e \<Rightarrow> Inl (WithMessage e ''failed to probe $.grpc''))
           in case r of Inl e \<Rightarrow> Inl e | Inr docs \<Rightarrow> Inr (c\<lparr>cf_docs := docs\<rparr>)))"

fun remove_first_key :: "string \<Rightarrow> (string option \<times> 'v) list \<Rightarrow> (string option \<times> 'v) list" where
  "remove_first_key key [] = []"
| "remove_first_key key ((k, v) # kvs) =
     (if k = Some key then kvs else (k, v) # remove_first_key key kvs)"

definition delete_key :: "string \<Rightarrow> config_file \<Rightarrow> config_file result" where
  "delete_key yaml_path c =
     (if \<not> has_prefix yaml_path ''$.'' then
        Inl (Err (''DeleteKey: path '' @ go_quote yaml_path @ '' must start with '' @ go_quote ''$.''))
      else let key = drop 2 yaml_path in
        if key = [] \<or> contains_any key ''.['' then
          Inl (Err (''DeleteKey supports only top-level keys, got '' @ go_quote yaml_path))
        else case cf_docs c of
          [] \<Rightarrow> Inl (Err ''DeleteKey: empty yaml document'')
        | YMap fl kvs # docs \<Rightarrow> Inr (c\<lparr>cf_docs := YMap fl (remove_first_key key kvs) # docs\<rparr>)
        | _ \<Rightarrow> Inl (Err ''DeleteKey: document root is not a mapping''))"

definition save_config :: "'w os_env \<Rightarrow> yaml_lib \<Rightarrow> config_file \<Rightarrow> ('w, config_file) sys" where
  "save_config os yl c =
     (let out0 = yl_print yl (cf_docs c);
          out = (if has_suffix out0 [CHR 0x0A] then out0 else out0 @ [CHR 0x0A])
      in bindE (wrapE (''failed to write daemon config '' @ cf_path c) (write_file os (cf_path c) out))
           (\<lambda>_. retE (c\<lparr>cf_data := out\<rparr>)))"

text \<open>
  \<open>Backup\<close>: the source is opened before the backup file is made, so its content is the one
  read at the start; a failed copy removes the backup again. \<open>now\<close> is the Unix time.
\<close>

definition backup_path_for :: "string \<Rightarrow> nat \<Rightarrow> string" where
  "backup_path_for path now = path @ ''.bak.'' @ itoa_nat now"

definition backup_config :: "'w os_env \<Rightarrow> nat \<Rightarrow> string \<Rightarrow> ('w, string) sys" where
  "backup_config os now path =
     (let b = backup_path_for path now in
      bindE (wrapE (''failed to open '' @ path) (read_file os path)) (\<lambda>content.
      bindE (wrapE (''failed to create backup '' @ b) (create_file os b)) (\<lambda>_.
      catchE (bindE (write_file os b content) (\<lambda>_. retE b))
        (\<lambda>e. bindE (quietly (remove_file os b)) (\<lambda>_. failE (WithMessage e ''failed to copy backup''))))))"

definition restore_config :: "'w os_env \<Rightarrow> string \<Rightarrow> string \<Rightarrow> ('w, unit) sys" where
  "restore_config os backup target =
     bindE (wrapE (''failed to open backup '' @ backup) (read_file os backup)) (\<lambda>content.
       wrapE ''failed to restore'' (write_file os target content))"

section \<open>Repository replacements (\<open>repository_replacements.go\<close>)\<close>

definition replacements_key :: string where
  "replacements_key = ''remote_repository_replacements''"

record replacement_rule =
  rule_origin :: string
  rule_mirror :: string

definition cdn_rules :: "replacement_rule list" where
  "cdn_rules = [\<lparr>rule_origin = cdn_gameap_com, rule_mirror = cdn_gameap_ru\<rparr>,
                \<lparr>rule_origin = cdn_gameap_ru, rule_mirror = cdn_gameap_com\<rparr>]"

text \<open>A missing key of a Go map of booleans reads as false.\<close>

definition available_in :: "(string \<rightharpoonup> bool) \<Rightarrow> string \<Rightarrow> bool" where
  "available_in av name = (av name = Some True)"

definition plan_cdn_replacements :: "(string \<rightharpoonup> bool) \<Rightarrow> replacement_rule list" where
  "plan_cdn_replacements av =
     filter (\<lambda>r. \<not> available_in av (rule_origin r) \<and> available_in av (rule_mirror r)) cdn_rules"

definition root_mapping :: "config_file \<Rightarrow> (string option \<times> ynode option) list result" where
  "root_mapping c =
     (case cf_docs c of
        [] \<Rightarrow> Inl (Err ''empty yaml document'')
      | YMap fl kvs # _ \<Rightarrow> Inr kvs
      | _ \<Rightarrow> Inl (Err ''document root is not a mapping''))"

fun value_by_key :: "string \<Rightarrow> (string option \<times> 'v) list \<Rightarrow> 'v option" where
  "value_by_key key [] = None"
| "value_by_key key ((k, v) # kvs) = (if k = Some key then Some v else value_by_key key kvs)"

definition unexpected_structure :: go_error where
  "unexpected_structure = Err (replacements_key @ '' has unexpected structure'')"

definition has_repository_replacement :: "config_file \<Rightarrow> string \<Rightarrow> bool result" where
  "has_repository_replacement c origin =
     (case root_mapping c of
        Inl e \<Rightarrow> Inl e
      | Inr root \<Rightarrow>
          (case value_by_key replacements_key root of
             None \<Rightarrow> Inr False
           | Some (Some (YMap fl kvs)) \<Rightarrow> Inr (value_by_key origin kvs \<noteq> None)
           | Some None \<Rightarrow> Inr False
           | Some (Some YNull) \<Rightarrow> Inr False
           | _ \<Rightarrow> Inl unexpected_structure))"

definition merge_into :: "yaml_lib \<Rightarrow> string \<Rightarrow> string \<Rightarrow> config_file \<Rightarrow> config_file result" where
  "merge_into yl path snippet c =
     (case yl_path yl path of
        Some e \<Rightarrow> Inl (WithMessage e (''failed to build yaml path '' @ path))
      | None \<Rightarrow>
          (case yl_merge yl path snippet (cf_docs c) of
             Inl e \<Rightarrow> Inl (WithMessage e (''failed to merge into '' @ path))
           | Inr docs \<Rightarrow> Inr (c\<lparr>cf_docs := docs\<rparr>)))"

definition replacements_block :: "string \<Rightarrow> string \<Rightarrow> string" where
  "replacements_block origin mirror =
     replacements_key @ '':'' @ [CHR 0x0A] @ ''  '' @ origin @ '':'' @ [CHR 0x0A] @ ''    - '' @ mirror @ [CHR 0x0A]"

definition replacement_entry :: "string \<Rightarrow> string \<Rightarrow> string" where
  "replacement_entry origin mirror = origin @ '':'' @ [CHR 0x0A] @ ''  - '' @ mirror @ [CHR 0x0A]"

definition append_replacements_block :: "yaml_lib \<Rightarrow> string \<Rightarrow> string \<Rightarrow> config_file \<Rightarrow> config_file result" where
  "append_replacements_block yl origin mirror c = merge_into yl ''$'' (replacements_block origin mirror) c"

definition recreate_replacements_block :: "yaml_lib \<Rightarrow> string \<Rightarrow> string \<Rightarrow> config_file \<Rightarrow> config_file result" where
  "recreate_replacements_block yl origin mirror c =
     (case delete_key (''$.'' @ replacements_key) c of
        Inl e \<Rightarrow> Inl e
      | Inr c' \<Rightarrow> append_replacements_block yl origin mirror c')"

definition merge_replacement_entry :: "yaml_lib \<Rightarrow> string \<Rightarrow> string \<Rightarrow> config_file \<Rightarrow> config_file result" where
  "merge_replacement_entry yl origin mirror c =
     merge_into yl (''$.'' @ replacements_key) (replacement_entry origin mirror) c"

definition add_repository_replacement :: "yaml_lib \<Rightarrow> string \<Rightarrow> string \<Rightarrow> config_file \<Rightarrow> config_file result" where
  "add_repository_replacement yl origin mirror c =
     (case root_mapping c of
        Inl e \<Rightarrow> Inl e
      | Inr root \<Rightarrow>
          (case value_by_key replacements_key root of
             None \<Rightarrow> append_replacements_block yl origin mirror c
           | Some (Some (YMap fl kvs)) \<Rightarrow>
               if kvs = [] then recreate_replacements_block yl origin mirror c
               else if fl then Inl (Err (replacements_key @ '' uses flow style, cannot add '' @ origin @ '' entry''))
               else merge_replacement_entry yl origin mirror c
           | Some None \<Rightarrow> recreate_replacements_block yl origin mirror c
           | Some (Some YNull) \<Rightarrow> recreate_replacements_block yl origin mirror c
           | _ \<Rightarrow> Inl unexpected_structure))"

text \<open>The loop over the plan: the configuration, and whether it changed.\<close>

fun apply_plan :: "yaml_lib \<Rightarrow> replacement_rule list \<Rightarrow> config_file \<Rightarrow> bool \<Rightarrow> (config_file \<times> bool) result" where
  "apply_plan yl [] c changed = Inr (c, changed)"
| "apply_plan yl (r # rs) c changed =
     (case has_repository_replacement c (rule_origin r) of
        Inl e \<Rightarrow> Inl e
      | Inr exists \<Rightarrow>
          if exists then apply_plan yl rs c changed
          else (case add_repository_replacement yl (rule_origin r) (rule_mirror r) c of
                  Inl e \<Rightarrow> Inl e
                | Inr c' \<Rightarrow> apply_plan yl rs c' True))"

definition ensure_repository_replacements ::
  "'w os_env \<Rightarrow> yaml_lib \<Rightarrow> string \<Rightarrow> (string \<rightharpoonup> bool) \<Rightarrow> ('w, unit) sys" where
  "ensure_repository_replacements os yl path av =
     (let plan = plan_cdn_replacements av in
      if plan = [] then retE ()
      else bindE (wrapE ''failed to load daemon config'' (load_config os yl path)) (\<lambda>cfg.
        case apply_plan yl plan cfg False of
          Inl e \<Rightarrow> failE e
        | Inr (c, changed) \<Rightarrow>
            if \<not> changed then retE ()
            else bindE (wrapE ''failed to save daemon config'' (save_config os yl c)) (\<lambda>_. retE ())))"

text \<open>\<open>SetupCDNReplacements\<close>; the availability is what probing the mirrors gave.\<close>

definition setup_cdn_replacements ::
  "'w os_env \<Rightarrow> yaml_lib \<Rightarrow> string \<Rightarrow> (string \<rightharpoonup> bool) \<Rightarrow> ('w, unit) sys" where
  "setup_cdn_replacements os yl path av =
     (if \<not> (av cdn_gameap_com = Some True \<or> av cdn_gameap_ru = Some True) then retE ()
      else quietly (ensure_repository_replacements os yl path av))"

section \<open>Lemmas\<close>

subsection \<open>Keys of a mapping\<close>

lemma value_by_key_append:
  "value_by_key k (xs @ ys) = (case value_by_key k xs of Some v \<Rightarrow> Some v | None \<Rightarrow> value_by_key k ys)"
  by (induction k xs rule: value_by_key.induct) auto

lemma value_by_key_None_iff: "value_by_key k kvs = None \<longleftrightarrow> Some k \<notin> set (map fst kvs)"
  by (induction k kvs rule: value_by_key.induct) auto

lemma value_by_key_remove:
  "k \<noteq> key \<Longrightarrow> value_by_key k (remove_first_key key kvs) = value_by_key k kvs"
  by (induction key kvs rule: remove_first_key.induct) auto

lemma remove_first_keys: "set (map fst (remove_first_key key kvs)) \<subseteq> set (map fst kvs)"
  by (induction key kvs rule: remove_first_key.induct) auto

lemma remove_first_distinct:
  "distinct (map fst kvs) \<Longrightarrow>
     distinct (map fst (remove_first_key key kvs)) \<and> value_by_key key (remove_first_key key kvs) = None"
proof (induction key kvs rule: remove_first_key.induct)
  case (2 key k v kvs)
  then show ?case
    using remove_first_keys [of key kvs] by (auto simp: value_by_key_None_iff)
qed simp

fun set_value :: "string \<Rightarrow> 'v \<Rightarrow> (string option \<times> 'v) list \<Rightarrow> (string option \<times> 'v) list" where
  "set_value key v [] = []"
| "set_value key v ((k, w) # kvs) = (if k = Some key then (k, v) # kvs else (k, w) # set_value key v kvs)"

lemma map_fst_set_value [simp]: "map fst (set_value key v kvs) = map fst kvs"
  by (induction key v kvs rule: set_value.induct) auto

lemma value_by_key_set_value:
  "value_by_key k (set_value key v kvs) =
     (if k = key \<and> value_by_key key kvs \<noteq> None then Some v else value_by_key k kvs)"
  by (induction key v kvs rule: set_value.induct) auto

subsection \<open>What the YAML library promises\<close>

text \<open>
  Merging a mapping with one new key into a block mapping appends that key and keeps what is
  there; the two cases are the snippets that the code builds for the mirrors.
\<close>

definition cdn_hosts :: "string list" where
  "cdn_hosts = [cdn_gameap_com, cdn_gameap_ru]"

definition new_entry :: "string \<Rightarrow> string \<Rightarrow> string option \<times> ynode option" where
  "new_entry origin mirror = (Some origin, Some (YSeq [YScalar mirror]))"

definition merge_appends :: "yaml_lib \<Rightarrow> bool" where
  "merge_appends yl \<longleftrightarrow> (\<forall>p. yl_path yl p = None) \<and>
     (\<forall>origin \<in> set cdn_hosts. \<forall>mirror \<in> set cdn_hosts. \<forall>fl kvs docs.
        value_by_key replacements_key kvs = None \<longrightarrow>
        yl_merge yl ''$'' (replacements_block origin mirror) (YMap fl kvs # docs) =
          Inr (YMap fl (kvs @ [(Some replacements_key, Some (YMap False [new_entry origin mirror]))]) # docs)) \<and>
     (\<forall>origin \<in> set cdn_hosts. \<forall>mirror \<in> set cdn_hosts. \<forall>fl kvs docs b.
        value_by_key replacements_key kvs = Some (Some (YMap False b)) \<longrightarrow>
        value_by_key origin b = None \<longrightarrow>
        yl_merge yl (''$.'' @ replacements_key) (replacement_entry origin mirror) (YMap fl kvs # docs) =
          Inr (YMap fl (set_value replacements_key (Some (YMap False (b @ [new_entry origin mirror]))) kvs) # docs))"

subsection \<open>Replacements only add\<close>

text \<open>
  The configuration with root mapping \<open>kvs'\<close> extends the one with \<open>kvs\<close>: other keys are
  as before, and no entry of the replacements is lost or changed.
\<close>

definition entries :: "(string option \<times> ynode option) list \<Rightarrow> string \<Rightarrow> ynode option option" where
  "entries kvs origin =
     (case value_by_key replacements_key kvs of
        Some (Some (YMap fl b)) \<Rightarrow> value_by_key origin b
      | _ \<Rightarrow> None)"

definition extends ::
  "(string option \<times> ynode option) list \<Rightarrow> (string option \<times> ynode option) list \<Rightarrow> bool" where
  "extends kvs kvs' \<longleftrightarrow>
     (\<forall>k. k \<noteq> replacements_key \<longrightarrow> value_by_key k kvs' = value_by_key k kvs) \<and>
     (\<forall>origin v. entries kvs origin = Some v \<longrightarrow> entries kvs' origin = Some v)"

lemma extends_refl [simp]: "extends kvs kvs"
  by (simp add: extends_def)

lemma extends_trans: "extends a b \<Longrightarrow> extends b c \<Longrightarrow> extends a c"
  by (simp add: extends_def)

definition root_of :: "config_file \<Rightarrow> (string option \<times> ynode option) list" where
  "root_of c = (case root_mapping c of Inr kvs \<Rightarrow> kvs | Inl e \<Rightarrow> [])"

definition well_formed_root :: "config_file \<Rightarrow> bool" where
  "well_formed_root c \<longleftrightarrow> (\<exists>fl kvs docs. cf_docs c = YMap fl kvs # docs \<and> distinct (map fst kvs))"

lemma root_mapping_YMap [simp]: "cf_docs c = YMap fl kvs # docs \<Longrightarrow> root_mapping c = Inr kvs"
  by (simp add: root_mapping_def)

lemma append_block:
  assumes "merge_appends yl" "cf_docs c = YMap fl kvs # docs" "value_by_key replacements_key kvs = None"
    "origin \<in> set cdn_hosts" "mirror \<in> set cdn_hosts"
  shows "append_replacements_block yl origin mirror c =
    Inr (c\<lparr>cf_docs := YMap fl (kvs @ [(Some replacements_key, Some (YMap False [new_entry origin mirror]))]) # docs\<rparr>)"
  using assms by (simp add: append_replacements_block_def merge_into_def merge_appends_def)

lemma replacements_key_path:
  "has_prefix (''$.'' @ replacements_key) ''$.''" "drop 2 (''$.'' @ replacements_key) = replacements_key"
  "replacements_key \<noteq> []" "\<not> contains_any replacements_key ''.[''"
  by code_simp+

lemma recreate_block:
  assumes "merge_appends yl" "cf_docs c = YMap fl kvs # docs" "distinct (map fst kvs)"
    "origin \<in> set cdn_hosts" "mirror \<in> set cdn_hosts"
  shows "recreate_replacements_block yl origin mirror c =
    Inr (c\<lparr>cf_docs := YMap fl (remove_first_key replacements_key kvs @
      [(Some replacements_key, Some (YMap False [new_entry origin mirror]))]) # docs\<rparr>)"
proof -
  let ?c = "c\<lparr>cf_docs := YMap fl (remove_first_key replacements_key kvs) # docs\<rparr>"
  have "delete_key (''$.'' @ replacements_key) c = Inr ?c"
    unfolding delete_key_def Let_def replacements_key_path(2)
    using replacements_key_path(1,3,4) assms(2) by simp
  moreover have "append_replacements_block yl origin mirror ?c = Inr (?c\<lparr>cf_docs :=
      YMap fl (remove_first_key replacements_key kvs @
        [(Some replacements_key, Some (YMap False [new_entry origin mirror]))]) # docs\<rparr>)"
    by (rule append_block [OF assms(1)]) (use remove_first_distinct [OF assms(3)] assms(4,5) in simp_all)
  ultimately show ?thesis by (simp add: recreate_replacements_block_def)
qed

lemma fresh_block_extends:
  assumes "\<And>k. k \<noteq> replacements_key \<Longrightarrow> value_by_key k kvs0 = value_by_key k kvs"
    and "value_by_key replacements_key kvs0 = None" and "\<And>x. entries kvs x = None"
  shows "extends kvs (kvs0 @ [(Some replacements_key, Some (YMap False [new_entry origin mirror]))])"
    and "entries (kvs0 @ [(Some replacements_key, Some (YMap False [new_entry origin mirror]))]) origin =
      Some (Some (YSeq [YScalar mirror]))"
  using assms by (auto simp: extends_def entries_def value_by_key_append new_entry_def split: option.split)

lemma add_replacement_extends:
  assumes lib: "merge_appends yl" and wf: "well_formed_root c"
    and has: "has_repository_replacement c origin = Inr False"
    and add: "add_repository_replacement yl origin mirror c = Inr c'"
    and hosts: "origin \<in> set cdn_hosts" "mirror \<in> set cdn_hosts"
  shows "well_formed_root c' \<and> extends (root_of c) (root_of c') \<and>
    entries (root_of c') origin = Some (Some (YSeq [YScalar mirror]))"
proof -
  obtain fl kvs docs where c: "cf_docs c = YMap fl kvs # docs" and d: "distinct (map fst kvs)"
    using wf by (auto simp: well_formed_root_def)
  have root: "root_of c = kvs" using c by (simp add: root_of_def)
  let ?new = "[(Some replacements_key, Some (YMap False [new_entry origin mirror]))]"
  have fresh: "well_formed_root c' \<and> extends kvs (root_of c') \<and>
      entries (root_of c') origin = Some (Some (YSeq [YScalar mirror]))"
    if eq: "c' = c\<lparr>cf_docs := YMap fl (kvs0 @ ?new) # docs\<rparr>"
      and k0: "\<And>k. k \<noteq> replacements_key \<Longrightarrow> value_by_key k kvs0 = value_by_key k kvs"
      and n0: "value_by_key replacements_key kvs0 = None" and d0: "distinct (map fst kvs0)"
      and e: "\<And>x. entries kvs x = None" for kvs0
  proof -
    have r: "root_of c' = kvs0 @ ?new" unfolding eq by (simp add: root_of_def root_mapping_def)
    have "distinct (map fst (kvs0 @ ?new))" using d0 n0 by (simp add: value_by_key_None_iff)
    then have "well_formed_root c'" unfolding eq by (simp add: well_formed_root_def)
    with fresh_block_extends [OF k0 n0 e, of origin mirror] show ?thesis unfolding r by simp
  qed
  have recreate: "well_formed_root c' \<and> extends kvs (root_of c') \<and>
      entries (root_of c') origin = Some (Some (YSeq [YScalar mirror]))"
    if "recreate_replacements_block yl origin mirror c = Inr c'" and e: "\<And>x. entries kvs x = None"
    by (rule fresh [OF _ _ _ _ e, of "remove_first_key replacements_key kvs"])
      (use that(1) recreate_block [OF lib c d hosts] remove_first_distinct [OF d] in
        \<open>simp_all add: value_by_key_remove\<close>)
  consider (none) "value_by_key replacements_key kvs = None"
    | (nil) "value_by_key replacements_key kvs = Some None"
    | (null) "value_by_key replacements_key kvs = Some (Some YNull)"
    | (map) f b where "value_by_key replacements_key kvs = Some (Some (YMap f b))"
    | (scalar) x where "value_by_key replacements_key kvs = Some (Some (YScalar x))"
    | (seq) xs where "value_by_key replacements_key kvs = Some (Some (YSeq xs))"
    by (metis option.exhaust ynode.exhaust)
  then show ?thesis
  proof cases
    case none
    with add c append_block [OF lib c none hosts] have "c' = c\<lparr>cf_docs := YMap fl (kvs @ ?new) # docs\<rparr>"
      by (simp add: add_repository_replacement_def)
    then show ?thesis unfolding root
      by (rule fresh) (use none d in \<open>simp_all add: entries_def\<close>)
  next
    case nil
    with add c have "recreate_replacements_block yl origin mirror c = Inr c'"
      by (simp add: add_repository_replacement_def)
    then show ?thesis unfolding root by (rule recreate) (simp add: entries_def nil)
  next
    case null
    with add c have "recreate_replacements_block yl origin mirror c = Inr c'"
      by (simp add: add_repository_replacement_def)
    then show ?thesis unfolding root by (rule recreate) (simp add: entries_def null)
  next
    case (map f b)
    show ?thesis
    proof (cases "b = []")
      case True
      with map add c have "recreate_replacements_block yl origin mirror c = Inr c'"
        by (simp add: add_repository_replacement_def)
      then show ?thesis unfolding root by (rule recreate) (simp add: entries_def map True)
    next
      case False
      with map add c have f: "\<not> f" and m: "merge_replacement_entry yl origin mirror c = Inr c'"
        by (auto simp: add_repository_replacement_def split: if_splits)
      have nb: "value_by_key origin b = None"
        using has c map by (simp add: has_repository_replacement_def)
      let ?kvs = "set_value replacements_key (Some (YMap False (b @ [new_entry origin mirror]))) kvs"
      have "c' = c\<lparr>cf_docs := YMap fl ?kvs # docs\<rparr>"
        using m lib c map f nb hosts unfolding merge_replacement_entry_def merge_into_def merge_appends_def by simp
      moreover from this have "root_of c' = ?kvs" by (simp add: root_of_def root_mapping_def)
      ultimately show ?thesis
        using d map nb unfolding root
        by (auto simp: well_formed_root_def extends_def entries_def value_by_key_set_value
            value_by_key_append new_entry_def split: option.splits)
    qed
  next
    case scalar
    with add c show ?thesis by (simp add: add_repository_replacement_def)
  next
    case seq
    with add c show ?thesis by (simp add: add_repository_replacement_def)
  qed
qed

lemma has_replacement_entries:
  "well_formed_root c \<Longrightarrow> has_repository_replacement c origin = Inr b \<Longrightarrow>
     b = (entries (root_of c) origin \<noteq> None)"
  by (auto simp: well_formed_root_def has_repository_replacement_def entries_def root_of_def
      split: option.splits ynode.splits)

lemma apply_plan_extends:
  assumes "merge_appends yl" "well_formed_root c" "apply_plan yl plan c ch = Inr (c', ch')"
    and "\<forall>r \<in> set plan. rule_origin r \<in> set cdn_hosts \<and> rule_mirror r \<in> set cdn_hosts"
  shows "well_formed_root c' \<and> extends (root_of c) (root_of c') \<and>
    (\<forall>r \<in> set plan. entries (root_of c') (rule_origin r) \<noteq> None)"
  using assms(2-4)
proof (induction plan arbitrary: c ch)
  case Nil
  then show ?case by simp
next
  case (Cons r rs)
  obtain ex where ex: "has_repository_replacement c (rule_origin r) = Inr ex"
    using Cons.prems(2) by (cases "has_repository_replacement c (rule_origin r)") simp_all
  obtain c1 ch1 where step: "apply_plan yl rs c1 ch1 = Inr (c', ch')" "well_formed_root c1"
    "extends (root_of c) (root_of c1)" "entries (root_of c1) (rule_origin r) \<noteq> None"
  proof (cases ex)
    case True
    with Cons.prems ex have "apply_plan yl rs c ch = Inr (c', ch')" by simp
    with that Cons.prems(1) True has_replacement_entries [OF Cons.prems(1) ex] show thesis by simp
  next
    case False
    with Cons.prems(2) ex obtain c2 where c2:
      "add_repository_replacement yl (rule_origin r) (rule_mirror r) c = Inr c2"
      "apply_plan yl rs c2 True = Inr (c', ch')"
      by (cases "add_repository_replacement yl (rule_origin r) (rule_mirror r) c") simp_all
    have "has_repository_replacement c (rule_origin r) = Inr False" using ex False by simp
    from add_replacement_extends [OF assms(1) Cons.prems(1) this c2(1)] that c2(2) Cons.prems(3)
    show thesis by simp
  qed
  have ih: "well_formed_root c' \<and> extends (root_of c1) (root_of c') \<and>
      (\<forall>r \<in> set rs. entries (root_of c') (rule_origin r) \<noteq> None)"
    by (rule Cons.IH [OF step(2,1)]) (use Cons.prems(3) in simp)
  then have "entries (root_of c') (rule_origin r) \<noteq> None"
    using step(4) by (auto simp: extends_def)
  with ih step(3) extends_trans show ?case by auto
qed

lemma merge_into_path: "merge_into yl p t c = Inr c' \<Longrightarrow> cf_path c' = cf_path c"
  by (auto simp: merge_into_def split: option.splits sum.splits)

lemma delete_key_path: "delete_key p c = Inr c' \<Longrightarrow> cf_path c' = cf_path c"
  by (auto simp: delete_key_def Let_def split: if_splits list.splits ynode.splits)

lemma recreate_path: "recreate_replacements_block yl origin mirror c = Inr c' \<Longrightarrow> cf_path c' = cf_path c"
  by (cases "delete_key (''$.'' @ replacements_key) c")
    (auto simp: recreate_replacements_block_def append_replacements_block_def
      dest!: merge_into_path delete_key_path)

lemma add_replacement_path: "add_repository_replacement yl origin mirror c = Inr c' \<Longrightarrow> cf_path c' = cf_path c"
  by (auto simp: add_repository_replacement_def append_replacements_block_def merge_replacement_entry_def
      dest: merge_into_path recreate_path split: sum.splits option.splits ynode.splits if_splits)

lemma apply_plan_path: "apply_plan yl plan c ch = Inr (c', ch') \<Longrightarrow> cf_path c' = cf_path c"
proof (induction plan arbitrary: c ch)
  case Nil
  then show ?case by simp
next
  case (Cons r rs)
  then show ?case by (fastforce dest: add_replacement_path split: sum.splits if_splits)
qed

subsection \<open>Files\<close>

lemma load_config_Inr:
  "load_config os yl path m = (Inr c, m') \<Longrightarrow>
     m' = m \<and> cf_path c = path \<and> files m path = Some (cf_data c) \<and> yl_parse yl (cf_data c) = Inr (cf_docs c)"
  apply (clarsimp simp: load_config_def bindE_Inr_iff read_file_Inr)
  subgoal for data by (cases "yl_parse yl data") auto
  done

lemma load_config_state: "snd (load_config os yl path m) = m"
proof -
  obtain r where r: "read_file os path m = (r, m)"
    using read_file_state [of os path m] by (metis prod.collapse)
  show ?thesis
  proof (cases r)
    case (Inl e)
    with r show ?thesis by (simp add: load_config_def bindE_def wrapE_def)
  next
    case (Inr data)
    with r show ?thesis by (cases "yl_parse yl data") (simp_all add: load_config_def bindE_def wrapE_def)
  qed
qed

definition printed :: "yaml_lib \<Rightarrow> config_file \<Rightarrow> string" where
  "printed yl c = (let out = yl_print yl (cf_docs c) in
     if has_suffix out [CHR 0x0A] then out else out @ [CHR 0x0A])"

lemma save_config_Inr:
  "save_config os yl c m = (Inr c', m') \<Longrightarrow> m' = put_file (cf_path c) (printed yl c) m \<and> c' = c\<lparr>cf_data := printed yl c\<rparr>"
  by (auto simp: save_config_def printed_def Let_def bindE_Inr_iff write_file_Inr)

lemma save_config_others: "q \<noteq> cf_path c \<Longrightarrow> files (snd (save_config os yl c m)) q = files m q"
  by (simp add: save_config_def Let_def snd_bindE write_file_others split: sum.split)

lemma plan_rules: "r \<in> set (plan_cdn_replacements av) \<Longrightarrow>
    rule_origin r \<in> set cdn_hosts \<and> rule_mirror r \<in> set cdn_hosts \<and>
    \<not> available_in av (rule_origin r) \<and> available_in av (rule_mirror r)"
  by (auto simp: plan_cdn_replacements_def cdn_rules_def cdn_hosts_def split: if_splits)

section \<open>Properties\<close>

text \<open>
  Setting up mirror replacements only ever adds: whatever the daemon's configuration
  holds, after \<open>EnsureRepositoryReplacements\<close> either no file has changed, or the
  configuration keeps every other key with its value and every replacement that was there,
  and names a replacement for each planned origin; no other file is touched.
\<close>

theorem replacements_only_add:
  assumes "merge_appends yl" "files m path = Some text" "yl_parse yl text = Inr (YMap fl kvs # docs)"
    and "distinct (map fst kvs)"
    and run: "ensure_repository_replacements os yl path av m = (Inr (), m')"
  shows "m' = m \<or> (\<exists>c. m' = put_file path (printed yl c) m \<and> extends kvs (root_of c) \<and>
    (\<forall>r \<in> set (plan_cdn_replacements av). entries (root_of c) (rule_origin r) \<noteq> None))"
proof (cases "plan_cdn_replacements av = []")
  case True
  with run show ?thesis by (simp add: ensure_repository_replacements_def)
next
  case False
  from run False obtain cfg where l: "load_config os yl path m = (Inr cfg, m)"
    and rest: "(case apply_plan yl (plan_cdn_replacements av) cfg False of
          Inl e \<Rightarrow> failE e
        | Inr (c, changed) \<Rightarrow>
            if \<not> changed then retE ()
            else bindE (wrapE ''failed to save daemon config'' (save_config os yl c)) (\<lambda>_. retE ())) m = (Inr (), m')"
    by (auto simp: ensure_repository_replacements_def Let_def bindE_Inr_iff dest: load_config_Inr)
  from load_config_Inr [OF l] assms(2,3) have cfg: "cf_docs cfg = YMap fl kvs # docs" "cf_path cfg = path" by auto
  then have wf: "well_formed_root cfg" "root_of cfg = kvs"
    using assms(4) by (simp_all add: well_formed_root_def root_of_def)
  obtain c ch where p: "apply_plan yl (plan_cdn_replacements av) cfg False = Inr (c, ch)"
    using rest by (cases "apply_plan yl (plan_cdn_replacements av) cfg False") auto
  have ext: "well_formed_root c \<and> extends (root_of cfg) (root_of c) \<and>
      (\<forall>r \<in> set (plan_cdn_replacements av). entries (root_of c) (rule_origin r) \<noteq> None)"
    by (rule apply_plan_extends [OF assms(1) wf(1) p]) (use plan_rules in blast)
  have path: "cf_path c = path"
    using p cfg(2) apply_plan_path by metis
  show ?thesis
  proof (cases ch)
    case False
    with rest p show ?thesis by simp
  next
    case True
    with rest p obtain c' where "save_config os yl c m = (Inr c', m')" by (auto simp: bindE_Inr_iff)
    from save_config_Inr [OF this] have "m' = put_file path (printed yl c) m" using path by simp
    with ext wf(2) show ?thesis by auto
  qed
qed

text \<open>A library that knows just the snippets of the mirrors, for examples.\<close>

definition cdn_pairs :: "(string \<times> string) list" where
  "cdn_pairs = List.product cdn_hosts cdn_hosts"

definition small_yaml :: "ynode list \<Rightarrow> yaml_lib" where
  "small_yaml docs0 =
     \<lparr>yl_parse = (\<lambda>_. Inr docs0), yl_print = (\<lambda>docs. if docs = docs0 then ''same'' else ''changed''),
      yl_path = (\<lambda>_. None), yl_read_string = (\<lambda>_ _. YMissing), yl_read_uint = (\<lambda>_ _. YMissing),
      yl_filter = (\<lambda>_ _. YMissing),
      yl_merge = (\<lambda>p t docs. case docs of
          YMap fl kvs # ds \<Rightarrow>
            (if p = ''$'' then
               (case List.find (\<lambda>(x, y). replacements_block x y = t) cdn_pairs of
                  Some (x, y) \<Rightarrow> Inr (YMap fl (kvs @ [(Some replacements_key, Some (YMap False [new_entry x y]))]) # ds)
                | None \<Rightarrow> Inl (Err ''merge''))
             else
               (case (List.find (\<lambda>(x, y). replacement_entry x y = t) cdn_pairs, value_by_key replacements_key kvs) of
                  (Some (x, y), Some (Some (YMap g b))) \<Rightarrow>
                    Inr (YMap fl (set_value replacements_key (Some (YMap g (b @ [new_entry x y]))) kvs) # ds)
                | _ \<Rightarrow> Inl (Err ''merge'')))
        | _ \<Rightarrow> Inl (Err ''merge'')),
      yl_replace = (\<lambda>_ _ _. Inl (Err ''replace'')), yl_unmarshal = (\<lambda>_. Inr Map.empty),
      yl_marshal = (\<lambda>_. Inr [])\<rparr>"

lemma small_yaml_find:
  "\<forall>x \<in> set cdn_hosts. \<forall>y \<in> set cdn_hosts.
     List.find (\<lambda>(x', y'). replacements_block x' y' = replacements_block x y) cdn_pairs = Some (x, y) \<and>
     List.find (\<lambda>(x', y'). replacement_entry x' y' = replacement_entry x y) cdn_pairs = Some (x, y)"
  by code_simp

lemma small_yaml_merges: "merge_appends (small_yaml docs)"
  using small_yaml_find by (simp add: merge_appends_def small_yaml_def replacements_key_def)

theorem replacements_only_add_witness:
  "\<exists>c. extends [(Some ''api_key'', Some (YScalar ''k''))] (root_of c) \<and> entries (root_of c) ''cdn.gameap.com'' \<noteq> None"
proof -
  let ?kvs = "[(Some ''api_key'', Some (YScalar ''k''))]" and ?av = "[''cdn.gameap.ru'' \<mapsto> True]"
  let ?m = "\<lparr>files = [''c'' \<mapsto> ''x''], dirs = {}, world = (), service_memo = None\<rparr>"
  let ?run = "ensure_repository_replacements calm_os (small_yaml [YMap False ?kvs]) ''c'' ?av ?m"
  have r: "?run = (Inr (), snd ?run)" by (rule prod_eqI) (simp, code_simp, simp)
  have ch: "files (snd ?run) ''c'' \<noteq> files ?m ''c''" by code_simp
  have p: "yl_parse (small_yaml [YMap False ?kvs]) ''x'' = Inr (YMap False ?kvs # [])" by (simp add: small_yaml_def)
  have pl: "plan_cdn_replacements ?av = [\<lparr>rule_origin = ''cdn.gameap.com'', rule_mirror = ''cdn.gameap.ru''\<rparr>]"
    by code_simp
  from replacements_only_add [OF small_yaml_merges _ p _ r] ch pl show ?thesis by auto
qed

end
