(* ===== verification/DaemonSetup.thy ===== *)
theory DaemonSetup
  imports DaemonConfig
begin

text \<open>
  The daemon's first configuration (\<open>internal/actions/daemon/install/daemon_install.go\<close>): the
  overrides of \<open>--config\<close>, the file that the legacy flow writes, the edits of the file that
  enrolling wrote, and the panel's answer to the registration of a node.
\<close>

section \<open>Base64 (\<open>encoding/base64\<close>, standard encoding)\<close>

definition base64_alphabet :: string where
  "base64_alphabet = ''ABCDEFGHIJKLMNOPQRSTUVWXYZabcdefghijklmnopqrstuvwxyz0123456789+/''"

definition base64_val :: "char \<Rightarrow> nat option" where
  "base64_val c =
     (if c \<in> set base64_alphabet then Some (length (takeWhile (\<lambda>x. x \<noteq> c) base64_alphabet)) else None)"

fun base64_quads :: "string \<Rightarrow> string option" where
  "base64_quads [] = Some []"
| "base64_quads (a # b # c # d # rest) =
     (case (base64_val a, base64_val b) of
        (Some x, Some y) \<Rightarrow>
          if c = CHR ''='' then
            (if d = CHR ''='' \<and> rest = [] then Some [char_of (4 * x + y div 16)] else None)
          else (case base64_val c of
              None \<Rightarrow> None
            | Some z \<Rightarrow>
                if d = CHR ''='' then
                  (if rest = [] then Some [char_of (4 * x + y div 16), char_of ((y mod 16) * 16 + z div 4)]
                   else None)
                else (case base64_val d of
                    None \<Rightarrow> None
                  | Some w \<Rightarrow> map_option (\<lambda>r. [char_of (4 * x + y div 16), char_of ((y mod 16) * 16 + z div 4),
                        char_of ((z mod 4) * 64 + w)] @ r) (base64_quads rest)))
      | _ \<Rightarrow> None)"
| "base64_quads _ = None"

definition base64_decode :: "string \<Rightarrow> string option" where
  "base64_decode s = base64_quads (filter (\<lambda>c. c \<noteq> CHR 0x0A \<and> c \<noteq> CHR 0x0D) s)"

fun base64_encode :: "string \<Rightarrow> string" where
  "base64_encode [] = []"
| "base64_encode [a] =
     (let x = of_char a :: nat in
      [base64_alphabet ! (x div 4), base64_alphabet ! ((x mod 4) * 16), CHR ''='', CHR ''=''])"
| "base64_encode [a, b] =
     (let x = of_char a :: nat; y = of_char b in
      [base64_alphabet ! (x div 4), base64_alphabet ! ((x mod 4) * 16 + y div 16),
       base64_alphabet ! ((y mod 16) * 4), CHR ''=''])"
| "base64_encode (a # b # c # r) =
     (let x = of_char a :: nat; y = of_char b; z = of_char c in
      [base64_alphabet ! (x div 4), base64_alphabet ! ((x mod 4) * 16 + y div 16),
       base64_alphabet ! ((y mod 16) * 4 + z div 64), base64_alphabet ! (z mod 64)] @ base64_encode r)"

section \<open>Overrides\<close>

text \<open>One \<open>key=value\<close> pair of the overrides; \<open>None\<close> for a blank or malformed one.\<close>

definition parse_pair :: "string \<Rightarrow> (string \<times> string) option" where
  "parse_pair p =
     (case split_n2 ''='' (trim_space p) of
        [k, v] \<Rightarrow> Some (trim_space k, trim_space v)
      | _ \<Rightarrow> None)"

definition override_text :: "string \<Rightarrow> string" where
  "override_text env =
     (case base64_decode env of
        Some d \<Rightarrow> if contains_str d ''='' then d else env
      | None \<Rightarrow> env)"

definition parse_config_overrides :: "string \<Rightarrow> (string \<rightharpoonup> string)" where
  "parse_config_overrides env =
     (if env = [] then Map.empty
      else fold (\<lambda>(k, v) m. m(k \<mapsto> v))
        (List.map_filter parse_pair (split_char (CHR '';'') (override_text env))) Map.empty)"

record process_manager_config =
  pmc_name :: string
  pmc_config :: "string \<rightharpoonup> string"

record daemon_config =
  dc_node_id :: nat
  dc_listen_ip :: string
  dc_listen_port :: int
  dc_api_host :: string
  dc_api_key :: string
  dc_ca_certificate_file :: string
  dc_certificate_chain_file :: string
  dc_private_key_file :: string
  dc_log_level :: string
  dc_output_log :: string
  dc_work_path :: string
  dc_tools_path :: string
  dc_steamcmd_path :: string
  dc_process_manager :: process_manager_config
  dc_users :: "string \<rightharpoonup> string"
  dc_use_network_service_user :: bool

definition pm_config_prefix :: string where "pm_config_prefix = ''process_manager.config.''"

text \<open>One iteration of \<open>applyConfigOverrides\<close>.\<close>

definition apply_override :: "string \<times> string \<Rightarrow> daemon_config \<Rightarrow> daemon_config" where
  "apply_override kv cfg =
     (case kv of (key, value) \<Rightarrow>
        if key = ''process_manager.name''
        then cfg\<lparr>dc_process_manager := (dc_process_manager cfg)\<lparr>pmc_name := value\<rparr>\<rparr>
        else if has_prefix key pm_config_prefix
        then cfg\<lparr>dc_process_manager := (dc_process_manager cfg)\<lparr>pmc_config :=
               (pmc_config (dc_process_manager cfg))(trim_prefix key pm_config_prefix \<mapsto> value)\<rparr>\<rparr>
        else if key = ''listen_ip'' then cfg\<lparr>dc_listen_ip := value\<rparr>
        else if key = ''listen_port'' then
          (case go_atoi value of None \<Rightarrow> cfg | Some port \<Rightarrow> cfg\<lparr>dc_listen_port := port\<rparr>)
        else if key = ''log_level'' then cfg\<lparr>dc_log_level := value\<rparr>
        else if key = ''work_path'' then cfg\<lparr>dc_work_path := value\<rparr>
        else if key = ''steamcmd_path'' then cfg\<lparr>dc_steamcmd_path := value\<rparr>
        else cfg)"

text \<open>The range over the map, in the order in which Go happens to enumerate it.\<close>

definition apply_config_overrides :: "(string \<times> string) list \<Rightarrow> daemon_config \<Rightarrow> daemon_config" where
  "apply_config_overrides kvs cfg = fold apply_override kvs cfg"

section \<open>The state of the installation\<close>

record daemons_install_state =
  di_host :: string
  di_token :: string
  di_connect_url :: string
  di_config :: string
  di_scope :: string
  di_work_path :: string
  di_steamcmd_path :: string
  di_tools_path :: string
  di_certs_path :: string
  di_daemon_file_path :: string
  di_config_file_path :: string
  di_config_dir :: string
  di_output_log_path :: string
  di_distribution :: string
  di_is_x86 :: bool
  di_listen_ip :: string
  di_node_id :: nat
  di_api_key :: string
  di_process_manager :: string
  di_from_github :: bool
  di_branch :: string
  di_version_input :: string
  di_tag :: string
  di_tag_prefix :: string
  di_resolved_tag :: string
  di_user :: string
  di_password :: string

definition pm_systemd :: string where "pm_systemd = ''systemd''"
definition pm_tmux :: string where "pm_tmux = ''tmux''"
definition pm_docker :: string where "pm_docker = ''docker''"
definition distribution_windows :: string where "distribution_windows = ''windows''"

text \<open>
  \<open>defineProcessManager\<close> on Linux; \<open>init\<close> is the name of process 1, if it can be read.
\<close>

definition define_process_manager :: "string option \<Rightarrow> daemons_install_state \<Rightarrow> daemons_install_state" where
  "define_process_manager init st =
     (case parse_config_overrides (di_config st) ''process_manager.name'' of
        Some (c # cs) \<Rightarrow> st\<lparr>di_process_manager := c # cs\<rparr>
      | _ \<Rightarrow>
          if di_scope st = scope_user then st\<lparr>di_process_manager := pm_systemd\<rparr>
          else if init = Some ''systemd'' then st\<lparr>di_process_manager := pm_systemd\<rparr>
          else st\<lparr>di_process_manager := pm_tmux\<rparr>)"

definition with_user_scope :: "string \<Rightarrow> process_manager_config \<Rightarrow> process_manager_config" where
  "with_user_scope scope pm =
     (if scope = scope_user \<and> pmc_name pm = pm_systemd \<and> pmc_config pm ''scope'' = None
      then pm\<lparr>pmc_config := (pmc_config pm)(''scope'' \<mapsto> scope_user)\<rparr> else pm)"

definition default_daemon_port :: int where "default_daemon_port = 31717"

definition initial_config :: "daemons_install_state \<Rightarrow> daemon_config" where
  "initial_config st =
     \<lparr>dc_node_id = di_node_id st, dc_listen_ip = di_listen_ip st, dc_listen_port = default_daemon_port,
      dc_api_host = di_host st, dc_api_key = di_api_key st,
      dc_ca_certificate_file = path_join [di_certs_path st, ''ca.crt''],
      dc_certificate_chain_file = path_join [di_certs_path st, ''server.crt''],
      dc_private_key_file = path_join [di_certs_path st, ''server.key''],
      dc_log_level = ''debug'', dc_output_log = di_output_log_path st,
      dc_work_path = di_work_path st, dc_tools_path = di_tools_path st,
      dc_steamcmd_path = di_steamcmd_path st,
      dc_process_manager = \<lparr>pmc_name = di_process_manager st, pmc_config = Map.empty\<rparr>,
      dc_users = (if di_distribution st = distribution_windows \<and> di_user st \<noteq> []
                  then [di_user st \<mapsto> ''base64:'' @ base64_encode (di_password st)] else Map.empty),
      dc_use_network_service_user = (di_distribution st = distribution_windows)\<rparr>"

text \<open>\<open>kvs\<close> is the enumeration of \<open>parseConfigOverrides(state.Config)\<close>.\<close>

definition final_config :: "(string \<times> string) list \<Rightarrow> daemons_install_state \<Rightarrow> daemon_config" where
  "final_config kvs st =
     (let cfg = (if di_config st \<noteq> [] then apply_config_overrides kvs (initial_config st) else initial_config st)
      in cfg\<lparr>dc_process_manager := with_user_scope (di_scope st) (dc_process_manager cfg)\<rparr>)"

definition save_daemon_config ::
  "'w os_env \<Rightarrow> (daemon_config \<Rightarrow> string result) \<Rightarrow> (string \<times> string) list \<Rightarrow> daemons_install_state \<Rightarrow> ('w, unit) sys" where
  "save_daemon_config os marshal kvs st =
     (case marshal (final_config kvs st) of
        Inl e \<Rightarrow> failE (WithMessage e ''failed to marshal daemon config'')
      | Inr text \<Rightarrow> write_file os (di_config_file_path st) text)"

section \<open>Edits of the enrolled configuration\<close>

text \<open>Reading the file as a map, changing it unless \<open>f\<close> says there is nothing to do, writing it.\<close>

definition edit_raw ::
  "'w os_env \<Rightarrow> yaml_lib \<Rightarrow> string \<Rightarrow> ((string \<rightharpoonup> yval) \<Rightarrow> (string \<rightharpoonup> yval) option) \<Rightarrow> ('w, unit) sys" where
  "edit_raw os yl path f =
     bindE (wrapE ''failed to read daemon config'' (read_file os path)) (\<lambda>data.
       case yl_unmarshal yl data of
         Inl e \<Rightarrow> failE (WithMessage e ''failed to parse daemon config'')
       | Inr raw \<Rightarrow>
           (case f raw of
              None \<Rightarrow> retE ()
            | Some raw' \<Rightarrow>
                (case yl_marshal yl raw' of
                   Inl e \<Rightarrow> failE (WithMessage e ''failed to marshal daemon config'')
                 | Inr out \<Rightarrow> wrapE ''failed to write daemon config'' (write_file os path out))))"

definition as_map :: "yval option \<Rightarrow> (string \<rightharpoonup> yval)" where
  "as_map v = (case v of Some (VMap m) \<Rightarrow> m | _ \<Rightarrow> Map.empty)"

definition as_string :: "yval option \<Rightarrow> string" where
  "as_string v = (case v of Some (VStr s) \<Rightarrow> s | _ \<Rightarrow> [])"

definition user_scope_pm :: "(string \<rightharpoonup> yval) \<Rightarrow> (string \<rightharpoonup> yval)" where
  "user_scope_pm raw =
     (let pm = as_map (raw ''process_manager'');
          pm = (if as_string (pm ''name'') = [] then pm(''name'' \<mapsto> VStr pm_systemd) else pm);
          cfg = as_map (pm ''config'');
          cfg = (if cfg ''scope'' = None then cfg(''scope'' \<mapsto> VStr scope_user) else cfg)
      in raw(''process_manager'' \<mapsto> VMap (pm(''config'' \<mapsto> VMap cfg))))"

definition apply_user_scope_process_manager :: "'w os_env \<Rightarrow> yaml_lib \<Rightarrow> string \<Rightarrow> ('w, unit) sys" where
  "apply_user_scope_process_manager os yl path = edit_raw os yl path (\<lambda>raw. Some (user_scope_pm raw))"

definition apply_windows_network_service_user :: "'w os_env \<Rightarrow> yaml_lib \<Rightarrow> string \<Rightarrow> ('w, unit) sys" where
  "apply_windows_network_service_user os yl path = edit_raw os yl path (\<lambda>raw.
     if raw ''use_network_service_user'' \<noteq> None then None
     else Some (raw(''use_network_service_user'' \<mapsto> VBool True)))"

definition apply_steamcmd_path :: "'w os_env \<Rightarrow> yaml_lib \<Rightarrow> string \<Rightarrow> string \<Rightarrow> ('w, unit) sys" where
  "apply_steamcmd_path os yl path steamcmd =
     (if trim_space steamcmd = [] then retE ()
      else edit_raw os yl path (\<lambda>raw.
        if trim_space (as_string (raw ''steamcmd_path'')) \<noteq> [] then None
        else Some (raw(''steamcmd_path'' \<mapsto> VStr steamcmd))))"

section \<open>The answer of the panel\<close>

text \<open>\<open>bytes.SplitN(s, sep, n)\<close>, \<open>n > 0\<close>.\<close>

fun split_n :: "nat \<Rightarrow> string \<Rightarrow> string \<Rightarrow> string list" where
  "split_n (Suc (Suc n)) sep s =
     (case cut_str sep s of None \<Rightarrow> [s] | Some (a, b) \<Rightarrow> a # split_n (Suc n) sep b)"
| "split_n n sep s = [s]"

record node_registration =
  nr_node_id :: nat
  nr_api_key :: string
  nr_ca :: string
  nr_cert :: string

text \<open>
  The end of \<open>configureDaemon\<close>: status line, node id and key, then the two certificates.
\<close>

definition parse_registration :: "string \<Rightarrow> node_registration result" where
  "parse_registration body =
     (let parts = split_n 2 [CHR 0x0A] body;
          status = split_n 3 '' '' (parts ! 0)
      in if status ! 0 \<noteq> ''Success'' then
           (if length status > 1 then Inl (UnableToSetupNode (join_with '' '' (tl status)))
            else Inl (UnableToSetupNode ''error, no message''))
         else if length status < 3 then Inl (UnableToSetupNode ''error, invalid status message'')
         else case go_atoi (status ! 1) of
           None \<Rightarrow> Inl (WithMessage (Err ''invalid syntax'') ''failed to convert node id to int'')
         | Some n \<Rightarrow>
             if n < 0 then Inl (Err ''node id cannot be negative'')
             else if length parts < 2 then Inl (UnableToSetupNode ''error, invalid body'')
             else case split_n 2 [CHR 0x0A, CHR 0x0A] (parts ! 1) of
               [ca, cert] \<Rightarrow> Inr \<lparr>nr_node_id = nat n, nr_api_key = status ! 2, nr_ca = ca, nr_cert = cert\<rparr>
             | _ \<Rightarrow> Inl (UnableToSetupNode ''error, invalid certificates''))"

section \<open>Lemmas\<close>

lemma has_prefix_split: "has_prefix s p \<Longrightarrow> s = p @ trim_prefix s p"
  by (auto simp: has_prefix_iff)

lemma trim_prefix_inj: "has_prefix a p \<Longrightarrow> has_prefix b p \<Longrightarrow> trim_prefix a p = trim_prefix b p \<Longrightarrow> a = b"
  using has_prefix_split by metis

text \<open>Which part of the configuration a key sets, if any.\<close>

datatype override_target =
    SetName | SetOption string | SetListenIP | SetListenPort | SetLogLevel | SetWorkPath | SetSteamCMD

definition override_key :: "string \<Rightarrow> override_target option" where
  "override_key key =
     (if key = ''process_manager.name'' then Some SetName
      else if has_prefix key pm_config_prefix then Some (SetOption (trim_prefix key pm_config_prefix))
      else if key = ''listen_ip'' then Some SetListenIP
      else if key = ''listen_port'' then Some SetListenPort
      else if key = ''log_level'' then Some SetLogLevel
      else if key = ''work_path'' then Some SetWorkPath
      else if key = ''steamcmd_path'' then Some SetSteamCMD
      else None)"

fun set_target :: "override_target \<Rightarrow> string \<Rightarrow> daemon_config \<Rightarrow> daemon_config" where
  "set_target SetName v cfg = cfg\<lparr>dc_process_manager := (dc_process_manager cfg)\<lparr>pmc_name := v\<rparr>\<rparr>"
| "set_target (SetOption k) v cfg = cfg\<lparr>dc_process_manager := (dc_process_manager cfg)\<lparr>pmc_config :=
     (pmc_config (dc_process_manager cfg))(k \<mapsto> v)\<rparr>\<rparr>"
| "set_target SetListenIP v cfg = cfg\<lparr>dc_listen_ip := v\<rparr>"
| "set_target SetListenPort v cfg =
     (case go_atoi v of None \<Rightarrow> cfg | Some port \<Rightarrow> cfg\<lparr>dc_listen_port := port\<rparr>)"
| "set_target SetLogLevel v cfg = cfg\<lparr>dc_log_level := v\<rparr>"
| "set_target SetWorkPath v cfg = cfg\<lparr>dc_work_path := v\<rparr>"
| "set_target SetSteamCMD v cfg = cfg\<lparr>dc_steamcmd_path := v\<rparr>"

lemma apply_override_target:
  "apply_override (k, v) cfg = (case override_key k of None \<Rightarrow> cfg | Some t \<Rightarrow> set_target t v cfg)"
  by (simp add: apply_override_def override_key_def)

lemma override_key_inj: "override_key k = Some t \<Longrightarrow> override_key k' = Some t \<Longrightarrow> k = k'"
  by (auto simp: override_key_def dest: trim_prefix_inj split: if_splits)

lemma set_target_commute: "t \<noteq> t' \<Longrightarrow> set_target t v (set_target t' v' cfg) = set_target t' v' (set_target t v cfg)"
  by (cases t; cases t') (simp_all add: fun_upd_twist split: option.split)

lemma apply_override_commute:
  assumes "fst a \<noteq> fst b"
  shows "apply_override a \<circ> apply_override b = apply_override b \<circ> apply_override a"
proof (rule ext)
  fix cfg
  show "(apply_override a \<circ> apply_override b) cfg = (apply_override b \<circ> apply_override a) cfg"
    using assms override_key_inj [of "fst a" _ "fst b"]
    by (cases a; cases b) (auto simp: apply_override_target intro: set_target_commute split: option.split)
qed

lemma split_n2_some:
  "cut_str sep s = Some (a, b) \<Longrightarrow> split_n 2 sep s = [a, b]"
  by (simp add: numeral_2_eq_2)

lemma split_n3_words:
  "c \<notin> set a \<Longrightarrow> c \<notin> set b \<Longrightarrow> split_n 3 [c] (a @ c # b @ c # d) = [a, b, d]"
  by (simp add: numeral_3_eq_3 cut_str_char)

text \<open>The first blank line ends the first certificate.\<close>

lemma cut_blank_line:
  assumes "\<not> contains_str (ca @ [CHR 0x0A]) [CHR 0x0A, CHR 0x0A]"
  shows "cut_str [CHR 0x0A, CHR 0x0A] (ca @ [CHR 0x0A, CHR 0x0A] @ cert) = Some (ca, cert)"
  using assms
proof (induction ca)
  case Nil
  then show ?case by simp
next
  case (Cons x ca)
  have np: "\<not> has_prefix ((x # ca) @ [CHR 0x0A, CHR 0x0A] @ cert) [CHR 0x0A, CHR 0x0A]"
  proof
    assume p: "has_prefix ((x # ca) @ [CHR 0x0A, CHR 0x0A] @ cert) [CHR 0x0A, CHR 0x0A]"
    have "has_prefix ((x # ca) @ [CHR 0x0A]) [CHR 0x0A, CHR 0x0A]"
      using p by (cases ca) (auto simp: has_prefix_iff)
    then show False using Cons.prems by simp
  qed
  have "\<not> contains_str (ca @ [CHR 0x0A]) [CHR 0x0A, CHR 0x0A]" using Cons.prems by simp
  with Cons.IH np show ?case by simp
qed

lemma as_map_simps [simp]: "as_map None = Map.empty" "as_map (Some (VMap m)) = m"
  by (simp_all add: as_map_def)

lemma as_string_simps [simp]: "as_string None = []" "as_string (Some (VStr t)) = t"
  by (simp_all add: as_string_def)

text \<open>The two defaults of \<open>applyUserScopeProcessManager\<close>.\<close>

definition named :: "(string \<rightharpoonup> yval) \<Rightarrow> (string \<rightharpoonup> yval)" where
  "named pm = (if as_string (pm ''name'') = [] then pm(''name'' \<mapsto> VStr pm_systemd) else pm)"

definition scoped :: "(string \<rightharpoonup> yval) \<Rightarrow> (string \<rightharpoonup> yval)" where
  "scoped cfg = (if cfg ''scope'' = None then cfg(''scope'' \<mapsto> VStr scope_user) else cfg)"

lemma named_simps [simp]:
  "as_string (named pm ''name'') = (if as_string (pm ''name'') = [] then pm_systemd else as_string (pm ''name''))"
  "k \<noteq> ''name'' \<Longrightarrow> named pm k = pm k"
  by (simp_all add: named_def)

lemma scoped_simps [simp]:
  "scoped cfg ''scope'' = (case cfg ''scope'' of None \<Rightarrow> Some (VStr scope_user) | Some v \<Rightarrow> Some v)"
  "k \<noteq> ''scope'' \<Longrightarrow> scoped cfg k = cfg k" "scoped (scoped cfg) = scoped cfg"
  by (auto simp: scoped_def)

lemma user_scope_pm_eq:
  "user_scope_pm raw = raw(''process_manager'' \<mapsto>
     VMap ((named (as_map (raw ''process_manager'')))(''config'' \<mapsto>
       VMap (scoped (as_map (as_map (raw ''process_manager'') ''config''))))))"
  by (simp add: user_scope_pm_def Let_def scoped_def) (simp add: named_def)

lemma user_scope_pm_idem: "user_scope_pm (user_scope_pm raw) = user_scope_pm raw"
proof -
  have n: "named ((named pm)(''config'' \<mapsto> c)) = (named pm)(''config'' \<mapsto> c)" for pm c
  proof -
    have "as_string (((named pm)(''config'' \<mapsto> c)) ''name'') \<noteq> []" by (simp add: pm_systemd_def)
    then show ?thesis by (simp only: named_def [of "(named pm)(''config'' \<mapsto> c)"]) simp
  qed
  show ?thesis by (simp add: user_scope_pm_eq n)
qed

lemma edit_raw_Inr:
  assumes "edit_raw os yl path f m = (Inr (), m')"
  shows "\<exists>data raw. files m path = Some data \<and> yl_unmarshal yl data = Inr raw \<and>
    (f raw = None \<and> m' = m \<or>
     (\<exists>raw' out. f raw = Some raw' \<and> yl_marshal yl raw' = Inr out \<and> m' = put_file path out m))"
proof -
  from assms obtain data where d: "files m path = Some data"
    and r: "(case yl_unmarshal yl data of
         Inl e \<Rightarrow> failE (WithMessage e ''failed to parse daemon config'')
       | Inr raw \<Rightarrow>
           (case f raw of
              None \<Rightarrow> retE ()
            | Some raw' \<Rightarrow>
                (case yl_marshal yl raw' of
                   Inl e \<Rightarrow> failE (WithMessage e ''failed to marshal daemon config'')
                 | Inr out \<Rightarrow> wrapE ''failed to write daemon config'' (write_file os path out)))) m = (Inr (), m')"
    by (auto simp: edit_raw_def bindE_Inr_iff read_file_Inr)
  from r obtain raw where u: "yl_unmarshal yl data = Inr raw" by (cases "yl_unmarshal yl data") auto
  show ?thesis
  proof (cases "f raw")
    case None
    with d u r show ?thesis by auto
  next
    case (Some raw')
    with r u obtain out where o: "yl_marshal yl raw' = Inr out" by (cases "yl_marshal yl raw'") auto
    with d u r Some show ?thesis by (auto simp: write_file_Inr)
  qed
qed

section \<open>Properties\<close>

text \<open>
  The overrides of the daemon configuration do not depend on the order in which Go
  enumerates the map they are kept in: any two enumerations of the same overrides give the
  same configuration.
\<close>

theorem overrides_order_irrelevant:
  assumes "distinct (map fst kvs)" "mset kvs = mset kvs'"
  shows "apply_config_overrides kvs cfg = apply_config_overrides kvs' cfg"
proof -
  have "apply_override x \<circ> apply_override y = apply_override y \<circ> apply_override x"
    if "x \<in> set kvs" "y \<in> set kvs" for x y
  proof (cases "fst x = fst y")
    case True
    with that assms(1) have "x = y" by (simp add: distinct_map inj_on_def)
    then show ?thesis by simp
  next
    case False
    then show ?thesis by (rule apply_override_commute)
  qed
  then have "fold apply_override kvs = fold apply_override kvs'"
    by (rule fold_multiset_equiv) (simp_all add: assms(2))
  then show ?thesis by (simp add: apply_config_overrides_def)
qed

definition plain_config :: daemon_config where
  "plain_config =
     \<lparr>dc_node_id = 1, dc_listen_ip = ''0.0.0.0'', dc_listen_port = default_daemon_port, dc_api_host = ''h'',
      dc_api_key = ''k'', dc_ca_certificate_file = [], dc_certificate_chain_file = [], dc_private_key_file = [],
      dc_log_level = ''debug'', dc_output_log = [], dc_work_path = [], dc_tools_path = [], dc_steamcmd_path = [],
      dc_process_manager = \<lparr>pmc_name = ''tmux'', pmc_config = Map.empty\<rparr>, dc_users = Map.empty,
      dc_use_network_service_user = False\<rparr>"

theorem overrides_order_irrelevant_witness:
  "dc_listen_port (apply_config_overrides [(''listen_port'', ''x''), (''listen_port2'', ''7''), (''log_level'', ''info'')] plain_config) = 31717 \<and>
   apply_config_overrides [(''listen_port'', ''x''), (''process_manager.name'', ''docker''), (''log_level'', ''info'')] plain_config =
   apply_config_overrides [(''log_level'', ''info''), (''process_manager.name'', ''docker''), (''listen_port'', ''x'')] plain_config"
proof -
  have "dc_listen_port (apply_config_overrides [(''listen_port'', ''x''), (''listen_port2'', ''7''), (''log_level'', ''info'')] plain_config) = 31717"
    by code_simp
  moreover have "apply_config_overrides [(''listen_port'', ''x''), (''process_manager.name'', ''docker''), (''log_level'', ''info'')] plain_config =
    apply_config_overrides [(''log_level'', ''info''), (''process_manager.name'', ''docker''), (''listen_port'', ''x'')] plain_config"
    by (rule overrides_order_irrelevant) simp_all
  ultimately show ?thesis by blast
qed

text \<open>
  The registration of a node is read back exactly: what the panel answers for a node id
  that fits an \<open>int\<close>, a key on one line and a first certificate without blank line is parsed
  to that id, that key and those two certificates.
\<close>

theorem registration_roundtrip:
  assumes "n < 2 ^ 63" "CHR 0x0A \<notin> set key"
    and "\<not> contains_str (ca @ [CHR 0x0A]) [CHR 0x0A, CHR 0x0A]"
  shows "parse_registration (''Success '' @ itoa_nat n @ '' '' @ key @ [CHR 0x0A] @ ca @ [CHR 0x0A, CHR 0x0A] @ cert) =
    Inr \<lparr>nr_node_id = n, nr_api_key = key, nr_ca = ca, nr_cert = cert\<rparr>"
proof -
  let ?line = "''Success '' @ itoa_nat n @ '' '' @ key" and ?rest = "ca @ [CHR 0x0A, CHR 0x0A] @ cert"
  have "CHR 0x0A \<notin> set ?line" using assms(2) itoa_nat_notin [of "CHR 0x0A" n] by simp
  then have "split_n 2 [CHR 0x0A] (?line @ CHR 0x0A # ?rest) = [?line, ?rest]"
    by (rule split_n2_some [OF cut_str_char])
  moreover have "split_n 3 '' '' ?line = [''Success'', itoa_nat n, key]"
    using split_n3_words [of "CHR '' ''" "''Success''" "itoa_nat n" key] itoa_nat_notin [of "CHR '' ''" n] by simp
  moreover have "split_n 2 [CHR 0x0A, CHR 0x0A] ?rest = [ca, cert]"
    by (rule split_n2_some [OF cut_blank_line [OF assms(3)]])
  ultimately show ?thesis
    using atoi_itoa [OF assms(1)] by (simp add: parse_registration_def Let_def)
qed

theorem registration_roundtrip_witness:
  "parse_registration (''Success 12 k e y'' @ [CHR 0x0A] @ ''ca'' @ [CHR 0x0A, CHR 0x0A] @ ''cert'') =
     Inr \<lparr>nr_node_id = 12, nr_api_key = ''k e y'', nr_ca = ''ca'', nr_cert = ''cert''\<rparr>"
proof -
  have "itoa_nat 12 = ''12''" by code_simp
  then show ?thesis
    using registration_roundtrip [of 12 "''k e y''" "''ca''" "''cert''"] by simp
qed

text \<open>
  Making an enrolled configuration rootless only fills gaps: every top-level key but
  \<open>process_manager\<close> keeps its value, as do a process manager that is named, its other
  options and a scope that is set; afterwards the file names a process manager and a scope,
  and doing it again changes nothing.
\<close>

theorem user_scope_edit_fills_gaps:
  assumes lib: "\<And>raw out. yl_marshal yl raw = Inr out \<Longrightarrow> yl_unmarshal yl out = Inr raw"
    and run: "apply_user_scope_process_manager os yl path m = (Inr (), m')"
  shows "\<exists>data raw data' raw'. files m path = Some data \<and> yl_unmarshal yl data = Inr raw \<and>
    m' = put_file path data' m \<and> yl_unmarshal yl data' = Inr raw' \<and>
    (\<forall>k. k \<noteq> ''process_manager'' \<longrightarrow> raw' k = raw k) \<and>
    (let pm = as_map (raw ''process_manager''); pm' = as_map (raw' ''process_manager'') in
       as_string (pm' ''name'') = (if as_string (pm ''name'') = [] then pm_systemd else as_string (pm ''name'')) \<and>
       (\<forall>k. k \<noteq> ''name'' \<longrightarrow> k \<noteq> ''config'' \<longrightarrow> pm' k = pm k) \<and>
       as_map (pm' ''config'') ''scope'' =
         (case as_map (pm ''config'') ''scope'' of None \<Rightarrow> Some (VStr scope_user) | Some v \<Rightarrow> Some v) \<and>
       (\<forall>k. k \<noteq> ''scope'' \<longrightarrow> as_map (pm' ''config'') k = as_map (pm ''config'') k)) \<and>
    user_scope_pm raw' = raw'"
proof -
  from edit_raw_Inr [OF run [unfolded apply_user_scope_process_manager_def]]
  obtain data raw out where 1: "files m path = Some data" "yl_unmarshal yl data = Inr raw"
    "yl_marshal yl (user_scope_pm raw) = Inr out" "m' = put_file path out m" by auto
  have "let pm = as_map (raw ''process_manager''); pm' = as_map (user_scope_pm raw ''process_manager'') in
       as_string (pm' ''name'') = (if as_string (pm ''name'') = [] then pm_systemd else as_string (pm ''name'')) \<and>
       (\<forall>k. k \<noteq> ''name'' \<longrightarrow> k \<noteq> ''config'' \<longrightarrow> pm' k = pm k) \<and>
       as_map (pm' ''config'') ''scope'' =
         (case as_map (pm ''config'') ''scope'' of None \<Rightarrow> Some (VStr scope_user) | Some v \<Rightarrow> Some v) \<and>
       (\<forall>k. k \<noteq> ''scope'' \<longrightarrow> as_map (pm' ''config'') k = as_map (pm ''config'') k)"
    by (simp add: user_scope_pm_eq Let_def)
  moreover have "\<forall>k. k \<noteq> ''process_manager'' \<longrightarrow> user_scope_pm raw k = raw k"
    by (simp add: user_scope_pm_eq)
  moreover note user_scope_pm_idem [of raw]
  ultimately show ?thesis using 1 lib [OF 1(3)] by blast
qed

definition fresh_yaml :: yaml_lib where
  "fresh_yaml = (small_yaml [])\<lparr>
     yl_unmarshal := (\<lambda>s. if s = ''old'' then Inr [''api_key'' \<mapsto> VStr ''k''] else Inr (user_scope_pm [''api_key'' \<mapsto> VStr ''k''])),
     yl_marshal := (\<lambda>raw. if raw = user_scope_pm [''api_key'' \<mapsto> VStr ''k''] then Inr ''new'' else Inl (Err ''marshal''))\<rparr>"

theorem user_scope_edit_fills_gaps_witness:
  "\<exists>raw'. raw' ''api_key'' = Some (VStr ''k'') \<and>
     as_map (as_map (raw' ''process_manager'') ''config'') ''scope'' = Some (VStr scope_user)"
proof -
  let ?m = "\<lparr>files = [''c'' \<mapsto> ''old''], dirs = {}, world = (), service_memo = None\<rparr>"
  have lib: "yl_unmarshal fresh_yaml out = Inr raw" if "yl_marshal fresh_yaml raw = Inr out" for raw out
    using that by (auto simp: fresh_yaml_def split: if_splits)
  have run: "apply_user_scope_process_manager calm_os fresh_yaml ''c'' ?m = (Inr (), put_file ''c'' ''new'' ?m)"
    by (simp add: apply_user_scope_process_manager_def edit_raw_def bindE_def wrapE_def read_file_def
        write_file_def calm_os_def fresh_yaml_def)
  have old: "yl_unmarshal fresh_yaml ''old'' = Inr [''api_key'' \<mapsto> VStr ''k'']" by (simp add: fresh_yaml_def)
  from user_scope_edit_fills_gaps [OF lib run] obtain data raw raw' where
    "files ?m ''c'' = Some data" "yl_unmarshal fresh_yaml data = Inr raw"
    and keep: "\<forall>k. k \<noteq> ''process_manager'' \<longrightarrow> raw' k = raw k"
    and sc: "as_map (as_map (raw' ''process_manager'') ''config'') ''scope'' =
         (case as_map (as_map (raw ''process_manager'') ''config'') ''scope'' of None \<Rightarrow> Some (VStr scope_user) | Some v \<Rightarrow> Some v)"
    by (auto simp: Let_def)
  then have "raw = [''api_key'' \<mapsto> VStr ''k'']" using old by auto
  with keep sc show ?thesis by (intro exI [of _ raw']) auto
qed

end
