(* ===== verification/InstallState.thy ===== *)
theory InstallState
  imports Scopes
begin

text \<open>
  What the installations leave for later commands (\<open>internal/pkg/gameapctl\<close>): the state of the
  daemon installation and the state of the panel installation, each a JSON file in
  \<open>~/.gameapctl\<close> that is replaced by a rename. JSON is a parameter.
\<close>

record daemon_install_record =
  dir_host :: string
  dir_connect_url :: string
  dir_version :: string
  dir_scope :: string
  dir_work_path :: string
  dir_steamcmd_path :: string
  dir_certs_path :: string
  dir_from_github :: bool
  dir_branch :: string
  dir_process_manager :: string
  dir_grpc_enabled :: bool

record panel_install_record =
  pir_version :: string
  pir_scope :: string
  pir_host :: string
  pir_host_ip :: string
  pir_port :: string
  pir_path :: string
  pir_config_directory :: string
  pir_data_directory :: string
  pir_web_server :: string
  pir_database :: string
  pir_database_was_installed :: bool
  pir_develop :: bool
  pir_from_github :: bool
  pir_branch :: string
  pir_db_host :: string
  pir_db_port :: string
  pir_db_name :: string
  pir_db_username :: string
  pir_db_password :: string
  pir_db_root_password :: string
  pir_admin_password :: string

record 'a codec =
  encode_json :: "'a \<Rightarrow> string result"
  decode_json :: "string \<Rightarrow> 'a result"

definition state_directory :: "'w os_env \<Rightarrow> string option \<Rightarrow> ('w, string) sys" where
  "state_directory os home =
     (case home of
        None \<Rightarrow> failE (Err ''failed to get user home dir'')
      | Some h \<Rightarrow> (\<lambda>m.
          let dir = path_join [h, ''.gameapctl''] in
          case stat_file os dir m of
            StatMissing \<Rightarrow>
              bindE (wrapE ''failed to create state directory'' (mkdir_all os dir)) (\<lambda>_. retE dir) m
          | _ \<Rightarrow> (Inr dir, m)))"

definition save_state_file ::
  "'w os_env \<Rightarrow> string option \<Rightarrow> string \<Rightarrow> 'a codec \<Rightarrow> 'a \<Rightarrow> ('w, unit) sys" where
  "save_state_file os home name js st =
     (case encode_json js st of
        Inl e \<Rightarrow> failE (WithMessage e ''failed to marshal json'')
      | Inr b \<Rightarrow>
          bindE (wrapE ''failed to get state directory'' (state_directory os home)) (\<lambda>dir.
            let final = path_join [dir, name]; tmp = final @ ''.tmp'' in
            bindE (wrapE ''failed to write temp file'' (write_file os tmp b)) (\<lambda>_.
            catchE (rename_file os tmp final) (\<lambda>_.
              bindE (wrapE ''failed to write file'' (write_file os final b)) (\<lambda>_.
                quietly (remove_file os tmp))))))"

definition load_state_file ::
  "'w os_env \<Rightarrow> string option \<Rightarrow> string \<Rightarrow> 'a codec \<Rightarrow> ('w, 'a) sys" where
  "load_state_file os home name js =
     bindE (wrapE ''failed to get state directory'' (state_directory os home)) (\<lambda>dir.
     bindE (wrapE ''failed to read file'' (read_file os (path_join [dir, name]))) (\<lambda>b.
       case decode_json js b of
         Inl e \<Rightarrow> failE (WithMessage e ''failed to unmarshal json'')
       | Inr st \<Rightarrow> retE st))"

definition daemon_install_state_file :: string where
  "daemon_install_state_file = ''daemon_install_state.json''"

definition panel_install_state_file :: string where
  "panel_install_state_file = ''panel_install_state.json''"

definition save_daemon_install_state ::
  "'w os_env \<Rightarrow> string option \<Rightarrow> daemon_install_record codec \<Rightarrow> daemon_install_record \<Rightarrow> ('w, unit) sys" where
  "save_daemon_install_state os home js st = save_state_file os home daemon_install_state_file js st"

definition load_daemon_install_state ::
  "'w os_env \<Rightarrow> string option \<Rightarrow> daemon_install_record codec \<Rightarrow> ('w, daemon_install_record) sys" where
  "load_daemon_install_state os home js = load_state_file os home daemon_install_state_file js"

definition save_panel_install_state ::
  "'w os_env \<Rightarrow> string option \<Rightarrow> panel_install_record codec \<Rightarrow> panel_install_record \<Rightarrow> ('w, unit) sys" where
  "save_panel_install_state os home js st = save_state_file os home panel_install_state_file js st"

definition load_panel_install_state ::
  "'w os_env \<Rightarrow> string option \<Rightarrow> panel_install_record codec \<Rightarrow> ('w, panel_install_record) sys" where
  "load_panel_install_state os home js = load_state_file os home panel_install_state_file js"

section \<open>Lemmas\<close>

lemma state_directory_Inr:
  "state_directory os home m = (Inr dir, m') \<Longrightarrow>
     (\<exists>h. home = Some h \<and> dir = path_join [h, ''.gameapctl'']) \<and> files m' = files m"
  by (auto simp: state_directory_def Let_def bindE_Inr_iff mkdir_all_def
      split: option.splits stat_reply.splits)

lemma state_directory_files: "files (snd (state_directory os home m)) = files m"
  by (simp add: state_directory_def Let_def snd_bindE split: option.split stat_reply.split sum.split)

lemma rename_file_Inr:
  "rename_file os p q m = (Inr u, m') \<longleftrightarrow> fault os (OpRename p q) m = None \<and>
     (\<exists>c. files m p = Some c \<and> m' = m\<lparr>files := (files m)(p := None, q \<mapsto> c)\<rparr>)"
  by (auto simp: rename_file_def split: option.splits)

lemma rename_file_Inl: "rename_file os p q m = (Inl e, m') \<Longrightarrow> m' = m"
  by (auto simp: rename_file_def split: option.splits)

lemma append_tmp_neq [simp]: "p @ ''.tmp'' \<noteq> p"
  by simp

lemma save_state_file_Inr:
  assumes "save_state_file os home name js st m = (Inr (), m')"
  shows "\<exists>h b. home = Some h \<and> encode_json js st = Inr b \<and>
    files m' (path_join [path_join [h, ''.gameapctl''], name]) = Some b"
proof -
  obtain b where b: "encode_json js st = Inr b"
    using assms by (cases "encode_json js st") (auto simp: save_state_file_def)
  with assms obtain dir m1 m2 where d: "state_directory os home m = (Inr dir, m1)"
    and w: "write_file os (path_join [dir, name] @ ''.tmp'') b m1 = (Inr (), m2)"
    and r: "catchE (rename_file os (path_join [dir, name] @ ''.tmp'') (path_join [dir, name])) (\<lambda>_.
              bindE (wrapE ''failed to write file'' (write_file os (path_join [dir, name]) b)) (\<lambda>_.
                quietly (remove_file os (path_join [dir, name] @ ''.tmp'')))) m2 = (Inr (), m')"
    by (auto simp: save_state_file_def Let_def bindE_Inr_iff)
  let ?f = "path_join [dir, name]"
  have m2: "files m2 (?f @ ''.tmp'') = Some b" using w by (simp add: write_file_Inr)
  have "files m' ?f = Some b"
  proof (cases "rename_file os (?f @ ''.tmp'') ?f m2")
    case (Pair q m3)
    show ?thesis
    proof (cases q)
      case (Inr u)
      with Pair r have "m3 = m'" by (simp add: catchE_def)
      with Pair Inr m2 show ?thesis by (auto simp: rename_file_Inr)
    next
      case (Inl e)
      with Pair r have "bindE (wrapE ''failed to write file'' (write_file os ?f b)) (\<lambda>_.
                quietly (remove_file os (?f @ ''.tmp''))) m3 = (Inr (), m')" by (simp add: catchE_def)
      then show ?thesis
        by (auto simp: bindE_Inr_iff write_file_Inr remove_file_others)
    qed
  qed
  with b state_directory_Inr [OF d] show ?thesis by auto
qed

lemma leaves_state_directory: "leaves p (state_directory os home)"
  by (intro leavesI) (simp add: state_directory_files)

lemma save_state_leaves:
  assumes "\<And>h. home = Some h \<Longrightarrow> p \<noteq> path_join [path_join [h, ''.gameapctl''], name] \<and>
      p \<noteq> path_join [path_join [h, ''.gameapctl''], name] @ ''.tmp''"
  shows "leaves p (save_state_file os home name js st)"
proof (cases "encode_json js st")
  case (Inr b)
  have "leaves p (bindE (wrapE ''failed to get state directory'' (state_directory os home)) (\<lambda>dir.
            bindE (wrapE ''failed to write temp file'' (write_file os (path_join [dir, name] @ ''.tmp'') b)) (\<lambda>_.
            catchE (rename_file os (path_join [dir, name] @ ''.tmp'') (path_join [dir, name])) (\<lambda>_.
              bindE (wrapE ''failed to write file'' (write_file os (path_join [dir, name]) b)) (\<lambda>_.
                quietly (remove_file os (path_join [dir, name] @ ''.tmp'')))))))" (is "leaves p (bindE _ ?k)")
  proof (intro leavesI)
    fix m
    obtain r t where r: "wrapE ''failed to get state directory'' (state_directory os home) m = (r, t)" by fastforce
    then have t: "files t p = files m p" by (rule leavesD [OF leaves_basic(3) [OF leaves_state_directory]])
    show "files (snd (bindE (wrapE ''failed to get state directory'' (state_directory os home)) ?k m)) p = files m p"
    proof (cases r)
      case (Inr dir)
      with r state_directory_Inr [of os home m dir t] assms
      have "p \<noteq> path_join [dir, name] \<and> p \<noteq> path_join [dir, name] @ ''.tmp''" by auto
      then have "leaves p (?k dir)"
        by (intro leaves_bindE leaves_catchE leaves_basic leaves_write leaves_rename leaves_remove) simp_all
      then have "files (snd (?k dir t)) p = files t p" by (simp add: leaves_def keeps_def)
      then show ?thesis by (simp only: bindE_def r Inr t prod.case sum.case)
    qed (simp add: bindE_def r t)
  qed
  with Inr show ?thesis by (simp add: save_state_file_def Let_def)
qed (simp add: save_state_file_def leaves_basic)

lemma load_state_leaves: "leaves p (load_state_file os home name js)"
  unfolding load_state_file_def
  by (intro leaves_bindE leaves_basic leaves_state_directory) (auto simp: leaves_basic split: sum.split)

lemma saved_file_is_loaded:
  assumes json: "\<And>st b. encode_json js st = Inr b \<Longrightarrow> decode_json js b = Inr st"
    and save: "save_state_file os home name js st m = (Inr (), m')"
    and readable: "\<And>p m. fault os (OpRead p) m = None" "\<And>p m. fault os (OpMkdir p) m = None"
  shows "fst (load_state_file os home name js m') = Inr st"
proof -
  from save_state_file_Inr [OF save] obtain h b where
    h: "home = Some h" "encode_json js st = Inr b"
    and f: "files m' (path_join [path_join [h, ''.gameapctl''], name]) = Some b" by blast
  obtain dir m1 where d: "state_directory os home m' = (Inr dir, m1)"
    using h(1) readable(2)
    by (cases "stat_file os (path_join [h, ''.gameapctl'']) m'")
      (auto simp: state_directory_def Let_def bindE_def wrapE_def mkdir_all_def)
  from state_directory_Inr [OF d] h(1) f
  have "read_file os (path_join [dir, name]) m1 = (Inr b, m1)"
    by (auto simp: read_file_Inr readable)
  with d json [OF h(2)] show ?thesis
    by (simp add: load_state_file_def bindE_def wrapE_def retE_def)
qed

section \<open>Properties\<close>

text \<open>
  An install state that was saved is what the next command loads: after a successful
  \<open>SaveDaemonInstallState\<close>, whether it renamed the temporary file or fell back to writing in
  place, \<open>LoadDaemonInstallState\<close> yields that state unless reading itself is refused.
\<close>

theorem saved_state_is_loaded:
  assumes json: "\<And>st b. encode_json js st = Inr b \<Longrightarrow> decode_json js b = Inr st"
    and save: "save_daemon_install_state os home js st m = (Inr (), m')"
    and readable: "\<And>p m. fault os (OpRead p) m = None" "\<And>p m. fault os (OpMkdir p) m = None"
  shows "fst (load_daemon_install_state os home js m') = Inr st"
  using saved_file_is_loaded [OF json save [unfolded save_daemon_install_state_def] readable]
  by (simp add: load_daemon_install_state_def)

definition example_record :: daemon_install_record where
  "example_record =
     \<lparr>dir_host = ''http://panel'', dir_connect_url = [], dir_version = ''v4.2.0'', dir_scope = ''system'',
      dir_work_path = ''/srv/gameap'', dir_steamcmd_path = ''/srv/gameap/steamcmd'',
      dir_certs_path = ''/etc/gameap-daemon/certs'', dir_from_github = False, dir_branch = ''master'',
      dir_process_manager = ''systemd'', dir_grpc_enabled = True\<rparr>"

text \<open>A codec that knows one state, for examples.\<close>

definition one_state_json :: "daemon_install_record codec" where
  "one_state_json = \<lparr>encode_json = (\<lambda>st. if st = example_record then Inr ''text'' else Inl (Err ''unsupported'')),
     decode_json = (\<lambda>b. if b = ''text'' then Inr example_record else Inl (Err ''unsupported''))\<rparr>"

definition empty_machine :: "unit machine" where
  "empty_machine = \<lparr>files = Map.empty, dirs = {}, world = (), service_memo = None\<rparr>"

theorem saved_state_is_loaded_witness:
  "fst (load_daemon_install_state calm_os (Some ''/root'') one_state_json
     (snd (save_daemon_install_state calm_os (Some ''/root'') one_state_json example_record empty_machine))) =
   Inr example_record"
proof -
  let ?run = "save_daemon_install_state calm_os (Some ''/root'') one_state_json example_record empty_machine"
  have "?run = (Inr (), snd ?run)"
    by (rule prod_eqI)
      (simp_all add: save_daemon_install_state_def save_state_file_def state_directory_def one_state_json_def
        calm_os_def Let_def bindE_def wrapE_def retE_def catchE_def stat_file_def mkdir_all_def write_file_def
        rename_file_def path_exists_def empty_machine_def)
  then show ?thesis
    by (rule saved_state_is_loaded [rotated]) (auto simp: one_state_json_def calm_os_def split: if_splits)
qed


definition one_panel_json :: "panel_install_record codec" where
  "one_panel_json = \<lparr>encode_json = (\<lambda>_. Inr ''panel''), decode_json = (\<lambda>_. Inl (Err ''unsupported''))\<rparr>"

definition full_disk :: "unit os_env" where
  "full_disk = \<lparr>fault = (\<lambda>op _. case op of OpWrite p \<Rightarrow> Some (Err ''no space left on device'') | _ \<Rightarrow> None),
     torn = (\<lambda>p c _. Some (take 2 c)), command_available = (\<lambda>_ _. True)\<rparr>"

definition no_panel_record :: panel_install_record where
  "no_panel_record =
     \<lparr>pir_version = ''4'', pir_scope = [], pir_host = [], pir_host_ip = [], pir_port = [], pir_path = [],
      pir_config_directory = [], pir_data_directory = [], pir_web_server = [], pir_database = [],
      pir_database_was_installed = False, pir_develop = False, pir_from_github = False, pir_branch = [],
      pir_db_host = [], pir_db_port = [], pir_db_name = [], pir_db_username = [], pir_db_password = [],
      pir_db_root_password = [], pir_admin_password = []\<rparr>"

definition state_path :: string where
  "state_path = path_join [path_join [''/root'', ''.gameapctl''], panel_install_state_file]"

definition old_state_machine :: "unit machine" where
  "old_state_machine = \<lparr>files = [state_path \<mapsto> ''old''], dirs = {}, world = (), service_memo = None\<rparr>"


end
