(* ===== verification/SwitchToGrpc.thy ===== *)
theory SwitchToGrpc
  imports DaemonConfig InstallState NetAddr
begin

text \<open>
  Switching a daemon from the legacy HTTP mode to gRPC
  (\<open>internal/actions/daemon/update/switch_to_grpc.go\<close>): the checks, the backup, the edit of the
  configuration, the restart, the verification that the panel revoked the old credentials,
  and the rollback. Processes, the network and the clock are parameters.
\<close>

section \<open>Addresses\<close>

definition default_grpc_port :: string where "default_grpc_port = ''31718''"

text \<open>\<open>URL.Hostname\<close>.\<close>

definition url_hostname :: "url \<Rightarrow> string" where
  "url_hostname u =
     (let host = (case cut_last (CHR '':'') (url_host u) of
            Some (h, port) \<Rightarrow> if valid_optional_port (CHR '':'' # port) then h else url_host u
          | None \<Rightarrow> url_host u)
      in if has_prefix host ''['' \<and> has_suffix host '']'' then butlast (tl host) else host)"

definition derive_grpc_address :: "string \<Rightarrow> string result" where
  "derive_grpc_address api_host =
     (let host = trim_space api_host in
      if host = [] then Inl (Err ''empty api_host'')
      else let host = (if contains_str host ''://'' then host else ''http://'' @ host) in
        case url_parse host of
          None \<Rightarrow> Inl (Err ''failed to parse api_host'')
        | Some u \<Rightarrow>
            if url_hostname u = [] then Inl (Err ''api_host has no hostname'')
            else Inr (join_host_port (url_hostname u) default_grpc_port))"

definition resolve_cert_path :: "string \<Rightarrow> string \<Rightarrow> string" where
  "resolve_cert_path dir p = (if p = [] \<or> path_is_abs p then p else path_join [dir, p])"

definition normalize_api_host :: "string \<Rightarrow> string" where
  "normalize_api_host api_host =
     (let h = trim_right_set (trim_space api_host) ''/'' in
      if contains_str h ''://'' then h else ''https://'' @ h)"

section \<open>Errors of the TLS probe\<close>

fun error_text :: "go_error \<Rightarrow> string" where
  "error_text (Err s) = s"
| "error_text (WithMessage e m) = m @ '': '' @ error_text e"
| "error_text (MultiErr a b) = error_text a @ ''; '' @ error_text b"
| "error_text UnknownAuthority = ''x509: certificate signed by unknown authority''"
| "error_text CertificateInvalid = ''x509: certificate is invalid''"
| "error_text (NotExist p) = ''open '' @ p @ '': no such file or directory''"
| "error_text (GroupAlreadyExists g) = ''group '' @ g @ '' already exists''"
| "error_text (UserAlreadyExists u) = ''user '' @ u @ '' already exists''"
| "error_text e = []"

definition is_cert_auth_error :: "go_error \<Rightarrow> bool" where
  "is_cert_auth_error e \<longleftrightarrow>
     error_as (\<lambda>x. x = UnknownAuthority) e \<or> error_as (\<lambda>x. x = CertificateInvalid) e \<or>
     contains_str (error_text e) ''bad certificate'' \<or>
     contains_str (error_text e) ''certificate signed by unknown authority'' \<or>
     contains_str (error_text e) ''unknown certificate authority''"

section \<open>Dependencies\<close>

record 'w switch_deps =
  sd_os :: "'w os_env"
  sd_yaml :: yaml_lib
  sd_cfg_path :: string
  sd_explicit_addr :: string
  sd_stop :: "('w, unit) sys"
  sd_start :: "('w, unit) sys"
  sd_find_process :: "('w, bool) sys"
  sd_look_path :: "string \<Rightarrow> 'w machine \<Rightarrow> string result"
  sd_tcp_dial :: "string \<Rightarrow> ('w, unit) sys"
  sd_tls_probe :: "string \<Rightarrow> string \<Rightarrow> string \<Rightarrow> string \<Rightarrow> ('w, unit) sys"
  sd_verify_revoked :: "string \<Rightarrow> string \<Rightarrow> ('w, unit) sys"
  sd_sleep :: "int \<Rightarrow> 'w machine \<Rightarrow> 'w machine"
  sd_load_state :: "('w, daemon_install_record) sys"
  sd_save_state :: "daemon_install_record \<Rightarrow> ('w, unit) sys"
  sd_now :: "'w machine \<Rightarrow> nat"

section \<open>Verification that the old credentials are revoked\<close>

definition grpc_disabled_marker :: string where
  "grpc_disabled_marker = ''HTTP API is disabled for this node''"

text \<open>
  \<open>realVerifyLegacyRevoked\<close>; \<open>get\<close> sends the request with the key and yields the status and
  the body (what could be read of it).
\<close>

definition real_verify_legacy_revoked ::
  "(string \<Rightarrow> string \<Rightarrow> ('s, nat \<times> string) io) \<Rightarrow> string \<Rightarrow> string \<Rightarrow> ('s, unit) io" where
  "real_verify_legacy_revoked get api_host api_key =
     bindE (wrapE ''request failed'' (get (normalize_api_host api_host @ ''/gdaemon_api/get_token'') api_key))
       (\<lambda>(status, body). let body = trim_space body in
          if status \<noteq> 409 then failE (Err (''expected HTTP 409, got '' @ itoa_nat status @ '': '' @ body))
          else if \<not> contains_str body grpc_disabled_marker then
            failE (Err (''HTTP 409 without expected marker '' @ go_quote grpc_disabled_marker @ '': '' @ body))
          else retE ())"

definition verification_attempts :: nat where "verification_attempts = 10"

text \<open>The polling loop: \<open>n\<close> attempts left; a pause after every failed one.\<close>

fun poll_revoked :: "'w switch_deps \<Rightarrow> string \<Rightarrow> string \<Rightarrow> nat \<Rightarrow> go_error option \<Rightarrow> ('w, unit) sys" where
  "poll_revoked d host key 0 last_err m =
     (Inl (WithMessage VerificationTimeout
        (''after '' @ itoa_nat verification_attempts @ '' attempts'')), m)"
| "poll_revoked d host key (Suc n) last_err m =
     (case sd_verify_revoked d host key m of
        (Inr _, t) \<Rightarrow> (Inr (), t)
      | (Inl e, t) \<Rightarrow> poll_revoked d host key n (Some e) (sd_sleep d 1 t))"

section \<open>The switch\<close>

record switch_plan =
  sp_cfg :: config_file
  sp_grpc_addr :: string
  sp_api_host :: string
  sp_api_key :: string

text \<open>What is read of the configuration: \<open>None\<close> when gRPC is already enabled.\<close>

definition read_plan :: "'w switch_deps \<Rightarrow> config_file \<Rightarrow> (switch_plan \<times> string \<times> string \<times> string) option result" where
  "read_plan d cfg =
     (let yl = sd_yaml d; str = (\<lambda>p. ignore_error [] (read_string yl cfg p)) in
      if fst (str ''$.grpc.enabled'') = ''true'' then Inr None
      else case read_string yl cfg ''$.api_host'' of
        Inl e \<Rightarrow> Inl (WithMessage e ''failed to read api_host'')
      | Inr (api_host, host_ok) \<Rightarrow>
          (case (if sd_explicit_addr d \<noteq> [] then Inr (sd_explicit_addr d)
                 else if \<not> host_ok \<or> api_host = [] then
                   Inl (Err ''api_host not found in daemon config; specify --grpc-address explicitly'')
                 else with_message ''failed to derive gRPC address from api_host'' (derive_grpc_address api_host)) of
             Inl e \<Rightarrow> Inl e
           | Inr addr \<Rightarrow>
               let (api_key, key_ok) = str ''$.api_key'';
                   (node_id, id_ok) = ignore_error 0 (read_uint yl cfg ''$.ds_id'');
                   ca = fst (str ''$.ca_certificate_file'');
                   cert = fst (str ''$.certificate_chain_file'');
                   key = fst (str ''$.private_key_file'');
                   dir = path_dir (sd_cfg_path d)
               in if \<not> key_ok \<or> api_key = [] then
                    Inl (Err ''api_key missing in daemon config; daemon is not properly registered'')
                  else if \<not> id_ok \<or> node_id = 0 then
                    Inl (Err ''ds_id missing in daemon config; daemon is not properly registered'')
                  else if ca = [] \<or> cert = [] \<or> key = [] then
                    Inl (Err ''certificate paths missing in daemon config'')
                  else Inr (Some (\<lparr>sp_cfg = cfg, sp_grpc_addr = addr, sp_api_host = api_host, sp_api_key = api_key\<rparr>,
                         resolve_cert_path dir ca, resolve_cert_path dir cert, resolve_cert_path dir key))))"

definition probe_panel :: "'w switch_deps \<Rightarrow> string \<Rightarrow> string \<Rightarrow> string \<Rightarrow> string \<Rightarrow> ('w, unit) sys" where
  "probe_panel d ca cert key addr =
     bindE (wrapE ''API gRPC port unreachable; verify GRPC_ENABLED=true on API and port is open''
       (sd_tcp_dial d addr)) (\<lambda>_.
     bindE (catchE (sd_tls_probe d ca cert key addr) (\<lambda>e.
       failE (WithMessage e
         (if is_cert_auth_error e then ''daemon certificates are not compatible with API gRPC server''
          else ''TLS probe to API gRPC server failed'')))) (\<lambda>_ m.
     case sd_look_path d ''gameap-daemon'' m of
       Inl e \<Rightarrow> (Inl (WithMessage e ''gameap-daemon binary not found''), m)
     | Inr _ \<Rightarrow> quietly (sd_find_process d) m))"

text \<open>
  The rollback: a failed stop is ignored; if the backup cannot be restored or the daemon not
  started again the error says so, else it carries the original one.
\<close>

definition rollback :: "'w switch_deps \<Rightarrow> string \<Rightarrow> go_error \<Rightarrow> ('w, unit) sys" where
  "rollback d backup e =
     bindE (quietly (sd_stop d)) (\<lambda>_.
     bindE (catchE (restore_config (sd_os d) backup (sd_cfg_path d)) (\<lambda>_.
       failE (WithMessage e ''CRITICAL: rollback failed''))) (\<lambda>_.
     bindE (catchE (sd_start d) (\<lambda>_.
       failE (WithMessage e ''CRITICAL: restart after rollback failed''))) (\<lambda>_.
     failE (WithMessage e ''switch to gRPC failed, daemon rolled back to legacy mode''))))"

definition or_rollback :: "'w switch_deps \<Rightarrow> string \<Rightarrow> ('w, unit) sys \<Rightarrow> ('w, unit) sys" where
  "or_rollback d backup m = catchE m (rollback d backup)"

fun delete_keys :: "string list \<Rightarrow> config_file \<Rightarrow> config_file result" where
  "delete_keys [] c = Inr c"
| "delete_keys (k # ks) c =
     (case delete_key k c of
        Inl e \<Rightarrow> Inl (WithMessage e (''failed to remove '' @ k @ '' from daemon config''))
      | Inr c' \<Rightarrow> delete_keys ks c')"

definition legacy_keys :: "string list" where
  "legacy_keys = [''$.api_host'', ''$.listen_ip'', ''$.listen_port'']"

definition grpc_config :: "yaml_lib \<Rightarrow> string \<Rightarrow> config_file \<Rightarrow> config_file result" where
  "grpc_config yl addr cfg =
     (case ensure_grpc_enabled yl addr cfg of
        Inl e \<Rightarrow> Inl (WithMessage e ''failed to modify daemon config'')
      | Inr c \<Rightarrow> delete_keys legacy_keys c)"

definition apply_switch :: "'w switch_deps \<Rightarrow> string \<Rightarrow> switch_plan \<Rightarrow> ('w, unit) sys" where
  "apply_switch d backup sp =
     bindE (or_rollback d backup
       (case grpc_config (sd_yaml d) (sp_grpc_addr sp) (sp_cfg sp) of
          Inl e \<Rightarrow> failE e
        | Inr c \<Rightarrow> bindE (wrapE ''failed to save daemon config'' (save_config (sd_os d) (sd_yaml d) c)) (\<lambda>_. retE ()))) (\<lambda>_.
     bindE (or_rollback d backup (wrapE ''failed to stop daemon'' (sd_stop d))) (\<lambda>_.
     bindE (or_rollback d backup (wrapE ''failed to start daemon'' (sd_start d))) (\<lambda>_.
     bindE (\<lambda>m. (Inr (), sd_sleep d 3 m)) (\<lambda>_.
     bindE (or_rollback d backup (\<lambda>m.
       case sd_find_process d m of
         (Inr True, t) \<Rightarrow> (Inr (), t)
       | (_, t) \<Rightarrow> (Inl (Err ''daemon process not found after restart''), t))) (\<lambda>_.
     bindE (or_rollback d backup
       (poll_revoked d (sp_api_host sp) (sp_api_key sp) verification_attempts None)) (\<lambda>_.
     catchE (bindE (sd_load_state d) (\<lambda>st. quietly (sd_save_state d (st\<lparr>dir_grpc_enabled := True\<rparr>))))
       (\<lambda>_. retE ())))))))"

definition switch_to_grpc :: "'w switch_deps \<Rightarrow> ('w, unit) sys" where
  "switch_to_grpc d =
     bindE (wrapE ''failed to load gRPC configuration'' (load_config (sd_os d) (sd_yaml d) (sd_cfg_path d))) (\<lambda>cfg.
       case read_plan d cfg of
         Inl e \<Rightarrow> failE e
       | Inr None \<Rightarrow> retE ()
       | Inr (Some (sp, ca, cert, key)) \<Rightarrow>
           bindE (probe_panel d ca cert key (sp_grpc_addr sp)) (\<lambda>_ m.
             bindE (wrapE ''failed to backup daemon config'' (backup_config (sd_os d) (sd_now d m) (sd_cfg_path d)))
               (\<lambda>backup. apply_switch d backup sp) m))"

section \<open>Lemmas\<close>

text \<open>The outside world does not write the configuration or its backups.\<close>

definition well_behaved :: "'w switch_deps \<Rightarrow> bool" where
  "well_behaved d \<longleftrightarrow> (\<forall>p. p = sd_cfg_path d \<or> has_prefix p (sd_cfg_path d @ ''.bak.'') \<longrightarrow>
     leaves p (sd_stop d) \<and> leaves p (sd_start d) \<and> leaves p (sd_find_process d) \<and>
     (\<forall>a. leaves p (sd_tcp_dial d a)) \<and> (\<forall>a b c x. leaves p (sd_tls_probe d a b c x)) \<and>
     (\<forall>a b. leaves p (sd_verify_revoked d a b)) \<and> (\<forall>n m. files (sd_sleep d n m) p = files m p) \<and>
     leaves p (sd_load_state d) \<and> (\<forall>st. leaves p (sd_save_state d st)))"

definition rollback_impossible :: "go_error \<Rightarrow> bool" where
  "rollback_impossible e \<longleftrightarrow> (\<exists>e'. e = WithMessage e' ''CRITICAL: rollback failed'')"

text \<open>
  An operation that either fails with the original configuration in place (or says that it
  could not be restored), or succeeds with the backup intact.
\<close>

definition guarded :: "string \<Rightarrow> string \<Rightarrow> string \<Rightarrow> ('w, 'a) sys \<Rightarrow> bool" where
  "guarded cfg backup text m \<longleftrightarrow> (\<forall>s. files s backup = Some text \<longrightarrow>
     (case m s of
        (Inl e, t) \<Rightarrow> rollback_impossible e \<or> files t cfg = Some text
      | (Inr x, t) \<Rightarrow> files t backup = Some text))"

lemma guardedD:
  "guarded cfg backup text m \<Longrightarrow> files s backup = Some text \<Longrightarrow> m s = (Inl e, t) \<Longrightarrow>
     rollback_impossible e \<or> files t cfg = Some text"
  "guarded cfg backup text m \<Longrightarrow> files s backup = Some text \<Longrightarrow> m s = (Inr x, t) \<Longrightarrow> files t backup = Some text"
  by (force simp: guarded_def)+

lemma guarded_bindE:
  fixes m :: "('w, 'a) sys" and f :: "'a \<Rightarrow> ('w, 'b) sys"
  assumes "guarded cfg backup text m" "\<And>x. guarded cfg backup text (f x)"
  shows "guarded cfg backup text (bindE m f)"
  unfolding guarded_def
proof (intro allI impI)
  fix s :: "'w machine"
  assume b: "files s backup = Some text"
  obtain q t where m: "m s = (q, t)" by fastforce
  show "case bindE m f s of
        (Inl e, t) \<Rightarrow> rollback_impossible e \<or> files t cfg = Some text
      | (Inr x, t) \<Rightarrow> files t backup = Some text"
  proof (cases q)
    case (Inl e)
    with m guardedD(1) [OF assms(1) b] show ?thesis by (simp add: bindE_def)
  next
    case (Inr x)
    with m have "files t backup = Some text" using guardedD(2) [OF assms(1) b] by blast
    moreover have "bindE m f s = f x t" using m Inr by (simp add: bindE_def)
    ultimately show ?thesis using assms(2) [of x] by (simp add: guarded_def)
  qed
qed

lemma guarded_leaves:
  fixes m :: "('w, 'a) sys"
  assumes "leaves backup m" "\<And>s. \<exists>x t. m s = (Inr x, t)"
  shows "guarded cfg backup text m"
  unfolding guarded_def
proof (intro allI impI)
  fix s :: "'w machine"
  assume b: "files s backup = Some text"
  obtain x t where m: "m s = (Inr x, t)" using assms(2) by blast
  with leavesD [OF assms(1) m] b
  show "case m s of (Inl e, t) \<Rightarrow> rollback_impossible e \<or> files t cfg = Some text
      | (Inr x, t) \<Rightarrow> files t backup = Some text" by simp
qed

lemma rollback_restores:
  assumes wb: "well_behaved d" and b: "has_prefix backup (sd_cfg_path d @ ''.bak.'')"
    and content: "files m backup = Some text"
  shows "\<exists>e' m'. rollback d backup e m = (Inl e', m') \<and>
    (rollback_impossible e' \<or> files m' (sd_cfg_path d) = Some text)"
proof -
  have ls: "leaves backup (sd_stop d)" "leaves (sd_cfg_path d) (sd_start d)"
    using wb b by (simp_all add: well_behaved_def)
  define m1 where "m1 = snd (sd_stop d m)"
  have stop: "quietly (sd_stop d) m = (Inr (), m1)" by (simp add: quietly_def m1_def)
  have t1: "files m1 backup = Some text"
    using leavesD [OF ls(1), of m "fst (sd_stop d m)" m1] content by (simp add: m1_def)
  obtain q m2 where r: "restore_config (sd_os d) backup (sd_cfg_path d) m1 = (q, m2)" by fastforce
  show ?thesis
  proof (cases q)
    case (Inl e1)
    with stop r show ?thesis
      by (simp add: rollback_def bindE_def catchE_def failE_def rollback_impossible_def del: quietly_eq)
  next
    case (Inr u)
    have c2: "files m2 (sd_cfg_path d) = Some text"
      using r Inr t1 by (auto simp: restore_config_def bindE_Inr_iff read_file_Inr write_file_Inr)
    obtain q3 m3 where s3: "sd_start d m2 = (q3, m3)" by fastforce
    then have "files m3 (sd_cfg_path d) = Some text" using leavesD [OF ls(2) s3] c2 by simp
    with stop r Inr s3 show ?thesis
      by (cases q3) (simp_all add: rollback_def bindE_def catchE_def failE_def del: quietly_eq)
  qed
qed

lemma guarded_or_rollback:
  fixes d :: "'w switch_deps" and m :: "('w, unit) sys"
  assumes "well_behaved d" "has_prefix backup (sd_cfg_path d @ ''.bak.'')" "leaves backup m"
  shows "guarded (sd_cfg_path d) backup text (or_rollback d backup m)"
  unfolding guarded_def
proof (intro allI impI)
  fix s :: "'w machine"
  assume b: "files s backup = Some text"
  obtain q t where m: "m s = (q, t)" by fastforce
  then have t: "files t backup = Some text" using leavesD [OF assms(3) m] b by simp
  show "case or_rollback d backup m s of
        (Inl e, t) \<Rightarrow> rollback_impossible e \<or> files t (sd_cfg_path d) = Some text
      | (Inr x, t) \<Rightarrow> files t backup = Some text"
  proof (cases q)
    case (Inl e)
    with m rollback_restores [OF assms(1,2) t, of e] show ?thesis
      by (auto simp: or_rollback_def catchE_def)
  next
    case (Inr x)
    with m t show ?thesis by (simp add: or_rollback_def catchE_def)
  qed
qed

lemma leaves_poll:
  fixes d :: "'w switch_deps"
  assumes "leaves p (sd_verify_revoked d host key)" "\<And>n m. files (sd_sleep d n m) p = files m p"
  shows "leaves p (poll_revoked d host key n le)"
proof (rule leavesI)
  fix s :: "'w machine"
  show "files (snd (poll_revoked d host key n le s)) p = files s p"
  proof (induction n arbitrary: le s)
    case 0
    then show ?case by simp
  next
    case (Suc n)
    obtain q t where v: "sd_verify_revoked d host key s = (q, t)" by fastforce
    then have "files t p = files s p" by (rule leavesD [OF assms(1)])
    with v Suc assms(2) show ?case by (cases q) simp_all
  qed
qed

lemma leaves_find:
  fixes d :: "'w switch_deps"
  assumes "leaves p (sd_find_process d)"
  shows "leaves p (\<lambda>m. case sd_find_process d m of
         (Inr True, t) \<Rightarrow> (Inr (), t)
       | (_, t) \<Rightarrow> (Inl (Err ''daemon process not found after restart''), t))"
proof (rule leavesI)
  fix s :: "'w machine"
  obtain q t where v: "sd_find_process d s = (q, t)" by fastforce
  then have "files t p = files s p" by (rule leavesD [OF assms])
  with v show "files (snd (case sd_find_process d s of
         (Inr True, t) \<Rightarrow> (Inr (), t)
       | (_, t) \<Rightarrow> (Inl (Err ''daemon process not found after restart''), t))) p = files s p"
    by (simp split: sum.split bool.split)
qed

lemma grpc_config_path: "grpc_config yl addr cfg = Inr c \<Longrightarrow> cf_path c = cf_path cfg"
proof -
  have d: "delete_keys ks c0 = Inr c \<Longrightarrow> cf_path c = cf_path c0" for ks c0
  proof (induction ks arbitrary: c0)
    case (Cons k ks)
    then show ?case by (cases "delete_key k c0") (auto dest: delete_key_path)
  qed simp
  have e: "ensure_grpc_enabled yl addr cfg = Inr c1 \<Longrightarrow> cf_path c1 = cf_path cfg" for c1
    by (auto simp: ensure_grpc_enabled_def Let_def split: option.splits sum.splits)
  show "grpc_config yl addr cfg = Inr c \<Longrightarrow> cf_path c = cf_path cfg"
    using d e by (auto simp: grpc_config_def split: sum.splits)
qed

lemma leaves_save:
  "p \<noteq> cf_path c \<Longrightarrow> leaves p (save_config os yl c)"
  by (rule leavesI) (rule save_config_others)

lemma backup_neq: "has_prefix backup (p @ ''.bak.'') \<Longrightarrow> backup \<noteq> p"
  by (auto simp: has_prefix_iff)

lemma guarded_apply_switch:
  fixes d :: "'w switch_deps"
  assumes wb: "well_behaved d" and b: "has_prefix backup (sd_cfg_path d @ ''.bak.'')"
    and path: "cf_path (sp_cfg sp) = sd_cfg_path d"
  shows "guarded (sd_cfg_path d) backup text (apply_switch d backup sp)"
proof -
  have neq: "backup \<noteq> sd_cfg_path d" by (rule backup_neq [OF b])
  note ops = wb [unfolded well_behaved_def, rule_format, of backup, OF disjI2 [OF b]]
  have save: "leaves backup (case grpc_config (sd_yaml d) (sp_grpc_addr sp) (sp_cfg sp) of
          Inl e \<Rightarrow> failE e
        | Inr c \<Rightarrow> bindE (wrapE ''failed to save daemon config'' (save_config (sd_os d) (sd_yaml d) c)) (\<lambda>_. retE ()))"
    using neq path grpc_config_path [of "sd_yaml d" "sp_grpc_addr sp" "sp_cfg sp"]
    by (cases "grpc_config (sd_yaml d) (sp_grpc_addr sp) (sp_cfg sp)")
      (auto intro!: leaves_bindE leaves_basic leaves_save)
  have sleep: "guarded (sd_cfg_path d) backup text (\<lambda>m. (Inr (), sd_sleep d 3 m))"
    by (rule guarded_leaves) (use ops in \<open>auto intro: leavesI\<close>)
  have poll: "leaves backup (poll_revoked d (sp_api_host sp) (sp_api_key sp) verification_attempts None)"
    by (rule leaves_poll) (use ops in auto)
  have last: "guarded (sd_cfg_path d) backup text
      (catchE (bindE (sd_load_state d) (\<lambda>st. quietly (sd_save_state d (st\<lparr>dir_grpc_enabled := True\<rparr>)))) (\<lambda>_. retE ()))"
  proof (rule guarded_leaves)
    show "leaves backup (catchE (bindE (sd_load_state d) (\<lambda>st. quietly (sd_save_state d (st\<lparr>dir_grpc_enabled := True\<rparr>)))) (\<lambda>_. retE ()))"
      by (intro leaves_catchE leaves_bindE leaves_basic) (use ops in auto)
    show "\<exists>x t. catchE (bindE (sd_load_state d) (\<lambda>st. quietly (sd_save_state d (st\<lparr>dir_grpc_enabled := True\<rparr>)))) (\<lambda>_. retE ()) s = (Inr x, t)" for s
      by (simp add: catchE_def retE_def split: prod.split sum.split)
  qed
  show ?thesis
    unfolding apply_switch_def
    by (intro guarded_bindE guarded_or_rollback [OF wb b] save sleep poll last leaves_basic leaves_find) (use ops in auto)
qed

lemma backup_prefix: "has_prefix (backup_path_for p n) (p @ ''.bak.'')"
  by (simp add: backup_path_for_def has_prefix_iff)

lemma backup_config_Inr:
  assumes "backup_config os now path m = (Inr b, m')"
  shows "b = backup_path_for path now \<and> files m' b = files m path"
  using assms
  by (auto simp: backup_config_def Let_def bindE_Inr_iff catchE_Inr_iff read_file_Inr create_file_Inr write_file_Inr)

lemma backup_config_leaves: "leaves path (backup_config os now path)"
proof -
  have n: "backup_path_for path now \<noteq> path" by (rule backup_neq [OF backup_prefix])
  have w: "leaves path (write_file os (backup_path_for path now) c)" for c
    by (rule leavesI) (use n in \<open>simp add: write_file_others\<close>)
  have c: "leaves path (create_file os (backup_path_for path now))"
    by (rule leavesI) (use n in \<open>simp add: create_file_def split: option.split\<close>)
  have rm: "leaves path (remove_file os (backup_path_for path now))"
    by (rule leavesI) (use n in \<open>simp add: remove_file_others\<close>)
  have rd: "leaves path (read_file os path)" by (rule leavesI) (simp add: read_file_state)
  show ?thesis unfolding backup_config_def Let_def
    by (intro leaves_bindE leaves_catchE leaves_basic w c rm rd)
qed

lemma leaves_probe_panel:
  fixes d :: "'w switch_deps"
  assumes wb: "well_behaved d"
  shows "leaves (sd_cfg_path d) (probe_panel d ca cert key addr)"
proof -
  note ops = wb [unfolded well_behaved_def, rule_format, OF disjI1 [OF refl]]
  have last: "leaves (sd_cfg_path d) (\<lambda>m. case sd_look_path d ''gameap-daemon'' m of
       Inl e \<Rightarrow> (Inl (WithMessage e ''gameap-daemon binary not found''), m)
     | Inr _ \<Rightarrow> quietly (sd_find_process d) m)"
    by (rule leavesI) (use ops in \<open>auto simp: leaves_def keeps_def quietly_def split: sum.split\<close>)
  show ?thesis unfolding probe_panel_def
    by (intro leaves_bindE leaves_catchE leaves_basic last) (use ops in auto)
qed

text \<open>The run of the switch up to the backup.\<close>

lemma switch_to_grpc_cases:
  assumes "switch_to_grpc d m = (r, m')"
  obtains (load) e where "load_config (sd_os d) (sd_yaml d) (sd_cfg_path d) m = (Inl e, m)" "m' = m" "\<exists>e'. r = Inl e'"
  | (plan) e where "r = Inl e" "m' = m"
  | (already) cfg where "load_config (sd_os d) (sd_yaml d) (sd_cfg_path d) m = (Inr cfg, m)"
      "read_plan d cfg = Inr None" "r = Inr ()" "m' = m"
  | (probe) cfg sp ca cert key e where "read_plan d cfg = Inr (Some (sp, ca, cert, key))"
      "probe_panel d ca cert key (sp_grpc_addr sp) m = (Inl e, m')" "r = Inl e"
  | (backup) sp :: switch_plan and ca cert key m1 e where
      "probe_panel d ca cert key (sp_grpc_addr sp) m = (Inr (), m1)"
      "backup_config (sd_os d) (sd_now d m1) (sd_cfg_path d) m1 = (Inl e, m')" "\<exists>e'. r = Inl e'"
  | (switch) cfg sp ca cert key m1 b m2 where
      "load_config (sd_os d) (sd_yaml d) (sd_cfg_path d) m = (Inr cfg, m)"
      "read_plan d cfg = Inr (Some (sp, ca, cert, key))"
      "probe_panel d ca cert key (sp_grpc_addr sp) m = (Inr (), m1)"
      "backup_config (sd_os d) (sd_now d m1) (sd_cfg_path d) m1 = (Inr b, m2)"
      "apply_switch d b sp m2 = (r, m')"
proof -
  obtain q where l: "load_config (sd_os d) (sd_yaml d) (sd_cfg_path d) m = (q, m)"
    using load_config_state [of "sd_os d" "sd_yaml d" "sd_cfg_path d" m] by (metis prod.collapse)
  show thesis
  proof (cases q)
    case (Inl e)
    with l assms show thesis by (intro load [of e]) (auto simp: switch_to_grpc_def bindE_def wrapE_def)
  next
    case cfg: (Inr cfg)
    show thesis
    proof (cases "read_plan d cfg")
      case (Inl e)
      with l cfg assms show thesis
        by (intro plan [of e]) (simp_all add: switch_to_grpc_def bindE_def wrapE_def failE_def)
    next
      case p: (Inr pl)
      show thesis
      proof (cases pl)
        case None
        with l cfg p assms show thesis
          by (intro already) (simp_all add: switch_to_grpc_def bindE_def wrapE_def retE_def)
      next
        case (Some t)
        obtain sp ca cert key where t: "t = (sp, ca, cert, key)" by (metis prod_cases4)
        obtain q1 m1 where pr: "probe_panel d ca cert key (sp_grpc_addr sp) m = (q1, m1)" by fastforce
        obtain q2 m2 where b: "backup_config (sd_os d) (sd_now d m1) (sd_cfg_path d) m1 = (q2, m2)" by fastforce
        have "switch_to_grpc d m = (case q1 of Inl e \<Rightarrow> (Inl e, m1) | Inr _ \<Rightarrow>
            (case q2 of Inl e \<Rightarrow> (Inl (WithMessage e ''failed to backup daemon config''), m2)
             | Inr bk \<Rightarrow> apply_switch d bk sp m2))"
          using l cfg p Some t pr b
          by (cases q1; cases q2) (simp_all add: switch_to_grpc_def bindE_def wrapE_def)
        then have eq: "(r, m') = (case q1 of Inl e \<Rightarrow> (Inl e, m1) | Inr _ \<Rightarrow>
            (case q2 of Inl e \<Rightarrow> (Inl (WithMessage e ''failed to backup daemon config''), m2)
             | Inr bk \<Rightarrow> apply_switch d bk sp m2))" unfolding assms .
        show thesis
        proof (cases q1)
          case (Inl e)
          with eq pr p Some t show thesis by (intro probe) auto
        next
          case q1: (Inr u)
          show thesis
          proof (cases q2)
            case (Inl e)
            with q1 eq pr b show thesis by (intro backup [of ca cert key sp m1 e]) auto
          next
            case (Inr bk)
            with q1 eq pr b l cfg p Some t show thesis by (intro switch) auto
          qed
        qed
      qed
    qed
  qed
qed

text \<open>A machine with a registered legacy daemon, for examples.\<close>

definition demo_values :: "(string \<times> string) list" where
  "demo_values = [(''$.api_host'', ''http://panel''), (''$.api_key'', ''k''), (''$.ca_certificate_file'', ''ca''),
     (''$.certificate_chain_file'', ''c''), (''$.private_key_file'', ''p'')]"

definition demo_yaml :: "(string \<times> string) list \<Rightarrow> yaml_lib" where
  "demo_yaml values =
     \<lparr>yl_parse = (\<lambda>_. Inr [YMap False [(Some ''api_host'', Some (YScalar ''http://panel'')), (Some ''api_key'', Some (YScalar ''k''))]]),
      yl_print = (\<lambda>docs. case docs of [YMap f kvs] \<Rightarrow> concat (List.map_filter fst kvs) | _ \<Rightarrow> []),
      yl_path = (\<lambda>_. None),
      yl_read_string = (\<lambda>p _. case map_of values p of Some v \<Rightarrow> YFound v | None \<Rightarrow> YMissing),
      yl_read_uint = (\<lambda>_ _. YFound 7), yl_filter = (\<lambda>_ _. YMissing),
      yl_merge = (\<lambda>_ _ docs. case docs of [YMap f kvs] \<Rightarrow> Inr [YMap f (kvs @ [(Some ''grpc'', None)])] | _ \<Rightarrow> Inl (Err ''merge'')),
      yl_replace = (\<lambda>_ _ _. Inl (Err ''replace'')), yl_unmarshal = (\<lambda>_. Inr Map.empty), yl_marshal = (\<lambda>_. Inr [])\<rparr>"

definition demo_deps :: "(string \<times> string) list \<Rightarrow> (string \<Rightarrow> string \<Rightarrow> (unit, unit) sys) \<Rightarrow> unit switch_deps" where
  "demo_deps values verify =
     \<lparr>sd_os = calm_os, sd_yaml = demo_yaml values, sd_cfg_path = ''/d.yaml'', sd_explicit_addr = ''panel:31718'',
      sd_stop = retE (), sd_start = retE (), sd_find_process = retE True,
      sd_look_path = (\<lambda>n _. Inr n), sd_tcp_dial = (\<lambda>_. retE ()), sd_tls_probe = (\<lambda>_ _ _ _. retE ()),
      sd_verify_revoked = verify, sd_sleep = (\<lambda>_ m. m), sd_load_state = failE (NotExist ''state''),
      sd_save_state = (\<lambda>_. retE ()), sd_now = (\<lambda>_. 17)\<rparr>"

definition demo_machine :: "unit machine" where
  "demo_machine = \<lparr>files = [''/d.yaml'' \<mapsto> ''old''], dirs = {}, world = (), service_memo = None\<rparr>"

lemma demo_well_behaved:
  "(\<And>p a b. leaves p (verify a b)) \<Longrightarrow> well_behaved (demo_deps values verify)"
  by (simp add: well_behaved_def demo_deps_def leaves_basic)

section \<open>Properties\<close>

text \<open>
  C6: a failed switch leaves the daemon's configuration as it was: whichever step fails, and
  whatever writing the new configuration left behind, the file has its old content afterwards,
  unless the error says that the rollback itself was impossible.
\<close>

theorem failed_switch_restores:
  assumes wb: "well_behaved d" and old: "files m (sd_cfg_path d) = Some old_text"
    and run: "switch_to_grpc d m = (Inl e, m')"
  shows "rollback_impossible e \<or> files m' (sd_cfg_path d) = Some old_text"
  using run
proof (cases rule: switch_to_grpc_cases)
  case probe
  with leavesD [OF leaves_probe_panel [OF wb] probe(2)] old show ?thesis by simp
next
  case backup
  with leavesD [OF leaves_probe_panel [OF wb] backup(1)] leavesD [OF backup_config_leaves backup(2)] old
  show ?thesis by simp
next
  case (switch cfg sp ca cert key m1 b m2)
  have "files m1 (sd_cfg_path d) = Some old_text"
    using leavesD [OF leaves_probe_panel [OF wb] switch(3)] old by simp
  with backup_config_Inr [OF switch(4)] have b: "files m2 b = Some old_text"
    "has_prefix b (sd_cfg_path d @ ''.bak.'')" using backup_prefix by auto
  have "cf_path cfg = sd_cfg_path d" using load_config_Inr [OF switch(1)] by simp
  moreover have "sp_cfg sp = cfg" using switch(2)
    by (auto simp: read_plan_def Let_def split: if_splits sum.splits prod.splits)
  ultimately have "guarded (sd_cfg_path d) b old_text (apply_switch d b sp)"
    by (intro guarded_apply_switch [OF wb b(2)]) simp
  from guardedD(1) [OF this b(1) switch(5)] show ?thesis .
qed (use old in simp_all)

theorem failed_switch_restores_witness:
  "files (snd (switch_to_grpc (demo_deps demo_values (\<lambda>_ _. failE (Err ''still valid''))) demo_machine)) ''/d.yaml'' = Some ''old''"
proof -
  let ?d = "demo_deps demo_values (\<lambda>_ _. failE (Err ''still valid''))"
  obtain r m' where r: "switch_to_grpc ?d demo_machine = (r, m')" by fastforce
  have "(case fst (switch_to_grpc ?d demo_machine) of Inl (WithMessage e t) \<Rightarrow> Some t | _ \<Rightarrow> None) =
      Some ''switch to gRPC failed, daemon rolled back to legacy mode''" by code_simp
  then obtain e where e: "r = Inl (WithMessage e ''switch to gRPC failed, daemon rolled back to legacy mode'')"
    unfolding r by (auto split: sum.splits go_error.splits)
  have "files demo_machine (sd_cfg_path ?d) = Some ''old''" by (simp add: demo_machine_def demo_deps_def)
  from failed_switch_restores [OF demo_well_behaved this r [unfolded e]] r show ?thesis
    by (auto simp: rollback_impossible_def demo_deps_def leaves_basic)
qed

text \<open>The success of the last steps, unfolded.\<close>

lemma or_rollback_Inr: "or_rollback d b x m = (Inr u, m') \<longleftrightarrow> x m = (Inr u, m')"
  by (auto simp: or_rollback_def rollback_def catchE_Inr_iff bindE_Inr_iff)

lemma poll_revoked_Inr:
  "poll_revoked d host key n le m = (Inr u, m') \<Longrightarrow> \<exists>s. sd_verify_revoked d host key s = (Inr (), m')"
proof (induction n arbitrary: le m)
  case (Suc n)
  obtain q t where v: "sd_verify_revoked d host key m = (q, t)" by fastforce
  with Suc show ?case by (cases q) auto
qed simp

lemma leaves_record_state:
  fixes d :: "'w switch_deps"
  assumes "leaves p (sd_load_state d)" "\<And>st. leaves p (sd_save_state d st)"
  shows "leaves p (catchE (bindE (sd_load_state d) (\<lambda>st. quietly (sd_save_state d (st\<lparr>dir_grpc_enabled := True\<rparr>)))) (\<lambda>_. retE ()))"
  by (intro leaves_catchE leaves_bindE leaves_basic assms)

lemma apply_switch_Inr:
  assumes wb: "well_behaved d" and path: "cf_path (sp_cfg sp) = sd_cfg_path d"
    and run: "apply_switch d b sp m = (Inr (), m')"
  shows "(\<exists>c. grpc_config (sd_yaml d) (sp_grpc_addr sp) (sp_cfg sp) = Inr c \<and>
      files m' (sd_cfg_path d) = Some (printed (sd_yaml d) c)) \<and>
    (\<exists>s t. sd_verify_revoked d (sp_api_host sp) (sp_api_key sp) s = (Inr (), t))"
proof -
  note ops = wb [unfolded well_behaved_def, rule_format, OF disjI1 [OF refl]]
  from run obtain m1 m2 m3 m5 m6 where
    c: "(case grpc_config (sd_yaml d) (sp_grpc_addr sp) (sp_cfg sp) of
          Inl e \<Rightarrow> failE e
        | Inr c \<Rightarrow> bindE (wrapE ''failed to save daemon config'' (save_config (sd_os d) (sd_yaml d) c)) (\<lambda>_. retE ())) m
        = (Inr (), m1)"
    and sp: "sd_stop d m1 = (Inr (), m2)" and st: "sd_start d m2 = (Inr (), m3)"
    and f: "(case sd_find_process d (sd_sleep d 3 m3) of
         (Inr True, t) \<Rightarrow> (Inr (), t)
       | (_, t) \<Rightarrow> (Inl (Err ''daemon process not found after restart''), t)) = (Inr (), m5)"
    and v: "poll_revoked d (sp_api_host sp) (sp_api_key sp) verification_attempts None m5 = (Inr (), m6)"
    and r: "catchE (bindE (sd_load_state d) (\<lambda>st. quietly (sd_save_state d (st\<lparr>dir_grpc_enabled := True\<rparr>))))
       (\<lambda>_. retE ()) m6 = (Inr (), m')"
    unfolding apply_switch_def bindE_Inr_iff or_rollback_Inr wrapE_Inr_iff by auto
  obtain cf where cf: "grpc_config (sd_yaml d) (sp_grpc_addr sp) (sp_cfg sp) = Inr cf"
    using c by (cases "grpc_config (sd_yaml d) (sp_grpc_addr sp) (sp_cfg sp)") auto
  with c obtain cf' where "save_config (sd_os d) (sd_yaml d) cf m = (Inr cf', m1)" by (auto simp: bindE_Inr_iff)
  from save_config_Inr [OF this] grpc_config_path [OF cf] path
  have "files m1 (sd_cfg_path d) = Some (printed (sd_yaml d) cf)" by simp
  moreover have "files m5 (sd_cfg_path d) = files (sd_sleep d 3 m3) (sd_cfg_path d)"
    using leavesD [OF leaves_find f] ops by simp
  moreover have "files m6 (sd_cfg_path d) = files m5 (sd_cfg_path d)"
    by (rule leavesD [OF leaves_poll v]) (use ops in auto)
  moreover have "files m' (sd_cfg_path d) = files m6 (sd_cfg_path d)"
    by (rule leavesD [OF leaves_record_state r]) (use ops in auto)
  ultimately have "files m' (sd_cfg_path d) = Some (printed (sd_yaml d) cf)"
    using leavesD [of "sd_cfg_path d" "sd_stop d" m1] sp leavesD [of "sd_cfg_path d" "sd_start d" m2] st ops by auto
  with cf poll_revoked_Inr [OF v] show ?thesis by blast
qed

lemma read_plan_Some:
  "read_plan d cfg = Inr (Some (sp, ca, cert, key)) \<Longrightarrow>
     sp_cfg sp = cfg \<and> (\<exists>ok. read_string (sd_yaml d) cfg ''$.api_host'' = Inr (sp_api_host sp, ok)) \<and>
     (sd_explicit_addr d \<noteq> [] \<longrightarrow> sp_grpc_addr sp = sd_explicit_addr d)"
  by (auto simp: read_plan_def Let_def split: if_splits sum.splits prod.splits)



text \<open>
  With \<open>--grpc-address\<close> given and no \<open>api_host\<close> in the configuration the switch cannot
  succeed: the verification asks a URL without host, so after stopping and restarting the
  daemon the command always fails (and rolls back), although the address check was passed.
\<close>

theorem explicit_address_without_api_host_fails:
  assumes dep: "sd_verify_revoked d = real_verify_legacy_revoked get"
    and no_host: "\<And>key s. \<exists>e t. get ''https:///gdaemon_api/get_token'' key s = (Inl e, t)"
    and cfg: "load_config (sd_os d) (sd_yaml d) (sd_cfg_path d) m = (Inr cfg, m)"
    and missing: "read_string (sd_yaml d) cfg ''$.api_host'' = Inr ([], ok)"
    and legacy: "fst (ignore_error [] (read_string (sd_yaml d) cfg ''$.grpc.enabled'')) \<noteq> ''true''"
    and wb: "well_behaved d"
  shows "\<exists>e. fst (switch_to_grpc d m) = Inl e"
proof (rule ccontr)
  assume n: "\<nexists>e. fst (switch_to_grpc d m) = Inl e"
  obtain r m' where rm: "switch_to_grpc d m = (r, m')" by fastforce
  with n have "r = Inr ()" by (cases r) auto
  with rm have run: "switch_to_grpc d m = (Inr (), m')" by simp
  have url: "normalize_api_host [] @ ''/gdaemon_api/get_token'' = ''https:///gdaemon_api/get_token''" by code_simp
  have fails: "\<exists>e t. sd_verify_revoked d [] key s = (Inl e, t)" for key s
  proof -
    obtain e t where "get ''https:///gdaemon_api/get_token'' key s = (Inl e, t)" using no_host by blast
    then show ?thesis by (simp add: dep real_verify_legacy_revoked_def url bindE_def wrapE_def)
  qed
  from run show False
  proof (cases rule: switch_to_grpc_cases)
    case (already cfg')
    with cfg legacy show False
      by (auto simp: read_plan_def Let_def split: if_splits sum.splits prod.splits)
  next
    case (switch cfg' sp ca cert key m1 b m2)
    have "cfg' = cfg" using switch(1) cfg by simp
    moreover have "sp_cfg sp = cfg'" and h: "sp_api_host sp = []"
      using read_plan_Some [OF switch(2)] missing \<open>cfg' = cfg\<close> by auto
    moreover have "cf_path cfg = sd_cfg_path d" using load_config_Inr [OF cfg] by simp
    ultimately obtain s t where "sd_verify_revoked d [] (sp_api_key sp) s = (Inr (), t)"
      using apply_switch_Inr [OF wb _ switch(5)] by metis
    with fails [of "sp_api_key sp" s] show False by simp
  qed auto
qed

definition no_host_client :: "string \<Rightarrow> string \<Rightarrow> (unit, nat \<times> string) sys" where
  "no_host_client u key = (if has_prefix u ''https:///'' then failE (Err ''http: no Host in request URL'')
     else retE (409, grpc_disabled_marker))"

theorem explicit_address_without_api_host_fails_witness:
  "\<exists>e. fst (switch_to_grpc (demo_deps (tl demo_values) (real_verify_legacy_revoked no_host_client)) demo_machine) = Inl e"
proof -
  let ?d = "demo_deps (tl demo_values) (real_verify_legacy_revoked no_host_client)"
  let ?cfg = "projr (fst (load_config (sd_os ?d) (sd_yaml ?d) (sd_cfg_path ?d) demo_machine))"
  have l: "load_config (sd_os ?d) (sd_yaml ?d) (sd_cfg_path ?d) demo_machine = (Inr ?cfg, demo_machine)"
    by (simp add: load_config_def demo_deps_def demo_machine_def demo_yaml_def calm_os_def read_file_def
        bindE_def wrapE_def retE_def)
  have "leaves p (real_verify_legacy_revoked no_host_client a b)" for p a b
    by (simp add: real_verify_legacy_revoked_def no_host_client_def Let_def leaves_bindE leaves_basic split: prod.split)
  then have wb: "well_behaved ?d" by (rule demo_well_behaved)
  show ?thesis
  proof (rule explicit_address_without_api_host_fails [OF _ _ l _ _ wb])
    show "sd_verify_revoked ?d = real_verify_legacy_revoked no_host_client" by (simp add: demo_deps_def)
    show "\<exists>e t. no_host_client ''https:///gdaemon_api/get_token'' key s = (Inl e, t)" for key s
      by (simp add: no_host_client_def failE_def has_prefix_iff)
    show "read_string (sd_yaml ?d) ?cfg ''$.api_host'' = Inr ([], False)" by code_simp
    show "fst (ignore_error [] (read_string (sd_yaml ?d) ?cfg ''$.grpc.enabled'')) \<noteq> ''true''" by code_simp
  qed
qed

end
