(* ===== verification/Services.thy ===== *)
theory Services
  imports Scopes
begin

text \<open>
  Services and processes: the service managers of \<open>pkg/service\<close>, the wrapper around
  \<open>systemctl\<close> of \<open>pkg/systemd\<close>, finding and killing processes (\<open>pkg/oscore\<close>), and the
  start, stop and restart of the daemon (\<open>pkg/daemon\<close>). Commands and the process table
  belong to the host, a parameter.
\<close>

section \<open>The host\<close>

record process =
  proc_pid :: int
  proc_name :: "string option"
  proc_uids :: "int list option"

record 'w host =
  ho_os :: "'w os_env"
  ho_exec :: "string list \<Rightarrow> ('w, unit) sys"
  ho_look_path :: "string \<Rightarrow> 'w machine \<Rightarrow> string result"
  ho_distribution :: string
  ho_home :: "string option"
  ho_runtime_dir :: string
  ho_username :: "string result"
  ho_euid :: int
  ho_init_exe :: "'w machine \<Rightarrow> (string \<times> string) result"
  ho_processes :: "'w machine \<Rightarrow> process list result"
  ho_terminate :: "process \<Rightarrow> ('w, unit) sys"
  ho_kill :: "process \<Rightarrow> ('w, unit) sys"
  ho_is_running :: "process \<Rightarrow> 'w machine \<Rightarrow> bool \<times> go_error option"
  ho_status :: "process \<Rightarrow> 'w machine \<Rightarrow> string list result"
  ho_tick :: "'w machine \<Rightarrow> 'w machine"
  ho_canceled :: "'w machine \<Rightarrow> bool"
  ho_start_process :: "string \<Rightarrow> string \<Rightarrow> ('w, int) sys"

section \<open>Service managers\<close>

text \<open>
  \<open>Load\<close>: the manager is chosen once; a \<open>nil\<close> manager is an error of every later call too.
\<close>

definition detect_service :: "'w host \<Rightarrow> 'w machine \<Rightarrow> service_kind option" where
  "detect_service h m =
     (if ho_distribution h = ''windows'' then Some WindowsService
      else case ho_look_path h ''systemctl'' m of
        Inr _ \<Rightarrow> Some SystemdService
      | Inl _ \<Rightarrow> (case ho_look_path h ''service'' m of Inr _ \<Rightarrow> Some BasicService | Inl _ \<Rightarrow> None))"

definition load_service :: "'w host \<Rightarrow> ('w, service_kind) sys" where
  "load_service h m =
     (let m' = (case service_memo m of
                  Some _ \<Rightarrow> m
                | None \<Rightarrow> m\<lparr>service_memo := Some (detect_service h m)\<rparr>)
      in case service_memo m' of
           Some (Some k) \<Rightarrow> (Inr k, m')
         | _ \<Rightarrow> (Inl (UnsupportedDistribution (ho_distribution h)), m'))"

definition reset_failed :: "'w host \<Rightarrow> string \<Rightarrow> ('w, unit) sys" where
  "reset_failed h name = quietly (ho_exec h [''systemctl'', ''reset-failed'', name])"

definition systemd_start :: "'w host \<Rightarrow> string \<Rightarrow> ('w, unit) sys" where
  "systemd_start h name = bindE (reset_failed h name) (\<lambda>_. ho_exec h [''systemctl'', ''start'', name])"

definition systemd_stop :: "'w host \<Rightarrow> string \<Rightarrow> ('w, unit) sys" where
  "systemd_stop h name = ho_exec h [''systemctl'', ''stop'', name]"

definition systemd_restart :: "'w host \<Rightarrow> string \<Rightarrow> ('w, unit) sys" where
  "systemd_restart h name = bindE (reset_failed h name) (\<lambda>_. ho_exec h [''systemctl'', ''restart'', name])"

text \<open>
  \<open>Status\<close>: \<open>err != nil && errors.As(err, &exitErr)\<close> returns, so that the switch over the exit
  code is only reached when there is no exit code. \<open>exit_code\<close> is what \<open>errors.As\<close> finds.
\<close>

definition exit_code :: "go_error \<Rightarrow> int option" where
  "exit_code e = first_some (\<lambda>x. case x of ExitError c \<Rightarrow> Some c | _ \<Rightarrow> None) (error_chain e)"

definition systemd_status :: "'w host \<Rightarrow> string \<Rightarrow> ('w, unit) sys" where
  "systemd_status h name m =
     (case ho_exec h [''systemctl'', ''--no-pager'', ''status'', name] m of
        (r, t) \<Rightarrow>
          (let exit_err = (case r of Inl e \<Rightarrow> exit_code e | Inr _ \<Rightarrow> None) in
           case r of
             Inl e \<Rightarrow>
               if exit_err \<noteq> None then (Inl (WithMessage e ''service status command failed''), t)
               else (case exit_err of
                  None \<Rightarrow> (Inr (), t)
                | Some c \<Rightarrow>
                    if c = 3 then (Inl InactiveService, t)
                    else if c = 4 then (Inl (ServiceNotFound name), t)
                    else (Inl (WithMessage e ''service status command failed with exit code''), t))
           | Inr _ \<Rightarrow> (Inr (), t)))"

definition basic_command :: "'w host \<Rightarrow> string \<Rightarrow> string \<Rightarrow> ('w, unit) sys" where
  "basic_command h verb name = ho_exec h [''service'', name, verb]"

definition unsupported :: "('w, unit) sys" where
  "unsupported = failE (Err ''unsupported'')"

fun service_start :: "'w host \<Rightarrow> service_kind \<Rightarrow> string \<Rightarrow> ('w, unit) sys" where
  "service_start h SystemdService name = systemd_start h name"
| "service_start h BasicService name = basic_command h ''start'' name"
| "service_start h WindowsService name = unsupported"

fun service_stop :: "'w host \<Rightarrow> service_kind \<Rightarrow> string \<Rightarrow> ('w, unit) sys" where
  "service_stop h SystemdService name = systemd_stop h name"
| "service_stop h BasicService name = basic_command h ''stop'' name"
| "service_stop h WindowsService name = unsupported"

fun service_restart :: "'w host \<Rightarrow> service_kind \<Rightarrow> string \<Rightarrow> ('w, unit) sys" where
  "service_restart h SystemdService name = systemd_restart h name"
| "service_restart h BasicService name = basic_command h ''restart'' name"
| "service_restart h WindowsService name = unsupported"

fun service_status :: "'w host \<Rightarrow> service_kind \<Rightarrow> string \<Rightarrow> ('w, unit) sys" where
  "service_status h SystemdService name = systemd_status h name"
| "service_status h BasicService name = basic_command h ''status'' name"
| "service_status h WindowsService name = unsupported"

text \<open>The functions of the package: the loaded manager, and the fallback of \<open>Restart\<close>.\<close>

definition start_service :: "'w host \<Rightarrow> string \<Rightarrow> ('w, unit) sys" where
  "start_service h name = bindE (load_service h) (\<lambda>k. service_start h k name)"

definition stop_service :: "'w host \<Rightarrow> string \<Rightarrow> ('w, unit) sys" where
  "stop_service h name = bindE (load_service h) (\<lambda>k. service_stop h k name)"

definition restart_service :: "'w host \<Rightarrow> string \<Rightarrow> ('w, unit) sys" where
  "restart_service h name = bindE (load_service h) (\<lambda>k.
     catchE (service_restart h k name) (\<lambda>_.
       bindE (wrapE ''failed to stop service during restart fallback'' (service_stop h k name)) (\<lambda>_.
         service_start h k name)))"

definition status_service :: "'w host \<Rightarrow> string \<Rightarrow> ('w, unit) sys" where
  "status_service h name = bindE (load_service h) (\<lambda>k. service_status h k name)"

section \<open>systemctl in a scope\<close>

definition systemctl_args :: "string \<Rightarrow> string list \<Rightarrow> string list" where
  "systemctl_args scope args = (if scope = scope_user then ''--user'' # args else args)"

definition user_manager_socket :: "'w host \<Rightarrow> string" where
  "user_manager_socket h = path_clean (path_join [ho_runtime_dir h, ''systemd'', ''private''])"

definition check_user_manager :: "'w host \<Rightarrow> ('w, unit) sys" where
  "check_user_manager h m =
     (if ho_runtime_dir h = [] then
        (Inl (Err ''XDG_RUNTIME_DIR is not set, the systemd user manager is not reachable''), m)
      else case stat_file (ho_os h) (user_manager_socket h) m of
        StatOk \<Rightarrow> (Inr (), m)
      | StatMissing \<Rightarrow> (Inl (WithMessage (NotExist (user_manager_socket h))
            ''the systemd user manager is not running for the current user''), m)
      | StatFailed e \<Rightarrow> (Inl (WithMessage e ''the systemd user manager is not running for the current user''), m))"

definition ensure_user_manager :: "'w host \<Rightarrow> string \<Rightarrow> ('w, unit) sys" where
  "ensure_user_manager h scope = (if scope \<noteq> scope_user then retE () else check_user_manager h)"

definition systemctl_run :: "'w host \<Rightarrow> string \<Rightarrow> string list \<Rightarrow> ('w, unit) sys" where
  "systemctl_run h scope args =
     bindE (ensure_user_manager h scope) (\<lambda>_. ho_exec h (''systemctl'' # systemctl_args scope args))"

definition reset_failed_in :: "'w host \<Rightarrow> string \<Rightarrow> string \<Rightarrow> ('w, unit) sys" where
  "reset_failed_in h scope unit_name = quietly (systemctl_run h scope [''reset-failed'', unit_name])"

definition start_unit :: "'w host \<Rightarrow> string \<Rightarrow> string \<Rightarrow> ('w, unit) sys" where
  "start_unit h scope unit_name =
     (if scope = scope_user
      then bindE (reset_failed_in h scope unit_name) (\<lambda>_. systemctl_run h scope [''start'', unit_name])
      else start_service h unit_name)"

definition stop_unit :: "'w host \<Rightarrow> string \<Rightarrow> string \<Rightarrow> ('w, unit) sys" where
  "stop_unit h scope unit_name =
     (if scope = scope_user then systemctl_run h scope [''stop'', unit_name]
      else stop_service h unit_name)"

definition restart_unit :: "'w host \<Rightarrow> string \<Rightarrow> string \<Rightarrow> ('w, unit) sys" where
  "restart_unit h scope unit_name =
     (if scope = scope_user
      then bindE (reset_failed_in h scope unit_name) (\<lambda>_. systemctl_run h scope [''restart'', unit_name])
      else restart_service h unit_name)"

definition enable_linger :: "'w host \<Rightarrow> ('w, unit) sys" where
  "enable_linger h =
     (case ho_username h of
        Inl _ \<Rightarrow> retE ()
      | Inr u \<Rightarrow> quietly (ho_exec h [''loginctl'', ''enable-linger'', u]))"

definition install_unit :: "'w host \<Rightarrow> string \<Rightarrow> string \<Rightarrow> string \<Rightarrow> ('w, unit) sys" where
  "install_unit h scope unit_path content =
     (let unit_name = trim_suffix (path_base unit_path) ''.service'' in
      bindE (ensure_user_manager h scope) (\<lambda>_.
      bindE (wrapE ''failed to create systemd unit directory'' (mkdir_all (ho_os h) (path_dir unit_path))) (\<lambda>_.
      bindE (wrapE ''failed to write service configuration'' (write_file (ho_os h) unit_path content)) (\<lambda>_.
      bindE (wrapE ''failed to reload systemctl'' (systemctl_run h scope [''daemon-reload''])) (\<lambda>_.
      bindE (wrapE (''failed to enable '' @ unit_name @ '' service'') (systemctl_run h scope [''enable'', unit_name])) (\<lambda>_.
      if scope = scope_user then enable_linger h else retE ()))))))"

section \<open>Processes\<close>

definition belongs_to_current_user :: "'w host \<Rightarrow> process \<Rightarrow> bool" where
  "belongs_to_current_user h p \<longleftrightarrow>
     ho_euid h = 0 \<or> (case proc_uids p of None \<Rightarrow> False | Some us \<Rightarrow> ho_euid h \<in> set us)"

definition find_process_by_name :: "'w host \<Rightarrow> string \<Rightarrow> 'w machine \<Rightarrow> process option result" where
  "find_process_by_name h name m =
     (case ho_processes h m of
        Inl e \<Rightarrow> Inl (WithMessage e ''failed to load all processes'')
      | Inr ps \<Rightarrow> Inr (first_some (\<lambda>p.
          if proc_name p = Some name \<and> belongs_to_current_user h p then Some p else None) ps))"

text \<open>\<open>WaitForProcessByName\<close>: \<open>n\<close> looks left, a tick after each.\<close>

fun wait_for_process :: "'w host \<Rightarrow> string \<Rightarrow> nat \<Rightarrow> ('w, process option) sys" where
  "wait_for_process h name 0 m = (Inr None, m)"
| "wait_for_process h name (Suc n) m =
     (case find_process_by_name h name m of
        Inl e \<Rightarrow> (Inl e, m)
      | Inr (Some p) \<Rightarrow> (Inr (Some p), m)
      | Inr None \<Rightarrow>
          if ho_canceled h m then (Inl Canceled, m) else wait_for_process h name n (ho_tick h m))"

definition wait_retries :: nat where "wait_retries = 5"

text \<open>A loop of \<open>TerminateAndKillProcess\<close>: \<open>n\<close> ticks before the deadline fires.\<close>

fun wait_gone :: "'w host \<Rightarrow> process \<Rightarrow> nat \<Rightarrow> 'w machine \<Rightarrow> bool \<times> 'w machine" where
  "wait_gone h p 0 m = (\<not> fst (ho_is_running h p m), m)"
| "wait_gone h p (Suc n) m =
     (if \<not> fst (ho_is_running h p m) then (True, m)
      else if ho_canceled h m then (False, m)
      else wait_gone h p n (ho_tick h m))"

definition terminate_ticks :: nat where "terminate_ticks = 30"
definition kill_ticks :: nat where "kill_ticks = 10"

text \<open>After SIGKILL: zombies are an error, others are given some time to go.\<close>

definition await_killed :: "'w host \<Rightarrow> process \<Rightarrow> string \<Rightarrow> ('w, unit) sys" where
  "await_killed h p name m =
     (case ho_status h p m of
        Inl e \<Rightarrow> (Inl (WithMessage e (''failed to get '' @ name @ '' process status'')), m)
      | Inr s \<Rightarrow>
          if s \<noteq> [] \<and> (hd s = ''Z'' \<or> hd s = ''zombie'') then
            (Inl (Err (''process '' @ name @ '' is in zombie state and cannot be killed'')), m)
          else (case ho_is_running h p m of (running, err) \<Rightarrow>
            (case err of
               Some e \<Rightarrow> (Inl (WithMessage e (''failed to check if '' @ name @ '' process is running'')), m)
             | None \<Rightarrow>
                 if \<not> running then (Inr (), m)
                 else (case wait_gone h p kill_ticks m of (gone, t) \<Rightarrow>
                   (if gone then Inr ()
                    else Inl (Err (''failed to kill '' @ name @ '' process: still running after 10s timeout'')), t)))))"

definition kill_process :: "'w host \<Rightarrow> process \<Rightarrow> string \<Rightarrow> ('w, unit) sys" where
  "kill_process h p name =
     bindE (wrapE (''failed to kill '' @ name @ '' process'') (ho_kill h p)) (\<lambda>_. await_killed h p name)"

definition terminate_and_kill :: "'w host \<Rightarrow> process \<Rightarrow> ('w, unit) sys" where
  "terminate_and_kill h p =
     (case proc_name p of
        None \<Rightarrow> failE (Err ''failed to get process name'')
      | Some name \<Rightarrow>
          bindE (wrapE (''failed to terminate '' @ name @ '' process'') (ho_terminate h p)) (\<lambda>_ m.
            case wait_gone h p terminate_ticks m of (gone, t) \<Rightarrow>
              if gone then (Inr (), t) else kill_process h p name t))"

section \<open>The daemon\<close>

definition daemon_process_name :: string where "daemon_process_name = ''gameap-daemon''"
definition daemon_service_name :: string where "daemon_service_name = ''gameap-daemon''"

definition find_daemon :: "'w host \<Rightarrow> 'w machine \<Rightarrow> process option result" where
  "find_daemon h m = find_process_by_name h daemon_process_name m"

definition wait_for_daemon :: "'w host \<Rightarrow> ('w, process option) sys" where
  "wait_for_daemon h = wait_for_process h daemon_process_name wait_retries"

datatype init_system = InitUnknown | InitSystemd

text \<open>\<open>DetectInit\<close>: an error is logged by the callers, who go on with \<open>unknown\<close>.\<close>

definition detect_init :: "'w host \<Rightarrow> 'w machine \<Rightarrow> init_system" where
  "detect_init h m =
     (case ho_init_exe h m of
        Inl _ \<Rightarrow> InitUnknown
      | Inr (exe, original) \<Rightarrow>
          if path_base (if original = [] then exe else original) = ''systemd'' then InitSystemd else InitUnknown)"

definition render_daemon_unit :: "daemon_paths \<Rightarrow> string" where
  "render_daemon_unit ps =
     ''[Unit]'' @ [CHR 0x0A] @ ''Description=GameAP Daemon'' @ [CHR 0x0A, CHR 0x0A] @
     (if dp_scope ps = scope_system
      then ''Wants=network-online.target'' @ [CHR 0x0A] @ ''After=network.target network-online.target'' @ [CHR 0x0A, CHR 0x0A]
      else []) @
     ''[Service]'' @ [CHR 0x0A] @
     (if dp_scope ps = scope_system then ''User=root'' @ [CHR 0x0A] else []) @
     ''WorkingDirectory='' @ dp_work_path ps @ [CHR 0x0A] @
     ''ExecStart=/bin/bash -c '' @ [CHR 0x27] @ dp_daemon_file_path ps @ '' -c '' @ dp_config_file_path ps @ [CHR 0x27, CHR 0x0A] @
     ''Restart=always'' @ [CHR 0x0A, CHR 0x0A] @
     ''[Install]'' @ [CHR 0x0A] @
     (if dp_scope ps = scope_user then ''WantedBy=default.target'' @ [CHR 0x0A]
      else ''WantedBy=multi-user.target'' @ [CHR 0x0A])"

definition daemon_configure_systemd :: "'w host \<Rightarrow> daemon_paths \<Rightarrow> ('w, unit) sys" where
  "daemon_configure_systemd h ps =
     install_unit h (dp_scope ps) (dp_systemd_unit_path ps) (render_daemon_unit ps)"

definition resolved_daemon_paths :: "'w host \<Rightarrow> string \<Rightarrow> daemon_paths result" where
  "resolved_daemon_paths h scope =
     with_message ''failed to resolve daemon paths'' (daemon_paths_for_scope (ho_home h) scope)"

definition start_daemon_systemd :: "'w host \<Rightarrow> string \<Rightarrow> ('w, unit) sys" where
  "start_daemon_systemd h scope m =
     (case resolved_daemon_paths h scope of
        Inl e \<Rightarrow> (Inl e, m)
      | Inr ps \<Rightarrow>
          bindE (case stat_file (ho_os h) (dp_systemd_unit_path ps) m of
                   StatMissing \<Rightarrow> daemon_configure_systemd h ps
                 | StatFailed e \<Rightarrow> failE (WithMessage e ''failed to stat gameap-daemon service configuration'')
                 | StatOk \<Rightarrow> retE ()) (\<lambda>_.
          wrapE ''failed to start gameap-daemon'' (start_unit h (dp_scope ps) daemon_service_name)) m)"

definition open_dev_null :: "'w host \<Rightarrow> ('w, unit) sys" where
  "open_dev_null h m =
     (case fault (ho_os h) (OpRead ''/dev/null'') m of
        Some e \<Rightarrow> (Inl (WithMessage e ''failed to open /dev/null''), m)
      | None \<Rightarrow> (Inr (), m))"

definition start_daemon_fork :: "'w host \<Rightarrow> ('w, unit) sys" where
  "start_daemon_fork h m =
     (case find_daemon h m of
        Inl e \<Rightarrow> (Inl (WithMessage e ''failed to find daemon process''), m)
      | Inr p \<Rightarrow>
          if (case p of None \<Rightarrow> False | Some q \<Rightarrow> proc_pid q \<noteq> 0)
          then (Inl (AlreadyRunning (proc_pid (the p))), m)
          else case ho_look_path h daemon_process_name m of
            Inl e \<Rightarrow> (Inl (WithMessage e ''failed to lookup gameap-daemon path''), m)
          | Inr exe \<Rightarrow>
              bindE (case stat_file (ho_os h) default_work_path m of
                       StatMissing \<Rightarrow> wrapE ''failed to create work path'' (make_dir (ho_os h) default_work_path)
                     | _ \<Rightarrow> retE ()) (\<lambda>_.
              bindE (open_dev_null h) (\<lambda>_.
              bindE (wrapE ''failed to start process'' (ho_start_process h exe default_work_path)) (\<lambda>_.
              retE ()))) m)"

definition daemon_start :: "'w host \<Rightarrow> string \<Rightarrow> ('w, unit) sys" where
  "daemon_start h scope m =
     (if scope_or_default scope = scope_user then start_daemon_systemd h scope_user m
      else wrapE ''failed to start daemon''
        (case detect_init h m of
           InitSystemd \<Rightarrow> start_daemon_systemd h scope_system
         | InitUnknown \<Rightarrow> start_daemon_fork h) m)"

definition stop_daemon_systemd :: "'w host \<Rightarrow> string \<Rightarrow> ('w, unit) sys" where
  "stop_daemon_systemd h scope m =
     (case resolved_daemon_paths h scope of
        Inl e \<Rightarrow> (Inl e, m)
      | Inr ps \<Rightarrow>
          (case stat_file (ho_os h) (dp_systemd_unit_path ps) m of
             StatMissing \<Rightarrow> (Inr (), m)
           | StatFailed e \<Rightarrow> (Inl (WithMessage e ''failed to stat gameap-daemon service configuration''), m)
           | StatOk \<Rightarrow> wrapE ''failed to stop gameap-daemon'' (stop_unit h (dp_scope ps) daemon_service_name) m))"

definition stop_daemon_process :: "'w host \<Rightarrow> ('w, unit) sys" where
  "stop_daemon_process h m =
     (case find_daemon h m of
        Inl e \<Rightarrow> (Inl (WithMessage e ''failed to find daemon process''), m)
      | Inr None \<Rightarrow> (Inr (), m)
      | Inr (Some p) \<Rightarrow> wrapE ''failed to terminate/kill daemon process'' (terminate_and_kill h p) m)"

definition daemon_stop :: "'w host \<Rightarrow> string \<Rightarrow> ('w, unit) sys" where
  "daemon_stop h scope m =
     (if scope_or_default scope = scope_user then stop_daemon_systemd h scope_user m
      else wrapE ''failed to stop daemon''
        (case detect_init h m of
           InitSystemd \<Rightarrow> stop_daemon_systemd h scope_system
         | InitUnknown \<Rightarrow> stop_daemon_process h) m)"

definition restart_daemon_systemd :: "'w host \<Rightarrow> string \<Rightarrow> ('w, unit) sys" where
  "restart_daemon_systemd h scope m =
     (case resolved_daemon_paths h scope of
        Inl e \<Rightarrow> (Inl e, m)
      | Inr ps \<Rightarrow>
          (case stat_file (ho_os h) (dp_systemd_unit_path ps) m of
             StatMissing \<Rightarrow> (Inl (WithMessage (NotExist (dp_systemd_unit_path ps))
               (''daemon service configuration file '' @ dp_systemd_unit_path ps @ '' not found'')), m)
           | StatFailed e \<Rightarrow> (Inl (WithMessage e ''failed to stat gameap-daemon service configuration''), m)
           | StatOk \<Rightarrow> wrapE ''failed to restart gameap-daemon'' (restart_unit h (dp_scope ps) daemon_service_name) m))"

definition restart_daemon_process :: "'w host \<Rightarrow> ('w, unit) sys" where
  "restart_daemon_process h m =
     (case find_daemon h m of
        Inl e \<Rightarrow> (Inl (WithMessage e ''failed to find daemon process''), m)
      | Inr p \<Rightarrow>
          bindE (case p of
                   None \<Rightarrow> retE ()
                 | Some q \<Rightarrow> wrapE ''failed to terminate/kill daemon process'' (terminate_and_kill h q)) (\<lambda>_.
          wrapE ''failed to start daemon'' (start_daemon_fork h)) m)"

definition daemon_restart :: "'w host \<Rightarrow> string \<Rightarrow> ('w, unit) sys" where
  "daemon_restart h scope m =
     (if scope_or_default scope = scope_user then restart_daemon_systemd h scope_user m
      else case detect_init h m of
        InitSystemd \<Rightarrow> restart_daemon_systemd h scope_system m
      | InitUnknown \<Rightarrow> restart_daemon_process h m)"

definition daemon_status :: "'w host \<Rightarrow> ('w, unit) sys" where
  "daemon_status h m =
     (case find_daemon h m of
        Inl e \<Rightarrow> (Inl (WithMessage e ''failed to find daemon process''), m)
      | Inr None \<Rightarrow> (Inl (Err ''daemon process not found''), m)
      | Inr (Some _) \<Rightarrow> (Inr (), m))"

section \<open>What may happen to the host\<close>

text \<open>
  The effects that an operation can have on the host, and the states that are reached by
  effects that \<open>allowed\<close> admits.
\<close>

datatype host_effect =
    Exec "string list"
  | WriteUnit string
  | SignalProcess process
  | SpawnIn string
  | WaitTick

inductive host_run :: "'w host \<Rightarrow> (host_effect \<Rightarrow> bool) \<Rightarrow> 'w machine \<Rightarrow> 'w machine \<Rightarrow> bool"
  for h allowed where
  host_run_refl: "host_run h allowed m m"
| host_run_exec: "host_run h allowed a b \<Longrightarrow> allowed (Exec c) \<Longrightarrow> host_run h allowed a (snd (ho_exec h c b))"
| host_run_write: "host_run h allowed a b \<Longrightarrow> allowed (WriteUnit p) \<Longrightarrow>
    host_run h allowed a (snd (write_file (ho_os h) p text b))"
| host_run_mkdir: "host_run h allowed a b \<Longrightarrow> allowed (WriteUnit p) \<Longrightarrow>
    host_run h allowed a (snd (mkdir_all (ho_os h) (path_dir p) b))"
| host_run_terminate: "host_run h allowed a b \<Longrightarrow> allowed (SignalProcess q) \<Longrightarrow>
    host_run h allowed a (snd (ho_terminate h q b))"
| host_run_kill: "host_run h allowed a b \<Longrightarrow> allowed (SignalProcess q) \<Longrightarrow>
    host_run h allowed a (snd (ho_kill h q b))"
| host_run_work_dir: "host_run h allowed a b \<Longrightarrow> allowed (SpawnIn d) \<Longrightarrow>
    host_run h allowed a (snd (make_dir (ho_os h) d b))"
| host_run_spawn: "host_run h allowed a b \<Longrightarrow> allowed (SpawnIn d) \<Longrightarrow>
    host_run h allowed a (snd (ho_start_process h exe d b))"
| host_run_tick: "host_run h allowed a b \<Longrightarrow> allowed WaitTick \<Longrightarrow> host_run h allowed a (ho_tick h b)"
| host_run_memo: "host_run h allowed a b \<Longrightarrow> host_run h allowed a (b\<lparr>service_memo := x\<rparr>)"

lemma host_run_trans: "host_run h allowed b c \<Longrightarrow> host_run h allowed a b \<Longrightarrow> host_run h allowed a c"
  by (induction rule: host_run.induct) (blast intro: host_run.intros)+

lemma transp_host_run: "transp (host_run h allowed)"
  using host_run_trans by (metis transpI)

lemma reflp_host_run: "reflp (host_run h allowed)"
  by (simp add: reflpI host_run_refl)

lemma host_run_mono: "host_run h A a b \<Longrightarrow> (\<And>e. A e \<Longrightarrow> B e) \<Longrightarrow> host_run h B a b"
  by (induction rule: host_run.induct) (blast intro: host_run.intros)+

text \<open>Effects that leave a file as it is leave it so in every run.\<close>

definition effects_leave :: "'w host \<Rightarrow> (host_effect \<Rightarrow> bool) \<Rightarrow> string \<Rightarrow> bool" where
  "effects_leave h allowed p \<longleftrightarrow>
     (\<forall>c. allowed (Exec c) \<longrightarrow> leaves p (ho_exec h c)) \<and> \<not> allowed (WriteUnit p) \<and>
     (\<forall>q. leaves p (ho_terminate h q) \<and> leaves p (ho_kill h q)) \<and>
     (\<forall>exe d. leaves p (ho_start_process h exe d)) \<and> (\<forall>m. files (ho_tick h m) p = files m p)"

lemma make_dir_files [simp]: "files (snd (make_dir os d m)) = files m"
  by (simp add: make_dir_def split: option.split)

lemma host_run_leaves:
  "host_run h allowed a b \<Longrightarrow> effects_leave h allowed p \<Longrightarrow> files b p = files a p"
proof (induction rule: host_run.induct)
  case (host_run_write a b q content)
  then have "q \<noteq> p" by (auto simp: effects_leave_def)
  with host_run_write show ?case by (simp add: write_file_others)
qed (auto simp: effects_leave_def leaves_def keeps_def)

abbreviation runs :: "'w host \<Rightarrow> (host_effect \<Rightarrow> bool) \<Rightarrow> ('w, 'a) sys \<Rightarrow> bool" where
  "runs h allowed \<equiv> keeps (host_run h allowed)"

lemma runs_exec: "allowed (Exec c) \<Longrightarrow> runs h allowed (ho_exec h c)"
  by (simp add: keeps_def host_run_exec host_run_refl)

lemma runs_write: "allowed (WriteUnit p) \<Longrightarrow> runs h allowed (write_file (ho_os h) p text)"
  by (simp add: keeps_def host_run_write host_run_refl)

lemma runs_mkdir: "allowed (WriteUnit p) \<Longrightarrow> runs h allowed (mkdir_all (ho_os h) (path_dir p))"
  by (simp add: keeps_def host_run_mkdir host_run_refl)

lemma runs_signal:
  "allowed (SignalProcess q) \<Longrightarrow> runs h allowed (ho_terminate h q)"
  "allowed (SignalProcess q) \<Longrightarrow> runs h allowed (ho_kill h q)"
  by (simp_all add: keeps_def host_run_terminate host_run_kill host_run_refl)

lemma runs_spawn:
  "allowed (SpawnIn d) \<Longrightarrow> runs h allowed (make_dir (ho_os h) d)"
  "allowed (SpawnIn d) \<Longrightarrow> runs h allowed (ho_start_process h exe d)"
  by (simp_all add: keeps_def host_run_work_dir host_run_spawn host_run_refl)

lemma runs_quietly: "runs h allowed m \<Longrightarrow> runs h allowed (quietly m)"
  by (simp add: keeps_def quietly_def)

lemmas runs_retE = keeps_retE [OF reflp_host_run]
lemmas runs_failE = keeps_failE [OF reflp_host_run]
lemmas runs_bindE = keeps_bindE [OF transp_host_run]
lemmas runs_catchE = keeps_catchE [OF transp_host_run]
lemmas runs_intros = runs_retE runs_failE runs_bindE runs_catchE keeps_wrapE runs_quietly

lemma runs_load_service: "runs h allowed (load_service h)"
  by (auto simp: keeps_def load_service_def Let_def intro: host_run_refl host_run_memo
      split: option.splits)

lemma runs_user_manager: "runs h allowed (ensure_user_manager h scope)"
  by (auto simp: keeps_def ensure_user_manager_def check_user_manager_def retE_def
      intro: host_run_refl split: stat_reply.splits)

section \<open>Service managers as one interface\<close>

text \<open>
  The interface \<open>Service\<close>: \<open>R n\<close> is what the operations on the service \<open>n\<close> may do.
\<close>

locale service_ops =
  fixes R :: "string \<Rightarrow> 's \<Rightarrow> 's \<Rightarrow> bool"
    and start stop restart :: "string \<Rightarrow> ('s, unit) io"
  assumes R_refl: "reflp (R n)" and R_trans: "transp (R n)"
    and start_keeps: "keeps (R n) (start n)" and stop_keeps: "keeps (R n) (stop n)"
    and restart_keeps: "keeps (R n) (restart n)"
begin

lemma restart_fallback_keeps:
  "keeps (R n) (catchE (restart n) (\<lambda>_. bindE (wrapE msg (stop n)) (\<lambda>_. start n)))"
  by (intro keeps_catchE keeps_bindE keeps_wrapE R_trans start_keeps stop_keeps restart_keeps)

lemma restart_fallback_fails:
  "catchE (restart n) (\<lambda>_. bindE (wrapE msg (stop n)) (\<lambda>_. start n)) s = (Inl e, t) \<Longrightarrow>
     \<exists>e' u. restart n s = (Inl e', u) \<and> ((\<exists>e''. stop n u = (Inl e'', t)) \<or> (\<exists>v. stop n u = (Inr (), v) \<and> start n v = (Inl e, t)))"
  by (auto simp: catchE_Inl_iff bindE_Inl_iff wrapE_Inl_iff)

end

fun service_command :: "string \<Rightarrow> host_effect \<Rightarrow> bool" where
  "service_command n (Exec c) \<longleftrightarrow>
     c \<in> {[''systemctl'', ''reset-failed'', n], [''systemctl'', ''start'', n], [''systemctl'', ''stop'', n],
          [''systemctl'', ''restart'', n], [''service'', n, ''start''], [''service'', n, ''stop''], [''service'', n, ''restart'']}"
| "service_command n _ \<longleftrightarrow> False"

interpretation svc: service_ops "\<lambda>n. host_run h (service_command n)"
  "service_start h k" "service_stop h k" "service_restart h k" for h k
  by unfold_locales (cases k; auto simp: reflp_host_run transp_host_run systemd_start_def systemd_stop_def
      systemd_restart_def reset_failed_def basic_command_def unsupported_def intro!: runs_intros runs_exec)+

text \<open>Starting, stopping and restarting a service runs commands about that service only.\<close>

lemma runs_service:
  "runs h (service_command n) (start_service h n)"
  "runs h (service_command n) (stop_service h n)"
  "runs h (service_command n) (restart_service h n)"
  unfolding start_service_def stop_service_def restart_service_def
  by (intro runs_bindE runs_load_service svc.start_keeps svc.stop_keeps svc.restart_fallback_keeps)+

section \<open>What the daemon operations may do\<close>

definition user_command :: "string list \<Rightarrow> bool" where
  "user_command c \<longleftrightarrow> take 2 c = [''systemctl'', ''--user''] \<or> take 2 c = [''loginctl'', ''enable-linger'']"

definition unit_command :: "string list \<Rightarrow> bool" where
  "unit_command c \<longleftrightarrow> c \<in> {[''systemctl'', ''daemon-reload''], [''systemctl'', ''enable'', daemon_service_name]}"

text \<open>
  In user scope: commands to the user's own manager and the user's unit file. Otherwise:
  commands about the daemon's service and its unit file, signals to daemon processes that
  belong to the current user, and a new process in the work directory.
\<close>

fun daemon_effect :: "'w host \<Rightarrow> string \<Rightarrow> host_effect \<Rightarrow> bool" where
  "daemon_effect h scope (Exec c) \<longleftrightarrow>
     (if scope = scope_user then user_command c
      else unit_command c \<or> service_command daemon_service_name (Exec c))"
| "daemon_effect h scope (WriteUnit p) \<longleftrightarrow>
     (case daemon_paths_for_scope (ho_home h) (if scope = scope_user then scope_user else scope_system) of
        Inl _ \<Rightarrow> False | Inr ps \<Rightarrow> p = dp_systemd_unit_path ps)"
| "daemon_effect h scope (SignalProcess q) \<longleftrightarrow>
     scope \<noteq> scope_user \<and> proc_name q = Some daemon_process_name \<and> belongs_to_current_user h q"
| "daemon_effect h scope (SpawnIn d) \<longleftrightarrow> scope \<noteq> scope_user \<and> d = default_work_path"
| "daemon_effect h scope WaitTick \<longleftrightarrow> scope \<noteq> scope_user"

lemma scopes_differ [simp]: "scope_system \<noteq> scope_user" "scope_user \<noteq> scope_system"
  by (simp_all add: scope_user_def scope_system_def)

lemma user_command_simps [simp]:
  "user_command (''systemctl'' # systemctl_args scope_user args)"
  "user_command [''loginctl'', ''enable-linger'', u]"
  by (simp_all add: user_command_def systemctl_args_def)

lemma dp_scope_of:
  "daemon_paths_for_scope home scope_user = Inr ps \<Longrightarrow> dp_scope ps = scope_user"
  "daemon_paths_for_scope home scope_system = Inr ps \<Longrightarrow>
     dp_scope ps = scope_system \<and> dp_systemd_unit_path ps = system_daemon_unit_path"
  by (auto simp: daemon_paths_for_scope_def user_daemon_paths_from_home_def system_daemon_paths_def Let_def
      scope_user_def scope_system_def split: if_splits sum.splits)

lemma unit_name_system: "trim_suffix (path_base system_daemon_unit_path) ''.service'' = daemon_service_name"
  by code_simp

text \<open>
  A unit that is managed in a scope: what its start, stop, restart and installation may do, for
  any effects \<open>A\<close> that admit the commands of the scope.
\<close>

locale scoped_unit =
  fixes h :: "'w host" and A :: "host_effect \<Rightarrow> bool" and scope name :: string and unit_path :: "string option"
  assumes user_commands: "scope = scope_user \<Longrightarrow> user_command c \<Longrightarrow> A (Exec c)"
    and service_commands: "scope \<noteq> scope_user \<Longrightarrow> service_command name e \<Longrightarrow> A e"
    and unit_commands: "scope \<noteq> scope_user \<Longrightarrow> c \<in> {[''systemctl'', ''daemon-reload''], [''systemctl'', ''enable'', name]} \<Longrightarrow> A (Exec c)"
    and unit_file: "unit_path = Some p \<Longrightarrow>
      A (WriteUnit p) \<and> (scope \<noteq> scope_user \<longrightarrow> trim_suffix (path_base p) ''.service'' = name)"
begin

lemma runs_systemctl:
  assumes "scope = scope_user \<or> args = [''daemon-reload''] \<or> args = [''enable'', name]"
  shows "runs h A (systemctl_run h scope args)"
proof -
  have "A (Exec (''systemctl'' # systemctl_args scope args))"
    using assms user_commands unit_commands by (cases "scope = scope_user") (auto simp: systemctl_args_def user_command_def)
  then show ?thesis unfolding systemctl_run_def by (intro runs_intros runs_user_manager runs_exec)
qed

lemma runs_any_service: "scope \<noteq> scope_user \<Longrightarrow> runs h (service_command name) x \<Longrightarrow> runs h A x"
  using service_commands host_run_mono by (metis keeps_def)

lemma runs_unit_ops:
  "runs h A (start_unit h scope name)" "runs h A (stop_unit h scope name)" "runs h A (restart_unit h scope name)"
proof -
  have "runs h A (start_unit h scope name) \<and> runs h A (stop_unit h scope name) \<and> runs h A (restart_unit h scope name)"
  proof (cases "scope = scope_user")
    case True
    then have "runs h A (systemctl_run h scope args)" for args by (intro runs_systemctl) simp
    with True show ?thesis
      by (simp add: start_unit_def stop_unit_def restart_unit_def reset_failed_in_def) (intro conjI runs_bindE runs_quietly)
  next
    case False
    from False show ?thesis
      by (simp add: start_unit_def stop_unit_def restart_unit_def) (intro conjI runs_any_service [OF False] runs_service)
  qed
  then show "runs h A (start_unit h scope name)" "runs h A (stop_unit h scope name)" "runs h A (restart_unit h scope name)"
    by simp_all
qed

lemma runs_install:
  assumes "unit_path = Some p"
  shows "runs h A (install_unit h scope p content)"
proof -
  let ?name = "trim_suffix (path_base p) ''.service''"
  have "runs h A (systemctl_run h scope [''daemon-reload''])" "runs h A (systemctl_run h scope [''enable'', ?name])"
    using unit_file [OF assms] runs_systemctl by simp_all blast+
  moreover have "scope = scope_user \<Longrightarrow> runs h A (enable_linger h)"
    by (auto simp: enable_linger_def split: sum.split intro!: runs_retE runs_quietly runs_exec user_commands)
  ultimately show ?thesis
    unfolding install_unit_def Let_def using unit_file [OF assms]
    by (intro runs_bindE keeps_wrapE runs_user_manager runs_write runs_mkdir) (auto intro: runs_retE)
qed

end

text \<open>Every scope but the user's is the system scope.\<close>

definition own_scope :: "string \<Rightarrow> string" where
  "own_scope s = (if s = scope_user then scope_user else scope_system)"

lemma own_scope_user [simp]: "own_scope s = scope_user \<longleftrightarrow> s = scope_user"
  by (simp add: own_scope_def)

definition daemon_unit_path :: "'w host \<Rightarrow> string \<Rightarrow> string option" where
  "daemon_unit_path h s =
     (case daemon_paths_for_scope (ho_home h) (own_scope s) of Inl _ \<Rightarrow> None | Inr ps \<Rightarrow> Some (dp_systemd_unit_path ps))"

lemma daemon_effect_service:
  "s \<noteq> scope_user \<Longrightarrow> service_command daemon_service_name e \<Longrightarrow> daemon_effect h s e"
  by (cases e) (auto split: sum.split)

interpretation daemon_unit: scoped_unit h "daemon_effect h s" "own_scope s" daemon_service_name "daemon_unit_path h s" for h s
proof (intro scoped_unit.intro)
  fix p assume "daemon_unit_path h s = Some p"
  then obtain ps where ps: "daemon_paths_for_scope (ho_home h) (own_scope s) = Inr ps" "p = dp_systemd_unit_path ps"
    by (auto simp: daemon_unit_path_def split: sum.splits)
  then show "daemon_effect h s (WriteUnit p) \<and>
      (own_scope s \<noteq> scope_user \<longrightarrow> trim_suffix (path_base p) ''.service'' = daemon_service_name)"
    using dp_scope_of(2) unit_name_system by (auto simp: own_scope_def split: if_splits)
next
  fix e assume "own_scope s \<noteq> scope_user" "service_command daemon_service_name e"
  then show "daemon_effect h s e" using daemon_effect_service by simp
qed (auto simp: unit_command_def)

lemma runs_configure:
  assumes "daemon_paths_for_scope (ho_home h) (own_scope s) = Inr ps"
  shows "runs h (daemon_effect h s) (daemon_configure_systemd h ps)"
proof -
  have "dp_scope ps = own_scope s" using assms dp_scope_of by (cases "s = scope_user") (auto simp: own_scope_def)
  then show ?thesis
    unfolding daemon_configure_systemd_def using daemon_unit.runs_install [where h = h and s = s] assms
    by (simp add: daemon_unit_path_def)
qed

lemma keeps_by_state: "(\<And>s. keeps R (m s)) \<Longrightarrow> keeps R (\<lambda>s. m s s)"
  by (simp add: keeps_def)

lemma runs_systemd_ops:
  assumes "scope = own_scope s"
  shows "runs h (daemon_effect h s) (start_daemon_systemd h scope)"
    and "runs h (daemon_effect h s) (stop_daemon_systemd h scope)"
    and "runs h (daemon_effect h s) (restart_daemon_systemd h scope)"
proof -
  let ?A = "daemon_effect h s"
  have d: "daemon_paths_for_scope (ho_home h) scope = Inr ps \<Longrightarrow> dp_scope ps = scope" for ps
    using assms dp_scope_of by (auto simp: own_scope_def split: if_splits)
  note ops = daemon_unit.runs_unit_ops [where h = h and s = s, folded assms] and refl = host_run_refl [of h ?A]
  have "host_run h ?A m (snd (start_daemon_systemd h scope m))" for m
  proof (cases "daemon_paths_for_scope (ho_home h) scope")
    case (Inr ps)
    have "runs h ?A (bindE (case stat_file (ho_os h) (dp_systemd_unit_path ps) m of
                   StatMissing \<Rightarrow> daemon_configure_systemd h ps
                 | StatFailed e \<Rightarrow> failE (WithMessage e ''failed to stat gameap-daemon service configuration'')
                 | StatOk \<Rightarrow> retE ()) (\<lambda>_.
          wrapE ''failed to start gameap-daemon'' (start_unit h (dp_scope ps) daemon_service_name)))"
      unfolding d [OF Inr]
      by (auto intro!: runs_intros ops runs_configure [OF Inr [unfolded assms]] split: stat_reply.split)
    with Inr show ?thesis
      by (simp add: start_daemon_systemd_def resolved_daemon_paths_def keeps_def)
  qed (simp add: start_daemon_systemd_def resolved_daemon_paths_def refl)
  moreover have "host_run h ?A m (snd (stop_daemon_systemd h scope m))" for m
    using keepsD [OF ops(2)] d
    by (auto simp: stop_daemon_systemd_def resolved_daemon_paths_def with_message_def refl
        split: sum.split stat_reply.split)
  moreover have "host_run h ?A m (snd (restart_daemon_systemd h scope m))" for m
    using keepsD [OF ops(3)] d
    by (auto simp: restart_daemon_systemd_def resolved_daemon_paths_def with_message_def refl
        split: sum.split stat_reply.split)
  ultimately show "runs h ?A (start_daemon_systemd h scope)" "runs h ?A (stop_daemon_systemd h scope)"
    "runs h ?A (restart_daemon_systemd h scope)" by (simp_all add: keeps_def)
qed

lemma find_process_Some:
  "find_process_by_name h name m = Inr (Some p) \<Longrightarrow> proc_name p = Some name \<and> belongs_to_current_user h p"
  by (auto simp: find_process_by_name_def first_some_Some_iff split: sum.splits if_splits)

lemma wait_gone_run:
  "allowed WaitTick \<Longrightarrow> host_run h allowed m (snd (wait_gone h p n m))"
proof (induction n arbitrary: m)
  case (Suc n)
  have "host_run h allowed m (ho_tick h m)" using Suc.prems by (rule host_run_tick [OF host_run_refl])
  from host_run_trans [OF Suc.IH [OF Suc.prems] this] show ?case by (simp add: host_run_refl)
qed (simp add: host_run_refl)

lemma runs_terminate:
  assumes "allowed (SignalProcess p)" "allowed WaitTick"
  shows "runs h allowed (terminate_and_kill h p)"
proof -
  note w = wait_gone_run [where allowed = allowed, OF assms(2)]
  have w': "wait_gone h p n m = (b, t) \<Longrightarrow> host_run h allowed m t" for n m b t
    using w [of h m p n] by simp
  have "runs h allowed (await_killed h p name)" for name
    by (intro keepsI) (auto simp: await_killed_def host_run_refl dest: w' split: sum.split prod.split option.split)
  then have kill: "runs h allowed (kill_process h p name)" for name
    unfolding kill_process_def by (intro runs_bindE keeps_wrapE runs_signal assms)
  have "runs h allowed (\<lambda>m. case wait_gone h p terminate_ticks m of (gone, t) \<Rightarrow>
              if gone then (Inr (), t) else kill_process h p name t)" for name
    by (intro keepsI) (auto dest: w' host_run_trans [OF keepsD [OF kill]] split: prod.split)
  then show ?thesis
    unfolding terminate_and_kill_def
    by (cases "proc_name p") (auto intro!: runs_intros runs_signal assms)
qed

lemma runs_fork:
  "s \<noteq> scope_user \<Longrightarrow> runs h (daemon_effect h s) (start_daemon_fork h)"
proof -
  assume s: "s \<noteq> scope_user"
  have null: "runs h (daemon_effect h s) (open_dev_null h)"
    by (auto simp: keeps_def open_dev_null_def host_run_refl split: option.split)
  have "runs h (daemon_effect h s)
      (bindE (case stat_file (ho_os h) default_work_path m of
                       StatMissing \<Rightarrow> wrapE ''failed to create work path'' (make_dir (ho_os h) default_work_path)
                     | _ \<Rightarrow> retE ()) (\<lambda>_.
              bindE (open_dev_null h) (\<lambda>_.
              bindE (wrapE ''failed to start process'' (ho_start_process h exe default_work_path)) (\<lambda>_.
              retE ()))))" for m exe
    using s by (auto intro!: runs_intros null runs_spawn split: stat_reply.split)
  then show ?thesis
    by (intro keepsI) (auto simp: start_daemon_fork_def host_run_refl dest: keepsD split: sum.split)
qed

lemma runs_process_ops:
  assumes s: "s \<noteq> scope_user"
  shows "runs h (daemon_effect h s) (stop_daemon_process h)"
    and "runs h (daemon_effect h s) (restart_daemon_process h)"
proof -
  have t: "find_daemon h m = Inr (Some p) \<Longrightarrow> runs h (daemon_effect h s) (terminate_and_kill h p)" for m p
    using s find_process_Some by (intro runs_terminate) (auto simp: find_daemon_def)
  show "runs h (daemon_effect h s) (stop_daemon_process h)"
    by (intro keepsI) (auto simp: stop_daemon_process_def host_run_refl dest: keepsD [OF t]
        split: sum.split option.split)
  have "find_daemon h m = Inr p \<Longrightarrow> runs h (daemon_effect h s)
      (bindE (case p of
                   None \<Rightarrow> retE ()
                 | Some q \<Rightarrow> wrapE ''failed to terminate/kill daemon process'' (terminate_and_kill h q)) (\<lambda>_.
          wrapE ''failed to start daemon'' (start_daemon_fork h)))" for m p
    using t by (auto intro!: runs_intros runs_fork s split: option.split)
  then show "runs h (daemon_effect h s) (restart_daemon_process h)"
    by (intro keepsI) (auto simp: restart_daemon_process_def host_run_refl dest: keepsD split: sum.split)
qed

lemma runs_daemon_ops:
  "runs h (daemon_effect h (scope_or_default scope)) (daemon_start h scope)"
  "runs h (daemon_effect h (scope_or_default scope)) (daemon_stop h scope)"
  "runs h (daemon_effect h (scope_or_default scope)) (daemon_restart h scope)"
proof -
  let ?s = "scope_or_default scope"
  have user: "?s = scope_user \<Longrightarrow> runs h (daemon_effect h ?s) (start_daemon_systemd h scope_user)"
    "?s = scope_user \<Longrightarrow> runs h (daemon_effect h ?s) (stop_daemon_systemd h scope_user)"
    "?s = scope_user \<Longrightarrow> runs h (daemon_effect h ?s) (restart_daemon_systemd h scope_user)"
    using runs_systemd_ops [of scope_user scope_user h] by (simp_all add: own_scope_def)
  have system: "?s \<noteq> scope_user \<Longrightarrow> runs h (daemon_effect h ?s) (case i of
           InitSystemd \<Rightarrow> start_daemon_systemd h scope_system | InitUnknown \<Rightarrow> start_daemon_fork h)"
    "?s \<noteq> scope_user \<Longrightarrow> runs h (daemon_effect h ?s) (case i of
           InitSystemd \<Rightarrow> stop_daemon_systemd h scope_system | InitUnknown \<Rightarrow> stop_daemon_process h)"
    "?s \<noteq> scope_user \<Longrightarrow> runs h (daemon_effect h ?s) (case i of
           InitSystemd \<Rightarrow> restart_daemon_systemd h scope_system | InitUnknown \<Rightarrow> restart_daemon_process h)" for i
    using runs_systemd_ops [of scope_system ?s h] runs_fork runs_process_ops
    by (auto simp: own_scope_def split: init_system.split)
  show "runs h (daemon_effect h ?s) (daemon_start h scope)"
    using user(1) system(1) by (cases "?s = scope_user") (auto simp: keeps_def daemon_start_def)
  show "runs h (daemon_effect h ?s) (daemon_stop h scope)"
    using user(2) system(2) by (cases "?s = scope_user") (auto simp: keeps_def daemon_stop_def)
  show "runs h (daemon_effect h ?s) (daemon_restart h scope)"
  proof (cases "?s = scope_user")
    case False
    from system(3) [OF this, of InitSystemd] system(3) [OF this, of InitUnknown] show ?thesis
      using False by (auto simp: keeps_def daemon_restart_def split: init_system.splits)
  qed (use user(3) in \<open>simp add: keeps_def daemon_restart_def\<close>)
qed

section \<open>Properties\<close>

text \<open>
  C8: starting, stopping and restarting the daemon stay within their scope, on success and on
  failure. In user scope they run nothing but \<open>systemctl --user\<close> and \<open>loginctl enable-linger\<close> and
  write nothing but the user's own unit file; in system scope they only run commands about
  the daemon's service, write its unit file, spawn the daemon in its work directory, and send
  signals only to processes of that name that belong to the current user.
\<close>

theorem daemon_ops_stay_in_scope:
  "host_run h (daemon_effect h (scope_or_default scope)) m (snd (daemon_start h scope m)) \<and>
   host_run h (daemon_effect h (scope_or_default scope)) m (snd (daemon_stop h scope m)) \<and>
   host_run h (daemon_effect h (scope_or_default scope)) m (snd (daemon_restart h scope m))"
  using runs_daemon_ops [of h scope] by (simp add: keeps_def)

lemma wait_gone_True: "wait_gone h p n m = (True, t) \<Longrightarrow> \<not> fst (ho_is_running h p t)"
  by (induction n arbitrary: m) (auto split: if_splits)

text \<open>
  \<open>TerminateAndKillProcess\<close> reports success only when its last look at the process, in the
  state it returns, found it no longer running, whether it went by itself, after SIGTERM or
  after SIGKILL.
\<close>

theorem terminated_process_is_gone:
  assumes "terminate_and_kill h p m = (Inr (), m')"
  shows "\<not> fst (ho_is_running h p m')"
proof -
  obtain name where n: "proc_name p = Some name"
    using assms by (cases "proc_name p") (auto simp: terminate_and_kill_def)
  with assms obtain m1 where "(case wait_gone h p terminate_ticks m1 of (gone, t) \<Rightarrow>
      if gone then (Inr (), t) else kill_process h p name t) = (Inr (), m')"
    by (auto simp: terminate_and_kill_def bindE_Inr_iff)
  then consider "wait_gone h p terminate_ticks m1 = (True, m')" | t where "kill_process h p name t = (Inr (), m')"
    by (auto split: prod.splits if_splits)
  then show ?thesis
  proof cases
    case 2
    then obtain u where "await_killed h p name u = (Inr (), m')"
      by (auto simp: kill_process_def bindE_Inr_iff)
    then show ?thesis
      by (auto simp: await_killed_def dest: wait_gone_True split: sum.splits if_splits prod.splits option.splits)
  qed (rule wait_gone_True)
qed

text \<open>A host whose daemon ignores SIGTERM; its world is the number of signals it got.\<close>

definition stubborn_host :: "nat host" where
  "stubborn_host =
     \<lparr>ho_os = calm_os, ho_exec = (\<lambda>_. retE ()), ho_look_path = (\<lambda>n _. Inr n), ho_distribution = ''debian'',
      ho_home = Some ''/home/u'', ho_runtime_dir = ''/run'', ho_username = Inr ''u'', ho_euid = 0,
      ho_init_exe = (\<lambda>_. Inr (''/sbin/init'', ''/usr/lib/systemd/systemd'')), ho_processes = (\<lambda>_. Inr []),
      ho_terminate = (\<lambda>_ m. (Inr (), m\<lparr>world := world m + 1\<rparr>)), ho_kill = (\<lambda>_ m. (Inr (), m\<lparr>world := world m + 1\<rparr>)),
      ho_is_running = (\<lambda>_ m. (world m < 2, None)), ho_status = (\<lambda>_ _. Inr [''S'']), ho_tick = (\<lambda>m. m),
      ho_canceled = (\<lambda>_. False), ho_start_process = (\<lambda>_ _. retE 7)\<rparr>"

definition some_daemon :: process where
  "some_daemon = \<lparr>proc_pid = 7, proc_name = Some ''gameap-daemon'', proc_uids = Some [0]\<rparr>"

definition quiet_machine :: "nat machine" where
  "quiet_machine = \<lparr>files = Map.empty, dirs = {}, world = 0, service_memo = None\<rparr>"

theorem terminated_process_is_gone_witness:
  "\<not> fst (ho_is_running stubborn_host some_daemon
       (snd (terminate_and_kill stubborn_host some_daemon quiet_machine)))"
proof -
  have "terminate_and_kill stubborn_host some_daemon quiet_machine =
    (Inr (), snd (terminate_and_kill stubborn_host some_daemon quiet_machine))"
    by (rule prod_eqI) (simp, code_simp, simp)
  then show ?thesis by (rule terminated_process_is_gone)
qed

text \<open>
  \<open>Systemd.Status\<close> never tells an inactive or a missing service from any other failure: a
  command that ends with an exit code always gives the same error, and one that could not be
  run at all counts as success.
\<close>

theorem systemd_status_ignores_exit_code:
  "systemd_status h name m =
     (case ho_exec h [''systemctl'', ''--no-pager'', ''status'', name] m of
        (Inr _, t) \<Rightarrow> (Inr (), t)
      | (Inl e, t) \<Rightarrow>
          (if exit_code e = None then Inr () else Inl (WithMessage e ''service status command failed''), t))"
  by (auto simp: systemd_status_def Let_def split: prod.split sum.split option.split)

end
