(* ===== verification/DaemonUpdate.thy ===== *)
theory DaemonUpdate
  imports SwitchToGrpc Services ReleaseFinder
begin

text \<open>
  \<open>gameapctl daemon update\<close>: replacing the daemon's binary by a release or by a build of the
  source, with the old binary kept for the case that the new one does not start, and the
  entry of the switch to gRPC. Archives, the self-update library, the network and the package
  manager are parameters.
\<close>

section \<open>The outside\<close>

record 'w update_env =
  ue_host :: "'w host"
  ue_yaml :: yaml_lib
  ue_codec :: "daemon_install_record codec"
  ue_cdn :: "'w machine \<Rightarrow> (string \<rightharpoonup> bool)"
  ue_find :: "find_options \<Rightarrow> ('w, resolved_release) sys"
  ue_get :: "string \<Rightarrow> string \<Rightarrow> ('w, unit) sys"
  ue_temp_dir :: string
  ue_mkdtemp :: "string \<Rightarrow> ('w, string) sys"
  ue_remove_all :: "string \<Rightarrow> ('w, unit) sys"
  ue_copy :: "string \<Rightarrow> string \<Rightarrow> ('w, unit) sys"
  ue_apply :: "string \<Rightarrow> string \<Rightarrow> ('w, unit) sys"
  ue_load_pm :: "('w, unit) sys"
  ue_pm_install :: "string \<Rightarrow> ('w, unit) sys"
  ue_update_path :: "'w machine \<Rightarrow> 'w machine"
  ue_go_build :: "string \<Rightarrow> string \<Rightarrow> ('w, unit) sys"
  ue_tcp_dial :: "string \<Rightarrow> ('w, unit) sys"
  ue_tls_probe :: "string \<Rightarrow> string \<Rightarrow> string \<Rightarrow> string \<Rightarrow> ('w, unit) sys"
  ue_get_token :: "string \<Rightarrow> string \<Rightarrow> ('w, nat \<times> string) sys"
  ue_sleep :: "int \<Rightarrow> 'w machine \<Rightarrow> 'w machine"
  ue_now :: "'w machine \<Rightarrow> nat"

abbreviation ue_os :: "'w update_env \<Rightarrow> 'w os_env" where
  "ue_os u \<equiv> ho_os (ue_host u)"

abbreviation ue_home :: "'w update_env \<Rightarrow> string option" where
  "ue_home u \<equiv> ho_home (ue_host u)"

section \<open>Steps\<close>

definition stop_daemon :: "'w host \<Rightarrow> string \<Rightarrow> ('w, unit) sys" where
  "stop_daemon h scope =
     bindE (wrapE ''failed to stop daemon'' (daemon_stop h scope)) (\<lambda>_ m.
       case find_daemon h m of
         Inl e \<Rightarrow> (Inl (WithMessage e ''failed to find daemon process''), m)
       | Inr (Some _) \<Rightarrow> (Inl (Err ''daemon process already running''), m)
       | Inr None \<Rightarrow> (Inr (), m))"

definition start_daemon :: "'w host \<Rightarrow> string \<Rightarrow> ('w, unit) sys" where
  "start_daemon h scope =
     bindE (wrapE ''failed to start daemon'' (daemon_start h scope)) (\<lambda>_.
     bindE (wrapE ''failed to find daemon process'' (wait_for_daemon h)) (\<lambda>p.
       case p of None \<Rightarrow> failE (Err ''daemon process not found'') | Some _ \<Rightarrow> retE ()))"

definition revert :: "'w update_env \<Rightarrow> string \<Rightarrow> string \<Rightarrow> ('w, unit) sys" where
  "revert u path backup =
     bindE (wrapE ''failed to open backup file'' (read_file (ue_os u) backup)) (\<lambda>content.
       wrapE ''failed to revert'' (ue_apply u content path))"

definition update_setup_cdn :: "'w update_env \<Rightarrow> string \<Rightarrow> ('w, unit) sys" where
  "update_setup_cdn u scope m =
     (case daemon_paths_for_scope (ue_home u) scope of
        Inl _ \<Rightarrow> (Inr (), m)
      | Inr ps \<Rightarrow> setup_cdn_replacements (ue_os u) (ue_yaml u) (dp_config_file_path ps) (ue_cdn u m) m)"

definition update_daemon_state_version :: "'w update_env \<Rightarrow> string \<Rightarrow> ('w, unit) sys" where
  "update_daemon_state_version u tag =
     (if tag = [] then retE ()
      else catchE
        (bindE (load_daemon_install_state (ue_os u) (ue_home u) (ue_codec u)) (\<lambda>st.
           if dir_version st = tag then retE ()
           else quietly (save_daemon_install_state (ue_os u) (ue_home u) (ue_codec u) (st\<lparr>dir_version := tag\<rparr>))))
        (\<lambda>_. retE ()))"

definition update_find_release :: "'w update_env \<Rightarrow> string \<Rightarrow> string \<Rightarrow> ('w, resolved_release) sys" where
  "update_find_release u tag prefix =
     (let pre = tag \<noteq> [] \<and> (case normalize_tag tag of Inl _ \<Rightarrow> False | Inr t \<Rightarrow> has_prerelease_suffix t)
      in wrapE ''failed to find release'' (ue_find u
           \<lparr>opt_tag = tag, opt_tag_prefix = prefix, opt_allow_prerelease = pre, opt_no_retry = False\<rparr>))"

definition daemon_backup_path :: "'w update_env \<Rightarrow> string" where
  "daemon_backup_path u = path_join [ue_temp_dir u, ''gameap-daemon-backup'']"

section \<open>Update to a release\<close>

text \<open>
  From the backup on. The new binary is applied; if that fails the backup is applied again and
  the update fails; if the daemon does not start, the backup is applied and started instead.
\<close>

definition apply_new_binary :: "'w update_env \<Rightarrow> string \<Rightarrow> string \<Rightarrow> string \<Rightarrow> ('w, unit) sys" where
  "apply_new_binary u path backup content =
     catchE (ue_apply u content path) (\<lambda>e.
       bindE (wrapE ''failed to revert after update failure'' (revert u path backup)) (\<lambda>_.
         failE (WithMessage e ''failed to update'')))"

definition start_or_revert :: "'w update_env \<Rightarrow> string \<Rightarrow> string \<Rightarrow> string \<Rightarrow> ('w, unit) sys" where
  "start_or_revert u scope path backup =
     catchE (start_daemon (ue_host u) scope) (\<lambda>_.
       bindE (wrapE ''failed to revert'' (revert u path backup)) (\<lambda>_.
         wrapE ''failed to start daemon'' (start_daemon (ue_host u) scope)))"

definition replace_binary :: "'w update_env \<Rightarrow> string \<Rightarrow> string \<Rightarrow> string \<Rightarrow> string \<Rightarrow> ('w, unit) sys" where
  "replace_binary u scope path content tag =
     (let backup = daemon_backup_path u in
      bindE (wrapE ''failed to make backup file'' (ue_copy u path backup)) (\<lambda>_.
        finallyE
          (bindE (apply_new_binary u path backup content) (\<lambda>_.
           bindE (start_or_revert u scope path backup) (\<lambda>_.
             update_daemon_state_version u tag)))
          (remove_file (ue_os u) backup)))"

definition update_to_release ::
  "'w update_env \<Rightarrow> string \<Rightarrow> string \<Rightarrow> resolved_release \<Rightarrow> ('w, unit) sys" where
  "update_to_release u scope path rel =
     bindE (wrapE ''failed to create temp file'' (ue_mkdtemp u ''gameap-daemon'')) (\<lambda>tmp.
       finallyE
         (bindE (wrapE ''failed to download''
             (download_with (ho_canceled (ue_host u)) (\<lambda>url. ue_get u url tmp) (Some rel))) (\<lambda>_.
          bindE (wrapE ''failed to open downloaded file''
             (read_file (ue_os u) (path_join [tmp, ''gameap-daemon'']))) (\<lambda>content.
          bindE (wrapE ''failed to stop daemon'' (stop_daemon (ue_host u) scope)) (\<lambda>_.
            replace_binary u scope path content (res_tag rel)))))
         (ue_remove_all u tmp))"

section \<open>Build from the source\<close>

definition ensure_github_build_tools :: "'w update_env \<Rightarrow> bool \<Rightarrow> ('w, unit) sys" where
  "ensure_github_build_tools u user_scope m =
     (if user_scope then
        (if \<not> command_available (ue_os u) ''git'' m then
           (Inl (Err ''git is required to build gameap-daemon from GitHub in user scope''), m)
         else if \<not> command_available (ue_os u) ''go'' m then
           (Inl (Err ''go is required to build gameap-daemon from GitHub in user scope''), m)
         else (Inr (), m))
      else
        bindE (wrapE ''failed to install git'' (ue_pm_install u ''git'')) (\<lambda>_.
        bindE (wrapE ''failed to install golang'' (ue_pm_install u ''go'')) (\<lambda>_ s.
          (Inr (), ue_update_path u s))) m)"

definition build_go_daemon :: "'w update_env \<Rightarrow> string \<Rightarrow> string \<Rightarrow> ('w, unit) sys" where
  "build_go_daemon u repo output =
     (let out = (if output = [] then default_daemon_file_path else output) in
      bindE (wrapE (''failed to create output directory '' @ path_dir out) (mkdir_all (ue_os u) (path_dir out))) (\<lambda>_.
        wrapE ''failed to build go daemon'' (ue_go_build u (path_join [repo, ''cmd'', ''gameap-daemon'']) out)))"

definition github_daemon_repository :: string where
  "github_daemon_repository = ''https://github.com/gameap/daemon.git''"

text \<open>The part of \<open>SetupDaemonFromGithub\<close> after the tools are there.\<close>

definition clone_and_build :: "'w update_env \<Rightarrow> string \<Rightarrow> string \<Rightarrow> ('w, unit) sys" where
  "clone_and_build u branch output =
     (let out = (if output = [] then default_daemon_file_path else output) in
      bindE (wrapE ''failed to create temp dir'' (ue_mkdtemp u ''gameapctl-daemon'')) (\<lambda>path.
        finallyE
          (bindE (wrapE ''failed to clone daemon from github''
              (ho_exec (ue_host u) [''git'', ''clone'', ''-b'', branch, github_daemon_repository, path])) (\<lambda>_.
            wrapE ''failed to build daemon'' (build_go_daemon u path out)))
          (ue_remove_all u path)))"

definition setup_daemon_from_github :: "'w update_env \<Rightarrow> string \<Rightarrow> string \<Rightarrow> bool \<Rightarrow> ('w, unit) sys" where
  "setup_daemon_from_github u branch output user_scope =
     bindE (ensure_github_build_tools u user_scope) (\<lambda>_. clone_and_build u branch output)"

definition revert_from_backup :: "'w update_env \<Rightarrow> string \<Rightarrow> string \<Rightarrow> string \<Rightarrow> ('w, unit) sys" where
  "revert_from_backup u path backup scope m =
     (case stat_file (ue_os u) backup m of
        StatOk \<Rightarrow> bindE (wrapE ''failed to revert'' (revert u path backup)) (\<lambda>_. start_daemon (ue_host u) scope) m
      | StatMissing \<Rightarrow> (Inl (WithMessage (NotExist backup) ''backup file not found''), m)
      | StatFailed e \<Rightarrow> (Inl (WithMessage e ''backup file not found''), m))"

definition github_binary_path :: "'w update_env \<Rightarrow> string \<Rightarrow> 'w machine \<Rightarrow> string result" where
  "github_binary_path u scope m =
     (if scope = scope_user then
        (case resolved_daemon_paths (ue_host u) scope of Inl e \<Rightarrow> Inl e | Inr ps \<Rightarrow> Inr (dp_daemon_file_path ps))
      else case ho_look_path (ue_host u) ''gameap-daemon'' m of
        Inl _ \<Rightarrow> Inr default_daemon_file_path
      | Inr p \<Rightarrow> Inr p)"

text \<open>After the stop: build, and on failure put the old binary back if there is a backup.\<close>

definition github_build :: "'w update_env \<Rightarrow> string \<Rightarrow> string \<Rightarrow> string \<Rightarrow> string \<Rightarrow> ('w, unit) sys" where
  "github_build u branch scope path backup =
     bindE (if scope \<noteq> scope_user then wrapE ''failed to load package manager'' (ue_load_pm u) else retE ()) (\<lambda>_.
     bindE (catchE (setup_daemon_from_github u branch path (scope = scope_user)) (\<lambda>e m.
       bindE (if stat_file (ue_os u) backup m = StatOk then quietly (revert u path backup) else retE ()) (\<lambda>_.
       bindE (quietly (start_daemon (ue_host u) scope)) (\<lambda>_.
         failE (WithMessage e ''failed to build daemon from github''))) m)) (\<lambda>_.
     catchE (start_daemon (ue_host u) scope) (\<lambda>e.
       bindE (wrapE ''failed to revert and restart after build failure'' (revert_from_backup u path backup scope)) (\<lambda>_.
         failE (WithMessage e ''daemon failed to start with new build'')))))"

definition handle_from_github :: "'w update_env \<Rightarrow> string \<Rightarrow> string \<Rightarrow> ('w, unit) sys" where
  "handle_from_github u branch scope m =
     (case github_binary_path u scope m of
        Inl e \<Rightarrow> (Inl e, m)
      | Inr path \<Rightarrow>
          (let backup = daemon_backup_path u;
               rest = bindE (wrapE ''failed to stop daemon'' (stop_daemon (ue_host u) scope)) (\<lambda>_.
                        github_build u branch scope path backup)
           in if stat_file (ue_os u) path m = StatOk then
                bindE (wrapE ''failed to create backup'' (ue_copy u path backup)) (\<lambda>_.
                  finallyE rest (remove_file (ue_os u) backup)) m
              else rest m))"

section \<open>The command\<close>

record update_flags =
  uf_switch_to_grpc :: bool
  uf_grpc_address :: string
  uf_github :: bool
  uf_branch :: string
  uf_version :: string

text \<open>\<open>LoadDaemonInstallState\<close>, whose error the callers keep in a variable.\<close>

definition recorded_state :: "'w update_env \<Rightarrow> 'w machine \<Rightarrow> daemon_install_record option \<times> 'w machine" where
  "recorded_state u m =
     (case load_daemon_install_state (ue_os u) (ue_home u) (ue_codec u) m of
        (Inl _, t) \<Rightarrow> (None, t) | (Inr st, t) \<Rightarrow> (Some st, t))"

definition switch_config_path :: "'w update_env \<Rightarrow> string \<Rightarrow> string" where
  "switch_config_path u scope =
     (if scope = [] then default_daemon_config_file_path
      else case daemon_paths_for_scope (ue_home u) scope of
        Inl _ \<Rightarrow> default_daemon_config_file_path
      | Inr ps \<Rightarrow> if dp_config_file_path ps = [] then default_daemon_config_file_path else dp_config_file_path ps)"

definition switch_deps_of :: "'w update_env \<Rightarrow> string \<Rightarrow> string \<Rightarrow> string \<Rightarrow> 'w switch_deps" where
  "switch_deps_of u cfg addr scope =
     \<lparr>sd_os = ue_os u, sd_yaml = ue_yaml u, sd_cfg_path = cfg, sd_explicit_addr = addr,
      sd_stop = stop_daemon (ue_host u) scope, sd_start = start_daemon (ue_host u) scope,
      sd_find_process = (\<lambda>m. (case find_daemon (ue_host u) m of Inl e \<Rightarrow> Inl e | Inr p \<Rightarrow> Inr (p \<noteq> None), m)),
      sd_look_path = ho_look_path (ue_host u), sd_tcp_dial = ue_tcp_dial u, sd_tls_probe = ue_tls_probe u,
      sd_verify_revoked = real_verify_legacy_revoked (ue_get_token u), sd_sleep = ue_sleep u,
      sd_load_state = load_daemon_install_state (ue_os u) (ue_home u) (ue_codec u),
      sd_save_state = save_daemon_install_state (ue_os u) (ue_home u) (ue_codec u), sd_now = ue_now u\<rparr>"

definition handle_switch_to_grpc :: "'w update_env \<Rightarrow> string \<Rightarrow> ('w, unit) sys" where
  "handle_switch_to_grpc u addr m =
     (case recorded_state u m of (st, t) \<Rightarrow>
        let scope = (case st of None \<Rightarrow> [] | Some r \<Rightarrow> dir_scope r)
        in switch_to_grpc (switch_deps_of u (switch_config_path u scope) addr scope) t)"

definition release_binary_path :: "'w update_env \<Rightarrow> string \<Rightarrow> 'w machine \<Rightarrow> string result" where
  "release_binary_path u scope m =
     (if scope = scope_user then
        (case resolved_daemon_paths (ue_host u) scope of Inl e \<Rightarrow> Inl e | Inr ps \<Rightarrow> Inr (dp_daemon_file_path ps))
      else with_message ''failed to find gameap-daemon'' (ho_look_path (ue_host u) ''gameap-daemon'' m))"

definition handle_update :: "'w update_env \<Rightarrow> update_flags \<Rightarrow> ('w, unit) sys" where
  "handle_update u fl m =
     (if uf_switch_to_grpc fl then handle_switch_to_grpc u (uf_grpc_address fl) m
      else if uf_version fl \<noteq> [] \<and> (uf_github fl \<or> uf_branch fl \<noteq> []) then
        (Inl (Err ''--version is mutually exclusive with --github and --branch''), m)
      else case (if uf_version fl = [] then Inr \<lparr>full_tag = [], tag_prefix = []\<rparr> else normalize_tag (uf_version fl)) of
        Inl e \<Rightarrow> (Inl e, m)
      | Inr norm \<Rightarrow>
          (case recorded_state u m of (st, t) \<Rightarrow>
            let inherited = (if uf_version fl = [] then st else None);
                from_github = (uf_github fl \<or> (case inherited of None \<Rightarrow> False | Some r \<Rightarrow> dir_from_github r));
                b = (if uf_branch fl = [] then (case inherited of None \<Rightarrow> [] | Some r \<Rightarrow> dir_branch r) else uf_branch fl);
                branch = (if b = [] then ''master'' else b);
                scope = (case st of None \<Rightarrow> [] | Some r \<Rightarrow> dir_scope r)
            in bindE (update_setup_cdn u scope) (\<lambda>_ s.
                 if from_github then handle_from_github u branch scope s
                 else case release_binary_path u scope s of
                   Inl e \<Rightarrow> (Inl e, s)
                 | Inr path \<Rightarrow>
                     bindE (wrapE ''failed to find release'' (update_find_release u (full_tag norm) (tag_prefix norm)))
                       (update_to_release u scope path) s) t))"

section \<open>Lemmas\<close>

lemma wait_for_process_leaves:
  assumes "\<And>m. files (ho_tick h m) p = files m p"
  shows "leaves p (wait_for_process h name n)"
proof (intro leavesI)
  fix m
  show "files (snd (wait_for_process h name n m)) p = files m p"
    using assms by (induction n arbitrary: m) (auto split: sum.split option.split)
qed

lemma daemon_ops_leave:
  assumes "effects_leave h (daemon_effect h (scope_or_default scope)) p"
  shows "leaves p (daemon_start h scope)" and "leaves p (daemon_stop h scope)"
  using host_run_leaves [OF _ assms] runs_daemon_ops [of h scope] by (auto simp: leaves_def keeps_def)

lemma stop_daemon_leaves:
  assumes "effects_leave h (daemon_effect h (scope_or_default scope)) p"
  shows "leaves p (stop_daemon h scope)"
  unfolding stop_daemon_def
  by (intro leaves_bindE leaves_basic daemon_ops_leave assms leavesI) (simp split: sum.split option.split)

lemma start_daemon_leaves:
  assumes "effects_leave h (daemon_effect h (scope_or_default scope)) p"
  shows "leaves p (start_daemon h scope)"
proof -
  have "leaves p (wait_for_daemon h)"
    using assms by (auto simp: wait_for_daemon_def effects_leave_def intro: wait_for_process_leaves)
  then show ?thesis
    unfolding start_daemon_def
    by (intro leaves_bindE leaves_basic daemon_ops_leave assms) (auto simp: leaves_basic split: option.split)
qed

lemma wait_for_process_Some:
  "wait_for_process h name n m = (Inr (Some p), m') \<Longrightarrow> find_process_by_name h name m' = Inr (Some p)"
  by (induction n arbitrary: m) (auto split: sum.splits option.splits if_splits)

lemma start_daemon_Inr:
  assumes "start_daemon h scope m = (Inr (), m')"
  shows "\<exists>p. find_daemon h m' = Inr (Some p)"
proof -
  obtain s p where "wait_for_process h daemon_process_name wait_retries s = (Inr (Some p), m')"
    using assms by (auto simp: start_daemon_def bindE_Inr_iff wait_for_daemon_def split: option.splits)
  then show ?thesis using wait_for_process_Some by (fastforce simp: find_daemon_def)
qed

text \<open>
  What the library calls promise: a copy that succeeds has the contents of the original, an
  applied update is in place, one that failed left the old binary there (the library rolls
  back), and no call touches other files; the service commands do not touch the binary or its
  backup, and the state file is another file.
\<close>

definition update_laws :: "'w update_env \<Rightarrow> string \<Rightarrow> string \<Rightarrow> bool" where
  "update_laws u scope path \<longleftrightarrow>
     (\<forall>a b m m'. ue_copy u a b m = (Inr (), m') \<longrightarrow> files m' b = files m a) \<and>
     (\<forall>a b p. p \<noteq> b \<longrightarrow> leaves p (ue_copy u a b)) \<and>
     (\<forall>c m m'. ue_apply u c path m = (Inr (), m') \<longrightarrow> files m' path = Some c) \<and>
     (\<forall>c m e m'. ue_apply u c path m = (Inl e, m') \<longrightarrow> files m' path = files m path) \<and>
     (\<forall>c. leaves (daemon_backup_path u) (ue_apply u c path)) \<and>
     (\<forall>p \<in> {path, daemon_backup_path u}.
        effects_leave (ue_host u) (daemon_effect (ue_host u) (scope_or_default scope)) p) \<and>
     path \<noteq> daemon_backup_path u \<and>
     (\<forall>home. ue_home u = Some home \<longrightarrow>
        path \<noteq> path_join [path_join [home, ''.gameapctl''], daemon_install_state_file] \<and>
        path \<noteq> path_join [path_join [home, ''.gameapctl''], daemon_install_state_file] @ ''.tmp'')"

lemma update_laws_copy:
  "update_laws u scope path \<Longrightarrow> ue_copy u a b m = (Inr (), m') \<Longrightarrow> files m' b = files m a"
  "update_laws u scope path \<Longrightarrow> p \<noteq> b \<Longrightarrow> leaves p (ue_copy u a b)"
  by (auto simp: update_laws_def)

lemma update_laws_apply:
  "update_laws u scope path \<Longrightarrow> ue_apply u c path m = (Inr (), m') \<Longrightarrow> files m' path = Some c"
  "update_laws u scope path \<Longrightarrow> ue_apply u c path m = (Inl e, m') \<Longrightarrow> files m' path = files m path"
  "update_laws u scope path \<Longrightarrow> leaves (daemon_backup_path u) (ue_apply u c path)"
  "update_laws u scope path \<Longrightarrow> path \<noteq> daemon_backup_path u"
  by (auto simp: update_laws_def)

lemma update_laws_start:
  "update_laws u scope path \<Longrightarrow> leaves path (start_daemon (ue_host u) scope)"
  "update_laws u scope path \<Longrightarrow> leaves (daemon_backup_path u) (start_daemon (ue_host u) scope)"
  by (auto simp: update_laws_def intro: start_daemon_leaves)

lemma update_version_leaves:
  "update_laws u scope path \<Longrightarrow> leaves path (update_daemon_state_version u tag)"
  unfolding update_daemon_state_version_def load_daemon_install_state_def save_daemon_install_state_def
  by (auto simp: update_laws_def intro!: leaves_basic leaves_catchE leaves_bindE load_state_leaves save_state_leaves)

lemma revert_cases:
  assumes laws: "update_laws u scope path" and b: "files m (daemon_backup_path u) = Some old"
    and run: "revert u path (daemon_backup_path u) m = (r, m')"
  shows "files m' path = Some old \<and> r = Inr () \<or> (\<exists>e. r = Inl e) \<and> files m' path = files m path"
proof (cases "fault (ue_os u) (OpRead (daemon_backup_path u)) m")
  case None
  with b have read: "read_file (ue_os u) (daemon_backup_path u) m = (Inr old, m)" by (simp add: read_file_def)
  obtain q t where a: "ue_apply u old path m = (q, t)" by fastforce
  with run read have "m' = t" "r = with_message ''failed to revert'' q"
    by (auto simp: revert_def bindE_def wrapE_def)
  with a update_laws_apply(1,2) [OF laws] show ?thesis by (cases q) auto
next
  case (Some e)
  with run show ?thesis by (auto simp: revert_def bindE_def wrapE_def read_file_def)
qed

lemma update_version_Inr: "\<exists>t. update_daemon_state_version u tag m = (Inr (), t)"
  by (cases "load_daemon_install_state (ue_os u) (ue_home u) (ue_codec u) m"; cases "fst (load_daemon_install_state (ue_os u) (ue_home u) (ue_codec u) m)")
    (auto simp: update_daemon_state_version_def catchE_def bindE_def retE_def quietly_def)

definition revert_failed :: "unit result \<Rightarrow> bool" where
  "revert_failed r \<longleftrightarrow> (\<exists>e. r = Inl (WithMessage e ''failed to revert''))"

lemma start_or_revert_binary:
  assumes laws: "update_laws u scope path" and new: "files m path = Some new"
    and b: "files m (daemon_backup_path u) = Some old"
    and run: "start_or_revert u scope path (daemon_backup_path u) m = (r, m')"
  shows "files m' path = Some old \<or> files m' path = Some new \<and> (r = Inr () \<or> revert_failed r)"
proof -
  let ?b = "daemon_backup_path u"
  obtain q1 m1 where s: "start_daemon (ue_host u) scope m = (q1, m1)" by fastforce
  note start = leavesD [OF update_laws_start(1) [OF laws]] leavesD [OF update_laws_start(2) [OF laws]]
  show ?thesis
  proof (cases q1)
    case (Inr x)
    with s run have "m' = m1" "r = Inr ()" by (auto simp: start_or_revert_def catchE_def)
    with start(1) [OF s] new show ?thesis by simp
  next
    case (Inl e)
    obtain q2 m2 where v: "revert u path ?b m1 = (q2, m2)" by fastforce
    from revert_cases [OF laws _ v] start [OF s] b new
    have c: "files m2 path = Some old \<and> q2 = Inr () \<or> (\<exists>e. q2 = Inl e) \<and> files m2 path = Some new" by simp
    show ?thesis
    proof (cases q2)
      case (Inl e')
      with c s \<open>q1 = Inl e\<close> v run show ?thesis
        by (auto simp: start_or_revert_def catchE_def bindE_def wrapE_def revert_failed_def)
    next
      case (Inr x)
      obtain q3 m3 where t: "start_daemon (ue_host u) scope m2 = (q3, m3)" by fastforce
      with Inr s \<open>q1 = Inl e\<close> v run have "m' = m3"
        by (auto simp: start_or_revert_def catchE_def bindE_def wrapE_def)
      with start(1) [OF t] c Inr show ?thesis by simp
    qed
  qed
qed

lemma apply_new_binary_cases:
  assumes laws: "update_laws u scope path" and old: "files m path = Some old"
    and b: "files m (daemon_backup_path u) = Some old"
    and run: "apply_new_binary u path (daemon_backup_path u) new m = (r, m')"
  shows "r = Inr () \<and> files m' path = Some new \<and> files m' (daemon_backup_path u) = Some old \<or>
    (\<exists>e. r = Inl e) \<and> files m' path = Some old"
proof -
  let ?b = "daemon_backup_path u"
  obtain q1 m1 where a: "ue_apply u new path m = (q1, m1)" by fastforce
  have b1: "files m1 ?b = Some old" using leavesD [OF update_laws_apply(3) [OF laws] a] b by simp
  show ?thesis
  proof (cases q1)
    case (Inr x)
    with a run b1 update_laws_apply(1) [OF laws] show ?thesis by (auto simp: apply_new_binary_def catchE_def)
  next
    case (Inl e)
    obtain q2 m2 where v: "revert u path ?b m1 = (q2, m2)" by fastforce
    from revert_cases [OF laws b1 v] a Inl update_laws_apply(2) [OF laws] old
    have "files m2 path = Some old" by auto
    with a Inl v run show ?thesis
      by (cases q2) (auto simp: apply_new_binary_def catchE_def bindE_def wrapE_def failE_def)
  qed
qed

lemma replace_binary_cases:
  assumes "replace_binary u scope path content tag m = (r, m')"
  obtains (copy) e where "ue_copy u path (daemon_backup_path u) m = (Inl e, m')" "\<exists>e. r = Inl e"
  | (body) m1 t where "ue_copy u path (daemon_backup_path u) m = (Inr (), m1)"
      "bindE (apply_new_binary u path (daemon_backup_path u) content) (\<lambda>_.
         bindE (start_or_revert u scope path (daemon_backup_path u)) (\<lambda>_. update_daemon_state_version u tag)) m1 = (r, t)"
      "m' = snd (remove_file (ue_os u) (daemon_backup_path u) t)"
proof -
  obtain q m1 where c: "ue_copy u path (daemon_backup_path u) m = (q, m1)" by fastforce
  show thesis
  proof (cases q)
    case (Inl e)
    with c assms copy show thesis by (auto simp: replace_binary_def Let_def bindE_def wrapE_def)
  next
    case (Inr x)
    with c assms have "finallyE (bindE (apply_new_binary u path (daemon_backup_path u) content) (\<lambda>_.
         bindE (start_or_revert u scope path (daemon_backup_path u)) (\<lambda>_. update_daemon_state_version u tag)))
         (remove_file (ue_os u) (daemon_backup_path u)) m1 = (r, m')"
      by (simp add: replace_binary_def Let_def bindE_def wrapE_def)
    with c Inr body show thesis by (auto simp: finallyE_eq)
  qed
qed

section \<open>Properties\<close>


text \<open>
  An update that reports success has seen the daemon's process: the state right after
  the last start has one, and only the record of the version and the removal of the backup
  came after it.
\<close>

theorem successful_update_saw_daemon:
  assumes "replace_binary u scope path content tag m = (Inr (), m')"
  shows "\<exists>s p. find_daemon (ue_host u) s = Inr (Some p) \<and>
    m' = snd (remove_file (ue_os u) (daemon_backup_path u) (snd (update_daemon_state_version u tag s)))"
  using assms
proof (cases rule: replace_binary_cases)
  case (body m1 t)
  then obtain m2 s where s: "start_or_revert u scope path (daemon_backup_path u) m2 = (Inr (), s)"
    and v: "update_daemon_state_version u tag s = (Inr (), t)"
    by (auto simp: bindE_Inr_iff)
  from s obtain m3 where "start_daemon (ue_host u) scope m3 = (Inr (), s)"
    by (auto simp: start_or_revert_def catchE_Inr_iff bindE_Inr_iff)
  from start_daemon_Inr [OF this] body(3) v show ?thesis by auto
qed simp

text \<open>
  In user scope a build from the source needs no package manager: whatever loading it and
  installing with it would do, \<open>handleFromGithub\<close> does the same.
\<close>

theorem user_scope_build_ignores_package_manager:
  "handle_from_github (u\<lparr>ue_load_pm := load, ue_pm_install := install, ue_update_path := upd\<rparr>) branch scope_user =
   handle_from_github u branch scope_user"
proof -
  let ?u = "u\<lparr>ue_load_pm := load, ue_pm_install := install, ue_update_path := upd\<rparr>"
  have r: "revert ?u = revert u" by (intro ext) (simp add: revert_def)
  have rb: "revert_from_backup ?u path backup scope = revert_from_backup u path backup scope" for path backup scope
    by (intro ext) (simp add: revert_from_backup_def r split: stat_reply.split)
  have "ensure_github_build_tools ?u True = ensure_github_build_tools u True"
    by (intro ext) (simp add: ensure_github_build_tools_def)
  moreover have "build_go_daemon ?u = build_go_daemon u"
    by (intro ext) (simp add: build_go_daemon_def Let_def)
  ultimately have "setup_daemon_from_github ?u branch path True = setup_daemon_from_github u branch path True" for path
    by (simp add: setup_daemon_from_github_def clone_and_build_def Let_def)
  then have "github_build ?u branch scope_user path backup = github_build u branch scope_user path backup" for path backup
    by (simp add: github_build_def r rb cong: if_cong)
  then show ?thesis
    by (intro ext) (simp add: handle_from_github_def github_binary_path_def daemon_backup_path_def Let_def
        split: sum.split)
qed

section \<open>Examples\<close>

text \<open>
  A host with a daemon under systemd; its world says whether the daemon runs. The daemon
  starts unless its binary is the broken one.
\<close>

definition example_host :: "string \<Rightarrow> bool host" where
  "example_host broken =
     \<lparr>ho_os = calm_os,
      ho_exec = (\<lambda>c m. if c = [''systemctl'', ''start'', ''gameap-daemon'']
                 then (Inr (), m\<lparr>world := files m ''/bin/d'' \<noteq> Some broken\<rparr>)
                 else if c = [''systemctl'', ''stop'', ''gameap-daemon''] then (Inr (), m\<lparr>world := False\<rparr>)
                 else (Inr (), m)),
      ho_look_path = (\<lambda>n _. Inr (if n = ''gameap-daemon'' then ''/bin/d'' else n)), ho_distribution = ''debian'',
      ho_home = Some ''/home/u'', ho_runtime_dir = [], ho_username = Inr ''root'', ho_euid = 0,
      ho_init_exe = (\<lambda>_. Inr (''/sbin/init'', ''/usr/lib/systemd/systemd'')),
      ho_processes = (\<lambda>m. Inr (if world m then [some_daemon] else [])),
      ho_terminate = (\<lambda>_. retE ()), ho_kill = (\<lambda>_. retE ()), ho_is_running = (\<lambda>_ m. (world m, None)),
      ho_status = (\<lambda>_ _. Inr []), ho_tick = (\<lambda>m. m), ho_canceled = (\<lambda>_. False),
      ho_start_process = (\<lambda>_ _. retE 7)\<rparr>"

definition example_codec :: "daemon_install_record codec" where
  "example_codec = \<lparr>encode_json = (\<lambda>r. Inr (dir_version r)), decode_json = (\<lambda>s. Inr (example_record\<lparr>dir_version := s\<rparr>))\<rparr>"

definition example_update :: "string \<Rightarrow> bool update_env" where
  "example_update broken =
     \<lparr>ue_host = example_host broken, ue_yaml = small_yaml [], ue_codec = example_codec, ue_cdn = (\<lambda>_. Map.empty),
      ue_find = (\<lambda>_. retE \<lparr>res_tag = ''v2'', res_asset = ''a'', res_urls = [''u'']\<rparr>), ue_get = (\<lambda>_ _. retE ()),
      ue_temp_dir = ''/tmp'', ue_mkdtemp = (\<lambda>_. retE ''/tmp/x''), ue_remove_all = (\<lambda>_. retE ()),
      ue_copy = (\<lambda>a b m. case files m a of None \<Rightarrow> (Inl (NotExist a), m) | Some c \<Rightarrow> (Inr (), put_file b c m)),
      ue_apply = (\<lambda>c p m. (Inr (), put_file p c m)), ue_load_pm = retE (), ue_pm_install = (\<lambda>_. retE ()),
      ue_update_path = (\<lambda>m. m), ue_go_build = (\<lambda>_ _. retE ()), ue_tcp_dial = (\<lambda>_. retE ()),
      ue_tls_probe = (\<lambda>_ _ _ _. retE ()), ue_get_token = (\<lambda>_ _. retE (409, [])), ue_sleep = (\<lambda>_ m. m), ue_now = (\<lambda>_. 0)\<rparr>"

definition state_file_path :: string where
  "state_file_path = path_join [path_join [''/home/u'', ''.gameapctl''], daemon_install_state_file]"

definition installed_machine :: "bool machine" where
  "installed_machine =
     \<lparr>files = [''/bin/d'' \<mapsto> ''one'', state_file_path \<mapsto> ''v1'', system_daemon_unit_path \<mapsto> ''unit''],
      dirs = {}, world = False, service_memo = None\<rparr>"

lemma example_laws: "update_laws (example_update broken) [] ''/bin/d''"
proof -
  have b: "daemon_backup_path (example_update broken) = ''/tmp/gameap-daemon-backup''"
    by (simp add: daemon_backup_path_def example_update_def) code_simp
  have "\<not> daemon_effect (example_host broken) (scope_or_default []) (WriteUnit ''/bin/d'')"
    "\<not> daemon_effect (example_host broken) (scope_or_default []) (WriteUnit ''/tmp/gameap-daemon-backup'')"
    by (simp_all add: scope_or_default_def daemon_paths_for_scope_def system_daemon_paths_def system_daemon_unit_path_def)
  moreover have "''/bin/d'' \<noteq> path_join [path_join [''/home/u'', ''.gameapctl''], daemon_install_state_file]"
    "''/bin/d'' \<noteq> path_join [path_join [''/home/u'', ''.gameapctl''], daemon_install_state_file] @ ''.tmp''"
    by code_simp+
  ultimately show ?thesis
    unfolding update_laws_def b effects_leave_def
    by (auto simp: example_update_def example_host_def retE_def put_file_def split: option.splits intro!: leavesI)
qed


theorem successful_update_saw_daemon_witness:
  "\<exists>s p. find_daemon (example_host ''two'') s = Inr (Some p) \<and>
    snd (replace_binary (example_update ''two'') [] ''/bin/d'' ''three'' ''v3'' installed_machine) =
    snd (remove_file calm_os ''/tmp/gameap-daemon-backup'' (snd (update_daemon_state_version (example_update ''two'') ''v3'' s)))"
proof -
  let ?r = "replace_binary (example_update ''two'') [] ''/bin/d'' ''three'' ''v3'' installed_machine"
  have r: "?r = (Inr (), snd ?r)"
    by (rule prod_eqI) (simp, code_simp, simp)
  have b: "daemon_backup_path (example_update ''two'') = ''/tmp/gameap-daemon-backup''" by code_simp
  have os: "ho_os (example_host ''two'') = calm_os" "ue_host (example_update ''two'') = example_host ''two''"
    by (simp_all add: example_update_def example_host_def)
  from successful_update_saw_daemon [OF r] show ?thesis unfolding b by (simp add: os)
qed

text \<open>
  A release whose daemon does not start, on a host where the old daemon does: the old binary is put back and started, the command
  reports success, and the recorded version is that of the release.
\<close>

theorem reverted_update_records_new_version:
  "case replace_binary (example_update ''two'') [] ''/bin/d'' ''two'' ''v2'' installed_machine of
     (r, m') \<Rightarrow> r = Inr () \<and> files m' ''/bin/d'' = Some ''one'' \<and> files m' state_file_path = Some ''v2''"
  by code_simp

end
