(* ===== verification/FileUtils.thy ===== *)
theory FileUtils
  imports System "HOL-Library.Multiset"
begin

text \<open>
  File helpers (\<open>pkg/utils/fs.go\<close>): moving files, writing and appending, and the line editor
  that the installers use on configuration files. Regular expressions, the recursive copy of
  a directory tree and the order in which Go walks a map are parameters.
\<close>

section \<open>Files\<close>

definition is_file_exists :: "'w os_env \<Rightarrow> string \<Rightarrow> 'w machine \<Rightarrow> bool" where
  "is_file_exists os p m \<longleftrightarrow> stat_file os p m = StatOk"

record 'w fs_lib =
  fl_os :: "'w os_env"
  fl_copy :: "string \<Rightarrow> string \<Rightarrow> ('w, unit) sys"
  fl_remove_all :: "string \<Rightarrow> ('w, unit) sys"
  fl_cross_device :: "go_error \<Rightarrow> bool"
  fl_owner :: "string \<Rightarrow> 'w machine \<Rightarrow> nat \<times> nat"
  fl_chown :: "string \<Rightarrow> nat \<Rightarrow> nat \<Rightarrow> ('w, unit) sys"
  fl_create_temp :: "string \<Rightarrow> ('w, string) sys"

definition move_cross_device :: "'w fs_lib \<Rightarrow> string \<Rightarrow> string \<Rightarrow> ('w, unit) sys" where
  "move_cross_device fl src dst =
     bindE (wrapE ''failed to copy files'' (fl_copy fl src dst)) (\<lambda>_.
       wrapE ''failed to remove files from source directory'' (fl_remove_all fl src))"

text \<open>
  \<open>Move\<close> on Unix. A missing destination directory is made; the stat error is then overwritten
  by the result of making it, so any other stat error ends the move.
\<close>

definition make_destination :: "'w fs_lib \<Rightarrow> string \<Rightarrow> ('w, unit) sys" where
  "make_destination fl dst m =
     (let dir = path_dir dst in
      case stat_file (fl_os fl) dir m of
        StatOk \<Rightarrow> (Inr (), m)
      | StatMissing \<Rightarrow> wrapE (''failed to create destination directory '' @ dst) (mkdir_all (fl_os fl) dir) m
      | StatFailed e \<Rightarrow> (Inl (WithMessage e ''failed to stat destination directory''), m))"

definition move_file :: "'w fs_lib \<Rightarrow> string \<Rightarrow> string \<Rightarrow> ('w, unit) sys" where
  "move_file fl src dst m =
     (case stat_file (fl_os fl) src m of
        StatMissing \<Rightarrow> (Inl (WithMessage (NotExist src) (''source file '' @ src @ '' not found'')), m)
      | StatFailed e \<Rightarrow> (Inl (WithMessage e ''failed to stat src file''), m)
      | StatOk \<Rightarrow>
          bindE (make_destination fl dst) (\<lambda>_.
            catchE (rename_file (fl_os fl) src dst) (\<lambda>e.
              if fl_cross_device fl e then move_cross_device fl src dst else failE e)) m)"

definition write_contents_to_file :: "'w os_env \<Rightarrow> string \<Rightarrow> string \<Rightarrow> ('w, unit) sys" where
  "write_contents_to_file os contents path = write_file os path contents"

text \<open>\<open>AppendContentsToFile\<close>: the file must exist.\<close>

definition append_contents_to_file :: "'w os_env \<Rightarrow> string \<Rightarrow> string \<Rightarrow> ('w, unit) sys" where
  "append_contents_to_file os contents path m =
     (case files m path of
        None \<Rightarrow> (Inl (case fault os (OpWrite path) m of Some e \<Rightarrow> e | None \<Rightarrow> NotExist path), m)
      | Some old \<Rightarrow> write_file os path (old @ contents) m)"

section \<open>The line editor\<close>

text \<open>\<open>strings.Index\<close> and \<open>strings.LastIndex\<close> of a string that occurs.\<close>

fun str_index :: "string \<Rightarrow> string \<Rightarrow> nat" where
  "str_index [] sub = 0"
| "str_index (c # cs) sub = (if has_prefix (c # cs) sub then 0 else Suc (str_index cs sub))"

fun str_last_index :: "string \<Rightarrow> string \<Rightarrow> nat option" where
  "str_last_index [] sub = (if sub = [] then Some 0 else None)"
| "str_last_index (c # cs) sub =
     (case str_last_index cs sub of
        Some i \<Rightarrow> Some (Suc i)
      | None \<Rightarrow> if has_prefix (c # cs) sub then Some 0 else None)"

definition replace_trimmed :: "string \<Rightarrow> string \<Rightarrow> string" where
  "replace_trimmed line replacement =
     (let t = trim_space line;
          fi = str_index line t;
          li = (case str_last_index line t of Some i \<Rightarrow> i | None \<Rightarrow> 0)
      in take fi line @ replacement @ drop (li + length t) line)"

text \<open>
  The inner loop over the map: a needle matches when the trimmed line starts with it or the
  regular expression it is matches. \<open>re\<close> is \<open>regexp.MatchString\<close>.
\<close>

fun find_needle ::
  "(string \<Rightarrow> string \<Rightarrow> bool result) \<Rightarrow> string \<Rightarrow> (string \<times> string) list \<Rightarrow> (string \<times> string) option result" where
  "find_needle re t [] = Inr None"
| "find_needle re t ((n, r) # kvs) =
     (if has_prefix t n then Inr (Some (n, r))
      else case re n t of
        Inl e \<Rightarrow> Inl e
      | Inr matched \<Rightarrow> if matched then Inr (Some (n, r)) else find_needle re t kvs)"

definition line_buffer :: nat where "line_buffer = 4096"

text \<open>
  The loop over the lines. \<open>order\<close> is the order in which Go walks the map; a matching entry is
  deleted. The remaining entries are returned with the lines.
\<close>

fun replace_lines ::
  "(string \<Rightarrow> string \<Rightarrow> bool result) \<Rightarrow> ((string \<times> string) list \<Rightarrow> (string \<times> string) list) \<Rightarrow>
   (string \<times> string) list \<Rightarrow> string list \<Rightarrow> (string list \<times> (string \<times> string) list) result" where
  "replace_lines re order kvs [] = Inr ([], kvs)"
| "replace_lines re order kvs (l # ls) =
     (if line_buffer \<le> length l then Inl (Err ''buffer size is too small'')
      else let line = drop_cr l in
        case find_needle re (trim_space line) (order kvs) of
          Inl e \<Rightarrow> Inl e
        | Inr None \<Rightarrow>
            (case replace_lines re order kvs ls of
               Inl e \<Rightarrow> Inl e
             | Inr (out, rest) \<Rightarrow> Inr (line # out, rest))
        | Inr (Some (n, r)) \<Rightarrow>
            (case replace_lines re order (filter (\<lambda>kv. fst kv \<noteq> n) kvs) ls of
               Inl e \<Rightarrow> Inl e
             | Inr (out, rest) \<Rightarrow> Inr (replace_trimmed line r # out, rest)))"

definition find_line_and_replace_or_add ::
  "(string \<Rightarrow> string \<Rightarrow> bool result) \<Rightarrow> ((string \<times> string) list \<Rightarrow> (string \<times> string) list) \<Rightarrow>
   (string \<times> string) list \<Rightarrow> bool \<Rightarrow> string \<Rightarrow> string result" where
  "find_line_and_replace_or_add re order kvs add content =
     (case replace_lines re order kvs (raw_lines content) of
        Inl e \<Rightarrow> Inl e
      | Inr (out, rest) \<Rightarrow>
          Inr (concat (map (\<lambda>l. l @ [CHR 0x0A]) (out @ (if add then map snd (order rest) else [])))))"

definition find_in_file_and_replace_or_add ::
  "'w fs_lib \<Rightarrow> (string \<Rightarrow> string \<Rightarrow> bool result) \<Rightarrow> ((string \<times> string) list \<Rightarrow> (string \<times> string) list) \<Rightarrow>
   string \<Rightarrow> (string \<times> string) list \<Rightarrow> bool \<Rightarrow> ('w, unit) sys" where
  "find_in_file_and_replace_or_add fl re order path kvs add =
     bindE (read_file (fl_os fl) path) (\<lambda>content m.
       case fl_owner fl path m of (uid, gid) \<Rightarrow>
         bindE (fl_create_temp fl ''find-and-replace'') (\<lambda>tmp.
           case find_line_and_replace_or_add re order kvs add content of
             Inl e \<Rightarrow> failE e
           | Inr text \<Rightarrow>
               bindE (write_file (fl_os fl) tmp text) (\<lambda>_.
               bindE (move_file fl tmp path) (\<lambda>_.
                 if uid \<noteq> 0 \<and> gid \<noteq> 0 then fl_chown fl path uid gid else retE ()))) m)"

definition find_line_and_replace where
  "find_line_and_replace fl re order path kvs = find_in_file_and_replace_or_add fl re order path kvs False"

section \<open>Lemmas\<close>

lemma str_index_spec:
  "has_prefix (drop i s) sub \<Longrightarrow> i \<le> length s \<Longrightarrow> (\<And>j. j < i \<Longrightarrow> \<not> has_prefix (drop j s) sub) \<Longrightarrow> str_index s sub = i"
proof (induction s sub arbitrary: i rule: str_index.induct)
  case (2 c cs sub)
  show ?case
  proof (cases i)
    case (Suc k)
    have "\<not> has_prefix (c # cs) sub" using 2(4) [of 0] Suc by simp
    moreover have "str_index cs sub = k"
      using 2(2,3) 2(4) [of "Suc j" for j] Suc by (intro 2(1) calculation) auto
    ultimately show ?thesis using Suc by simp
  qed (use 2 in simp)
qed simp

lemma str_last_index_spec:
  "has_prefix (drop i s) sub \<Longrightarrow> i \<le> length s \<Longrightarrow> (\<And>j. i < j \<Longrightarrow> j \<le> length s \<Longrightarrow> \<not> has_prefix (drop j s) sub) \<Longrightarrow>
     str_last_index s sub = Some i"
proof (induction s sub arbitrary: i rule: str_last_index.induct)
  case (1 sub)
  then show ?case by (cases sub) auto
next
  case (2 c cs sub)
  have later: "\<not> has_prefix (drop j cs) sub" if "i \<le> j" "j \<le> length cs" for j
    using 2(4) [of "Suc j"] that by simp
  show ?case
  proof (cases i)
    case 0
    have "str_last_index cs sub = None"
    proof (rule ccontr)
      assume "str_last_index cs sub \<noteq> None"
      then obtain j where "str_last_index cs sub = Some j" by auto
      then have "has_prefix (drop j cs) sub \<and> j \<le> length cs"
        by (induction cs sub arbitrary: j rule: str_last_index.induct) (auto split: if_splits option.splits)
      with later 0 show False by auto
    qed
    with 2(2) 0 show ?thesis by simp
  next
    case (Suc k)
    have "str_last_index cs sub = Some k"
      using 2(2,3) Suc later by (intro 2(1)) auto
    with Suc show ?thesis by simp
  qed
qed

text \<open>White space around a text that has none at its ends.\<close>

definition padded :: "string \<Rightarrow> string \<Rightarrow> string \<Rightarrow> bool" where
  "padded a t b \<longleftrightarrow> list_all go_space a \<and> list_all go_space b \<and> trimmed t"

lemma trim_space_pads: "\<exists>a b. s = a @ trim_space s @ b \<and> list_all go_space a \<and> list_all go_space b"
proof -
  let ?l = "trim_left go_space s"
  have "s = takeWhile go_space s @ ?l" by (simp add: trim_left_def)
  moreover have "list_all go_space (takeWhile go_space s)"
    by (auto simp: list_all_iff dest: set_takeWhileD)
  moreover obtain b where "?l = trim_space s @ b" "list_all go_space b"
    using trim_right_prefix [of ?l go_space] by (auto simp: trim_space_def)
  ultimately show ?thesis by metis
qed

lemma padded_occurs:
  assumes p: "padded a t b" and ne: "t \<noteq> []" and j: "has_prefix (drop j (a @ t @ b)) t"
  shows "j = length a"
proof -
  have hd: "\<not> go_space (hd t)" and la: "\<not> go_space (last t)" using p ne by (auto simp: padded_def trimmed_def)
  obtain u where u: "drop j (a @ t @ b) = t @ u" using j by (auto simp: has_prefix_iff)
  have len: "j + length t \<le> length a + length t + length b"
  proof -
    have "length (a @ t @ b) - j = length t + length u" using u by (metis length_append length_drop)
    moreover have "length t \<noteq> 0" using ne by simp
    ultimately have "j + length t \<le> length (a @ t @ b)" by linarith
    then show ?thesis by simp
  qed
  have at: "(a @ t @ b) ! (j + i) = t ! i" if "i < length t" for i
  proof -
    have "(a @ t @ b) ! (j + i) = drop j (a @ t @ b) ! i" using len that by (intro nth_drop [symmetric]) simp
    then show ?thesis unfolding u using that by (simp add: nth_append)
  qed
  have "\<not> j < length a"
  proof
    assume "j < length a"
    then have "t ! 0 = a ! j" using at [of 0] ne by (simp add: nth_append)
    with p \<open>j < length a\<close> hd ne show False by (auto simp: padded_def list_all_length hd_conv_nth)
  qed
  moreover have "\<not> length a < j"
  proof
    assume "length a < j"
    let ?i = "length t - 1"
    have "t ! ?i = (a @ t @ b) ! (j + ?i)" using at [of ?i] ne by simp
    also have "\<dots> = b ! (j + ?i - length a - length t)" using \<open>length a < j\<close> ne by (cases t) (auto simp: nth_append)
    finally have "last t = b ! (j + ?i - length a - length t)" using ne by (simp add: last_conv_nth)
    moreover have "j + ?i - length a - length t < length b" using len \<open>length a < j\<close> ne by (cases t) auto
    ultimately show False using p la by (auto simp: padded_def list_all_length)
  qed
  ultimately show ?thesis by simp
qed

lemma replace_trimmed_padded:
  assumes "padded a t b" "t \<noteq> []" "trim_space (a @ t @ b) = t"
  shows "replace_trimmed (a @ t @ b) r = a @ r @ b"
proof -
  have here: "has_prefix (drop (length a) (a @ t @ b)) t" by simp
  have "str_index (a @ t @ b) t = length a"
    using padded_occurs [OF assms(1,2)] by (intro str_index_spec here) fastforce+
  moreover have "str_last_index (a @ t @ b) t = Some (length a)"
    using padded_occurs [OF assms(1,2)] by (intro str_last_index_spec here) fastforce+
  ultimately show ?thesis by (simp add: replace_trimmed_def assms(3))
qed

lemma replace_trimmed_blank: "trim_space line = [] \<Longrightarrow> replace_trimmed line r = r"
proof -
  assume t: "trim_space line = []"
  have "str_last_index line [] = Some (length line)" by (intro str_last_index_spec) auto
  moreover have "str_index line [] = 0" by (cases line) auto
  ultimately show ?thesis by (simp add: replace_trimmed_def t)
qed

lemma find_needle_Some:
  "find_needle re t kvs = Inr (Some (n, r)) \<Longrightarrow>
     (n, r) \<in> set kvs \<and> (has_prefix t n \<or> re n t = Inr True)"
  by (induction re t kvs rule: find_needle.induct) (auto split: if_splits sum.splits)

lemma find_needle_None:
  "find_needle re t kvs = Inr None \<Longrightarrow> (n, r) \<in> set kvs \<Longrightarrow> \<not> has_prefix t n \<and> re n t = Inr False"
  by (induction re t kvs rule: find_needle.induct) (auto split: if_splits sum.splits)

text \<open>The edit that a choice of an entry (or of none) for every line makes.\<close>

definition edit_line :: "string \<Rightarrow> (string \<times> string) option \<Rightarrow> string" where
  "edit_line l c = (case c of None \<Rightarrow> drop_cr l | Some (n, r) \<Rightarrow> replace_trimmed (drop_cr l) r)"

lemma mset_filter_key:
  "distinct (map fst kvs) \<Longrightarrow> (n, r) \<in> set kvs \<Longrightarrow>
     mset kvs = {#(n, r)#} + mset (filter (\<lambda>kv. fst kv \<noteq> n) kvs)"
proof (induction kvs)
  case (Cons kv kvs)
  show ?case
  proof (cases "fst kv = n")
    case True
    then have kv: "kv = (n, snd kv)" by (cases kv) simp
    then have "(n, snd kv) \<in> set (kv # kvs)" by (metis list.set_intros(1))
    from eq_key_imp_eq_value [OF Cons.prems(1) this Cons.prems(2)] kv have "kv = (n, r)" by simp
    moreover have "n \<notin> fst ` set kvs" using Cons.prems(1) True by auto
    then have "filter (\<lambda>kv. fst kv \<noteq> n) kvs = kvs" by (intro filter_True) force
    ultimately show ?thesis by simp
  next
    case False
    with Cons show ?thesis by auto
  qed
qed simp

section \<open>Properties\<close>

text \<open>
  The line editor puts every replacement in at most once and drops none: each line is
  kept as it is (without its carriage return) or has its text replaced by an entry whose
  needle matches it, and the entries used and those left over together are exactly the
  entries of the map, in whatever order Go walks it.
\<close>

theorem line_editor_uses_each_entry_once:
  assumes "\<And>kvs. mset (order kvs) = mset kvs" and "distinct (map fst kvs)"
    and "replace_lines re order kvs ls = Inr (out, rest)"
  shows "\<exists>choice. length choice = length ls \<and> out = map2 edit_line ls choice \<and>
    mset (List.map_filter (\<lambda>c. c) choice) + mset rest = mset kvs \<and>
    (\<forall>i < length ls. \<forall>n r. choice ! i = Some (n, r) \<longrightarrow>
       has_prefix (trim_space (drop_cr (ls ! i))) n \<or> re n (trim_space (drop_cr (ls ! i))) = Inr True)"
  using assms
proof (induction re order kvs ls arbitrary: out rest rule: replace_lines.induct)
  case (1 re order kvs)
  then show ?case by (simp add: map_filter_simps)
next
  case (2 re order kvs l ls)
  let ?line = "drop_cr l"
  obtain c where c: "find_needle re (trim_space ?line) (order kvs) = Inr c" and len: "\<not> line_buffer \<le> length l"
    using 2(5) by (auto simp: Let_def split: if_splits sum.splits)
  show ?case
  proof (cases c)
    case None
    with 2(5) c len obtain out' where r: "replace_lines re order kvs ls = Inr (out', rest)" "out = ?line # out'"
      by (auto simp: Let_def split: sum.splits)
    from 2(1) [OF len refl c None 2(3,4) r(1)] obtain ch where ch: "length ch = length ls" "out' = map2 edit_line ls ch"
      "mset (List.map_filter (\<lambda>c. c) ch) + mset rest = mset kvs"
      "\<forall>i < length ls. \<forall>n r. ch ! i = Some (n, r) \<longrightarrow>
         has_prefix (trim_space (drop_cr (ls ! i))) n \<or> re n (trim_space (drop_cr (ls ! i))) = Inr True" by blast
    show ?thesis
      using ch r(2) by (intro exI [of _ "None # ch"]) (auto simp: edit_line_def map_filter_simps nth_Cons split: nat.split)
  next
    case (Some nr)
    obtain n r where nr: "nr = (n, r)" by fastforce
    let ?kvs = "filter (\<lambda>kv. fst kv \<noteq> n) kvs"
    from 2(5) c len Some nr obtain out' where rep: "replace_lines re order ?kvs ls = Inr (out', rest)"
      "out = replace_trimmed ?line r # out'"
      by (auto simp: Let_def split: sum.splits)
    have m: "(n, r) \<in> set kvs" "has_prefix (trim_space ?line) n \<or> re n (trim_space ?line) = Inr True"
      using find_needle_Some [OF c [unfolded Some nr]] mset_eq_setD [OF 2(3)] by auto
    have d: "distinct (map fst ?kvs)" using 2(4) by (simp add: distinct_map_filter)
    from 2(2) [OF len refl c Some nr [symmetric] 2(3) d rep(1)] obtain ch where ch: "length ch = length ls" "out' = map2 edit_line ls ch"
      "mset (List.map_filter (\<lambda>c. c) ch) + mset rest = mset ?kvs"
      "\<forall>i < length ls. \<forall>n r. ch ! i = Some (n, r) \<longrightarrow>
         has_prefix (trim_space (drop_cr (ls ! i))) n \<or> re n (trim_space (drop_cr (ls ! i))) = Inr True" by blast
    have "mset (List.map_filter (\<lambda>c. c) (Some (n, r) # ch)) + mset rest = {#(n, r)#} + mset ?kvs"
      unfolding ch(3) [symmetric] by (simp add: map_filter_simps del: mset_filter)
    also have "\<dots> = mset kvs" by (rule mset_filter_key [OF 2(4) m(1), symmetric])
    finally have ms: "mset (List.map_filter (\<lambda>c. c) (Some (n, r) # ch)) + mset rest = mset kvs" .
    show ?thesis
      using ch(1,2,4) rep(2) m(2) ms
      by (intro exI [of _ "Some (n, r) # ch"] conjI) (auto simp: edit_line_def nth_Cons split: nat.split)
  qed
qed

text \<open>\<open>DB_HOST=\<close> is set in an environment file and a missing \<open>PORT=\<close> is left over.\<close>

theorem line_editor_uses_each_entry_once_witness:
  "\<exists>choice. length choice = 2 \<and>
    [''# database'', ''  DB_HOST=db''] = map2 edit_line [''# database'', ''  DB_HOST=localhost''] choice \<and>
    mset (List.map_filter (\<lambda>c. c) choice) + mset [(''PORT='', ''PORT=1'')] =
      mset [(''DB_HOST='', ''DB_HOST=db''), (''PORT='', ''PORT=1'')]"
proof -
  let ?re = "\<lambda>_ _. Inr False" and ?ls = "[''# database'', ''  DB_HOST=localhost'']"
  have "replace_lines ?re (\<lambda>kvs. kvs) [(''DB_HOST='', ''DB_HOST=db''), (''PORT='', ''PORT=1'')] ?ls =
      Inr ([''# database'', ''  DB_HOST=db''], [(''PORT='', ''PORT=1'')])" by code_simp
  from line_editor_uses_each_entry_once [of "\<lambda>kvs. kvs", OF refl _ this] show ?thesis
    by (simp add: numeral_2_eq_2, elim exE conjE, intro exI conjI)
qed

end
