(* ===== verification/OsInfo.thy ===== *)
theory OsInfo
  imports Services
begin

text \<open>
  What the program knows of the operating system (\<open>pkg/os_info\<close>): the distribution, its
  version and code name, read from \<open>/etc/lsb-release\<close>, \<open>/etc/os-release\<close>, the command
  \<open>lsb_release\<close> or \<open>/etc/debian_version\<close>. The kernel's own answer (\<open>goInfo\<close>) and the
  architecture the binary was built for are parameters.
\<close>

record os_info =
  oi_kernel :: string
  oi_core :: string
  oi_distribution :: string
  oi_version :: string
  oi_codename :: string
  oi_platform :: string
  oi_os :: string
  oi_hostname :: string
  oi_cpus :: nat

definition is_debian_like :: "string \<Rightarrow> bool" where
  "is_debian_like d \<longleftrightarrow> d \<in> set [''debian'', ''ubuntu'', ''raspbian'']"

definition is_x86 :: "string \<Rightarrow> bool" where
  "is_x86 p \<longleftrightarrow> p = ''x86'' \<or> p = ''amd64''"

definition info_string :: "os_info \<Rightarrow> string" where
  "info_string i =
     ''Kernel: '' @ oi_kernel i @ [CHR 0x0A] @ ''Core: '' @ oi_core i @
     [CHR 0x0A] @ ''Distribution: '' @ oi_distribution i @
     [CHR 0x0A] @ ''DistributionVersion: '' @ oi_version i @
     [CHR 0x0A] @ ''DistributionCodename: '' @ oi_codename i @
     [CHR 0x0A] @ ''Platform: '' @ oi_platform i @ [CHR 0x0A] @ ''OS: '' @ oi_os i @
     [CHR 0x0A] @ ''Hostname: '' @ oi_hostname i @ [CHR 0x0A] @ ''CPUs: '' @ itoa_nat (oi_cpus i)"

definition detect_platform :: "string \<Rightarrow> string" where
  "detect_platform goarch =
     (if goarch = ''386'' then ''x86''
      else if goarch \<in> set [''amd64'', ''arm'', ''arm64'', ''mips'', ''mips64''] then goarch
      else ''unknown'')"

section \<open>Fields of release files\<close>

text \<open>
  \<open>extractField\<close>: the first match of \<open>(?m)^key=([^\s]+)\<close>, where \<open>\s\<close> is a blank, a tab, a
  newline, a form feed or a carriage return.
\<close>

definition re_space :: "char \<Rightarrow> bool" where
  "re_space c \<longleftrightarrow> c \<in> set [CHR '' '', CHR 0x09, CHR 0x0A, CHR 0x0C, CHR 0x0D]"

definition field_of_line :: "string \<Rightarrow> string \<Rightarrow> string option" where
  "field_of_line key line =
     (let v = takeWhile (\<lambda>c. \<not> re_space c) (drop (length key + 1) line) in
      if has_prefix line (key @ ''='') \<and> v \<noteq> [] then Some v else None)"

definition extract_field :: "string \<Rightarrow> string \<Rightarrow> string" where
  "extract_field data key =
     (case first_some (field_of_line key) (split_char (CHR 0x0A) data) of Some v \<Rightarrow> v | None \<Rightarrow> [])"

section \<open>The distribution\<close>

record dist_info =
  ds_name :: string
  ds_version :: string
  ds_codename :: string

definition blank_dist :: dist_info where
  "blank_dist = \<lparr>ds_name = [], ds_version = [], ds_codename = []\<rparr>"

definition lsb_codename :: "string \<Rightarrow> string" where
  "lsb_codename data =
     (let c = extract_field data ''DISTRIB_CODENAME'' in
      if c = [] then extract_field data ''DISTRIB_RELEASE'' else c)"

definition dist_of_lsb_release :: "string \<Rightarrow> dist_info" where
  "dist_of_lsb_release data =
     (let id = extract_field data ''ID''; version_id = extract_field data ''VERSION_ID'' in
      if id = ''raspbian'' then \<lparr>ds_name = id, ds_version = version_id, ds_codename = version_id\<rparr>
      else \<lparr>ds_name = extract_field data ''DISTRIB_ID'',
            ds_version = (if version_id = [] then extract_field data ''DISTRIB_RELEASE'' else version_id),
            ds_codename = lsb_codename data\<rparr>)"

definition dist_of_os_release :: "string \<Rightarrow> dist_info" where
  "dist_of_os_release data =
     (let id = extract_field data ''ID''; codename = extract_field data ''VERSION_CODENAME'';
          version = extract_field data ''VERSION_ID'';
          d = (if id = [] then (extract_field data ''DISTRIB_ID'', lsb_codename data)
               else (id, if codename \<noteq> [] then codename else version))
      in \<lparr>ds_name = fst d, ds_version = version,
          ds_codename = (if snd d = [] \<and> version \<noteq> [] then version else snd d)\<rparr>)"

text \<open>\<open>strings.Split(out, sep)[1]\<close>, which panics when there is no separator.\<close>

definition second_part :: "char \<Rightarrow> string \<Rightarrow> string result" where
  "second_part sep out =
     (case split_char sep out of
        _ # b # _ \<Rightarrow> Inr (trim_space b)
      | _ \<Rightarrow> Inl (Panic ''index out of range [1] with length 1''))"

text \<open>\<open>run_out\<close> is a command with its output.\<close>

definition lsb_field :: "(string list \<Rightarrow> ('w, string) sys) \<Rightarrow> string \<Rightarrow> ('w, string) sys" where
  "lsb_field run_out flag =
     bindE (wrapE ''failed to run command lsb_release'' (run_out [''lsb_release'', flag]))
       (\<lambda>out m. (second_part (CHR '':'') out, m))"

definition dist_of_command :: "(string list \<Rightarrow> ('w, string) sys) \<Rightarrow> ('w, dist_info) sys" where
  "dist_of_command run_out =
     bindE (lsb_field run_out ''-c'') (\<lambda>codename.
     bindE (lsb_field run_out ''-i'') (\<lambda>name.
     bindE (lsb_field run_out ''-r'') (\<lambda>version.
       retE \<lparr>ds_name = to_lower name, ds_version = version, ds_codename = codename\<rparr>)))"

definition release_dist :: "'w host \<Rightarrow> (string list \<Rightarrow> ('w, string) sys) \<Rightarrow> ('w, dist_info) sys" where
  "release_dist h run_out m =
     (if stat_file (ho_os h) ''/etc/lsb-release'' m = StatOk then
        bindE (read_file (ho_os h) ''/etc/lsb-release'') (\<lambda>data. retE (dist_of_lsb_release data)) m
      else if stat_file (ho_os h) ''/etc/os-release'' m = StatOk then
        bindE (read_file (ho_os h) ''/etc/os-release'') (\<lambda>data. retE (dist_of_os_release data)) m
      else case ho_look_path h ''lsb_release'' m of
        Inr _ \<Rightarrow> dist_of_command run_out m
      | Inl _ \<Rightarrow> (Inr blank_dist, m))"

definition debian_dist :: "'w host \<Rightarrow> dist_info \<Rightarrow> ('w, dist_info) sys" where
  "debian_dist h d =
     bindE (read_file (ho_os h) ''/etc/issue'') (\<lambda>issue.
     bindE (read_file (ho_os h) ''/etc/debian_version'') (\<lambda>version.
       retE (d\<lparr>ds_name := to_lower (trim_space (hd (split_char (CHR '' '') issue))),
               ds_codename := trim_space (hd (split_char (CHR ''/'') version))\<rparr>)))"

definition trim_quotes :: "string \<Rightarrow> string" where
  "trim_quotes s = trim_right (\<lambda>c. c = CHR 0x22) (trim_left (\<lambda>c. c = CHR 0x22) s)"

definition clean_dist :: "dist_info \<Rightarrow> dist_info" where
  "clean_dist d =
     \<lparr>ds_name = to_lower (trim_quotes (replace_all '' '' [] (ds_name d))),
      ds_version = trim_quotes (ds_version d),
      ds_codename = to_lower (trim_quotes (replace_all '' '' [] (ds_codename d)))\<rparr>"

definition detect_linux_dist :: "'w host \<Rightarrow> (string list \<Rightarrow> ('w, string) sys) \<Rightarrow> ('w, dist_info) sys" where
  "detect_linux_dist h run_out =
     bindE (release_dist h run_out) (\<lambda>d m.
     bindE (if ds_codename d = [] \<and> stat_file (ho_os h) ''/etc/debian_version'' m \<noteq> StatMissing
            then debian_dist h d else retE d) (\<lambda>d.
       if ds_codename d = [] then failE (Err ''unknown operating system'')
       else retE (clean_dist d)) m)"

text \<open>\<open>gi\<close> is the answer of \<open>goInfo.GetInfo\<close>; its distribution fields are not set yet.\<close>

definition get_os_info ::
  "'w host \<Rightarrow> (string list \<Rightarrow> ('w, string) sys) \<Rightarrow> string \<Rightarrow> os_info result \<Rightarrow> ('w, os_info) sys" where
  "get_os_info h run_out goarch gi =
     (case gi of
        Inl e \<Rightarrow> failE e
      | Inr g \<Rightarrow>
          let i = g\<lparr>oi_platform := detect_platform goarch\<rparr> in
          if oi_os g = ''GNU/Linux'' then
            bindE (detect_linux_dist h run_out) (\<lambda>d.
              retE (i\<lparr>oi_distribution := ds_name d, oi_version := ds_version d, oi_codename := ds_codename d\<rparr>))
          else retE (i\<lparr>oi_distribution := oi_os g, oi_version := oi_kernel g, oi_codename := oi_kernel g\<rparr>))"

section \<open>Lemmas\<close>

lemma ascii_lower_idem [simp]: "ascii_lower (ascii_lower c) = ascii_lower c"
proof -
  have "of_char (char_of (of_char c + 32 :: nat)) = (of_char c + 32 :: nat)" if "of_char c \<le> (90 :: nat)"
    using that by (simp add: of_char_of)
  then show ?thesis by (simp add: ascii_lower_def Let_def)
qed

lemma to_lower_idem [simp]: "to_lower (to_lower s) = to_lower s"
  by (simp add: to_lower_def)

lemma ascii_lower_other: "ascii_lower c = d \<Longrightarrow> (of_char d :: nat) < 65 \<Longrightarrow> c = d"
proof -
  assume l: "ascii_lower c = d" and d: "(of_char d :: nat) < 65"
  show "c = d"
  proof (cases "65 \<le> (of_char c :: nat) \<and> of_char c \<le> (90 :: nat)")
    case True
    then have "(of_char (char_of (of_char c + 32 :: nat)) :: nat) = of_char c + 32"
      by (simp add: of_char_of)
    with True l d show ?thesis by (auto simp: ascii_lower_def Let_def)
  next
    case False
    with l show ?thesis by (auto simp: ascii_lower_def Let_def)
  qed
qed

lemma to_lower_notin: "c \<notin> set s \<Longrightarrow> (of_char c :: nat) < 65 \<Longrightarrow> c \<notin> set (to_lower s)"
proof
  assume n: "c \<notin> set s" "(of_char c :: nat) < 65" and "c \<in> set (to_lower s)"
  then obtain x where "x \<in> set s" "ascii_lower x = c" by (auto simp: to_lower_def)
  with ascii_lower_other [of x c] n show False by simp
qed

lemma set_trim_quotes: "set (trim_quotes s) \<subseteq> set s"
  unfolding trim_quotes_def using set_trim_right
  by (auto simp: trim_left_def dest: set_dropWhileD subsetD [OF set_trim_right])

definition bare :: "string \<Rightarrow> bool" where
  "bare s \<longleftrightarrow> to_lower s = s \<and> CHR '' '' \<notin> set s"

lemma bare_cleaned: "bare (to_lower (trim_quotes (replace_all '' '' [] s)))"
proof -
  have "CHR '' '' \<notin> set (replace_all '' '' [] s)" by (rule replace_all_char_gone) simp
  then have "CHR '' '' \<notin> set (trim_quotes (replace_all '' '' [] s))" using set_trim_quotes by auto
  then show ?thesis unfolding bare_def by (intro conjI to_lower_notin) simp_all
qed

lemma field_of_line_no_space:
  "field_of_line key line = Some v \<Longrightarrow> v \<noteq> [] \<and> (\<forall>c \<in> set v. \<not> re_space c)"
  by (auto simp: field_of_line_def Let_def split: if_splits dest: set_takeWhileD)

section \<open>Properties\<close>

text \<open>
  The distribution and its code name, whatever source they were read from, are in lower
  case and without blanks, so that comparing them with the names in the program is sound.
\<close>

theorem distribution_names_are_bare:
  assumes "detect_linux_dist h run_out m = (Inr d, m')"
  shows "bare (ds_name d) \<and> bare (ds_codename d)"
proof -
  from assms obtain d' where "d = clean_dist d'"
    by (auto simp: detect_linux_dist_def bindE_Inr_iff split: if_splits)
  then show ?thesis by (simp add: clean_dist_def bare_cleaned)
qed

text \<open>A host with one release file, for examples.\<close>

definition release_host :: "'w host" where
  "release_host =
     \<lparr>ho_os = calm_os, ho_exec = (\<lambda>_. retE ()), ho_look_path = (\<lambda>n _. Inl (NotExist n)),
      ho_distribution = [], ho_home = None, ho_runtime_dir = [], ho_username = Inr ''root'', ho_euid = 0,
      ho_init_exe = (\<lambda>_. Inl (Err ''no init'')), ho_processes = (\<lambda>_. Inr []), ho_terminate = (\<lambda>_. retE ()),
      ho_kill = (\<lambda>_. retE ()), ho_is_running = (\<lambda>_ _. (False, None)), ho_status = (\<lambda>_ _. Inr []),
      ho_tick = (\<lambda>m. m), ho_canceled = (\<lambda>_. False), ho_start_process = (\<lambda>_ _. failE (Err ''no''))\<rparr>"

definition release_machine :: "string \<Rightarrow> string list \<Rightarrow> unit machine" where
  "release_machine name ls =
     \<lparr>files = [name \<mapsto> concat (map (\<lambda>l. l @ [CHR 0x0A]) ls)], dirs = {}, world = (), service_memo = None\<rparr>"

theorem distribution_names_are_bare_witness:
  "\<exists>d. fst (detect_linux_dist release_host (\<lambda>_. failE (Err ''no''))
        (release_machine ''/etc/lsb-release'' [''DISTRIB_ID=Ubuntu'', ''DISTRIB_RELEASE=22.04'', ''DISTRIB_CODENAME=jammy''])) = Inr d \<and>
     ds_name d = ''ubuntu'' \<and> bare (ds_name d) \<and> bare (ds_codename d)"
proof -
  let ?r = "detect_linux_dist release_host (\<lambda>_. failE (Err ''no''))
        (release_machine ''/etc/lsb-release'' [''DISTRIB_ID=Ubuntu'', ''DISTRIB_RELEASE=22.04'', ''DISTRIB_CODENAME=jammy''])"
  let ?d = "\<lparr>ds_name = ''ubuntu'', ds_version = ''22.04'', ds_codename = ''jammy''\<rparr>"
  have f: "fst ?r = Inr ?d" by code_simp
  then have "?r = (Inr ?d, snd ?r)" by (metis prod.collapse)
  from distribution_names_are_bare [OF this] f show ?thesis by (intro exI [of _ ?d]) simp
qed

text \<open>
  With a quoted empty code name (\<open>VERSION_CODENAME=""\<close>, as in Fedora's release file) the
  fall-back to the version is missed: the quotes are only removed at the end, and the
  detection succeeds with an empty code name.
\<close>

theorem quoted_empty_codename_stays_empty:
  assumes "stat_file (ho_os h) ''/etc/lsb-release'' m = StatMissing"
    and "stat_file (ho_os h) ''/etc/os-release'' m = StatOk"
    and "read_file (ho_os h) ''/etc/os-release'' m = (Inr data, m)"
    and "extract_field data ''ID'' \<noteq> []"
    and "extract_field data ''VERSION_CODENAME'' = [CHR 0x22, CHR 0x22]"
  shows "\<exists>d. detect_linux_dist h run_out m = (Inr d, m) \<and> ds_codename d = [] \<and>
    ds_version d = trim_quotes (extract_field data ''VERSION_ID'')"
proof -
  let ?d = "dist_of_os_release data"
  have "ds_codename ?d = [CHR 0x22, CHR 0x22]" "ds_version ?d = extract_field data ''VERSION_ID''"
    using assms(4,5) by (simp_all add: dist_of_os_release_def Let_def)
  moreover have "release_dist h run_out m = (Inr ?d, m)"
    using assms(1-3) by (simp add: release_dist_def bindE_def retE_def)
  moreover have "to_lower (trim_quotes (replace_all '' '' [] [CHR 0x22, CHR 0x22])) = []" by code_simp
  ultimately show ?thesis by (simp add: detect_linux_dist_def bindE_def retE_def clean_dist_def)
qed

definition fedora_lines :: "string list" where
  "fedora_lines = [''ID=fedora'', ''VERSION_ID=40'', ''VERSION_CODENAME='' @ [CHR 0x22, CHR 0x22]]"

theorem quoted_empty_codename_stays_empty_witness:
  "\<exists>d. detect_linux_dist release_host (\<lambda>_. retE []) (release_machine ''/etc/os-release'' fedora_lines) =
      (Inr d, release_machine ''/etc/os-release'' fedora_lines) \<and> ds_codename d = []"
proof -
  let ?data = "concat (map (\<lambda>l. l @ [CHR 0x0A]) fedora_lines)"
  let ?m = "release_machine ''/etc/os-release'' fedora_lines"
  have 1: "extract_field ?data ''ID'' \<noteq> []" by code_simp
  have 2: "extract_field ?data ''VERSION_CODENAME'' = [CHR 0x22, CHR 0x22]" by code_simp
  have 3: "stat_file (ho_os release_host) ''/etc/lsb-release'' ?m = StatMissing"
    "stat_file (ho_os release_host) ''/etc/os-release'' ?m = StatOk"
    "read_file (ho_os release_host) ''/etc/os-release'' ?m = (Inr ?data, ?m)"
    by (simp_all add: release_host_def release_machine_def stat_file_def calm_os_def path_exists_def read_file_def)
  from quoted_empty_codename_stays_empty [OF 3 1 2, of "\<lambda>_. retE []"] show ?thesis by blast
qed

end
