(* ===== verification/PackageConfig.thy ===== *)
theory PackageConfig
  imports OsInfo FileUtils
begin

text \<open>
  The package configurations that come with the program (\<open>pkg/package_manager/pkgconfig\<close>):
  which files are read for an operating system, how they are merged, and the cache of the
  result; and the entries that they add to \<open>PATH\<close> (\<open>env_path_unix.go\<close>). The embedded files and
  their YAML decoder are parameters.
\<close>

section \<open>Configurations\<close>

text \<open>\<open>replace-with\<close> may be missing, which is not the same as empty.\<close>

record pre_install_step =
  ps_file_not_exists :: "string list"
  ps_run_commands :: "string list"

record package_config =
  pc_name :: string
  pc_dependencies :: "string list"
  pc_replace_with :: "string list option"
  pc_lookup_paths :: "string list"
  pc_path_env :: "string list"
  pc_pre_install :: "pre_install_step list"
  pc_install :: "string list list"
  pc_post_install :: "string list list"

type_synonym packages = "string \<rightharpoonup> package_config"
type_synonym package_cache = "string \<rightharpoonup> packages"

section \<open>Commands\<close>

definition replace_distribution_variables :: "os_info \<Rightarrow> string \<Rightarrow> string" where
  "replace_distribution_variables info input =
     replace_all ''{{architecture}}'' (oi_platform info)
       (replace_all ''{{codename}}'' (oi_codename info)
         (replace_all ''{{distversion}}'' (oi_version info)
           (replace_all ''{{distname}}'' (oi_distribution info) input)))"

text \<open>Runs of blanks and tabs become one blank.\<close>

fun squeeze :: "bool \<Rightarrow> string \<Rightarrow> string" where
  "squeeze prev [] = []"
| "squeeze prev (c # cs) =
     (if c = CHR '' '' \<or> c = CHR 0x09 then (if prev then squeeze True cs else CHR '' '' # squeeze True cs)
      else c # squeeze False cs)"

definition normalize_command :: "string \<Rightarrow> string" where
  "normalize_command s =
     trim_space (squeeze False
       (replace_all [CHR 0x0D] '' '' (replace_all [CHR 0x0A] '' '' (replace_all [CHR 0x0D, CHR 0x0A] '' '' s))))"

definition prepare_commands :: "os_info \<Rightarrow> string list \<Rightarrow> string list" where
  "prepare_commands info cmds = map (\<lambda>c. normalize_command (replace_distribution_variables info c)) cmds"

definition prepare_package :: "os_info \<Rightarrow> package_config \<Rightarrow> package_config" where
  "prepare_package info p =
     p\<lparr>pc_pre_install := map (\<lambda>s. s\<lparr>ps_run_commands := prepare_commands info (ps_run_commands s)\<rparr>) (pc_pre_install p),
       pc_install := map (prepare_commands info) (pc_install p),
       pc_post_install := map (prepare_commands info) (pc_post_install p)\<rparr>"

section \<open>Files, from the most general to the most specific\<close>

definition files_to_load :: "os_info \<Rightarrow> string list" where
  "files_to_load info =
     (let distribution = to_lower (oi_distribution info); version = oi_version info;
          codename = oi_codename info; arch = oi_platform info
      in [''default.yaml''] @
         (if arch \<noteq> [] then [''default_'' @ arch @ ''.yaml''] else []) @
         (if distribution \<noteq> [] then [distribution @ ''.yaml''] else []) @
         (if distribution \<noteq> [] \<and> version \<noteq> [] then [distribution @ ''_'' @ version @ ''.yaml''] else []) @
         (if distribution \<noteq> [] \<and> codename \<noteq> [] then [distribution @ ''_'' @ codename @ ''.yaml''] else []) @
         (if distribution \<noteq> [] \<and> version \<noteq> [] \<and> arch \<noteq> []
          then [distribution @ ''_'' @ version @ ''_'' @ arch @ ''.yaml''] else []) @
         (if distribution \<noteq> [] \<and> codename \<noteq> [] \<and> arch \<noteq> []
          then [distribution @ ''_'' @ codename @ ''_'' @ arch @ ''.yaml''] else []))"

text \<open>
  The loop over the files: one that is not embedded is skipped, one that cannot be decoded
  ends the loop. \<open>embedded\<close> and \<open>decode\<close> are the embedded file system and the YAML decoder.
\<close>

fun load_files ::
  "(string \<Rightarrow> string option) \<Rightarrow> (string \<Rightarrow> package_config list result) \<Rightarrow> string \<Rightarrow> os_info \<Rightarrow>
   string list \<Rightarrow> packages \<Rightarrow> packages result" where
  "load_files embedded decode manager info [] ps = Inr ps"
| "load_files embedded decode manager info (f # fs) ps =
     (case embedded (manager @ ''/'' @ f) of
        None \<Rightarrow> load_files embedded decode manager info fs ps
      | Some data \<Rightarrow>
          (case decode data of
             Inl e \<Rightarrow> Inl (WithMessage e (''failed to unmarshal '' @ f))
           | Inr cs \<Rightarrow>
               load_files embedded decode manager info fs
                 (fold (\<lambda>p ps. ps(pc_name p \<mapsto> prepare_package info p)) cs ps)))"

definition build_cache_key :: "string \<Rightarrow> os_info \<Rightarrow> string" where
  "build_cache_key manager info =
     manager @ ''_'' @ oi_distribution info @ ''_'' @ oi_version info @ ''_'' @ oi_codename info @
     ''_'' @ oi_platform info"

definition load_packages ::
  "(string \<Rightarrow> string option) \<Rightarrow> (string \<Rightarrow> package_config list result) \<Rightarrow> string \<Rightarrow> os_info \<Rightarrow>
   package_cache \<Rightarrow> packages result \<times> package_cache" where
  "load_packages embedded decode manager info cache =
     (let key = build_cache_key manager info in
      case cache key of
        Some ps \<Rightarrow> (Inr ps, cache)
      | None \<Rightarrow>
          (case load_files embedded decode manager info (files_to_load info) Map.empty of
             Inl e \<Rightarrow> (Inl e, cache)
           | Inr ps \<Rightarrow> (Inr ps, cache(key \<mapsto> ps))))"

section \<open>The search path\<close>

fun collect_path_env :: "(string \<Rightarrow> bool) \<Rightarrow> string list \<Rightarrow> string list \<Rightarrow> string list \<Rightarrow> string list" where
  "collect_path_env file_exists current [] appended = appended"
| "collect_path_env file_exists current (p # ps) appended =
     (if p = [] \<or> \<not> file_exists p then collect_path_env file_exists current ps appended
      else if p \<in> set current \<or> p \<in> set appended then collect_path_env file_exists current ps appended
      else collect_path_env file_exists current ps (appended @ [p]))"

text \<open>
  One of the two collections (\<open>collectAPTPathEnv\<close>, \<open>collectDNFPathEnv\<close>): \<open>walk\<close> is the order in
  which Go walks the map; configurations that cannot be loaded add nothing.
\<close>

definition collect_manager_paths ::
  "(string \<Rightarrow> bool) \<Rightarrow> (packages \<Rightarrow> package_config list) \<Rightarrow> string list \<Rightarrow> packages result \<Rightarrow> string list \<Rightarrow> string list" where
  "collect_manager_paths file_exists walk current loaded appended =
     (case loaded of
        Inl _ \<Rightarrow> appended
      | Inr ps \<Rightarrow> fold (\<lambda>p. collect_path_env file_exists current (pc_path_env p)) (walk ps) appended)"

definition update_env_path ::
  "(string \<Rightarrow> string option) \<Rightarrow> (string \<Rightarrow> package_config list result) \<Rightarrow> (packages \<Rightarrow> package_config list) \<Rightarrow>
   (string \<Rightarrow> bool) \<Rightarrow> os_info \<Rightarrow> package_cache \<Rightarrow> string \<Rightarrow> string \<times> package_cache" where
  "update_env_path embedded decode walk file_exists info cache path =
     (let current = split_char (CHR '':'') path;
          (apt, cache1) = load_packages embedded decode ''apt'' info cache;
          appended1 = collect_manager_paths file_exists walk current apt [];
          (dnf, cache2) = load_packages embedded decode ''dnf'' info cache1;
          appended2 = collect_manager_paths file_exists walk current dnf appended1
      in (if appended2 = [] then path else path @ '':'' @ join_with '':'' appended2, cache2))"

section \<open>Lemmas\<close>

text \<open>The configurations of the files, in the order they are read.\<close>

definition file_configs ::
  "(string \<Rightarrow> string option) \<Rightarrow> (string \<Rightarrow> package_config list result) \<Rightarrow> string \<Rightarrow> string \<Rightarrow> package_config list" where
  "file_configs embedded decode manager f =
     (case embedded (manager @ ''/'' @ f) of
        None \<Rightarrow> []
      | Some data \<Rightarrow> (case decode data of Inl _ \<Rightarrow> [] | Inr cs \<Rightarrow> cs))"

definition last_named :: "string \<Rightarrow> package_config list \<Rightarrow> package_config option" where
  "last_named n cs = find (\<lambda>p. pc_name p = n) (rev cs)"

lemma find_append: "find P (as @ bs) = (case find P as of Some x \<Rightarrow> Some x | None \<Rightarrow> find P bs)"
  by (induction as) auto

lemma fold_packages:
  "fold (\<lambda>p ps. ps(pc_name p \<mapsto> prepare_package info p)) cs ps n =
     (case last_named n cs of Some p \<Rightarrow> Some (prepare_package info p) | None \<Rightarrow> ps n)"
  by (induction cs arbitrary: ps) (auto simp: last_named_def find_append split: option.splits)

lemma last_named_append:
  "last_named n (as @ bs) = (case last_named n bs of Some p \<Rightarrow> Some p | None \<Rightarrow> last_named n as)"
  by (simp add: last_named_def find_append split: option.split)

lemma last_named_Nil [simp]: "last_named n [] = None"
  by (simp add: last_named_def)

lemma load_files_last:
  "load_files embedded decode manager info fs ps = Inr qs \<Longrightarrow>
     qs n = (case last_named n (concat (map (file_configs embedded decode manager) fs)) of
               Some p \<Rightarrow> Some (prepare_package info p) | None \<Rightarrow> ps n)"
proof (induction embedded decode manager info fs ps rule: load_files.induct)
  case (2 embedded decode manager info f fs ps)
  show ?case
  proof (cases "embedded (manager @ ''/'' @ f)")
    case None
    with 2 show ?thesis by (simp add: file_configs_def)
  next
    case (Some data)
    with 2(3) obtain cs where cs: "decode data = Inr cs"
      "load_files embedded decode manager info fs (fold (\<lambda>p ps. ps(pc_name p \<mapsto> prepare_package info p)) cs ps) = Inr qs"
      by (auto split: sum.splits)
    from 2(2) [OF Some cs] Some cs(1) show ?thesis
      by (simp add: file_configs_def last_named_append fold_packages split: option.split)
  qed
qed simp

lemma collect_path_env_spec:
  "\<exists>new. collect_path_env fe current ps appended = appended @ new \<and> distinct new \<and>
     (\<forall>p \<in> set new. p \<noteq> [] \<and> fe p \<and> p \<notin> set current \<and> p \<notin> set appended)"
proof (induction fe current ps appended rule: collect_path_env.induct)
  case (2 fe current p ps appended)
  show ?case
  proof (cases "p = [] \<or> \<not> fe p \<or> p \<in> set current \<or> p \<in> set appended")
    case True
    with 2 show ?thesis by auto
  next
    case False
    with 2(3) obtain new where n: "collect_path_env fe current ps (appended @ [p]) = (appended @ [p]) @ new"
      "distinct new" "\<forall>q \<in> set new. q \<noteq> [] \<and> fe q \<and> q \<notin> set current \<and> q \<notin> set (appended @ [p])"
      by auto
    with False show ?thesis by (intro exI [of _ "p # new"]) auto
  qed
qed simp

text \<open>What a collection of entries may look like.\<close>

definition good_entries :: "(string \<Rightarrow> bool) \<Rightarrow> string list \<Rightarrow> string list \<Rightarrow> bool" where
  "good_entries fe current es \<longleftrightarrow> distinct es \<and> (\<forall>p \<in> set es. p \<noteq> [] \<and> fe p \<and> p \<notin> set current)"

lemma good_entries_collect:
  "good_entries fe current es \<Longrightarrow> good_entries fe current (collect_path_env fe current ps es)"
  using collect_path_env_spec [of fe current ps es] by (auto simp: good_entries_def)

lemma good_entries_fold:
  "good_entries fe current es \<Longrightarrow>
     good_entries fe current (fold (\<lambda>p. collect_path_env fe current (pc_path_env p)) cs es)"
  by (induction cs arbitrary: es) (auto intro: good_entries_collect)

lemma good_entries_manager:
  "good_entries fe current es \<Longrightarrow> good_entries fe current (collect_manager_paths fe walk current loaded es)"
  by (simp add: collect_manager_paths_def good_entries_fold split: sum.split)

section \<open>The cache\<close>

text \<open>What a lookup gives without the cache.\<close>

definition fresh_packages where
  "fresh_packages embedded decode manager info =
     load_files embedded decode manager info (files_to_load info) Map.empty"

text \<open>The strings that make up a cache key, when none of them contains the separator.\<close>

definition key_parts :: "string \<Rightarrow> os_info \<Rightarrow> string list" where
  "key_parts manager info = [manager, oi_distribution info, oi_version info, oi_codename info, oi_platform info]"

definition separable :: "string \<Rightarrow> os_info \<Rightarrow> bool" where
  "separable manager info \<longleftrightarrow> (\<forall>s \<in> set (key_parts manager info). CHR ''_'' \<notin> set s)"

lemma build_cache_key_join: "build_cache_key manager info = join_with ''_'' (key_parts manager info)"
  by (simp add: build_cache_key_def key_parts_def)

lemma cache_key_inj:
  assumes "separable manager info" "separable manager' info'"
    and "build_cache_key manager info = build_cache_key manager' info'"
  shows "key_parts manager info = key_parts manager' info'"
proof -
  have "split_char (CHR ''_'') (build_cache_key manager info) = key_parts manager info"
    unfolding build_cache_key_join
    by (intro split_char_join) (use assms(1) in \<open>auto simp: separable_def key_parts_def\<close>)
  moreover have "split_char (CHR ''_'') (build_cache_key manager' info') = key_parts manager' info'"
    unfolding build_cache_key_join
    by (intro split_char_join) (use assms(2) in \<open>auto simp: separable_def key_parts_def\<close>)
  ultimately show ?thesis using assms(3) by simp
qed

lemma prepare_package_parts:
  assumes "key_parts manager info = key_parts manager' info'"
  shows "prepare_package info = prepare_package info'"
proof -
  have "replace_distribution_variables info = replace_distribution_variables info'"
    using assms by (intro ext) (simp add: replace_distribution_variables_def key_parts_def)
  then have "prepare_commands info = prepare_commands info'"
    by (intro ext) (simp add: prepare_commands_def)
  then show ?thesis by (intro ext) (simp add: prepare_package_def)
qed

lemma load_files_parts:
  "key_parts manager info = key_parts manager info' \<Longrightarrow>
     load_files embedded decode manager info fs ps = load_files embedded decode manager info' fs ps"
proof (induction fs arbitrary: ps)
  case (Cons f fs)
  then show ?case
    using prepare_package_parts [OF Cons.prems] by (simp split: option.split sum.split)
qed simp

lemma fresh_packages_key:
  assumes "separable manager info" "separable manager' info'"
    and "build_cache_key manager info = build_cache_key manager' info'"
  shows "fresh_packages embedded decode manager info = fresh_packages embedded decode manager' info'"
proof -
  have kp: "key_parts manager info = key_parts manager' info'" by (rule cache_key_inj [OF assms])
  then have m: "manager' = manager" and f: "files_to_load info = files_to_load info'"
    by (simp_all add: key_parts_def files_to_load_def)
  show ?thesis unfolding fresh_packages_def f m
    by (rule load_files_parts) (use kp m in simp)
qed

text \<open>The caches that lookups build up from the empty one.\<close>

inductive cache_reachable ::
  "(string \<Rightarrow> string option) \<Rightarrow> (string \<Rightarrow> package_config list result) \<Rightarrow> package_cache \<Rightarrow> bool"
  for embedded decode where
  start: "cache_reachable embedded decode Map.empty"
| lookup: "cache_reachable embedded decode c \<Longrightarrow> separable manager info \<Longrightarrow>
    cache_reachable embedded decode (snd (load_packages embedded decode manager info c))"

lemma cache_reachable_sound:
  "cache_reachable embedded decode c \<Longrightarrow> c key = Some ps \<Longrightarrow>
     \<exists>manager info. separable manager info \<and> key = build_cache_key manager info \<and>
       fresh_packages embedded decode manager info = Inr ps"
proof (induction arbitrary: key ps rule: cache_reachable.induct)
  case (lookup c manager info)
  show ?case
  proof (cases "c key = Some ps")
    case True
    then show ?thesis by (rule lookup.IH)
  next
    case False
    with lookup.prems have "key = build_cache_key manager info \<and> fresh_packages embedded decode manager info = Inr ps"
      by (auto simp: load_packages_def Let_def fresh_packages_def split: option.splits sum.splits if_splits)
    with lookup.hyps show ?thesis by blast
  qed
qed simp

section \<open>Properties\<close>

text \<open>
  Of the files for an operating system the most specific one wins: the configuration of
  a package is the last one that the files, read from general to specific, give under its
  name, with the variables of the system put into its commands.
\<close>

theorem most_specific_package_wins:
  assumes "load_packages embedded decode manager info Map.empty = (Inr ps, cache)"
  shows "ps n = map_option (prepare_package info)
      (last_named n (concat (map (file_configs embedded decode manager) (files_to_load info))))"
proof -
  have "load_files embedded decode manager info (files_to_load info) Map.empty = Inr ps"
    using assms by (auto simp: load_packages_def Let_def split: sum.splits)
  from load_files_last [OF this, of n] show ?thesis by (simp split: option.split)
qed

definition example_info :: os_info where
  "example_info =
     \<lparr>oi_kernel = [], oi_core = [], oi_distribution = ''debian'', oi_version = ''12'', oi_codename = ''bookworm'',
      oi_platform = ''amd64'', oi_os = [], oi_hostname = [], oi_cpus = 1\<rparr>"

definition example_config :: "string \<Rightarrow> package_config" where
  "example_config cmd =
     \<lparr>pc_name = ''php'', pc_dependencies = [], pc_replace_with = None, pc_lookup_paths = [], pc_path_env = [],
      pc_pre_install = [], pc_install = [[cmd]], pc_post_install = []\<rparr>"

definition example_embedded :: "string \<Rightarrow> string option" where
  "example_embedded f =
     (if f = ''apt/default.yaml'' then Some ''generic''
      else if f = ''apt/debian_bookworm.yaml'' then Some ''install  {{codename}}'' else None)"

theorem most_specific_package_wins_witness:
  "\<exists>ps. fst (load_packages example_embedded (\<lambda>s. Inr [example_config s]) ''apt'' example_info Map.empty) = Inr ps \<and>
     map_option pc_install (ps ''php'') = Some [[''install bookworm'']]"
proof -
  let ?l = "load_packages example_embedded (\<lambda>s. Inr [example_config s]) ''apt'' example_info Map.empty"
  have "case fst ?l of Inr _ \<Rightarrow> True | Inl _ \<Rightarrow> False" by code_simp
  then obtain ps where f: "fst ?l = Inr ps" by (cases "fst ?l") auto
  then have "?l = (Inr ps, snd ?l)" by (intro prod_eqI) (simp_all only: fst_conv snd_conv)
  note w = most_specific_package_wins [OF this, of "''php''"]
  have "map_option pc_install (map_option (prepare_package example_info) (last_named ''php''
      (concat (map (file_configs example_embedded (\<lambda>s. Inr [example_config s]) ''apt'') (files_to_load example_info))))) =
      Some [[''install bookworm'']]" by code_simp
  with w f show ?thesis by simp
qed

text \<open>
  The cache never changes the answer: after any lookups, a lookup gives what reading the
  files would give, as the cache key tells systems apart whose names have no underscore.
\<close>

theorem package_cache_is_transparent:
  assumes "cache_reachable embedded decode cache" and "separable manager info"
  shows "fst (load_packages embedded decode manager info cache) =
    fst (load_packages embedded decode manager info Map.empty)"
proof (cases "cache (build_cache_key manager info)")
  case None
  then show ?thesis by (simp add: load_packages_def Let_def split: sum.split)
next
  case (Some ps)
  from cache_reachable_sound [OF assms(1) this] obtain manager' info' where
    c: "separable manager' info'" "build_cache_key manager info = build_cache_key manager' info'"
      "fresh_packages embedded decode manager' info' = Inr ps" by blast
  with fresh_packages_key [OF assms(2) c(1,2)] have "fresh_packages embedded decode manager info = Inr ps" by simp
  with Some show ?thesis by (simp add: load_packages_def Let_def fresh_packages_def)
qed

theorem package_cache_is_transparent_witness:
  "fst (load_packages example_embedded (\<lambda>s. Inr [example_config s]) ''apt'' example_info
      (snd (load_packages example_embedded (\<lambda>s. Inr [example_config s]) ''apt'' example_info Map.empty))) =
   fst (load_packages example_embedded (\<lambda>s. Inr [example_config s]) ''apt'' example_info Map.empty)"
proof (rule package_cache_is_transparent)
  show s: "separable ''apt'' example_info" by (simp add: separable_def key_parts_def example_info_def)
  show "cache_reachable example_embedded (\<lambda>s. Inr [example_config s])
      (snd (load_packages example_embedded (\<lambda>s. Inr [example_config s]) ''apt'' example_info Map.empty))"
    by (intro cache_reachable.intros s)
qed

text \<open>
  \<open>PATH\<close> only grows: what was in it stays in front, and what is appended are existing
  entries that were not in it, each once.
\<close>

theorem path_only_grows:
  "\<exists>new. fst (update_env_path embedded decode walk file_exists info cache path) =
      (if new = [] then path else path @ '':'' @ join_with '':'' new) \<and>
    good_entries file_exists (split_char (CHR '':'') path) new"
proof -
  let ?cur = "split_char (CHR '':'') path"
  obtain apt c1 where a: "load_packages embedded decode ''apt'' info cache = (apt, c1)" by fastforce
  obtain dnf c2 where d: "load_packages embedded decode ''dnf'' info c1 = (dnf, c2)" by fastforce
  let ?new = "collect_manager_paths file_exists walk ?cur dnf (collect_manager_paths file_exists walk ?cur apt [])"
  have "good_entries file_exists ?cur ?new"
    by (intro good_entries_manager) (simp add: good_entries_def)
  then show ?thesis
    by (intro exI [of _ ?new]) (simp add: update_env_path_def Let_def a d)
qed

end
