(* ===== verification/PackageParsers.thy ===== *)
theory PackageParsers
  imports System
begin

text \<open>
  What the package managers of Linux print (\<open>pkg/package_manager\<close>): the listings of
  \<open>apt-cache show\<close>, \<open>yum info\<close>, \<open>dnf info\<close> and \<open>pacman -Si\<close>, the package lists of apt, and the
  version line of PHP. The three listings are read by the same kind of loop, whose laws are a
  locale.
\<close>

record package_info =
  pi_name :: string
  pi_architecture :: string
  pi_version :: string
  pi_size :: string
  pi_description :: string
  pi_installed_size_kb :: int

definition blank_package :: "string \<Rightarrow> package_info" where
  "blank_package name =
     \<lparr>pi_name = name, pi_architecture = [], pi_version = [], pi_size = [], pi_description = [],
      pi_installed_size_kb = 0\<rparr>"

text \<open>A line \<open>key: value\<close>; other lines are skipped.\<close>

definition field_of :: "string \<Rightarrow> (string \<times> string) option" where
  "field_of line =
     (case split_n2 '':'' line of
        [k, v] \<Rightarrow> Some (trim_space k, trim_space v)
      | _ \<Rightarrow> None)"

type_synonym scan_state = "package_info list \<times> package_info option"

definition flush :: "scan_state \<Rightarrow> package_info list" where
  "flush s = (case s of (ps, None) \<Rightarrow> ps | (ps, Some p) \<Rightarrow> ps @ [p])"

text \<open>
  The loop over the lines. A step may panic (\<open>None\<close>), which ends the loop.
\<close>

fun scan_fields :: "(string \<Rightarrow> string \<Rightarrow> 's \<Rightarrow> 's option) \<Rightarrow> string list \<Rightarrow> 's \<Rightarrow> 's option" where
  "scan_fields step [] s = Some s"
| "scan_fields step (l # ls) s =
     (case field_of l of
        None \<Rightarrow> scan_fields step ls s
      | Some (k, v) \<Rightarrow> (case step k v s of None \<Rightarrow> None | Some t \<Rightarrow> scan_fields step ls t))"

section \<open>\<open>apt-cache show\<close>\<close>

definition apt_set :: "string \<Rightarrow> string \<Rightarrow> package_info \<Rightarrow> package_info" where
  "apt_set k v p =
     (if k = ''Architecture'' then p\<lparr>pi_architecture := v\<rparr>
      else if k = ''Version'' then p\<lparr>pi_version := v\<rparr>
      else if k = ''Size'' then p\<lparr>pi_size := v\<rparr>
      else if k = ''Description'' then p\<lparr>pi_description := v\<rparr>
      else if k = ''Installed-Size'' then
        p\<lparr>pi_installed_size_kb := (case go_atoi v of None \<Rightarrow> 0 | Some n \<Rightarrow> n)\<rparr>
      else p)"

definition apt_step :: "string \<Rightarrow> string \<Rightarrow> scan_state \<Rightarrow> scan_state option" where
  "apt_step k v s =
     Some (if k = ''Package'' then (flush s, Some (blank_package v))
           else (fst s, map_option (apt_set k v) (snd s)))"

definition parse_apt_cache_show :: "string \<Rightarrow> package_info list" where
  "parse_apt_cache_show out =
     (case scan_fields apt_step (scan_lines out) ([], None) of None \<Rightarrow> [] | Some s \<Rightarrow> flush s)"

section \<open>\<open>yum info\<close> and \<open>dnf info\<close>\<close>

text \<open>
  Here the fields other than the name are set without looking whether there is a current
  package: a nil pointer, a panic.
\<close>

definition yum_set :: "string \<Rightarrow> string \<Rightarrow> package_info \<Rightarrow> package_info" where
  "yum_set k v p =
     (if k = ''Version'' then p\<lparr>pi_version := v\<rparr>
      else if k = ''Architecture'' then p\<lparr>pi_architecture := v\<rparr>
      else if k = ''Size'' then p\<lparr>pi_size := v\<rparr>
      else if k = ''Description'' then p\<lparr>pi_description := v\<rparr>
      else if k = [] \<and> v \<noteq> [] then p\<lparr>pi_description := pi_description p @ '' '' @ v\<rparr>
      else p)"

definition yum_step :: "string \<Rightarrow> string \<Rightarrow> scan_state \<Rightarrow> scan_state option" where
  "yum_step k v s =
     (if k = ''Name'' then Some (flush s, Some (blank_package v))
      else case snd s of
        Some p \<Rightarrow> Some (fst s, Some (yum_set k v p))
      | None \<Rightarrow>
          if k = ''Version'' \<or> k = ''Architecture'' \<or> k = ''Size'' \<or> k = ''Description''
          then None else Some s)"

definition parse_yum_info :: "string \<Rightarrow> package_info list option" where
  "parse_yum_info out = map_option flush (scan_fields yum_step (scan_lines out) ([], None))"

section \<open>\<open>pacman -Si\<close>\<close>

definition pacman_set :: "string \<Rightarrow> string \<Rightarrow> package_info \<Rightarrow> package_info" where
  "pacman_set k v p =
     (if k = ''Version'' then p\<lparr>pi_version := v\<rparr>
      else if k = ''Architecture'' then p\<lparr>pi_architecture := v\<rparr>
      else if k = ''Description'' then p\<lparr>pi_description := v\<rparr>
      else if k = ''Download Size'' then p\<lparr>pi_size := v\<rparr>
      else p)"

definition pacman_step :: "string \<Rightarrow> string \<Rightarrow> scan_state \<Rightarrow> scan_state option" where
  "pacman_step k v s =
     Some (if k = ''Name'' then (flush s, Some (blank_package v))
           else (fst s, map_option (pacman_set k v) (snd s)))"

definition parse_pacman_info :: "string \<Rightarrow> package_info list" where
  "parse_pacman_info out =
     (case scan_fields pacman_step (scan_lines out) ([], None) of None \<Rightarrow> [] | Some s \<Rightarrow> flush s)"

section \<open>The package lists of apt\<close>

record apt_list_package =
  al_package_name :: string
  al_version :: string
  al_architecture :: string
  al_depends :: "string list"
  al_size :: string
  al_installed_size :: string
  al_description :: string
  al_section :: string
  al_md5sum :: string
  al_sha256 :: string

definition blank_apt_package :: apt_list_package where
  "blank_apt_package =
     \<lparr>al_package_name = [], al_version = [], al_architecture = [], al_depends = [], al_size = [],
      al_installed_size = [], al_description = [], al_section = [], al_md5sum = [], al_sha256 = []\<rparr>"

definition apt_list_set :: "string \<Rightarrow> string \<Rightarrow> apt_list_package \<Rightarrow> apt_list_package" where
  "apt_list_set k v p =
     (if k = ''Package'' then p\<lparr>al_package_name := v\<rparr>
      else if k = ''Version'' then p\<lparr>al_version := v\<rparr>
      else if k = ''Architecture'' then p\<lparr>al_architecture := v\<rparr>
      else if k = ''Depends'' then p\<lparr>al_depends := split_char (CHR '','') v\<rparr>
      else if k = ''Size'' then p\<lparr>al_size := v\<rparr>
      else if k = ''Installed-Size'' then p\<lparr>al_installed_size := v\<rparr>
      else if k = ''Description'' then p\<lparr>al_description := v\<rparr>
      else if k = ''Section'' then p\<lparr>al_section := v\<rparr>
      else if k = ''MD5sum'' then p\<lparr>al_md5sum := v\<rparr>
      else if k = ''SHA256'' then p\<lparr>al_sha256 := v\<rparr>
      else p)"

text \<open>
  One file of \<open>/var/lib/apt/lists\<close>: a record is taken over at the empty line after it, so that
  a last record without one is dropped.
\<close>

fun scan_apt_list :: "string list \<Rightarrow> apt_list_package \<Rightarrow> apt_list_package list" where
  "scan_apt_list [] p = []"
| "scan_apt_list (l # ls) p =
     (if l = [] then
        (if al_package_name p \<noteq> [] then p # scan_apt_list ls blank_apt_package else scan_apt_list ls p)
      else case field_of l of
        None \<Rightarrow> scan_apt_list ls p
      | Some (k, v) \<Rightarrow> scan_apt_list ls (apt_list_set k v p))"

definition apt_search :: "string \<Rightarrow> apt_list_package list \<Rightarrow> bool \<Rightarrow> apt_list_package list" where
  "apt_search q packages exact =
     filter (\<lambda>p. if exact then al_package_name p = q else contains_str (al_package_name p) q) packages"

definition repo_file_list :: "string list \<Rightarrow> string list" where
  "repo_file_list names =
     filter (\<lambda>n. has_suffix n ''_Packages'' \<or> has_suffix n ''_Packages.lz4'') names"

definition apt_list_path :: string where "apt_list_path = ''/var/lib/apt/lists/''"

text \<open>\<open>unlz4\<close> is what reading the compressed file yields (up to the first error).\<close>

fun build_packages_list ::
  "'w os_env \<Rightarrow> (string \<Rightarrow> string) \<Rightarrow> string list \<Rightarrow> ('w, apt_list_package list) sys" where
  "build_packages_list os unlz4 [] = retE []"
| "build_packages_list os unlz4 (f # fs) =
     bindE (read_file os (path_join [apt_list_path, f])) (\<lambda>data.
     bindE (build_packages_list os unlz4 fs) (\<lambda>rest.
       retE (scan_apt_list (scan_lines (if has_suffix f ''.lz4'' then unlz4 data else data)) blank_apt_package @ rest)))"

text \<open>\<open>ls\<close> is \<open>os.ReadDir\<close> of the directory.\<close>

definition apt_list_search ::
  "'w os_env \<Rightarrow> ('w, string list) sys \<Rightarrow> (string \<Rightarrow> string) \<Rightarrow> string \<Rightarrow> ('w, apt_list_package list) sys" where
  "apt_list_search os ls unlz4 q =
     bindE (wrapE ''failed to list all packages''
       (bindE ls (\<lambda>names. build_packages_list os unlz4 (repo_file_list names))))
       (\<lambda>ps. retE (apt_search q ps False))"

section \<open>The version line of PHP\<close>

text \<open>
  What a line says: nothing (\<open>None\<close>), or a version, which is an error when it has no dot.
\<close>

definition php_version_of_line :: "string \<Rightarrow> string result option" where
  "php_version_of_line line =
     (let data = split_char (CHR '' '') line in
      if length data < 2 \<or> \<not> has_prefix (data ! 0) ''PHP'' then None
      else let vr = split_char (CHR ''.'') (hd (split_char (CHR ''-'') (data ! 1))) in
        Some (if length vr < 2 then Inl (Err ''failed to parse php version: empty version'')
              else Inr (vr ! 0 @ ''.'' @ vr ! 1)))"

definition parse_php_version :: "string \<Rightarrow> string result" where
  "parse_php_version s =
     (case first_some php_version_of_line (scan_lines s) of
        None \<Rightarrow> Inl (Err ''failed to parse php version'')
      | Some r \<Rightarrow> r)"

section \<open>What is printed is read back\<close>

text \<open>A printed field, and the text of a list of lines.\<close>

definition field_line :: "string \<times> string \<Rightarrow> string" where
  "field_line kv = fst kv @ '': '' @ snd kv"

definition unlines :: "string list \<Rightarrow> string" where
  "unlines ls = concat (map (\<lambda>l. l @ [CHR 0x0A]) ls)"

text \<open>A value that fits in one line of a listing.\<close>

definition plain_value :: "string \<Rightarrow> bool" where
  "plain_value v \<longleftrightarrow> trimmed v \<and> CHR 0x0A \<notin> set v \<and> length v < 65000"

definition plain_key :: "string \<Rightarrow> bool" where
  "plain_key k \<longleftrightarrow> trimmed k \<and> CHR '':'' \<notin> set k \<and> CHR 0x0A \<notin> set k \<and> length k < 500"

lemma trim_space_Cons_space: "go_space c \<Longrightarrow> trim_space (c # s) = trim_space s"
  by (simp add: trim_space_def trim_left_def)

lemma field_of_field_line:
  assumes "plain_key k" "plain_value v"
  shows "field_of (field_line (k, v)) = Some (k, v)"
proof -
  have "split_n2 '':'' (k @ CHR '':'' # CHR '' '' # v) = [k, CHR '' '' # v]"
    using assms(1) by (intro split_n2_char) (simp add: plain_key_def)
  moreover have "trim_space (CHR '' '' # v) = v"
    using assms(2) by (simp add: trim_space_Cons_space go_space_def plain_value_def trim_space_id)
  ultimately show ?thesis
    using assms(1) by (simp add: field_of_def field_line_def plain_key_def trim_space_id)
qed

lemma split_char_unlines:
  "(\<And>l. l \<in> set ls \<Longrightarrow> CHR 0x0A \<notin> set l) \<Longrightarrow> split_char (CHR 0x0A) (unlines ls) = ls @ [[]]"
  by (induction ls) (auto simp: unlines_def split_char_append)

lemma scan_lines_unlines:
  assumes "\<And>l. l \<in> set ls \<Longrightarrow> CHR 0x0A \<notin> set l \<and> length l < 65536 \<and> drop_cr l = l"
  shows "scan_lines (unlines ls) = ls"
proof -
  have "split_char (CHR 0x0A) (unlines ls) = ls @ [[]]" using assms by (intro split_char_unlines) blast
  then have "raw_lines (unlines ls) = ls" by (simp add: raw_lines_def Let_def)
  moreover have "takeWhile (\<lambda>l. length l < 65536) ls = ls" using assms by (simp add: takeWhile_eq_all_conv)
  moreover have "map drop_cr ls = ls" by (rule map_idI) (use assms in blast)
  ultimately show ?thesis unfolding scan_lines_def by (simp only:)
qed

lemma field_line_ok:
  assumes "plain_key k" "plain_value v"
  shows "CHR 0x0A \<notin> set (field_line (k, v)) \<and> length (field_line (k, v)) < 65536 \<and>
    drop_cr (field_line (k, v)) = field_line (k, v)"
proof -
  have "last (field_line (k, v)) \<noteq> CHR 0x0D"
  proof (cases "v = []")
    case False
    then show ?thesis
      using assms(2) by (auto simp: field_line_def plain_value_def trimmed_def go_space_def)
  qed (simp add: field_line_def)
  then show ?thesis
    using assms by (auto simp: field_line_def plain_key_def plain_value_def drop_cr_def)
qed

text \<open>A listing: the records of packages, the name first, one line per field.\<close>

definition print_listing :: "string \<Rightarrow> (package_info \<Rightarrow> string \<times> (string \<times> string) list) \<Rightarrow> package_info list \<Rightarrow> string" where
  "print_listing start record_of ps =
     unlines (concat (map (\<lambda>(n, kvs). map field_line ((start, n) # kvs)) (map record_of ps)))"

text \<open>
  The contract of the three loops: the key \<open>start\<close> begins a record, and any other key sets a
  field of the current record.
\<close>

locale record_scanner =
  fixes start :: string
    and set_field :: "string \<Rightarrow> string \<Rightarrow> package_info \<Rightarrow> package_info"
    and step :: "string \<Rightarrow> string \<Rightarrow> scan_state \<Rightarrow> scan_state option"
  assumes step_start: "step start v s = Some (flush s, Some (blank_package v))"
    and step_field: "k \<noteq> start \<Longrightarrow> step k v (ps, Some p) = Some (ps, Some (set_field k v p))"
    and start_key: "plain_key start"
begin

definition build :: "string \<Rightarrow> (string \<times> string) list \<Rightarrow> package_info" where
  "build name kvs = fold (\<lambda>(k, v). set_field k v) kvs (blank_package name)"

definition good_fields :: "(string \<times> string) list \<Rightarrow> bool" where
  "good_fields kvs \<longleftrightarrow> (\<forall>(k, v) \<in> set kvs. plain_key k \<and> k \<noteq> start \<and> plain_value v)"

lemma scan_append:
  "scan_fields step (as @ bs) s = (case scan_fields step as s of None \<Rightarrow> None | Some t \<Rightarrow> scan_fields step bs t)"
  by (induction as arbitrary: s) (auto split: option.split prod.split)

lemma scan_record_fields:
  "good_fields kvs \<Longrightarrow>
     scan_fields step (map field_line kvs) (ps, Some p) = Some (ps, Some (fold (\<lambda>(k, v). set_field k v) kvs p))"
proof (induction kvs arbitrary: p)
  case (Cons kv kvs)
  obtain k v where kv: "kv = (k, v)" by fastforce
  with Cons.prems have "field_of (field_line kv) = Some (k, v)" "k \<noteq> start" "good_fields kvs"
    by (auto simp: good_fields_def intro: field_of_field_line)
  with Cons.IH kv show ?case by (simp add: step_field)
qed simp

text \<open>A record is its name and its other fields, in the order they are printed.\<close>

lemma scan_records:
  "(\<And>n kvs. (n, kvs) \<in> set rs \<Longrightarrow> plain_value n \<and> good_fields kvs) \<Longrightarrow>
     \<exists>t. scan_fields step (concat (map (\<lambda>(n, kvs). map field_line ((start, n) # kvs)) rs)) s = Some t \<and>
       flush t = flush s @ map (\<lambda>(n, kvs). build n kvs) rs"
proof (induction rs arbitrary: s)
  case (Cons r rs)
  obtain n kvs where r: "r = (n, kvs)" by fastforce
  with Cons.prems have ok: "plain_value n" "good_fields kvs" by auto
  let ?s = "(flush s, Some (build n kvs))"
  have "scan_fields step (map field_line ((start, n) # kvs)) s = Some ?s"
    using field_of_field_line [OF start_key ok(1)] scan_record_fields [OF ok(2)]
    by (simp add: step_start build_def)
  moreover obtain t where "scan_fields step (concat (map (\<lambda>(n, kvs). map field_line ((start, n) # kvs)) rs)) ?s = Some t"
    "flush t = flush ?s @ map (\<lambda>(n, kvs). build n kvs) rs"
    using Cons by (meson list.set_intros(2))
  moreover have "flush ?s = flush s @ [build n kvs]" by (simp add: flush_def)
  ultimately show ?case
    unfolding r list.map concat.simps prod.case scan_append by simp
qed simp

text \<open>The same from the printed text.\<close>

lemma scan_listing:
  assumes "\<And>n kvs. (n, kvs) \<in> set rs \<Longrightarrow> plain_value n \<and> good_fields kvs"
  shows "\<exists>t. scan_fields step
      (scan_lines (unlines (concat (map (\<lambda>(n, kvs). map field_line ((start, n) # kvs)) rs)))) ([], None) = Some t \<and>
    flush t = map (\<lambda>(n, kvs). build n kvs) rs"
proof -
  let ?ls = "concat (map (\<lambda>(n, kvs). map field_line ((start, n) # kvs)) rs)"
  have "\<exists>k v. l = field_line (k, v) \<and> plain_key k \<and> plain_value v" if l: "l \<in> set ?ls" for l
  proof -
    obtain n kvs where r: "(n, kvs) \<in> set rs" "l \<in> field_line ` insert (start, n) (set kvs)" using l by auto
    then obtain k v where "l = field_line (k, v)" "(k, v) = (start, n) \<or> (k, v) \<in> set kvs" by auto
    with assms [OF r(1)] start_key show ?thesis by (fastforce simp: good_fields_def)
  qed
  then have "scan_lines (unlines ?ls) = ?ls"
    by (intro scan_lines_unlines) (metis field_line_ok)
  with scan_records [OF assms, of rs "([], None)"] show ?thesis by (simp add: flush_def)
qed

lemma read_back:
  assumes "\<And>p. p \<in> set ps \<Longrightarrow> plain_value (fst (rec p)) \<and> good_fields (snd (rec p)) \<and>
    build (fst (rec p)) (snd (rec p)) = f p"
  shows "\<exists>t. scan_fields step (scan_lines (print_listing start rec ps)) ([], None) = Some t \<and> flush t = map f ps"
proof -
  have "plain_value n \<and> good_fields kvs" if "(n, kvs) \<in> set (map rec ps)" for n kvs
  proof -
    from that obtain p where "p \<in> set ps" "rec p = (n, kvs)" by auto
    with assms [of p] show ?thesis by simp
  qed
  from scan_listing [OF this] have "\<exists>t. scan_fields step (scan_lines (print_listing start rec ps)) ([], None) = Some t \<and>
      flush t = map (\<lambda>(n, kvs). build n kvs) (map rec ps)"
    unfolding print_listing_def .
  moreover have "map (\<lambda>(n, kvs). build n kvs) (map rec ps) = map f ps"
    using assms by (auto simp: split_def)
  ultimately show ?thesis by (simp only:)
qed

end

section \<open>The three listings\<close>

lemma plain_keys [simp]:
  "plain_key ''Package''" "plain_key ''Name''" "plain_key ''Version''" "plain_key ''Architecture''"
  "plain_key ''Size''" "plain_key ''Description''" "plain_key ''Installed-Size''" "plain_key ''Download Size''"
  by (simp_all add: plain_key_def trimmed_def go_space_def)

interpretation apt_listing: record_scanner "''Package''" apt_set apt_step
  by unfold_locales (simp_all add: apt_step_def)

interpretation yum_listing: record_scanner "''Name''" yum_set yum_step
  by unfold_locales (simp_all add: yum_step_def)

interpretation pacman_listing: record_scanner "''Name''" pacman_set pacman_step
  by unfold_locales (simp_all add: pacman_step_def)

text \<open>
  What the tools print for a package: one line per field, the name first. Only apt prints the
  installed size, as a number of kilobytes.
\<close>

definition apt_record :: "package_info \<Rightarrow> string \<times> (string \<times> string) list" where
  "apt_record p = (pi_name p,
     [(''Architecture'', pi_architecture p), (''Version'', pi_version p),
      (''Installed-Size'', itoa_nat (nat (pi_installed_size_kb p))), (''Size'', pi_size p),
      (''Description'', pi_description p)])"

definition yum_record :: "package_info \<Rightarrow> string \<times> (string \<times> string) list" where
  "yum_record p = (pi_name p,
     [(''Version'', pi_version p), (''Architecture'', pi_architecture p), (''Size'', pi_size p),
      (''Description'', pi_description p)])"

definition pacman_record :: "package_info \<Rightarrow> string \<times> (string \<times> string) list" where
  "pacman_record p = (pi_name p,
     [(''Version'', pi_version p), (''Description'', pi_description p),
      (''Architecture'', pi_architecture p), (''Download Size'', pi_size p)])"

definition printable :: "package_info \<Rightarrow> bool" where
  "printable p \<longleftrightarrow> plain_value (pi_name p) \<and> plain_value (pi_architecture p) \<and> plain_value (pi_version p) \<and>
     plain_value (pi_size p) \<and> plain_value (pi_description p) \<and>
     0 \<le> pi_installed_size_kb p \<and> pi_installed_size_kb p < 2 ^ 63"

lemma length_itoa: "n < 10 ^ Suc k \<Longrightarrow> length (itoa_nat n) \<le> Suc k"
proof (induction k arbitrary: n)
  case (Suc k)
  show ?case
  proof (cases "n < 10")
    case False
    have "n div 10 < 10 ^ Suc k" using Suc.prems by (simp add: less_mult_imp_div_less)
    with Suc.IH [of "n div 10"] False show ?thesis by (simp add: itoa_nat.simps [of n])
  qed (simp add: itoa_nat.simps [of n])
qed (simp add: itoa_nat.simps)

lemma digit_no_space: "is_digit c \<Longrightarrow> \<not> go_space c"
  by (auto simp: is_digit_def go_space_def)

lemma plain_itoa: "n < 2 ^ 63 \<Longrightarrow> plain_value (itoa_nat n)"
proof -
  assume n: "n < 2 ^ 63"
  have d: "is_digit c" if "c \<in> set (itoa_nat n)" for c
    using that itoa_nat_digits [of n] by (simp add: list_all_iff)
  then have "\<not> go_space (hd (itoa_nat n))" "\<not> go_space (last (itoa_nat n))"
    by (auto intro!: digit_no_space d)
  moreover have "length (itoa_nat n) \<le> 19" using n by (intro length_itoa [of n 18, simplified]) simp
  ultimately show "plain_value (itoa_nat n)"
    using itoa_nat_notin [of "CHR 0x0A" n] by (simp add: plain_value_def trimmed_def is_digit_def)
qed

lemma apt_record_ok:
  assumes "printable p"
  shows "apt_listing.good_fields (snd (apt_record p))"
    and "apt_listing.build (fst (apt_record p)) (snd (apt_record p)) = p"
proof -
  have n: "nat (pi_installed_size_kb p) < 2 ^ 63" using assms by (simp add: printable_def nat_less_iff)
  show "apt_listing.good_fields (snd (apt_record p))"
    using assms plain_itoa [OF n] by (simp add: apt_listing.good_fields_def apt_record_def printable_def)
  show "apt_listing.build (fst (apt_record p)) (snd (apt_record p)) = p"
    using assms atoi_itoa [OF n]
    by (simp add: apt_listing.build_def apt_record_def apt_set_def blank_package_def printable_def)
qed

lemma yum_record_ok:
  assumes "printable p"
  shows "yum_listing.good_fields (snd (yum_record p))"
    and "yum_listing.build (fst (yum_record p)) (snd (yum_record p)) = p\<lparr>pi_installed_size_kb := 0\<rparr>"
  using assms
  by (simp_all add: yum_listing.good_fields_def yum_listing.build_def yum_record_def yum_set_def
      blank_package_def printable_def)

lemma pacman_record_ok:
  assumes "printable p"
  shows "pacman_listing.good_fields (snd (pacman_record p))"
    and "pacman_listing.build (fst (pacman_record p)) (snd (pacman_record p)) = p\<lparr>pi_installed_size_kb := 0\<rparr>"
  using assms
  by (simp_all add: pacman_listing.good_fields_def pacman_listing.build_def pacman_record_def pacman_set_def
      blank_package_def printable_def)

lemma apt_read_back:
  assumes "\<forall>p \<in> set ps. printable p"
  shows "parse_apt_cache_show (print_listing ''Package'' apt_record ps) = ps"
proof -
  have "plain_value (fst (apt_record p))" if "p \<in> set ps" for p
    using that assms by (simp add: apt_record_def printable_def)
  with assms apt_record_ok have "\<exists>t. scan_fields apt_step (scan_lines (print_listing ''Package'' apt_record ps)) ([], None) = Some t \<and>
      flush t = map (\<lambda>p. p) ps"
    by (intro apt_listing.read_back) blast
  then show ?thesis by (auto simp: parse_apt_cache_show_def)
qed

lemma yum_read_back:
  assumes "\<forall>p \<in> set ps. printable p"
  shows "parse_yum_info (print_listing ''Name'' yum_record ps) = Some (map (\<lambda>p. p\<lparr>pi_installed_size_kb := 0\<rparr>) ps)"
proof -
  have "plain_value (fst (yum_record p))" if "p \<in> set ps" for p
    using that assms by (simp add: yum_record_def printable_def)
  with assms yum_record_ok have "\<exists>t. scan_fields yum_step (scan_lines (print_listing ''Name'' yum_record ps)) ([], None) = Some t \<and>
      flush t = map (\<lambda>p. p\<lparr>pi_installed_size_kb := 0\<rparr>) ps"
    by (intro yum_listing.read_back) blast
  then show ?thesis by (auto simp: parse_yum_info_def)
qed

lemma pacman_read_back:
  assumes "\<forall>p \<in> set ps. printable p"
  shows "parse_pacman_info (print_listing ''Name'' pacman_record ps) = map (\<lambda>p. p\<lparr>pi_installed_size_kb := 0\<rparr>) ps"
proof -
  have "plain_value (fst (pacman_record p))" if "p \<in> set ps" for p
    using that assms by (simp add: pacman_record_def printable_def)
  with assms pacman_record_ok have "\<exists>t. scan_fields pacman_step (scan_lines (print_listing ''Name'' pacman_record ps)) ([], None) = Some t \<and>
      flush t = map (\<lambda>p. p\<lparr>pi_installed_size_kb := 0\<rparr>) ps"
    by (intro pacman_listing.read_back) blast
  then show ?thesis by (auto simp: parse_pacman_info_def)
qed

section \<open>Properties\<close>


definition listed_example :: "package_info list" where
  "listed_example =
     [\<lparr>pi_name = ''nginx'', pi_architecture = ''amd64'', pi_version = ''1.18.0-6'', pi_size = ''89880'',
       pi_description = ''small: web server'', pi_installed_size_kb = 102\<rparr>,
      \<lparr>pi_name = ''curl'', pi_architecture = ''amd64'', pi_version = ''7.74'', pi_size = ''270000'',
       pi_description = [], pi_installed_size_kb = 448\<rparr>]"


text \<open>
  The reader of \<open>yum info\<close> and \<open>dnf info\<close> panics exactly when a field line comes before
  the first package name; the readers of apt and pacman skip such a line.
\<close>

theorem yum_panics_before_first_name:
  assumes "plain_key k" "plain_value v"
  shows "parse_yum_info (unlines [field_line (k, v)]) = None \<longleftrightarrow>
    k \<in> {''Version'', ''Architecture'', ''Size'', ''Description''}"
proof -
  have "scan_lines (unlines [field_line (k, v)]) = [field_line (k, v)]"
    using field_line_ok [OF assms] by (intro scan_lines_unlines) auto
  then show ?thesis
    using field_of_field_line [OF assms] by (auto simp: parse_yum_info_def yum_step_def)
qed

theorem yum_panics_before_first_name_witness:
  "parse_yum_info (unlines [field_line (''Size'', ''89880'')]) = None"
  using yum_panics_before_first_name [of "''Size''" "''89880''"]
  by (simp add: plain_value_def trimmed_def go_space_def)

end
