(* ===== verification/Partial.thy ===== *)
theory Partial
  imports System
begin

text \<open>
  Operations that may not return: the combinators of the prelude for them, the relations they
  keep, and their comparison up to the text of error messages.
\<close>

section \<open>Operations that may not return\<close>

text \<open>
  Installing a package may loop for ever: such an operation is \<open>None\<close> where it never returns.
  These are the combinators of the prelude for it; \<open>liftP\<close> is an operation that always
  returns.
\<close>

type_synonym ('w, 'a) psys = "'w machine \<Rightarrow> ('a result \<times> 'w machine) option"

definition liftP :: "('w, 'a) sys \<Rightarrow> ('w, 'a) psys" where
  "liftP p m = Some (p m)"

definition bindP :: "('w, 'a) psys \<Rightarrow> ('a \<Rightarrow> ('w, 'b) psys) \<Rightarrow> ('w, 'b) psys" where
  "bindP p f m =
     (case p m of
        None \<Rightarrow> None
      | Some (Inl e, t) \<Rightarrow> Some (Inl e, t)
      | Some (Inr x, t) \<Rightarrow> f x t)"

definition wrapP :: "string \<Rightarrow> ('w, 'a) psys \<Rightarrow> ('w, 'a) psys" where
  "wrapP msg p m = map_option (\<lambda>(r, t). (with_message msg r, t)) (p m)"

definition catchP :: "('w, 'a) psys \<Rightarrow> (go_error \<Rightarrow> ('w, 'a) psys) \<Rightarrow> ('w, 'a) psys" where
  "catchP p h m =
     (case p m of
        None \<Rightarrow> None
      | Some (Inl e, t) \<Rightarrow> h e t
      | Some (Inr x, t) \<Rightarrow> Some (Inr x, t))"

definition finallyP :: "('w, 'a) psys \<Rightarrow> ('w, unit) sys \<Rightarrow> ('w, 'a) psys" where
  "finallyP p f m = map_option (\<lambda>(r, t). (r, snd (f t))) (p m)"

fun eachP :: "('a \<Rightarrow> ('w, unit) psys) \<Rightarrow> 'a list \<Rightarrow> ('w, unit) psys" where
  "eachP f [] = liftP (retE ())"
| "eachP f (x # xs) = bindP (f x) (\<lambda>_. eachP f xs)"

section \<open>Frames\<close>

text \<open>A relation between states that an operation keeps when it returns.\<close>

definition keepsP :: "('w machine \<Rightarrow> 'w machine \<Rightarrow> bool) \<Rightarrow> ('w, 'a) psys \<Rightarrow> bool" where
  "keepsP R p \<longleftrightarrow> (\<forall>m r t. p m = Some (r, t) \<longrightarrow> R m t)"

lemma keepsP_D: "keepsP R p \<Longrightarrow> p m = Some (r, t) \<Longrightarrow> R m t"
  by (auto simp: keepsP_def)

lemma keepsP_liftP: "keeps R p \<Longrightarrow> keepsP R (liftP p)"
  unfolding keepsP_def liftP_def keeps_def by (metis option.inject snd_conv)

lemma keepsP_bindP:
  assumes "transp R" "keepsP R p" "\<And>x. keepsP R (f x)"
  shows "keepsP R (bindP p f)"
  unfolding keepsP_def
proof (intro allI impI)
  fix m r t assume b: "bindP p f m = Some (r, t)"
  then obtain q u where q: "p m = Some (q, u)" by (auto simp: bindP_def split: option.splits)
  with assms(2) have "R m u" by (auto simp: keepsP_def)
  show "R m t"
  proof (cases q)
    case (Inl e)
    with b q \<open>R m u\<close> show ?thesis by (simp add: bindP_def)
  next
    case (Inr x)
    with b q have "f x u = Some (r, t)" by (simp add: bindP_def)
    with assms(3) have "R u t" by (auto simp: keepsP_def)
    with \<open>R m u\<close> assms(1) show ?thesis by (blast dest: transpD)
  qed
qed

lemma keepsP_wrapP: "keepsP R p \<Longrightarrow> keepsP R (wrapP msg p)"
  by (auto simp: keepsP_def wrapP_def)

lemma keepsP_catchP:
  assumes "transp R" "keepsP R p" "\<And>e. keepsP R (h e)"
  shows "keepsP R (catchP p h)"
  using assms unfolding keepsP_def catchP_def
  by (auto split: option.splits sum.splits) (meson transpD)

lemma keepsP_finallyP: "transp R \<Longrightarrow> keepsP R p \<Longrightarrow> keeps R f \<Longrightarrow> keepsP R (finallyP p f)"
  unfolding keepsP_def keeps_def finallyP_def by (auto, meson transpD)

lemma keepsP_eachP: "reflp R \<Longrightarrow> transp R \<Longrightarrow> (\<And>x. keepsP R (f x)) \<Longrightarrow> keepsP R (eachP f xs)"
  by (induction xs) (auto intro: keepsP_liftP keeps_retE keepsP_bindP)

lemma keeps_value: "reflp R \<Longrightarrow> keeps R (\<lambda>m. (f m, m))"
  by (simp add: keeps_def reflpD)

lemma keeps_choose: "keeps R p \<Longrightarrow> keeps R q \<Longrightarrow> keeps R (\<lambda>m. if P m then p m else q m)"
  by (simp add: keeps_def)

section \<open>Outcomes\<close>

text \<open>What an operation did, its error messages apart.\<close>

definition outcome :: "('a result \<times> 'w machine) option \<Rightarrow> (bool \<times> 'w machine) option" where
  "outcome x = map_option (\<lambda>(r, t). (case r of Inl _ \<Rightarrow> False | Inr _ \<Rightarrow> True, t)) x"

definition agree :: "('w, 'a) psys \<Rightarrow> ('w, 'a) psys \<Rightarrow> bool" where
  "agree p q \<longleftrightarrow> (\<forall>m. outcome (p m) = outcome (q m))"

lemma outcome_simps [simp]:
  "outcome None = None" "outcome (Some (Inl e, t)) = Some (False, t)" "outcome (Some (Inr x, t)) = Some (True, t)"
  by (simp_all add: outcome_def)

lemma agree_refl [simp]: "agree p p"
  by (simp add: agree_def)

lemma agree_trans: "agree p q \<Longrightarrow> agree q r \<Longrightarrow> agree p r"
  by (simp add: agree_def)

lemma bindP_outcome_cases:
  obtains "p m = None" | e t where "p m = Some (Inl e, t)" | x t where "p m = Some (Inr x, t)"
  by (cases "p m") (auto, metis sum.exhaust)

lemma agree_wrap: "agree (wrapP msg p) p"
  unfolding agree_def
proof
  fix m
  show "outcome (wrapP msg p m) = outcome (p m)"
    by (rule bindP_outcome_cases [of p m]) (simp_all add: wrapP_def)
qed

lemma agree_bind_wrap: "agree (bindP (wrapP msg p) f) (bindP p f)"
  by (simp add: agree_def wrapP_def bindP_def outcome_def with_message_def split: option.split sum.split prod.split)

lemma agree_bind_right: "(\<And>x. agree (f x) (g x)) \<Longrightarrow> agree (bindP p f) (bindP p g)"
  by (simp add: agree_def bindP_def outcome_def split: option.split sum.split prod.split)

lemma agree_bind:
  assumes "agree p q" "agree f g"
  shows "agree (bindP p (\<lambda>_ :: unit. f)) (bindP q (\<lambda>_. g))"
  unfolding agree_def
proof
  fix m
  from assms(1) have o: "outcome (p m) = outcome (q m)" by (simp add: agree_def)
  show "outcome (bindP p (\<lambda>_. f) m) = outcome (bindP q (\<lambda>_. g) m)"
    by (rule bindP_outcome_cases [of p m]; rule bindP_outcome_cases [of q m])
      (use o assms(2) in \<open>auto simp: bindP_def agree_def\<close>)
qed

lemma agree_eachP: "(\<And>x. agree (f x) (g x)) \<Longrightarrow> agree (eachP f xs) (eachP g xs)"
  by (induction xs) (auto intro: agree_bind)

lemma bindP_assoc: "bindP (bindP p f) g = bindP p (\<lambda>x. bindP (f x) g)"
  by (intro ext) (simp add: bindP_def split: option.split sum.split prod.split)

lemma bindP_ret [simp]: "bindP (liftP (retE x)) f = f x"
  by (intro ext) (simp add: bindP_def liftP_def retE_def)

lemma wrapP_ret [simp]: "wrapP msg (liftP (retE x)) = liftP (retE x)"
  by (intro ext) (simp add: wrapP_def liftP_def retE_def)

lemma bindP_ret_unit [simp]: "bindP p (\<lambda>_. liftP (retE ())) = p"
  by (intro ext) (simp add: bindP_def liftP_def retE_def split: option.split sum.split prod.split)

lemma eachP_append: "eachP f (xs @ ys) = bindP (eachP f xs) (\<lambda>_. eachP f ys)"
  by (induction xs) (simp_all add: bindP_assoc)

lemma eachP_map: "eachP f (map g xs) = eachP (\<lambda>x. f (g x)) xs"
  by (induction xs) simp_all

lemma liftP_bindE: "liftP (bindE p f) = bindP (liftP p) (\<lambda>x. liftP (f x))"
  by (intro ext) (simp add: liftP_def bindP_def bindE_def split: prod.split sum.split)

lemma liftP_eachE: "liftP (eachE f xs) = eachP (\<lambda>x. liftP (f x)) xs"
  by (induction xs) (simp_all add: liftP_bindE)

section \<open>Operations that return\<close>

definition returns :: "('w, 'a) psys \<Rightarrow> bool" where
  "returns p \<longleftrightarrow> (\<forall>m. p m \<noteq> None)"

lemma returnsI: "(\<And>m. p m \<noteq> None) \<Longrightarrow> returns p"
  by (simp add: returns_def)

lemma returnsD: "returns p \<Longrightarrow> p m \<noteq> None"
  by (simp add: returns_def)

lemma returns_liftP [simp]: "returns (liftP p)"
  by (simp add: returns_def liftP_def)

lemma returns_bindP: "returns p \<Longrightarrow> (\<And>x. returns (f x)) \<Longrightarrow> returns (bindP p f)"
  by (auto simp: returns_def bindP_def split: option.split sum.split prod.split)

lemma returns_wrapP: "returns p \<Longrightarrow> returns (wrapP msg p)"
  by (simp add: returns_def wrapP_def)

lemma returns_catchP: "returns p \<Longrightarrow> (\<And>e. returns (h e)) \<Longrightarrow> returns (catchP p h)"
  by (auto simp: returns_def catchP_def split: option.split sum.split prod.split)

lemma returns_finallyP: "returns p \<Longrightarrow> returns (finallyP p f)"
  by (simp add: returns_def finallyP_def)

lemma returns_eachP: "(\<And>x. x \<in> set xs \<Longrightarrow> returns (f x)) \<Longrightarrow> returns (eachP f xs)"
  by (induction xs) (auto intro: returns_bindP)

lemma returns_choose: "returns p \<Longrightarrow> returns q \<Longrightarrow> returns (\<lambda>m. if P m then p m else q m)"
  by (simp add: returns_def)

lemmas returns_intros = returns_liftP returns_bindP returns_wrapP returns_catchP returns_finallyP returns_eachP

text \<open>Only what an operation can yield matters to what follows it.\<close>

lemma bindP_liftP_cong:
  "(\<And>x m t. p m = (Inr x, t) \<Longrightarrow> f x = g x) \<Longrightarrow> bindP (liftP p) f = bindP (liftP p) g"
  by (rule ext) (simp add: bindP_def liftP_def split: prod.split sum.split)

end
