(* ===== verification/PackageManagers.thy ===== *)
theory PackageManagers
  imports PackageConfig PackageParsers Partial
begin

text \<open>
  The package managers of Linux (\<open>pkg/package_manager\<close>): apt, yum, dnf and pacman as commands,
  the wrapper that runs the steps of the package configurations, the packages that come as a
  chroot, the fallback from one manager to another, and the choice of the manager. Commands,
  downloads, the template engine and the lz4 reader are parameters.
\<close>

section \<open>The environment\<close>

type_synonym config_values = "(string \<times> string) list"

text \<open>
  \<open>pe_exec env cmd\<close> runs a command with entries added to its environment; \<open>pe_combined\<close> also
  gives what it printed, even when it fails; \<open>pe_stdout\<close> gives its standard output.
  \<open>pe_render\<close> is the template engine with the resolved lookup paths and the configuration
  values; \<open>pe_repository\<close> the address that the program downloads its packages from.
\<close>

record 'w pm_env =
  pe_host :: "'w host"
  pe_info :: os_info
  pe_exec :: "string list \<Rightarrow> string list \<Rightarrow> ('w, unit) sys"
  pe_combined :: "string list \<Rightarrow> string list \<Rightarrow> 'w machine \<Rightarrow> (string \<times> go_error option) \<times> 'w machine"
  pe_stdout :: "string list \<Rightarrow> ('w, string) sys"
  pe_list_dir :: "string \<Rightarrow> ('w, string list) sys"
  pe_unlz4 :: "string \<Rightarrow> string"
  pe_render :: "(string \<times> string) list \<Rightarrow> config_values \<Rightarrow> string \<Rightarrow> ('w, string) sys"
  pe_download :: "string \<Rightarrow> string \<Rightarrow> ('w, unit) sys"
  pe_download_archive :: "string \<Rightarrow> string \<Rightarrow> ('w, unit) sys"
  pe_make_temp :: "('w, string) sys"
  pe_remove_all :: "string \<Rightarrow> ('w, unit) sys"
  pe_repository :: string

abbreviation pe_os :: "'w pm_env \<Rightarrow> 'w os_env" where "pe_os pe \<equiv> ho_os (pe_host pe)"

definition command_found :: "'w pm_env \<Rightarrow> string \<Rightarrow> 'w machine \<Rightarrow> bool" where
  "command_found pe name m = (case ho_look_path (pe_host pe) name m of Inr _ \<Rightarrow> True | Inl _ \<Rightarrow> False)"

section \<open>The interface\<close>

record 'w package_manager =
  pm_search :: "string \<Rightarrow> ('w, package_info list) sys"
  pm_install :: "string \<Rightarrow> config_values \<Rightarrow> ('w, unit) psys"
  pm_check :: "('w, unit) sys"
  pm_remove :: "string list \<Rightarrow> ('w, unit) sys"
  pm_purge :: "string list \<Rightarrow> ('w, unit) sys"

section \<open>Managers that are commands\<close>

definition blank_pack :: "string \<Rightarrow> bool" where
  "blank_pack p \<longleftrightarrow> p = [] \<or> p = '' ''"

definition real_packs :: "string list \<Rightarrow> string list" where
  "real_packs ps = filter (\<lambda>p. \<not> blank_pack p) ps"

definition install_command :: "'w pm_env \<Rightarrow> string list \<Rightarrow> string list \<Rightarrow> string \<Rightarrow> ('w, unit) sys" where
  "install_command pe envs cmd p = (if blank_pack p then retE () else pe_exec pe envs (cmd @ [p]))"

definition remove_command :: "'w pm_env \<Rightarrow> string list \<Rightarrow> string list \<Rightarrow> string list \<Rightarrow> ('w, unit) sys" where
  "remove_command pe envs cmd ps = pe_exec pe envs (cmd @ real_packs ps)"

definition apt_env :: "string list" where
  "apt_env = [''DEBIAN_FRONTEND=noninteractive'', ''NEEDRESTART_SUSPEND=1'']"

text \<open>
  A query by command: with an error, an output that says so means that nothing was found.
  \<open>parse\<close> is \<open>None\<close> when the reader panics.
\<close>

definition query_command ::
  "'w pm_env \<Rightarrow> string list \<Rightarrow> string list \<Rightarrow> string \<Rightarrow> (go_error \<Rightarrow> go_error) \<Rightarrow>
   (string \<Rightarrow> package_info list option) \<Rightarrow> ('w, package_info list) sys" where
  "query_command pe envs cmd none wrap parse m =
     (case pe_combined pe envs cmd m of
        ((out, Some e), t) \<Rightarrow> (if contains_str out none then Inr [] else Inl (wrap e), t)
      | ((out, None), t) \<Rightarrow>
          (case parse out of
             None \<Rightarrow> (Inl (Panic ''nil pointer dereference''), t)
           | Some ps \<Rightarrow> (Inr ps, t)))"

definition package_of_apt_list :: "apt_list_package \<Rightarrow> package_info" where
  "package_of_apt_list p =
     \<lparr>pi_name = al_package_name p, pi_architecture = al_architecture p, pi_version = al_version p,
      pi_size = al_size p, pi_description = al_description p,
      pi_installed_size_kb = (case go_atoi (al_installed_size p) of None \<Rightarrow> 0 | Some n \<Rightarrow> n)\<rparr>"

definition search_apt_cache :: "'w pm_env \<Rightarrow> string \<Rightarrow> ('w, package_info list) sys" where
  "search_apt_cache pe name =
     query_command pe apt_env [''apt-cache'', ''show'', name] ''E: No packages found''
       (\<lambda>e. WithMessage e ''failed to run apt-cache'') (\<lambda>out. Some (parse_apt_cache_show out))"

definition apt_manager_search :: "'w pm_env \<Rightarrow> string \<Rightarrow> ('w, package_info list) sys" where
  "apt_manager_search pe name =
     bindE (wrapE ''failed to search package''
       (apt_list_search (pe_os pe) (pe_list_dir pe apt_list_path) (pe_unlz4 pe) name)) (\<lambda>found.
       if found = [] then search_apt_cache pe name else retE (map package_of_apt_list found))"

definition apt_manager :: "'w pm_env \<Rightarrow> 'w package_manager" where
  "apt_manager pe =
     \<lparr>pm_search = apt_manager_search pe,
      pm_install = (\<lambda>p _. liftP (install_command pe apt_env [''apt-get'', ''install'', ''-y''] p)),
      pm_check = pe_exec pe apt_env [''apt-get'', ''update'', ''-q''],
      pm_remove = remove_command pe apt_env [''apt-get'', ''remove'', ''-y''],
      pm_purge = remove_command pe apt_env [''apt-get'', ''purge'', ''-y'']\<rparr>"

text \<open>yum and dnf differ in the name of the command only.\<close>

definition rpm_manager :: "string \<Rightarrow> 'w pm_env \<Rightarrow> 'w package_manager" where
  "rpm_manager cmd pe =
     \<lparr>pm_search = (\<lambda>name. query_command pe [] [cmd, ''info'', name] ''Error: No matching Packages to list''
        (\<lambda>e. e) parse_yum_info),
      pm_install = (\<lambda>p _. liftP (install_command pe [] [cmd, ''install'', ''-y''] p)),
      pm_check = retE (),
      pm_remove = remove_command pe [] [cmd, ''remove'', ''-y''],
      pm_purge = remove_command pe [] [cmd, ''remove'', ''-y'']\<rparr>"

definition yum_manager :: "'w pm_env \<Rightarrow> 'w package_manager" where
  "yum_manager pe = rpm_manager ''yum'' pe"

definition dnf_manager :: "'w pm_env \<Rightarrow> 'w package_manager" where
  "dnf_manager pe = rpm_manager ''dnf'' pe"

definition pacman_manager :: "'w pm_env \<Rightarrow> 'w package_manager" where
  "pacman_manager pe =
     \<lparr>pm_search = (\<lambda>name. query_command pe [] [''pacman'', ''-Si'', name] ''was not found''
        (\<lambda>e. e) (\<lambda>out. Some (parse_pacman_info out))),
      pm_install = (\<lambda>p _. liftP (install_command pe [] [''pacman'', ''-S'', ''--noconfirm'', ''--needed''] p)),
      pm_check = pe_exec pe [] [''pacman'', ''-Sy'', ''--noconfirm''],
      pm_remove = remove_command pe [] [''pacman'', ''-R'', ''--noconfirm''],
      pm_purge = remove_command pe [] [''pacman'', ''-R'', ''--noconfirm'']\<rparr>"

section \<open>The version of PHP\<close>

definition chroot_php_path :: string where "chroot_php_path = ''/opt/php''"

definition package_mark_file :: string where "package_mark_file = ''.gameap-package''"

definition chroot_php_mark :: string where
  "chroot_php_mark = path_join [chroot_php_path, package_mark_file]"

definition define_php_version :: "'w pm_env \<Rightarrow> ('w, string) sys" where
  "define_php_version pe m =
     (if stat_file (pe_os pe) chroot_php_mark m = StatOk then
        bindE (wrapE ''failed to check php version''
          (pe_stdout pe [''chroot'', chroot_php_path, ''/usr/bin/php'', ''--version'']))
          (\<lambda>out m. (parse_php_version out, m)) m
      else case ho_look_path (pe_host pe) ''php'' m of
        Inl e \<Rightarrow> (Inl (WithMessage e ''php command not found''), m)
      | Inr php \<Rightarrow>
          (case pe_combined pe [] [php, ''--version''] m of
             ((out, Some e), t) \<Rightarrow> (Inl (WithMessage e ''failed to check php version''), t)
           | ((out, None), t) \<Rightarrow> (parse_php_version out, t)))"

section \<open>What is special to apt\<close>

definition apt_install_dependencies :: "'w package_manager \<Rightarrow> packages \<Rightarrow> string list \<Rightarrow> ('w, unit) psys" where
  "apt_install_dependencies apt packages packs =
     eachP (\<lambda>d. wrapP ''failed to install dependencies'' (pm_install apt d []))
       (concat (map (\<lambda>p. case packages p of None \<Rightarrow> [] | Some c \<Rightarrow> pc_dependencies c) packs))"

definition apt_repository_tools :: "'w package_manager \<Rightarrow> ('w, unit) psys" where
  "apt_repository_tools apt =
     bindP (liftP (pm_search apt ''software-properties-common'')) (\<lambda>a.
     bindP (liftP (pm_search apt ''apt-transport-https'')) (\<lambda>b.
       eachP (\<lambda>p. pm_install apt p [])
         ((if a \<noteq> [] then [''software-properties-common''] else []) @
          (if b \<noteq> [] then [''apt-transport-https''] else []))))"

text \<open>One round of the search for a version of PHP, newest first.\<close>

fun search_php :: "'w package_manager \<Rightarrow> string list \<Rightarrow> ('w, string option) sys" where
  "search_php apt [] = retE None"
| "search_php apt (v # vs) =
     bindE (pm_search apt (''php'' @ v)) (\<lambda>found. if found \<noteq> [] then retE (Some v) else search_php apt vs)"

definition php_versions :: "string list" where
  "php_versions = [''8.4'', ''8.3'', ''8.2'', ''8.1'', ''8.0'', ''7.4'', ''7.3'']"

definition add_php_repositories :: "'w pm_env \<Rightarrow> ('w, bool) sys" where
  "add_php_repositories pe =
     (if oi_distribution (pe_info pe) = ''ubuntu'' then
        bindE (pe_exec pe (apt_env @ [''LC_ALL=C.UTF-8'']) [''add-apt-repository'', ''ppa:ondrej/php''])
          (\<lambda>_. retE True)
      else if oi_distribution (pe_info pe) = ''debian'' then
        bindE (\<lambda>m. if is_file_exists (pe_os pe) ''/etc/apt/sources.list.d/php.list'' m then (Inr (), m)
               else write_contents_to_file (pe_os pe)
                 (''deb https://packages.sury.org/php/ '' @ oi_codename (pe_info pe) @ '' main'')
                 ''/etc/apt/sources.list.d/php.list'' m) (\<lambda>_.
        bindE (pe_download pe ''https://packages.sury.org/php/apt.gpg'' ''/etc/apt/trusted.gpg.d/php.gpg'')
          (\<lambda>_. retE True))
      else retE False)"

text \<open>
  The loop of \<open>findPHPPackages\<close>: it ends with a version, with an error, or when nothing is found
  after a repository was added. \<open>None\<close> is a loop that never ends.
\<close>

partial_function (option) find_php_version ::
  "'w pm_env \<Rightarrow> 'w package_manager \<Rightarrow> bool \<Rightarrow> 'w machine \<Rightarrow> (string result \<times> 'w machine) option" where
  "find_php_version pe apt repo_added m =
     (case search_php apt php_versions m of
        (Inl e, t) \<Rightarrow> Some (Inl e, t)
      | (Inr (Some v), t) \<Rightarrow> Some (Inr v, t)
      | (Inr None, t) \<Rightarrow>
          if repo_added then Some (Inl (Err ''php version not found''), t)
          else (case add_php_repositories pe t of
             (Inl e, u) \<Rightarrow> Some (Inl e, u)
           | (Inr added, u) \<Rightarrow> find_php_version pe apt added u))"

definition php_package_names :: "string \<Rightarrow> string list" where
  "php_package_names v =
     map (\<lambda>x. ''php'' @ v @ ''-'' @ x)
       [''bcmath'', ''bz2'', ''cli'', ''curl'', ''fpm'', ''gd'', ''gmp'', ''intl'', ''mbstring'', ''mysql'',
        ''opcache'', ''pgsql'', ''sqlite'', ''readline'', ''xml'', ''zip'']"

definition find_php_packages :: "'w pm_env \<Rightarrow> 'w package_manager \<Rightarrow> ('w, string list) psys" where
  "find_php_packages pe apt =
     bindP (find_php_version pe apt False) (\<lambda>v. liftP (retE (php_package_names v)))"

definition apache_package_process :: "'w pm_env \<Rightarrow> 'w package_manager \<Rightarrow> ('w, unit) psys" where
  "apache_package_process pe apt =
     bindP (wrapP ''failed to define php version'' (liftP (define_php_version pe))) (\<lambda>v.
     bindP (pm_install apt ''apache2'' []) (\<lambda>_. pm_install apt (''libapache2-mod-php'' @ v) []))"

fun apt_transform :: "'w pm_env \<Rightarrow> 'w package_manager \<Rightarrow> string list \<Rightarrow> ('w, string list) psys" where
  "apt_transform pe apt [] = liftP (retE [])"
| "apt_transform pe apt (p # ps) =
     bindP (if p = ''php'' \<or> p = ''php-extensions'' then
              bindP (apt_repository_tools apt) (\<lambda>_. find_php_packages pe apt)
            else if p = ''apache2'' then
              bindP (wrapP ''failed to process apache packages'' (apache_package_process pe apt))
                (\<lambda>_. liftP (retE []))
            else liftP (retE [p])) (\<lambda>qs.
     bindP (apt_transform pe apt ps) (\<lambda>rest. liftP (retE (qs @ rest))))"

definition apt_pre_remove :: "'w pm_env \<Rightarrow> 'w package_manager \<Rightarrow> string list \<Rightarrow> ('w, unit) sys" where
  "apt_pre_remove pe apt packs =
     eachE (\<lambda>p. if p = ''mysql-server'' \<and> oi_distribution (pe_info pe) \<in> set [''ubuntu'', ''debian'']
                then wrapE ''failed to purge mysql packages'' (pm_purge apt [''mysql*''])
                else retE ()) packs"

text \<open>The two strategies of \<open>packageInstallStrategy\<close>.\<close>

datatype 'w strategy = NoopStrategy | AptStrategy "'w package_manager"

fun install_dependencies :: "'w strategy \<Rightarrow> packages \<Rightarrow> string list \<Rightarrow> ('w, unit) psys" where
  "install_dependencies NoopStrategy packages packs = liftP (retE ())"
| "install_dependencies (AptStrategy apt) packages packs = apt_install_dependencies apt packages packs"

fun transform_packages :: "'w pm_env \<Rightarrow> 'w strategy \<Rightarrow> string list \<Rightarrow> ('w, string list) psys" where
  "transform_packages pe NoopStrategy packs = liftP (retE packs)"
| "transform_packages pe (AptStrategy apt) packs = apt_transform pe apt packs"

fun pre_remove :: "'w pm_env \<Rightarrow> 'w strategy \<Rightarrow> string list \<Rightarrow> ('w, unit) sys" where
  "pre_remove pe NoopStrategy packs = retE ()"
| "pre_remove pe (AptStrategy apt) packs = apt_pre_remove pe apt packs"

section \<open>The wrapper with the steps of the configurations\<close>

record 'w extended =
  ex_packages :: packages
  ex_underlined :: "'w package_manager"
  ex_strategy :: "'w strategy"

definition replace_aliases :: "packages \<Rightarrow> string list \<Rightarrow> string list" where
  "replace_aliases packages packs =
     concat (map (\<lambda>p. case packages p of
        Some c \<Rightarrow> (case pc_replace_with c of Some qs \<Rightarrow> qs | None \<Rightarrow> [p])
      | None \<Rightarrow> [p]) packs)"

definition exclude_found :: "'w pm_env \<Rightarrow> packages \<Rightarrow> 'w machine \<Rightarrow> string list \<Rightarrow> string list" where
  "exclude_found pe packages m packs =
     filter (\<lambda>p. case packages p of
        None \<Rightarrow> True
      | Some c \<Rightarrow> \<not> list_ex (\<lambda>l. command_found pe l m) (pc_lookup_paths c)) packs"

definition resolve_lookups :: "'w pm_env \<Rightarrow> 'w machine \<Rightarrow> string list \<Rightarrow> (string \<times> string) list" where
  "resolve_lookups pe m paths =
     List.map_filter (\<lambda>p. case ho_look_path (pe_host pe) p m of Inr q \<Rightarrow> Some (p, q) | Inl _ \<Rightarrow> None) paths"

definition execute_command :: "'w pm_env \<Rightarrow> string \<Rightarrow> ('w, unit) sys" where
  "execute_command pe cmd m =
     (let c = trim_space cmd; shell = (if command_found pe ''bash'' m then ''bash'' else ''sh'') in
      if c = [] then (Inr (), m) else pe_exec pe [] [shell, ''-c'', c] m)"

text \<open>A command of a step; \<open>kind\<close> is the phase, for the messages.\<close>

definition run_step_command ::
  "'w pm_env \<Rightarrow> string \<Rightarrow> string \<Rightarrow> (string \<times> string) list \<Rightarrow> config_values \<Rightarrow> string \<Rightarrow> ('w, unit) sys" where
  "run_step_command pe kind name vars opts cmd =
     bindE (wrapE (''failed to replace runtime variables in '' @ kind @ '' command for '' @ name @ '': '' @ cmd)
       (pe_render pe vars opts cmd)) (\<lambda>c.
       wrapE (''failed to execute '' @ kind @ '' command for '' @ name @ '': '' @ c) (execute_command pe c))"

definition check_conditions :: "'w pm_env \<Rightarrow> string list \<Rightarrow> 'w machine \<Rightarrow> bool" where
  "check_conditions pe conds m \<longleftrightarrow>
     list_all (\<lambda>f. f = [] \<or> stat_file (pe_os pe) f m \<noteq> StatOk) conds"

definition run_pre_install :: "'w pm_env \<Rightarrow> config_values \<Rightarrow> string \<Rightarrow> package_config \<Rightarrow> ('w, unit) sys" where
  "run_pre_install pe opts name c m =
     (let vars = resolve_lookups pe m (pc_lookup_paths c) in
      eachE (\<lambda>s m. if check_conditions pe (ps_file_not_exists s) m
                   then eachE (run_step_command pe ''pre-install'' name vars opts) (ps_run_commands s) m
                   else (Inr (), m)) (pc_pre_install c) m)"

definition run_steps ::
  "'w pm_env \<Rightarrow> string \<Rightarrow> config_values \<Rightarrow> string \<Rightarrow> string list \<Rightarrow> string list list \<Rightarrow> ('w, unit) sys" where
  "run_steps pe kind opts name lookup_paths steps m =
     (let vars = resolve_lookups pe m lookup_paths in
      eachE (\<lambda>cmds. eachE (run_step_command pe kind name vars opts) cmds) steps m)"

text \<open>The three loops over packages; a package is executed once in each.\<close>

fun execute_pre_install ::
  "'w pm_env \<Rightarrow> packages \<Rightarrow> config_values \<Rightarrow> string list \<Rightarrow> string list \<Rightarrow> ('w, unit) sys" where
  "execute_pre_install pe packages opts executed [] = retE ()"
| "execute_pre_install pe packages opts executed (p # ps) =
     (case packages p of
        None \<Rightarrow> execute_pre_install pe packages opts executed ps
      | Some c \<Rightarrow>
          if pc_pre_install c = [] \<or> p \<in> set executed then execute_pre_install pe packages opts executed ps
          else bindE (run_pre_install pe opts p c)
                 (\<lambda>_. execute_pre_install pe packages opts (p # executed) ps))"

fun execute_install_steps ::
  "'w pm_env \<Rightarrow> packages \<Rightarrow> config_values \<Rightarrow> string list \<Rightarrow> string list \<Rightarrow> ('w, string list) sys" where
  "execute_install_steps pe packages opts executed [] = retE []"
| "execute_install_steps pe packages opts executed (p # ps) =
     (case packages p of
        None \<Rightarrow> bindE (execute_install_steps pe packages opts executed ps) (\<lambda>qs. retE (p # qs))
      | Some c \<Rightarrow>
          if pc_install c = [] then
            bindE (execute_install_steps pe packages opts executed ps) (\<lambda>qs. retE (p # qs))
          else if p \<in> set executed then execute_install_steps pe packages opts executed ps
          else bindE (run_steps pe ''install'' opts p (pc_lookup_paths c) (pc_install c))
                 (\<lambda>_. execute_install_steps pe packages opts (p # executed) ps))"

fun execute_post_install ::
  "'w pm_env \<Rightarrow> packages \<Rightarrow> config_values \<Rightarrow> string list \<Rightarrow> string list \<Rightarrow> ('w, unit) sys" where
  "execute_post_install pe packages opts executed [] = retE ()"
| "execute_post_install pe packages opts executed (p # ps) =
     (case packages p of
        None \<Rightarrow> execute_post_install pe packages opts executed ps
      | Some c \<Rightarrow>
          if pc_post_install c = [] \<or> p \<in> set executed then execute_post_install pe packages opts executed ps
          else bindE (run_steps pe ''post-install'' opts p (pc_lookup_paths c) (pc_post_install c))
                 (\<lambda>_. execute_post_install pe packages opts (p # executed) ps))"

text \<open>\<open>packs\<close> is the package, unless one of its commands is there already.\<close>

definition extended_run ::
  "'w pm_env \<Rightarrow> 'w extended \<Rightarrow> string list \<Rightarrow> string \<Rightarrow> config_values \<Rightarrow> ('w, unit) psys" where
  "extended_run pe ex packs pack opts =
     (let packages = ex_packages ex in
      bindP (wrapP ''failed to install dependencies'' (install_dependencies (ex_strategy ex) packages packs)) (\<lambda>_.
      bindP (wrapP ''failed to run pre-installation steps''
        (bindP (wrapP ''failed to run pre-installation steps''
           (liftP (execute_pre_install pe packages opts [] (dedup (packs @ [pack])))))
           (\<lambda>_. transform_packages pe (ex_strategy ex) (dedup (packs @ [pack]))))) (\<lambda>packs.
      bindP (wrapP ''failed to run install steps''
        (liftP (execute_install_steps pe packages opts [] (replace_aliases packages packs)))) (\<lambda>packs.
      bindP (eachP (\<lambda>p. wrapP ''failed to install packages'' (pm_install (ex_underlined ex) p opts)) packs) (\<lambda>_.
        wrapP ''failed to run post-installation steps''
          (liftP (execute_post_install pe packages opts [] (dedup (packs @ [pack])))))))))"

definition extended_install :: "'w pm_env \<Rightarrow> 'w extended \<Rightarrow> string \<Rightarrow> config_values \<Rightarrow> ('w, unit) psys" where
  "extended_install pe ex pack opts m =
     (let packs = exclude_found pe (ex_packages ex) m [pack] in
      if packs = [] then Some (Inr (), m) else extended_run pe ex packs pack opts m)"

definition extended_remove_by ::
  "'w pm_env \<Rightarrow> 'w extended \<Rightarrow> (string list \<Rightarrow> ('w, unit) sys) \<Rightarrow> string list \<Rightarrow> ('w, unit) sys" where
  "extended_remove_by pe ex remove packs =
     bindE (wrapE ''failed preRemovingSteps'' (pre_remove pe (ex_strategy ex) packs))
       (\<lambda>_. remove (replace_aliases (ex_packages ex) packs))"

definition extended_manager :: "'w pm_env \<Rightarrow> 'w extended \<Rightarrow> 'w package_manager" where
  "extended_manager pe ex =
     \<lparr>pm_search = pm_search (ex_underlined ex),
      pm_install = extended_install pe ex,
      pm_check = pm_check (ex_underlined ex),
      pm_remove = extended_remove_by pe ex (pm_remove (ex_underlined ex)),
      pm_purge = extended_remove_by pe ex (pm_purge (ex_underlined ex))\<rparr>"

section \<open>Packages that come as a chroot\<close>

record chroot_package =
  cp_archive_url :: string
  cp_unit_url :: string
  cp_path :: string
  cp_info :: package_info

text \<open>The table \<open>chrootPackages\<close>; none of its entries has a function to run after the install.\<close>

definition chroot_packages :: "'w pm_env \<Rightarrow> string \<Rightarrow> string \<Rightarrow> chroot_package option" where
  "chroot_packages pe pack platform =
     (if pack = ''php'' \<and> platform = ''amd64'' then
        Some \<lparr>cp_archive_url = pe_repository pe @ ''/chroots/php/php8.1-amd64.tar.gz'',
              cp_unit_url = pe_repository pe @ ''/chroots/php/php8.1-fpm.service'',
              cp_path = chroot_php_path,
              cp_info = \<lparr>pi_name = ''php'', pi_architecture = ''amd64'', pi_version = ''8.1'', pi_size = ''49 MB'',
                pi_description = ''PHP 8.1'', pi_installed_size_kb = 72000\<rparr>\<rparr>
      else None)"

definition skip_chroot :: "string \<Rightarrow> bool" where
  "skip_chroot pack \<longleftrightarrow> pack = ''php-extensions''"

definition chroot_search :: "'w pm_env \<Rightarrow> string \<Rightarrow> ('w, package_info list) sys" where
  "chroot_search pe name =
     retE (case chroot_packages pe name (oi_platform (pe_info pe)) of None \<Rightarrow> [] | Some p \<Rightarrow> [cp_info p])"

text \<open>The part of \<open>path.Base\<close> that is needed here is that of \<open>filepath.Base\<close>.\<close>

definition chroot_unit_path :: "chroot_package \<Rightarrow> string" where
  "chroot_unit_path p = path_join [''/etc/systemd/system'', path_base (cp_unit_url p)]"

definition chroot_mark :: "chroot_package \<Rightarrow> string" where
  "chroot_mark p = path_join [cp_path p, package_mark_file]"

definition chroot_fetch :: "'w pm_env \<Rightarrow> chroot_package \<Rightarrow> string \<Rightarrow> ('w, unit) sys" where
  "chroot_fetch pe p tmp =
     (let archive = path_join [tmp, path_base (cp_archive_url p)] in
      bindE (wrapE ''failed to download chroot package'' (pe_download_archive pe (cp_archive_url p) archive)) (\<lambda>_.
      bindE (wrapE ''failed to create chroot package installation path'' (mkdir_all (pe_os pe) (cp_path p))) (\<lambda>_.
      bindE (wrapE ''failed to extract chroot package''
        (pe_exec pe [] [''tar'', ''-xvf'', archive, ''-C'', cp_path p])) (\<lambda>_.
        wrapE ''failed to download chroot systemd unit'' (pe_download pe (cp_unit_url p) (chroot_unit_path p))))))"

definition chroot_install_package :: "'w pm_env \<Rightarrow> string \<Rightarrow> ('w, unit) sys" where
  "chroot_install_package pe pack m =
     (if skip_chroot pack then (Inr (), m)
      else case chroot_packages pe pack (oi_platform (pe_info pe)) of
        None \<Rightarrow> (Inl (PackageNotFound pack), m)
      | Some p \<Rightarrow>
          if stat_file (pe_os pe) (chroot_mark p) m = StatOk then (Inr (), m)
          else bindE (wrapE ''failed to create temp dir'' (pe_make_temp pe)) (\<lambda>tmp.
                 finallyE (chroot_fetch pe p tmp) (pe_remove_all pe tmp)) m)"

definition chroot_install :: "'w pm_env \<Rightarrow> string \<Rightarrow> ('w, unit) sys" where
  "chroot_install pe pack =
     (if skip_chroot pack then retE ()
      else case chroot_packages pe pack (oi_platform (pe_info pe)) of
        None \<Rightarrow> failE (PackageNotFound pack)
      | Some _ \<Rightarrow> wrapE (''failed to install '' @ pack @ '' package'') (chroot_install_package pe pack))"

definition chroot_remove_package :: "'w pm_env \<Rightarrow> string \<Rightarrow> ('w, unit) sys" where
  "chroot_remove_package pe pack m =
     (case chroot_packages pe pack (oi_platform (pe_info pe)) of
        None \<Rightarrow> (Inl (PackageNotFound pack), m)
      | Some p \<Rightarrow>
          if stat_file (pe_os pe) (cp_path p) m = StatMissing then (Inr (), m)
          else if stat_file (pe_os pe) (chroot_mark p) m = StatMissing
          then (Inl (Err ''package is not marked as installed by gameapctl''), m)
          else bindE (wrapE ''failed to remove chroot package'' (pe_remove_all pe (cp_path p))) (\<lambda>_.
                 wrapE ''failed to remove chroot systemd unit'' (remove_file (pe_os pe) (chroot_unit_path p))) m)"

definition chroot_remove :: "'w pm_env \<Rightarrow> string list \<Rightarrow> ('w, unit) sys" where
  "chroot_remove pe packs =
     bindE (eachE (\<lambda>p. if chroot_packages pe p (oi_platform (pe_info pe)) = None
                       then failE (PackageNotFound p) else retE ()) packs) (\<lambda>_.
       eachE (\<lambda>p. wrapE (''failed to remove '' @ p @ '' package'') (chroot_remove_package pe p)) packs)"

definition chroot_manager :: "'w pm_env \<Rightarrow> 'w package_manager" where
  "chroot_manager pe =
     \<lparr>pm_search = chroot_search pe, pm_install = (\<lambda>p _. liftP (chroot_install pe p)), pm_check = retE (),
      pm_remove = chroot_remove pe, pm_purge = chroot_remove pe\<rparr>"

section \<open>Falling back from one manager to another\<close>

definition fallback_search ::
  "'w package_manager \<Rightarrow> 'w package_manager \<Rightarrow> string \<Rightarrow> ('w, package_info list) sys" where
  "fallback_search base other name m =
     (case pm_search base name m of (b, t) \<Rightarrow>
       (case pm_search other name t of
          (Inl fe, u) \<Rightarrow> (Inl (case b of Inl be \<Rightarrow> MultiErr be fe | Inr _ \<Rightarrow> fe), u)
        | (Inr fs, u) \<Rightarrow> (Inr ((case b of Inl _ \<Rightarrow> [] | Inr bs \<Rightarrow> bs) @ fs), u)))"

definition fallback_install ::
  "'w package_manager \<Rightarrow> 'w package_manager \<Rightarrow> string \<Rightarrow> config_values \<Rightarrow> ('w, unit) psys" where
  "fallback_install base other pack opts =
     catchP (pm_install base pack opts) (\<lambda>e.
       catchP (pm_install other pack opts) (\<lambda>fe. liftP (failE (MultiErr e fe))))"

definition fallback_check :: "'w package_manager \<Rightarrow> 'w package_manager \<Rightarrow> ('w, unit) sys" where
  "fallback_check base other =
     catchE (pm_check base) (\<lambda>e. catchE (pm_check other) (\<lambda>fe. failE (MultiErr e fe)))"

definition fallback_manager :: "'w package_manager \<Rightarrow> 'w package_manager \<Rightarrow> 'w package_manager" where
  "fallback_manager base other =
     \<lparr>pm_search = fallback_search base other, pm_install = fallback_install base other,
      pm_check = fallback_check base other, pm_remove = pm_remove base, pm_purge = pm_purge base\<rparr>"

section \<open>The choice of the manager\<close>

text \<open>\<open>loaded\<close> are the configurations of the manager (\<open>LoadPackages\<close>).\<close>

definition new_extended_apt :: "'w pm_env \<Rightarrow> (string \<Rightarrow> packages result) \<Rightarrow> 'w package_manager result" where
  "new_extended_apt pe loaded =
     (case loaded ''apt'' of
        Inl e \<Rightarrow> Inl (WithMessage e ''failed to load package configurations'')
      | Inr ps \<Rightarrow> Inr (extended_manager pe
          \<lparr>ex_packages = ps, ex_underlined = apt_manager pe, ex_strategy = AptStrategy (apt_manager pe)\<rparr>))"

definition new_extended_noop ::
  "'w pm_env \<Rightarrow> (string \<Rightarrow> packages result) \<Rightarrow> string \<Rightarrow> 'w package_manager \<Rightarrow> 'w package_manager result" where
  "new_extended_noop pe loaded name u =
     (case loaded name of
        Inl e \<Rightarrow> Inl (WithMessage e (''failed to load '' @ name @ '' packages configuration''))
      | Inr ps \<Rightarrow> Inr (extended_manager pe \<lparr>ex_packages = ps, ex_underlined = u, ex_strategy = NoopStrategy\<rparr>))"

definition load_debian_manager :: "'w pm_env \<Rightarrow> (string \<Rightarrow> packages result) \<Rightarrow> 'w package_manager result" where
  "load_debian_manager pe loaded =
     (if oi_codename (pe_info pe) \<in> set [''buster'', ''bullseye'', ''bookworm''] then new_extended_apt pe loaded
      else case new_extended_apt pe loaded of
        Inl e \<Rightarrow> Inl e
      | Inr pm \<Rightarrow> Inr (fallback_manager pm (chroot_manager pe)))"

definition load_ubuntu_manager :: "'w pm_env \<Rightarrow> (string \<Rightarrow> packages result) \<Rightarrow> 'w package_manager result" where
  "load_ubuntu_manager pe loaded =
     (if oi_codename (pe_info pe) \<in> set [''focal'', ''jammy''] then new_extended_apt pe loaded
      else case new_extended_apt pe loaded of
        Inl e \<Rightarrow> Inl (WithMessage e ''failed to load ubuntu package'')
      | Inr pm \<Rightarrow> Inr (fallback_manager pm (chroot_manager pe)))"

definition load_centos_manager ::
  "'w pm_env \<Rightarrow> (string \<Rightarrow> packages result) \<Rightarrow> 'w machine \<Rightarrow> 'w package_manager result" where
  "load_centos_manager pe loaded m =
     new_extended_noop pe loaded ''dnf'' (if command_found pe ''dnf'' m then dnf_manager pe else yum_manager pe)"

definition detect_and_load_manager ::
  "'w pm_env \<Rightarrow> (string \<Rightarrow> packages result) \<Rightarrow> 'w machine \<Rightarrow> 'w package_manager result" where
  "detect_and_load_manager pe loaded m =
     (if command_found pe ''apt'' m then new_extended_apt pe loaded
      else if command_found pe ''dnf'' m then new_extended_noop pe loaded ''dnf'' (dnf_manager pe)
      else if command_found pe ''yum'' m then new_extended_noop pe loaded ''dnf'' (yum_manager pe)
      else if command_found pe ''pacman'' m then new_extended_noop pe loaded ''pacman'' (pacman_manager pe)
      else Inl (UnsupportedDistribution (oi_distribution (pe_info pe))))"

text \<open>\<open>windows\<close> is the package manager of Windows, which is not modelled here.\<close>

definition load_package_manager ::
  "'w pm_env \<Rightarrow> (string \<Rightarrow> packages result) \<Rightarrow> 'w package_manager result \<Rightarrow> 'w machine \<Rightarrow>
   'w package_manager result" where
  "load_package_manager pe loaded windows m =
     (let d = oi_distribution (pe_info pe) in
      if d = ''debian'' then load_debian_manager pe loaded
      else if d = ''ubuntu'' then load_ubuntu_manager pe loaded
      else if d = ''centos'' then load_centos_manager pe loaded m
      else if d = ''arch'' then new_extended_noop pe loaded ''pacman'' (pacman_manager pe)
      else if d = ''windows'' then windows
      else detect_and_load_manager pe loaded m)"

section \<open>Finding a version of PHP\<close>

lemma find_php_version_round:
  "find_php_version pe apt True m \<noteq> None"
  by (subst find_php_version.simps) (auto split: prod.split sum.split option.split)

lemma add_php_repositories_True:
  "oi_distribution (pe_info pe) \<in> {''ubuntu'', ''debian''} \<Longrightarrow>
     add_php_repositories pe m = (Inr added, t) \<Longrightarrow> added"
  by (auto simp: add_php_repositories_def bindE_Inr_iff split: if_splits)

lemma add_php_repositories_False:
  "oi_distribution (pe_info pe) \<notin> {''ubuntu'', ''debian''} \<Longrightarrow> add_php_repositories pe = retE False"
  by (simp add: add_php_repositories_def)

lemma find_php_version_returns:
  assumes "oi_distribution (pe_info pe) \<in> {''ubuntu'', ''debian''}"
  shows "find_php_version pe apt added m \<noteq> None"
proof (cases added)
  case True
  then show ?thesis by (simp add: find_php_version_round del: not_None_eq)
next
  case False
  show ?thesis
  proof (cases "add_php_repositories pe (snd (search_php apt php_versions m))")
    case (Pair y u)
    then have "\<And>b. y = Inr b \<Longrightarrow> b" using add_php_repositories_True [OF assms] by blast
    with False Pair find_php_version_round [of pe apt u] show ?thesis
      by (subst find_php_version.simps) (auto split: prod.split sum.split option.split)
  qed
qed

text \<open>So every install of the managers for Debian, Ubuntu, CentOS and Arch returns.\<close>

lemma apt_transform_returns:
  assumes "oi_distribution (pe_info pe) \<in> {''ubuntu'', ''debian''}" and inst: "\<And>p opts. returns (pm_install apt p opts)"
  shows "returns (apt_transform pe apt ps)"
proof (induction ps)
  case (Cons p ps)
  have "returns (find_php_version pe apt False)"
    using find_php_version_returns [OF assms(1)] by (intro returnsI) simp
  then have "returns (find_php_packages pe apt)" "returns (apache_package_process pe apt)" "returns (apt_repository_tools apt)"
    unfolding find_php_packages_def apache_package_process_def apt_repository_tools_def
    by (auto intro!: returns_intros inst)
  with Cons show ?case by (auto intro!: returns_intros)
qed simp

lemma extended_install_returns:
  assumes "\<And>p opts. returns (pm_install (ex_underlined ex) p opts)"
    and "\<And>ps. returns (install_dependencies (ex_strategy ex) (ex_packages ex) ps)"
    and "\<And>ps. returns (transform_packages pe (ex_strategy ex) ps)"
  shows "returns (extended_install pe ex pack opts)"
proof -
  have "returns (extended_run pe ex packs pack opts)" for packs
    unfolding extended_run_def Let_def by (intro returns_intros assms)
  then show ?thesis by (simp add: returns_def extended_install_def Let_def)
qed

lemma command_manager_returns [simp]:
  "returns (pm_install (apt_manager pe) p opts)" "returns (pm_install (yum_manager pe) p opts)"
  "returns (pm_install (dnf_manager pe) p opts)" "returns (pm_install (pacman_manager pe) p opts)"
  "returns (pm_install (chroot_manager pe) p opts)"
  by (simp_all add: apt_manager_def yum_manager_def dnf_manager_def rpm_manager_def pacman_manager_def chroot_manager_def)

lemma loaded_manager_returns:
  assumes "load_package_manager pe loaded windows m = Inr pm"
    and "oi_distribution (pe_info pe) \<in> {''debian'', ''ubuntu'', ''centos'', ''arch''}"
  shows "returns (pm_install pm p opts)"
proof -
  have noop: "returns (pm_install (extended_manager pe \<lparr>ex_packages = ps, ex_underlined = u, ex_strategy = NoopStrategy\<rparr>) p opts)"
    if "\<And>p opts. returns (pm_install u p opts)" for ps u
    using that by (auto simp: extended_manager_def intro!: extended_install_returns)
  show ?thesis
  proof (cases "oi_distribution (pe_info pe) \<in> {''ubuntu'', ''debian''}")
    case True
    have apt: "returns (pm_install (extended_manager pe \<lparr>ex_packages = ps, ex_underlined = apt_manager pe,
        ex_strategy = AptStrategy (apt_manager pe)\<rparr>) p opts)" for ps
      using apt_transform_returns [OF True]
      by (auto simp: extended_manager_def apt_install_dependencies_def intro!: extended_install_returns returns_intros)
    with True assms(1) show ?thesis
      by (auto simp: load_package_manager_def load_debian_manager_def load_ubuntu_manager_def new_extended_apt_def
          fallback_manager_def fallback_install_def Let_def intro!: returns_catchP split: if_splits sum.splits)
  next
    case False
    with assms show ?thesis
      by (auto simp: load_package_manager_def load_centos_manager_def new_extended_noop_def Let_def
          intro!: noop split: if_splits sum.splits)
  qed
qed

section \<open>Frames\<close>

text \<open>
  The environment keeps a relation: its commands and downloads, and the file operations on the
  paths of the system that the managers write to.
\<close>

definition env_keeps :: "'w pm_env \<Rightarrow> ('w machine \<Rightarrow> 'w machine \<Rightarrow> bool) \<Rightarrow> bool" where
  "env_keeps pe R \<longleftrightarrow> reflp R \<and> transp R \<and>
     (\<forall>envs cmd. keeps R (pe_exec pe envs cmd)) \<and> (\<forall>envs cmd m. R m (snd (pe_combined pe envs cmd m))) \<and>
     (\<forall>cmd. keeps R (pe_stdout pe cmd)) \<and> (\<forall>d. keeps R (pe_list_dir pe d)) \<and>
     (\<forall>vars opts c. keeps R (pe_render pe vars opts c)) \<and>
     (\<forall>url dst. keeps R (pe_download pe url dst)) \<and> (\<forall>url dst. keeps R (pe_download_archive pe url dst)) \<and>
     keeps R (pe_make_temp pe) \<and> (\<forall>d. keeps R (pe_remove_all pe d)) \<and>
     (\<forall>d. keeps R (mkdir_all (pe_os pe) d)) \<and>
     (\<forall>p. has_prefix p ''/etc/systemd/system/'' \<longrightarrow> keeps R (remove_file (pe_os pe) p)) \<and>
     (\<forall>c. keeps R (write_file (pe_os pe) ''/etc/apt/sources.list.d/php.list'' c))"

lemma env_keepsD:
  assumes "env_keeps pe R"
  shows "reflp R" "transp R" "keeps R (pe_exec pe envs cmd)" "R m (snd (pe_combined pe envs cmd m))"
    "keeps R (pe_stdout pe cmd)" "keeps R (pe_list_dir pe d)" "keeps R (pe_render pe vars opts c)"
    "keeps R (pe_download pe url dst)" "keeps R (pe_download_archive pe url dst)" "keeps R (pe_make_temp pe)"
    "keeps R (pe_remove_all pe d)" "keeps R (mkdir_all (pe_os pe) d)"
    "has_prefix p ''/etc/systemd/system/'' \<Longrightarrow> keeps R (remove_file (pe_os pe) p)"
    "keeps R (write_file (pe_os pe) ''/etc/apt/sources.list.d/php.list'' c)"
  using assms by (auto simp: env_keeps_def)

text \<open>Steps that only use the environment.\<close>

lemma query_command_keeps: "env_keeps pe R \<Longrightarrow> keeps R (query_command pe envs cmd none wrap parse)"
proof (rule keepsI)
  fix m assume e: "env_keeps pe R"
  obtain out er t where "pe_combined pe envs cmd m = ((out, er), t)" by (metis prod.exhaust)
  moreover from this have "R m t" using env_keepsD(4) [OF e, of m envs cmd] by simp
  ultimately show "R m (snd (query_command pe envs cmd none wrap parse m))"
    by (simp add: query_command_def split: option.split)
qed

lemma combined_keeps: "env_keeps pe R \<Longrightarrow>
    keeps R (\<lambda>m. case pe_combined pe envs cmd m of (o_e, t) \<Rightarrow> (f o_e, t))"
  using env_keepsD(4) [of pe R _ envs cmd] by (simp add: keeps_def split_def)

lemma define_php_version_keeps: "env_keeps pe R \<Longrightarrow> keeps R (define_php_version pe)"
proof -
  assume e: "env_keeps pe R"
  have a: "keeps R (bindE (wrapE ''failed to check php version''
      (pe_stdout pe [''chroot'', chroot_php_path, ''/usr/bin/php'', ''--version'']))
      (\<lambda>out m. (parse_php_version out, m)))"
    by (intro keeps_bindE keeps_wrapE keeps_value) (auto simp: env_keepsD [OF e])
  have b: "keeps R (\<lambda>m. case look of
        Inl e \<Rightarrow> (Inl (WithMessage e ''php command not found''), m)
      | Inr php \<Rightarrow>
          (case pe_combined pe [] [php, ''--version''] m of
             ((out, Some e), t) \<Rightarrow> (Inl (WithMessage e ''failed to check php version''), t)
           | ((out, None), t) \<Rightarrow> (parse_php_version out, t)))" for look
  proof (cases look)
    case (Inl e')
    then show ?thesis by (simp add: keeps_value env_keepsD(1) [OF e])
  next
    case (Inr php)
    have "(case pe_combined pe [] [php, ''--version''] m of
             ((out, Some e), t) \<Rightarrow> (Inl (WithMessage e ''failed to check php version''), t)
           | ((out, None), t) \<Rightarrow> (parse_php_version out, t)) =
        (case pe_combined pe [] [php, ''--version''] m of (oe, t) \<Rightarrow>
          ((case oe of (out, Some e) \<Rightarrow> Inl (WithMessage e ''failed to check php version'')
            | (out, None) \<Rightarrow> parse_php_version out), t))" for m
      by (simp split: prod.split option.split)
    with Inr combined_keeps [OF e] show ?thesis by simp
  qed
  show ?thesis
  proof (rule keepsI)
    fix m
    from keepsD [OF b] have "R m (snd ((\<lambda>m. case ho_look_path (pe_host pe) ''php'' m of
        Inl e \<Rightarrow> (Inl (WithMessage e ''php command not found''), m)
      | Inr php \<Rightarrow>
          (case pe_combined pe [] [php, ''--version''] m of
             ((out, Some e), t) \<Rightarrow> (Inl (WithMessage e ''failed to check php version''), t)
           | ((out, None), t) \<Rightarrow> (parse_php_version out, t))) m))" .
    with keepsD [OF a, of m] show "R m (snd (define_php_version pe m))"
      unfolding define_php_version_def by (cases "stat_file (pe_os pe) chroot_php_mark m = StatOk") simp_all
  qed
qed

lemma read_file_keeps: "reflp R \<Longrightarrow> keeps R (read_file os p)"
  by (simp add: keeps_def read_file_state reflpD)

lemma build_packages_list_keeps: "reflp R \<Longrightarrow> transp R \<Longrightarrow> keeps R (build_packages_list os unlz4 fs)"
  by (induction fs) (auto intro!: keeps_retE keeps_bindE read_file_keeps)

lemma apt_manager_search_keeps: "env_keeps pe R \<Longrightarrow> keeps R (apt_manager_search pe name)"
  unfolding apt_manager_search_def apt_list_search_def search_apt_cache_def
  by (intro keeps_bindE keeps_wrapE) (auto intro!: build_packages_list_keeps keeps_retE query_command_keeps simp: env_keepsD)

lemma write_php_list_keeps:
  "env_keeps pe R \<Longrightarrow> keeps R (\<lambda>m. if P m then (Inr (), m)
     else write_contents_to_file (pe_os pe) c ''/etc/apt/sources.list.d/php.list'' m)"
  unfolding write_contents_to_file_def by (intro keeps_choose keeps_value env_keepsD(1,14))

lemma add_php_repositories_keeps: "env_keeps pe R \<Longrightarrow> keeps R (add_php_repositories pe)"
  unfolding add_php_repositories_def
  by (auto intro!: keeps_bindE keeps_retE write_php_list_keeps simp: env_keepsD)

lemma execute_command_keeps: "env_keeps pe R \<Longrightarrow> keeps R (execute_command pe cmd)"
  by (intro keepsI) (simp add: execute_command_def Let_def reflpD [OF env_keepsD(1)] keepsD [OF env_keepsD(3)])

lemma run_step_command_keeps: "env_keeps pe R \<Longrightarrow> keeps R (run_step_command pe kind name vars opts cmd)"
  unfolding run_step_command_def
  by (intro keeps_bindE keeps_wrapE execute_command_keeps) (auto simp: env_keepsD)

lemma run_steps_keeps: "env_keeps pe R \<Longrightarrow> keeps R (run_steps pe kind opts name paths steps)"
proof (rule keepsI)
  fix m assume e: "env_keeps pe R"
  have "keeps R (eachE (\<lambda>cmds. eachE (run_step_command pe kind name vars opts) cmds) steps)" for vars
    by (intro keeps_eachE run_step_command_keeps e env_keepsD(1,2) [OF e])
  then show "R m (snd (run_steps pe kind opts name paths steps m))"
    by (simp add: run_steps_def Let_def keepsD)
qed

lemma run_pre_install_keeps: "env_keeps pe R \<Longrightarrow> keeps R (run_pre_install pe opts name c)"
proof (rule keepsI)
  fix m assume e: "env_keeps pe R"
  have "keeps R (\<lambda>m. if P m then eachE (run_step_command pe kind name vars opts) cmds m else (Inr (), m))" for P kind vars cmds
    by (intro keeps_choose keeps_value keeps_eachE run_step_command_keeps e env_keepsD(1,2) [OF e])
  then have "keeps R (eachE (\<lambda>s m. if check_conditions pe (ps_file_not_exists s) m
      then eachE (run_step_command pe ''pre-install'' name vars opts) (ps_run_commands s) m else (Inr (), m)) steps)" for vars steps
    by (intro keeps_eachE env_keepsD(1,2) [OF e])
  from keepsD [OF this] show "R m (snd (run_pre_install pe opts name c m))"
    unfolding run_pre_install_def Let_def .
qed

lemma execute_pre_install_keeps: "env_keeps pe R \<Longrightarrow> keeps R (execute_pre_install pe packages opts executed ps)"
  by (induction pe packages opts executed ps rule: execute_pre_install.induct)
    (auto intro!: keeps_retE keeps_bindE run_pre_install_keeps simp: env_keepsD split: option.split)

lemma execute_install_steps_keeps: "env_keeps pe R \<Longrightarrow> keeps R (execute_install_steps pe packages opts executed ps)"
  by (induction pe packages opts executed ps rule: execute_install_steps.induct)
    (auto intro!: keeps_retE keeps_bindE run_steps_keeps simp: env_keepsD split: option.split)

lemma execute_post_install_keeps: "env_keeps pe R \<Longrightarrow> keeps R (execute_post_install pe packages opts executed ps)"
  by (induction pe packages opts executed ps rule: execute_post_install.induct)
    (auto intro!: keeps_retE keeps_bindE run_steps_keeps simp: env_keepsD split: option.split)

text \<open>
  The contract: a manager acts on the machine only through its environment, so that whatever
  the environment keeps, the manager keeps.
\<close>

locale confined_manager =
  fixes pe :: "'w pm_env" and pm :: "'w package_manager"
  assumes search_keeps: "env_keeps pe R \<Longrightarrow> keeps R (pm_search pm name)"
    and install_keeps: "env_keeps pe R \<Longrightarrow> keepsP R (pm_install pm p opts)"
    and check_keeps: "env_keeps pe R \<Longrightarrow> keeps R (pm_check pm)"
    and remove_keeps: "env_keeps pe R \<Longrightarrow> keeps R (pm_remove pm ps)"
    and purge_keeps: "env_keeps pe R \<Longrightarrow> keeps R (pm_purge pm ps)"
begin

text \<open>What is built on a confined manager: the special steps of apt.\<close>

lemma search_php_keeps: "env_keeps pe R \<Longrightarrow> keeps R (search_php pm vs)"
  by (induction vs) (auto intro!: keeps_retE keeps_bindE search_keeps simp: env_keepsD)

lemma dependencies_keep: "env_keeps pe R \<Longrightarrow> keepsP R (apt_install_dependencies pm packages packs)"
  unfolding apt_install_dependencies_def
  by (intro keepsP_eachP keepsP_wrapP install_keeps) (auto simp: env_keepsD)

lemma repository_tools_keep: "env_keeps pe R \<Longrightarrow> keepsP R (apt_repository_tools pm)"
  unfolding apt_repository_tools_def
  by (intro keepsP_eachP keepsP_bindP keepsP_liftP search_keeps install_keeps) (auto simp: env_keepsD)

lemma apt_pre_remove_keeps: "env_keeps pe R \<Longrightarrow> keeps R (apt_pre_remove pe pm packs)"
  unfolding apt_pre_remove_def
  by (intro keeps_eachE) (auto intro!: keeps_wrapE purge_keeps keeps_retE simp: env_keepsD)

lemma find_php_version_keeps: "env_keeps pe R \<Longrightarrow> keepsP R (find_php_version pe pm added)"
  unfolding keepsP_def
proof (intro allI impI)
  fix m r t assume e: "env_keeps pe R" and ret: "find_php_version pe pm added m = Some (r, t)"
  have s: "R m (snd (search_php pm vs m))" and a: "R m (snd (add_php_repositories pe m))" for vs m
    by (rule keepsD, rule search_php_keeps [OF e], rule keepsD, rule add_php_repositories_keeps [OF e])
  have "fst (pe, pm) = pe \<and> snd (pe, pm) = pm \<longrightarrow> R m (snd (r, t))"
  proof (rule find_php_version.raw_induct [where P = "\<lambda>pe' pm' added m rt. fst (pe', pm') = pe \<and> snd (pe', pm') = pm \<longrightarrow> R m (snd rt)", OF _ ret])
    fix f pe' pm' added m rt
    assume IH: "\<And>pe' pm' added m rt. f pe' pm' added m = Some rt \<Longrightarrow>
        fst (pe', pm') = pe \<and> snd (pe', pm') = pm \<longrightarrow> R m (snd rt)"
      and eq: "(case search_php pm' php_versions m of
        (Inl e, t) \<Rightarrow> Some (Inl e, t)
      | (Inr None, t) \<Rightarrow>
          if added then Some (Inl (Err ''php version not found''), t)
          else (case add_php_repositories pe' t of
             (Inl e, u) \<Rightarrow> Some (Inl e, u)
           | (Inr added, u) \<Rightarrow> f pe' pm' added u)
      | (Inr (Some v), t) \<Rightarrow> Some (Inr v, t)) = Some rt"
    show "fst (pe', pm') = pe \<and> snd (pe', pm') = pm \<longrightarrow> R m (snd rt)"
    proof
      assume "fst (pe', pm') = pe \<and> snd (pe', pm') = pm"
      then have p: "pe' = pe" "pm' = pm" by auto
      obtain x t where x: "search_php pm php_versions m = (x, t)" by fastforce
      with s [of m php_versions] have mt: "R m t" by simp
      obtain y u where y: "add_php_repositories pe t = (y, u)" by fastforce
      with a [of t] have "R t u" by simp
      with mt env_keepsD(2) [OF e] have mu: "R m u" by (blast dest: transpD)
      show "R m (snd rt)"
      proof (cases "rt = (fst rt, t) \<or> rt = (fst rt, u)")
        case True
        with mt mu show ?thesis by (metis snd_conv)
      next
        case False
        with eq x y p obtain b where "f pe pm b u = Some rt"
          by (auto split: sum.splits option.splits if_splits)
        from IH [OF this] have "R u (snd rt)" by simp
        with mu env_keepsD(2) [OF e] show ?thesis by (blast dest: transpD)
      qed
    qed
  qed
  then show "R m t" by simp
qed

lemma apt_transform_keeps: "env_keeps pe R \<Longrightarrow> keepsP R (apt_transform pe pm ps)"
proof (induction ps)
  case Nil
  then show ?case by (auto intro!: keepsP_liftP keeps_retE simp: env_keepsD)
next
  case (Cons p ps)
  note e = Cons.prems
  have "keepsP R (find_php_packages pe pm)" "keepsP R (apache_package_process pe pm)"
    unfolding find_php_packages_def apache_package_process_def
    by (intro keepsP_bindP find_php_version_keeps keepsP_liftP keepsP_wrapP define_php_version_keeps install_keeps
        keeps_retE e env_keepsD(1,2) [OF e])+
  then show ?case
    using Cons.IH [OF e] e
    by (auto intro!: keepsP_bindP repository_tools_keep keepsP_liftP keepsP_wrapP keeps_retE simp: env_keepsD)
qed

end

text \<open>A manager inside the wrapper, with the strategy that belongs to it.\<close>

locale wrapped_manager =
  u: confined_manager pe "ex_underlined ex" for pe :: "'w pm_env" and ex :: "'w extended" +
  assumes strategy_manager: "ex_strategy ex = AptStrategy apt \<Longrightarrow> confined_manager pe apt"
begin

lemma strategy_keeps:
  assumes e: "env_keeps pe R"
  shows "keepsP R (install_dependencies (ex_strategy ex) packages ps)"
    and "keepsP R (transform_packages pe (ex_strategy ex) ps)"
    and "keeps R (pre_remove pe (ex_strategy ex) ps)"
  by (cases "ex_strategy ex";
      simp add: keepsP_liftP keeps_retE env_keepsD [OF e] confined_manager.dependencies_keep [OF strategy_manager e]
        confined_manager.apt_transform_keeps [OF strategy_manager e]
        confined_manager.apt_pre_remove_keeps [OF strategy_manager e])+

lemma extended_run_keeps: "env_keeps pe R \<Longrightarrow> keepsP R (extended_run pe ex packs pack opts)"
  unfolding extended_run_def Let_def
  by (intro keepsP_bindP keepsP_wrapP keepsP_liftP keepsP_eachP strategy_keeps u.install_keeps
      execute_pre_install_keeps execute_install_steps_keeps execute_post_install_keeps) (auto simp: env_keepsD)

lemma extended_install_keeps: "env_keeps pe R \<Longrightarrow> keepsP R (extended_install pe ex p opts)"
  unfolding keepsP_def using keepsP_D [OF extended_run_keeps]
  by (auto simp: extended_install_def Let_def reflpD env_keepsD(1) split: if_splits)

lemma extended_remove_keeps:
  assumes e: "env_keeps pe R" and "\<And>ps. keeps R (remove ps)"
  shows "keeps R (extended_remove_by pe ex remove ps)"
  unfolding extended_remove_by_def
  by (intro keeps_bindE keeps_wrapE strategy_keeps assms env_keepsD(2) [OF e])

end

sublocale wrapped_manager \<subseteq> w: confined_manager pe "extended_manager pe ex"
  by unfold_locales
    (simp_all add: extended_manager_def u.search_keeps u.check_keeps extended_install_keeps
      extended_remove_keeps u.remove_keeps u.purge_keeps)

text \<open>Two managers, one of which the other falls back to.\<close>

locale two_managers =
  base: confined_manager pe base + other: confined_manager pe other
  for pe :: "'w pm_env" and base :: "'w package_manager" and other :: "'w package_manager"
begin

lemma fallback_search_keeps:
  assumes e: "env_keeps pe R"
  shows "keeps R (fallback_search base other name)"
proof (rule keepsI)
  fix m
  obtain b t where b: "pm_search base name m = (b, t)" by fastforce
  obtain f u where f: "pm_search other name t = (f, u)" by fastforce
  have "R m t" "R t u"
    using keepsD [OF base.search_keeps [OF e], of m name] keepsD [OF other.search_keeps [OF e], of t name] b f by simp_all
  then have "R m u" using env_keepsD(2) [OF e] by (blast dest: transpD)
  with b f show "R m (snd (fallback_search base other name m))"
    by (simp add: fallback_search_def split: sum.split)
qed

lemma fallback_changes_keep:
  assumes e: "env_keeps pe R"
  shows "keepsP R (fallback_install base other p opts)" and "keeps R (fallback_check base other)"
  unfolding fallback_install_def fallback_check_def
  by (intro keepsP_catchP keepsP_liftP keeps_catchE keeps_failE base.install_keeps other.install_keeps
      base.check_keeps other.check_keeps e env_keepsD(1,2) [OF e])+

end

sublocale two_managers \<subseteq> f: confined_manager pe "fallback_manager base other"
  by unfold_locales
    (simp_all add: fallback_manager_def fallback_search_keeps fallback_changes_keep base.remove_keeps base.purge_keeps)

section \<open>The managers keep the contract\<close>

lemma command_manager_keeps:
  assumes e: "env_keeps pe R"
  shows "keepsP R (liftP (install_command pe envs cmd p))" and "keeps R (remove_command pe envs cmd ps)"
  by (auto simp: install_command_def remove_command_def intro!: keepsP_liftP keeps_retE env_keepsD [OF e])

interpretation apt: confined_manager pe "apt_manager pe" for pe
  by unfold_locales
    (simp_all add: apt_manager_def apt_manager_search_keeps command_manager_keeps env_keepsD(3))

interpretation yum: confined_manager pe "yum_manager pe" for pe
  by unfold_locales
    (simp_all add: yum_manager_def rpm_manager_def query_command_keeps command_manager_keeps keeps_retE env_keepsD(1))

interpretation dnf: confined_manager pe "dnf_manager pe" for pe
  by unfold_locales
    (simp_all add: dnf_manager_def rpm_manager_def query_command_keeps command_manager_keeps keeps_retE env_keepsD(1))

interpretation pacman: confined_manager pe "pacman_manager pe" for pe
  by unfold_locales
    (simp_all add: pacman_manager_def query_command_keeps command_manager_keeps env_keepsD(3))

lemma chroot_unit_prefix:
  "chroot_packages pe pack platform = Some p \<Longrightarrow> has_prefix (chroot_unit_path p) ''/etc/systemd/system/''"
proof -
  assume "chroot_packages pe pack platform = Some p"
  then have "path_base (cp_unit_url p) = ''php8.1-fpm.service''"
    by (auto simp: chroot_packages_def path_base_def split: if_splits)
  moreover have "has_prefix (path_join [''/etc/systemd/system'', ''php8.1-fpm.service'']) ''/etc/systemd/system/''"
    by code_simp
  ultimately show ?thesis by (simp add: chroot_unit_path_def)
qed

lemma chroot_fetch_keeps: "env_keeps pe R \<Longrightarrow> keeps R (chroot_fetch pe p tmp)"
  unfolding chroot_fetch_def Let_def by (intro keeps_bindE keeps_wrapE) (simp_all add: env_keepsD)

lemma chroot_install_package_keeps:
  assumes e: "env_keeps pe R"
  shows "keeps R (chroot_install_package pe pack)"
proof (rule keepsI)
  fix m
  have "keeps R (bindE (wrapE ''failed to create temp dir'' (pe_make_temp pe)) (\<lambda>tmp.
      finallyE (chroot_fetch pe p tmp) (pe_remove_all pe tmp)))" for p
    by (intro keeps_bindE keeps_wrapE keeps_finallyE chroot_fetch_keeps) (simp_all add: env_keepsD [OF e] e)
  from keepsD [OF this, of m] show "R m (snd (chroot_install_package pe pack m))"
    by (simp add: chroot_install_package_def reflpD [OF env_keepsD(1) [OF e]] split: option.split)
qed

lemma chroot_install_keeps: "env_keeps pe R \<Longrightarrow> keeps R (chroot_install pe pack)"
  by (auto simp: chroot_install_def env_keepsD intro!: keeps_retE keeps_failE keeps_wrapE chroot_install_package_keeps
      split: option.split)

lemma chroot_remove_package_keeps:
  assumes e: "env_keeps pe R"
  shows "keeps R (chroot_remove_package pe pack)"
proof (rule keepsI)
  fix m
  have r: "R m m" by (rule reflpD [OF env_keepsD(1) [OF e]])
  show "R m (snd (chroot_remove_package pe pack m))"
  proof (cases "chroot_packages pe pack (oi_platform (pe_info pe))")
    case (Some p)
    have "keeps R (bindE (wrapE ''failed to remove chroot package'' (pe_remove_all pe (cp_path p))) (\<lambda>_.
        wrapE ''failed to remove chroot systemd unit'' (remove_file (pe_os pe) (chroot_unit_path p))))"
      by (intro keeps_bindE keeps_wrapE env_keepsD [OF e] chroot_unit_prefix [OF Some])
    from keepsD [OF this, of m] Some r show ?thesis by (simp add: chroot_remove_package_def)
  qed (simp add: chroot_remove_package_def r)
qed

lemma chroot_remove_keeps:
  assumes e: "env_keeps pe R"
  shows "keeps R (chroot_remove pe packs)"
  unfolding chroot_remove_def
  by (intro keeps_bindE keeps_eachE keeps_wrapE chroot_remove_package_keeps)
    (auto intro: keeps_retE keeps_failE simp: env_keepsD [OF e] e)

interpretation chroot: confined_manager pe "chroot_manager pe" for pe
  by unfold_locales
    (simp_all add: chroot_manager_def chroot_search_def chroot_remove_keeps keepsP_liftP chroot_install_keeps
      keeps_retE env_keepsD(1))

abbreviation extended_apt :: "'w pm_env \<Rightarrow> packages \<Rightarrow> 'w extended" where
  "extended_apt pe ps \<equiv> \<lparr>ex_packages = ps, ex_underlined = apt_manager pe, ex_strategy = AptStrategy (apt_manager pe)\<rparr>"

abbreviation extended_noop :: "packages \<Rightarrow> 'w package_manager \<Rightarrow> 'w extended" where
  "extended_noop ps u \<equiv> \<lparr>ex_packages = ps, ex_underlined = u, ex_strategy = NoopStrategy\<rparr>"

interpretation wrapped_apt: wrapped_manager pe "extended_apt pe ps" for pe ps
  by (intro wrapped_manager.intro wrapped_manager_axioms.intro) (simp_all add: apt.confined_manager_axioms)

interpretation wrapped_yum: wrapped_manager pe "extended_noop ps (yum_manager pe)" for pe ps
  by (intro wrapped_manager.intro wrapped_manager_axioms.intro) (simp_all add: yum.confined_manager_axioms)

interpretation wrapped_dnf: wrapped_manager pe "extended_noop ps (dnf_manager pe)" for pe ps
  by (intro wrapped_manager.intro wrapped_manager_axioms.intro) (simp_all add: dnf.confined_manager_axioms)

interpretation wrapped_pacman: wrapped_manager pe "extended_noop ps (pacman_manager pe)" for pe ps
  by (intro wrapped_manager.intro wrapped_manager_axioms.intro) (simp_all add: pacman.confined_manager_axioms)

interpretation apt_or_chroot: two_managers pe "extended_manager pe (extended_apt pe ps)" "chroot_manager pe" for pe ps
  by (intro two_managers.intro wrapped_apt.w.confined_manager_axioms chroot.confined_manager_axioms)

lemma loaded_manager_confined:
  assumes "load_package_manager pe loaded windows m = Inr pm" and "oi_distribution (pe_info pe) \<noteq> ''windows''"
  shows "confined_manager pe pm"
proof -
  from assms consider ps where "pm = extended_manager pe (extended_apt pe ps)"
    | ps where "pm = extended_manager pe (extended_noop ps (yum_manager pe))"
    | ps where "pm = extended_manager pe (extended_noop ps (dnf_manager pe))"
    | ps where "pm = extended_manager pe (extended_noop ps (pacman_manager pe))"
    | ps where "pm = fallback_manager (extended_manager pe (extended_apt pe ps)) (chroot_manager pe)"
    by (auto simp: load_package_manager_def load_debian_manager_def load_ubuntu_manager_def load_centos_manager_def
        detect_and_load_manager_def new_extended_apt_def new_extended_noop_def Let_def split: if_splits sum.splits)
  then show ?thesis
    by cases (simp_all add: wrapped_apt.w.confined_manager_axioms wrapped_yum.w.confined_manager_axioms
        wrapped_dnf.w.confined_manager_axioms wrapped_pacman.w.confined_manager_axioms
        apt_or_chroot.f.confined_manager_axioms)
qed

section \<open>The plan of an installation\<close>

text \<open>
  The abstract view of an install: which steps of which packages are run and which packages
  are handed to the underlying manager, in which order. It only depends on the configurations.
\<close>

datatype action = PreSteps string | InstallSteps string | InstallPack string | PostSteps string

definition has_steps :: "(package_config \<Rightarrow> 'b list) \<Rightarrow> packages \<Rightarrow> string \<Rightarrow> bool" where
  "has_steps sel packages p = (case packages p of None \<Rightarrow> False | Some c \<Rightarrow> sel c \<noteq> [])"

definition install_plan :: "packages \<Rightarrow> string \<Rightarrow> action list" where
  "install_plan packages pack =
     (let goal = replace_aliases packages [pack];
          direct = filter (\<lambda>p. \<not> has_steps pc_install packages p) goal
      in map PreSteps (filter (has_steps pc_pre_install packages) [pack]) @
         map InstallSteps (dedup (filter (has_steps pc_install packages) goal)) @
         map InstallPack direct @
         map PostSteps (filter (has_steps pc_post_install packages) (dedup (direct @ [pack]))))"

fun perform :: "'w pm_env \<Rightarrow> 'w extended \<Rightarrow> config_values \<Rightarrow> action \<Rightarrow> ('w, unit) psys" where
  "perform pe ex opts (PreSteps p) =
     liftP (case ex_packages ex p of None \<Rightarrow> retE () | Some c \<Rightarrow> run_pre_install pe opts p c)"
| "perform pe ex opts (InstallSteps p) =
     liftP (case ex_packages ex p of None \<Rightarrow> retE ()
            | Some c \<Rightarrow> run_steps pe ''install'' opts p (pc_lookup_paths c) (pc_install c))"
| "perform pe ex opts (InstallPack p) = pm_install (ex_underlined ex) p opts"
| "perform pe ex opts (PostSteps p) =
     liftP (case ex_packages ex p of None \<Rightarrow> retE ()
            | Some c \<Rightarrow> run_steps pe ''post-install'' opts p (pc_lookup_paths c) (pc_post_install c))"

text \<open>The loops over packages are loops over the packages with steps, each once.\<close>

lemma execute_pre_install_each:
  "execute_pre_install pe packages opts executed ps =
     eachE (\<lambda>p. case packages p of None \<Rightarrow> retE () | Some c \<Rightarrow> run_pre_install pe opts p c)
       (dedup_from executed (filter (has_steps pc_pre_install packages) ps))"
  by (induction ps arbitrary: executed) (auto simp: has_steps_def split: option.split)

lemma execute_post_install_each:
  "execute_post_install pe packages opts executed ps =
     eachE (\<lambda>p. case packages p of None \<Rightarrow> retE ()
        | Some c \<Rightarrow> run_steps pe ''post-install'' opts p (pc_lookup_paths c) (pc_post_install c))
       (dedup_from executed (filter (has_steps pc_post_install packages) ps))"
  by (induction ps arbitrary: executed) (auto simp: has_steps_def split: option.split)

lemma execute_install_steps_each:
  "execute_install_steps pe packages opts executed ps =
     bindE (eachE (\<lambda>p. case packages p of None \<Rightarrow> retE ()
        | Some c \<Rightarrow> run_steps pe ''install'' opts p (pc_lookup_paths c) (pc_install c))
       (dedup_from executed (filter (has_steps pc_install packages) ps)))
       (\<lambda>_. retE (filter (\<lambda>p. \<not> has_steps pc_install packages p) ps))"
  by (induction ps arbitrary: executed) (auto simp: has_steps_def bindE_assoc split: option.split)

lemma extended_run_plan:
  assumes "ex_strategy ex = NoopStrategy"
  shows "agree (extended_run pe ex [pack] pack opts) (eachP (perform pe ex opts) (install_plan (ex_packages ex) pack))"
proof -
  let ?ps = "ex_packages ex" and ?goal = "replace_aliases (ex_packages ex) [pack]"
  let ?direct = "filter (\<lambda>p. \<not> has_steps pc_install ?ps p) ?goal"
  let ?pre = "liftP (execute_pre_install pe ?ps opts [] [pack])"
  let ?post = "liftP (execute_post_install pe ?ps opts [] (dedup (?direct @ [pack])))"
  let ?each = "\<lambda>as. eachP (perform pe ex opts) as"
  have d: "dedup [pack, pack] = [pack]" by (simp add: dedup_def)
  have pre: "?pre = ?each (map PreSteps (filter (has_steps pc_pre_install ?ps) [pack]))"
    by (simp add: execute_pre_install_each liftP_eachE eachP_map)
  have post: "?post = ?each (map PostSteps (filter (has_steps pc_post_install ?ps) (dedup (?direct @ [pack]))))"
    unfolding execute_post_install_each liftP_eachE eachP_map perform.simps
    by (subst dedup_from_id) (auto intro: distinct_filter)
  have packs: "agree (bindP (eachP (\<lambda>p. wrapP a (pm_install (ex_underlined ex) p opts)) ?direct) (\<lambda>_. wrapP b ?post))
      (bindP (?each (map InstallPack ?direct)) (\<lambda>_. ?post))" for a b
    by (intro agree_bind) (auto simp: eachP_map intro: agree_eachP agree_wrap)
  have inst: "agree (bindP (wrapP c (liftP (execute_install_steps pe ?ps opts [] ?goal))) (\<lambda>packs.
        bindP (eachP (\<lambda>p. wrapP a (pm_install (ex_underlined ex) p opts)) packs) (\<lambda>_.
          wrapP b (liftP (execute_post_install pe ?ps opts [] (dedup (packs @ [pack])))))))
      (bindP (?each (map InstallSteps (dedup (filter (has_steps pc_install ?ps) ?goal)))) (\<lambda>_.
        bindP (?each (map InstallPack ?direct)) (\<lambda>_. ?post)))" (is "agree (bindP _ ?k) _") for a b c
  proof -
    have "liftP (execute_install_steps pe ?ps opts [] ?goal) =
        bindP (?each (map InstallSteps (dedup (filter (has_steps pc_install ?ps) ?goal)))) (\<lambda>_. liftP (retE ?direct))"
      unfolding execute_install_steps_each liftP_bindE liftP_eachE eachP_map perform.simps dedup_def ..
    then have k: "bindP (liftP (execute_install_steps pe ?ps opts [] ?goal)) ?k =
        bindP (?each (map InstallSteps (dedup (filter (has_steps pc_install ?ps) ?goal)))) (\<lambda>_. ?k ?direct)"
      by (simp only: bindP_assoc bindP_ret)
    show ?thesis
      by (rule agree_trans [OF agree_bind_wrap], subst k, rule agree_bind [OF agree_refl packs])
  qed
  have "agree (extended_run pe ex [pack] pack opts) (bindP ?pre (\<lambda>_.
      bindP (?each (map InstallSteps (dedup (filter (has_steps pc_install ?ps) ?goal)))) (\<lambda>_.
        bindP (?each (map InstallPack ?direct)) (\<lambda>_. ?post))))"
    unfolding extended_run_def Let_def assms install_dependencies.simps transform_packages.simps wrapP_ret bindP_ret
      append.simps d
    by (rule agree_trans [OF agree_bind_wrap], unfold bindP_assoc bindP_ret,
        rule agree_trans [OF agree_bind_wrap], rule agree_bind_right, rule inst)
  then show ?thesis
    unfolding pre post by (simp add: install_plan_def Let_def eachP_append)
qed

section \<open>Properties\<close>

text \<open>
  C10: with yum, dnf or pacman an install does what its plan says: nothing when a command of
  the package is there already, otherwise the preparing steps of the package, the install
  steps of what replaces it (each package's once), the other replacements through the
  underlying manager, and the finishing steps; it stops at the first failure.
\<close>

theorem extended_install_follows_plan:
  assumes "ex_strategy ex = NoopStrategy"
  shows "outcome (extended_install pe ex pack opts m) =
    (if exclude_found pe (ex_packages ex) m [pack] = [] then Some (True, m)
     else outcome (eachP (perform pe ex opts) (install_plan (ex_packages ex) pack) m))"
proof (cases "exclude_found pe (ex_packages ex) m [pack] = []")
  case False
  then have x: "exclude_found pe (ex_packages ex) m [pack] = [pack]"
    by (simp add: exclude_found_def split: if_splits)
  from extended_run_plan [OF assms, of pe pack opts] have
    "outcome (extended_run pe ex [pack] pack opts m) =
      outcome (eachP (perform pe ex opts) (install_plan (ex_packages ex) pack) m)"
    by (simp add: agree_def)
  with x show ?thesis by (simp add: extended_install_def)
qed (simp add: extended_install_def)

text \<open>An environment that records the commands it is given, for examples.\<close>

definition record_command :: "string list \<Rightarrow> (string list list, unit) sys" where
  "record_command cmd m = (Inr (), m\<lparr>world := world m @ [cmd]\<rparr>)"

definition recording_env :: "string \<Rightarrow> string list list pm_env" where
  "recording_env distribution =
     \<lparr>pe_host = release_host, pe_info = example_info\<lparr>oi_distribution := distribution\<rparr>,
      pe_exec = (\<lambda>_. record_command), pe_combined = (\<lambda>_ _ m. (([], None), m)), pe_stdout = (\<lambda>_. retE []),
      pe_list_dir = (\<lambda>_. retE []), pe_unlz4 = (\<lambda>s. s), pe_render = (\<lambda>_ _ c. retE c),
      pe_download = (\<lambda>_ _. retE ()), pe_download_archive = (\<lambda>_ _. retE ()), pe_make_temp = retE ''/tmp/x'',
      pe_remove_all = (\<lambda>_. retE ()), pe_repository = ''https://packages.gameap.com''\<rparr>"

definition empty_machine :: "string list list machine" where
  "empty_machine = \<lparr>files = Map.empty, dirs = {}, world = [], service_memo = None\<rparr>"

definition composer_packages :: packages where
  "composer_packages =
     [''php'' \<mapsto> (example_config ''x'')\<lparr>pc_replace_with := Some [''php-cli'', ''php-zip''], pc_install := [],
        pc_post_install := [[''systemctl enable php-fpm'']]\<rparr>,
      ''php-zip'' \<mapsto> (example_config ''pecl install zip'')]"

theorem extended_install_follows_plan_witness:
  "install_plan composer_packages ''php'' = [InstallSteps ''php-zip'', InstallPack ''php-cli'', PostSteps ''php''] \<and>
   map_option (\<lambda>(ok, t). (ok, world t))
     (outcome (extended_install (recording_env ''fedora'') (extended_noop composer_packages (dnf_manager (recording_env ''fedora'')))
        ''php'' [] empty_machine)) =
   Some (True, [[''sh'', ''-c'', ''pecl install zip''], [''dnf'', ''install'', ''-y'', ''php-cli''],
     [''sh'', ''-c'', ''systemctl enable php-fpm'']])"
proof -
  let ?pe = "recording_env ''fedora''"
  let ?ex = "extended_noop composer_packages (dnf_manager ?pe)"
  have p: "install_plan composer_packages ''php'' = [InstallSteps ''php-zip'', InstallPack ''php-cli'', PostSteps ''php'']"
    by code_simp
  have x: "(exclude_found ?pe composer_packages empty_machine [''php''] = []) = False" by code_simp
  have "map_option (\<lambda>(ok, t). (ok, world t))
      (outcome (eachP (perform ?pe ?ex []) [InstallSteps ''php-zip'', InstallPack ''php-cli'', PostSteps ''php''] empty_machine)) =
     Some (True, [[''sh'', ''-c'', ''pecl install zip''], [''dnf'', ''install'', ''-y'', ''php-cli''],
       [''sh'', ''-c'', ''systemctl enable php-fpm'']])" by code_simp
  with p x extended_install_follows_plan [of ?ex ?pe "''php''" "[]" empty_machine] show ?thesis by simp
qed

text \<open>
  On Debian and Ubuntu the search for a version of PHP ends, after at most one repository
  was added.
\<close>

theorem php_search_ends:
  assumes "oi_distribution (pe_info pe) \<in> {''ubuntu'', ''debian''}"
  shows "find_php_version pe apt added m \<noteq> None"
  by (rule find_php_version_returns [OF assms])

theorem php_search_ends_witness:
  "find_php_version (recording_env ''debian'') (apt_manager (recording_env ''debian'')) False empty_machine \<noteq> None"
  by (rule php_search_ends) (simp add: recording_env_def example_info_def)

text \<open>
  C12: on every other distribution with apt (Raspbian, Mint) it never ends when nothing is found:
  no repository is added, \<open>repoAdded\<close> stays false, and the loop starts over.
\<close>

theorem php_search_never_ends:
  assumes "oi_distribution (pe_info pe) \<notin> {''ubuntu'', ''debian''}"
    and "\<And>v m. I m \<Longrightarrow> \<exists>t. pm_search apt (''php'' @ v) m = (Inr [], t) \<and> I t"
    and "I m"
  shows "find_php_version pe apt False m = None"
proof (rule ccontr)
  have round: "\<exists>t. search_php apt vs m = (Inr None, t) \<and> I t" if "I m" for vs m
    using that
  proof (induction vs arbitrary: m)
    case (Cons v vs)
    from assms(2) [OF Cons.prems, of v] obtain t where "pm_search apt (''php'' @ v) m = (Inr [], t)" "I t" by blast
    with Cons.IH [of t] show ?case by (simp add: bindE_def)
  qed (simp add: retE_def)
  assume "find_php_version pe apt False m \<noteq> None"
  then obtain r where ret: "find_php_version pe apt False m = Some r" by blast
  have "pe = pe \<and> apt = apt \<and> \<not> False \<longrightarrow> \<not> I m"
  proof (rule find_php_version.raw_induct [where P = "\<lambda>pe' apt' added m r. pe' = pe \<and> apt' = apt \<and> \<not> added \<longrightarrow> \<not> I m", OF _ ret])
    fix f pe' apt' added m r
    assume IH: "\<And>pe' apt' added m r. f pe' apt' added m = Some r \<Longrightarrow> pe' = pe \<and> apt' = apt \<and> \<not> added \<longrightarrow> \<not> I m"
      and eq: "(case search_php apt' php_versions m of
        (Inl e, t) \<Rightarrow> Some (Inl e, t)
      | (Inr None, t) \<Rightarrow>
          if added then Some (Inl (Err ''php version not found''), t)
          else (case add_php_repositories pe' t of
             (Inl e, u) \<Rightarrow> Some (Inl e, u)
           | (Inr added, u) \<Rightarrow> f pe' apt' added u)
      | (Inr (Some v), t) \<Rightarrow> Some (Inr v, t)) = Some r"
    show "pe' = pe \<and> apt' = apt \<and> \<not> added \<longrightarrow> \<not> I m"
    proof (intro impI notI)
      assume p: "pe' = pe \<and> apt' = apt \<and> \<not> added" and "I m"
      from round [OF \<open>I m\<close>, of php_versions] obtain t where t: "search_php apt php_versions m = (Inr None, t)" "I t" by blast
      with eq p add_php_repositories_False [OF assms(1)] have "f pe apt False t = Some r" by (simp add: retE_def)
      with IH have "\<not> I t" by blast
      with t(2) show False by simp
    qed
  qed
  with assms(3) show False by simp
qed

theorem php_search_never_ends_witness:
  "find_php_version (recording_env ''raspbian'') (apt_manager (recording_env ''raspbian'')) False empty_machine = None"
proof (rule php_search_never_ends [where I = "\<lambda>_. True"])
  show "oi_distribution (pe_info (recording_env ''raspbian'')) \<notin> {''ubuntu'', ''debian''}"
    by (simp add: recording_env_def)
  have "parse_apt_cache_show [] = []" by code_simp
  then have "pm_search (apt_manager (recording_env ''raspbian'')) name m = (Inr [], m)" for name m
    by (simp add: recording_env_def apt_manager_def apt_manager_search_def apt_list_search_def search_apt_cache_def
        query_command_def bindE_def wrapE_def retE_def apt_search_def repo_file_list_def)
  then show "\<exists>t. pm_search (apt_manager (recording_env ''raspbian'')) (''php'' @ v) m = (Inr [], t) \<and> True" for v m
    by simp
qed simp


lemma recording_env_keeps:
  "p \<notin> {''/etc/apt/sources.list.d/php.list''} \<Longrightarrow> \<not> has_prefix p ''/etc/systemd/system/'' \<Longrightarrow>
     env_keeps (recording_env d) (\<lambda>a b. files b p = files a p)"
  by (auto simp: env_keeps_def recording_env_def reflp_def transp_def keeps_def record_command_def
      remove_file_others write_file_others release_host_def intro!: write_file_others remove_file_others)


text \<open>
  A chroot that is not marked as installed by the program is never removed: without the
  mark file every removal leaves the machine as it is.
\<close>

theorem unmarked_chroot_not_removed:
  assumes "stat_file (pe_os pe) chroot_php_mark m = StatMissing"
  shows "snd (pm_remove (chroot_manager pe) packs m) = m"
proof -
  have mark: "chroot_mark p = chroot_php_mark" if "chroot_packages pe q pl = Some p" for p q pl
    using that by (auto simp: chroot_packages_def chroot_mark_def chroot_php_mark_def split: if_splits)
  have one: "snd (chroot_remove_package pe q m) = m" for q
    using assms mark by (auto simp: chroot_remove_package_def split: option.split)
  then have rem: "snd (eachE (\<lambda>q. wrapE (msg q) (chroot_remove_package pe q)) qs m) = m" for qs msg
    by (induction qs) (auto simp: snd_bindE split: sum.split)
  have chk: "snd (eachE (\<lambda>q. if P q then failE (e q) else retE ()) qs m) = m" for qs P e
    by (induction qs) (auto simp: snd_bindE split: sum.split)
  show ?thesis
    by (simp add: chroot_manager_def chroot_remove_def snd_bindE rem chk split: sum.split)
qed

theorem unmarked_chroot_not_removed_witness:
  "snd (pm_remove (chroot_manager (recording_env ''debian'')) [''php''] (empty_machine\<lparr>dirs := {''/opt'', ''/opt/php''}\<rparr>)) =
    empty_machine\<lparr>dirs := {''/opt'', ''/opt/php''}\<rparr>"
proof (rule unmarked_chroot_not_removed)
  have "chroot_php_mark \<noteq> ''/opt'' \<and> chroot_php_mark \<noteq> ''/opt/php''" by code_simp
  then show "stat_file (pe_os (recording_env ''debian'')) chroot_php_mark (empty_machine\<lparr>dirs := {''/opt'', ''/opt/php''}\<rparr>) = StatMissing"
    by (simp add: stat_file_def path_exists_def recording_env_def release_host_def calm_os_def empty_machine_def)
qed

end
