(* ===== verification/Users.thy ===== *)
theory Users
  imports Services
begin

text \<open>
  Users, groups and ownership on Linux (\<open>pkg/oscore\<close>): creating a group and a user by command,
  and giving a directory tree to a user. The user database, the walk over the tree and the
  change of ownership are parameters.
\<close>

text \<open>What \<open>user.Lookup\<close> says: the ids as it has them, as strings.\<close>

datatype user_lookup = UserFound string string | UserUnknown | UserLookupFailed go_error

datatype walk_link = NotALink | BadLink | LinkTo string

record walk_entry =
  we_name :: string
  we_error :: bool
  we_link :: walk_link

record 'w user_env =
  us_host :: "'w host"
  us_lookup_user :: "string \<Rightarrow> 'w machine \<Rightarrow> user_lookup"
  us_lookup_group :: "string \<Rightarrow> 'w machine \<Rightarrow> (string \<times> string) result"
  us_chpasswd :: "string \<Rightarrow> ('w, unit) sys"
  us_walk :: "string \<Rightarrow> 'w machine \<Rightarrow> walk_entry list"
  us_chown :: "string \<Rightarrow> int \<Rightarrow> int \<Rightarrow> ('w, unit) sys"

section \<open>Groups and users\<close>

definition create_group :: "'w user_env \<Rightarrow> string \<Rightarrow> string \<Rightarrow> ('w, unit) sys" where
  "create_group us name gid m =
     (case ho_exec (us_host us) [''getent'', ''group'', name] m of
        (Inr _, t) \<Rightarrow> (Inl (GroupAlreadyExists name), t)
      | (Inl _, t) \<Rightarrow>
          wrapE ''failed to exec groupadd command''
            (ho_exec (us_host us) ([''groupadd''] @ (if gid \<noteq> [] then [''-g'', gid] else []) @ [name])) t)"

record create_user_options =
  cu_work_dir :: string
  cu_password :: string
  cu_shell :: string

definition useradd_args :: "create_user_options \<Rightarrow> string \<Rightarrow> (string \<times> string) result \<Rightarrow> string list" where
  "useradd_args opts name grp =
     [''useradd'', ''-m''] @ (if cu_work_dir opts \<noteq> [] then [''-d'', cu_work_dir opts] else []) @
     [''-s'', if cu_shell opts \<noteq> [] then cu_shell opts else ''/bin/bash'', name] @
     (case grp of Inl _ \<Rightarrow> [] | Inr (g, _) \<Rightarrow> [''-g'', g])"

definition create_user :: "'w user_env \<Rightarrow> string \<Rightarrow> create_user_options \<Rightarrow> ('w, unit) sys" where
  "create_user us name opts m =
     (case us_lookup_user us name m of
        UserFound _ _ \<Rightarrow> (Inl (UserAlreadyExists name), m)
      | _ \<Rightarrow>
          bindE (wrapE ''failed to exec useradd command''
            (ho_exec (us_host us) (useradd_args opts name (us_lookup_group us name m)))) (\<lambda>_.
            if cu_password opts \<noteq> []
            then wrapE ''failed to run command'' (us_chpasswd us (name @ '':'' @ cu_password opts))
            else retE ()) m)"

section \<open>Ownership\<close>

text \<open>
  The function that \<open>filepath.Walk\<close> calls: an entry that cannot be read is skipped, a symbolic
  link is skipped when it cannot be read or what it points to is not there.
\<close>

definition chown_entry :: "'w user_env \<Rightarrow> int \<Rightarrow> int \<Rightarrow> walk_entry \<Rightarrow> ('w, unit) sys" where
  "chown_entry us uid gid e m =
     (if ho_canceled (us_host us) m then (Inl Canceled, m)
      else if we_error e then (Inr (), m)
      else case we_link e of
        NotALink \<Rightarrow> us_chown us (we_name e) uid gid m
      | BadLink \<Rightarrow> (Inr (), m)
      | LinkTo target \<Rightarrow>
          if stat_file (ho_os (us_host us)) target m = StatOk then us_chown us (we_name e) uid gid m
          else (Inr (), m))"

definition chown_r :: "'w user_env \<Rightarrow> string \<Rightarrow> int \<Rightarrow> int \<Rightarrow> ('w, unit) sys" where
  "chown_r us path uid gid m = eachE (chown_entry us uid gid) (us_walk us path m) m"

definition atoi_id :: "string \<Rightarrow> string \<Rightarrow> int result" where
  "atoi_id what s =
     (case go_atoi s of
        None \<Rightarrow> Inl (WithMessage (Err ''invalid syntax'') (''failed to convert '' @ what @ '' to int''))
      | Some n \<Rightarrow> Inr n)"

definition found_user :: "'w user_env \<Rightarrow> string \<Rightarrow> 'w machine \<Rightarrow> (string \<times> string) result" where
  "found_user us name m =
     (case us_lookup_user us name m of
        UserFound uid gid \<Rightarrow> Inr (uid, gid)
      | UserUnknown \<Rightarrow> Inl (WithMessage (Err (''user: unknown user '' @ name)) ''failed to lookup user'')
      | UserLookupFailed e \<Rightarrow> Inl (WithMessage e ''failed to lookup user''))"

definition chown_recursive :: "'w user_env \<Rightarrow> string \<Rightarrow> string \<Rightarrow> string \<Rightarrow> ('w, unit) sys" where
  "chown_recursive us path user_name group_name m =
     (case found_user us user_name m of
        Inl e \<Rightarrow> (Inl e, m)
      | Inr (uid, _) \<Rightarrow>
          (case us_lookup_group us group_name m of
             Inl e \<Rightarrow> (Inl (WithMessage e ''failed to lookup group''), m)
           | Inr (_, gid) \<Rightarrow>
               (case atoi_id ''uid'' uid of
                  Inl e \<Rightarrow> (Inl e, m)
                | Inr u \<Rightarrow>
                    (case atoi_id ''gid'' gid of
                       Inl e \<Rightarrow> (Inl e, m)
                     | Inr g \<Rightarrow> wrapE ''failed to chown'' (chown_r us path u g) m))))"

end
