(* ===== verification/DaemonInstall.thy ===== *)
theory DaemonInstall
  imports ConnectAddress DaemonSetup DaemonUpdate PackageManagers Users
begin

text \<open>
  \<open>gameapctl daemon install\<close> (\<open>internal/actions/daemon/install\<close>): the options, the directories,
  tools, user and binary of the daemon, its enrolment or registration with the panel, and its
  first start. Cryptography, the network and the machine's commands are parameters.
\<close>

section \<open>The outside\<close>

text \<open>An answer to a plain GET request: status, announced length, body.\<close>

record http_answer =
  ha_status :: nat
  ha_length :: int
  ha_body :: "string result"

text \<open>
  \<open>ie_load_pm\<close> is the package manager that is loaded (\<open>PackageManagers\<close>); \<open>ie_enroll\<close> runs the
  daemon's enrolment and gives what it printed on its standard error; \<open>ie_order\<close> is the order in
  which Go walks the map of overrides.
\<close>

record 'w install_env =
  ie_update :: "'w update_env"
  ie_users :: "'w user_env"
  ie_fs :: "'w fs_lib"
  ie_info :: os_info
  ie_goos :: string
  ie_int_size :: nat
  ie_init_name :: "'w machine \<Rightarrow> string option"
  ie_load_pm :: "'w machine \<Rightarrow> 'w package_manager result"
  ie_resolve :: "'w machine resolve_deps"
  ie_hostname :: "'w machine \<Rightarrow> string result"
  ie_new_key :: "('w, string) sys"
  ie_pem_key :: "string \<Rightarrow> string"
  ie_pem_decode :: "string \<Rightarrow> string option"
  ie_parse_pkcs1 :: "string \<Rightarrow> string result"
  ie_parse_pkcs8 :: "string \<Rightarrow> string result"
  ie_new_csr :: "string \<Rightarrow> string \<Rightarrow> ('w, string) sys"
  ie_http_get :: "string \<Rightarrow> ('w, http_answer) sys"
  ie_detect_ips :: "'w machine \<Rightarrow> string list"
  ie_join_url :: "string \<Rightarrow> string list \<Rightarrow> string result"
  ie_post :: "string \<Rightarrow> (string \<times> string) list \<Rightarrow> ('w, nat \<times> string result) sys"
  ie_enroll :: "string list \<Rightarrow> 'w machine \<Rightarrow> (string \<times> go_error option) \<times> 'w machine"
  ie_order :: "(string \<rightharpoonup> string) \<Rightarrow> (string \<times> string) list"
  ie_marshal :: "daemon_config \<Rightarrow> string result"

abbreviation ie_os :: "'w install_env \<Rightarrow> 'w os_env" where "ie_os ie \<equiv> ue_os (ie_update ie)"
abbreviation ie_host :: "'w install_env \<Rightarrow> 'w host" where "ie_host ie \<equiv> ue_host (ie_update ie)"

section \<open>Options\<close>

record install_options =
  io_host :: string
  io_token :: string
  io_connect_url :: string
  io_config :: string
  io_scope :: string
  io_from_github :: bool
  io_branch :: string
  io_version :: string

text \<open>The tag and the tag prefix that the options ask for.\<close>

definition version_tags :: "install_options \<Rightarrow> (string \<times> string) result" where
  "version_tags opts =
     (if io_version opts = [] then Inr ([], [])
      else if io_from_github opts \<or> io_branch opts \<noteq> ''master''
      then Inl (Err ''--version is mutually exclusive with --github and --branch'')
      else case normalize_tag (io_version opts) of
        Inl e \<Rightarrow> Inl e
      | Inr t \<Rightarrow> Inr (full_tag t, tag_prefix t))"

definition initial_state ::
  "os_info \<Rightarrow> install_options \<Rightarrow> string \<Rightarrow> daemon_paths \<Rightarrow> string \<times> string \<Rightarrow> daemons_install_state" where
  "initial_state info opts scope ps tags =
     \<lparr>di_host = io_host opts, di_token = io_token opts, di_connect_url = io_connect_url opts,
      di_config = io_config opts, di_scope = scope, di_work_path = dp_work_path ps,
      di_steamcmd_path = dp_steamcmd_path ps, di_tools_path = dp_tools_path ps,
      di_certs_path = dp_certs_path ps, di_daemon_file_path = dp_daemon_file_path ps,
      di_config_file_path = dp_config_file_path ps, di_config_dir = dp_config_dir ps,
      di_output_log_path = dp_output_log_path ps, di_distribution = oi_distribution info,
      di_is_x86 = is_x86 (oi_platform info), di_listen_ip = [], di_node_id = 0, di_api_key = [],
      di_process_manager = [], di_from_github = io_from_github opts, di_branch = io_branch opts,
      di_version_input = io_version opts, di_tag = fst tags, di_tag_prefix = snd tags,
      di_resolved_tag = [], di_user = [], di_password = []\<rparr>"

text \<open>The checks of the options, up to the state that the installation begins with.\<close>

definition check_options :: "'w install_env \<Rightarrow> install_options \<Rightarrow> daemons_install_state result" where
  "check_options ie opts =
     (if io_connect_url opts = [] \<and> io_host opts = [] then Inl (Err ''empty host'')
      else if io_connect_url opts = [] \<and> io_token opts = [] then Inl (Err ''empty token'')
      else case resolve_scope_for_os (io_scope opts) (ie_goos ie) of
        Inl e \<Rightarrow> Inl e
      | Inr scope \<Rightarrow>
          (case daemon_paths_for_scope (ho_home (ie_host ie)) scope of
             Inl e \<Rightarrow> Inl (WithMessage e ''failed to resolve daemon paths for scope'')
           | Inr ps \<Rightarrow>
               (case version_tags opts of
                  Inl e \<Rightarrow> Inl e
                | Inr tags \<Rightarrow> Inr (initial_state (ie_info ie) opts scope ps tags))))"

definition prepare_install :: "'w install_env \<Rightarrow> install_options \<Rightarrow> ('w, daemons_install_state) sys" where
  "prepare_install ie opts =
     (let opts = (if io_branch opts = [] then opts\<lparr>io_branch := ''master''\<rparr> else opts) in
      if io_connect_url opts \<noteq> [] \<and> (io_host opts \<noteq> [] \<or> io_token opts \<noteq> [])
      then failE (Err ''--connect and --host/--token are mutually exclusive'')
      else bindE (if io_connect_url opts \<noteq> [] then resolve_connect_address (ie_resolve ie) (io_connect_url opts)
                  else retE []) (\<lambda>url m. (check_options ie (opts\<lparr>io_connect_url := url\<rparr>), m)))"

section \<open>Directories, tools and the user\<close>

definition ensure_dir :: "'w os_env \<Rightarrow> string \<Rightarrow> string \<Rightarrow> ('w, unit) sys" where
  "ensure_dir os path dir =
     (if path = [] then retE () else wrapE (''failed to create '' @ dir) (mkdir_all os dir))"

definition ensure_daemon_dirs :: "'w install_env \<Rightarrow> daemons_install_state \<Rightarrow> ('w, unit) sys" where
  "ensure_daemon_dirs ie st =
     bindE (ensure_dir (ie_os ie) (di_config_dir st) (di_config_dir st)) (\<lambda>_.
     bindE (ensure_dir (ie_os ie) (di_output_log_path st) (path_dir (di_output_log_path st))) (\<lambda>_.
       ensure_dir (ie_os ie) (di_daemon_file_path st) (path_dir (di_daemon_file_path st))))"

definition ensure_tool ::
  "'w install_env \<Rightarrow> 'w package_manager \<Rightarrow> string \<Rightarrow> string \<Rightarrow> ('w, unit) psys" where
  "ensure_tool ie pm cmd pack m =
     (if command_available (ie_os ie) cmd m then Some (Inr (), m)
      else wrapP (''failed to install '' @ cmd) (pm_install pm pack []) m)"

text \<open>In user scope a missing tool is only warned about.\<close>

definition install_tools ::
  "'w install_env \<Rightarrow> 'w package_manager \<Rightarrow> daemons_install_state \<Rightarrow> ('w, unit) psys" where
  "install_tools ie pm st =
     (if di_distribution st = distribution_windows \<or> di_scope st = scope_user then liftP (retE ())
      else
        bindP (ensure_tool ie pm ''curl'' ''curl'') (\<lambda>_.
        bindP (ensure_tool ie pm ''gpg'' ''gnupg'') (\<lambda>_.
        bindP (if di_process_manager st = pm_tmux then ensure_tool ie pm ''tmux'' ''tmux'' else liftP (retE ())) (\<lambda>_.
          if di_process_manager st = pm_docker then ensure_tool ie pm ''docker'' ''docker'' else liftP (retE ())))))"

definition create_daemon_user :: "'w install_env \<Rightarrow> daemons_install_state \<Rightarrow> ('w, unit) sys" where
  "create_daemon_user ie st m =
     (if di_scope st = scope_user then (Inr (), m)
      else
        bindE (case us_lookup_group (ie_users ie) ''gameap'' m of
                 Inr _ \<Rightarrow> retE ()
               | Inl _ \<Rightarrow> wrapE ''failed to create group'' (create_group (ie_users ie) ''gameap'' []))
          (\<lambda>_ m. case us_lookup_user (ie_users ie) ''gameap'' m of
             UserFound _ _ \<Rightarrow> (Inr (), m)
           | UserUnknown \<Rightarrow> wrapE ''failed to create user'' (create_user (ie_users ie) ''gameap''
               \<lparr>cu_work_dir = di_work_path st, cu_password = [], cu_shell = []\<rparr>) m
           | UserLookupFailed e \<Rightarrow> (Inl (WithMessage e ''failed to lookup user''), m)) m)"

definition set_user_privileges :: "'w install_env \<Rightarrow> daemons_install_state \<Rightarrow> ('w, unit) sys" where
  "set_user_privileges ie st m =
     (if di_scope st = scope_user then (Inr (), m)
      else case found_user (ie_users ie) ''gameap'' m of
        Inl e \<Rightarrow> (Inl e, m)
      | Inr (uid, gid) \<Rightarrow>
          (case atoi_id ''uid'' uid of
             Inl e \<Rightarrow> (Inl e, m)
           | Inr u \<Rightarrow>
               (case atoi_id ''gid'' gid of
                  Inl e \<Rightarrow> (Inl e, m)
                | Inr g \<Rightarrow> wrapE ''failed to set ownership'' (chown_r (ie_users ie) (di_work_path st) u g) m)))"

definition ensure_servers_dir :: "'w install_env \<Rightarrow> daemons_install_state \<Rightarrow> ('w, unit) sys" where
  "ensure_servers_dir ie st m =
     (let dir = path_join [di_work_path st, ''servers''] in
      if is_file_exists (ie_os ie) dir m then (Inr (), m)
      else wrapE (''failed to create servers directory '' @ dir) (mkdir_all (ie_os ie) dir) m)"

definition steamcmd_binary :: "'w install_env \<Rightarrow> daemons_install_state \<Rightarrow> string" where
  "steamcmd_binary ie st =
     path_join [di_steamcmd_path st, if ie_goos ie = ''windows'' then ''steamcmd.exe'' else ''steamcmd.sh'']"

definition download_steamcmd :: "'w install_env \<Rightarrow> daemons_install_state \<Rightarrow> ('w, unit) sys" where
  "download_steamcmd ie st =
     (let get = (\<lambda>url. wrapE ''failed to download steamcmd'' (ue_get (ie_update ie) url (di_steamcmd_path st))) in
      if ie_goos ie = ''linux'' then get ''https://steamcdn-a.akamaihd.net/client/installer/steamcmd_linux.tar.gz''
      else if ie_goos ie = ''windows'' then get ''https://steamcdn-a.akamaihd.net/client/installer/steamcmd.zip''
      else retE ())"

definition install_steamcmd ::
  "'w install_env \<Rightarrow> 'w package_manager \<Rightarrow> daemons_install_state \<Rightarrow> ('w, unit) psys" where
  "install_steamcmd ie pm st =
     bindP (\<lambda>m. if is_file_exists (ie_os ie) (steamcmd_binary ie st) m then Some (Inr (), m)
                else Some (download_steamcmd ie st m)) (\<lambda>_.
       if ie_goos ie = ''linux'' \<and> ie_int_size ie = 64 \<and> di_scope st \<noteq> scope_user
       then eachP (\<lambda>p. wrapP ''failed to install 32 bit libraries'' (pm_install pm p []))
              [''lib32gcc'', ''lib32stdc++6'', ''lib32z1'']
       else liftP (retE ()))"

definition install_archivers ::
  "'w package_manager \<Rightarrow> daemons_install_state \<Rightarrow> ('w, unit) psys" where
  "install_archivers pm st =
     (if di_distribution st \<noteq> distribution_windows \<and> di_scope st \<noteq> scope_user
      then eachP (\<lambda>p. wrapP ''failed to install archive managers'' (pm_install pm p [])) [''unzip'', ''xz-utils'']
      else liftP (retE ()))"

section \<open>Keys and certificates\<close>

text \<open>
  The private key: made when there is none; one that is there is read, and never written.
\<close>

definition new_private_key :: "'w install_env \<Rightarrow> string \<Rightarrow> ('w, string) sys" where
  "new_private_key ie path =
     bindE (wrapE ''failed to generate key'' (ie_new_key ie)) (\<lambda>key.
     bindE (wrapE ''failed to create private key file'' (write_file (ie_os ie) path [])) (\<lambda>_.
     bindE (wrapE ''failed to encode private key'' (write_file (ie_os ie) path (ie_pem_key ie key))) (\<lambda>_.
       retE key)))"

definition parse_private_key :: "'w install_env \<Rightarrow> string \<Rightarrow> string result" where
  "parse_private_key ie data =
     (case ie_pem_decode ie data of
        None \<Rightarrow> Inl (Err ''failed to decode private key'')
      | Some block \<Rightarrow>
          (case ie_parse_pkcs1 ie block of
             Inr key \<Rightarrow> Inr key
           | Inl _ \<Rightarrow> with_message ''failed to parse private key'' (ie_parse_pkcs8 ie block)))"

definition private_key :: "'w install_env \<Rightarrow> string \<Rightarrow> ('w, string) sys" where
  "private_key ie path m =
     (case stat_file (ie_os ie) path m of
        StatMissing \<Rightarrow> new_private_key ie path m
      | StatFailed e \<Rightarrow> (Inl (WithMessage e ''failed to stat private key file''), m)
      | StatOk \<Rightarrow>
          bindE (wrapE ''failed to read private key file'' (read_file (ie_os ie) path))
            (\<lambda>data m. (parse_private_key ie data, m)) m)"

definition new_certificate_request :: "'w install_env \<Rightarrow> string \<Rightarrow> string \<Rightarrow> string \<Rightarrow> ('w, unit) sys" where
  "new_certificate_request ie path key hostname =
     bindE (wrapE ''failed to create certificate request'' (ie_new_csr ie key hostname)) (\<lambda>csr.
     bindE (wrapE ''failed to create certificate request file'' (write_file (ie_os ie) path [])) (\<lambda>_.
       wrapE ''failed to encode certificate request'' (write_file (ie_os ie) path csr)))"

definition certificate_request :: "'w install_env \<Rightarrow> string \<Rightarrow> string \<Rightarrow> string \<Rightarrow> ('w, unit) sys" where
  "certificate_request ie path key hostname m =
     (case stat_file (ie_os ie) path m of
        StatMissing \<Rightarrow> new_certificate_request ie path key hostname m
      | StatFailed e \<Rightarrow> (Inl (WithMessage e ''failed to stat certificate request file''), m)
      | StatOk \<Rightarrow> (Inr (), m))"

definition server_key_path :: "daemons_install_state \<Rightarrow> string" where
  "server_key_path st = path_join [di_certs_path st, ''server.key'']"

definition server_csr_path :: "daemons_install_state \<Rightarrow> string" where
  "server_csr_path st = path_join [di_certs_path st, ''server.csr'']"

definition ensure_certs_dir :: "'w install_env \<Rightarrow> daemons_install_state \<Rightarrow> ('w, unit) sys" where
  "ensure_certs_dir ie st m =
     (if stat_file (ie_os ie) (di_certs_path st) m = StatMissing
      then wrapE ''failed to create certificates directory'' (mkdir_all (ie_os ie) (di_certs_path st)) m
      else (Inr (), m))"

definition generate_certificates :: "'w install_env \<Rightarrow> daemons_install_state \<Rightarrow> ('w, unit) sys" where
  "generate_certificates ie st =
     bindE (wrapE ''failed to get hostname'' (\<lambda>m. (ie_hostname ie m, m))) (\<lambda>hostname.
     bindE (ensure_certs_dir ie st) (\<lambda>_.
     bindE (private_key ie (server_key_path st)) (\<lambda>key.
       certificate_request ie (server_csr_path st) key hostname)))"

section \<open>The binary\<close>

definition find_daemon_release :: "'w install_env \<Rightarrow> string \<Rightarrow> string \<Rightarrow> ('w, resolved_release) sys" where
  "find_daemon_release ie tag prefix = update_find_release (ie_update ie) tag prefix"

text \<open>The first of the two names that the archive has is moved into place.\<close>

fun move_binary :: "'w install_env \<Rightarrow> string \<Rightarrow> string \<Rightarrow> string list \<Rightarrow> ('w, unit) sys" where
  "move_binary ie dir dst [] m = (Inl (Err (''gameap binaries wasn'' @ [CHR 0x27] @ ''t installed, invalid archive contents'')), m)"
| "move_binary ie dir dst (n # ns) m =
     (let fp = path_join [dir, n] in
      case stat_file (ie_os ie) fp m of
        StatMissing \<Rightarrow> move_binary ie dir dst ns m
      | StatFailed e \<Rightarrow> (Inl (WithMessage e ''failed to stat file''), m)
      | StatOk \<Rightarrow> wrapE ''failed to move gameap-daemon binaries'' (move_file (ie_fs ie) fp dst) m)"

definition fetch_binary :: "'w install_env \<Rightarrow> daemons_install_state \<Rightarrow> string \<Rightarrow> ('w, string) sys" where
  "fetch_binary ie st tmp =
     (let dir = path_join [tmp, ''daemon'']; u = ie_update ie in
      bindE (wrapE ''failed to find release'' (find_daemon_release ie (di_tag st) (di_tag_prefix st))) (\<lambda>rel.
      bindE (wrapE ''failed to download gameap-daemon binaries''
        (download_with (ho_canceled (ue_host u)) (\<lambda>url. ue_get u url dir) (Some rel))) (\<lambda>_.
      bindE (move_binary ie dir (di_daemon_file_path st) [''gameap-daemon'', ''gameap-daemon.exe'']) (\<lambda>_.
        retE (res_tag rel)))))"

definition install_daemon_binaries ::
  "'w install_env \<Rightarrow> 'w package_manager \<Rightarrow> daemons_install_state \<Rightarrow> ('w, daemons_install_state) psys" where
  "install_daemon_binaries ie pm st =
     bindP (liftP (wrapE ''failed to make temp dir'' (ue_mkdtemp (ie_update ie) ''gameap''))) (\<lambda>tmp.
       finallyP
         (bindP (liftP (fetch_binary ie st tmp)) (\<lambda>tag.
          bindP (if di_distribution st = distribution_windows
                 then wrapP ''failed to install gameap-daemon'' (pm_install pm ''gameap-daemon'' [])
                 else liftP (retE ())) (\<lambda>_.
            liftP (retE (st\<lparr>di_resolved_tag := tag\<rparr>)))))
         (ue_remove_all (ie_update ie) tmp))"

text \<open>\<open>SetupDaemonFromGithub\<close> with the package manager that was loaded.\<close>

definition github_tools :: "'w install_env \<Rightarrow> 'w package_manager \<Rightarrow> bool \<Rightarrow> ('w, unit) psys" where
  "github_tools ie pm user_scope =
     (if user_scope then liftP (ensure_github_build_tools (ie_update ie) True)
      else
        bindP (wrapP ''failed to install git'' (pm_install pm ''git'' [])) (\<lambda>_.
        bindP (wrapP ''failed to install golang'' (pm_install pm ''go'' [])) (\<lambda>_ m.
          Some (Inr (), ue_update_path (ie_update ie) m))))"

definition install_daemon_from_github ::
  "'w install_env \<Rightarrow> 'w package_manager \<Rightarrow> daemons_install_state \<Rightarrow> ('w, daemons_install_state) psys" where
  "install_daemon_from_github ie pm st =
     bindP (wrapP ''failed to build daemon from github''
       (bindP (github_tools ie pm (di_scope st = scope_user))
          (\<lambda>_. liftP (clone_and_build (ie_update ie) (di_branch st) (di_daemon_file_path st)))))
       (\<lambda>_. liftP (retE st))"

section \<open>Registration\<close>

fun detect_location_from :: "'w install_env \<Rightarrow> string list \<Rightarrow> 'w machine \<Rightarrow> string \<times> 'w machine" where
  "detect_location_from ie [] m = (''unknown'', m)"
| "detect_location_from ie (u # us) m =
     (case ie_http_get ie u m of
        (Inl _, t) \<Rightarrow> detect_location_from ie us t
      | (Inr a, t) \<Rightarrow>
          (if ha_status a \<noteq> 200 \<or> ha_length a > 20 then detect_location_from ie us t
           else case ha_body a of
             Inr (c # cs) \<Rightarrow> (c # cs, t)
           | _ \<Rightarrow> detect_location_from ie us t))"

definition detect_location :: "'w install_env \<Rightarrow> 'w machine \<Rightarrow> string \<times> 'w machine" where
  "detect_location ie =
     detect_location_from ie [''https://ifconfig.co/country'', ''https://ifconfig.es/geo/country'', ''https://ipconfig.pw/country'']"

definition registration_form ::
  "'w install_env \<Rightarrow> daemons_install_state \<Rightarrow> string \<Rightarrow> string \<Rightarrow> string list \<Rightarrow> string \<Rightarrow> (string \<times> string) list" where
  "registration_form ie st hostname location ips csr =
     [(''name'', hostname), (''location'', location), (''work_path'', di_work_path st),
      (''steamcmd_path'', di_steamcmd_path st), (''os'', ie_goos ie)] @
     map (\<lambda>ip. (''ip[]'', ip)) ips @
     [(''gdaemon_host'', di_listen_ip st), (''gdaemon_port'', ''31717''), (''gdaemon_server_cert'', csr),
      (''script_get_console'', ''server-output {id}''), (''script_send_command'', ''server-command {id} {command}'')]"

definition write_certificates :: "'w install_env \<Rightarrow> daemons_install_state \<Rightarrow> node_registration \<Rightarrow> ('w, unit) sys" where
  "write_certificates ie st reg =
     bindE (wrapE ''failed to write ca certificate''
       (write_file (ie_os ie) (path_join [di_certs_path st, ''ca.crt'']) (nr_ca reg))) (\<lambda>_.
       wrapE ''failed to write server certificate''
         (write_file (ie_os ie) (path_join [di_certs_path st, ''server.crt'']) (nr_cert reg)))"

text \<open>What is made of the answer, once its body is there.\<close>

definition accept_registration ::
  "'w install_env \<Rightarrow> daemons_install_state \<Rightarrow> node_registration result \<Rightarrow> ('w, daemons_install_state) sys" where
  "accept_registration ie st reg =
     (case reg of
        Inl e \<Rightarrow> failE e
      | Inr reg \<Rightarrow>
          bindE (write_certificates ie st reg) (\<lambda>_.
            retE (st\<lparr>di_node_id := nr_node_id reg, di_api_key := nr_api_key reg\<rparr>)))"

definition registration_answer :: "nat \<times> string result \<Rightarrow> node_registration result" where
  "registration_answer a =
     (case snd a of
        Inl e \<Rightarrow> Inl (WithMessage e ''failed to read response body'')
      | Inr text \<Rightarrow> if fst a \<noteq> 200 then Inl (InvalidStatusCode (fst a)) else parse_registration text)"

definition register_node :: "'w install_env \<Rightarrow> daemons_install_state \<Rightarrow> (string \<times> string) list \<Rightarrow> ('w, daemons_install_state) sys" where
  "register_node ie st form =
     bindE (wrapE ''failed to create daemon create url''
       (\<lambda>m. (ie_join_url ie (di_host st) [''/gdaemon/create/'', di_token st], m))) (\<lambda>url.
     bindE (wrapE ''failed to post daemon create request'' (ie_post ie url form)) (\<lambda>a.
       accept_registration ie st (registration_answer a)))"

definition configure_daemon :: "'w install_env \<Rightarrow> daemons_install_state \<Rightarrow> ('w, daemons_install_state) sys" where
  "configure_daemon ie st =
     bindE (wrapE ''failed to get hostname'' (\<lambda>m. (ie_hostname ie m, m))) (\<lambda>hostname m.
       case detect_location ie m of (location, m) \<Rightarrow>
         let ips = ie_detect_ips ie m; st = st\<lparr>di_listen_ip := choose_best_ip ips\<rparr> in
         bindE (wrapE ''failed to open certificate request file'' (read_file (ie_os ie) (server_csr_path st)))
           (\<lambda>csr. register_node ie st
              (registration_form ie st hostname location (remove_local_ips ips) csr)) m)"

definition legacy_configure_flow :: "'w install_env \<Rightarrow> daemons_install_state \<Rightarrow> ('w, daemons_install_state) sys" where
  "legacy_configure_flow ie st =
     bindE (wrapE ''failed to generate certificates'' (generate_certificates ie st)) (\<lambda>_.
     bindE (wrapE ''failed to configure daemon'' (configure_daemon ie st)) (\<lambda>st.
     bindE (wrapE ''failed to save daemon config''
       (save_daemon_config (ie_os ie) (ie_marshal ie) (ie_order ie (parse_config_overrides (di_config st))) st)) (\<lambda>_.
       retE st)))"

section \<open>Enrolment\<close>

definition enroll_daemon :: "'w install_env \<Rightarrow> daemons_install_state \<Rightarrow> ('w, unit) sys" where
  "enroll_daemon ie st m =
     (if stat_file (ie_os ie) (di_daemon_file_path st) m = StatMissing
      then (Inl (Err (''gameap-daemon binary not found at '' @ di_daemon_file_path st)), m)
      else case ie_enroll ie
          [di_daemon_file_path st, ''enroll'', ''--connect='' @ di_connect_url st,
           ''--config-path='' @ di_config_file_path st, ''--certs-dir='' @ di_certs_path st,
           ''--work-path='' @ di_work_path st] m of
        ((err, None), t) \<Rightarrow> (Inr (), t)
      | ((err, Some e), t) \<Rightarrow>
          (Inl (WithMessage e (if err \<noteq> [] then ''gameap-daemon enroll failed: '' @ trim_space err
                               else ''gameap-daemon enroll failed'')), t))"

definition enroll_flow :: "'w install_env \<Rightarrow> daemons_install_state \<Rightarrow> ('w, daemons_install_state) sys" where
  "enroll_flow ie st =
     (let yl = ue_yaml (ie_update ie); cfg = di_config_file_path st in
      bindE (ensure_certs_dir ie st) (\<lambda>_.
      bindE (wrapE ''failed to enroll daemon via connect URL'' (enroll_daemon ie st)) (\<lambda>_.
      bindE (wrapE ''failed to set steamcmd_path in daemon config''
        (apply_steamcmd_path (ie_os ie) yl cfg (di_steamcmd_path st))) (\<lambda>_.
      bindE (if di_scope st = scope_user \<and> di_process_manager st = pm_systemd
             then wrapE ''failed to set user scope on process manager in daemon config''
               (apply_user_scope_process_manager (ie_os ie) yl cfg) else retE ()) (\<lambda>_.
      bindE (if di_distribution st = distribution_windows
             then wrapE ''failed to set use_network_service_user in daemon config''
               (apply_windows_network_service_user (ie_os ie) yl cfg) else retE ()) (\<lambda>_.
        retE st))))))"

section \<open>The installation\<close>

definition install_record :: "daemons_install_state \<Rightarrow> daemon_install_record" where
  "install_record st =
     \<lparr>dir_host = di_host st, dir_connect_url = di_connect_url st, dir_version = di_resolved_tag st,
      dir_scope = di_scope st, dir_work_path = di_work_path st, dir_steamcmd_path = di_steamcmd_path st,
      dir_certs_path = di_certs_path st, dir_from_github = di_from_github st, dir_branch = di_branch st,
      dir_process_manager = di_process_manager st, dir_grpc_enabled = False\<rparr>"

definition configure_node :: "'w install_env \<Rightarrow> daemons_install_state \<Rightarrow> ('w, daemons_install_state) sys" where
  "configure_node ie st = (if di_connect_url st \<noteq> [] then enroll_flow ie st else legacy_configure_flow ie st)"

definition finish_install :: "'w install_env \<Rightarrow> daemons_install_state \<Rightarrow> ('w, unit) sys" where
  "finish_install ie st =
     (let u = ie_update ie in
      bindE (\<lambda>m. setup_cdn_replacements (ue_os u) (ue_yaml u) (di_config_file_path st) (ue_cdn u m) m) (\<lambda>_.
      bindE (quietly (save_daemon_install_state (ue_os u) (ue_home u) (ue_codec u) (install_record st))) (\<lambda>_.
        wrapE ''failed to start gameap-daemon'' (daemon_start (ue_host u) (di_scope st)))))"

definition install_binary ::
  "'w install_env \<Rightarrow> 'w package_manager \<Rightarrow> daemons_install_state \<Rightarrow> ('w, daemons_install_state) psys" where
  "install_binary ie pm st =
     wrapP ''failed to install daemon binaries''
       (if di_from_github st then install_daemon_from_github ie pm st else install_daemon_binaries ie pm st)"

definition set_up_system :: "'w install_env \<Rightarrow> 'w package_manager \<Rightarrow> daemons_install_state \<Rightarrow> ('w, unit) psys" where
  "set_up_system ie pm st =
     bindP (install_tools ie pm st) (\<lambda>_.
     bindP (liftP (wrapE ''failed to create user'' (create_daemon_user ie st))) (\<lambda>_.
     bindP (liftP (ensure_servers_dir ie st)) (\<lambda>_.
     bindP (if di_is_x86 st then wrapP ''failed install SteamCMD'' (install_steamcmd ie pm st)
            else liftP (retE ())) (\<lambda>_.
     bindP (install_archivers pm st) (\<lambda>_.
       liftP (wrapE ''failed to set user privileges'' (set_user_privileges ie st)))))))"

definition install_with :: "'w install_env \<Rightarrow> daemons_install_state \<Rightarrow> 'w package_manager \<Rightarrow> ('w, unit) psys" where
  "install_with ie st pm =
     bindP (if di_scope st \<noteq> scope_user then wrapP ''failed to check for updates'' (liftP (pm_check pm))
            else liftP (retE ())) (\<lambda>_ m.
       let st = define_process_manager (ie_init_name ie m) st in
       bindP (set_up_system ie pm st) (\<lambda>_.
       bindP (install_binary ie pm st) (\<lambda>st.
       bindP (liftP (configure_node ie st)) (\<lambda>st.
         liftP (finish_install ie st)))) m)"

definition daemon_install :: "'w install_env \<Rightarrow> install_options \<Rightarrow> ('w, unit) psys" where
  "daemon_install ie opts =
     bindP (liftP (prepare_install ie opts)) (\<lambda>st.
     bindP (liftP (wrapE ''failed to prepare daemon directories'' (ensure_daemon_dirs ie st))) (\<lambda>_ m.
       case ie_load_pm ie m of
         Inl e \<Rightarrow> Some (Inl (WithMessage e ''failed to load package manager''), m)
       | Inr pm \<Rightarrow> install_with ie st pm m))"

section \<open>Lemmas\<close>

text \<open>What the checks of the options fix for the rest.\<close>

lemma check_options_scope:
  assumes "check_options ie opts = Inr st"
  shows "di_distribution st = oi_distribution (ie_info ie) \<and>
    (io_scope opts = scope_user \<longrightarrow> di_scope st = scope_user)"
proof -
  from assms obtain scope ps tags where s: "resolve_scope_for_os (io_scope opts) (ie_goos ie) = Inr scope"
    "st = initial_state (ie_info ie) opts scope ps tags"
    by (auto simp: check_options_def split: if_splits sum.splits)
  then show ?thesis
    by (auto simp: initial_state_def resolve_scope_for_os_def scope_or_default_def scope_user_def scope_system_def
        split: if_splits)
qed

lemma prepare_install_scope:
  assumes "prepare_install ie opts m = (Inr st, t)"
  shows "di_distribution st = oi_distribution (ie_info ie) \<and>
    (io_scope opts = scope_user \<longrightarrow> di_scope st = scope_user)"
proof -
  from assms obtain opts' where "check_options ie opts' = Inr st" "io_scope opts' = io_scope opts"
    by (fastforce simp: prepare_install_def Let_def bindE_Inr_iff split: if_splits)
  with check_options_scope show ?thesis by metis
qed

lemma define_process_manager_keeps [simp]:
  "di_scope (define_process_manager init st) = di_scope st"
  "di_distribution (define_process_manager init st) = di_distribution st"
  by (simp_all add: define_process_manager_def split: option.split list.split)

text \<open>An environment in which the privileged parts are others.\<close>

abbreviation other_privileges ::
  "'w install_env \<Rightarrow> 'w user_env \<Rightarrow> ('w machine \<Rightarrow> 'w package_manager result) \<Rightarrow> 'w install_env" where
  "other_privileges ie us load \<equiv> ie\<lparr>ie_users := us, ie_load_pm := load\<rparr>"

lemma move_binary_other [simp]: "move_binary (other_privileges ie us load) dir dst ns m = move_binary ie dir dst ns m"
  by (induction ns) (simp_all add: Let_def split: stat_reply.split)

lemma detect_location_other [simp]: "detect_location (other_privileges ie us load) = detect_location ie"
proof -
  have "detect_location_from (other_privileges ie us load) urls m = detect_location_from ie urls m" for urls m
    by (induction urls arbitrary: m) (simp_all split: prod.split sum.split list.split)
  then show ?thesis by (intro ext) (simp only: detect_location_def)
qed

lemma prepare_install_other [simp]: "prepare_install (other_privileges ie us load) opts = prepare_install ie opts"
proof -
  have "check_options (other_privileges ie us load) = check_options ie"
    by (intro ext) (simp add: check_options_def split: sum.split)
  then show ?thesis by (intro ext) (simp add: prepare_install_def)
qed

lemma ensure_daemon_dirs_other [simp]: "ensure_daemon_dirs (other_privileges ie us load) st = ensure_daemon_dirs ie st"
  by (simp add: ensure_daemon_dirs_def)

lemma configure_node_other [simp]: "configure_node (other_privileges ie us load) st = configure_node ie st"
proof -
  let ?ie = "other_privileges ie us load"
  have certs: "ensure_certs_dir ?ie st = ensure_certs_dir ie st" by (intro ext) (simp add: ensure_certs_dir_def)
  have "enroll_daemon ?ie st = enroll_daemon ie st" by (intro ext) (simp add: enroll_daemon_def)
  with certs have e: "enroll_flow ?ie st = enroll_flow ie st" by (simp add: enroll_flow_def Let_def)
  have parse: "parse_private_key ?ie = parse_private_key ie"
    by (intro ext) (simp add: parse_private_key_def split: option.split sum.split)
  have "private_key ?ie p = private_key ie p" "certificate_request ?ie p k h = certificate_request ie p k h" for p k h
    using parse by (intro ext; simp add: private_key_def new_private_key_def certificate_request_def
        new_certificate_request_def split: stat_reply.split)+
  with certs have g: "generate_certificates ?ie st = generate_certificates ie st" by (simp add: generate_certificates_def)
  have wc: "write_certificates ?ie = write_certificates ie" by (intro ext) (simp add: write_certificates_def)
  have "accept_registration ?ie = accept_registration ie"
    by (intro ext) (simp add: accept_registration_def wc split: sum.split)
  then have "register_node ?ie = register_node ie" by (intro ext) (simp add: register_node_def)
  moreover have "registration_form ?ie = registration_form ie" by (intro ext) (simp add: registration_form_def)
  ultimately have "configure_daemon ?ie st = configure_daemon ie st" by (simp add: configure_daemon_def)
  with g have "legacy_configure_flow ?ie st = legacy_configure_flow ie st" by (simp add: legacy_configure_flow_def)
  with e show ?thesis by (simp add: configure_node_def)
qed

lemma finish_install_other [simp]: "finish_install (other_privileges ie us load) st = finish_install ie st"
  by (simp add: finish_install_def)

text \<open>In user scope and outside Windows none of the privileged parts is used.\<close>

lemma set_up_system_user:
  assumes "di_scope st = scope_user"
  shows "set_up_system (other_privileges ie us load) pm st = set_up_system ie pm' st"
proof -
  let ?ie = "other_privileges ie us load"
  have "ensure_servers_dir ?ie st = ensure_servers_dir ie st" by (intro ext) (simp add: ensure_servers_dir_def Let_def cong: if_cong)
  moreover have "create_daemon_user ?ie st = create_daemon_user ie st" "set_user_privileges ?ie st = set_user_privileges ie st"
    using assms by (intro ext, simp add: create_daemon_user_def) (intro ext, simp add: assms set_user_privileges_def)
  moreover have "install_steamcmd ?ie pm st = install_steamcmd ie pm' st"
  proof -
    have "download_steamcmd ?ie st = download_steamcmd ie st" "steamcmd_binary ?ie st = steamcmd_binary ie st"
      by (simp_all add: download_steamcmd_def steamcmd_binary_def)
    with assms show ?thesis by (simp add: install_steamcmd_def cong: if_cong)
  qed
  ultimately show ?thesis
    using assms by (simp add: set_up_system_def install_tools_def install_archivers_def)
qed

lemma install_binary_user:
  assumes "di_scope st = scope_user" and "di_distribution st \<noteq> distribution_windows"
  shows "install_binary (other_privileges ie us load) pm st = install_binary ie pm' st"
proof -
  have "fetch_binary (other_privileges ie us load) st = fetch_binary ie st"
  proof
    fix tmp
    have "move_binary (other_privileges ie us load) dir dst ns = move_binary ie dir dst ns" for dir dst ns by (rule ext) simp
    then show "fetch_binary (other_privileges ie us load) st tmp = fetch_binary ie st tmp"
      by (simp add: fetch_binary_def find_daemon_release_def)
  qed
  with assms show ?thesis
    by (simp add: install_binary_def install_daemon_from_github_def github_tools_def install_daemon_binaries_def)
qed

lemma install_with_user:
  assumes "di_scope st = scope_user" and "di_distribution st \<noteq> distribution_windows"
  shows "install_with (other_privileges ie us load) st pm = install_with ie st pm'"
  using assms
  by (intro ext)
    (simp add: install_with_def set_up_system_user [where pm' = pm'] install_binary_user [where pm' = pm'] Let_def)

text \<open>An installation returns when the installs of its package manager do.\<close>

lemma install_with_returns:
  assumes inst: "\<And>p opts. returns (pm_install pm p opts)"
  shows "returns (install_with ie st pm)"
proof -
  have tool: "returns (ensure_tool ie pm cmd pack)" for cmd pack
    unfolding ensure_tool_def [abs_def] using returnsD [OF returns_wrapP [OF inst]]
    by (intro returnsI) simp
  have "returns (install_tools ie pm st)" for st
    unfolding install_tools_def by (auto intro!: returns_intros tool)
  moreover have "returns (\<lambda>m. if P m then Some (Inr (), m) else Some (q m))" for P and q :: "'a machine \<Rightarrow> unit result \<times> 'a machine"
    by (simp add: returns_def)
  then have "returns (install_steamcmd ie pm st)" for st
    unfolding install_steamcmd_def by (auto intro!: returns_intros inst)
  moreover have "returns (install_archivers pm st)" for st
    unfolding install_archivers_def by (auto intro!: returns_intros inst)
  ultimately have sys: "returns (set_up_system ie pm st)" for st
    unfolding set_up_system_def by (auto intro!: returns_intros)
  have "returns (\<lambda>m. Some (f m))" for f :: "'a machine \<Rightarrow> unit result \<times> 'a machine" by (simp add: returns_def)
  then have "returns (github_tools ie pm us)" for us
    unfolding github_tools_def by (auto intro!: returns_intros inst)
  then have bin: "returns (install_binary ie pm st)" for st
    unfolding install_binary_def install_daemon_from_github_def install_daemon_binaries_def
    by (auto intro!: returns_intros inst)
  have "returns (bindP (set_up_system ie pm st) (\<lambda>_. bindP (install_binary ie pm st) (\<lambda>st.
      bindP (liftP (configure_node ie st)) (\<lambda>st. liftP (finish_install ie st)))))" for st
    by (intro returns_intros sys bin)
  then have "returns (\<lambda>m. let st = define_process_manager (ie_init_name ie m) st in
      bindP (set_up_system ie pm st) (\<lambda>_. bindP (install_binary ie pm st) (\<lambda>st.
      bindP (liftP (configure_node ie st)) (\<lambda>st. liftP (finish_install ie st)))) m)"
    by (simp add: returns_def Let_def)
  then show ?thesis unfolding install_with_def by (auto intro!: returns_intros)
qed

lemma csr_is_not_key: "path_is_abs (di_certs_path st) \<Longrightarrow> server_csr_path st \<noteq> server_key_path st"
proof
  assume a: "path_is_abs (di_certs_path st)" and "server_csr_path st = server_key_path st"
  then have "parts (server_csr_path st) = parts (server_key_path st)" by simp
  with a show False
    by (simp add: server_csr_path_def server_key_path_def parts_path_join plain_part_def)
qed

lemma private_key_present:
  "stat_file (ie_os ie) path m \<noteq> StatMissing \<Longrightarrow> snd (private_key ie path m) = m"
  by (simp add: private_key_def snd_bindE read_file_state split: stat_reply.split sum.split)

lemma certificate_request_leaves:
  assumes "server_csr_path st \<noteq> server_key_path st"
    and "\<And>k h. leaves (server_key_path st) (ie_new_csr ie k h)"
  shows "files (snd (certificate_request ie (server_csr_path st) key hostname m)) (server_key_path st) =
    files m (server_key_path st)"
proof -
  have "leaves (server_key_path st) (new_certificate_request ie (server_csr_path st) key hostname)"
    unfolding new_certificate_request_def
    using assms by (intro leaves_bindE leaves_basic leaves_write) auto
  from leavesD [OF this, of m] show ?thesis
    by (auto simp: certificate_request_def split: stat_reply.split) (metis prod.collapse)
qed

section \<open>Examples\<close>

text \<open>
  A Debian host on which the daemon of release \<open>one\<close> starts, with a panel that answers nothing: its
  keys are plain strings, its package manager is the one that \<open>Load\<close> gives.
\<close>

definition example_pm_env :: "bool pm_env" where
  "example_pm_env =
     \<lparr>pe_host = example_host ''two'', pe_info = example_info, pe_exec = (\<lambda>_ _. retE ()),
      pe_combined = (\<lambda>_ _ m. (([], None), m)), pe_stdout = (\<lambda>_. retE []), pe_list_dir = (\<lambda>_. retE []),
      pe_unlz4 = (\<lambda>s. s), pe_render = (\<lambda>_ _ c. retE c), pe_download = (\<lambda>_ _. retE ()),
      pe_download_archive = (\<lambda>_ _. retE ()), pe_make_temp = retE ''/tmp/x'', pe_remove_all = (\<lambda>_. retE ()),
      pe_repository = []\<rparr>"

definition example_users :: "bool user_env" where
  "example_users =
     \<lparr>us_host = example_host ''two'', us_lookup_user = (\<lambda>_ _. UserFound ''7'' ''7''),
      us_lookup_group = (\<lambda>n _. Inr (n, ''7'')), us_chpasswd = (\<lambda>_. retE ()), us_walk = (\<lambda>_ _. []),
      us_chown = (\<lambda>_ _ _. retE ())\<rparr>"

definition refusing_users :: "bool user_env" where
  "refusing_users = example_users\<lparr>us_lookup_user := (\<lambda>_ _. UserLookupFailed (Err ''no'')), us_chown := (\<lambda>_ _ _. failE (Err ''no''))\<rparr>"

definition example_fs :: "bool fs_lib" where
  "example_fs =
     \<lparr>fl_os = calm_os, fl_copy = (\<lambda>_ _. retE ()), fl_remove_all = (\<lambda>_. retE ()), fl_cross_device = (\<lambda>_. False),
      fl_owner = (\<lambda>_ _. (0, 0)), fl_chown = (\<lambda>_ _ _. retE ()), fl_create_temp = (\<lambda>_. retE ''/tmp/y'')\<rparr>"

definition example_install :: "bool install_env" where
  "example_install =
     \<lparr>ie_update = example_update ''two'', ie_users = example_users, ie_fs = example_fs, ie_info = example_info,
      ie_goos = ''linux'', ie_int_size = 64, ie_init_name = (\<lambda>_. Some ''systemd''),
      ie_load_pm = load_package_manager example_pm_env (\<lambda>_. Inr Map.empty) (Inl ConfigNotFound),
      ie_resolve = \<lparr>tls_probe = (\<lambda>_. retE None), local_ips = (\<lambda>_. []), suggest = (\<lambda>_ m. m)\<rparr>,
      ie_hostname = (\<lambda>_. Inr ''node''), ie_new_key = retE ''new'', ie_pem_key = (\<lambda>k. k), ie_pem_decode = Some,
      ie_parse_pkcs1 = Inr, ie_parse_pkcs8 = Inr, ie_new_csr = (\<lambda>k _. retE k),
      ie_http_get = (\<lambda>_. failE (Err ''no route'')), ie_detect_ips = (\<lambda>_. []), ie_join_url = (\<lambda>u ps. Inr (concat (u # ps))),
      ie_post = (\<lambda>_ _. failE (Err ''no route'')), ie_enroll = (\<lambda>_ m. (([], None), m)), ie_order = (\<lambda>_. []),
      ie_marshal = (\<lambda>_. Inr [])\<rparr>"

definition example_options :: install_options where
  "example_options =
     \<lparr>io_host = ''http://panel'', io_token = ''t'', io_connect_url = [], io_config = [], io_scope = scope_user,
      io_from_github = False, io_branch = ''master'', io_version = []\<rparr>"

definition example_node :: daemons_install_state where
  "example_node =
     initial_state example_info example_options scope_system system_daemon_paths ([], [])"

definition node_with_key :: "bool machine" where
  "node_with_key =
     \<lparr>files = [server_key_path example_node \<mapsto> ''old'', server_csr_path example_node \<mapsto> ''old''],
      dirs = {di_certs_path example_node}, world = False, service_memo = None\<rparr>"

definition node_without_key :: "bool machine" where
  "node_without_key = node_with_key\<lparr>files := [server_csr_path example_node \<mapsto> ''old'']\<rparr>"

lemma example_manager_loads: "\<exists>pm. ie_load_pm example_install m = Inr pm"
  by (simp add: example_install_def load_package_manager_def load_debian_manager_def new_extended_apt_def
      example_pm_env_def example_info_def Let_def)

section \<open>Properties\<close>

text \<open>
  C14: an installation in user scope uses no privilege: it does exactly the same with any other
  package manager and any other user database, so it installs no package, creates no user
  or group and gives no file to anybody.
\<close>

theorem user_scope_install_unprivileged:
  assumes "io_scope opts = scope_user" and "oi_distribution (ie_info ie) \<noteq> distribution_windows"
    and "\<And>m. (case ie_load_pm ie m of Inl e \<Rightarrow> load m = Inl e | Inr _ \<Rightarrow> \<exists>pm. load m = Inr pm)"
  shows "daemon_install (ie\<lparr>ie_users := us, ie_load_pm := load\<rparr>) opts = daemon_install ie opts"
proof -
  have "(\<lambda>m. case load m of
        Inl e \<Rightarrow> Some (Inl (WithMessage e ''failed to load package manager''), m)
      | Inr pm \<Rightarrow> install_with (other_privileges ie us load) st pm m) =
    (\<lambda>m. case ie_load_pm ie m of
        Inl e \<Rightarrow> Some (Inl (WithMessage e ''failed to load package manager''), m)
      | Inr pm \<Rightarrow> install_with ie st pm m)"
    if "prepare_install ie opts m0 = (Inr st, t)" for st m0 t
  proof
    fix m
    have "di_scope st = scope_user" "di_distribution st \<noteq> distribution_windows"
      using prepare_install_scope [OF that] assms(1,2) by simp_all
    note same = install_with_user [OF this]
    show "(case load m of
        Inl e \<Rightarrow> Some (Inl (WithMessage e ''failed to load package manager''), m)
      | Inr pm \<Rightarrow> install_with (other_privileges ie us load) st pm m) =
     (case ie_load_pm ie m of
        Inl e \<Rightarrow> Some (Inl (WithMessage e ''failed to load package manager''), m)
      | Inr pm \<Rightarrow> install_with ie st pm m)"
    proof (cases "ie_load_pm ie m")
      case (Inl e)
      then show ?thesis using assms(3) [of m] by simp
    next
      case (Inr pm')
      then obtain pm where "load m = Inr pm" using assms(3) [of m] by auto
      with Inr show ?thesis by (simp add: fun_cong [OF same [where pm = pm and pm' = pm']])
    qed
  qed
  then show ?thesis
    unfolding daemon_install_def prepare_install_other ensure_daemon_dirs_other
    by (intro bindP_liftP_cong) simp
qed

theorem user_scope_install_unprivileged_witness:
  "daemon_install (example_install\<lparr>ie_users := refusing_users,
      ie_load_pm := \<lambda>_. Inr (fallback_manager (chroot_manager example_pm_env) (chroot_manager example_pm_env))\<rparr>) example_options =
    daemon_install example_install example_options"
proof (rule user_scope_install_unprivileged)
  show "io_scope example_options = scope_user" by (simp add: example_options_def)
  show "oi_distribution (ie_info example_install) \<noteq> distribution_windows"
    by (simp add: example_install_def example_info_def distribution_windows_def)
next
  fix m
  obtain pm where "ie_load_pm example_install m = Inr pm" using example_manager_loads by blast
  then show "case ie_load_pm example_install m of
      Inl e \<Rightarrow> Inr (fallback_manager (chroot_manager example_pm_env) (chroot_manager example_pm_env)) = Inl e
    | Inr _ \<Rightarrow> \<exists>pm. Inr (fallback_manager (chroot_manager example_pm_env) (chroot_manager example_pm_env)) = Inr pm"
    by simp
qed



text \<open>
  A private key that is there is never written, whatever fails: the certificates are made
  for the key that the node already has.
\<close>

theorem existing_private_key_kept:
  assumes "path_is_abs (di_certs_path st)" and "\<And>k h. leaves (server_key_path st) (ie_new_csr ie k h)"
    and "stat_file (ie_os ie) (di_certs_path st) m \<noteq> StatMissing"
    and "stat_file (ie_os ie) (server_key_path st) m \<noteq> StatMissing"
  shows "files (snd (generate_certificates ie st m)) (server_key_path st) = files m (server_key_path st)"
proof -
  have "ensure_certs_dir ie st m = (Inr (), m)" using assms(3) by (simp add: ensure_certs_dir_def)
  then show ?thesis
    using private_key_present [OF assms(4)] certificate_request_leaves [OF csr_is_not_key [OF assms(1)] assms(2)]
    by (simp add: generate_certificates_def snd_bindE wrapE_def with_message_def split: sum.split)
qed

theorem existing_private_key_kept_witness:
  "files (snd (generate_certificates example_install example_node node_with_key)) (server_key_path example_node) =
    files node_with_key (server_key_path example_node)"
proof (rule existing_private_key_kept)
  show "path_is_abs (di_certs_path example_node)" by code_simp
  show "leaves (server_key_path example_node) (ie_new_csr example_install k h)" for k h
    by (intro leavesI) (auto simp: example_install_def retE_def)
  have os: "ie_os example_install = calm_os"
    by (simp add: example_install_def example_update_def example_host_def)
  show "stat_file (ie_os example_install) (di_certs_path example_node) node_with_key \<noteq> StatMissing"
    by (simp add: os stat_file_def path_exists_def calm_os_def node_with_key_def)
  show "stat_file (ie_os example_install) (server_key_path example_node) node_with_key \<noteq> StatMissing"
    by (simp add: os stat_file_def path_exists_def calm_os_def node_with_key_def)
qed

text \<open>
  A certificate request that is there is kept even when the private key is made anew, so that
  the panel then signs a certificate for a key that the node no longer has.
\<close>

theorem new_key_with_old_request:
  assumes "\<And>p t. fault (ie_os ie) (OpStat p) t = None" and "path_is_abs (di_certs_path st)"
    and "leaves (server_csr_path st) (ie_new_key ie)"
    and "di_certs_path st \<in> dirs m" and "\<not> path_exists m (server_key_path st)"
    and "files m (server_csr_path st) = Some old"
    and "generate_certificates ie st m = (Inr (), t)"
  shows "files t (server_csr_path st) = Some old \<and>
    (\<exists>key s. ie_new_key ie m = (Inr key, s) \<and> files t (server_key_path st) = Some (ie_pem_key ie key))"
proof -
  note st = stat_file_def assms(1) path_exists_def
  have "ensure_certs_dir ie st m = (Inr (), m)" using assms(4) by (simp add: ensure_certs_dir_def st)
  with assms(7) obtain h key u where u: "private_key ie (server_key_path st) m = (Inr key, u)"
    "certificate_request ie (server_csr_path st) key h u = (Inr (), t)"
    by (auto simp: generate_certificates_def bindE_Inr_iff)
  have "private_key ie (server_key_path st) m = new_private_key ie (server_key_path st) m"
    using assms(5) by (simp add: private_key_def st)
  with u(1) obtain s where s: "ie_new_key ie m = (Inr key, s)"
    and ufiles: "files u = (files s)(server_key_path st \<mapsto> ie_pem_key ie key)"
    by (auto simp: new_private_key_def bindE_Inr_iff write_file_Inr)
  have "files s (server_csr_path st) = Some old" using leavesD [OF assms(3) s] assms(6) by simp
  with ufiles csr_is_not_key [OF assms(2)] have csr: "files u (server_csr_path st) = Some old" by simp
  then have "t = u" using u(2) by (simp add: certificate_request_def st)
  with csr ufiles s show ?thesis by simp
qed

theorem new_key_with_old_request_witness:
  "files (snd (generate_certificates example_install example_node node_without_key)) (server_csr_path example_node) = Some ''old'' \<and>
   files (snd (generate_certificates example_install example_node node_without_key)) (server_key_path example_node) = Some ''new''"
proof -
  let ?r = "generate_certificates example_install example_node node_without_key"
  have os: "ie_os example_install = calm_os"
    by (simp add: example_install_def example_update_def example_host_def)
  have abs: "path_is_abs (di_certs_path example_node)" by code_simp
  have ne: "di_certs_path example_node \<noteq> server_key_path example_node" by code_simp
  have run: "?r = (Inr (), snd ?r)" by (rule prod_eqI) (simp, code_simp, simp)
  have "files (snd ?r) (server_csr_path example_node) = Some ''old'' \<and>
    (\<exists>key s. ie_new_key example_install node_without_key = (Inr key, s) \<and>
      files (snd ?r) (server_key_path example_node) = Some (ie_pem_key example_install key))"
  proof (rule new_key_with_old_request [OF _ abs _ _ _ _ run])
    show "fault (ie_os example_install) (OpStat p) t = None" for p t by (simp add: os calm_os_def)
    show "leaves (server_csr_path example_node) (ie_new_key example_install)"
      by (intro leavesI) (auto simp: example_install_def retE_def)
    show "di_certs_path example_node \<in> dirs node_without_key" "files node_without_key (server_csr_path example_node) = Some ''old''"
      by (simp_all add: node_without_key_def node_with_key_def)
    show "\<not> path_exists node_without_key (server_key_path example_node)"
      using ne csr_is_not_key [OF abs] by (simp add: path_exists_def node_without_key_def node_with_key_def)
  qed
  then show ?thesis by (auto simp: example_install_def retE_def)
qed

text \<open>
  Options that contradict each other are refused before anything is done: without a connect
  URL an installation whose checks fail leaves the machine as it is.
\<close>

theorem refused_options_change_nothing:
  assumes "io_connect_url opts = []" and "io_branch opts \<noteq> []" and "check_options ie opts = Inl e"
  shows "daemon_install ie opts m = Some (Inl e, m)"
proof -
  have same: "opts\<lparr>io_connect_url := []\<rparr> = opts" using assms(1) by (cases opts) simp
  have "prepare_install ie opts m = (check_options ie (opts\<lparr>io_connect_url := []\<rparr>), m)"
    using assms(1,2) by (simp add: prepare_install_def Let_def bindE_def retE_def)
  then have "prepare_install ie opts m = (Inl e, m)" by (simp only: same assms(3))
  then show ?thesis by (simp add: daemon_install_def bindP_def liftP_def)
qed

theorem refused_options_change_nothing_witness:
  "daemon_install example_install (example_options\<lparr>io_token := []\<rparr>) node_with_key = Some (Inl (Err ''empty token''), node_with_key)"
  by (rule refused_options_change_nothing) (simp_all add: example_options_def check_options_def)

end
