(* ===== verification/PanelService.thy ===== *)
theory PanelService
  imports Services FileUtils
begin

text \<open>
  The panel as a service (\<open>pkg/panel\<close> on Linux): start, stop and restart in a scope, the
  environment that a forked panel gets from \<open>config.env\<close>, and where its binary is looked for.
\<close>

section \<open>The host\<close>

text \<open>
  \<open>ph_start_process\<close> starts a program in a directory with an environment; \<open>ph_expired\<close> says
  whether the time that \<open>Stop\<close> gives itself is over.
\<close>

record 'w panel_host =
  ph_host :: "'w host"
  ph_environ :: "string list"
  ph_start_process :: "string \<Rightarrow> string \<Rightarrow> string list \<Rightarrow> ('w, int) sys"
  ph_expired :: "'w machine \<Rightarrow> 'w machine \<Rightarrow> bool"

abbreviation ph_os :: "'w panel_host \<Rightarrow> 'w os_env" where "ph_os ph \<equiv> ho_os (ph_host ph)"

definition panel_service_name :: string where "panel_service_name = ''gameap''"
definition panel_process_name :: string where "panel_process_name = ''gameap''"

definition not_installed :: go_error where "not_installed = Err ''GameAP is not installed''"

definition resolved_panel_paths :: "'w host \<Rightarrow> string \<Rightarrow> panel_paths result" where
  "resolved_panel_paths h scope =
     with_message ''failed to resolve panel paths'' (panel_paths_for_scope (ho_home h) scope)"

definition check_panel_scope :: "'w host \<Rightarrow> string \<Rightarrow> ('w, unit) sys" where
  "check_panel_scope h scope = (if scope \<noteq> scope_user then retE () else check_user_manager h)"

section \<open>Start\<close>

definition start_panel_systemd :: "'w host \<Rightarrow> string \<Rightarrow> ('w, unit) sys" where
  "start_panel_systemd h scope m =
     (case resolved_panel_paths h scope of
        Inl e \<Rightarrow> (Inl e, m)
      | Inr ps \<Rightarrow>
          (case stat_file (ho_os h) (pp_systemd_unit_path ps) m of
             StatMissing \<Rightarrow> (Inl not_installed, m)
           | StatFailed e \<Rightarrow> (Inl (WithMessage e ''failed to stat gameap service configuration''), m)
           | StatOk \<Rightarrow> wrapE ''failed to start gameap'' (start_unit h (pp_scope ps) panel_service_name) m))"

text \<open>\<open>errors.Is(err, fs.ErrNotExist)\<close>.\<close>

definition is_not_exist :: "go_error \<Rightarrow> bool" where
  "is_not_exist = error_as (\<lambda>e. case e of NotExist _ \<Rightarrow> True | _ \<Rightarrow> False)"

text \<open>The lines of a configuration that are settings, and the environment with them.\<close>

definition setting_line :: "string \<Rightarrow> bool" where
  "setting_line l \<longleftrightarrow> l \<noteq> [] \<and> \<not> has_prefix l ''#'' \<and> CHR ''='' \<in> set l"

definition setting_lines :: "string \<Rightarrow> string list" where
  "setting_lines content = filter setting_line (map trim_space (scan_lines content))"

definition read_env_from_file :: "'w panel_host \<Rightarrow> string \<Rightarrow> 'w machine \<Rightarrow> string list result" where
  "read_env_from_file ph path m =
     (case fst (read_file (ph_os ph) path m) of
        Inl e \<Rightarrow> if is_not_exist e then Inr (ph_environ ph) else Inl (WithMessage e ''failed to open config file'')
      | Inr content \<Rightarrow>
          if list_ex (\<lambda>l. 65536 \<le> length l) (raw_lines content)
          then Inl (WithMessage (Err ''bufio.Scanner: token too long'') ''failed to read config file'')
          else Inr (ph_environ ph @ setting_lines content))"

definition lookup_panel_binary :: "'w host \<Rightarrow> panel_paths \<Rightarrow> 'w machine \<Rightarrow> string result" where
  "lookup_panel_binary h ps m =
     (if is_file_exists (ho_os h) (pp_binary_path ps) m then Inr (pp_binary_path ps)
      else with_message ''failed to lookup gameap path'' (ho_look_path h panel_process_name m))"

definition spawn_panel :: "'w panel_host \<Rightarrow> panel_paths \<Rightarrow> string \<Rightarrow> ('w, unit) sys" where
  "spawn_panel ph ps exe m =
     bindE (case stat_file (ph_os ph) (pp_data_dir ps) m of
              StatMissing \<Rightarrow> wrapE ''failed to create work path'' (mkdir_all (ph_os ph) (pp_data_dir ps))
            | _ \<Rightarrow> retE ()) (\<lambda>_.
     bindE (open_dev_null (ph_host ph)) (\<lambda>_ m.
       case read_env_from_file ph (pp_config_file_path ps) m of
         Inl e \<Rightarrow> (Inl (WithMessage e ''failed to read environment variables''), m)
       | Inr env \<Rightarrow>
           bindE (wrapE ''failed to start process'' (ph_start_process ph exe (pp_data_dir ps) env)) (\<lambda>_. retE ()) m)) m"

definition start_panel_fork :: "'w panel_host \<Rightarrow> string \<Rightarrow> ('w, unit) sys" where
  "start_panel_fork ph scope m =
     (case resolved_panel_paths (ph_host ph) scope of
        Inl e \<Rightarrow> (Inl e, m)
      | Inr ps \<Rightarrow>
          (case find_process_by_name (ph_host ph) panel_process_name m of
             Inl e \<Rightarrow> (Inl (WithMessage e ''failed to find gameap''), m)
           | Inr p \<Rightarrow>
               if (case p of None \<Rightarrow> False | Some q \<Rightarrow> proc_pid q \<noteq> 0)
               then (Inl (Err ''gameap is already running''), m)
               else case lookup_panel_binary (ph_host ph) ps m of
                 Inl e \<Rightarrow> (Inl e, m)
               | Inr exe \<Rightarrow> spawn_panel ph ps exe m))"

definition panel_start :: "'w panel_host \<Rightarrow> string \<Rightarrow> ('w, unit) sys" where
  "panel_start ph scope m =
     (if scope_or_default scope = scope_user then start_panel_systemd (ph_host ph) scope_user m
      else wrapE ''failed to start GameAP''
        (case detect_init (ph_host ph) m of
           InitSystemd \<Rightarrow> start_panel_systemd (ph_host ph) scope_system
         | InitUnknown \<Rightarrow> start_panel_fork ph scope_system) m)"

section \<open>Stop\<close>

definition stop_panel_systemd :: "'w host \<Rightarrow> string \<Rightarrow> ('w, unit) sys" where
  "stop_panel_systemd h scope m =
     (case resolved_panel_paths h scope of
        Inl e \<Rightarrow> (Inl e, m)
      | Inr ps \<Rightarrow>
          (case stat_file (ho_os h) (pp_systemd_unit_path ps) m of
             StatMissing \<Rightarrow> (Inr (), m)
           | StatFailed e \<Rightarrow> (Inl (WithMessage e ''failed to stat gameap service configuration''), m)
           | StatOk \<Rightarrow> wrapE ''failed to stop gameap'' (stop_unit h (pp_scope ps) panel_service_name) m))"

text \<open>The host with the context that \<open>context.WithTimeout\<close> makes at the state \<open>start\<close>.\<close>

definition with_deadline :: "'w panel_host \<Rightarrow> 'w machine \<Rightarrow> 'w host" where
  "with_deadline ph start =
     (ph_host ph)\<lparr>ho_canceled := \<lambda>m. ho_canceled (ph_host ph) m \<or> ph_expired ph start m\<rparr>"

definition stop_panel_process :: "'w panel_host \<Rightarrow> ('w, unit) sys" where
  "stop_panel_process ph m =
     (case find_process_by_name (ph_host ph) panel_process_name m of
        Inl e \<Rightarrow> (Inl (WithMessage e ''failed to find gameap process''), m)
      | Inr None \<Rightarrow> (Inr (), m)
      | Inr (Some p) \<Rightarrow>
          wrapE ''failed to terminate/kill gameap process'' (terminate_and_kill (with_deadline ph m) p) m)"

definition panel_stop :: "'w panel_host \<Rightarrow> string \<Rightarrow> ('w, unit) sys" where
  "panel_stop ph scope m =
     (if scope_or_default scope = scope_user then stop_panel_systemd (ph_host ph) scope_user m
      else wrapE ''failed to stop gameap''
        (case detect_init (ph_host ph) m of
           InitSystemd \<Rightarrow> stop_panel_systemd (ph_host ph) scope_system
         | InitUnknown \<Rightarrow> stop_panel_process ph) m)"

section \<open>Restart\<close>

definition restart_panel_systemd :: "'w host \<Rightarrow> string \<Rightarrow> ('w, unit) sys" where
  "restart_panel_systemd h scope m =
     (case resolved_panel_paths h scope of
        Inl e \<Rightarrow> (Inl e, m)
      | Inr ps \<Rightarrow>
          (case stat_file (ho_os h) (pp_systemd_unit_path ps) m of
             StatMissing \<Rightarrow> (Inl (WithMessage (NotExist (pp_systemd_unit_path ps))
               (''gameap service configuration file '' @ pp_systemd_unit_path ps @ '' not found'')), m)
           | StatFailed e \<Rightarrow> (Inl (WithMessage e ''failed to stat gameap service configuration''), m)
           | StatOk \<Rightarrow> wrapE ''failed to restart gameap'' (restart_unit h (pp_scope ps) panel_service_name) m))"

definition restart_panel_process :: "'w panel_host \<Rightarrow> string \<Rightarrow> ('w, unit) sys" where
  "restart_panel_process ph scope m =
     (case find_process_by_name (ph_host ph) panel_process_name m of
        Inl e \<Rightarrow> (Inl (WithMessage e ''failed to find gameap process''), m)
      | Inr p \<Rightarrow>
          bindE (case p of
                   None \<Rightarrow> retE ()
                 | Some q \<Rightarrow> wrapE ''failed to terminate/kill gameap process'' (terminate_and_kill (ph_host ph) q)) (\<lambda>_.
          wrapE ''failed to start gameap'' (start_panel_fork ph scope)) m)"

definition panel_restart :: "'w panel_host \<Rightarrow> string \<Rightarrow> ('w, unit) sys" where
  "panel_restart ph scope m =
     (if scope_or_default scope = scope_user then restart_panel_systemd (ph_host ph) scope_user m
      else case detect_init (ph_host ph) m of
        InitSystemd \<Rightarrow> restart_panel_systemd (ph_host ph) scope_system m
      | InitUnknown \<Rightarrow> restart_panel_process ph scope_system m)"

section \<open>What the panel operations may do\<close>

fun panel_effect :: "'w host \<Rightarrow> string \<Rightarrow> host_effect \<Rightarrow> bool" where
  "panel_effect h s (Exec c) \<longleftrightarrow>
     (if s = scope_user then user_command c
      else c \<in> {[''systemctl'', ''daemon-reload''], [''systemctl'', ''enable'', panel_service_name]} \<or>
           service_command panel_service_name (Exec c))"
| "panel_effect h s (WriteUnit p) \<longleftrightarrow>
     (case panel_paths_for_scope (ho_home h) (own_scope s) of Inl _ \<Rightarrow> False | Inr ps \<Rightarrow> p = pp_systemd_unit_path ps)"
| "panel_effect h s (SignalProcess q) \<longleftrightarrow>
     s \<noteq> scope_user \<and> proc_name q = Some panel_process_name \<and> belongs_to_current_user h q"
| "panel_effect h s (SpawnIn d) \<longleftrightarrow> False"
| "panel_effect h s WaitTick \<longleftrightarrow> s \<noteq> scope_user"

text \<open>
  The states that the panel operations can lead to: effects on the host, and in system scope the
  panel's data directory made and the panel started in it.
\<close>

inductive panel_run :: "'w panel_host \<Rightarrow> string \<Rightarrow> 'w machine \<Rightarrow> 'w machine \<Rightarrow> bool" for ph s where
  panel_run_refl: "panel_run ph s m m"
| panel_run_host: "panel_run ph s a b \<Longrightarrow> host_run (ph_host ph) (panel_effect (ph_host ph) s) b c \<Longrightarrow> panel_run ph s a c"
| panel_run_dir: "panel_run ph s a b \<Longrightarrow> s \<noteq> scope_user \<Longrightarrow>
    panel_run ph s a (snd (mkdir_all (ph_os ph) default_data_path b))"
| panel_run_spawn: "panel_run ph s a b \<Longrightarrow> s \<noteq> scope_user \<Longrightarrow>
    panel_run ph s a (snd (ph_start_process ph exe default_data_path env b))"

lemma panel_run_trans: "panel_run ph s b c \<Longrightarrow> panel_run ph s a b \<Longrightarrow> panel_run ph s a c"
  by (induction rule: panel_run.induct) (blast intro: panel_run.intros)+

abbreviation panel_runs :: "'w panel_host \<Rightarrow> string \<Rightarrow> ('w, 'a) sys \<Rightarrow> bool" where
  "panel_runs ph s \<equiv> keeps (panel_run ph s)"

lemma reflp_panel_run: "reflp (panel_run ph s)"
  by (simp add: reflpI panel_run_refl)

lemma transp_panel_run: "transp (panel_run ph s)"
  using panel_run_trans by (metis transpI)

lemmas panel_runs_intros =
  keeps_retE [OF reflp_panel_run] keeps_failE [OF reflp_panel_run] keeps_bindE [OF transp_panel_run] keeps_wrapE

lemma panel_runs_host: "runs (ph_host ph) (panel_effect (ph_host ph) s) m \<Longrightarrow> panel_runs ph s m"
  by (auto simp: keeps_def intro: panel_run_host panel_run_refl)

definition panel_unit_path :: "'w host \<Rightarrow> string \<Rightarrow> string option" where
  "panel_unit_path h s =
     (case panel_paths_for_scope (ho_home h) (own_scope s) of Inl _ \<Rightarrow> None | Inr ps \<Rightarrow> Some (pp_systemd_unit_path ps))"

lemma pp_scope_of:
  "panel_paths_for_scope home scope_user = Inr ps \<Longrightarrow> pp_scope ps = scope_user"
  "panel_paths_for_scope home scope_system = Inr ps \<Longrightarrow> ps = system_panel_paths \<and> pp_scope ps = scope_system"
  by (auto simp: panel_paths_for_scope_def user_panel_paths_from_home_def system_panel_paths_def Let_def
      scope_user_def scope_system_def split: if_splits sum.splits)

lemma pp_scope_own:
  "panel_paths_for_scope home (own_scope s) = Inr ps \<Longrightarrow> pp_scope ps = own_scope s"
  using pp_scope_of by (auto simp: own_scope_def split: if_splits)

lemma panel_unit_name: "trim_suffix (path_base system_panel_unit_path) ''.service'' = panel_service_name"
  by code_simp

interpretation panel_unit: scoped_unit h "panel_effect h s" "own_scope s" panel_service_name "panel_unit_path h s" for h s
proof (intro scoped_unit.intro)
  fix p assume "panel_unit_path h s = Some p"
  then obtain ps where ps: "panel_paths_for_scope (ho_home h) (own_scope s) = Inr ps" "p = pp_systemd_unit_path ps"
    by (auto simp: panel_unit_path_def split: sum.splits)
  moreover have "p = system_panel_unit_path" if "s \<noteq> scope_user"
    using ps pp_scope_of(2) [of "ho_home h" ps] that by (simp add: own_scope_def system_panel_paths_def)
  ultimately show "panel_effect h s (WriteUnit p) \<and>
      (own_scope s \<noteq> scope_user \<longrightarrow> trim_suffix (path_base p) ''.service'' = panel_service_name)"
    using panel_unit_name by auto
next
  fix e assume "own_scope s \<noteq> scope_user" "service_command panel_service_name e"
  then show "panel_effect h s e" by (cases e) auto
qed auto

lemma runs_panel_systemd:
  assumes "scope = own_scope s"
  shows "runs h (panel_effect h s) (start_panel_systemd h scope)"
    and "runs h (panel_effect h s) (stop_panel_systemd h scope)"
    and "runs h (panel_effect h s) (restart_panel_systemd h scope)"
proof -
  have d: "panel_paths_for_scope (ho_home h) scope = Inr ps \<Longrightarrow> pp_scope ps = scope" for ps
    using assms pp_scope_own by simp
  note ops = panel_unit.runs_unit_ops [where h = h and s = s, folded assms] and refl = host_run_refl [of h "panel_effect h s"]
  show "runs h (panel_effect h s) (start_panel_systemd h scope)"
    using keepsD [OF ops(1)] d
    by (intro keepsI) (auto simp: start_panel_systemd_def resolved_panel_paths_def with_message_def refl
        split: sum.split stat_reply.split)
  show "runs h (panel_effect h s) (stop_panel_systemd h scope)"
    using keepsD [OF ops(2)] d
    by (intro keepsI) (auto simp: stop_panel_systemd_def resolved_panel_paths_def with_message_def refl
        split: sum.split stat_reply.split)
  show "runs h (panel_effect h s) (restart_panel_systemd h scope)"
    using keepsD [OF ops(3)] d
    by (intro keepsI) (auto simp: restart_panel_systemd_def resolved_panel_paths_def with_message_def refl
        split: sum.split stat_reply.split)
qed

text \<open>A deadline changes nothing about what a run does.\<close>

lemma host_run_canceled: "host_run (h\<lparr>ho_canceled := c\<rparr>) A a b \<Longrightarrow> host_run h A a b"
proof (induction rule: host_run.induct)
  case (host_run_exec a b cmd)
  then show ?case using host_run.host_run_exec [of h A a b cmd] by simp
next
  case (host_run_write a b p content)
  then show ?case using host_run.host_run_write [of h A a b p content] by simp
next
  case (host_run_mkdir a b p)
  then show ?case using host_run.host_run_mkdir [of h A a b p] by simp
next
  case (host_run_terminate a b q)
  then show ?case using host_run.host_run_terminate [of h A a b q] by simp
next
  case (host_run_kill a b q)
  then show ?case using host_run.host_run_kill [of h A a b q] by simp
next
  case (host_run_work_dir a b d)
  then show ?case using host_run.host_run_work_dir [of h A a b d] by simp
next
  case (host_run_spawn a b d exe)
  then show ?case using host_run.host_run_spawn [of h A a b d exe] by simp
next
  case (host_run_tick a b)
  then show ?case using host_run.host_run_tick [of h A a b] by simp
qed (blast intro: host_run.intros)+

lemma panel_runs_terminate:
  assumes "s \<noteq> scope_user" "find_process_by_name (ph_host ph) panel_process_name m = Inr (Some p)"
  shows "panel_runs ph s (terminate_and_kill (ph_host ph) p)" "panel_runs ph s (terminate_and_kill (with_deadline ph start) p)"
proof -
  let ?A = "panel_effect (ph_host ph) s"
  have p: "?A (SignalProcess p)" "?A WaitTick"
    using assms find_process_Some [OF assms(2)] by simp_all
  show "panel_runs ph s (terminate_and_kill (ph_host ph) p)"
    by (rule panel_runs_host) (rule runs_terminate [OF p])
  have "runs (with_deadline ph start) ?A (terminate_and_kill (with_deadline ph start) p)" by (rule runs_terminate [OF p])
  then have "runs (ph_host ph) ?A (terminate_and_kill (with_deadline ph start) p)"
    unfolding keeps_def with_deadline_def using host_run_canceled by blast
  then show "panel_runs ph s (terminate_and_kill (with_deadline ph start) p)" by (rule panel_runs_host)
qed

lemma panel_runs_fork:
  assumes "s \<noteq> scope_user"
  shows "panel_runs ph s (start_panel_fork ph scope_system)"
proof -
  have ps: "panel_paths_for_scope home scope_system = Inr ps \<Longrightarrow> pp_data_dir ps = default_data_path" for home ps
    by (auto dest!: pp_scope_of(2) simp: system_panel_paths_def)
  have null: "panel_runs ph s (open_dev_null (ph_host ph))"
    by (auto simp: keeps_def open_dev_null_def panel_run_refl split: option.split)
  have mk: "panel_runs ph s (mkdir_all (ph_os ph) default_data_path)"
    and sp: "panel_runs ph s (ph_start_process ph exe default_data_path env)" for exe env
    using assms by (auto simp: keeps_def intro: panel_run_dir panel_run_spawn panel_run_refl)
  have start: "panel_runs ph s (\<lambda>m. case read_env_from_file ph cfg m of
         Inl e \<Rightarrow> (Inl (WithMessage e ''failed to read environment variables''), m)
       | Inr env \<Rightarrow>
           bindE (wrapE ''failed to start process'' (ph_start_process ph exe default_data_path env)) (\<lambda>_. retE ()) m)" for cfg exe
    using keepsD [OF keeps_bindE [OF transp_panel_run keeps_wrapE [OF sp] keeps_retE [OF reflp_panel_run]]]
    by (intro keepsI) (auto simp: panel_run_refl split: sum.split)
  have "panel_run ph s m (snd (spawn_panel ph ps exe m))" if "pp_data_dir ps = default_data_path" for ps exe m
  proof -
    have "panel_runs ph s (bindE (case stat_file (ph_os ph) default_data_path m of
              StatMissing \<Rightarrow> wrapE ''failed to create work path'' (mkdir_all (ph_os ph) default_data_path)
            | _ \<Rightarrow> retE ()) (\<lambda>_.
      bindE (open_dev_null (ph_host ph)) (\<lambda>_ m.
       case read_env_from_file ph (pp_config_file_path ps) m of
         Inl e \<Rightarrow> (Inl (WithMessage e ''failed to read environment variables''), m)
       | Inr env \<Rightarrow>
           bindE (wrapE ''failed to start process'' (ph_start_process ph exe default_data_path env)) (\<lambda>_. retE ()) m)))"
      by (intro panel_runs_intros null start) (auto split: stat_reply.split intro: panel_runs_intros mk)
    from keepsD [OF this, of m] show ?thesis unfolding spawn_panel_def that .
  qed
  with ps show ?thesis
    by (intro keepsI) (auto simp: start_panel_fork_def resolved_panel_paths_def with_message_def panel_run_refl
        split: sum.split)
qed

lemma panel_runs_process:
  assumes "s \<noteq> scope_user"
  shows "panel_runs ph s (stop_panel_process ph)" "panel_runs ph s (restart_panel_process ph scope_system)"
proof -
  note t = panel_runs_terminate [OF assms]
  show "panel_runs ph s (stop_panel_process ph)"
    by (intro keepsI) (auto simp: stop_panel_process_def panel_run_refl dest: keepsD [OF t(2)] split: sum.split option.split)
  have "find_process_by_name (ph_host ph) panel_process_name m = Inr p \<Longrightarrow>
    panel_runs ph s (bindE (case p of
                   None \<Rightarrow> retE ()
                 | Some q \<Rightarrow> wrapE ''failed to terminate/kill gameap process'' (terminate_and_kill (ph_host ph) q)) (\<lambda>_.
          wrapE ''failed to start gameap'' (start_panel_fork ph scope_system)))" for m p
    using t(1) by (auto intro!: panel_runs_intros panel_runs_fork assms split: option.split)
  then show "panel_runs ph s (restart_panel_process ph scope_system)"
    by (intro keepsI) (auto simp: restart_panel_process_def panel_run_refl dest: keepsD split: sum.split)
qed

lemma panel_runs_ops:
  "panel_runs ph (scope_or_default scope) (panel_start ph scope)"
  "panel_runs ph (scope_or_default scope) (panel_stop ph scope)"
  "panel_runs ph (scope_or_default scope) (panel_restart ph scope)"
proof -
  let ?s = "scope_or_default scope"
  have sd: "panel_run ph ?s m (snd (start_panel_systemd (ph_host ph) (own_scope ?s) m))"
    "panel_run ph ?s m (snd (stop_panel_systemd (ph_host ph) (own_scope ?s) m))"
    "panel_run ph ?s m (snd (restart_panel_systemd (ph_host ph) (own_scope ?s) m))" for m
    using runs_panel_systemd [of "own_scope ?s" ?s "ph_host ph"] keepsD panel_runs_host by metis+
  have pr: "?s \<noteq> scope_user \<Longrightarrow> panel_run ph ?s m (snd (start_panel_fork ph scope_system m))"
    "?s \<noteq> scope_user \<Longrightarrow> panel_run ph ?s m (snd (stop_panel_process ph m))"
    "?s \<noteq> scope_user \<Longrightarrow> panel_run ph ?s m (snd (restart_panel_process ph scope_system m))" for m
    using panel_runs_fork panel_runs_process keepsD by metis+
  show "panel_runs ph ?s (panel_start ph scope)" "panel_runs ph ?s (panel_stop ph scope)" "panel_runs ph ?s (panel_restart ph scope)"
    using sd pr
    by (auto intro!: keepsI simp: panel_start_def panel_stop_def panel_restart_def own_scope_def
        split: init_system.split)
qed

section \<open>Properties\<close>

text \<open>
  Starting, stopping and restarting the panel stay within their scope, on success and on
  failure: in user scope nothing but \<open>systemctl --user\<close> runs, otherwise commands about the
  panel's service, signals to panel processes of the current user, and the panel itself.
\<close>

theorem panel_ops_stay_in_scope:
  "panel_run ph (scope_or_default scope) m (snd (panel_start ph scope m)) \<and>
   panel_run ph (scope_or_default scope) m (snd (panel_stop ph scope m)) \<and>
   panel_run ph (scope_or_default scope) m (snd (panel_restart ph scope m))"
  using panel_runs_ops [of ph scope] by (simp add: keeps_def)

end
