(* ===== verification/PanelInstaller.thy ===== *)
theory PanelInstaller
  imports PanelService Users ReleaseSource SwitchToGrpc
begin

text \<open>
  Installing the panel's files (\<open>pkg/panel/install.go\<close>, \<open>install_linux.go\<close> and the templates):
  defaults of the scope, \<open>config.env\<close> and the secrets in it that survive a new installation,
  directories, the systemd unit and the binary. Randomness, releases and downloads are
  parameters.
\<close>

section \<open>Encodings\<close>

text \<open>\<open>base64.StdEncoding\<close> and \<open>hex.EncodeToString\<close> on byte strings.\<close>

definition base64_char :: "nat \<Rightarrow> char" where
  "base64_char n = (''ABCDEFGHIJKLMNOPQRSTUVWXYZabcdefghijklmnopqrstuvwxyz0123456789+/'') ! (n mod 64)"

fun base64_encode :: "string \<Rightarrow> string" where
  "base64_encode [] = []"
| "base64_encode [a] =
     (let n = of_char a * 16 in [base64_char (n div 64), base64_char n] @ ''=='')"
| "base64_encode [a, b] =
     (let n = (of_char a * 256 + of_char b) * 4
      in [base64_char (n div 4096), base64_char (n div 64), base64_char n] @ ''='')"
| "base64_encode (a # b # c # cs) =
     (let n = (of_char a * 256 + of_char b) * 256 + of_char c
      in [base64_char (n div 262144), base64_char (n div 4096), base64_char (n div 64), base64_char n] @ base64_encode cs)"

definition hex_char :: "nat \<Rightarrow> char" where
  "hex_char n = ''0123456789abcdef'' ! (n mod 16)"

definition hex_encode :: "string \<Rightarrow> string" where
  "hex_encode s = concat (map (\<lambda>c. [hex_char (of_char c div 16), hex_char (of_char c)]) s)"

section \<open>Configuration\<close>

record install_config =
  ic_scope :: string
  ic_config_directory :: string
  ic_data_directory :: string
  ic_binary_path :: string
  ic_user :: string
  ic_group :: string
  ic_http_host :: string
  ic_http_port :: string
  ic_database_driver :: string
  ic_database_url :: string
  ic_encryption_key :: string
  ic_auth_secret :: string
  ic_auth_service :: string
  ic_cache_driver :: string
  ic_files_driver :: string
  ic_files_local_base_path :: string
  ic_legacy_path :: string
  ic_global_api_url :: string
  ic_grpc_enabled :: bool
  ic_grpc_port :: string
  ic_tag :: string
  ic_tag_prefix :: string
  ic_pre_resolved :: "resolved_release option"

text \<open>
  \<open>px_random n\<close> reads \<open>n\<close> random bytes, perhaps fewer; \<open>px_find\<close> is \<open>releasesource.FindRelease\<close>
  for the panel on this machine, \<open>px_get\<close> the download of an archive into a directory.
\<close>

record 'w panel_env =
  px_panel :: "'w panel_host"
  px_users :: "'w user_env"
  px_fs :: "'w fs_lib"
  px_goos :: string
  px_random :: "nat \<Rightarrow> ('w, string) sys"
  px_find :: "find_options \<Rightarrow> ('w, resolved_release) sys"
  px_get :: "string \<Rightarrow> string \<Rightarrow> ('w, unit) sys"
  px_mkdtemp :: "string \<Rightarrow> ('w, string) sys"
  px_chmod :: "string \<Rightarrow> ('w, unit) sys"

abbreviation px_host :: "'w panel_env \<Rightarrow> 'w host" where "px_host px \<equiv> ph_host (px_panel px)"
abbreviation px_os :: "'w panel_env \<Rightarrow> 'w os_env" where "px_os px \<equiv> ho_os (px_host px)"

text \<open>The value of a field, or its default when it is empty.\<close>

definition or_default :: "string \<Rightarrow> string \<Rightarrow> string" where
  "or_default v d = (if v = [] then d else v)"

definition apply_scope_defaults :: "string option \<Rightarrow> install_config \<Rightarrow> install_config result" where
  "apply_scope_defaults home c =
     (if scope_or_default (ic_scope c) = scope_user then
        (case with_message ''failed to resolve user panel paths'' (user_home home) of
           Inl e \<Rightarrow> Inl e
         | Inr h \<Rightarrow>
             (let ps = user_panel_paths_from_home h in
              Inr (c\<lparr>ic_config_directory := or_default (ic_config_directory c) (pp_config_dir ps),
                     ic_data_directory := or_default (ic_data_directory c) (pp_data_dir ps),
                     ic_binary_path := or_default (ic_binary_path c) (pp_binary_path ps)\<rparr>)))
      else
        Inr (c\<lparr>ic_config_directory := or_default (ic_config_directory c) (path_dir default_config_file_path),
               ic_data_directory := or_default (ic_data_directory c) default_data_path,
               ic_binary_path := or_default (ic_binary_path c) default_binary_path,
               ic_user := or_default (ic_user c) ''gameap'',
               ic_group := or_default (ic_group c) ''gameap''\<rparr>))"

definition apply_config_defaults :: "install_config \<Rightarrow> install_config" where
  "apply_config_defaults c =
     c\<lparr>ic_http_host := or_default (ic_http_host c) ''0.0.0.0'',
       ic_http_port := or_default (ic_http_port c) ''8025'',
       ic_auth_service := or_default (ic_auth_service c) ''paseto'',
       ic_cache_driver := or_default (ic_cache_driver c) ''inmemory'',
       ic_files_driver := or_default (ic_files_driver c) ''local'',
       ic_files_local_base_path :=
         or_default (ic_files_local_base_path c) (path_join [ic_data_directory c, ''files'']),
       ic_global_api_url := or_default (ic_global_api_url c) ''https://api.gameap.com'',
       ic_grpc_port := (if ic_grpc_enabled c then or_default (ic_grpc_port c) default_grpc_port else ic_grpc_port c)\<rparr>"

definition config_env_path :: "install_config \<Rightarrow> string" where
  "config_env_path c = path_join [ic_config_directory c, ''config.env'']"

section \<open>The file \<open>config.env\<close>\<close>

definition nl :: string where "nl = [CHR 0x0A]"

definition setting :: "string \<Rightarrow> string \<Rightarrow> string" where
  "setting k v = k @ ''='' @ v"

definition config_env_lines :: "install_config \<Rightarrow> string list" where
  "config_env_lines c =
     [''# Server'', setting ''HTTP_HOST'' (ic_http_host c), setting ''HTTP_PORT'' (ic_http_port c)] @
     (if ic_grpc_enabled c then [[], ''# gRPC'', setting ''GRPC_ENABLED'' ''true'', setting ''GRPC_PORT'' (ic_grpc_port c)] else []) @
     [[], ''# Database'', setting ''DATABASE_DRIVER'' (ic_database_driver c), setting ''DATABASE_URL'' (ic_database_url c),
      [], ''# Security'', setting ''ENCRYPTION_KEY'' (ic_encryption_key c), setting ''AUTH_SECRET'' (ic_auth_secret c),
      setting ''AUTH_SERVICE'' (ic_auth_service c),
      [], ''# Cache'', setting ''CACHE_DRIVER'' (ic_cache_driver c),
      [], ''# File Storage'', setting ''FILES_DRIVER'' (ic_files_driver c),
      setting ''FILES_LOCAL_BASE_PATH'' (ic_files_local_base_path c),
      [], ''# Legacy'', setting ''LEGACY_PATH'' (ic_legacy_path c),
      [], ''# Global API'', setting ''GLOBAL_API_URL'' (ic_global_api_url c)]"

definition render_config_env :: "install_config \<Rightarrow> string" where
  "render_config_env c = concat (map (\<lambda>l. l @ nl) (config_env_lines c))"

text \<open>One line of \<open>parseConfigEnvValues\<close>, and all of them: a later line wins.\<close>

definition config_env_entry :: "string \<Rightarrow> (string \<times> string) option" where
  "config_env_entry line =
     (let l = trim_space line in
      if l = [] \<or> has_prefix l ''#'' then None
      else case split_n2 ''='' l of [k, v] \<Rightarrow> Some (trim_space k, v) | _ \<Rightarrow> None)"

definition parse_config_env_values :: "string \<Rightarrow> string \<rightharpoonup> string" where
  "parse_config_env_values data = map_of (rev (List.map_filter config_env_entry (split_char (CHR 0x0A) data)))"

text \<open>A key that is missing reads as the empty string.\<close>

definition env_value :: "(string \<rightharpoonup> string) \<Rightarrow> string \<Rightarrow> string" where
  "env_value vs k = (case vs k of None \<Rightarrow> [] | Some v \<Rightarrow> v)"

definition preserve_existing_secrets :: "'w os_env \<Rightarrow> install_config \<Rightarrow> 'w machine \<Rightarrow> install_config" where
  "preserve_existing_secrets os c m =
     (if ic_encryption_key c \<noteq> [] \<and> ic_auth_secret c \<noteq> [] then c
      else case fst (read_file os (config_env_path c) m) of
        Inl _ \<Rightarrow> c
      | Inr data \<Rightarrow>
          (let vs = parse_config_env_values data in
           c\<lparr>ic_encryption_key := or_default (ic_encryption_key c) (env_value vs ''ENCRYPTION_KEY''),
             ic_auth_secret := or_default (ic_auth_secret c) (env_value vs ''AUTH_SECRET'')\<rparr>))"

definition generate_random_key :: "'w panel_env \<Rightarrow> nat \<Rightarrow> ('w, string) sys" where
  "generate_random_key px n =
     bindE (wrapE ''failed to generate random bytes'' (px_random px n)) (\<lambda>bs.
       if length bs \<noteq> n then failE (Err ''failed to generate required number of random bytes'')
       else retE (''base64:'' @ base64_encode bs))"

definition random_key_length :: nat where "random_key_length = 32"

definition fill_secrets :: "'w panel_env \<Rightarrow> install_config \<Rightarrow> ('w, install_config) sys" where
  "fill_secrets px c =
     bindE (if ic_encryption_key c = []
            then wrapE ''failed to generate encryption key'' (generate_random_key px random_key_length)
            else retE (ic_encryption_key c)) (\<lambda>enc.
     bindE (if ic_auth_secret c = []
            then wrapE ''failed to generate auth secret'' (generate_random_key px random_key_length)
            else retE (ic_auth_secret c)) (\<lambda>auth.
       retE (c\<lparr>ic_encryption_key := enc, ic_auth_secret := auth\<rparr>)))"

section \<open>Directories, user and unit\<close>

definition user_scoped :: "install_config \<Rightarrow> bool" where
  "user_scoped c \<longleftrightarrow> scope_or_default (ic_scope c) = scope_user"

definition panel_directories :: "install_config \<Rightarrow> string list" where
  "panel_directories c =
     (let base = ic_files_local_base_path c in
      [ic_config_directory c, ic_data_directory c, base, path_join [base, ''certs''],
       path_join [base, ''certs'', ''client''], path_join [base, ''certs'', ''server'']])"

definition create_directories :: "'w panel_env \<Rightarrow> install_config \<Rightarrow> ('w, unit) sys" where
  "create_directories px c =
     bindE (eachE (\<lambda>d. wrapE (''failed to create directory '' @ d) (mkdir_all (px_os px) d)) (panel_directories c)) (\<lambda>_.
       if user_scoped c then retE ()
       else eachE (\<lambda>d. wrapE (''failed to set ownership for '' @ d)
              (chown_recursive (px_users px) d (ic_user c) (ic_group c))) (panel_directories c))"

definition create_config_env :: "'w panel_env \<Rightarrow> install_config \<Rightarrow> ('w, unit) sys" where
  "create_config_env px c =
     bindE (wrapE ''failed to write config.env file'' (write_file (px_os px) (config_env_path c) (render_config_env c))) (\<lambda>_.
       if user_scoped c then retE ()
       else wrapE ''failed to set ownership for config.env''
              (chown_recursive (px_users px) (config_env_path c) (ic_user c) (ic_group c)))"

text \<open>\<open>errors.As(err, &existsErr)\<close>: a group or a user that is there already is no error.\<close>

definition unless_exists :: "(go_error \<Rightarrow> bool) \<Rightarrow> string \<Rightarrow> ('w, unit) sys \<Rightarrow> ('w, unit) sys" where
  "unless_exists exists_error msg p =
     catchE p (\<lambda>e. if error_as exists_error e then retE () else failE (WithMessage e msg))"

definition create_panel_user :: "'w panel_env \<Rightarrow> install_config \<Rightarrow> ('w, unit) sys" where
  "create_panel_user px c =
     (if px_goos px \<noteq> ''windows'' \<and> \<not> user_scoped c then
        bindE (unless_exists (\<lambda>e. case e of GroupAlreadyExists _ \<Rightarrow> True | _ \<Rightarrow> False) ''failed to create group''
                 (create_group (px_users px) (ic_group c) [])) (\<lambda>_.
          unless_exists (\<lambda>e. case e of UserAlreadyExists _ \<Rightarrow> True | _ \<Rightarrow> False) ''failed to create user''
            (create_user (px_users px) (ic_user c)
               \<lparr>cu_work_dir = ic_data_directory c, cu_password = [], cu_shell = []\<rparr>))
      else retE ())"

definition panel_read_write_paths :: "install_config \<Rightarrow> string" where
  "panel_read_write_paths c =
     ic_data_directory c @ '' '' @ ic_files_local_base_path c @
     (if ic_legacy_path c \<noteq> [] then '' '' @ ic_legacy_path c else [])"

definition unit_common :: "install_config \<Rightarrow> string list" where
  "unit_common c =
     [''# Graceful stop'', ''ExecStop=/bin/kill -TERM $MAINPID'', ''KillMode=mixed'', ''KillSignal=SIGTERM'',
      ''TimeoutStopSec=30'', [], ''# Restart policy'', ''Restart=always'', ''RestartSec=5'', [],
      ''# Environment configuration'', ''EnvironmentFile='' @ config_env_path c, [], ''RuntimeDirectory=gameap'']"

definition render_systemd_unit :: "string \<Rightarrow> install_config \<Rightarrow> string" where
  "render_systemd_unit scope c = concat (map (\<lambda>l. l @ nl)
     ([''[Unit]'', ''Description=GameAP - Game Server Control Panel'', ''Documentation=https://docs.gameap.com''] @
      (if scope = scope_user then [[], ''[Service]'', ''Type=simple'']
       else [''After=network.target network-online.target postgresql.service mysql.service mariadb.service'',
             ''Wants=network-online.target'', ''Requires=network.target'', ''StartLimitIntervalSec=60'',
             ''StartLimitBurst=5'', [], ''[Service]'', ''Type=simple'', ''User='' @ ic_user c, ''Group='' @ ic_group c]) @
      [[], ''# Working directory'', ''WorkingDirectory='' @ ic_data_directory c, [], ''ExecStart='' @ ic_binary_path c, []] @
      (if scope = scope_user then []
       else [''# Allow binding to privileged ports'', ''AmbientCapabilities=CAP_NET_BIND_SERVICE'', []]) @
      unit_common c @
      (if scope = scope_user then []
       else [''PIDFile=/run/gameap/gameap.pid'', [], ''# Filesystem permissions'', ''ProtectSystem=strict'',
             ''ProtectHome=true'', ''PrivateTmp=true'', ''ReadWritePaths='' @ panel_read_write_paths c]) @
      [[], ''# Logging'', ''StandardOutput=journal'', ''StandardError=journal'', ''SyslogIdentifier=gameap'', [],
       ''[Install]'', if scope = scope_user then ''WantedBy=default.target'' else ''WantedBy=multi-user.target'']))"

definition install_panel_service :: "'w panel_env \<Rightarrow> install_config \<Rightarrow> ('w, unit) sys" where
  "install_panel_service px c m =
     (case resolved_panel_paths (px_host px) (scope_or_default (ic_scope c)) of
        Inl e \<Rightarrow> (Inl e, m)
      | Inr ps \<Rightarrow>
          if pp_scope ps \<noteq> scope_user \<and> detect_init (px_host px) m \<noteq> InitSystemd then (Inr (), m)
          else wrapE ''failed to create systemd unit file''
            (install_unit (px_host px) (pp_scope ps) (pp_systemd_unit_path ps) (render_systemd_unit (pp_scope ps) c)) m)"

section \<open>Configure and install\<close>

definition write_configuration :: "'w panel_env \<Rightarrow> install_config \<Rightarrow> ('w, unit) sys" where
  "write_configuration px c =
     bindE (create_panel_user px c) (\<lambda>_.
     bindE (wrapE ''failed to create directories'' (create_directories px c)) (\<lambda>_.
     bindE (wrapE ''failed to create config.env'' (create_config_env px c)) (\<lambda>_.
       install_panel_service px c)))"

definition panel_configure :: "'w panel_env \<Rightarrow> install_config \<Rightarrow> ('w, unit) sys" where
  "panel_configure px c m =
     (case apply_scope_defaults (ho_home (px_host px)) c of
        Inl e \<Rightarrow> (Inl e, m)
      | Inr c \<Rightarrow>
          bindE (fill_secrets px (preserve_existing_secrets (px_os px) (apply_config_defaults c) m))
            (write_configuration px) m)"

definition resolve_panel_release :: "'w panel_env \<Rightarrow> install_config \<Rightarrow> ('w, resolved_release) sys" where
  "resolve_panel_release px c =
     (let pre = ic_tag c \<noteq> [] \<and> (case normalize_tag (ic_tag c) of Inl _ \<Rightarrow> False | Inr t \<Rightarrow> has_prerelease_suffix t)
      in wrapE ''failed to find release'' (px_find px
           \<lparr>opt_tag = ic_tag c, opt_tag_prefix = ic_tag_prefix c, opt_allow_prerelease = pre, opt_no_retry = False\<rparr>))"

fun move_panel_binary :: "'w panel_env \<Rightarrow> string \<Rightarrow> string \<Rightarrow> string list \<Rightarrow> ('w, unit) sys" where
  "move_panel_binary px dir dst [] m =
     (Inl (Err (''gameap binaries wasn'' @ [CHR 0x27] @ ''t installed, invalid archive contents'')), m)"
| "move_panel_binary px dir dst (n # ns) m =
     (let fp = path_join [dir, n] in
      case stat_file (px_os px) fp m of
        StatMissing \<Rightarrow> move_panel_binary px dir dst ns m
      | StatFailed e \<Rightarrow> (Inl (WithMessage e ''failed to stat file''), m)
      | StatOk \<Rightarrow>
          bindE (wrapE ''failed to move gameap binaries'' (move_file (px_fs px) fp dst)) (\<lambda>_.
            wrapE ''failed to set executable permissions'' (px_chmod px dst)) m)"

definition download_panel :: "'w panel_env \<Rightarrow> install_config \<Rightarrow> ('w, string) sys" where
  "download_panel px c =
     bindE (wrapE ''failed to make temp dir'' (px_mkdtemp px ''gameap'')) (\<lambda>tmp.
     bindE (case ic_pre_resolved c of Some r \<Rightarrow> retE r | None \<Rightarrow> resolve_panel_release px c) (\<lambda>rel.
     bindE (wrapE ''failed to download gameap binaries''
       (download_with (ho_canceled (px_host px)) (\<lambda>url. px_get px url tmp) (Some rel))) (\<lambda>_.
     bindE (move_panel_binary px tmp (ic_binary_path c) [''gameap'', ''gameap.exe'']) (\<lambda>_.
       retE (res_tag rel)))))"

definition panel_install :: "'w panel_env \<Rightarrow> install_config \<Rightarrow> ('w, string) sys" where
  "panel_install px c m =
     (case apply_scope_defaults (ho_home (px_host px)) c of
        Inl e \<Rightarrow> (Inl e, m)
      | Inr c \<Rightarrow>
          bindE (panel_configure px c) (\<lambda>_. wrapE ''failed to download binaries'' (download_panel px c)) m)"

section \<open>Lemmas\<close>

text \<open>The settings that a configuration writes, in the order of the file.\<close>

definition config_settings :: "install_config \<Rightarrow> (string \<times> string) list" where
  "config_settings c =
     [(''HTTP_HOST'', ic_http_host c), (''HTTP_PORT'', ic_http_port c)] @
     (if ic_grpc_enabled c then [(''GRPC_ENABLED'', ''true''), (''GRPC_PORT'', ic_grpc_port c)] else []) @
     [(''DATABASE_DRIVER'', ic_database_driver c), (''DATABASE_URL'', ic_database_url c),
      (''ENCRYPTION_KEY'', ic_encryption_key c), (''AUTH_SECRET'', ic_auth_secret c),
      (''AUTH_SERVICE'', ic_auth_service c), (''CACHE_DRIVER'', ic_cache_driver c), (''FILES_DRIVER'', ic_files_driver c),
      (''FILES_LOCAL_BASE_PATH'', ic_files_local_base_path c), (''LEGACY_PATH'', ic_legacy_path c),
      (''GLOBAL_API_URL'', ic_global_api_url c)]"

text \<open>A value on one line, without white space at its end.\<close>

definition one_line :: "string \<Rightarrow> bool" where
  "one_line v \<longleftrightarrow> CHR 0x0A \<notin> set v \<and> (v = [] \<or> \<not> go_space (last v))"

definition writable :: "install_config \<Rightarrow> bool" where
  "writable c \<longleftrightarrow> list_all (\<lambda>(k, v). one_line v) (config_settings c)"

definition env_key :: "string \<Rightarrow> bool" where
  "env_key k \<longleftrightarrow> k \<noteq> [] \<and> hd k \<noteq> CHR ''#'' \<and> list_all (\<lambda>x. \<not> go_space x \<and> x \<noteq> CHR ''='') k"

lemma env_keys: "(k, v) \<in> set (config_settings c) \<Longrightarrow> env_key k"
  by (auto simp: config_settings_def env_key_def go_space_def split: if_splits)

lemma distinct_settings: "distinct (map fst (config_settings c))"
  by (cases "ic_grpc_enabled c") (simp_all add: config_settings_def)

lemma trim_setting:
  assumes "env_key k" "one_line v"
  shows "trim_space (k @ ''='' @ v) = k @ ''='' @ v"
proof -
  have "last (k @ ''='' @ v) = (if v = [] then CHR ''='' else last v)" by simp
  moreover have "\<not> go_space (hd k)" using assms(1) by (cases k) (auto simp: env_key_def)
  moreover have "\<not> go_space (CHR ''='')" by (simp add: go_space_def)
  ultimately have "trimmed (k @ ''='' @ v)" using assms by (auto simp: trimmed_def one_line_def env_key_def)
  then show ?thesis by (rule trim_space_id)
qed

lemma no_hash: "env_key k \<Longrightarrow> \<not> has_prefix (k @ t) ''#''"
  by (cases k) (auto simp: env_key_def)

lemma entry_setting:
  assumes "env_key k" "one_line v"
  shows "config_env_entry (k @ ''='' @ v) = Some (k, v)"
proof -
  have "trimmed k" "CHR ''='' \<notin> set k"
    using assms(1) by (cases k; auto simp: env_key_def trimmed_def list_all_iff)+
  with assms show ?thesis
    using split_n2_char [of "CHR ''=''" k v] trim_setting [OF assms] no_hash [OF assms(1)]
    by (simp add: config_env_entry_def Let_def trim_space_id env_key_def)
qed

lemma trim_comment: "trimmed l \<Longrightarrow> has_prefix l ''#'' \<Longrightarrow> config_env_entry l = None"
  by (simp add: config_env_entry_def trim_space_id)

lemma split_rendered:
  "(\<And>l. l \<in> set ls \<Longrightarrow> CHR 0x0A \<notin> set l) \<Longrightarrow> split_char (CHR 0x0A) (concat (map (\<lambda>l. l @ nl) ls)) = ls @ [[]]"
  by (induction ls) (simp_all add: nl_def split_char_append)

text \<open>Lines that are empty, comments, or settings.\<close>

definition setting_text :: "string \<times> string \<Rightarrow> string" where
  "setting_text kv = setting (fst kv) (snd kv)"

definition blank_or_comment :: "string \<Rightarrow> bool" where
  "blank_or_comment l \<longleftrightarrow> CHR 0x0A \<notin> set l \<and> trimmed l \<and> (l = [] \<or> has_prefix l ''#'')"

fun layout :: "string list \<Rightarrow> (string \<times> string) list \<Rightarrow> bool" where
  "layout [] kvs = (kvs = [])"
| "layout (l # ls) kvs =
     (if blank_or_comment l then layout ls kvs else kvs \<noteq> [] \<and> l = setting_text (hd kvs) \<and> layout ls (tl kvs))"

definition env_entry :: "string \<times> string \<Rightarrow> bool" where
  "env_entry kv \<longleftrightarrow> env_key (fst kv) \<and> one_line (snd kv)"

lemma setting_not_blank: "env_key k \<Longrightarrow> \<not> blank_or_comment (setting k v)"
  using no_hash [of k "''='' @ v"] by (simp add: blank_or_comment_def setting_def)

lemma layout_simps:
  "blank_or_comment l \<Longrightarrow> layout (l # ls) kvs = layout ls kvs"
  "env_key k \<Longrightarrow> layout (setting k v # ls) ((k, v) # kvs) = layout ls kvs"
  using setting_not_blank by (auto simp: setting_text_def)

lemma config_env_layout: "layout (config_env_lines c) (config_settings c)"
proof -
  have b: "blank_or_comment []" "blank_or_comment ''# Server''" "blank_or_comment ''# gRPC''" "blank_or_comment ''# Database''"
    "blank_or_comment ''# Security''" "blank_or_comment ''# Cache''" "blank_or_comment ''# File Storage''"
    "blank_or_comment ''# Legacy''" "blank_or_comment ''# Global API''"
    by code_simp+
  have k: "env_key ''HTTP_HOST''" "env_key ''HTTP_PORT''" "env_key ''GRPC_ENABLED''" "env_key ''GRPC_PORT''"
    "env_key ''DATABASE_DRIVER''" "env_key ''DATABASE_URL''" "env_key ''ENCRYPTION_KEY''" "env_key ''AUTH_SECRET''"
    "env_key ''AUTH_SERVICE''" "env_key ''CACHE_DRIVER''" "env_key ''FILES_DRIVER''" "env_key ''FILES_LOCAL_BASE_PATH''"
    "env_key ''LEGACY_PATH''" "env_key ''GLOBAL_API_URL''"
    by code_simp+
  show ?thesis
    by (cases "ic_grpc_enabled c")
      (simp_all only: config_env_lines_def config_settings_def if_True if_False append.simps layout_simps b k layout.simps(1))
qed

text \<open>What a line of such a file is, and what the two readers make of it.\<close>

lemma entry_line:
  assumes "env_entry kv"
  shows "CHR 0x0A \<notin> set (setting_text kv)" "config_env_entry (setting_text kv) = Some kv"
    "setting_line (setting_text kv)" "trim_space (setting_text kv) = setting_text kv"
proof -
  from assms have kv: "env_key (fst kv)" "one_line (snd kv)" by (simp_all add: env_entry_def)
  then show "CHR 0x0A \<notin> set (setting_text kv)"
    by (auto simp: setting_text_def setting_def env_key_def one_line_def list_all_iff go_space_def)
  from entry_setting [OF kv] show "config_env_entry (setting_text kv) = Some kv"
    by (simp add: setting_text_def setting_def)
  from no_hash [OF kv(1), of "''='' @ snd kv"] show "setting_line (setting_text kv)"
    by (simp add: setting_text_def setting_def setting_line_def)
  from trim_setting [OF kv] show "trim_space (setting_text kv) = setting_text kv"
    by (simp add: setting_text_def setting_def)
qed

lemma blank_line:
  assumes "blank_or_comment l"
  shows "config_env_entry l = None" "\<not> setting_line (trim_space l)"
  using assms trim_comment [of l]
  by (cases "l = []"; auto simp: blank_or_comment_def config_env_entry_def setting_line_def trim_space_id)+

lemma layout_cases:
  "layout ls kvs \<Longrightarrow> l \<in> set ls \<Longrightarrow> blank_or_comment l \<or> l \<in> setting_text ` set kvs"
proof (induction ls kvs rule: layout.induct)
  case (2 x xs kvs)
  then show ?case by (cases kvs) (auto split: if_splits)
qed simp

lemma layout_lines: "layout ls kvs \<Longrightarrow> list_all env_entry kvs \<Longrightarrow> l \<in> set ls \<Longrightarrow> CHR 0x0A \<notin> set l"
  using layout_cases [of ls kvs l] entry_line(1) by (auto simp: blank_or_comment_def list_all_iff)

lemma layout_readers:
  "layout ls kvs \<Longrightarrow> list_all env_entry kvs \<Longrightarrow>
     List.map_filter config_env_entry ls = kvs \<and> filter setting_line (map trim_space ls) = map setting_text kvs"
proof (induction ls kvs rule: layout.induct)
  case (2 l ls kvs)
  show ?case
  proof (cases "blank_or_comment l")
    case True
    with 2 blank_line [OF True] show ?thesis by (simp add: List.map_filter_simps)
  next
    case False
    with 2 obtain kv kvs' where kv: "kvs = kv # kvs'" "l = setting_text kv" "env_entry kv" by (cases kvs) auto
    with 2 False entry_line [OF kv(3)] show ?thesis by (simp add: List.map_filter_simps)
  qed
qed (simp add: List.map_filter_simps)

lemma writable_entries: "writable c \<Longrightarrow> list_all env_entry (config_settings c)"
  using env_keys by (fastforce simp: writable_def list_all_iff env_entry_def)

lemma config_env_read_back:
  assumes "writable c"
  shows "parse_config_env_values (render_config_env c) = map_of (config_settings c)"
proof -
  note e = writable_entries [OF assms]
  have "split_char (CHR 0x0A) (render_config_env c) = config_env_lines c @ [[]]"
    unfolding render_config_env_def by (rule split_rendered) (rule layout_lines [OF config_env_layout e])
  moreover have "List.map_filter config_env_entry (config_env_lines c @ [[]]) = config_settings c"
    using layout_readers [OF config_env_layout e] by (simp add: List.map_filter_def config_env_entry_def)
  ultimately have "parse_config_env_values (render_config_env c) = map_of (rev (config_settings c))"
    by (simp add: parse_config_env_values_def)
  also have "\<dots> = map_of (config_settings c)"
    using distinct_settings [of c] by (intro map_of_inject_set [THEN iffD2]) (simp_all add: rev_map [symmetric])
  finally show ?thesis .
qed

lemma split_config_env:
  assumes "writable c"
  shows "split_char (CHR 0x0A) (render_config_env c) = config_env_lines c @ [[]]"
  unfolding render_config_env_def
  by (rule split_rendered) (rule layout_lines [OF config_env_layout writable_entries [OF assms]])

lemma trimmed_no_cr: "trimmed l \<Longrightarrow> drop_cr l = l"
  by (auto simp: drop_cr_def trimmed_def go_space_def)

lemma layout_trimmed:
  assumes "layout ls kvs" "list_all env_entry kvs" "l \<in> set ls"
  shows "trimmed l"
  using layout_cases [OF assms(1,3)]
proof
  assume "l \<in> setting_text ` set kvs"
  then obtain kv where "l = setting_text kv" "env_entry kv" using assms(2) by (auto simp: list_all_iff)
  with entry_line(4) [of kv] trimmed_trim_space [of l] show ?thesis by simp
qed (simp add: blank_or_comment_def)

lemma scan_config_env:
  assumes "writable c" "list_all (\<lambda>l. length l < 65536) (config_env_lines c)"
  shows "raw_lines (render_config_env c) = config_env_lines c" "scan_lines (render_config_env c) = config_env_lines c"
proof -
  show r: "raw_lines (render_config_env c) = config_env_lines c"
    by (simp add: raw_lines_def split_config_env [OF assms(1)])
  have all: "takeWhile (\<lambda>l. length l < 65536) (config_env_lines c) = config_env_lines c"
    using assms(2) by (simp add: list_all_iff)
  show "scan_lines (render_config_env c) = config_env_lines c"
    unfolding scan_lines_def r all
    by (rule map_idI) (rule trimmed_no_cr, rule layout_trimmed [OF config_env_layout writable_entries [OF assms(1)]])
qed

lemma secrets_preserved:
  assumes "writable old" "files m (config_env_path c) = Some (render_config_env old)"
    and "fault os (OpRead (config_env_path c)) m = None" "ic_encryption_key c = []" "ic_auth_secret c = []"
  shows "preserve_existing_secrets os c m =
    c\<lparr>ic_encryption_key := ic_encryption_key old, ic_auth_secret := ic_auth_secret old\<rparr>"
proof -
  have "env_value (map_of (config_settings old)) ''ENCRYPTION_KEY'' = ic_encryption_key old"
    "env_value (map_of (config_settings old)) ''AUTH_SECRET'' = ic_auth_secret old"
    by (cases "ic_grpc_enabled old"; simp add: config_settings_def env_value_def)+
  with assms show ?thesis
    by (simp add: preserve_existing_secrets_def read_file_def config_env_read_back or_default_def)
qed

section \<open>What is left alone\<close>

text \<open>The commands, the ownership changes and the unit file leave the file \<open>p\<close> as it is.\<close>

definition panel_laws :: "'w panel_env \<Rightarrow> string \<Rightarrow> bool" where
  "panel_laws px p \<longleftrightarrow>
     (\<forall>c. leaves p (ho_exec (px_host px) c)) \<and> (\<forall>c. leaves p (ho_exec (us_host (px_users px)) c)) \<and>
     (\<forall>x. leaves p (us_chpasswd (px_users px) x)) \<and> (\<forall>f u g. leaves p (us_chown (px_users px) f u g)) \<and>
     (\<forall>scope ps. resolved_panel_paths (px_host px) scope = Inr ps \<longrightarrow> p \<noteq> pp_systemd_unit_path ps)"

lemma leaves_by_state: "(\<And>s. leaves p (m s)) \<Longrightarrow> leaves p (\<lambda>s. m s s)"
  by (simp add: leaves_def keeps_def)

lemma leaves_eachE: "(\<And>x. leaves p (f x)) \<Longrightarrow> leaves p (eachE f xs)"
  by (induction xs) (auto intro: leaves_bindE)

lemma user_ops_leave:
  assumes "panel_laws px p"
  shows "leaves p (create_group (px_users px) g gid)" "leaves p (create_user (px_users px) u opts)"
    "leaves p (chown_recursive (px_users px) f un gn)"
proof -
  let ?us = "px_users px"
  note laws = assms [unfolded panel_laws_def]
  have exec: "leaves p (ho_exec (us_host ?us) c)" for c using laws by simp
  have "files (snd (create_group ?us g gid m)) p = files m p" for m
    using exec [unfolded leaves_def keeps_def]
    by (auto simp: create_group_def split: prod.split sum.split dest: leavesD [OF exec])
  then show "leaves p (create_group ?us g gid)" by (rule leavesI)
  have "leaves p (bindE (wrapE ''failed to exec useradd command''
            (ho_exec (us_host ?us) (useradd_args opts u (us_lookup_group ?us u m)))) (\<lambda>_.
            if cu_password opts \<noteq> []
            then wrapE ''failed to run command'' (us_chpasswd ?us (u @ '':'' @ cu_password opts))
            else retE ()))" for m
    using laws by (intro leaves_bindE leaves_basic exec) (auto intro: leaves_basic)
  then show "leaves p (create_user ?us u opts)"
    by (intro leavesI) (auto simp: create_user_def leaves_def keeps_def split: user_lookup.split)
  have entry: "leaves p (chown_entry ?us a b e)" for a b e
    using laws by (intro leavesI) (auto simp: chown_entry_def leaves_def keeps_def split: walk_link.split)
  have "leaves p (chown_r ?us f a b)" for a b
    unfolding chown_r_def [abs_def] by (rule leaves_by_state) (rule leaves_eachE, rule entry)
  then show "leaves p (chown_recursive ?us f un gn)"
    by (intro leavesI) (auto simp: chown_recursive_def leaves_def keeps_def split: sum.split)
qed

lemma systemctl_leaves:
  assumes "\<And>c. leaves p (ho_exec h c)"
  shows "leaves p (systemctl_run h scope args)"
proof -
  have "leaves p (ensure_user_manager h scope)"
    by (intro leavesI) (auto simp: ensure_user_manager_def check_user_manager_def retE_def split: stat_reply.split)
  with assms show ?thesis unfolding systemctl_run_def by (intro leaves_bindE)
qed

lemma install_unit_leaves:
  assumes "\<And>c. leaves p (ho_exec h c)" "p \<noteq> unit_path"
  shows "leaves p (install_unit h scope unit_path content)"
proof -
  have "leaves p (ensure_user_manager h scope)"
    by (intro leavesI) (auto simp: ensure_user_manager_def check_user_manager_def retE_def split: stat_reply.split)
  moreover have "leaves p (enable_linger h)"
    using assms(1) by (auto simp: enable_linger_def split: sum.split)
  ultimately show ?thesis
    unfolding install_unit_def Let_def using assms systemctl_leaves [OF assms(1)]
    by (intro leaves_bindE leaves_basic leaves_write leaves_mkdir) (auto intro: leaves_basic)
qed

lemma panel_steps_leave:
  assumes "panel_laws px p"
  shows "leaves p (create_panel_user px c)" "leaves p (create_directories px c)" "leaves p (install_panel_service px c)"
proof -
  note users = user_ops_leave [OF assms]
  have unless: "leaves p q \<Longrightarrow> leaves p (unless_exists f msg q)" for f msg q
    unfolding unless_exists_def by (rule leaves_catchE) (auto intro: leaves_basic)
  show "leaves p (create_panel_user px c)"
    unfolding create_panel_user_def by (auto intro!: leaves_bindE leaves_basic unless users)
  show "leaves p (create_directories px c)"
    unfolding create_directories_def using users(3) by (auto intro!: leaves_bindE leaves_eachE leaves_basic leaves_mkdir)
  have "resolved_panel_paths (px_host px) scope = Inr ps \<Longrightarrow>
      leaves p (install_unit (px_host px) s (pp_systemd_unit_path ps) content)" for scope ps s content
    using assms by (intro install_unit_leaves) (auto simp: panel_laws_def)
  then show "leaves p (install_panel_service px c)"
    by (intro leavesI) (auto simp: install_panel_service_def leaves_def keeps_def split: sum.split)
qed

lemma write_configuration_writes:
  assumes "panel_laws px (config_env_path c)" "write_configuration px c m = (Inr (), t)"
  shows "files t (config_env_path c) = Some (render_config_env c)"
proof -
  let ?p = "config_env_path c"
  from assms(2) obtain a b where ab: "create_config_env px c a = (Inr (), b)" "install_panel_service px c b = (Inr (), t)"
    by (auto simp: write_configuration_def bindE_Inr_iff)
  define d where "d = put_file ?p (render_config_env c) a"
  then have d: "files d ?p = Some (render_config_env c)"
    "(if user_scoped c then retE () else wrapE ''failed to set ownership for config.env''
              (chown_recursive (px_users px) ?p (ic_user c) (ic_group c))) d = (Inr (), b)"
    using ab(1) by (auto simp: create_config_env_def bindE_Inr_iff write_file_Inr)
  have "files b ?p = files d ?p"
    using d(2) leavesD [OF user_ops_leave(3) [OF assms(1)]] by (auto split: if_splits)
  moreover have "files t ?p = files b ?p"
    by (rule leavesD [OF panel_steps_leave(3) [OF assms(1)] ab(2)])
  ultimately show ?thesis using d(1) by simp
qed

text \<open>In user scope the user database and the changes of ownership are not used.\<close>

lemma write_configuration_user:
  assumes "user_scoped c"
  shows "write_configuration (px\<lparr>px_users := us\<rparr>) c = write_configuration px c"
proof -
  have "create_panel_user (px\<lparr>px_users := us\<rparr>) c = create_panel_user px c"
    "create_directories (px\<lparr>px_users := us\<rparr>) c = create_directories px c"
    "create_config_env (px\<lparr>px_users := us\<rparr>) c = create_config_env px c"
    using assms by (simp_all add: create_panel_user_def create_directories_def create_config_env_def)
  moreover have "install_panel_service (px\<lparr>px_users := us\<rparr>) c = install_panel_service px c"
    by (intro ext) (simp add: install_panel_service_def split: sum.split)
  ultimately show ?thesis by (simp add: write_configuration_def)
qed

lemma fill_secrets_other [simp]: "fill_secrets (px\<lparr>px_users := us\<rparr>) c = fill_secrets px c"
  by (simp add: fill_secrets_def generate_random_key_def)

lemma user_scoped_updates [simp]:
  "user_scoped (apply_config_defaults c) = user_scoped c"
  "user_scoped (preserve_existing_secrets os c m) = user_scoped c"
  by (simp_all add: user_scoped_def apply_config_defaults_def preserve_existing_secrets_def Let_def split: sum.split)

lemma fill_secrets_scope: "fill_secrets px c m = (Inr d, t) \<Longrightarrow> user_scoped d = user_scoped c"
  by (auto simp: fill_secrets_def bindE_Inr_iff user_scoped_def)

lemma apply_scope_defaults_scope: "apply_scope_defaults home c = Inr d \<Longrightarrow> user_scoped d = user_scoped c"
  by (auto simp: apply_scope_defaults_def user_scoped_def Let_def split: if_splits sum.splits)

lemma bindE_cong: "(\<And>x t. m s = (Inr x, t) \<Longrightarrow> f x t = g x t) \<Longrightarrow> bindE m f s = bindE m g s"
  by (simp add: bindE_def split: prod.split sum.split)

section \<open>Examples\<close>

definition example_panel_config :: install_config where
  "example_panel_config =
     \<lparr>ic_scope = scope_user, ic_config_directory = ''/c'', ic_data_directory = ''/d'', ic_binary_path = ''/b/gameap'',
      ic_user = [], ic_group = [], ic_http_host = ''h'', ic_http_port = ''80'', ic_database_driver = ''sqlite'',
      ic_database_url = ''file:x?a=b'', ic_encryption_key = ''k=='', ic_auth_secret = ''s'', ic_auth_service = ''paseto'',
      ic_cache_driver = ''inmemory'', ic_files_driver = ''local'', ic_files_local_base_path = ''/d/files'',
      ic_legacy_path = [], ic_global_api_url = ''u'', ic_grpc_enabled = True, ic_grpc_port = ''31718'', ic_tag = [],
      ic_tag_prefix = [], ic_pre_resolved = None\<rparr>"

text \<open>A user whose systemd manager runs; there is no randomness left.\<close>

definition rootless_host :: "nat host" where
  "rootless_host = stubborn_host"

definition rootless_env :: "nat panel_env" where
  "rootless_env =
     \<lparr>px_panel = \<lparr>ph_host = rootless_host, ph_environ = [''HOME=/home/u''], ph_start_process = (\<lambda>_ _ _. retE 7),
        ph_expired = (\<lambda>_ _. False)\<rparr>,
      px_users = \<lparr>us_host = rootless_host, us_lookup_user = (\<lambda>_ _. UserUnknown),
        us_lookup_group = (\<lambda>_ _. Inl (Err ''no group'')), us_chpasswd = (\<lambda>_. retE ()), us_walk = (\<lambda>_ _. []),
        us_chown = (\<lambda>_ _ _. retE ())\<rparr>,
      px_fs = \<lparr>fl_os = calm_os, fl_copy = (\<lambda>_ _. retE ()), fl_remove_all = (\<lambda>_. retE ()),
        fl_cross_device = (\<lambda>_. False), fl_owner = (\<lambda>_ _. (0, 0)), fl_chown = (\<lambda>_ _ _. retE ()),
        fl_create_temp = (\<lambda>_. retE ''/tmp/y'')\<rparr>,
      px_goos = ''linux'', px_random = (\<lambda>_. failE (Err ''no entropy'')),
      px_find = (\<lambda>_. retE \<lparr>res_tag = ''v4.2.0'', res_asset = ''a'', res_urls = [''u'']\<rparr>),
      px_get = (\<lambda>_ _. retE ()), px_mkdtemp = (\<lambda>_. retE ''/tmp/x''), px_chmod = (\<lambda>_. retE ())\<rparr>"

definition panel_machine :: "nat machine" where
  "panel_machine =
     \<lparr>files = [''/c/config.env'' \<mapsto> render_config_env example_panel_config], dirs = {user_manager_socket rootless_host},
      world = 0, service_memo = None\<rparr>"

section \<open>Properties\<close>

text \<open>
  C16: a panel that is started by fork gets the settings of its \<open>config.env\<close>: what the template
  wrote is read back line by line, the comments and empty lines left out, for every
  configuration whose values are single lines that fit the scanner.
\<close>

theorem forked_panel_gets_settings:
  assumes "writable c" and "list_all (\<lambda>l. length l < 65536) (config_env_lines c)"
    and "files m path = Some (render_config_env c)" and "fault (ph_os ph) (OpRead path) m = None"
  shows "read_env_from_file ph path m =
    Inr (ph_environ ph @ map (\<lambda>(k, v). setting k v) (config_settings c))"
proof -
  have "map setting_text (config_settings c) = map (\<lambda>(k, v). setting k v) (config_settings c)"
    by (simp add: setting_text_def case_prod_beta)
  moreover have "\<not> list_ex (\<lambda>l. 65536 \<le> length l) (config_env_lines c)"
    using assms(2) by (auto simp: list_ex_iff list_all_iff)
  ultimately show ?thesis
    using assms(3,4) scan_config_env [OF assms(1,2)] layout_readers [OF config_env_layout writable_entries [OF assms(1)]]
    by (simp add: read_env_from_file_def read_file_def setting_lines_def)
qed

theorem forked_panel_gets_settings_witness:
  "read_env_from_file (px_panel rootless_env) ''/c/config.env'' panel_machine =
    Inr (ph_environ (px_panel rootless_env) @ map (\<lambda>(k, v). setting k v) (config_settings example_panel_config))"
proof (rule forked_panel_gets_settings)
  show "writable example_panel_config" by code_simp
  show "list_all (\<lambda>l. length l < 65536) (config_env_lines example_panel_config)" by code_simp
qed (simp_all add: panel_machine_def rootless_env_def rootless_host_def stubborn_host_def calm_os_def)

text \<open>
  C17: installing the panel again keeps its encryption key and its authentication secret: when
  the configuration names none, the ones of the \<open>config.env\<close> that is there are written back, and
  no random key is asked for.
\<close>

theorem reinstall_keeps_secrets:
  assumes "apply_scope_defaults (ho_home (px_host px)) c = Inr d"
    and "ic_encryption_key c = []" and "ic_auth_secret c = []"
    and "files m (config_env_path d) = Some (render_config_env old)" and "writable old"
    and "ic_encryption_key old \<noteq> []" and "ic_auth_secret old \<noteq> []"
    and "fault (px_os px) (OpRead (config_env_path d)) m = None"
    and "panel_laws px (config_env_path d)" and "panel_configure px c m = (Inr (), t)"
  shows "\<exists>new. files t (config_env_path d) = Some (render_config_env new) \<and>
    ic_encryption_key new = ic_encryption_key old \<and> ic_auth_secret new = ic_auth_secret old"
proof -
  let ?c = "apply_config_defaults d"
  let ?new = "?c\<lparr>ic_encryption_key := ic_encryption_key old, ic_auth_secret := ic_auth_secret old\<rparr>"
  have path: "config_env_path ?c = config_env_path d" "config_env_path ?new = config_env_path d"
    by (simp_all add: config_env_path_def apply_config_defaults_def)
  have "ic_encryption_key ?c = []" "ic_auth_secret ?c = []"
    using assms(1,2,3) by (auto simp: apply_config_defaults_def apply_scope_defaults_def Let_def split: if_splits sum.splits)
  then have "preserve_existing_secrets (px_os px) ?c m = ?new"
    by (intro secrets_preserved [OF assms(5)]) (simp_all add: path(1) assms(4,8))
  then have "write_configuration px ?new m = (Inr (), t)"
    using assms(1,6,7,10) by (simp add: panel_configure_def fill_secrets_def)
  then have "files t (config_env_path d) = Some (render_config_env ?new)"
    using write_configuration_writes [of px ?new] assms(9) path(2) by simp
  then show ?thesis by (intro exI [of _ ?new]) simp
qed

theorem reinstall_keeps_secrets_witness:
  "\<exists>new. files (snd (panel_configure rootless_env (example_panel_config\<lparr>ic_encryption_key := [], ic_auth_secret := []\<rparr>) panel_machine))
      ''/c/config.env'' = Some (render_config_env new) \<and> ic_encryption_key new = ''k=='' \<and> ic_auth_secret new = ''s''"
proof -
  let ?c = "example_panel_config\<lparr>ic_encryption_key := [], ic_auth_secret := []\<rparr>"
  let ?r = "panel_configure rootless_env ?c panel_machine"
  have path: "config_env_path ?c = ''/c/config.env''" by code_simp
  have run: "?r = (Inr (), snd ?r)" by (rule prod_eqI) (simp, code_simp, simp)
  have laws: "panel_laws rootless_env (config_env_path ?c)"
    unfolding path panel_laws_def
  proof (intro conjI allI impI)
    show "''/c/config.env'' \<noteq> pp_systemd_unit_path ps"
      if "resolved_panel_paths (px_host rootless_env) scope = Inr ps" for scope ps
    proof -
      have "''/c/config.env'' \<noteq> pp_systemd_unit_path system_panel_paths"
        "''/c/config.env'' \<noteq> pp_systemd_unit_path (user_panel_paths_from_home ''/home/u'')" by code_simp+
      moreover have "ps = system_panel_paths \<or> ps = user_panel_paths_from_home ''/home/u''"
        using that by (auto simp: resolved_panel_paths_def panel_paths_for_scope_def user_home_def rootless_env_def
            rootless_host_def stubborn_host_def with_message_def split: if_splits)
      ultimately show ?thesis by metis
    qed
  qed (auto intro!: leavesI simp: rootless_env_def rootless_host_def stubborn_host_def retE_def)
  have "\<exists>new. files (snd ?r) (config_env_path ?c) = Some (render_config_env new) \<and>
    ic_encryption_key new = ic_encryption_key example_panel_config \<and> ic_auth_secret new = ic_auth_secret example_panel_config"
  proof (rule reinstall_keeps_secrets [OF _ _ _ _ _ _ _ _ laws run])
    show "apply_scope_defaults (ho_home (px_host rootless_env)) ?c = Inr ?c"
      by (simp add: apply_scope_defaults_def example_panel_config_def rootless_env_def rootless_host_def stubborn_host_def
          scope_or_default_def user_home_def or_default_def Let_def scope_user_def)
    show "writable example_panel_config" by code_simp
    show "files panel_machine (config_env_path ?c) = Some (render_config_env example_panel_config)"
      unfolding path by (simp add: panel_machine_def)
  qed (simp_all add: example_panel_config_def rootless_env_def rootless_host_def stubborn_host_def calm_os_def)
  then show ?thesis unfolding path by (simp add: example_panel_config_def)
qed

text \<open>
  In user scope the installation of the panel does exactly the same with any other user
  database: it creates no group or user and gives no file to anybody.
\<close>

theorem user_scope_panel_unprivileged:
  assumes "scope_or_default (ic_scope c) = scope_user"
  shows "panel_configure (px\<lparr>px_users := us\<rparr>) c = panel_configure px c"
proof
  fix m
  show "panel_configure (px\<lparr>px_users := us\<rparr>) c m = panel_configure px c m"
  proof (cases "apply_scope_defaults (ho_home (px_host px)) c")
    case (Inr d)
    then have d: "user_scoped d" using apply_scope_defaults_scope [OF Inr] assms by (simp add: user_scoped_def)
    have "bindE (fill_secrets px e) (write_configuration (px\<lparr>px_users := us\<rparr>)) m =
        bindE (fill_secrets px e) (write_configuration px) m" if "user_scoped e" for e
      using that fill_secrets_scope [of px e m] by (intro bindE_cong) (simp add: write_configuration_user)
    with d Inr show ?thesis by (simp add: panel_configure_def)
  qed (simp add: panel_configure_def)
qed

theorem user_scope_panel_unprivileged_witness:
  "panel_configure (rootless_env\<lparr>px_users := (px_users rootless_env)\<lparr>us_chown := \<lambda>_ _ _. failE (Err ''denied'')\<rparr>\<rparr>) example_panel_config =
    panel_configure rootless_env example_panel_config"
  by (rule user_scope_panel_unprivileged) (simp add: example_panel_config_def scope_or_default_def scope_user_def)

end
