(* ===== verification/Steps.thy ===== *)
theory Steps
  imports Partial
begin

text \<open>
  Functions of the form \<open>func f(ctx, state) (state, error)\<close>: they return the state next to the
  error, so that what was recorded before a failure is still there for the caller. The
  combinators are the sequences, branches and handlers of such functions; relations that they
  keep and their termination are shown once.
\<close>

type_synonym ('w, 's) step = "'s \<Rightarrow> 'w machine \<Rightarrow> (('s \<times> go_error option) \<times> 'w machine) option"

text \<open>\<open>return state, nil\<close>, \<open>return state, err\<close> and an assignment to the state.\<close>

definition skipS :: "('w, 's) step" where
  "skipS s m = Some ((s, None), m)"

definition failS :: "go_error \<Rightarrow> ('w, 's) step" where
  "failS e s m = Some ((s, Some e), m)"

definition updS :: "('s \<Rightarrow> 's) \<Rightarrow> ('w, 's) step" where
  "updS f s m = Some ((f s, None), m)"

text \<open>\<open>state, err = p(state); if err != nil { return state, err }\<close>, and then \<open>q\<close>.\<close>

definition seqS :: "('w, 's) step \<Rightarrow> ('w, 's) step \<Rightarrow> ('w, 's) step" where
  "seqS p q s m =
     (case p s m of
        None \<Rightarrow> None
      | Some ((t, None), u) \<Rightarrow> q t u
      | Some ((t, Some e), u) \<Rightarrow> Some ((t, Some e), u))"

text \<open>\<open>if err != nil { state, err = h(state) }\<close>: the handler starts from the state of the failure.\<close>

definition elseS :: "('w, 's) step \<Rightarrow> (go_error \<Rightarrow> ('w, 's) step) \<Rightarrow> ('w, 's) step" where
  "elseS p h s m =
     (case p s m of
        None \<Rightarrow> None
      | Some ((t, None), u) \<Rightarrow> Some ((t, None), u)
      | Some ((t, Some e), u) \<Rightarrow> h e t u)"

text \<open>Whether the step failed or not, \<open>k\<close> goes on from its state; \<open>k\<close> knows its error.\<close>

definition tryS :: "('w, 's) step \<Rightarrow> (go_error option \<Rightarrow> ('w, 's) step) \<Rightarrow> ('w, 's) step" where
  "tryS p k s m = (case p s m of None \<Rightarrow> None | Some ((t, e), u) \<Rightarrow> k e t u)"

definition wrapS :: "string \<Rightarrow> ('w, 's) step \<Rightarrow> ('w, 's) step" where
  "wrapS msg p s m = map_option (\<lambda>((t, e), u). ((t, map_option (\<lambda>e. WithMessage e msg) e), u)) (p s m)"

definition ifS :: "('s \<Rightarrow> 'w machine \<Rightarrow> bool) \<Rightarrow> ('w, 's) step \<Rightarrow> ('w, 's) step \<Rightarrow> ('w, 's) step" where
  "ifS c p q s m = (if c s m then p s m else q s m)"

text \<open>An operation that the state decides, whose value the rest uses, and one whose value is not used.\<close>

definition letS :: "('s \<Rightarrow> ('w, 'a) psys) \<Rightarrow> ('a \<Rightarrow> ('w, 's) step) \<Rightarrow> ('w, 's) step" where
  "letS p k s m =
     (case p s m of
        None \<Rightarrow> None
      | Some (Inl e, u) \<Rightarrow> Some ((s, Some e), u)
      | Some (Inr x, u) \<Rightarrow> k x s u)"

definition doS :: "('s \<Rightarrow> ('w, unit) psys) \<Rightarrow> ('w, 's) step" where
  "doS p = letS p (\<lambda>_. skipS)"

text \<open>\<open>state.F, err = f(state.F)\<close> for an operation that returns a part of the state with its error.\<close>

definition partS ::
  "('s \<Rightarrow> 'a) \<Rightarrow> ('a \<Rightarrow> 's \<Rightarrow> 's) \<Rightarrow> ('a \<Rightarrow> 'w machine \<Rightarrow> ('a \<times> go_error option) \<times> 'w machine) \<Rightarrow> ('w, 's) step" where
  "partS get put f s m = (case f (get s) m of ((x, e), u) \<Rightarrow> Some ((put x s, e), u))"

text \<open>An assignment to the state of what the machine shows.\<close>

definition noteS :: "('w machine \<Rightarrow> 's \<Rightarrow> 's) \<Rightarrow> ('w, 's) step" where
  "noteS f s m = Some ((f m s, None), m)"

text \<open>What a deferred function does to the machine when the step has returned.\<close>

definition finallyS :: "('w, 's) step \<Rightarrow> ('s \<Rightarrow> ('w, unit) sys) \<Rightarrow> ('w, 's) step" where
  "finallyS p f s m = map_option (\<lambda>(r, u). (r, snd (f s u))) (p s m)"

lemmas step_defs = skipS_def failS_def updS_def noteS_def seqS_def elseS_def tryS_def wrapS_def ifS_def letS_def doS_def partS_def finallyS_def

section \<open>Laws\<close>

lemma seqS_skip [simp]: "seqS skipS p = p" "seqS p skipS = p"
  by (intro ext; simp add: seqS_def skipS_def split: option.split prod.split)+

lemma seqS_fail [simp]: "seqS (failS e) p = failS e"
  by (intro ext) (simp add: seqS_def failS_def)

lemma seqS_assoc: "seqS (seqS p q) r = seqS p (seqS q r)"
  by (intro ext) (simp add: seqS_def split: option.split prod.split)

lemma elseS_skip [simp]: "elseS skipS h = skipS" "elseS (failS e) h = h e"
  by (intro ext; simp add: elseS_def skipS_def failS_def)+

section \<open>Relations that steps keep\<close>

text \<open>\<open>keepsS R p\<close>: whenever \<open>p\<close> returns, with an error or without, it has kept \<open>R\<close>.\<close>

definition keepsS :: "('s \<times> 'w machine \<Rightarrow> 's \<times> 'w machine \<Rightarrow> bool) \<Rightarrow> ('w, 's) step \<Rightarrow> bool" where
  "keepsS R p \<longleftrightarrow> (\<forall>s m t e u. p s m = Some ((t, e), u) \<longrightarrow> R (s, m) (t, u))"

lemma keepsS_D: "keepsS R p \<Longrightarrow> p s m = Some ((t, e), u) \<Longrightarrow> R (s, m) (t, u)"
  by (auto simp: keepsS_def)

lemma keepsS_I: "(\<And>s m t e u. p s m = Some ((t, e), u) \<Longrightarrow> R (s, m) (t, u)) \<Longrightarrow> keepsS R p"
  by (auto simp: keepsS_def)

lemma seqS_cases:
  assumes "seqS p q s m = Some ((t, e), u)"
  obtains (failed) e' where "e = Some e'" "p s m = Some ((t, e), u)"
    | (passed) v w where "p s m = Some ((v, None), w)" "q v w = Some ((t, e), u)"
  using assms by (auto simp: seqS_def split: option.splits prod.splits)

lemma elseS_cases:
  assumes "elseS p h s m = Some ((t, e), u)"
  obtains (passed) "e = None" "p s m = Some ((t, e), u)"
    | (handled) e' v w where "p s m = Some ((v, Some e'), w)" "h e' v w = Some ((t, e), u)"
  using assms by (auto simp: elseS_def split: option.splits prod.splits)

locale step_frame =
  fixes R :: "'s \<times> 'w machine \<Rightarrow> 's \<times> 'w machine \<Rightarrow> bool"
  assumes refl: "R x x"
    and trans: "R x y \<Longrightarrow> R y z \<Longrightarrow> R x z"
begin

lemma skip: "keepsS R skipS" and fail: "keepsS R (failS e)"
  by (auto simp: keepsS_def skipS_def failS_def refl)

lemma seq: "keepsS R p \<Longrightarrow> keepsS R q \<Longrightarrow> keepsS R (seqS p q)"
  by (rule keepsS_I) (auto elim!: seqS_cases dest: keepsS_D trans)

lemma orelse: "keepsS R p \<Longrightarrow> (\<And>e. keepsS R (h e)) \<Longrightarrow> keepsS R (elseS p h)"
  by (rule keepsS_I) (auto elim!: elseS_cases dest: keepsS_D trans)

lemma attempt: "keepsS R p \<Longrightarrow> (\<And>e. keepsS R (k e)) \<Longrightarrow> keepsS R (tryS p k)"
  by (rule keepsS_I) (auto simp: tryS_def split: option.splits prod.splits dest: keepsS_D trans)

lemma wrap: "keepsS R p \<Longrightarrow> keepsS R (wrapS msg p)"
  by (rule keepsS_I) (auto simp: wrapS_def dest: keepsS_D)

lemma branch: "keepsS R p \<Longrightarrow> keepsS R q \<Longrightarrow> keepsS R (ifS c p q)"
  by (rule keepsS_I) (auto simp: ifS_def split: if_splits dest: keepsS_D)

lemma upd: "(\<And>s m. R (s, m) (f s, m)) \<Longrightarrow> keepsS R (updS f)"
  by (auto simp: keepsS_def updS_def)

lemma observe: "(\<And>s m. R (s, m) (f m s, m)) \<Longrightarrow> keepsS R (noteS f)"
  by (auto simp: keepsS_def noteS_def)

lemma bind:
  assumes "\<And>s. keepsP (\<lambda>m u. R (s, m) (s, u)) (p s)" and "\<And>x. keepsS R (k x)"
  shows "keepsS R (letS p k)"
proof (rule keepsS_I)
  fix s m t e u assume run: "letS p k s m = Some ((t, e), u)"
  then obtain r v where r: "p s m = Some (r, v)" by (auto simp: letS_def split: option.splits)
  have a: "R (s, m) (s, v)" by (rule keepsP_D [OF assms(1) r])
  show "R (s, m) (t, u)"
  proof (cases r)
    case (Inl e)
    with a r run show ?thesis by (auto simp: letS_def)
  next
    case (Inr x)
    with r run have "k x s v = Some ((t, e), u)" by (simp add: letS_def)
    with a show ?thesis by (blast intro: trans keepsS_D [OF assms(2)])
  qed
qed

lemma act: "(\<And>s. keepsP (\<lambda>m u. R (s, m) (s, u)) (p s)) \<Longrightarrow> keepsS R (doS p)"
  unfolding doS_def by (intro bind skip)

lemma part: "(\<And>s m x e u. f (get s) m = ((x, e), u) \<Longrightarrow> R (s, m) (put x s, u)) \<Longrightarrow> keepsS R (partS get put f)"
  by (rule keepsS_I) (auto simp: partS_def split: prod.splits)

lemma atLast: "keepsS R p \<Longrightarrow> (\<And>s t m. R (t, m) (t, snd (f s m))) \<Longrightarrow> keepsS R (finallyS p f)"
  by (rule keepsS_I) (auto simp: finallyS_def dest: keepsS_D intro: trans)

lemmas intros = skip fail seq orelse attempt wrap branch upd observe bind act part atLast

end

section \<open>Steps that return\<close>

definition returnsS :: "('w, 's) step \<Rightarrow> bool" where
  "returnsS p \<longleftrightarrow> (\<forall>s m. p s m \<noteq> None)"

lemma returnsS_D: "returnsS p \<Longrightarrow> p s m \<noteq> None"
  by (simp add: returnsS_def)

lemma returnsS_basic [simp]: "returnsS skipS" "returnsS (failS e)" "returnsS (updS f)" "returnsS (noteS h)" "returnsS (partS get put g)"
  by (simp_all add: returnsS_def skipS_def failS_def updS_def noteS_def partS_def split: prod.split)

lemma returnsS_seqS: "returnsS p \<Longrightarrow> returnsS q \<Longrightarrow> returnsS (seqS p q)"
  by (auto simp: returnsS_def seqS_def split: option.split prod.split)

lemma returnsS_elseS: "returnsS p \<Longrightarrow> (\<And>e. returnsS (h e)) \<Longrightarrow> returnsS (elseS p h)"
  by (auto simp: returnsS_def elseS_def split: option.split prod.split)

lemma returnsS_tryS: "returnsS p \<Longrightarrow> (\<And>e. returnsS (k e)) \<Longrightarrow> returnsS (tryS p k)"
  by (auto simp: returnsS_def tryS_def split: option.split prod.split)

lemma returnsS_wrapS: "returnsS p \<Longrightarrow> returnsS (wrapS msg p)"
  by (simp add: returnsS_def wrapS_def)

lemma returnsS_ifS: "returnsS p \<Longrightarrow> returnsS q \<Longrightarrow> returnsS (ifS c p q)"
  by (simp add: returnsS_def ifS_def)

lemma returnsS_letS: "(\<And>s. returns (p s)) \<Longrightarrow> (\<And>x. returnsS (k x)) \<Longrightarrow> returnsS (letS p k)"
  by (auto simp: returnsS_def returns_def letS_def split: option.split sum.split prod.split)

lemma returnsS_doS: "(\<And>s. returns (p s)) \<Longrightarrow> returnsS (doS p)"
  unfolding doS_def by (intro returnsS_letS) simp_all

lemma returnsS_finallyS: "returnsS p \<Longrightarrow> returnsS (finallyS p f)"
  by (simp add: returnsS_def finallyS_def)

lemmas returnsS_intros = returnsS_basic returnsS_seqS returnsS_elseS returnsS_tryS returnsS_wrapS returnsS_ifS returnsS_letS
  returnsS_doS returnsS_finallyS

section \<open>Reading a run backwards\<close>

lemma seqS_done:
  "seqS p q s m = Some ((t, None), u) \<longleftrightarrow> (\<exists>v w. p s m = Some ((v, None), w) \<and> q v w = Some ((t, None), u))"
  by (auto simp: seqS_def split: option.splits prod.splits)

lemma letS_done:
  "letS p k s m = Some ((t, None), u) \<longleftrightarrow> (\<exists>x w. p s m = Some (Inr x, w) \<and> k x s w = Some ((t, None), u))"
  by (auto simp: letS_def split: option.splits sum.splits prod.splits)

lemma wrapS_done [simp]: "wrapS msg p s m = Some ((t, None), u) \<longleftrightarrow> p s m = Some ((t, None), u)"
  by (auto simp: wrapS_def)

lemma ifS_done: "ifS c p q s m = Some ((t, e), u) \<longleftrightarrow> (if c s m then p s m else q s m) = Some ((t, e), u)"
  by (simp add: ifS_def)

end
