(* ===== verification/PanelDatabase.thy ===== *)
theory PanelDatabase
  imports Steps PanelInstaller DaemonInstall
begin

text \<open>
  The database of a panel installation (\<open>panel_install_v4.go\<close>, \<open>mysql.go\<close> and what they use of
  \<open>panel_install_v3.go\<close>): the credentials, the installation of MySQL, MariaDB, PostgreSQL and
  SQLite, the account of the panel, and the checks of a connection. The SQL drivers are
  parameters: a handle is the name of the driver with the data source name it was opened with.
\<close>

section \<open>State\<close>

record database_credentials =
  db_host :: string
  db_port :: string
  db_name :: string
  db_username :: string
  db_password :: string
  db_root_password :: string

record panel_state =
  pv_non_interactive :: bool
  pv_skip_warnings :: bool
  pv_scope :: string
  pv_https :: bool
  pv_host :: string
  pv_host_ip :: string
  pv_port :: string
  pv_config_directory :: string
  pv_data_directory :: string
  pv_binary_path :: string
  pv_admin_password :: string
  pv_database :: string
  pv_existing_database :: bool
  pv_creds :: database_credentials
  pv_with_daemon :: bool
  pv_info :: os_info
  pv_from_github :: bool
  pv_branch :: string
  pv_version_input :: string
  pv_tag :: string
  pv_tag_prefix :: string
  pv_resolved_tag :: string
  pv_grpc_enabled :: bool
  pv_grpc_port :: string
  pv_grpc_port_input :: string
  pv_database_was_installed :: bool
  pv_dir_existed_before :: bool
  pv_database_not_empty :: bool

definition postgres_database :: string where "postgres_database = ''postgres''"
definition mysql_database :: string where "mysql_database = ''mysql''"
definition sqlite_database :: string where "sqlite_database = ''sqlite''"
definition none_database :: string where "none_database = ''none''"

definition default_db_username :: string where "default_db_username = ''gameap''"
definition default_db_host :: string where "default_db_host = ''localhost''"
definition default_database_name :: string where "default_database_name = ''gameap''"

record db_handle =
  dh_driver :: string
  dh_dsn :: string

record mysql_config =
  mc_user :: string
  mc_password :: string
  mc_net :: string
  mc_addr :: string
  mc_db_name :: string

text \<open>
  \<open>sl_open\<close> only checks the data source name; \<open>sl_bool\<close> and \<open>sl_text\<close> are queries of one row,
  with their arguments; \<open>sl_format_dsn\<close> is \<open>mysql.Config.FormatDSN\<close>.
\<close>

record 'w sql_lib =
  sl_open :: "db_handle \<Rightarrow> go_error option"
  sl_ping :: "db_handle \<Rightarrow> ('w, unit) sys"
  sl_exec :: "db_handle \<Rightarrow> string \<Rightarrow> string list \<Rightarrow> ('w, unit) sys"
  sl_bool :: "db_handle \<Rightarrow> string \<Rightarrow> string list \<Rightarrow> ('w, bool) sys"
  sl_text :: "db_handle \<Rightarrow> string \<Rightarrow> string list \<Rightarrow> ('w, string) sys"
  sl_close :: "db_handle \<Rightarrow> ('w, unit) sys"
  sl_format_dsn :: "mysql_config \<Rightarrow> string"

text \<open>\<open>de_db_password n d s\<close> is the generator of passwords of length \<open>n\<close> with \<open>d\<close> digits and \<open>s\<close> symbols.\<close>

record 'w db_env =
  de_panel :: "'w panel_env"
  de_sql :: "'w sql_lib"
  de_db_password :: "nat \<Rightarrow> nat \<Rightarrow> nat \<Rightarrow> ('w, string) sys"

abbreviation de_host :: "'w db_env \<Rightarrow> 'w host" where "de_host de \<equiv> px_host (de_panel de)"
abbreviation de_os :: "'w db_env \<Rightarrow> 'w os_env" where "de_os de \<equiv> px_os (de_panel de)"

section \<open>Credentials\<close>

definition new_password :: "'w db_env \<Rightarrow> ('w, string) sys" where
  "new_password de = wrapE ''failed to generate password'' (de_db_password de 16 6 2)"

definition password_or_new :: "'w db_env \<Rightarrow> string \<Rightarrow> ('w, string) sys" where
  "password_or_new de p = (if p = [] then new_password de else retE p)"

definition name_defaults :: "database_credentials \<Rightarrow> database_credentials" where
  "name_defaults c =
     c\<lparr>db_username := or_default (db_username c) default_db_username,
       db_name := or_default (db_name c) default_database_name,
       db_host := or_default (db_host c) default_db_host\<rparr>"

definition preconfigure_database ::
  "'w db_env \<Rightarrow> database_credentials \<Rightarrow> 'w machine \<Rightarrow> (database_credentials \<times> go_error option) \<times> 'w machine" where
  "preconfigure_database de c m =
     (let c = name_defaults c in
      case password_or_new de (db_password c) m of
        (Inl e, t) \<Rightarrow> ((c, Some e), t)
      | (Inr p, t) \<Rightarrow>
          (let c = c\<lparr>db_password := p\<rparr> in
           case password_or_new de (db_root_password c) t of
             (Inl e, u) \<Rightarrow> ((c, Some e), u)
           | (Inr r, u) \<Rightarrow> ((c\<lparr>db_root_password := r\<rparr>, None), u)))"

definition preconfigure_step :: "'w db_env \<Rightarrow> ('w, panel_state) step" where
  "preconfigure_step de = partS pv_creds (\<lambda>c. pv_creds_update (\<lambda>_. c)) (preconfigure_database de)"

section \<open>MySQL statements\<close>

definition quote :: string where "quote = [CHR 0x27]"

definition mysql_version :: "'w sql_lib \<Rightarrow> db_handle \<Rightarrow> ('w, string) sys" where
  "mysql_version sl db = sl_text sl db ''SELECT VERSION()'' []"

definition admin_configs :: "database_credentials \<Rightarrow> mysql_config list" where
  "admin_configs c =
     (let cfg = (\<lambda>net addr p. \<lparr>mc_user = ''root'', mc_password = p, mc_net = net, mc_addr = addr, mc_db_name = ''mysql''\<rparr>)
      in [cfg ''unix'' ''/var/run/mysqld/mysqld.sock'' (db_root_password c),
          cfg ''unix'' ''/var/lib/mysql/mysql.sock'' (db_root_password c),
          cfg ''tcp'' (db_host c @ '':'' @ db_port c) [],
          cfg ''tcp'' (db_host c @ '':'' @ db_port c) (db_root_password c),
          cfg ''tcp'' (db_host c @ '':'' @ ''3309'') [],
          cfg ''tcp'' (db_host c @ '':'' @ ''3309'') (db_root_password c)])"

text \<open>
  The loop over the configurations with the variables \<open>db\<close> and \<open>err\<close>. The error of \<open>mysqlVersion\<close>
  goes to a variable of its own: a server that answers the ping and not the query leaves
  \<open>err\<close> empty.
\<close>

fun admin_connections ::
  "'w db_env \<Rightarrow> mysql_config list \<Rightarrow> db_handle option \<Rightarrow> go_error option \<Rightarrow> 'w machine \<Rightarrow>
    (db_handle option \<times> go_error option) \<times> 'w machine" where
  "admin_connections de [] db err m = ((db, err), m)"
| "admin_connections de (c # cs) db err m =
     (if px_goos (de_panel de) = ''windows'' \<and> mc_net c = ''unix'' then admin_connections de cs db err m
      else if mc_net c = ''unix'' \<and> \<not> is_file_exists (de_os de) (mc_addr c) m then admin_connections de cs db err m
      else
        (let d = \<lparr>dh_driver = ''mysql'', dh_dsn = sl_format_dsn (de_sql de) c\<rparr> in
         case sl_open (de_sql de) d of
           Some e \<Rightarrow> admin_connections de cs None (Some e) m
         | None \<Rightarrow>
             (case sl_ping (de_sql de) d m of
                (Inl e, t) \<Rightarrow> admin_connections de cs (Some d) (Some e) t
              | (Inr _, t) \<Rightarrow>
                  (case mysql_version (de_sql de) d t of
                     (Inl _, u) \<Rightarrow> admin_connections de cs (Some d) None u
                   | (Inr _, u) \<Rightarrow> ((Some d, None), u)))))"

text \<open>A nil handle without an error would panic at its first use.\<close>

definition mysql_admin_connection :: "'w db_env \<Rightarrow> database_credentials \<Rightarrow> ('w, db_handle) sys" where
  "mysql_admin_connection de c m =
     (case admin_connections de (admin_configs c) None None m of
        ((_, Some e), t) \<Rightarrow> (Inl (WithMessage e ''failed to get MySQL connection''), t)
      | ((Some d, None), t) \<Rightarrow> (Inr d, t)
      | ((None, None), t) \<Rightarrow> (Inl (Panic ''nil *sql.DB''), t))"

definition failed_query :: string where "failed_query = ''failed to execute query''"

definition mysql_database_exists :: "'w sql_lib \<Rightarrow> db_handle \<Rightarrow> string \<Rightarrow> ('w, bool) sys" where
  "mysql_database_exists sl db name = wrapE failed_query (sl_bool sl db
     ''SELECT EXISTS(SELECT SCHEMA_NAME FROM INFORMATION_SCHEMA.SCHEMATA WHERE SCHEMA_NAME = ?)'' [name])"

definition mysql_database_empty :: "'w sql_lib \<Rightarrow> db_handle \<Rightarrow> string \<Rightarrow> ('w, bool) sys" where
  "mysql_database_empty sl db name =
     bindE (wrapE failed_query (sl_bool sl db
       (''SELECT EXISTS ('' @ nl @ [CHR 0x09, CHR 0x09] @ ''SELECT 1'' @ nl @ [CHR 0x09, CHR 0x09] @
        ''FROM INFORMATION_SCHEMA.TABLES '' @ nl @ [CHR 0x09, CHR 0x09] @ ''WHERE TABLE_SCHEMA = ?'' @ nl @
        [CHR 0x09, CHR 0x09] @ ''AND TABLE_NAME = ?'' @ nl @ [CHR 0x09] @ '')'') [name, ''games''])) (\<lambda>table.
       if \<not> table then retE True
       else bindE (wrapE failed_query (sl_bool sl db (''SELECT EXISTS(SELECT 1 FROM '' @ name @ ''.games LIMIT 1)'') []))
         (\<lambda>records. retE (\<not> records)))"

definition mysql_create_database :: "'w sql_lib \<Rightarrow> db_handle \<Rightarrow> string \<Rightarrow> ('w, unit) sys" where
  "mysql_create_database sl db name =
     wrapE failed_query (sl_exec sl db (''CREATE DATABASE IF NOT EXISTS '' @ name) [])"

definition mysql_user_exists :: "'w sql_lib \<Rightarrow> db_handle \<Rightarrow> string \<Rightarrow> string \<Rightarrow> ('w, bool) sys" where
  "mysql_user_exists sl db user host = wrapE failed_query (sl_bool sl db
     (''SELECT EXISTS(SELECT 1 FROM mysql.user WHERE user = ? AND (host = '' @ quote @ ''%'' @ quote @ '' OR host = ?))'')
     [user, host])"

definition major_version :: "string \<Rightarrow> string" where
  "major_version v = hd (split_char (CHR ''.'') v)"

definition minor_version :: "string \<Rightarrow> string" where
  "minor_version v = (case split_char (CHR ''.'') v of _ # x # _ \<Rightarrow> x | _ \<Rightarrow> [])"

definition with_version ::
  "'w sql_lib \<Rightarrow> db_handle \<Rightarrow> (string \<Rightarrow> ('w, unit) sys) \<Rightarrow> ('w, unit) sys" where
  "with_version sl db f = bindE (wrapE ''failed to get mysql version'' (mysql_version sl db)) f"

definition create_user_statement :: "string \<Rightarrow> string \<Rightarrow> string \<Rightarrow> string \<Rightarrow> string" where
  "create_user_statement user host how password =
     ''CREATE USER '' @ user @ ''@'' @ quote @ host @ quote @ '' '' @ how @ '' '' @ quote @ password @ quote"

definition mysql_create_user :: "'w sql_lib \<Rightarrow> db_handle \<Rightarrow> string \<Rightarrow> string \<Rightarrow> ('w, unit) sys" where
  "mysql_create_user sl db user password = with_version sl db (\<lambda>v.
     if major_version v = ''8'' then
       wrapE failed_query (sl_exec sl db
         (create_user_statement user ''%'' ''IDENTIFIED WITH mysql_native_password BY'' password) [])
     else
       bindE (wrapE failed_query (sl_exec sl db (create_user_statement user ''%'' ''IDENTIFIED BY'' password) [])) (\<lambda>_.
         wrapE failed_query (sl_exec sl db (create_user_statement user ''localhost'' ''IDENTIFIED BY'' password) [])))"

definition mysql_change_password :: "'w sql_lib \<Rightarrow> db_handle \<Rightarrow> string \<Rightarrow> string \<Rightarrow> ('w, unit) sys" where
  "mysql_change_password sl db user password = with_version sl db (\<lambda>v.
     wrapE failed_query
       (if major_version v = ''8'' \<or> major_version v = ''10'' \<and> minor_version v = ''6''
        then sl_exec sl db (''ALTER USER '' @ quote @ user @ quote @ ''@'' @ quote @ ''%'' @ quote @
          '' IDENTIFIED BY '' @ quote @ password @ quote) []
        else sl_exec sl db ''UPDATE mysql.user SET password=PASSWORD(?) WHERE user =?'' [password, user]))"

definition grant_statements :: "string \<Rightarrow> string \<Rightarrow> string \<Rightarrow> (string \<times> string) list" where
  "grant_statements user name host =
     [(''failed to grant select privileges'',
       ''GRANT SELECT ON *.* TO '' @ quote @ user @ quote @ ''@'' @ quote @ host @ quote),
      (''failed to grant all privileges'',
       ''GRANT ALL PRIVILEGES ON '' @ name @ ''.* TO '' @ quote @ user @ quote @ ''@'' @ quote @ host @ quote)]"

definition mysql_grant_privileges :: "'w sql_lib \<Rightarrow> db_handle \<Rightarrow> string \<Rightarrow> string \<Rightarrow> ('w, unit) sys" where
  "mysql_grant_privileges sl db user name = with_version sl db (\<lambda>v.
     eachE (\<lambda>(msg, stmt). wrapE msg (sl_exec sl db stmt []))
       (grant_statements user name ''%'' @
        (if major_version v \<noteq> ''8'' then grant_statements user name ''localhost'' else []) @
        [(''failed to flush privileges'', ''FLUSH PRIVILEGES'')]))"

section \<open>The account of the panel\<close>

definition configure_mysql_on :: "'w sql_lib \<Rightarrow> database_credentials \<Rightarrow> db_handle \<Rightarrow> ('w, unit) sys" where
  "configure_mysql_on sl c db =
     bindE (wrapE ''failed to check database'' (mysql_database_exists sl db (db_name c))) (\<lambda>exists.
     bindE (if exists then retE ()
            else wrapE ''failed to create database'' (mysql_create_database sl db (db_name c))) (\<lambda>_.
     bindE (wrapE ''failed to create database'' (mysql_user_exists sl db (db_username c) (db_host c))) (\<lambda>known.
     bindE (if known then retE ()
            else wrapE ''failed to create user'' (mysql_create_user sl db (db_username c) (db_password c))) (\<lambda>_.
     bindE (if known \<and> db_username c = ''gameap''
            then wrapE ''failed to change user password'' (mysql_change_password sl db (db_username c) (db_password c))
            else retE ()) (\<lambda>_.
       wrapE ''failed to grant privileges'' (mysql_grant_privileges sl db (db_username c) (db_name c)))))))"

definition configure_mysql :: "'w db_env \<Rightarrow> database_credentials \<Rightarrow> ('w, unit) sys" where
  "configure_mysql de c =
     bindE (wrapE ''failed to make admin connection'' (mysql_admin_connection de c)) (\<lambda>db.
       finallyE (configure_mysql_on (de_sql de) c db) (quietly (sl_close (de_sql de) db)))"

section \<open>Checking a connection\<close>

definition mysql_handle :: "database_credentials \<Rightarrow> db_handle" where
  "mysql_handle c =
     \<lparr>dh_driver = mysql_database,
      dh_dsn = db_username c @ '':'' @ db_password c @ ''@tcp('' @ db_host c @ '':'' @ db_port c @ '')/'' @ db_name c\<rparr>"

definition postgres_handle :: "database_credentials \<Rightarrow> db_handle" where
  "postgres_handle c =
     \<lparr>dh_driver = ''pgx'',
      dh_dsn = ''postgres://'' @ db_username c @ '':'' @ db_password c @ ''@'' @ db_host c @ '':'' @ db_port c @ ''/'' @
        db_name c @ ''?sslmode=disable''\<rparr>"

definition postgres_database_empty :: "'w sql_lib \<Rightarrow> db_handle \<Rightarrow> ('w, bool) sys" where
  "postgres_database_empty sl db =
     bindE (wrapE failed_query (sl_bool sl db
       (''SELECT EXISTS ('' @ nl @ [CHR 0x09, CHR 0x09] @ ''SELECT 1'' @ nl @ [CHR 0x09, CHR 0x09] @
        ''FROM information_schema.tables'' @ nl @ [CHR 0x09, CHR 0x09] @ ''WHERE table_schema = '' @ quote @ ''public'' @
        quote @ nl @ [CHR 0x09, CHR 0x09] @ ''AND table_name = $1'' @ nl @ [CHR 0x09] @ '')'') [''games''])) (\<lambda>table.
       if \<not> table then retE True
       else bindE (wrapE failed_query (sl_bool sl db ''SELECT EXISTS(SELECT 1 FROM games LIMIT 1)'' []))
         (\<lambda>records. retE (\<not> records)))"

text \<open>Opens, pings and queries; yields whether the database has records.\<close>

definition checked_connection ::
  "'w sql_lib \<Rightarrow> string \<Rightarrow> db_handle \<Rightarrow> (db_handle \<Rightarrow> ('w, bool) sys) \<Rightarrow> ('w, bool) sys" where
  "checked_connection sl what db emptiness =
     (case sl_open sl db of
        Some e \<Rightarrow> failE (WithMessage e (''failed to open '' @ what))
      | None \<Rightarrow> finallyE
          (bindE (wrapE (''failed to connect to '' @ what) (sl_ping sl db)) (\<lambda>_.
           bindE (wrapE (''failed to execute '' @ what @ '' query'') (sl_exec sl db ''SELECT 1'' [])) (\<lambda>_.
           bindE (wrapE ''failed to check database'' (emptiness db)) (\<lambda>e. retE (\<not> e)))))
          (quietly (sl_close sl db)))"

definition check_mysql :: "'w db_env \<Rightarrow> ('w, panel_state) step" where
  "check_mysql de = letS (\<lambda>s. liftP (checked_connection (de_sql de) ''MySQL'' (mysql_handle (pv_creds s))
       (\<lambda>db. mysql_database_empty (de_sql de) db (db_name (pv_creds s)))))
     (\<lambda>b. updS (pv_database_not_empty_update (\<lambda>_. b)))"

definition check_postgres :: "'w db_env \<Rightarrow> ('w, panel_state) step" where
  "check_postgres de = letS (\<lambda>s. liftP (checked_connection (de_sql de) ''PostgreSQL'' (postgres_handle (pv_creds s))
       (postgres_database_empty (de_sql de))))
     (\<lambda>b. updS (pv_database_not_empty_update (\<lambda>_. b)))"

section \<open>Installing a server\<close>

definition local_database :: "panel_state \<Rightarrow> bool" where
  "local_database s \<longleftrightarrow>
     (let h = db_host (pv_creds s) in h = [] \<or> h = ''localhost'' \<or> has_prefix h ''127.'')"

definition windows_state :: "panel_state \<Rightarrow> bool" where
  "windows_state s \<longleftrightarrow> oi_distribution (pv_info s) = distribution_windows"

definition is_linux :: "string \<Rightarrow> os_info \<Rightarrow> bool" where
  "is_linux goos info \<longleftrightarrow> goos = ''linux'' \<or> oi_os info = ''GNU/Linux''"

definition linux_state :: "'w db_env \<Rightarrow> panel_state \<Rightarrow> bool" where
  "linux_state de s \<longleftrightarrow> is_linux (px_goos (de_panel de)) (pv_info s)"

text \<open>Outside Windows; there, other services are looked up.\<close>

definition mysql_installed :: "'w os_env \<Rightarrow> 'w machine \<Rightarrow> bool" where
  "mysql_installed os m \<longleftrightarrow>
     command_available os ''mysqld'' m \<or> is_file_exists os ''/usr/lib/systemd/system/mysql.service'' m \<or>
     is_file_exists os ''/usr/lib/systemd/system/mariadb.service'' m"

definition mariadb_installed :: "'w os_env \<Rightarrow> 'w machine \<Rightarrow> bool" where
  "mariadb_installed os m \<longleftrightarrow>
     command_available os ''mysqld'' m \<or> command_available os ''mariadbd'' m \<or>
     is_file_exists os ''/usr/lib/systemd/system/mysql.service'' m \<or>
     is_file_exists os ''/usr/lib/systemd/system/mariadb.service'' m"

definition mysql_data_directory :: string where "mysql_data_directory = ''/var/lib/mysql''"

definition mysql_package :: string where "mysql_package = ''mysql-server''"
definition mariadb_package :: string where "mariadb_package = ''mariadb-server''"
definition postgres_package :: string where "postgres_package = ''postgresql''"

definition db_config_values :: "panel_state \<Rightarrow> config_values" where
  "db_config_values s =
     (let c = pv_creds s in
      [(''db-root-password'', db_root_password c), (''db-user'', db_username c), (''db-password'', db_password c),
       (''db-name'', db_name c)])"

text \<open>\<open>DatabaseDirExistedBefore\<close> is false only when Linux says that the directory is not there.\<close>

definition note_data_directory :: "'w db_env \<Rightarrow> ('w, panel_state) step" where
  "note_data_directory de = noteS (\<lambda>m s. s\<lparr>pv_dir_existed_before :=
     \<not> (linux_state de s \<and> stat_file (de_os de) mysql_data_directory m = StatMissing)\<rparr>)"

definition database_installed :: "('w, panel_state) step" where
  "database_installed = updS (\<lambda>s. s\<lparr>pv_database_was_installed := True\<rparr>)"

fun start_any_service :: "'w host \<Rightarrow> string list \<Rightarrow> ('w, unit) sys" where
  "start_any_service h [] = retE ()"
| "start_any_service h [n] = start_service h n"
| "start_any_service h (n # ns) = catchE (start_service h n) (\<lambda>_. start_any_service h ns)"

text \<open>On Windows the service is registered first when it is not known.\<close>

definition start_mysql_windows :: "'w host \<Rightarrow> ('w, unit) sys" where
  "start_mysql_windows h =
     catchE (start_service h ''mysql'') (\<lambda>e.
       if error_as (\<lambda>e. case e of ServiceNotFound _ \<Rightarrow> True | _ \<Rightarrow> False) e then
         bindE (wrapE (''failed to exec '' @ quote @ ''mysqld --install'' @ quote @ '' command'')
             (ho_exec h [''mysqld'', ''--install''])) (\<lambda>_.
           wrapE (''failed to start MySQL server after '' @ quote @ ''mysqld --install'' @ quote) (start_service h ''mysql''))
       else failE (WithMessage e ''failed to start MySQL server''))"

definition start_mysql :: "'w db_env \<Rightarrow> ('w, panel_state) step" where
  "start_mysql de = ifS (\<lambda>s _. windows_state s)
     (doS (\<lambda>_. liftP (start_mysql_windows (de_host de))))
     (doS (\<lambda>_. liftP (wrapE ''failed to start MySQL server''
       (start_any_service (de_host de) [''mysql'', ''mysqld'', ''mariadb'']))))"

definition start_mariadb :: "'w db_env \<Rightarrow> ('w, panel_state) step" where
  "start_mariadb de = wrapS ''failed to start MariaDB server''
     (ifS (\<lambda>s _. windows_state s)
       (doS (\<lambda>_. liftP (start_service (de_host de) ''mariadb'')))
       (doS (\<lambda>_. liftP (start_any_service (de_host de) [''mysql'', ''mysqld'', ''mariadb'']))))"

definition configure_step :: "'w db_env \<Rightarrow> ('w, panel_state) step" where
  "configure_step de =
     seqS (ifS (\<lambda>s _. db_host (pv_creds s) = [] \<or> db_username (pv_creds s) = []) (preconfigure_step de) skipS)
       (doS (\<lambda>s. liftP (configure_mysql de (pv_creds s))))"

text \<open>The other name of the local host, and then the default port, are tried when a check fails.\<close>

definition swap_loopback :: "panel_state \<Rightarrow> panel_state" where
  "swap_loopback s = s\<lparr>pv_creds := (pv_creds s)\<lparr>db_host :=
     (if db_host (pv_creds s) = ''localhost'' then ''127.0.0.1''
      else if db_host (pv_creds s) = ''127.0.0.1'' then ''localhost'' else db_host (pv_creds s))\<rparr>\<rparr>"

definition use_port :: "string \<Rightarrow> panel_state \<Rightarrow> panel_state" where
  "use_port p s = s\<lparr>pv_creds := (pv_creds s)\<lparr>db_port := p\<rparr>\<rparr>"

definition check_with_fallbacks :: "('w, panel_state) step \<Rightarrow> string \<Rightarrow> ('w, panel_state) step" where
  "check_with_fallbacks check port =
     elseS (elseS check (\<lambda>_. seqS (updS swap_loopback) check))
       (\<lambda>e. ifS (\<lambda>s _. db_port (pv_creds s) \<noteq> port) (seqS (updS (use_port port)) check) (failS e))"

definition install_mysql :: "'w db_env \<Rightarrow> 'w package_manager \<Rightarrow> ('w, panel_state) step" where
  "install_mysql de pm =
     seqS (ifS (\<lambda>s _. local_database s)
       (ifS (\<lambda>_ m. \<not> mysql_installed (de_os de) m)
         (seqS (preconfigure_step de)
         (seqS (note_data_directory de)
         (seqS (elseS (doS (\<lambda>s. pm_install pm mysql_package (db_config_values s)))
                  (\<lambda>e. ifS (\<lambda>s _. windows_state s) (failS (WithMessage e ''failed to install mysql'')) skipS))
           database_installed)))
         (updS (\<lambda>s. s\<lparr>pv_dir_existed_before := True\<rparr>)))
       skipS)
     (seqS (start_mysql de)
     (seqS (configure_step de)
       (check_with_fallbacks (check_mysql de) ''3306'')))"

definition install_mariadb :: "'w db_env \<Rightarrow> 'w package_manager \<Rightarrow> ('w, panel_state) step" where
  "install_mariadb de pm =
     seqS (ifS (\<lambda>s _. local_database s)
       (ifS (\<lambda>_ m. \<not> mariadb_installed (de_os de) m)
         (seqS (preconfigure_step de)
         (seqS (note_data_directory de)
         (seqS (wrapS ''failed to install MariaDB server'' (doS (\<lambda>s. pm_install pm mariadb_package (db_config_values s))))
           database_installed)))
         skipS)
       skipS)
     (seqS (start_mariadb de)
     (seqS (configure_step de)
       (check_with_fallbacks (check_mysql de) ''3306'')))"

definition default_mysql_port :: "panel_state \<Rightarrow> panel_state" where
  "default_mysql_port s =
     (if db_port (pv_creds s) = [] then use_port (if windows_state s then ''9306'' else ''3306'') s else s)"

definition purge_mysql :: "'w package_manager \<Rightarrow> ('w, panel_state) step" where
  "purge_mysql pm = ifS (\<lambda>s _. windows_state s) skipS
     (wrapS ''failed to remove MySQL server'' (doS (\<lambda>_. liftP (pm_purge pm [mysql_package]))))"

definition remove_mysql_data :: "'w db_env \<Rightarrow> ('w, panel_state) step" where
  "remove_mysql_data de =
     ifS (\<lambda>s m. linux_state de s \<and> \<not> pv_dir_existed_before s \<and> is_file_exists (de_os de) mysql_data_directory m)
       (wrapS ''failed to remove MySQL data directory''
         (doS (\<lambda>_. liftP (fl_remove_all (px_fs (de_panel de)) mysql_data_directory))))
       skipS"

definition replace_by_mariadb :: "'w db_env \<Rightarrow> 'w package_manager \<Rightarrow> ('w, panel_state) step" where
  "replace_by_mariadb de pm =
     seqS (purge_mysql pm) (seqS (remove_mysql_data de) (wrapS ''failed to install MariaDB'' (install_mariadb de pm)))"

definition install_mysql_or_mariadb :: "'w db_env \<Rightarrow> 'w package_manager \<Rightarrow> ('w, panel_state) step" where
  "install_mysql_or_mariadb de pm =
     seqS (updS default_mysql_port) (elseS (install_mysql de pm) (\<lambda>_. replace_by_mariadb de pm))"

definition default_postgres_port :: "panel_state \<Rightarrow> panel_state" where
  "default_postgres_port s =
     (if db_port (pv_creds s) = [] then use_port (if windows_state s then ''9543'' else ''5432'') s else s)"

definition install_postgres :: "'w db_env \<Rightarrow> 'w package_manager \<Rightarrow> ('w, panel_state) step" where
  "install_postgres de pm =
     seqS (updS default_postgres_port)
     (seqS (wrapS ''failed to install PostgreSQL'' (doS (\<lambda>s. pm_install pm postgres_package (db_config_values s))))
     (seqS database_installed
       (check_with_fallbacks (check_postgres de) ''5432'')))"

definition or_port :: "string \<Rightarrow> panel_state \<Rightarrow> panel_state" where
  "or_port p s = (if db_port (pv_creds s) = [] then use_port p s else s)"

definition connect_existing_postgres :: "'w db_env \<Rightarrow> ('w, panel_state) step" where
  "connect_existing_postgres de =
     seqS (updS (or_port ''5432'')) (wrapS ''failed to connect to existing PostgreSQL database'' (check_postgres de))"

definition connect_existing_mysql :: "'w db_env \<Rightarrow> ('w, panel_state) step" where
  "connect_existing_mysql de =
     seqS (updS (or_port ''3306'')) (wrapS ''failed to connect to existing MySQL database'' (check_mysql de))"

definition sqlite_path :: "panel_state \<Rightarrow> string" where
  "sqlite_path s = path_join [pv_data_directory s, ''database.sqlite'']"

definition install_sqlite :: "'w db_env \<Rightarrow> ('w, panel_state) step" where
  "install_sqlite de =
     seqS (ifS (\<lambda>s m. is_file_exists (de_os de) (sqlite_path s) m) skipS
       (doS (\<lambda>s. liftP
         (bindE (wrapE ''failed to create data directory for sqlite database'' (mkdir_all (de_os de) (pv_data_directory s))) (\<lambda>_.
            wrapE ''failed to create database.sqlite'' (write_file (de_os de) (sqlite_path s) []))))))
     (updS (\<lambda>s. s\<lparr>pv_creds := (pv_creds s)\<lparr>db_name := sqlite_path s\<rparr>, pv_database_was_installed := True\<rparr>))"

section \<open>Lemmas\<close>

text \<open>The last four configurations are over TCP and are always tried, so that the handle is never nil.\<close>

lemma admin_connections_tried:
  assumes "\<exists>c \<in> set cs. mc_net c \<noteq> ''unix''"
  shows "fst (admin_connections de cs db err m) \<noteq> (None, None)"
proof -
  have never: "db \<noteq> None \<or> err \<noteq> None \<Longrightarrow> fst (admin_connections de cs db err m) \<noteq> (None, None)" for cs db err m
    by (induction cs arbitrary: db err m) (simp_all add: Let_def split: option.split prod.split sum.split)
  from assms show ?thesis
    by (induction cs arbitrary: db err m) (auto simp: Let_def never split: option.split prod.split sum.split)
qed

lemma admin_connection_no_panic: "fst (mysql_admin_connection de c m) \<noteq> Inl (Panic s)"
proof -
  have "\<exists>d \<in> set (admin_configs c). mc_net d \<noteq> ''unix''" by (simp add: admin_configs_def Let_def)
  from admin_connections_tried [OF this, of de None None m] show ?thesis
    by (auto simp: mysql_admin_connection_def split: prod.split option.split)
qed

text \<open>
  Most steps leave the flag that protects the data directory, and the system that was
  detected.
\<close>

definition same_flag :: "panel_state \<times> 'w machine \<Rightarrow> panel_state \<times> 'w machine \<Rightarrow> bool" where
  "same_flag x y \<longleftrightarrow>
     pv_dir_existed_before (fst y) = pv_dir_existed_before (fst x) \<and> pv_info (fst y) = pv_info (fst x)"

interpretation flag: step_frame same_flag
  by unfold_locales (auto simp: same_flag_def)

abbreviation keeps_flag :: "('w, panel_state) step \<Rightarrow> bool" where
  "keeps_flag \<equiv> keepsS same_flag"

lemma same_flag_act [simp]: "keepsP (\<lambda>m u. same_flag (s, m) (s, u)) p"
  by (simp add: keepsP_def same_flag_def)

lemma keeps_flag_basic:
  "keeps_flag (preconfigure_step de)" "keeps_flag database_installed" "keeps_flag (check_mysql de)"
  "keeps_flag (start_mysql de)" "keeps_flag (updS swap_loopback)" "keeps_flag (updS (use_port p))"
  by (auto simp: preconfigure_step_def database_installed_def check_mysql_def start_mysql_def swap_loopback_def use_port_def
      same_flag_def keepsP_def intro!: flag.intros)

lemma keeps_flag_steps:
  "keeps_flag (configure_step de)" "keeps_flag (check_with_fallbacks (check_mysql de) p)"
  by (auto simp: configure_step_def check_with_fallbacks_def intro!: flag.intros keeps_flag_basic)

text \<open>A password generator that works, and does not remove the data directory.\<close>

definition passwords_work :: "'w db_env \<Rightarrow> bool" where
  "passwords_work de \<longleftrightarrow> (\<forall>m. \<exists>p t. de_db_password de 16 6 2 m = (Inr p, t) \<and>
     (stat_file (de_os de) mysql_data_directory m \<noteq> StatMissing \<longrightarrow>
      stat_file (de_os de) mysql_data_directory t \<noteq> StatMissing))"

lemma preconfigure_works:
  assumes "passwords_work de" and "stat_file (de_os de) mysql_data_directory m \<noteq> StatMissing"
  obtains c t where "preconfigure_step de s m = Some ((s\<lparr>pv_creds := c\<rparr>, None), t)"
    "stat_file (de_os de) mysql_data_directory t \<noteq> StatMissing"
proof -
  let ?ok = "\<lambda>m. stat_file (de_os de) mysql_data_directory m \<noteq> StatMissing"
  have pw: "\<exists>q t. password_or_new de p m = (Inr q, t) \<and> ?ok t" if "?ok m" for p m
    using assms(1) that by (auto simp: password_or_new_def new_password_def wrapE_def passwords_work_def retE_def
        split: prod.split) (metis prod.inject with_message_simps(2))+
  from pw [OF assms(2)] obtain q t where 1: "password_or_new de (db_password (name_defaults (pv_creds s))) m = (Inr q, t)" "?ok t"
    by blast
  from pw [OF 1(2)] obtain r u
    where 2: "password_or_new de (db_root_password (name_defaults (pv_creds s))) t = (Inr r, u)" "?ok u" by blast
  show thesis
    by (rule that [OF _ 2(2)]) (simp add: preconfigure_step_def partS_def preconfigure_database_def Let_def 1(1) 2(1))
qed

lemma local_failure_protects:
  assumes "local_database s" and "stat_file (de_os de) mysql_data_directory m \<noteq> StatMissing" and "passwords_work de"
    and "install_mysql de pm s m = Some ((t, e), u)"
  shows "pv_dir_existed_before t"
proof -
  let ?pack = "seqS (elseS (doS (\<lambda>s. pm_install pm mysql_package (db_config_values s)))
     (\<lambda>e. ifS (\<lambda>s _. windows_state s) (failS (WithMessage e ''failed to install mysql'')) skipS)) database_installed"
  let ?new = "seqS (preconfigure_step de) (seqS (note_data_directory de) ?pack)"
  let ?local = "ifS (\<lambda>s _. local_database s)
     (ifS (\<lambda>_ m. \<not> mysql_installed (de_os de) m) ?new (updS (\<lambda>s. s\<lparr>pv_dir_existed_before := True\<rparr>))) skipS"
  let ?rest = "seqS (start_mysql de) (seqS (configure_step de) (check_with_fallbacks (check_mysql de) ''3306''))"
  have rest: "keeps_flag ?rest" by (intro flag.seq keeps_flag_basic keeps_flag_steps)
  have pack: "keeps_flag ?pack" by (intro flag.intros keeps_flag_basic) simp_all
  obtain c v where pre: "preconfigure_step de s m = Some ((s\<lparr>pv_creds := c\<rparr>, None), v)"
    "stat_file (de_os de) mysql_data_directory v \<noteq> StatMissing"
    using preconfigure_works [OF assms(3,2)] by blast
  have new: "pv_dir_existed_before t" if "?new s m = Some ((t, e), u)" for t e u
  proof -
    have "?pack (s\<lparr>pv_creds := c, pv_dir_existed_before := True\<rparr>) v = Some ((t, e), u)"
      using that pre by (simp add: seqS_def note_data_directory_def noteS_def)
    from keepsS_D [OF pack this] show ?thesis by (simp add: same_flag_def)
  qed
  have loc: "pv_dir_existed_before t" if "?local s m = Some ((t, e), u)" for t e u
    using that new assms(1) by (auto simp: ifS_def updS_def split: if_splits)
  have "seqS ?local ?rest s m = Some ((t, e), u)" using assms(4) by (simp add: install_mysql_def)
  then show ?thesis
  proof (cases rule: seqS_cases)
    case (passed v w)
    with loc [OF passed(1)] keepsS_D [OF rest passed(2)] show ?thesis by (simp add: same_flag_def)
  qed (rule loc)
qed

text \<open>Everything but the removal itself is the same whatever removes directories.\<close>

abbreviation remover :: "(string \<Rightarrow> ('w, unit) sys) \<Rightarrow> 'w db_env \<Rightarrow> 'w db_env" where
  "remover r \<equiv> de_panel_update (px_fs_update (fl_remove_all_update (\<lambda>_. r)))"

lemma removal_unused [simp]:
  "install_mysql (remover r de) pm = install_mysql de pm"
  "install_mariadb (remover r de) pm = install_mariadb de pm"
proof -
  have pw: "password_or_new (remover r de) = password_or_new de"
    by (intro ext) (simp add: password_or_new_def new_password_def)
  have "preconfigure_database (remover r de) c m = preconfigure_database de c m" for c m
    unfolding preconfigure_database_def pw by (rule refl)
  then have "preconfigure_database (remover r de) = preconfigure_database de" by (intro ext)
  then have "preconfigure_step (remover r de) = preconfigure_step de" by (simp add: preconfigure_step_def)
  moreover have "admin_connections (remover r de) cs db err m = admin_connections de cs db err m" for cs db err m
    by (induction cs arbitrary: db err m) (simp_all add: Let_def split: option.split prod.split sum.split)
  then have "configure_mysql (remover r de) c = configure_mysql de c" for c
    by (simp add: configure_mysql_def mysql_admin_connection_def [abs_def])
  moreover have "check_mysql (remover r de) = check_mysql de" by (simp add: check_mysql_def)
  moreover have "note_data_directory (remover r de) = note_data_directory de"
    by (simp add: note_data_directory_def linux_state_def)
  ultimately show "install_mysql (remover r de) pm = install_mysql de pm" "install_mariadb (remover r de) pm = install_mariadb de pm"
    by (simp_all add: install_mysql_def install_mariadb_def configure_step_def start_mysql_def start_mariadb_def)
qed

lemma removal_only_when_new:
  fixes de :: "'w db_env"
  assumes "pv_dir_existed_before s"
  shows "replace_by_mariadb (remover r de) pm s m = replace_by_mariadb de pm s m"
proof -
  have "remove_mysql_data d t u = Some ((t, None), u)" if "pv_dir_existed_before t" for d :: "'w db_env" and t u
    using that by (simp add: remove_mysql_data_def ifS_def skipS_def)
  moreover have "pv_dir_existed_before t" if "purge_mysql pm s m = Some ((t, e), u)" for t e u
  proof -
    have "keeps_flag (purge_mysql pm)" unfolding purge_mysql_def by (intro flag.intros) simp
    from keepsS_D [OF this that] assms show ?thesis by (simp add: same_flag_def)
  qed
  ultimately show ?thesis
    by (auto simp: replace_by_mariadb_def seqS_def split: option.split prod.split)
qed

lemma local_default_port [simp]: "local_database (default_mysql_port s) = local_database s"
  by (simp add: default_mysql_port_def use_port_def local_database_def)

text \<open>Nothing but the package manager can keep the installation from returning.\<close>

lemma returns_database_steps:
  "returnsS (preconfigure_step de)" "returnsS (check_mysql de)" "returnsS (check_postgres de)" "returnsS (configure_step de)"
  "returnsS (start_mysql de)" "returnsS (start_mariadb de)" "returnsS (note_data_directory de)" "returnsS database_installed"
  "returnsS (purge_mysql pm)" "returnsS (remove_mysql_data de)"
  "returnsS p \<Longrightarrow> returnsS (check_with_fallbacks p port)"
  unfolding preconfigure_step_def check_mysql_def check_postgres_def configure_step_def start_mysql_def start_mariadb_def
    note_data_directory_def database_installed_def purge_mysql_def remove_mysql_data_def check_with_fallbacks_def
  by (intro returnsS_intros returns_liftP | assumption)+

lemma returns_servers:
  assumes "\<And>p opts. returns (pm_install pm p opts)"
  shows "returnsS (install_mysql_or_mariadb de pm)" "returnsS (install_postgres de pm)"
  unfolding install_mysql_or_mariadb_def install_postgres_def install_mysql_def replace_by_mariadb_def install_mariadb_def
  by (intro returnsS_intros returns_database_steps assms)+

section \<open>Examples\<close>

definition example_creds :: "string \<Rightarrow> database_credentials" where
  "example_creds host =
     \<lparr>db_host = host, db_port = [], db_name = ''gameap'', db_username = ''gameap'', db_password = [], db_root_password = []\<rparr>"

definition example_state :: "string \<Rightarrow> panel_state" where
  "example_state host =
     \<lparr>pv_non_interactive = True, pv_skip_warnings = False, pv_scope = scope_system, pv_https = False, pv_host = ''example.com'',
      pv_host_ip = [], pv_port = ''80'', pv_config_directory = ''/c'', pv_data_directory = ''/d'', pv_binary_path = ''/b'',
      pv_admin_password = [], pv_database = mysql_database, pv_existing_database = False, pv_creds = example_creds host,
      pv_with_daemon = False, pv_info = example_info, pv_from_github = False, pv_branch = ''main'', pv_version_input = [],
      pv_tag = [], pv_tag_prefix = [], pv_resolved_tag = [], pv_grpc_enabled = False, pv_grpc_port = [],
      pv_grpc_port_input = [], pv_database_was_installed = False, pv_dir_existed_before = False,
      pv_database_not_empty = False\<rparr>"

text \<open>No SQL server can be reached; directories can be removed.\<close>

definition remove_tree :: "string \<Rightarrow> ('w, unit) sys" where
  "remove_tree p m = (Inr (), m\<lparr>files := (\<lambda>q. if has_prefix q p then None else files m q)\<rparr>)"

definition offline_env :: "nat db_env" where
  "offline_env =
     \<lparr>de_panel = rootless_env\<lparr>px_fs := (px_fs rootless_env)\<lparr>fl_remove_all := remove_tree\<rparr>\<rparr>,
      de_sql = \<lparr>sl_open = (\<lambda>_. None), sl_ping = (\<lambda>_. failE ConnectionRefused), sl_exec = (\<lambda>_ _ _. failE ConnectionRefused),
        sl_bool = (\<lambda>_ _ _. failE ConnectionRefused), sl_text = (\<lambda>_ _ _. failE ConnectionRefused),
        sl_close = (\<lambda>_. retE ()), sl_format_dsn = (\<lambda>c. mc_addr c)\<rparr>,
      de_db_password = (\<lambda>n _ _. retE (replicate n CHR ''p''))\<rparr>"

definition willing_pm :: "nat package_manager" where
  "willing_pm =
     \<lparr>pm_search = (\<lambda>_. retE []), pm_install = (\<lambda>_ _. liftP (retE ())), pm_check = retE (), pm_remove = (\<lambda>_. retE ()),
      pm_purge = (\<lambda>_. retE ())\<rparr>"

definition mysql_machine :: "nat machine" where
  "mysql_machine =
     \<lparr>files = [''/var/lib/mysql/ibdata1'' \<mapsto> ''tables''], dirs = {''/var/lib/mysql''}, world = 0, service_memo = None\<rparr>"

section \<open>Properties\<close>

text \<open>
  C18: an installation on the local host never removes a MySQL data directory that was there
  before, even when everything fails and MariaDB is tried instead: it does the same with any
  other function for the removal of directories.
\<close>

theorem local_database_files_kept:
  assumes "local_database s" and "stat_file (de_os de) mysql_data_directory m \<noteq> StatMissing" and "passwords_work de"
  shows "install_mysql_or_mariadb (remover r de) pm s m = install_mysql_or_mariadb de pm s m"
proof (cases "install_mysql de pm (default_mysql_port s) m")
  case None
  then show ?thesis by (simp add: install_mysql_or_mariadb_def seqS_def updS_def elseS_def)
next
  case (Some run)
  then obtain t e u where run: "install_mysql de pm (default_mysql_port s) m = Some ((t, e), u)" by (cases run) auto
  have "pv_dir_existed_before t"
    by (rule local_failure_protects [OF _ assms(2,3) run]) (simp add: assms(1))
  from run show ?thesis
    by (simp add: install_mysql_or_mariadb_def seqS_def updS_def elseS_def removal_only_when_new [OF \<open>pv_dir_existed_before t\<close>]
        split: option.split)
qed

theorem local_database_files_kept_witness:
  "install_mysql_or_mariadb (remover (\<lambda>_. failE (Err ''removed'')) offline_env) willing_pm (example_state ''localhost'') mysql_machine =
   install_mysql_or_mariadb offline_env willing_pm (example_state ''localhost'') mysql_machine"
proof (rule local_database_files_kept)
  show "local_database (example_state ''localhost'')" by code_simp
  show "stat_file (de_os offline_env) mysql_data_directory mysql_machine \<noteq> StatMissing" by code_simp
  show "passwords_work offline_env" by (simp add: passwords_work_def offline_env_def retE_def)
qed

text \<open>
  C19: with a server on another host and no password, that is without \<open>ExistingDatabase\<close>, the
  local branch that looks at the data directory is skipped: when the remote server cannot be
  configured, the local MySQL server is purged and its data directory removed although it was
  there before.
\<close>

theorem remote_failure_removes_local_data:
  assumes "\<not> local_database s" and "\<not> pv_dir_existed_before s" and "linux_state de s" and "\<not> windows_state s"
    and "install_mysql de pm (default_mysql_port s) m = Some ((t, Some e), u)"
    and "pm_purge pm [mysql_package] u = (Inr (), v)" and "is_file_exists (de_os de) mysql_data_directory v"
    and "fl_remove_all (px_fs (de_panel de)) mysql_data_directory v = (Inr (), w)"
  shows "install_mysql_or_mariadb de pm s m = wrapS ''failed to install MariaDB'' (install_mariadb de pm) t w"
proof -
  let ?s = "default_mysql_port s"
  have s: "\<not> local_database ?s" "\<not> pv_dir_existed_before ?s" "pv_info ?s = pv_info s"
    using assms(1,2) by (simp, simp_all add: default_mysql_port_def use_port_def)
  have rest: "seqS (start_mysql de) (seqS (configure_step de) (check_with_fallbacks (check_mysql de) ''3306'')) ?s m =
      Some ((t, Some e), u)"
    using assms(5) s(1) by (simp add: install_mysql_def seqS_def ifS_def skipS_def)
  have flag: "\<not> pv_dir_existed_before t" and info: "pv_info t = pv_info s"
    using keepsS_D [OF flag.seq [OF keeps_flag_basic(4) flag.seq [OF keeps_flag_steps]] rest] s(2,3)
    by (simp_all add: same_flag_def)
  have "purge_mysql pm t u = Some ((t, None), v)"
    using assms(4,6) info by (simp add: purge_mysql_def windows_state_def step_defs liftP_def)
  moreover have "remove_mysql_data de t v = Some ((t, None), w)"
    using assms(3,7,8) info flag by (simp add: remove_mysql_data_def linux_state_def step_defs liftP_def)
  ultimately show ?thesis
    using assms(5) by (simp add: install_mysql_or_mariadb_def replace_by_mariadb_def seqS_def updS_def elseS_def)
qed

text \<open>After that run the tables of the local server are gone, and the installation has failed.\<close>

theorem remote_failure_removes_local_data_witness:
  "\<exists>t e u. install_mysql_or_mariadb offline_env willing_pm (example_state ''db.example.com'') mysql_machine = Some ((t, Some e), u) \<and>
    files u ''/var/lib/mysql/ibdata1'' = None"
proof -
  let ?s = "example_state ''db.example.com''" and ?m = mysql_machine
  define r where "r = install_mysql offline_env willing_pm (default_mysql_port ?s) ?m"
  have "(case r of Some ((t, Some e), u) \<Rightarrow> is_file_exists (de_os offline_env) mysql_data_directory u | _ \<Rightarrow> False)"
    unfolding r_def by code_simp
  then obtain t e u where run: "install_mysql offline_env willing_pm (default_mysql_port ?s) ?m = Some ((t, Some e), u)"
    and there: "is_file_exists (de_os offline_env) mysql_data_directory u"
    unfolding r_def by (auto split: option.splits prod.splits)
  have "install_mysql_or_mariadb offline_env willing_pm ?s ?m =
    wrapS ''failed to install MariaDB'' (install_mariadb offline_env willing_pm) t (snd (remove_tree mysql_data_directory u))"
  proof (rule remote_failure_removes_local_data [OF _ _ _ _ run _ there])
    show "\<not> local_database ?s" by code_simp
    show "\<not> windows_state ?s" by code_simp
    show "linux_state offline_env ?s" by code_simp
    show "\<not> pv_dir_existed_before ?s" by (simp add: example_state_def)
    show "pm_purge willing_pm [mysql_package] u = (Inr (), u)" by (simp add: willing_pm_def retE_def)
    show "fl_remove_all (px_fs (de_panel offline_env)) mysql_data_directory u = (Inr (), snd (remove_tree mysql_data_directory u))"
      by (simp add: offline_env_def remove_tree_def)
  qed
  moreover have "(case install_mysql_or_mariadb offline_env willing_pm ?s ?m of
      Some ((t, Some e), u) \<Rightarrow> files u ''/var/lib/mysql/ibdata1'' = None | _ \<Rightarrow> False)"
    by code_simp
  ultimately show ?thesis by (auto split: option.splits prod.splits)
qed

text \<open>
  A SQLite database that is there is kept and used: nothing is written. Otherwise, when the
  step succeeds, an empty one has been made at the path that is recorded.
\<close>

theorem sqlite_database_kept:
  assumes "fault (de_os de) (OpStat (sqlite_path s)) m = None"
  shows "\<exists>t e u. install_sqlite de s m = Some ((t, e), u) \<and>
    (path_exists m (sqlite_path s) \<longrightarrow> e = None \<and> u = m) \<and>
    (e = None \<longrightarrow> db_name (pv_creds t) = sqlite_path s \<and>
      (path_exists m (sqlite_path s) \<or> files u (sqlite_path s) = Some []))"
proof (cases "path_exists m (sqlite_path s)")
  case True
  with assms show ?thesis
    by (simp add: install_sqlite_def seqS_def ifS_def skipS_def updS_def is_file_exists_def stat_file_def)
next
  case False
  let ?p = "bindE (wrapE ''failed to create data directory for sqlite database'' (mkdir_all (de_os de) (pv_data_directory s)))
    (\<lambda>_. wrapE ''failed to create database.sqlite'' (write_file (de_os de) (sqlite_path s) []))"
  have step: "install_sqlite de s m = (case ?p m of
      (Inl e, u) \<Rightarrow> Some ((s, Some e), u)
    | (Inr _, u) \<Rightarrow> Some ((s\<lparr>pv_creds := (pv_creds s)\<lparr>db_name := sqlite_path s\<rparr>, pv_database_was_installed := True\<rparr>, None), u))"
    using False assms by (simp add: install_sqlite_def step_defs is_file_exists_def stat_file_def liftP_def split: prod.split sum.split)
  obtain r u where r: "?p m = (r, u)" by (cases "?p m") auto
  show ?thesis
  proof (cases r)
    case (Inl e)
    with r step False show ?thesis by simp
  next
    case (Inr x)
    with r have "files u (sqlite_path s) = Some []" by (auto simp: bindE_Inr_iff write_file_Inr)
    with r step False Inr show ?thesis by simp
  qed
qed

theorem sqlite_database_kept_witness:
  "\<exists>t e u. install_sqlite offline_env (example_state []) mysql_machine = Some ((t, e), u) \<and>
    (path_exists mysql_machine (sqlite_path (example_state [])) \<longrightarrow> e = None \<and> u = mysql_machine) \<and>
    (e = None \<longrightarrow> db_name (pv_creds t) = sqlite_path (example_state []) \<and>
      (path_exists mysql_machine (sqlite_path (example_state [])) \<or> files u (sqlite_path (example_state [])) = Some []))"
  by (rule sqlite_database_kept) (simp add: offline_env_def rootless_env_def rootless_host_def stubborn_host_def calm_os_def)

end
