(* ===== verification/PanelChecks.thy ===== *)
theory PanelChecks
  imports PanelDatabase NetAddr
begin

text \<open>
  What a panel installation asks and checks before it starts (\<open>pkg/utils/cli.go\<close>, \<open>askv4.go\<close>,
  \<open>checkers_v4.go\<close>, the address functions of \<open>checkers.go\<close>, \<open>pkg/fixer\<close>): the questions to the
  user, the host and its addresses, the port, SELinux. The terminal, the name service and the
  network are parameters. A question is asked until it is answered and may go on for ever.
\<close>

section \<open>Environment\<close>

datatype head_reply = HeadInvalid go_error | HeadFailed go_error | HeadAnswered

text \<open>
  \<open>ce_read_line\<close> is \<open>readStdin\<close>: the next line, or the empty string when the input has ended or the
  context is cancelled. \<open>ce_interfaces\<close> are the addresses of the interfaces, \<open>None\<close> for one that
  is not an \<open>*net.IPNet\<close>; \<open>ce_listen\<close> tries to bind an address, with \<open>PermissionDenied\<close> for
  \<open>EACCES\<close>; \<open>ce_healthy\<close> says whether a \<open>GET\<close> is answered with status 200; \<open>ce_regexp\<close> and
  \<open>ce_order\<close> belong to the line editor of \<open>pkg/utils\<close>. A name that cannot be resolved is a
  \<open>HostNotFound\<close> (\<open>*net.DNSError\<close>).
\<close>

record 'w check_env =
  ce_db :: "'w db_env"
  ce_read_line :: "'w machine \<Rightarrow> string \<times> 'w machine"
  ce_read_password :: "('w, string) sys"
  ce_hostname :: "'w machine \<Rightarrow> string result"
  ce_lookup_ip :: "string \<Rightarrow> 'w machine \<Rightarrow> ip list result"
  ce_interfaces :: "'w machine \<Rightarrow> ip option list result"
  ce_listen :: "string \<Rightarrow> 'w machine \<Rightarrow> go_error option"
  ce_close_listener :: "'w machine \<Rightarrow> go_error option"
  ce_dial :: "string \<Rightarrow> 'w machine \<Rightarrow> bool"
  ce_healthy :: "string \<Rightarrow> 'w machine \<Rightarrow> bool"
  ce_head :: "string \<Rightarrow> 'w machine \<Rightarrow> head_reply"
  ce_exec_output :: "string list \<Rightarrow> ('w, string) sys"
  ce_regexp :: "string \<Rightarrow> string \<Rightarrow> bool result"
  ce_order :: "(string \<times> string) list \<Rightarrow> (string \<times> string) list"

abbreviation ce_host :: "'w check_env \<Rightarrow> 'w host" where "ce_host ce \<equiv> de_host (ce_db ce)"
abbreviation ce_os :: "'w check_env \<Rightarrow> 'w os_env" where "ce_os ce \<equiv> de_os (ce_db ce)"

section \<open>Questions\<close>

text \<open>\<open>utils.Ask\<close>: the check of an answer says whether it is accepted, or fails.\<close>

partial_function (option) ask ::
  "'w check_env \<Rightarrow> bool \<Rightarrow> (string \<Rightarrow> ('w, bool) sys) option \<Rightarrow> 'w machine \<Rightarrow> (string result \<times> 'w machine) option" where
  "ask ce allow_empty validate m =
     (if ho_canceled (ce_host ce) m then Some (Inl Canceled, m)
      else (case ce_read_line ce m of (line, t) \<Rightarrow>
        if ho_canceled (ce_host ce) t then Some (Inl Canceled, t)
        else if allow_empty \<and> trim_space line = [] then Some (Inr [], t)
        else (case validate of
            None \<Rightarrow> if trim_space line \<noteq> [] then Some (Inr (trim_space line), t) else ask ce allow_empty validate t
          | Some check \<Rightarrow>
              (case check (trim_space line) t of
                 (Inl e, u) \<Rightarrow> Some (Inl e, u)
               | (Inr ok, u) \<Rightarrow> if ok then Some (Inr (trim_space line), u) else ask ce allow_empty validate u))))"

text \<open>A check that accepts some answers and refuses the others.\<close>

definition one_of :: "string list \<Rightarrow> (string \<Rightarrow> ('w, bool) sys) option" where
  "one_of answers = Some (\<lambda>s. retE (s \<in> set answers))"

definition ask_database_type :: "'w check_env \<Rightarrow> ('w, string) psys" where
  "ask_database_type ce =
     bindP (ask ce True (one_of [''1'', ''2'', ''3'', ''4''])) (\<lambda>num. liftP (
       if num = ''1'' then retE postgres_database
       else if num = ''2'' then retE mysql_database
       else if num = ''3'' then retE sqlite_database
       else if num = ''4'' then retE none_database
       else failE (Err ''unexpected database choice'')))"

definition ask_installation_type :: "'w check_env \<Rightarrow> ('w, bool) psys" where
  "ask_installation_type ce =
     bindP (ask ce True (one_of [''1'', ''2''])) (\<lambda>num. liftP (
       if num = ''1'' then retE False
       else if num = ''2'' then retE True
       else failE (Err ''unexpected installation type choice'')))"

definition ask_or_default :: "'w check_env \<Rightarrow> string \<Rightarrow> ('w, string) psys" where
  "ask_or_default ce d = bindP (ask ce True None) (\<lambda>s. liftP (retE (or_default s d)))"

definition prompt_database_credentials :: "'w check_env \<Rightarrow> string \<Rightarrow> ('w, database_credentials) psys" where
  "prompt_database_credentials ce database =
     bindP (ask_or_default ce default_db_host) (\<lambda>host.
     bindP (ask_or_default ce (if database = mysql_database then ''3306'' else ''5432'')) (\<lambda>port.
     bindP (ask_or_default ce default_database_name) (\<lambda>name.
     bindP (ask_or_default ce default_db_username) (\<lambda>user.
     bindP (liftP (ce_read_password ce)) (\<lambda>password.
       liftP (retE \<lparr>db_host = host, db_port = port, db_name = name, db_username = user, db_password = password,
         db_root_password = []\<rparr>))))))"

text \<open>The check of the entered credentials; only the two servers can be asked.\<close>

definition try_credentials :: "'w check_env \<Rightarrow> string \<Rightarrow> database_credentials \<Rightarrow> ('w, bool) sys" where
  "try_credentials ce database c =
     (let sl = de_sql (ce_db ce) in
      if database = postgres_database then
        checked_connection sl ''PostgreSQL'' (postgres_handle c) (postgres_database_empty sl)
      else if database = mysql_database then
        checked_connection sl ''MySQL'' (mysql_handle c) (\<lambda>db. mysql_database_empty sl db (db_name c))
      else retE True)"

partial_function (option) ask_database_credentials ::
  "'w check_env \<Rightarrow> string \<Rightarrow> 'w machine \<Rightarrow> (database_credentials result \<times> 'w machine) option" where
  "ask_database_credentials ce database m =
     (if ho_canceled (ce_host ce) m then Some (Inl Canceled, m)
      else (case prompt_database_credentials ce database m of
          None \<Rightarrow> None
        | Some r \<Rightarrow>
            (case r of
               (Inl e, t) \<Rightarrow> Some (Inl e, t)
             | (Inr c, t) \<Rightarrow>
                 (case try_credentials ce database c t of
                    (Inr _, u) \<Rightarrow> Some (Inr c, u)
                  | (Inl _, u) \<Rightarrow> ask_database_credentials ce database u))))"

section \<open>Addresses\<close>

text \<open>The first IPv4 address of a host, or its first address.\<close>

definition choose_ip_from_host :: "'w check_env \<Rightarrow> string \<Rightarrow> 'w machine \<Rightarrow> string result" where
  "choose_ip_from_host ce host m =
     (case with_message ''failed to lookup ip'' (ce_lookup_ip ce host m) of
        Inl e \<Rightarrow> Inl e
      | Inr ips \<Rightarrow>
          (case map ip_string ips of
             [] \<Rightarrow> Inl (Err ''no ip for chosen host'')
           | a # as \<Rightarrow> Inr (case filter is_ipv4 (a # as) of [] \<Rightarrow> a | b # _ \<Rightarrow> b)))"

definition prefer_ipv4 :: "ip list \<Rightarrow> ip" where
  "prefer_ipv4 ips = (case filter is_v4 ips of [] \<Rightarrow> hd ips | a # _ \<Rightarrow> a)"

definition detect_nat_mapping :: "'w check_env \<Rightarrow> ip \<Rightarrow> ip \<Rightarrow> string \<Rightarrow> 'w machine \<Rightarrow> bool" where
  "detect_nat_mapping ce local external port m \<longleftrightarrow>
     ce_listen ce (join_host_port (ip_string local) port) m = None \<and> ce_dial ce (join_host_port (ip_string external) port) m"

definition resolve_listen_address :: "'w check_env \<Rightarrow> string \<Rightarrow> string \<Rightarrow> 'w machine \<Rightarrow> string" where
  "resolve_listen_address ce host port m =
     (if is_ipv4 host \<or> is_ipv6 host then host
      else case ce_lookup_ip ce host m of
        Inl _ \<Rightarrow> []
      | Inr resolved \<Rightarrow>
          if resolved = [] then []
          else case ce_interfaces ce m of
            Inl _ \<Rightarrow> []
          | Inr addrs \<Rightarrow>
              (let locals = List.map_filter (\<lambda>a. a) addrs in
               case filter (\<lambda>l. l \<in> set resolved) locals of
                 l # _ \<Rightarrow> ip_string l
               | [] \<Rightarrow>
                   (let external = prefer_ipv4 resolved in
                    case filter (\<lambda>l. \<not> ip_loopback l \<and> is_v4 external = is_v4 l \<and> detect_nat_mapping ce l external port m) locals of
                      l # _ \<Rightarrow> ip_string l
                    | [] \<Rightarrow> [])))"

section \<open>The answers of the user\<close>

record asked_params =
  ap_host :: string
  ap_database :: string
  ap_existing_database :: bool
  ap_creds :: database_credentials

definition no_credentials :: database_credentials where
  "no_credentials =
     \<lparr>db_host = [], db_port = [], db_name = [], db_username = [], db_password = [], db_root_password = []\<rparr>"

text \<open>A host name without a dot is looked up, for the example that the question shows.\<close>

definition ask_host :: "'w check_env \<Rightarrow> ('w, string) psys" where
  "ask_host ce =
     bindP (liftP (\<lambda>m. (ce_hostname ce m, m))) (\<lambda>name.
     bindP (liftP (\<lambda>m. (if contains_str name ''.'' then Inr name else choose_ip_from_host ce name m, m))) (\<lambda>_.
       ask ce False None))"

definition ask_database :: "'w check_env \<Rightarrow> string \<Rightarrow> ('w, string \<times> bool \<times> database_credentials) psys" where
  "ask_database ce scope =
     bindP (ask_database_type ce) (\<lambda>database.
     bindP (if database = postgres_database \<or> database = mysql_database
            then (if scope = scope_user then liftP (retE True) else ask_installation_type ce)
            else liftP (retE False)) (\<lambda>existing.
     bindP (if existing then ask_database_credentials ce database else liftP (retE no_credentials)) (\<lambda>c.
       liftP (retE (database, existing, c)))))"

definition ask_user :: "'w check_env \<Rightarrow> bool \<Rightarrow> bool \<Rightarrow> string \<Rightarrow> ('w, asked_params) psys" where
  "ask_user ce need_host need_database scope =
     bindP (if need_host then ask_host ce else liftP (retE [])) (\<lambda>host.
     bindP (if need_database then ask_database ce scope else liftP (retE ([], False, no_credentials))) (\<lambda>(database, existing, c).
       liftP (retE \<lparr>ap_host = host, ap_database = database, ap_existing_database = existing, ap_creds = c\<rparr>)))"

section \<open>Warnings\<close>

definition yes_no :: "('w, unit) sys \<Rightarrow> ('w, unit) sys \<Rightarrow> string \<Rightarrow> ('w, bool) sys" where
  "yes_no yes no s =
     (if s = ''y'' \<or> s = ''Y'' then bindE yes (\<lambda>_. retE True)
      else if s = ''n'' \<or> s = ''N'' then bindE no (\<lambda>_. retE True)
      else retE False)"

definition warning_ask_for_action :: "'w check_env \<Rightarrow> panel_state \<Rightarrow> ('w, unit) sys \<Rightarrow> ('w, unit) psys" where
  "warning_ask_for_action ce s action =
     (if pv_skip_warnings s \<or> pv_non_interactive s then liftP (retE ())
      else bindP (ask ce False (Some (yes_no action (retE ())))) (\<lambda>_. liftP (retE ())))"

definition warning :: "'w check_env \<Rightarrow> panel_state \<Rightarrow> ('w, unit) psys" where
  "warning ce s =
     (if pv_skip_warnings s then liftP (retE ())
      else if pv_non_interactive s then
        liftP (failE (Err ''The installation cannot be continued. Please fix it or set the --skip-warnings flag''))
      else bindP (ask ce False (Some (yes_no (retE ()) (failE (Err ''installation aborted by user'')))))
        (\<lambda>_. liftP (retE ())))"

section \<open>Checks\<close>

definition default_port_for_scope :: "string \<Rightarrow> string" where
  "default_port_for_scope scope = (if scope = scope_user then ''8025'' else ''80'')"

definition fill_port :: "panel_state \<Rightarrow> panel_state" where
  "fill_port s = s\<lparr>pv_port := or_default (pv_port s) (default_port_for_scope (pv_scope s))\<rparr>"

definition bare_host :: "string \<Rightarrow> string" where
  "bare_host h = trim_right_set (trim_prefix (trim_prefix (trim_space h) ''http://'') ''https://'') ''/?&''"

definition is_dns_error :: "go_error \<Rightarrow> bool" where
  "is_dns_error e = error_as (\<lambda>e. case e of HostNotFound _ \<Rightarrow> True | _ \<Rightarrow> False) e"

definition split_port :: "panel_state \<Rightarrow> panel_state" where
  "split_port s =
     (case split_host_port (pv_host s) of Some (h, p) \<Rightarrow> s\<lparr>pv_host := h, pv_port := p\<rparr> | None \<Rightarrow> s)"

definition filter_and_check_host :: "'w check_env \<Rightarrow> ('w, panel_state) step" where
  "filter_and_check_host ce =
     seqS (updS (\<lambda>s. fill_port (s\<lparr>pv_host := bare_host (pv_host s)\<rparr>)))
     (ifS (\<lambda>s _. contains_any (pv_host s) ''/?&'') (failS (Err ''invalid host''))
     (seqS (updS split_port)
     (ifS (\<lambda>s _. is_ipv4 (pv_host s) \<or> is_ipv6 (pv_host s)) (updS (\<lambda>s. s\<lparr>pv_host_ip := pv_host s\<rparr>))
     (\<lambda>s m. case choose_ip_from_host ce (pv_host s) m of
        Inr ip \<Rightarrow> updS (pv_host_ip_update (\<lambda>_. ip)) s m
      | Inl e \<Rightarrow> (if is_dns_error e then skipS else failS (WithMessage e ''failed to choose IP from host'')) s m))))"

definition loopback_url :: "string \<Rightarrow> string" where
  "loopback_url port = ''http://127.0.0.1:'' @ port @ ''/health''"

definition port_refused :: "panel_state \<Rightarrow> go_error" where
  "port_refused s = Err (''port '' @ pv_port s @ '' cannot be bound by an unprivileged process; '' @
     ''use a port >= 1024 (default for user scope: '' @ default_port_for_scope scope_user @
     ''), put a reverse proxy in front, or install with --scope=system'')"

definition is_access_error :: "go_error \<Rightarrow> bool" where
  "is_access_error e = error_as (\<lambda>e. case e of PermissionDenied _ \<Rightarrow> True | _ \<Rightarrow> False) e"

definition check_port_availability :: "'w check_env \<Rightarrow> ('w, panel_state) step" where
  "check_port_availability ce =
     seqS (updS fill_port)
     (ifS (\<lambda>s m. ce_healthy ce (loopback_url (pv_port s)) m) skipS
     (\<lambda>s m. case ce_listen ce (join_host_port (resolve_listen_address ce (pv_host s) (pv_port s) m) (pv_port s)) m of
        Some e \<Rightarrow>
          if pv_scope s = scope_user \<and> is_access_error e then failS (port_refused s) s m
          else doS (warning ce) s m
      | None \<Rightarrow>
          (case ce_close_listener ce m of
             None \<Rightarrow> skipS
           | Some e \<Rightarrow> failS (WithMessage e ''failed to close listener'')) s m))"

definition local_names :: "string list" where
  "local_names = [''localhost'', ''::1'', ''[::1]'', ''0.0.0.0'']"

definition expected_silence :: "go_error \<Rightarrow> bool" where
  "expected_silence e \<longleftrightarrow>
     error_as (\<lambda>e. e \<in> {DeadlineExceeded, Canceled, ConnectionRefused}) e \<or>
     contains_str (error_text e) ''No connection could be made because the target machine actively refused it''"

definition check_http_host_availability :: "'w check_env \<Rightarrow> ('w, panel_state) step" where
  "check_http_host_availability ce =
     ifS (\<lambda>s _. pv_host s \<in> set local_names \<or> has_prefix (pv_host s) ''127.'') skipS
     (seqS (ifS (\<lambda>s m. case ce_lookup_ip ce (pv_host s) m of Inl e \<Rightarrow> is_dns_error e | Inr _ \<Rightarrow> False)
              (doS (warning ce)) skipS)
     (\<lambda>s m. case ce_head ce (''http://'' @ pv_host s @ '':'' @ pv_port s) m of
        HeadInvalid e \<Rightarrow> failS e s m
      | HeadFailed e \<Rightarrow> (if expected_silence e then skipS else doS (warning ce)) s m
      | HeadAnswered \<Rightarrow> skipS s m))"

section \<open>SELinux\<close>

definition selinux_enabled :: "'w check_env \<Rightarrow> ('w, bool) sys" where
  "selinux_enabled ce m =
     (if \<not> command_available (ce_os ce) ''getenforce'' m then (Inr False, m)
      else bindE (wrapE ''failed to getenforce'' (ce_exec_output ce [''getenforce'']))
        (\<lambda>out. retE (trim_space out = ''Enforcing'')) m)"

definition selinux_config :: string where "selinux_config = ''/etc/selinux/config''"

definition disable_selinux :: "'w check_env \<Rightarrow> ('w, unit) sys" where
  "disable_selinux ce =
     bindE (wrapE ''failed to setenforce'' (ho_exec (ce_host ce) [''setenforce'', ''0''])) (\<lambda>_.
       wrapE ''failed to update /etc/selinux/config config''
         (find_line_and_replace (px_fs (de_panel (ce_db ce))) (ce_regexp ce) (ce_order ce) selinux_config
           [(''SELINUX=enforcing'', ''SELINUX=permissive'')]))"

definition check_selinux :: "'w check_env \<Rightarrow> ('w, panel_state) step" where
  "check_selinux ce =
     (if px_goos (de_panel (ce_db ce)) = ''windows'' then skipS
      else letS (\<lambda>_. liftP (selinux_enabled ce)) (\<lambda>enabled.
        ifS (\<lambda>s _. enabled \<and> pv_scope s \<noteq> scope_user)
          (doS (\<lambda>s. warning_ask_for_action ce s (wrapE ''failed to disable SELinux'' (disable_selinux ce))))
          skipS))"

text \<open>\<open>fixer.RunFixer\<close>: the fixes whose condition holds, until the check passes.\<close>

record 'w fix_item =
  fi_name :: string
  fi_condition :: "('w, bool) sys"
  fi_fix :: "('w, unit) sys"

fun run_fixer :: "('w, unit) sys \<Rightarrow> 'w fix_item list \<Rightarrow> ('w, unit) sys" where
  "run_fixer check [] = wrapE ''no more options left to fix the problem'' check"
| "run_fixer check (i # is) =
     bindE (wrapE (''failed to check condition in '' @ quote @ fi_name i @ quote @ '' fixer'') (fi_condition i)) (\<lambda>applies.
       if \<not> applies then run_fixer check is
       else bindE (wrapE (''failed to fix '' @ quote @ fi_name i @ quote) (fi_fix i)) (\<lambda>_.
         catchE check (\<lambda>_. run_fixer check is)))"

section \<open>Lemmas\<close>

text \<open>
  The answers that a question accepts; a terminal as the sequence of the lines it gives, with
  the states in between, where nothing is cancelled and the check of an answer is pure.
\<close>

definition accepted :: "bool \<Rightarrow> (string \<Rightarrow> bool) option \<Rightarrow> string \<Rightarrow> bool" where
  "accepted allow_empty ok line \<longleftrightarrow>
     (let s = trim_space line in
      allow_empty \<and> s = [] \<or> (case ok of None \<Rightarrow> s \<noteq> [] | Some p \<Rightarrow> p s))"

definition pure_check :: "(string \<Rightarrow> bool) option \<Rightarrow> (string \<Rightarrow> ('w, bool) sys) option" where
  "pure_check ok = map_option (\<lambda>p s. retE (p s)) ok"

definition terminal :: "'w check_env \<Rightarrow> (nat \<Rightarrow> string) \<Rightarrow> (nat \<Rightarrow> 'w machine) \<Rightarrow> bool" where
  "terminal ce line st \<longleftrightarrow>
     (\<forall>i. \<not> ho_canceled (ce_host ce) (st i) \<and> ce_read_line ce (st i) = (line i, st (Suc i)))"

lemma one_of_pure: "one_of xs = pure_check (Some (\<lambda>s. s \<in> set xs))"
  by (simp add: one_of_def pure_check_def)

lemma ask_step:
  assumes "terminal ce line st"
  shows "ask ce allow (pure_check ok) (st i) =
    (if accepted allow ok (line i) then Some (Inr (trim_space (line i)), st (Suc i))
     else ask ce allow (pure_check ok) (st (Suc i)))"
proof -
  have "\<not> ho_canceled (ce_host ce) (st i)" "\<not> ho_canceled (ce_host ce) (st (Suc i))"
    "ce_read_line ce (st i) = (line i, st (Suc i))"
    using assms by (simp_all add: terminal_def)
  then show ?thesis
    by (subst ask.simps) (auto simp: accepted_def pure_check_def retE_def Let_def split: option.split)
qed

lemma ask_first:
  assumes "terminal ce line st" and "accepted allow ok (line k)" and "\<And>j. j < k \<Longrightarrow> \<not> accepted allow ok (line j)"
  shows "ask ce allow (pure_check ok) (st 0) = Some (Inr (trim_space (line k)), st (Suc k))"
proof -
  have "i \<le> k \<Longrightarrow> ask ce allow (pure_check ok) (st 0) = ask ce allow (pure_check ok) (st i)" for i
  proof (induction i)
    case (Suc i)
    with assms(3) [of i] ask_step [OF assms(1), of allow ok i] show ?case by simp
  qed simp
  from this [of k] assms(2) ask_step [OF assms(1), of allow ok k] show ?thesis by simp
qed

lemma ask_for_ever:
  fixes st :: "nat \<Rightarrow> 'w machine"
  assumes "terminal ce line st" and "\<And>i. \<not> accepted allow ok (line i)"
  shows "ask ce allow (pure_check ok) (st i) = None"
proof (rule ccontr)
  assume "ask ce allow (pure_check ok) (st i) \<noteq> None"
  then obtain r where ret: "ask ce allow (pure_check ok) (st i) = Some r" by blast
  let ?P = "\<lambda>c a (v :: (string \<Rightarrow> ('w, bool) sys) option) m (_ :: string result \<times> 'w machine). c = ce \<and> a = allow \<and> v = pure_check ok \<longrightarrow> m \<notin> range st"
  have "?P ce allow (pure_check ok) (st i) r"
  proof (rule ask.raw_induct [where P = ?P, OF _ ret])
    fix f c a v m r
    assume IH: "\<And>c a v m r. f c a v m = Some r \<Longrightarrow> c = ce \<and> a = allow \<and> v = pure_check ok \<longrightarrow> m \<notin> range st"
      and eq: "(if ho_canceled (ce_host c) m then Some (Inl Canceled, m)
      else (case ce_read_line c m of (line, t) \<Rightarrow>
        if ho_canceled (ce_host c) t then Some (Inl Canceled, t)
        else if a \<and> trim_space line = [] then Some (Inr [], t)
        else (case v of
            None \<Rightarrow> if trim_space line \<noteq> [] then Some (Inr (trim_space line), t) else f c a v t
          | Some check \<Rightarrow>
              (case check (trim_space line) t of
                 (Inl e, u) \<Rightarrow> Some (Inl e, u)
               | (Inr ok, u) \<Rightarrow> if ok then Some (Inr (trim_space line), u) else f c a v u)))) = Some r"
    show "c = ce \<and> a = allow \<and> v = pure_check ok \<longrightarrow> m \<notin> range st"
    proof (intro impI notI)
      assume p: "c = ce \<and> a = allow \<and> v = pure_check ok" and "m \<in> range st"
      then obtain j where j: "m = st j" by blast
      from assms(1) have t: "\<not> ho_canceled (ce_host ce) (st j)" "\<not> ho_canceled (ce_host ce) (st (Suc j))"
        "ce_read_line ce (st j) = (line j, st (Suc j))"
        by (simp_all add: terminal_def)
      have "f ce allow (pure_check ok) (st (Suc j)) = Some r"
        using eq p j t assms(2) [of j]
        by (cases ok) (auto simp: accepted_def pure_check_def retE_def Let_def split: if_splits)
      with IH have "st (Suc j) \<notin> range st" by blast
      then show False by simp
    qed
  qed
  then show False by simp
qed

lemma split_host_port_chars:
  assumes "split_host_port hp = Some (h, p)"
  shows "set h \<subseteq> set hp"
proof -
  have cut: "set a \<subseteq> set hp" if "cut_last c hp = Some (a, b)" for c a b
    using that by (auto simp: cut_last_def Let_def split: if_splits dest: in_set_takeD)
  obtain a b where "cut_last (CHR '':'') hp = Some (a, b)" using assms by (auto simp: split_host_port_def split: option.splits)
  with assms cut show ?thesis
    by (auto simp: split_host_port_def Let_def split: if_splits dest!: in_set_takeD in_set_dropD)
qed

lemma contains_any_subset: "set a \<subseteq> set b \<Longrightarrow> contains_any a c \<Longrightarrow> contains_any b c"
  by (auto simp: contains_any_def list_ex_iff)

lemma set_map_filter_id: "set (List.map_filter (\<lambda>a. a) xs) = {x. Some x \<in> set xs}"
proof (induction xs)
  case (Cons x xs)
  then show ?case by (cases x) (auto simp: List.map_filter_def)
qed (simp add: List.map_filter_def)

section \<open>Properties\<close>


definition example_checks :: "string list \<Rightarrow> nat check_env" where
  "example_checks input =
     \<lparr>ce_db = offline_env, ce_read_line = (\<lambda>m. (if world m < length input then input ! world m else [], m\<lparr>world := world m + 1\<rparr>)),
      ce_read_password = retE [], ce_hostname = (\<lambda>_. Inr ''builder''),
      ce_lookup_ip = (\<lambda>h _. if h = ''panel.test'' then Inr [ip_v4 10 0 0 7] else Inl (HostNotFound h)),
      ce_interfaces = (\<lambda>_. Inr [Some (ip_v4 127 0 0 1), None, Some (ip_v4 10 0 0 7)]),
      ce_listen = (\<lambda>_ _. None), ce_close_listener = (\<lambda>_. None), ce_dial = (\<lambda>_ _. False), ce_healthy = (\<lambda>_ _. False),
      ce_head = (\<lambda>_ _. HeadAnswered), ce_exec_output = (\<lambda>_. retE []), ce_regexp = (\<lambda>_ _. Inr False), ce_order = (\<lambda>x. x)\<rparr>"

definition reading :: "nat \<Rightarrow> nat machine" where
  "reading i = \<lparr>files = Map.empty, dirs = {}, world = i, service_memo = None\<rparr>"


text \<open>
  An interactive installation without \<open>--host\<close> looks the name of the machine up, only to show
  an example in its question: when the name has no dot and cannot be resolved, the
  installation fails before anything is asked.
\<close>

theorem unresolvable_hostname_aborts:
  assumes "ce_hostname ce m = Inr name" and "\<not> contains_str name ''.''" and "ce_lookup_ip ce name m = Inl e"
  shows "ask_user ce True need_database scope m = Some (Inl (WithMessage e ''failed to lookup ip''), m)"
  using assms by (simp add: ask_user_def ask_host_def bindP_def liftP_def choose_ip_from_host_def)

theorem unresolvable_hostname_aborts_witness:
  "ask_user (example_checks [''panel.test'']) True True scope_system (reading 0) =
    Some (Inl (WithMessage (HostNotFound ''builder'') ''failed to lookup ip''), reading 0)"
proof (rule unresolvable_hostname_aborts)
  show "\<not> contains_str ''builder'' ''.''" by code_simp
qed (simp_all add: example_checks_def)



text \<open>
  The address that the port is tried on is the host itself, when it is an address, or an
  address of one of the interfaces of this machine, or empty for all of them: never a remote one.
\<close>

theorem listen_address_is_local:
  "resolve_listen_address ce host port m = host \<and> (is_ipv4 host \<or> is_ipv6 host) \<or>
   resolve_listen_address ce host port m = [] \<or>
   (\<exists>addrs ip. ce_interfaces ce m = Inr addrs \<and> Some ip \<in> set addrs \<and> resolve_listen_address ce host port m = ip_string ip)"
proof -
  have first: "l \<in> set xs" if "filter p xs = l # ls" for p :: "ip \<Rightarrow> bool" and xs l ls
  proof -
    have "l \<in> set (filter p xs)" using that by simp
    then show ?thesis by simp
  qed
  have local: "Some l \<in> set addrs" if "filter p (List.map_filter (\<lambda>a. a) addrs) = l # ls" for p :: "ip \<Rightarrow> bool" and addrs l ls
    using first [OF that] by (simp add: set_map_filter_id)
  show ?thesis
    by (auto simp: resolve_listen_address_def Let_def split: sum.split list.split dest!: local)
qed

end
