(* ===== verification/PanelEnroll.thy ===== *)
theory PanelEnroll
  imports PanelChecks
begin

text \<open>
  The daemon that a panel installation brings with it (\<open>daemonInstallV4\<close> and its helpers in
  \<open>panel_install_v4.go\<close>): a setup key or token is put into \<open>config.env\<close>, the panel is started,
  the daemon enrols with it, and the panel is stopped and the key removed again.
\<close>

section \<open>Environment\<close>

text \<open>
  \<open>ee_invalid_url\<close> is the error of a request that cannot be made for a URL; \<open>ee_millis\<close> the
  clock.
\<close>

record 'w enroll_env =
  ee_check :: "'w check_env"
  ee_daemon :: "'w install_env"
  ee_invalid_url :: "string \<Rightarrow> go_error option"
  ee_millis :: "'w machine \<Rightarrow> nat"

abbreviation ee_db :: "'w enroll_env \<Rightarrow> 'w db_env" where "ee_db ee \<equiv> ce_db (ee_check ee)"
abbreviation ee_panel :: "'w enroll_env \<Rightarrow> 'w panel_env" where "ee_panel ee \<equiv> de_panel (ee_db ee)"
abbreviation ee_os :: "'w enroll_env \<Rightarrow> 'w os_env" where "ee_os ee \<equiv> px_os (ee_panel ee)"
abbreviation ee_sleep :: "'w enroll_env \<Rightarrow> int \<Rightarrow> 'w machine \<Rightarrow> 'w machine" where
  "ee_sleep ee \<equiv> ue_sleep (ie_update (ee_daemon ee))"

section \<open>Variables in \<open>config.env\<close>\<close>

definition env_line_of :: "string \<Rightarrow> string \<Rightarrow> bool" where
  "env_line_of name line \<longleftrightarrow> has_prefix (trim_space line) (name @ ''='')"

definition without_env_var :: "string \<Rightarrow> string \<Rightarrow> string" where
  "without_env_var name content =
     join_with nl (filter (\<lambda>l. \<not> env_line_of name l) (split_char (CHR 0x0A) content))"

text \<open>
  The file is opened for appending without being created; a refusal of the operating system is
  taken to come from the write.
\<close>

definition append_config_env_var :: "'w os_env \<Rightarrow> string \<Rightarrow> string \<Rightarrow> string \<Rightarrow> ('w, unit) sys" where
  "append_config_env_var os path name v m =
     (let rewritten =
        (case fst (read_file os path m) of
           Inl _ \<Rightarrow> (Inr (), m)
         | Inr content \<Rightarrow>
             wrapE ''failed to rewrite config.env without stale entry'' (write_file os path (without_env_var name content)) m)
      in case rewritten of
        (Inl e, t) \<Rightarrow> (Inl e, t)
      | (Inr _, t) \<Rightarrow>
          (if files t path = None
           then wrapE ''failed to open config.env'' (append_contents_to_file os (nl @ name @ ''='' @ v @ nl) path) t
           else wrapE (''failed to write '' @ name @ '' to config.env'')
             (append_contents_to_file os (nl @ name @ ''='' @ v @ nl) path) t))"

definition remove_config_env_var :: "'w os_env \<Rightarrow> string \<Rightarrow> string \<Rightarrow> ('w, unit) sys" where
  "remove_config_env_var os path name m =
     (case fst (read_file os path m) of
        Inl _ \<Rightarrow> (Inr (), m)
      | Inr content \<Rightarrow> quietly (write_file os path (without_env_var name content)) m)"

section \<open>Waiting for the panel\<close>

definition retry_delay :: int where "retry_delay = 2000000000"

definition health_retries :: nat where "health_retries = 30"

text \<open>No more than \<open>n\<close> requests; the pause comes between two of them.\<close>

fun wait_for_panel :: "'w enroll_env \<Rightarrow> string \<Rightarrow> nat \<Rightarrow> ('w, unit) sys" where
  "wait_for_panel ee url 0 m = (Inr (), m)"
| "wait_for_panel ee url (Suc n) m =
     (case ee_invalid_url ee url of
        Some e \<Rightarrow> (Inl (WithMessage e ''failed to create health check request''), m)
      | None \<Rightarrow>
          if ce_healthy (ee_check ee) url m then (Inr (), m)
          else if n = 0 then (Inl (Err ''GameAP panel failed to become ready in time''), m)
          else wait_for_panel ee url n (ee_sleep ee retry_delay m))"

definition wait_for_panel_health_check :: "'w enroll_env \<Rightarrow> string \<Rightarrow> nat \<Rightarrow> ('w, unit) sys" where
  "wait_for_panel_health_check ee host n = wait_for_panel ee (host @ ''/health'') n"

section \<open>Enrolment\<close>

definition panel_url :: "panel_state \<Rightarrow> string" where
  "panel_url s = ''http://'' @ pv_host s @ '':'' @ pv_port s"

definition state_config_path :: "panel_state \<Rightarrow> string" where
  "state_config_path s = path_join [pv_config_directory s, ''config.env'']"

definition setup_token_env :: string where "setup_token_env = ''DAEMON_SETUP_TOKEN''"
definition setup_key_env :: string where "setup_key_env = ''DAEMON_SETUP_KEY''"
definition setup_key_length :: nat where "setup_key_length = 16"

definition generate_setup_key :: "'w panel_env \<Rightarrow> ('w, string) sys" where
  "generate_setup_key px =
     bindE (wrapE ''failed to read random bytes'' (px_random px setup_key_length)) (\<lambda>bs.
       if length bs \<noteq> setup_key_length then failE (Err ''short read from crypto/rand'')
       else retE (hex_encode bs))"

text \<open>What \<open>switch\<close> and loop over the parts of the answer leave in \<open>createToken\<close>: the last one wins.\<close>

definition token_of_part :: "string \<Rightarrow> string option" where
  "token_of_part s =
     (if has_prefix s ''export createToken='' then Some (trim_prefix s ''export createToken='')
      else if has_prefix s ''export CREATE_TOKEN='' then Some (trim_prefix s ''export CREATE_TOKEN='')
      else None)"

definition create_token :: "string \<Rightarrow> string" where
  "create_token body =
     fold (\<lambda>s t. case token_of_part s of None \<Rightarrow> t | Some u \<Rightarrow> u) (split_char (CHR '';'') body) []"

definition default_options :: "string \<Rightarrow> install_options" where
  "default_options scope =
     \<lparr>io_host = [], io_token = [], io_connect_url = [], io_config = [], io_scope = scope, io_from_github = False,
      io_branch = [], io_version = []\<rparr>"

definition legacy_token :: "'w enroll_env \<Rightarrow> string \<Rightarrow> string \<Rightarrow> ('w, string) sys" where
  "legacy_token ee host token =
     bindE (case ee_invalid_url ee (host @ ''/gdaemon/setup/'' @ token) of
              Some e \<Rightarrow> failE (WithMessage e ''failed to create HTTP request for daemon setup'')
            | None \<Rightarrow> retE ()) (\<lambda>_.
     bindE (wrapE ''failed to get daemon setup token'' (ie_http_get (ee_daemon ee) (host @ ''/gdaemon/setup/'' @ token))) (\<lambda>resp.
       if ha_status resp \<noteq> 200 then failE (Err ''failed to get daemon setup: non-200 status code'')
       else case with_message ''failed to read daemon setup response'' (ha_body resp) of
         Inl e \<Rightarrow> failE e
       | Inr body \<Rightarrow>
           if create_token body = [] then failE (Err ''failed to extract create token from daemon setup response'')
           else retE (create_token body)))"

definition enroll_legacy :: "'w enroll_env \<Rightarrow> string \<Rightarrow> ('w, panel_state) step" where
  "enroll_legacy ee token =
     seqS (doS (\<lambda>s. liftP (wait_for_panel_health_check ee (panel_url s) health_retries)))
       (letS (\<lambda>s. liftP (legacy_token ee (panel_url s) token)) (\<lambda>create.
         doS (\<lambda>s. wrapP ''failed to install daemon'' (daemon_install (ee_daemon ee)
           ((default_options (pv_scope s))\<lparr>io_host := panel_url s, io_token := create\<rparr>)))))"

definition enroll_grpc :: "'w enroll_env \<Rightarrow> string \<Rightarrow> ('w, panel_state) step" where
  "enroll_grpc ee key =
     seqS (doS (\<lambda>s. liftP (wait_for_panel_health_check ee (panel_url s) health_retries)))
     (seqS (doS (\<lambda>s. liftP
        (wrapE ''panel gRPC port unreachable; verify GRPC_ENABLED=true on panel and that the port is open''
        (wrapE (''cannot reach gRPC server at '' @ join_host_port (pv_host s) (pv_grpc_port s))
          (ue_tcp_dial (ie_update (ee_daemon ee)) (join_host_port (pv_host s) (pv_grpc_port s)))))))
       (doS (\<lambda>s. wrapP ''failed to install daemon via gRPC enrollment'' (daemon_install (ee_daemon ee)
         ((default_options (pv_scope s))\<lparr>io_connect_url :=
           ''grpc://'' @ join_host_port (pv_host s) (pv_grpc_port s) @ ''/'' @ key\<rparr>)))))"

text \<open>
  The frame of both: the variable is set, the panel started, and, whatever happens then, the
  panel is stopped and the variable removed; the two deferred functions run in that order.
\<close>

definition with_running_panel ::
  "'w enroll_env \<Rightarrow> string \<Rightarrow> string \<Rightarrow> string \<Rightarrow> string \<Rightarrow> ('w, panel_state) step \<Rightarrow> ('w, panel_state) step" where
  "with_running_panel ee name v set_failed start_failed body =
     seqS (doS (\<lambda>s. liftP (wrapE set_failed (append_config_env_var (ee_os ee) (state_config_path s) name v))))
       (finallyS
         (seqS (doS (\<lambda>s. liftP (wrapE start_failed (panel_start (px_panel (ee_panel ee)) (pv_scope s)))))
           (finallyS body (\<lambda>s. quietly (panel_stop (px_panel (ee_panel ee)) (pv_scope s)))))
         (\<lambda>s. remove_config_env_var (ee_os ee) (state_config_path s) name))"

definition daemon_install_v4_legacy :: "'w enroll_env \<Rightarrow> ('w, panel_state) step" where
  "daemon_install_v4_legacy ee s m =
     (let token = ''gameapctl'' @ itoa_nat (ee_millis ee m) in
      with_running_panel ee setup_token_env token ''failed to set DAEMON_SETUP_TOKEN in config.env''
        ''failed to start GameAP for daemon enrollment'' (enroll_legacy ee token) s m)"

definition daemon_install_v4_grpc :: "'w enroll_env \<Rightarrow> ('w, panel_state) step" where
  "daemon_install_v4_grpc ee =
     seqS (updS (\<lambda>s. s\<lparr>pv_grpc_port := or_default (pv_grpc_port s) default_grpc_port\<rparr>))
       (letS (\<lambda>_. liftP (wrapE ''failed to generate gRPC setup key'' (generate_setup_key (ee_panel ee)))) (\<lambda>key.
         with_running_panel ee setup_key_env key ''failed to set DAEMON_SETUP_KEY in config.env''
           ''failed to start GameAP for daemon gRPC enrollment'' (enroll_grpc ee key)))"

definition daemon_install_v4 :: "'w enroll_env \<Rightarrow> ('w, panel_state) step" where
  "daemon_install_v4 ee = ifS (\<lambda>s _. pv_grpc_enabled s) (daemon_install_v4_grpc ee) (daemon_install_v4_legacy ee)"

section \<open>Lemmas\<close>

lemma env_line_entry:
  assumes "env_key name" "env_line_of name l"
  shows "\<exists>v. config_env_entry l = Some (name, v)"
proof -
  obtain v where v: "trim_space l = name @ ''='' @ v" using assms(2) by (auto simp: env_line_of_def has_prefix_iff)
  have "trimmed name" "CHR ''='' \<notin> set name" "name \<noteq> []"
    using assms(1) by (cases name; auto simp: env_key_def trimmed_def list_all_iff)+
  then show ?thesis
    using split_n2_char [of "CHR ''=''" name v] no_hash [OF assms(1)]
    by (auto simp: config_env_entry_def v trim_space_id)
qed

lemma map_of_filtered:
  "(\<And>l. l \<in> set ls \<Longrightarrow> \<not> P l \<Longrightarrow> \<exists>v. f l = Some (n, v)) \<Longrightarrow> k \<noteq> n \<Longrightarrow>
     map_of (rev (List.map_filter f (filter P ls))) k = map_of (rev (List.map_filter f ls)) k"
proof (induction ls)
  case (Cons l ls)
  then have IH: "map_of (rev (List.map_filter f (filter P ls))) k = map_of (rev (List.map_filter f ls)) k" by simp
  show ?case
  proof (cases "P l")
    case True
    with IH show ?thesis by (simp add: List.map_filter_simps map_add_def split: option.split)
  next
    case False
    with Cons.prems(1) [of l] obtain v where "f l = Some (n, v)" by auto
    with IH False Cons.prems(2) show ?thesis by (auto simp: List.map_filter_simps map_add_def split: option.split)
  qed
qed simp

lemma split_without:
  "split_char (CHR 0x0A) (without_env_var name c) =
     (let ls = filter (\<lambda>l. \<not> env_line_of name l) (split_char (CHR 0x0A) c) in if ls = [] then [[]] else ls)"
proof -
  let ?ls = "filter (\<lambda>l. \<not> env_line_of name l) (split_char (CHR 0x0A) c)"
  have "?ls \<noteq> [] \<Longrightarrow> split_char (CHR 0x0A) (join_with nl ?ls) = ?ls"
    unfolding nl_def by (rule split_char_join) (auto dest: split_char_no_sep)
  then show ?thesis by (auto simp: without_env_var_def Let_def)
qed

lemma entry_blank [simp]: "config_env_entry [] = None"
  by (simp add: config_env_entry_def)

lemma parse_without:
  assumes "env_key name" "k \<noteq> name"
  shows "parse_config_env_values (without_env_var name c) k = parse_config_env_values c k"
proof -
  let ?ls = "split_char (CHR 0x0A) c"
  have "map_of (rev (List.map_filter config_env_entry (filter (\<lambda>l. \<not> env_line_of name l) ?ls))) k =
      map_of (rev (List.map_filter config_env_entry ?ls)) k"
    by (rule map_of_filtered) (auto intro: env_line_entry [OF assms(1)] simp: assms(2))
  moreover have "List.map_filter config_env_entry (split_char (CHR 0x0A) (without_env_var name c)) =
      List.map_filter config_env_entry (filter (\<lambda>l. \<not> env_line_of name l) ?ls)"
    by (simp add: split_without Let_def List.map_filter_simps)
  ultimately show ?thesis by (simp add: parse_config_env_values_def)
qed

lemma no_env_line_Nil [simp]: "\<not> env_line_of name []"
  by (simp add: env_line_of_def trim_space_def trim_left_def trim_right_def has_prefix_iff)

lemma without_no_line:
  "l \<in> set (split_char (CHR 0x0A) (without_env_var name c)) \<Longrightarrow> \<not> env_line_of name l"
  by (auto simp: split_without Let_def split: if_splits)

lemma map_filter_append [simp]: "List.map_filter f (xs @ ys) = List.map_filter f xs @ List.map_filter f ys"
  by (simp add: List.map_filter_def)

lemma parse_appended:
  assumes "env_key name" "one_line v"
  shows "parse_config_env_values (c @ nl @ name @ ''='' @ v @ nl) = (parse_config_env_values c)(name \<mapsto> v)"
proof -
  have nonl: "CHR 0x0A \<notin> set (name @ ''='' @ v)"
    using assms by (auto simp: env_key_def one_line_def list_all_iff go_space_def)
  have "split_char (CHR 0x0A) (c @ nl @ name @ ''='' @ v @ nl) =
      split_char (CHR 0x0A) c @ split_char (CHR 0x0A) ((name @ ''='' @ v) @ nl)"
    using split_append_sep [of "CHR 0x0A" c "name @ ''='' @ v @ nl"] by (simp add: nl_def)
  also have "split_char (CHR 0x0A) ((name @ ''='' @ v) @ nl) = [name @ ''='' @ v, []]"
    using split_char_append [OF nonl, of "[]"] by (simp add: nl_def)
  finally show ?thesis
    by (simp add: parse_config_env_values_def List.map_filter_def entry_setting [OF assms, simplified])
qed

lemma append_keeps_order:
  assumes "append_config_env_var os path name v m = (Inr (), t)" "files m path = Some old" "fault os (OpRead path) m = None"
  shows "files t path = Some (without_env_var name old @ nl @ name @ ''='' @ v @ nl)"
  using assms
  by (auto simp: append_config_env_var_def read_file_def append_contents_to_file_def Let_def
      write_file_Inr wrapE_def with_message_def write_file_def split: option.splits sum.splits prod.splits if_splits)

lemma remove_clears:
  assumes "\<And>m. fault os (OpRead path) m = None" "\<And>m. fault os (OpWrite path) m = None"
    and "files (snd (remove_config_env_var os path name m)) path = Some c" "l \<in> set (split_char (CHR 0x0A) c)"
  shows "\<not> env_line_of name l"
proof (cases "files m path")
  case None
  with assms show ?thesis by (simp add: remove_config_env_var_def read_file_def)
next
  case (Some old)
  with assms have "c = without_env_var name old"
    by (simp add: remove_config_env_var_def read_file_def quietly_def write_file_def)
  with assms(4) show ?thesis by (blast dest: without_no_line)
qed

text \<open>A path on which the operating system refuses neither reading nor writing.\<close>

definition accessible :: "'w os_env \<Rightarrow> string \<Rightarrow> bool" where
  "accessible os path \<longleftrightarrow> (\<forall>m. fault os (OpRead path) m = None \<and> fault os (OpWrite path) m = None)"

lemma accessibleD:
  "accessible os path \<Longrightarrow> fault os (OpRead path) m = None"
  "accessible os path \<Longrightarrow> fault os (OpWrite path) m = None"
  by (simp_all add: accessible_def)

lemma append_outcome:
  assumes "accessible os path"
  shows "append_config_env_var os path name v m =
    (case files m path of
       None \<Rightarrow> (Inl (WithMessage (NotExist path) ''failed to open config.env''), m)
     | Some old \<Rightarrow> (Inr (), put_file path (without_env_var name old @ nl @ name @ ''='' @ v @ nl)
         (put_file path (without_env_var name old) m)))"
  using accessibleD [OF assms]
  by (simp add: append_config_env_var_def read_file_def append_contents_to_file_def write_file_def wrapE_def
      with_message_def split: option.split)

lemma with_running_panel_clears:
  assumes "accessible (ee_os ee) (state_config_path s)"
    and "with_running_panel ee name v e1 e2 body s m = Some ((t, e), u)"
    and "files u (state_config_path s) = Some c" "l \<in> set (split_char (CHR 0x0A) c)"
  shows "\<not> env_line_of name l"
proof (cases "files m (state_config_path s)")
  case None
  with assms(2,3) show ?thesis
    by (auto simp: with_running_panel_def seqS_def doS_def letS_def liftP_def append_outcome [OF assms(1)] wrapE_def
        with_message_def)
next
  case (Some old)
  define inner where "inner = seqS (doS (\<lambda>s. liftP (wrapE e2 (panel_start (px_panel (ee_panel ee)) (pv_scope s)))))
           (finallyS body (\<lambda>s. quietly (panel_stop (px_panel (ee_panel ee)) (pv_scope s))))"
  from assms(2) Some obtain w where "u = snd (remove_config_env_var (ee_os ee) (state_config_path s) name w)"
    by (auto simp: with_running_panel_def inner_def [symmetric] seqS_def doS_def letS_def liftP_def skipS_def
        append_outcome [OF assms(1)] wrapE_def with_message_def finallyS_def)
  with assms(3) have "files (snd (remove_config_env_var (ee_os ee) (state_config_path s) name w)) (state_config_path s) = Some c"
    by simp
  then show ?thesis by (rule remove_clears [OF accessibleD [OF assms(1)] _ assms(4)])
qed

text \<open>Requests \<open>i = 0, 1, \<dots>\<close> see the machine after \<open>i\<close> pauses.\<close>

lemma wait_succeeds:
  assumes "ee_invalid_url ee url = None"
  shows "(\<exists>t. wait_for_panel ee url n m = (Inr (), t)) \<longleftrightarrow>
    n = 0 \<or> (\<exists>i < n. ce_healthy (ee_check ee) url ((ee_sleep ee retry_delay ^^ i) m))"
proof (induction n arbitrary: m)
  case (Suc n)
  have split: "(\<exists>i < Suc n. P ((ee_sleep ee retry_delay ^^ i) m)) \<longleftrightarrow>
      P m \<or> (\<exists>i < n. P ((ee_sleep ee retry_delay ^^ i) (ee_sleep ee retry_delay m)))" for P :: "'a machine \<Rightarrow> bool"
    by (auto simp: less_Suc_eq_0_disj funpow_Suc_right simp del: funpow.simps)
  show ?case
    unfolding split using assms Suc.IH [of "ee_sleep ee retry_delay m"] by (cases "n = 0") simp_all
qed simp

lemma wait_pauses: "\<exists>i. (i = 0 \<or> i < n) \<and> snd (wait_for_panel ee url n m) = (ee_sleep ee retry_delay ^^ i) m"
proof (induction n arbitrary: m)
  case (Suc n)
  show ?case
  proof (cases "ee_invalid_url ee url = None \<and> \<not> ce_healthy (ee_check ee) url m \<and> n \<noteq> 0")
    case True
    from Suc.IH [of "ee_sleep ee retry_delay m"] obtain i where
      i: "i = 0 \<or> i < n" "snd (wait_for_panel ee url n (ee_sleep ee retry_delay m)) = (ee_sleep ee retry_delay ^^ Suc i) m"
      by (auto simp: funpow_Suc_right simp del: funpow.simps)
    with True show ?thesis by (intro exI [of _ "Suc i"]) auto
  next
    case False
    then show ?thesis by (intro exI [of _ 0]) (auto split: option.split)
  qed
qed auto

section \<open>Properties\<close>

text \<open>
  A variable that is put into \<open>config.env\<close> is read back with its value, all other settings
  as they were; when it is removed again the other settings are still as they were.
\<close>

theorem env_var_roundtrip:
  assumes "env_key name" and "one_line v" and "accessible os path" and "files m path = Some old"
  shows "\<exists>t new rest. append_config_env_var os path name v m = (Inr (), t) \<and> files t path = Some new \<and>
    parse_config_env_values new = (parse_config_env_values old)(name \<mapsto> v) \<and>
    files (snd (remove_config_env_var os path name t)) path = Some rest \<and>
    (\<forall>k. k \<noteq> name \<longrightarrow> parse_config_env_values rest k = parse_config_env_values old k)"
proof -
  let ?new = "without_env_var name old @ nl @ name @ ''='' @ v @ nl"
  have new: "parse_config_env_values ?new = (parse_config_env_values old)(name \<mapsto> v)"
    unfolding parse_appended [OF assms(1,2)] using parse_without [OF assms(1)] by (auto simp: fun_eq_iff)
  define t where "t = put_file path ?new (put_file path (without_env_var name old) m)"
  have "append_config_env_var os path name v m = (Inr (), t)" "files t path = Some ?new"
    by (simp_all add: append_outcome [OF assms(3)] assms(4) t_def)
  moreover have "files (snd (remove_config_env_var os path name t)) path = Some (without_env_var name ?new)"
    using accessibleD [OF assms(3)] by (simp add: remove_config_env_var_def read_file_def write_file_def quietly_def t_def)
  moreover have "parse_config_env_values (without_env_var name ?new) k = parse_config_env_values old k" if "k \<noteq> name" for k
    using that by (simp only: parse_without [OF assms(1) that] new) simp
  ultimately show ?thesis using new by blast
qed

theorem env_var_roundtrip_witness:
  "\<exists>t new rest. append_config_env_var calm_os ''/c/config.env'' setup_key_env ''00ff'' panel_machine = (Inr (), t) \<and>
    files t ''/c/config.env'' = Some new \<and>
    parse_config_env_values new =
      (parse_config_env_values (render_config_env example_panel_config))(setup_key_env \<mapsto> ''00ff'') \<and>
    files (snd (remove_config_env_var calm_os ''/c/config.env'' setup_key_env t)) ''/c/config.env'' = Some rest \<and>
    (\<forall>k. k \<noteq> setup_key_env \<longrightarrow> parse_config_env_values rest k =
      parse_config_env_values (render_config_env example_panel_config) k)"
proof (rule env_var_roundtrip)
  show "env_key setup_key_env" "one_line ''00ff''" by code_simp+
  show "accessible calm_os ''/c/config.env''" by (simp add: accessible_def calm_os_def)
  show "files panel_machine ''/c/config.env'' = Some (render_config_env example_panel_config)"
    by (simp add: panel_machine_def)
qed

text \<open>
  C23: the wait for the panel is bounded: after \<open>i < n\<close> pauses it returns, and it succeeds exactly
  if one of the \<open>n\<close> requests found the panel healthy.
\<close>

theorem panel_wait_bounded:
  assumes "ee_invalid_url ee (host @ ''/health'') = None" and "0 < n"
  shows "(\<exists>i < n. snd (wait_for_panel_health_check ee host n m) = (ee_sleep ee retry_delay ^^ i) m) \<and>
    (fst (wait_for_panel_health_check ee host n m) = Inr () \<longleftrightarrow>
     (\<exists>i < n. ce_healthy (ee_check ee) (host @ ''/health'') ((ee_sleep ee retry_delay ^^ i) m)))"
proof -
  have "\<exists>i < n. snd (wait_for_panel ee (host @ ''/health'') n m) = (ee_sleep ee retry_delay ^^ i) m"
    using wait_pauses [of n ee "host @ ''/health''" m] assms(2) by auto
  moreover have "fst (wait_for_panel ee (host @ ''/health'') n m) = Inr () \<longleftrightarrow>
      (\<exists>t. wait_for_panel ee (host @ ''/health'') n m = (Inr (), t))"
    by (metis fst_conv surjective_pairing)
  ultimately show ?thesis
    using wait_succeeds [OF assms(1), of n m] assms(2) by (simp add: wait_for_panel_health_check_def)
qed


text \<open>A panel without systemd that starts but never answers; no file is refused.\<close>

definition silent_host :: "nat host" where
  "silent_host = rootless_host"

definition silent_update :: "nat update_env" where
  "silent_update =
     \<lparr>ue_host = silent_host, ue_yaml = ue_yaml (example_update ''two''), ue_codec = ue_codec (example_update ''two''),
      ue_cdn = (\<lambda>_. Map.empty), ue_find = (\<lambda>_. failE (Err ''no route'')), ue_get = (\<lambda>_ _. failE (Err ''no route'')),
      ue_temp_dir = ''/tmp'', ue_mkdtemp = (\<lambda>_. retE ''/tmp/x''), ue_remove_all = (\<lambda>_. retE ()), ue_copy = (\<lambda>_ _. retE ()),
      ue_apply = (\<lambda>_ _. retE ()), ue_load_pm = retE (), ue_pm_install = (\<lambda>_. retE ()), ue_update_path = (\<lambda>m. m),
      ue_go_build = (\<lambda>_ _. retE ()), ue_tcp_dial = (\<lambda>_. failE ConnectionRefused), ue_tls_probe = (\<lambda>_ _ _ _. retE ()),
      ue_get_token = (\<lambda>_ _. failE ConnectionRefused), ue_sleep = (\<lambda>_ m. m\<lparr>world := world m + 1\<rparr>), ue_now = world\<rparr>"

definition silent_install :: "nat install_env" where
  "silent_install =
     \<lparr>ie_update = silent_update, ie_users = px_users rootless_env, ie_fs = px_fs rootless_env, ie_info = example_info,
      ie_goos = ''linux'', ie_int_size = 64, ie_init_name = (\<lambda>_. None), ie_load_pm = (\<lambda>_. Inr willing_pm),
      ie_resolve = \<lparr>tls_probe = (\<lambda>_. retE None), local_ips = (\<lambda>_. []), suggest = (\<lambda>_ m. m)\<rparr>,
      ie_hostname = (\<lambda>_. Inr ''node''), ie_new_key = retE ''new'', ie_pem_key = (\<lambda>k. k), ie_pem_decode = Some,
      ie_parse_pkcs1 = Inr, ie_parse_pkcs8 = Inr, ie_new_csr = (\<lambda>k _. retE k),
      ie_http_get = (\<lambda>_. failE (Err ''no route'')), ie_detect_ips = (\<lambda>_. []), ie_join_url = (\<lambda>u ps. Inr (concat (u # ps))),
      ie_post = (\<lambda>_ _. failE (Err ''no route'')), ie_enroll = (\<lambda>_ m. (([], None), m)), ie_order = (\<lambda>_. []),
      ie_marshal = (\<lambda>_. Inr [])\<rparr>"

definition silent_env :: "nat enroll_env" where
  "silent_env =
     \<lparr>ee_check = (example_checks [])\<lparr>ce_db := offline_env\<lparr>de_panel := rootless_env\<lparr>px_random := (\<lambda>n. retE (replicate n CHR ''r''))\<rparr>\<rparr>,
        ce_healthy := (\<lambda>_ m. world m = 3)\<rparr>,
      ee_daemon = silent_install, ee_invalid_url = (\<lambda>_. None), ee_millis = world\<rparr>"

theorem panel_wait_bounded_witness:
  "(\<exists>i < 30. snd (wait_for_panel_health_check silent_env ''http://h:80'' 30 (reading 0)) =
      (ee_sleep silent_env retry_delay ^^ i) (reading 0)) \<and>
   (fst (wait_for_panel_health_check silent_env ''http://h:80'' 30 (reading 0)) = Inr () \<longleftrightarrow>
    (\<exists>i < 30. ce_healthy (ee_check silent_env) (''http://h:80'' @ ''/health'') ((ee_sleep silent_env retry_delay ^^ i) (reading 0))))"
  by (rule panel_wait_bounded) (simp_all add: silent_env_def)

text \<open>
  C22: when the installation of the daemon has returned, in whatever way, no line of \<open>config.env\<close>
  sets the key with which a daemon can enrol.
\<close>

theorem setup_key_never_left:
  assumes "accessible (ee_os ee) (state_config_path s)"
    and "\<forall>w. \<exists>bs u. px_random (ee_panel ee) setup_key_length w = (Inr bs, u) \<and> length bs = setup_key_length"
    and "daemon_install_v4 ee s m = Some ((t, e), u)" and "files u (state_config_path s) = Some c"
    and "l \<in> set (split_char (CHR 0x0A) c)"
  shows "\<not> env_line_of (if pv_grpc_enabled s then setup_key_env else setup_token_env) l"
proof (cases "pv_grpc_enabled s")
  case False
  with assms(3) have "with_running_panel ee setup_token_env (''gameapctl'' @ itoa_nat (ee_millis ee m))
      ''failed to set DAEMON_SETUP_TOKEN in config.env'' ''failed to start GameAP for daemon enrollment''
      (enroll_legacy ee (''gameapctl'' @ itoa_nat (ee_millis ee m))) s m = Some ((t, e), u)"
    by (simp add: daemon_install_v4_def ifS_def daemon_install_v4_legacy_def Let_def)
  from with_running_panel_clears [OF assms(1) this assms(4,5)] False show ?thesis by simp
next
  case True
  let ?s = "s\<lparr>pv_grpc_port := or_default (pv_grpc_port s) default_grpc_port\<rparr>"
  have path: "state_config_path ?s = state_config_path s" by (simp add: state_config_path_def)
  obtain bs w where "px_random (ee_panel ee) setup_key_length m = (Inr bs, w)" "length bs = setup_key_length"
    using assms(2) by blast
  then have "daemon_install_v4 ee s m =
      with_running_panel ee setup_key_env (hex_encode bs) ''failed to set DAEMON_SETUP_KEY in config.env''
        ''failed to start GameAP for daemon gRPC enrollment'' (enroll_grpc ee (hex_encode bs)) ?s w"
    using True by (simp add: daemon_install_v4_def ifS_def daemon_install_v4_grpc_def seqS_def updS_def letS_def liftP_def
        generate_setup_key_def bindE_def wrapE_def with_message_def retE_def)
  with assms(1,3-5) have "\<not> env_line_of setup_key_env l"
    unfolding path [symmetric] by (metis with_running_panel_clears)
  with True show ?thesis by simp
qed


definition enrolling_state :: panel_state where
  "enrolling_state = (example_state ''localhost'')\<lparr>pv_grpc_enabled := True, pv_with_daemon := True\<rparr>"

theorem setup_key_never_left_witness:
  "\<exists>t e u c. daemon_install_v4 silent_env enrolling_state panel_machine = Some ((t, e), u) \<and>
     files u ''/c/config.env'' = Some c \<and> (\<forall>l \<in> set (split_char (CHR 0x0A) c). \<not> env_line_of setup_key_env l)"
proof -
  have path: "state_config_path enrolling_state = ''/c/config.env''" by code_simp
  have "case daemon_install_v4 silent_env enrolling_state panel_machine of
      None \<Rightarrow> False | Some (_, u) \<Rightarrow> files u ''/c/config.env'' \<noteq> None" by code_simp
  then obtain t e u c where run: "daemon_install_v4 silent_env enrolling_state panel_machine = Some ((t, e), u)"
    "files u (state_config_path enrolling_state) = Some c"
    by (auto simp: path split: option.splits)
  have "accessible (ee_os silent_env) (state_config_path enrolling_state)"
    by (simp add: accessible_def silent_env_def offline_env_def example_checks_def rootless_env_def rootless_host_def
        stubborn_host_def calm_os_def)
  moreover have "\<forall>w. \<exists>bs u. px_random (ee_panel silent_env) setup_key_length w = (Inr bs, u) \<and> length bs = setup_key_length"
    by (simp add: silent_env_def example_checks_def offline_env_def rootless_env_def retE_def)
  moreover have "pv_grpc_enabled enrolling_state" by (simp add: enrolling_state_def)
  ultimately have "\<forall>l \<in> set (split_char (CHR 0x0A) c). \<not> env_line_of setup_key_env l"
    using setup_key_never_left [OF _ _ run] by simp
  with run show ?thesis unfolding path by blast
qed

end
