(* ===== verification/PanelControl.thy ===== *)
theory PanelControl
  imports PanelService InstallState
begin

text \<open>
  The commands that start, stop, restart and look at the panel and the daemon
  (\<open>internal/actions/panel\<close> and \<open>internal/actions/daemon\<close>): they find out which installation is
  meant, use the service manager and check by the process list that it did what it said.
\<close>

record 'w control_env =
  co_panel :: "'w panel_host"
  co_goos :: string
  co_panel_codec :: "panel_install_record codec"
  co_daemon_codec :: "daemon_install_record codec"

abbreviation co_host :: "'w control_env \<Rightarrow> 'w host" where "co_host co \<equiv> ph_host (co_panel co)"
abbreviation co_os :: "'w control_env \<Rightarrow> 'w os_env" where "co_os co \<equiv> ho_os (co_host co)"
abbreviation co_home :: "'w control_env \<Rightarrow> string option" where "co_home co \<equiv> ho_home (co_host co)"

section \<open>The installation that is meant\<close>

text \<open>
  The scope that was recorded, if the state can be loaded. Loading it may create the directory
  of the state.
\<close>

definition recorded_scope :: "panel_install_record result \<Rightarrow> string option" where
  "recorded_scope r = (case r of Inl _ \<Rightarrow> None | Inr st \<Rightarrow> Some (pir_scope st))"

definition load_panel_record :: "'w control_env \<Rightarrow> ('w, panel_install_record) sys" where
  "load_panel_record co = load_panel_install_state (co_os co) (co_home co) (co_panel_codec co)"

definition resolve_command_scope :: "'w control_env \<Rightarrow> string \<Rightarrow> ('w, panel_paths) sys" where
  "resolve_command_scope co flag m =
     (if flag \<noteq> [] then (resolve_panel_scope (co_goos co) (co_home co) None m flag, m)
      else case load_panel_record co m of
        (r, t) \<Rightarrow> (resolve_panel_scope (co_goos co) (co_home co) (recorded_scope r) t flag, t))"

text \<open>The daemon commands know only the recorded scope; they take the default one without it.\<close>

definition recorded_daemon_scope :: "'w control_env \<Rightarrow> 'w machine \<Rightarrow> string \<times> 'w machine" where
  "recorded_daemon_scope co m =
     (case load_daemon_install_state (co_os co) (co_home co) (co_daemon_codec co) m of
        (Inl _, t) \<Rightarrow> ([], t)
      | (Inr st, t) \<Rightarrow> (dir_scope st, t))"

section \<open>The checks\<close>

definition found_process :: "string \<Rightarrow> string \<Rightarrow> process option result \<Rightarrow> unit result" where
  "found_process failed absent r =
     (case r of
        Inl e \<Rightarrow> Inl (WithMessage e failed)
      | Inr None \<Rightarrow> Inl (Err absent)
      | Inr (Some _) \<Rightarrow> Inr ())"

definition no_process :: "string \<Rightarrow> string \<Rightarrow> process option result \<Rightarrow> unit result" where
  "no_process failed present r =
     (case r of
        Inl e \<Rightarrow> Inl (WithMessage e failed)
      | Inr None \<Rightarrow> Inr ()
      | Inr (Some _) \<Rightarrow> Inl (Err present))"

definition await_process :: "'w host \<Rightarrow> string \<Rightarrow> string \<Rightarrow> string \<Rightarrow> ('w, unit) sys" where
  "await_process h name failed absent m =
     (case wait_for_process h name wait_retries m of (r, t) \<Rightarrow> (found_process failed absent r, t))"

definition absent_process :: "'w host \<Rightarrow> string \<Rightarrow> string \<Rightarrow> string \<Rightarrow> ('w, unit) sys" where
  "absent_process h name failed present m = (no_process failed present (find_process_by_name h name m), m)"

section \<open>The commands of the panel\<close>

definition no_panel_process :: string where "no_panel_process = ''failed to find started gameap process''"

definition with_binary :: "panel_paths \<Rightarrow> ('w, unit) sys" where
  "with_binary ps m = (check_binary_installed m ps, m)"

definition handle_panel_start :: "'w control_env \<Rightarrow> string \<Rightarrow> ('w, unit) sys" where
  "handle_panel_start co flag =
     bindE (resolve_command_scope co flag) (\<lambda>ps.
     bindE (with_binary ps) (\<lambda>_.
     bindE (wrapE ''failed to start gameap'' (panel_start (co_panel co) (pp_scope ps))) (\<lambda>_.
       await_process (co_host co) panel_process_name no_panel_process ''started gameap process not found'')))"

definition handle_panel_restart :: "'w control_env \<Rightarrow> string \<Rightarrow> ('w, unit) sys" where
  "handle_panel_restart co flag =
     bindE (resolve_command_scope co flag) (\<lambda>ps.
     bindE (with_binary ps) (\<lambda>_.
     bindE (wrapE ''failed to restart gameap'' (panel_restart (co_panel co) (pp_scope ps))) (\<lambda>_.
       await_process (co_host co) panel_process_name no_panel_process ''started gameap process not found'')))"

definition handle_panel_stop :: "'w control_env \<Rightarrow> string \<Rightarrow> ('w, unit) sys" where
  "handle_panel_stop co flag =
     bindE (resolve_command_scope co flag) (\<lambda>ps.
     bindE (wrapE ''failed to stop gameap'' (panel_stop (co_panel co) (pp_scope ps))) (\<lambda>_.
       absent_process (co_host co) panel_process_name no_panel_process ''GameAP process already running''))"

text \<open>The scope is only shown.\<close>

definition handle_panel_status :: "'w control_env \<Rightarrow> string \<Rightarrow> ('w, unit) sys" where
  "handle_panel_status co flag =
     bindE (quietly (resolve_command_scope co flag)) (\<lambda>_ m.
       (found_process no_panel_process ''started gameap process not found''
          (find_process_by_name (co_host co) panel_process_name m), m))"

section \<open>The commands of the daemon\<close>

definition no_daemon_process :: string where "no_daemon_process = ''failed to find daemon process''"

definition handle_daemon_start :: "'w control_env \<Rightarrow> ('w, unit) sys" where
  "handle_daemon_start co m =
     (case recorded_daemon_scope co m of (scope, t) \<Rightarrow>
        bindE (wrapE ''failed to start daemon'' (daemon_start (co_host co) scope)) (\<lambda>_.
          await_process (co_host co) daemon_process_name no_daemon_process ''daemon process not found'') t)"

definition handle_daemon_restart :: "'w control_env \<Rightarrow> ('w, unit) sys" where
  "handle_daemon_restart co m =
     (case recorded_daemon_scope co m of (scope, t) \<Rightarrow>
        bindE (wrapE ''failed to restart daemon'' (daemon_restart (co_host co) scope)) (\<lambda>_.
          await_process (co_host co) daemon_process_name no_daemon_process ''daemon process not found'') t)"

definition handle_daemon_stop :: "'w control_env \<Rightarrow> ('w, unit) sys" where
  "handle_daemon_stop co m =
     (case recorded_daemon_scope co m of (scope, t) \<Rightarrow>
        bindE (wrapE ''failed to stop daemon'' (daemon_stop (co_host co) scope)) (\<lambda>_.
          absent_process (co_host co) daemon_process_name no_daemon_process ''daemon process already running'') t)"

definition handle_daemon_status :: "'w control_env \<Rightarrow> ('w, unit) sys" where
  "handle_daemon_status co = wrapE ''failed to get daemon status'' (daemon_status (co_host co))"

section \<open>Lemmas\<close>

text \<open>Whether a process of that name belongs to the current user.\<close>

definition runs_now :: "'w host \<Rightarrow> string \<Rightarrow> 'w machine \<Rightarrow> bool" where
  "runs_now h name m \<longleftrightarrow> (\<exists>ps p. ho_processes h m = Inr ps \<and> p \<in> set ps \<and> proc_name p = Some name \<and> belongs_to_current_user h p)"

lemma first_some_process:
  "first_some (\<lambda>p. if P p then Some p else None) ps = Some p \<Longrightarrow> p \<in> set ps \<and> P p"
  "first_some (\<lambda>p. if P p then Some p else None) ps = None \<longleftrightarrow> (\<forall>p \<in> set ps. \<not> P p)"
  by (induction ps) (auto split: if_splits)

lemma find_process_runs:
  "find_process_by_name h name m = Inr (Some p) \<Longrightarrow> runs_now h name m"
  "find_process_by_name h name m = Inr None \<Longrightarrow> \<not> runs_now h name m"
  by (auto simp: find_process_by_name_def runs_now_def first_some_process(2) split: sum.splits dest!: first_some_process(1))

lemma found_process_iff: "found_process a b (find_process_by_name h name m) = Inr () \<longleftrightarrow> runs_now h name m"
proof (cases "find_process_by_name h name m")
  case (Inl e)
  then have "\<not> runs_now h name m" by (auto simp: find_process_by_name_def runs_now_def split: sum.splits)
  with Inl show ?thesis by (simp add: found_process_def)
next
  case (Inr q)
  then show ?thesis using find_process_runs [of h name m] by (cases q) (auto simp: found_process_def)
qed

lemma wait_finds:
  "wait_for_process h name n m = (Inr (Some p), t) \<Longrightarrow> runs_now h name t"
  by (induction n arbitrary: m) (auto split: sum.splits option.splits if_splits dest: find_process_runs)

lemma await_process_runs: "await_process h name a b m = (Inr (), t) \<Longrightarrow> runs_now h name t"
  by (auto simp: await_process_def found_process_def split: prod.splits sum.splits option.splits dest: wait_finds)

lemma absent_process_stopped: "absent_process h name a b m = (Inr (), t) \<Longrightarrow> t = m \<and> \<not> runs_now h name t"
  by (auto simp: absent_process_def no_process_def split: sum.splits option.splits dest: find_process_runs)

text \<open>What runs on the host leaves a file as it is.\<close>

definition host_leaves :: "'w panel_host \<Rightarrow> string \<Rightarrow> bool" where
  "host_leaves ph p \<longleftrightarrow>
     (\<forall>c. leaves p (ho_exec (ph_host ph) c)) \<and> (\<forall>q. leaves p (ho_terminate (ph_host ph) q) \<and> leaves p (ho_kill (ph_host ph) q)) \<and>
     (\<forall>exe d. leaves p (ho_start_process (ph_host ph) exe d)) \<and> (\<forall>m. files (ho_tick (ph_host ph) m) p = files m p) \<and>
     (\<forall>exe d env. leaves p (ph_start_process ph exe d env))"

lemma panel_run_leaves:
  "panel_run ph s a b \<Longrightarrow> host_leaves ph p \<Longrightarrow> panel_unit_path (ph_host ph) s \<noteq> Some p \<Longrightarrow> files b p = files a p"
proof (induction rule: panel_run.induct)
  case (panel_run_host a b c)
  have "effects_leave (ph_host ph) (panel_effect (ph_host ph) s) p"
    using panel_run_host.prems by (auto simp: effects_leave_def host_leaves_def panel_unit_path_def split: sum.splits)
  with panel_run_host host_run_leaves show ?case by metis
next
  case (panel_run_spawn a b exe env)
  then have "leaves p (ph_start_process ph exe default_data_path env)" by (simp add: host_leaves_def)
  then have "files (snd (ph_start_process ph exe default_data_path env b)) p = files b p" by (simp add: leaves_def keeps_def)
  with panel_run_spawn show ?case by simp
qed simp_all

lemma panel_stop_leaves:
  "host_leaves ph p \<Longrightarrow> panel_unit_path (ph_host ph) (scope_or_default s) \<noteq> Some p \<Longrightarrow> leaves p (panel_stop ph s)"
  using panel_runs_ops(2) [of ph s] panel_run_leaves by (fastforce simp: leaves_def keeps_def)

lemma panel_start_leaves:
  "host_leaves ph p \<Longrightarrow> panel_unit_path (ph_host ph) (scope_or_default s) \<noteq> Some p \<Longrightarrow> leaves p (panel_start ph s)"
  using panel_runs_ops(1) [of ph s] panel_run_leaves by (fastforce simp: leaves_def keeps_def)

lemma load_record_leaves: "leaves p (load_panel_record co)"
  unfolding load_panel_record_def load_panel_install_state_def load_state_file_def Let_def
  by (intro leaves_bindE leaves_basic leaves_state_directory leaves_read) (auto split: sum.split)

lemma resolved_paths:
  assumes "resolve_command_scope co flag m = (Inr ps, t)"
  shows "\<exists>s. panel_paths_for_scope (co_home co) s = Inr ps"
  using assms
  by (auto simp: resolve_command_scope_def resolve_panel_scope_def recorded_scope_def
      split: if_splits sum.splits option.splits list.splits prod.splits)

lemma paths_unit:
  assumes "panel_paths_for_scope (ho_home h) s = Inr ps"
  shows "panel_unit_path h s = Some (pp_systemd_unit_path ps)"
  using assms by (auto simp: panel_unit_path_def own_scope_def panel_paths_for_scope_def split: if_splits)

lemma resolve_scope_leaves: "leaves p (resolve_command_scope co flag)"
  by (rule leavesI) (auto simp: resolve_command_scope_def split: prod.split dest: leavesD [OF load_record_leaves])

section \<open>Properties\<close>

text \<open>
  The commands report what they have seen: when starting or restarting succeeds there is a
  process of the user with that name, when stopping succeeds there is none, and the status
  succeeds exactly if there is one.
\<close>

theorem control_reports_what_runs:
  "(handle_panel_start co flag m = (Inr (), t) \<longrightarrow> runs_now (co_host co) panel_process_name t) \<and>
   (handle_panel_restart co flag m = (Inr (), t) \<longrightarrow> runs_now (co_host co) panel_process_name t) \<and>
   (handle_panel_stop co flag m = (Inr (), t) \<longrightarrow> \<not> runs_now (co_host co) panel_process_name t) \<and>
   (fst (handle_panel_status co flag m) = Inr () \<longleftrightarrow>
      runs_now (co_host co) panel_process_name (snd (handle_panel_status co flag m))) \<and>
   (handle_daemon_start co m = (Inr (), t) \<longrightarrow> runs_now (co_host co) daemon_process_name t) \<and>
   (handle_daemon_restart co m = (Inr (), t) \<longrightarrow> runs_now (co_host co) daemon_process_name t) \<and>
   (handle_daemon_stop co m = (Inr (), t) \<longrightarrow> \<not> runs_now (co_host co) daemon_process_name t)"
proof (intro conjI impI)
  show "runs_now (co_host co) panel_process_name t" if "handle_panel_start co flag m = (Inr (), t)"
    using that by (auto simp: handle_panel_start_def bindE_Inr_iff dest: await_process_runs)
  show "runs_now (co_host co) panel_process_name t" if "handle_panel_restart co flag m = (Inr (), t)"
    using that by (auto simp: handle_panel_restart_def bindE_Inr_iff dest: await_process_runs)
  show "\<not> runs_now (co_host co) panel_process_name t" if "handle_panel_stop co flag m = (Inr (), t)"
    using that by (auto simp: handle_panel_stop_def bindE_Inr_iff dest: absent_process_stopped)
  show "runs_now (co_host co) daemon_process_name t" if "handle_daemon_start co m = (Inr (), t)"
    using that by (auto simp: handle_daemon_start_def bindE_Inr_iff split: prod.splits dest: await_process_runs)
  show "runs_now (co_host co) daemon_process_name t" if "handle_daemon_restart co m = (Inr (), t)"
    using that by (auto simp: handle_daemon_restart_def bindE_Inr_iff split: prod.splits dest: await_process_runs)
  show "\<not> runs_now (co_host co) daemon_process_name t" if "handle_daemon_stop co m = (Inr (), t)"
    using that by (auto simp: handle_daemon_stop_def bindE_Inr_iff split: prod.splits dest: absent_process_stopped)
  define u where "u = snd (resolve_command_scope co flag m)"
  have st: "handle_panel_status co flag m = (found_process no_panel_process ''started gameap process not found''
      (find_process_by_name (co_host co) panel_process_name u), u)"
    by (simp add: handle_panel_status_def bindE_def quietly_def u_def)
  show "fst (handle_panel_status co flag m) = Inr () \<longleftrightarrow>
      runs_now (co_host co) panel_process_name (snd (handle_panel_status co flag m))"
    unfolding st by (simp add: found_process_iff)
qed


text \<open>A user whose systemd manager starts and stops what it is told to.\<close>

definition obedient_host :: "nat host" where
  "obedient_host = stubborn_host
     \<lparr>ho_exec := (\<lambda>args m. (Inr (), m\<lparr>world := if ''stop'' \<in> set args then 0 else if ''start'' \<in> set args then 1 else world m\<rparr>)),
      ho_processes := (\<lambda>m. Inr (if world m = 1 then [\<lparr>proc_pid = 9, proc_name = Some panel_process_name, proc_uids = Some [ho_euid stubborn_host]\<rparr>] else []))\<rparr>"

definition obedient_control :: "nat control_env" where
  "obedient_control =
     \<lparr>co_panel = \<lparr>ph_host = obedient_host, ph_environ = [], ph_start_process = (\<lambda>_ _ _. retE 7), ph_expired = (\<lambda>_ _. False)\<rparr>,
      co_goos = ''linux'', co_panel_codec = one_panel_json,
      co_daemon_codec = \<lparr>encode_json = (\<lambda>_. Inr ''daemon''), decode_json = (\<lambda>_. Inl (Err ''unsupported''))\<rparr>\<rparr>"

definition panel_host_machine :: "nat machine" where
  "panel_host_machine =
     \<lparr>files = (case panel_paths_for_scope (ho_home obedient_host) scope_user of
        Inl _ \<Rightarrow> Map.empty
      | Inr ps \<Rightarrow> [pp_binary_path ps \<mapsto> ''elf'', pp_systemd_unit_path ps \<mapsto> ''unit'']),
      dirs = {user_manager_socket obedient_host}, world = 0, service_memo = None\<rparr>"

theorem control_reports_what_runs_witness:
  "\<exists>t u. handle_panel_start obedient_control scope_user panel_host_machine = (Inr (), t) \<and>
     runs_now obedient_host panel_process_name t \<and>
     handle_panel_stop obedient_control scope_user t = (Inr (), u) \<and> \<not> runs_now obedient_host panel_process_name u"
proof -
  obtain t where t: "handle_panel_start obedient_control scope_user panel_host_machine = (Inr (), t)"
    and stop: "fst (handle_panel_stop obedient_control scope_user t) = Inr ()"
  proof -
    let ?t = "snd (handle_panel_start obedient_control scope_user panel_host_machine)"
    have "fst (handle_panel_start obedient_control scope_user panel_host_machine) = Inr ()"
      "fst (handle_panel_stop obedient_control scope_user ?t) = Inr ()" by code_simp+
    then show thesis using that [of ?t] by (simp add: prod_eq_iff)
  qed
  from stop obtain u where u: "handle_panel_stop obedient_control scope_user t = (Inr (), u)" by (metis prod.collapse)
  have "co_host obedient_control = obedient_host" by (simp add: obedient_control_def)
  with control_reports_what_runs [of obedient_control scope_user panel_host_machine t]
    control_reports_what_runs [of obedient_control scope_user t u] t u show ?thesis by auto
qed

end
