(* ===== verification/PanelPassword.thy ===== *)
theory PanelPassword
  imports PanelChecks PanelControl
begin

text \<open>
  Changing the password of a panel user (\<open>internal/actions/panel/changepassword\<close>): the database
  of \<open>config.env\<close> is opened, the user looked up and the hash of the password written. The
  installation of the panel uses it for the administrator.
\<close>

section \<open>Environment\<close>

text \<open>
  \<open>we_user_id\<close> is the query for the user, \<open>None\<close> when there is no row; \<open>we_update\<close> the update
  with its arguments and what \<open>RowsAffected\<close> gives; \<open>we_hash\<close> is bcrypt.
\<close>

record 'w password_env =
  we_control :: "'w control_env"
  we_sql :: "'w sql_lib"
  we_user_id :: "db_handle \<Rightarrow> string \<Rightarrow> string \<Rightarrow> ('w, int option) sys"
  we_update :: "db_handle \<Rightarrow> string \<Rightarrow> string list \<Rightarrow> ('w, int result) sys"
  we_hash :: "string \<Rightarrow> ('w, string) sys"
  we_now :: "'w machine \<Rightarrow> string"
  we_terminal :: "'w machine \<Rightarrow> bool"
  we_read_string :: "('w, string) sys"
  we_read_password :: "('w, string) sys"

abbreviation we_os :: "'w password_env \<Rightarrow> 'w os_env" where "we_os we \<equiv> co_os (we_control we)"

section \<open>The configuration\<close>

definition trimmed_entry :: "string \<Rightarrow> (string \<times> string) option" where
  "trimmed_entry line =
     (let l = trim_space line in
      if l = [] \<or> has_prefix l ''#'' then None
      else case split_n2 ''='' l of [k, v] \<Rightarrow> Some (trim_space k, trim_space v) | _ \<Rightarrow> None)"

definition parse_config :: "'w os_env \<Rightarrow> string \<Rightarrow> 'w machine \<Rightarrow> (string \<rightharpoonup> string) result" where
  "parse_config os path m =
     (case fst (read_file os path m) of
        Inl e \<Rightarrow>
          if is_not_exist e then Inl (Err (''config file not found at '' @ path))
          else Inl (WithMessage e ''failed to open config file'')
      | Inr content \<Rightarrow>
          if list_ex (\<lambda>l. 65536 \<le> length l) (raw_lines content)
          then Inl (WithMessage (Err ''bufio.Scanner: token too long'') ''failed to read config file'')
          else Inr (map_of (rev (List.map_filter trimmed_entry (scan_lines content)))))"

definition config_path_of :: "string \<Rightarrow> string" where
  "config_path_of goos = (if goos = ''windows'' then ''C:'' @ [CHR 0x5C] @ ''gameap'' @ [CHR 0x5C] @ ''web'' @ [CHR 0x5C] @ ''config.env''
     else path_join [''/etc/gameap'', ''config.env''])"

section \<open>The database\<close>

definition is_postgres :: "string \<Rightarrow> bool" where
  "is_postgres driver \<longleftrightarrow> driver = ''postgres'' \<or> driver = ''postgresql'' \<or> driver = ''pgsql''"

definition mysql_dsn :: "string \<Rightarrow> string" where
  "mysql_dsn dsn =
     (if contains_str dsn ''parseTime='' then dsn
      else if contains_str dsn ''?'' then dsn @ ''&parseTime=true''
      else dsn @ ''?parseTime=true'')"

definition connection_handle :: "string \<Rightarrow> string \<Rightarrow> db_handle result" where
  "connection_handle driver dsn =
     (if driver = ''mysql'' then Inr \<lparr>dh_driver = ''mysql'', dh_dsn = mysql_dsn dsn\<rparr>
      else if is_postgres driver then Inr \<lparr>dh_driver = ''pgx'', dh_dsn = dsn\<rparr>
      else if driver = ''sqlite'' then Inr \<lparr>dh_driver = ''sqlite'', dh_dsn = dsn\<rparr>
      else Inl (Err (''unsupported database driver: '' @ driver)))"

definition connect_database :: "'w sql_lib \<Rightarrow> string \<Rightarrow> string \<Rightarrow> ('w, db_handle) sys" where
  "connect_database sl driver dsn m =
     (case connection_handle driver dsn of
        Inl e \<Rightarrow> (Inl e, m)
      | Inr db \<Rightarrow>
          (case sl_open sl db of
             Some e \<Rightarrow> (Inl (WithMessage e ''failed to open database connection''), m)
           | None \<Rightarrow>
               catchE (bindE (sl_ping sl db) (\<lambda>_. retE db)) (\<lambda>e.
                 bindE (quietly (sl_close sl db)) (\<lambda>_. failE (WithMessage e ''failed to ping database''))) m))"

definition select_user :: "bool \<Rightarrow> string" where
  "select_user postgres = (if postgres then ''SELECT id FROM users WHERE login = $1'' else ''SELECT id FROM users WHERE login = ?'')"

definition update_user :: "bool \<Rightarrow> string" where
  "update_user postgres =
     (if postgres then ''UPDATE users SET password = $1, updated_at = $2 WHERE login = $3''
      else ''UPDATE users SET password = ?, updated_at = ? WHERE login = ?'')"

definition set_password :: "'w password_env \<Rightarrow> bool \<Rightarrow> db_handle \<Rightarrow> string \<Rightarrow> string \<Rightarrow> ('w, unit) sys" where
  "set_password we postgres db username password =
     bindE (wrapE ''failed to query user'' (we_user_id we db (select_user postgres) username)) (\<lambda>found.
       case found of
         None \<Rightarrow> failE (Err (''user '' @ quote @ username @ quote @ '' not found in database''))
       | Some _ \<Rightarrow>
           bindE (wrapE ''failed to hash password'' (we_hash we password)) (\<lambda>hash m.
             bindE (wrapE ''failed to update password''
               (we_update we db (update_user postgres) [hash, we_now we m, username])) (\<lambda>rows.
               case rows of
                 Inl e \<Rightarrow> failE (WithMessage e ''failed to get rows affected'')
               | Inr n \<Rightarrow> if n = 0 then failE (Err ''no rows were updated'') else retE ()) m))"

definition change_in_database :: "'w password_env \<Rightarrow> string \<Rightarrow> string \<Rightarrow> string \<Rightarrow> string \<Rightarrow> ('w, unit) sys" where
  "change_in_database we driver url username password =
     bindE (wrapE ''failed to connect to database'' (connect_database (we_sql we) driver url)) (\<lambda>db.
       finallyE (set_password we (is_postgres driver) db username password) (quietly (sl_close (we_sql we) db)))"

definition change_password :: "'w password_env \<Rightarrow> string \<Rightarrow> string \<Rightarrow> string \<Rightarrow> ('w, unit) sys" where
  "change_password we username password path m =
     (let path = (if path = [] then config_path_of (co_goos (we_control we)) else path) in
      if username = [] then (Inl (Err ''username cannot be empty''), m)
      else if password = [] then (Inl (Err ''password cannot be empty''), m)
      else case parse_config (we_os we) path m of
        Inl e \<Rightarrow> (Inl (WithMessage e ''failed to parse config file''), m)
      | Inr config \<Rightarrow>
          if env_value config ''DATABASE_DRIVER'' = [] then (Inl (Err ''DATABASE_DRIVER not found in config.env''), m)
          else if env_value config ''DATABASE_URL'' = [] then (Inl (Err ''DATABASE_URL not found in config.env''), m)
          else change_in_database we (env_value config ''DATABASE_DRIVER'') (env_value config ''DATABASE_URL'') username password m)"

section \<open>The command\<close>

definition prompt_password :: "'w password_env \<Rightarrow> ('w, string) sys" where
  "prompt_password we m =
     (if we_terminal we m then we_read_password we m
      else bindE (we_read_string we) (\<lambda>line. retE (trim_space line)) m)"

text \<open>Missing arguments are empty.\<close>

definition handle_change_password :: "'w password_env \<Rightarrow> string list \<Rightarrow> string \<Rightarrow> ('w, unit) sys" where
  "handle_change_password we args scope =
     (let username = (case args of u # _ \<Rightarrow> u | [] \<Rightarrow> []); password = (case args of _ # p # _ \<Rightarrow> p | _ \<Rightarrow> []) in
      if username = [] then failE (Err ''username is required as first argument'')
      else bindE (if password = [] then wrapE ''failed to read password'' (prompt_password we) else retE password) (\<lambda>password.
        if password = [] then failE (Err ''password cannot be empty'')
        else bindE (resolve_command_scope (we_control we) scope) (\<lambda>paths.
          change_password we username password (pp_config_file_path paths))))"

section \<open>Lemmas\<close>

lemma trimmed_entry_eq: "trimmed_entry l = map_option (map_prod id trim_space) (config_env_entry l)"
  by (simp add: trimmed_entry_def config_env_entry_def Let_def split: list.split)

lemma map_filter_values: "List.map_filter (\<lambda>x. map_option (map_prod id g) (f x)) xs = map (map_prod id g) (List.map_filter f xs)"
  by (induction xs) (simp_all add: List.map_filter_simps split: option.split)

lemma map_of_values: "map_of (map (map_prod id g) kvs) k = map_option g (map_of kvs k)"
  by (induction kvs) auto

lemma map_of_settings:
  "map_of (rev (config_settings c)) = map_of (config_settings c)"
  using distinct_settings [of c] by (intro map_of_inject_set [THEN iffD2]) (simp_all add: rev_map [symmetric])

lemma parse_rendered_config:
  assumes "writable c" "list_all (\<lambda>l. length l < 65536) (config_env_lines c)"
    and "files m path = Some (render_config_env c)" "fault os (OpRead path) m = None"
  shows "\<exists>f. parse_config os path m = Inr f \<and> (\<forall>k. f k = map_option trim_space (map_of (config_settings c) k))"
proof -
  have lines: "List.map_filter config_env_entry (config_env_lines c) = config_settings c"
    using layout_readers [OF config_env_layout writable_entries [OF assms(1)]] by simp
  have "List.map_filter trimmed_entry (config_env_lines c) = map (map_prod id trim_space) (config_settings c)"
    unfolding lines [symmetric] map_filter_values [symmetric] by (simp add: trimmed_entry_eq [abs_def])
  then have "map_of (rev (List.map_filter trimmed_entry (config_env_lines c))) k =
      map_option trim_space (map_of (config_settings c) k)" for k
    by (simp add: rev_map map_of_values map_of_settings)
  moreover have "\<not> list_ex (\<lambda>l. 65536 \<le> length l) (config_env_lines c)"
    using assms(2) by (auto simp: list_ex_iff list_all_iff)
  ultimately show ?thesis
    using assms(3,4) by (simp add: parse_config_def read_file_def scan_config_env [OF assms(1,2)])
qed

section \<open>Properties\<close>

text \<open>
  C24: the password is changed in the database of the installed configuration: from the
  \<open>config.env\<close> that the installer wrote the command reads back the driver and the address
  that were given to it.
\<close>

theorem password_changed_in_installed_database:
  assumes "writable c" and "list_all (\<lambda>l. length l < 65536) (config_env_lines c)"
    and "trimmed (ic_database_driver c)" and "trimmed (ic_database_url c)"
    and "ic_database_driver c \<noteq> []" and "ic_database_url c \<noteq> []"
    and "files m path = Some (render_config_env c)" and "fault (we_os we) (OpRead path) m = None"
    and "path \<noteq> []" and "username \<noteq> []" and "password \<noteq> []"
  shows "change_password we username password path m =
    change_in_database we (ic_database_driver c) (ic_database_url c) username password m"
proof -
  obtain f where f: "parse_config (we_os we) path m = Inr f"
    "\<And>k. f k = map_option trim_space (map_of (config_settings c) k)"
    using parse_rendered_config [OF assms(1,2,7,8)] by blast
  have "map_of (config_settings c) ''DATABASE_DRIVER'' = Some (ic_database_driver c)"
    "map_of (config_settings c) ''DATABASE_URL'' = Some (ic_database_url c)"
    by (simp_all add: config_settings_def)
  then have "env_value f ''DATABASE_DRIVER'' = ic_database_driver c" "env_value f ''DATABASE_URL'' = ic_database_url c"
    using assms(3,4) by (simp_all add: env_value_def f(2) trim_space_id)
  then show ?thesis
    using assms(5,6,9-11) by (simp add: change_password_def f(1) Let_def)
qed


definition rootless_control :: "nat control_env" where
  "rootless_control =
     \<lparr>co_panel = px_panel rootless_env, co_goos = ''linux'', co_panel_codec = one_panel_json,
      co_daemon_codec = \<lparr>encode_json = (\<lambda>_. Inr ''daemon''), decode_json = (\<lambda>_. Inl (Err ''unsupported''))\<rparr>\<rparr>"

definition example_passwords :: "nat password_env" where
  "example_passwords =
     \<lparr>we_control = rootless_control, we_sql = de_sql offline_env,
      we_user_id = (\<lambda>_ _ u. retE (if u = ''admin'' then Some 1 else None)), we_update = (\<lambda>_ _ _. retE (Inr 1)),
      we_hash = (\<lambda>p. retE (''$2a$'' @ p)), we_now = (\<lambda>_. ''now''), we_terminal = (\<lambda>_. False),
      we_read_string = retE ''secret'', we_read_password = retE ''secret''\<rparr>"

theorem password_changed_in_installed_database_witness:
  "change_password example_passwords ''admin'' ''secret'' ''/c/config.env'' panel_machine =
   change_in_database example_passwords ''sqlite'' ''file:x?a=b'' ''admin'' ''secret'' panel_machine"
proof -
  have c: "ic_database_driver example_panel_config = ''sqlite''" "ic_database_url example_panel_config = ''file:x?a=b''"
    by (simp_all add: example_panel_config_def)
  have "writable example_panel_config" "list_all (\<lambda>l. length l < 65536) (config_env_lines example_panel_config)"
    "trimmed ''sqlite''" "trimmed ''file:x?a=b''" by code_simp+
  moreover have "files panel_machine ''/c/config.env'' = Some (render_config_env example_panel_config)"
    by (simp add: panel_machine_def)
  moreover have "fault (we_os example_passwords) (OpRead ''/c/config.env'') panel_machine = None"
    by (simp add: example_passwords_def rootless_control_def rootless_env_def rootless_host_def stubborn_host_def calm_os_def)
  ultimately show ?thesis
    using password_changed_in_installed_database 
      [of example_panel_config panel_machine "''/c/config.env''" example_passwords "''admin''" "''secret''"]
    by (simp add: c)
qed

end
