(* ===== verification/PanelUninstall.thy ===== *)
theory PanelUninstall
  imports PanelControl PanelDatabase
begin

text \<open>
  The removal of the panel (\<open>internal/actions/panel/uninstall\<close>, the Linux variant): the service
  and its unit, on request the daemon, the packages, the data and the database server. What
  fails on the way is only logged.
\<close>

record 'w uninstall_env =
  ui_control :: "'w control_env"
  ui_load_pm :: "'w machine \<Rightarrow> 'w package_manager result"
  ui_remove_all :: "string \<Rightarrow> ('w, unit) sys"

abbreviation ui_host :: "'w uninstall_env \<Rightarrow> 'w host" where "ui_host ui \<equiv> co_host (ui_control ui)"
abbreviation ui_os :: "'w uninstall_env \<Rightarrow> 'w os_env" where "ui_os ui \<equiv> co_os (ui_control ui)"

record uninstall_flags =
  uf_with_daemon :: bool
  uf_with_data :: bool
  uf_with_services :: bool
  uf_scope :: string

section \<open>Steps that do not fail\<close>

definition remove_if_exists :: "'w os_env \<Rightarrow> string \<Rightarrow> ('w, unit) sys" where
  "remove_if_exists os p m = (if is_file_exists os p m then quietly (remove_file os p) m else (Inr (), m))"

definition remove_tree_if_exists :: "'w uninstall_env \<Rightarrow> string \<Rightarrow> ('w, unit) sys" where
  "remove_tree_if_exists ui p m =
     (if is_file_exists (ui_os ui) p m then quietly (ui_remove_all ui p) m else (Inr (), m))"

definition remove_unit :: "'w uninstall_env \<Rightarrow> string \<Rightarrow> string \<Rightarrow> string \<Rightarrow> ('w, unit) sys" where
  "remove_unit ui scope name path =
     bindE (quietly (systemctl_run (ui_host ui) scope [''disable'', name])) (\<lambda>_.
     bindE (remove_if_exists (ui_os ui) path) (\<lambda>_.
       quietly (systemctl_run (ui_host ui) scope [''daemon-reload''])))"

definition uninstall_gameap :: "'w uninstall_env \<Rightarrow> panel_paths \<Rightarrow> bool \<Rightarrow> ('w, unit) sys" where
  "uninstall_gameap ui ps with_data =
     bindE (remove_unit ui (pp_scope ps) panel_service_name (pp_systemd_unit_path ps)) (\<lambda>_.
       if with_data then remove_if_exists (ui_os ui) (pp_binary_path ps) else retE ())"

definition stop_and_uninstall_gameap :: "'w uninstall_env \<Rightarrow> panel_paths \<Rightarrow> bool \<Rightarrow> ('w, unit) sys" where
  "stop_and_uninstall_gameap ui ps with_data =
     bindE (quietly (panel_stop (co_panel (ui_control ui)) (pp_scope ps))) (\<lambda>_. uninstall_gameap ui ps with_data)"

definition uninstall_daemon :: "'w uninstall_env \<Rightarrow> daemon_paths \<Rightarrow> bool \<Rightarrow> ('w, unit) sys" where
  "uninstall_daemon ui ps with_data m =
     (if \<not> is_file_exists (ui_os ui) (dp_daemon_file_path ps) m \<and> \<not> command_available (ui_os ui) ''gameap-daemon'' m
      then (Inr (), m)
      else bindE (remove_unit ui (dp_scope ps) daemon_service_name (dp_systemd_unit_path ps)) (\<lambda>_.
        if \<not> with_data then retE ()
        else bindE (remove_if_exists (ui_os ui) (dp_daemon_file_path ps)) (\<lambda>_.
          bindE (remove_if_exists (ui_os ui) (dp_config_file_path ps)) (\<lambda>_.
            remove_tree_if_exists ui (dp_certs_path ps)))) m)"

definition stop_and_uninstall_daemon :: "'w uninstall_env \<Rightarrow> bool \<Rightarrow> ('w, unit) sys" where
  "stop_and_uninstall_daemon ui with_data m =
     (case recorded_daemon_scope (ui_control ui) m of (recorded, t) \<Rightarrow>
        (case daemon_paths_for_scope (co_home (ui_control ui)) (scope_or_default recorded) of
           Inl e \<Rightarrow> (Inl (WithMessage e ''failed to resolve daemon paths''), t)
         | Inr ps \<Rightarrow>
             bindE (quietly (daemon_stop (ui_host ui) (dp_scope ps))) (\<lambda>_. uninstall_daemon ui ps with_data) t))"

definition removed_services :: "string list" where
  "removed_services = [''php'', ''php-extensions'', ''nginx'']"

definition remove_services :: "'w package_manager \<Rightarrow> ('w, unit) sys" where
  "remove_services pm = eachE (\<lambda>s. quietly (pm_remove pm [s])) removed_services"

text \<open>The state is empty when it cannot be loaded; what it records goes before the paths of the scope.\<close>

definition data_directories :: "panel_install_record result \<Rightarrow> panel_paths \<Rightarrow> string \<times> string" where
  "data_directories r ps =
     (case r of
        Inl _ \<Rightarrow> (pp_config_dir ps, pp_data_dir ps)
      | Inr st \<Rightarrow> (or_default (pir_config_directory st) (pp_config_dir ps), or_default (pir_data_directory st) (pp_data_dir ps)))"

definition remove_data :: "'w uninstall_env \<Rightarrow> panel_paths \<Rightarrow> ('w, unit) sys" where
  "remove_data ui ps m =
     (case load_panel_record (ui_control ui) m of (r, t) \<Rightarrow>
        case data_directories r ps of (config, data) \<Rightarrow>
          bindE (remove_tree_if_exists ui config) (\<lambda>_. remove_tree_if_exists ui data) t)"

definition remove_platform_database :: "'w package_manager \<Rightarrow> panel_install_record \<Rightarrow> ('w, unit) sys" where
  "remove_platform_database pm st =
     (if \<not> pir_database_was_installed st \<or> pir_scope st = scope_user then retE ()
      else bindE (if pir_database st = ''mysql'' \<or> pir_database st = ''mariadb'' then quietly (pm_remove pm [mysql_package]) else retE ()) (\<lambda>_.
        if pir_database st = ''postgresql'' then quietly (pm_remove pm [postgres_package]) else retE ()))"

definition remove_recorded_database :: "'w uninstall_env \<Rightarrow> 'w package_manager \<Rightarrow> ('w, unit) sys" where
  "remove_recorded_database ui pm m =
     (case load_panel_record (ui_control ui) m of
        (Inl _, t) \<Rightarrow> (Inr (), t)
      | (Inr st, t) \<Rightarrow>
          if pir_database_was_installed st
          then wrapE ''failed to remove database'' (remove_platform_database pm st) t else (Inr (), t))"

section \<open>The command\<close>

definition uninstall_with :: "'w uninstall_env \<Rightarrow> uninstall_flags \<Rightarrow> panel_paths \<Rightarrow> 'w package_manager \<Rightarrow> ('w, unit) sys" where
  "uninstall_with ui fs ps pm =
     bindE (wrapE ''failed to uninstall gameap'' (stop_and_uninstall_gameap ui ps (uf_with_data fs))) (\<lambda>_.
     bindE (if uf_with_daemon fs
            then wrapE ''failed to uninstall daemon'' (stop_and_uninstall_daemon ui (uf_with_data fs)) else retE ()) (\<lambda>_.
     bindE (if uf_with_services fs \<and> pp_scope ps \<noteq> scope_user
            then wrapE ''failed to remove services'' (remove_services pm) else retE ()) (\<lambda>_.
       if uf_with_data fs
       then bindE (wrapE ''failed to remove data'' (remove_data ui ps)) (\<lambda>_. remove_recorded_database ui pm)
       else retE ())))"

definition handle_uninstall :: "'w uninstall_env \<Rightarrow> uninstall_flags \<Rightarrow> ('w, unit) sys" where
  "handle_uninstall ui fs =
     bindE (resolve_command_scope (ui_control ui) (uf_scope fs)) (\<lambda>ps m.
       case ui_load_pm ui m of
         Inl e \<Rightarrow> (Inl (WithMessage e ''failed to load package manager''), m)
       | Inr pm \<Rightarrow> uninstall_with ui fs ps pm m)"

section \<open>Lemmas\<close>

text \<open>The unit files of the panel and of the daemon, in any scope.\<close>

definition unit_file :: "'w host \<Rightarrow> string \<Rightarrow> bool" where
  "unit_file h p \<longleftrightarrow> (\<exists>s. panel_unit_path h s = Some p \<or> daemon_unit_path h s = Some p)"

lemma remove_if_exists_leaves: "p \<noteq> q \<Longrightarrow> leaves p (remove_if_exists os q)"
  using leaves_basic(4) [OF leaves_remove [of p q os]] by (auto simp: remove_if_exists_def leaves_def keeps_def)

lemma remove_unit_leaves:
  "host_leaves (co_panel (ui_control ui)) p \<Longrightarrow> p \<noteq> q \<Longrightarrow> leaves p (remove_unit ui scope name q)"
  unfolding remove_unit_def
  by (intro leaves_bindE leaves_basic remove_if_exists_leaves systemctl_leaves) (simp_all add: host_leaves_def)

lemma daemon_paths_unit:
  assumes "daemon_paths_for_scope (ho_home h) s = Inr ps"
  shows "daemon_unit_path h s = Some (dp_systemd_unit_path ps)"
  using assms by (auto simp: daemon_unit_path_def own_scope_def daemon_paths_for_scope_def split: if_splits)

lemma daemon_stop_leaves:
  assumes "host_leaves ph p" "\<not> unit_file (ph_host ph) p"
  shows "leaves p (daemon_stop (ph_host ph) s)"
proof (rule daemon_ops_leave(2))
  show "effects_leave (ph_host ph) (daemon_effect (ph_host ph) (scope_or_default s)) p"
    using assms by (auto simp: effects_leave_def host_leaves_def unit_file_def daemon_unit_path_def own_scope_def split: sum.splits if_splits)
qed

lemma uninstall_gameap_leaves:
  assumes "host_leaves (co_panel (ui_control ui)) p" "\<not> unit_file (ui_host ui) p"
    and "panel_paths_for_scope (co_home (ui_control ui)) s = Inr ps"
  shows "leaves p (stop_and_uninstall_gameap ui ps False)"
proof -
  have "p \<noteq> pp_systemd_unit_path ps" "panel_unit_path (ui_host ui) s' \<noteq> Some p" for s'
    using assms(2) paths_unit [OF assms(3)] by (auto simp: unit_file_def)
  then show ?thesis
    unfolding stop_and_uninstall_gameap_def uninstall_gameap_def
    by (intro leaves_bindE leaves_basic panel_stop_leaves remove_unit_leaves assms(1)) (auto intro: leaves_basic)
qed

lemma uninstall_daemon_leaves:
  assumes "host_leaves (co_panel (ui_control ui)) p" "\<not> unit_file (ui_host ui) p"
  shows "leaves p (stop_and_uninstall_daemon ui False)"
proof (rule leavesI)
  fix m
  have load: "leaves p (load_daemon_install_state (ui_os ui) (co_home (ui_control ui)) (co_daemon_codec (ui_control ui)))"
    unfolding load_daemon_install_state_def load_state_file_def Let_def
    by (intro leaves_bindE leaves_basic leaves_state_directory leaves_read) (auto split: sum.split)
  obtain sc t where r: "recorded_daemon_scope (ui_control ui) m = (sc, t)" by force
  have t: "files t p = files m p"
    using r leavesD [OF load, of m] by (auto simp: recorded_daemon_scope_def split: prod.splits sum.splits)
  show "files (snd (stop_and_uninstall_daemon ui False m)) p = files m p"
  proof (cases "daemon_paths_for_scope (co_home (ui_control ui)) (scope_or_default sc)")
    case (Inr ps)
    then have "p \<noteq> dp_systemd_unit_path ps" using assms(2) daemon_paths_unit by (auto simp: unit_file_def)
    then have "leaves p (remove_unit ui (dp_scope ps) daemon_service_name (dp_systemd_unit_path ps))"
      by (rule remove_unit_leaves [OF assms(1)])
    then have "leaves p (bindE (remove_unit ui (dp_scope ps) daemon_service_name (dp_systemd_unit_path ps)) (\<lambda>_. retE ()))"
      by (intro leaves_bindE leaves_basic)
    then have "leaves p (uninstall_daemon ui ps False)"
      unfolding uninstall_daemon_def by (auto simp: leaves_def keeps_def)
    then have "leaves p (bindE (quietly (daemon_stop (ui_host ui) (dp_scope ps))) (\<lambda>_. uninstall_daemon ui ps False))"
      by (intro leaves_bindE leaves_basic daemon_stop_leaves assms)
    then have "files (snd (bindE (quietly (daemon_stop (ui_host ui) (dp_scope ps))) (\<lambda>_. uninstall_daemon ui ps False) t)) p = files t p"
      by (simp add: leaves_def keeps_def)
    then show ?thesis using t by (simp add: stop_and_uninstall_daemon_def r Inr)
  qed (simp add: stop_and_uninstall_daemon_def r t)
qed

lemma uninstall_with_leaves:
  assumes "host_leaves (co_panel (ui_control ui)) p" "\<not> unit_file (ui_host ui) p"
    and "panel_paths_for_scope (co_home (ui_control ui)) s = Inr ps"
    and "\<And>l. leaves p (pm_remove pm l)" "\<not> uf_with_data fs"
  shows "leaves p (uninstall_with ui fs ps pm)"
proof -
  have services: "leaves p (remove_services pm)"
    unfolding remove_services_def by (intro leaves_eachE leaves_basic assms(4))
  show ?thesis
    unfolding uninstall_with_def using uninstall_gameap_leaves [OF assms(1-3)] uninstall_daemon_leaves [OF assms(1,2)] services assms(5)
    by (auto intro!: leaves_bindE intro: leaves_basic)
qed

text \<open>The directories that are removed do not depend on the scope, when the record names them.\<close>

lemma removed_data_ignores_scope:
  assumes "load_panel_record (ui_control ui) m = (Inr st, t)"
    and "pir_config_directory st \<noteq> []" and "pir_data_directory st \<noteq> []"
  shows "remove_data ui ps m = remove_data ui qs m"
  using assms by (simp add: remove_data_def data_directories_def or_default_def)

text \<open>Only two steps use the package manager.\<close>

lemma steps_without_manager [simp]:
  "remove_tree_if_exists (ui\<lparr>ui_load_pm := load\<rparr>) = remove_tree_if_exists ui"
  "remove_unit (ui\<lparr>ui_load_pm := load\<rparr>) = remove_unit ui"
  "stop_and_uninstall_gameap (ui\<lparr>ui_load_pm := load\<rparr>) = stop_and_uninstall_gameap ui"
  "remove_data (ui\<lparr>ui_load_pm := load\<rparr>) = remove_data ui"
proof -
  show tree: "remove_tree_if_exists (ui\<lparr>ui_load_pm := load\<rparr>) = remove_tree_if_exists ui"
    by (intro ext) (simp add: remove_tree_if_exists_def)
  show unit: "remove_unit (ui\<lparr>ui_load_pm := load\<rparr>) = remove_unit ui"
    by (intro ext) (simp add: remove_unit_def)
  show "stop_and_uninstall_gameap (ui\<lparr>ui_load_pm := load\<rparr>) = stop_and_uninstall_gameap ui"
    by (intro ext) (simp add: stop_and_uninstall_gameap_def uninstall_gameap_def unit)
  show "remove_data (ui\<lparr>ui_load_pm := load\<rparr>) = remove_data ui"
    by (intro ext) (simp add: remove_data_def tree)
qed

lemma daemon_without_manager [simp]:
  "stop_and_uninstall_daemon (ui\<lparr>ui_load_pm := load\<rparr>) = stop_and_uninstall_daemon ui"
proof -
  have "uninstall_daemon (ui\<lparr>ui_load_pm := load\<rparr>) = uninstall_daemon ui"
    by (intro ext) (simp add: uninstall_daemon_def)
  then show ?thesis by (intro ext) (simp add: stop_and_uninstall_daemon_def split: prod.split sum.split)
qed

section \<open>Properties\<close>

text \<open>
  C25: without \<open>--with-data\<close> the removal of the panel changes no file but the unit files of the
  panel and the daemon, as long as the commands it runs and the package manager do not.
\<close>

theorem uninstall_keeps_data:
  assumes "\<not> uf_with_data fs" and "host_leaves (co_panel (ui_control ui)) p" and "\<not> unit_file (ui_host ui) p"
    and "\<And>m pm l. ui_load_pm ui m = Inr pm \<Longrightarrow> leaves p (pm_remove pm l)"
  shows "files (snd (handle_uninstall ui fs m)) p = files m p"
proof -
  obtain r t where r: "resolve_command_scope (ui_control ui) (uf_scope fs) m = (r, t)" by force
  have t: "files t p = files m p" using leavesD [OF resolve_scope_leaves r] .
  show ?thesis
  proof (cases r)
    case (Inr ps)
    with r obtain s where s: "panel_paths_for_scope (co_home (ui_control ui)) s = Inr ps" using resolved_paths by blast
    show ?thesis
    proof (cases "ui_load_pm ui t")
      case Inr': (Inr pm)
      have "leaves p (uninstall_with ui fs ps pm)"
        by (rule uninstall_with_leaves [OF assms(2,3) s assms(4) assms(1)]) (rule Inr')
      then have "files (snd (uninstall_with ui fs ps pm t)) p = files t p" by (simp add: leaves_def keeps_def)
      with t show ?thesis by (simp add: handle_uninstall_def bindE_def r Inr Inr')
    qed (simp add: handle_uninstall_def bindE_def r Inr t)
  qed (simp add: handle_uninstall_def bindE_def r t)
qed

text \<open>
  A PostgreSQL server that came with the panel is never removed: its record names
  \<open>postgres\<close> and the removal looks for \<open>postgresql\<close>, so the package manager is not used.
\<close>

theorem installed_postgres_never_removed:
  assumes "\<not> uf_with_services fs"
    and "\<And>m st t. load_panel_record (ui_control ui) m = (Inr st, t) \<Longrightarrow> pir_database st = postgres_database"
    and "\<And>m. (case ui_load_pm ui m of Inl e \<Rightarrow> load m = Inl e | Inr _ \<Rightarrow> \<exists>pm. load m = Inr pm)"
  shows "handle_uninstall (ui\<lparr>ui_load_pm := load\<rparr>) fs = handle_uninstall ui fs"
proof -
  have database: "remove_recorded_database (ui\<lparr>ui_load_pm := load\<rparr>) pm = remove_recorded_database ui pm'" for pm pm'
    using assms(2)
    by (intro ext) (auto simp: remove_recorded_database_def remove_platform_database_def postgres_database_def
        split: prod.split sum.split)
  have "uninstall_with (ui\<lparr>ui_load_pm := load\<rparr>) fs ps pm = uninstall_with ui fs ps pm'" for ps pm pm'
    unfolding uninstall_with_def database [of pm pm']
    using assms(1) by simp
  note same = this
  have "(case load m of Inl e \<Rightarrow> (Inl (WithMessage e ''failed to load package manager''), m)
       | Inr pm \<Rightarrow> uninstall_with (ui\<lparr>ui_load_pm := load\<rparr>) fs ps pm m) =
     (case ui_load_pm ui m of Inl e \<Rightarrow> (Inl (WithMessage e ''failed to load package manager''), m)
       | Inr pm \<Rightarrow> uninstall_with ui fs ps pm m)" for ps m
    using assms(3) [of m] by (auto split: sum.splits intro: fun_cong [OF same])
  then show ?thesis by (simp add: handle_uninstall_def)
qed


text \<open>Where the record is of an installation with PostgreSQL.\<close>

definition postgres_record :: panel_install_record where
  "postgres_record = no_panel_record\<lparr>pir_database := postgres_database, pir_database_was_installed := True\<rparr>"

definition postgres_uninstall :: "nat uninstall_env" where
  "postgres_uninstall =
     \<lparr>ui_control = obedient_control\<lparr>co_panel_codec := \<lparr>encode_json = (\<lambda>_. Inr ''postgres''), decode_json = (\<lambda>_. Inr postgres_record)\<rparr>\<rparr>,
      ui_load_pm = (\<lambda>_. Inr willing_pm), ui_remove_all = remove_tree\<rparr>"

definition recorded_machine :: "nat machine" where
  "recorded_machine =
     panel_host_machine\<lparr>files := (files panel_host_machine)(''/home/u/.gameapctl/panel_install_state.json'' \<mapsto> ''postgres'', ''/etc/gameap/config.env'' \<mapsto> ''config'')\<rparr>"

lemma obedient_leaves: "host_leaves (co_panel (ui_control postgres_uninstall)) p"
  by (simp add: host_leaves_def postgres_uninstall_def obedient_control_def obedient_host_def stubborn_host_def
      leaves_def keeps_def retE_def)

theorem uninstall_keeps_data_witness:
  "files (snd (handle_uninstall postgres_uninstall
      \<lparr>uf_with_daemon = True, uf_with_data = False, uf_with_services = True, uf_scope = scope_user\<rparr> recorded_machine)) ''/etc/gameap/config.env'' =
    files recorded_machine ''/etc/gameap/config.env''"
proof (rule uninstall_keeps_data)
  have user: "pp_systemd_unit_path ps \<noteq> ''/etc/gameap/config.env'' \<and> dp_systemd_unit_path ds \<noteq> ''/etc/gameap/config.env''"
    if "ps \<in> {system_panel_paths, user_panel_paths_from_home ''/home/u''}" "ds \<in> {system_daemon_paths, user_daemon_paths_from_home ''/home/u''}"
    for ps ds
    using that by (elim insertE emptyE) (simp_all, code_simp+)
  have home: "ho_home (ui_host postgres_uninstall) = Some ''/home/u''"
    by (simp add: postgres_uninstall_def obedient_control_def obedient_host_def stubborn_host_def)
  show "\<not> unit_file (ui_host postgres_uninstall) ''/etc/gameap/config.env''"
    using user by (auto simp: unit_file_def panel_unit_path_def daemon_unit_path_def own_scope_def home user_home_def
        panel_paths_for_scope_def daemon_paths_for_scope_def split: if_splits)
  show "leaves ''/etc/gameap/config.env'' (pm_remove pm l)" if "ui_load_pm postgres_uninstall m = Inr pm" for m pm l
    using that by (auto simp: postgres_uninstall_def willing_pm_def)
qed (simp_all add: obedient_leaves)

theorem installed_postgres_never_removed_witness:
  "handle_uninstall (postgres_uninstall\<lparr>ui_load_pm := (\<lambda>_. Inr (willing_pm\<lparr>pm_remove := (\<lambda>_. failE (Err ''removed''))\<rparr>))\<rparr>)
      \<lparr>uf_with_daemon = False, uf_with_data = True, uf_with_services = False, uf_scope = scope_system\<rparr> =
    handle_uninstall postgres_uninstall
      \<lparr>uf_with_daemon = False, uf_with_data = True, uf_with_services = False, uf_scope = scope_system\<rparr>"
proof (rule installed_postgres_never_removed)
  show "pir_database st = postgres_database" if "load_panel_record (ui_control postgres_uninstall) m = (Inr st, t)" for m st t
    using that by (auto simp: load_panel_record_def load_panel_install_state_def load_state_file_def postgres_uninstall_def
        bindE_Inr_iff retE_def postgres_record_def Let_def)
qed (simp_all add: postgres_uninstall_def)

end
