(* ===== verification/PanelBuild.thy ===== *)
theory PanelBuild
  imports PanelInstaller DaemonInstall
begin

text \<open>
  The panel from its sources and the check that it answers (\<open>internal/pkg/panel\<close>): the tools, the
  clone, the build of the front end and of the program, and the health request.
\<close>

text \<open>
  \<open>be_run_in\<close> runs a command in a directory; \<open>be_request\<close> sends a GET request and \<open>be_status\<close> is the
  field \<open>status\<close> of a JSON answer.
\<close>

record 'w build_env =
  be_host :: "'w host"
  be_run_in :: "string \<Rightarrow> string list \<Rightarrow> ('w, unit) sys"
  be_mkdtemp :: "string \<Rightarrow> ('w, string) sys"
  be_remove_all :: "string \<Rightarrow> ('w, unit) sys"
  be_update_path :: "'w machine \<Rightarrow> 'w machine"
  be_request :: "string \<Rightarrow> ('w, http_answer) sys"
  be_status :: "string \<Rightarrow> string result"

abbreviation be_os :: "'w build_env \<Rightarrow> 'w os_env" where "be_os be \<equiv> ho_os (be_host be)"

section \<open>Building\<close>

definition github_panel_repository :: string where
  "github_panel_repository = ''https://github.com/gameap/gameap.git''"

definition build_tools :: "string list" where "build_tools = [''git'', ''go'', ''npm'']"

definition missing_tool :: "string \<Rightarrow> go_error" where
  "missing_tool tool =
     Err (tool @ '' is required to build GameAP from GitHub in user scope; please install it manually (e.g. via sudo) and retry'')"

definition ensure_build_tools :: "'w build_env \<Rightarrow> 'w package_manager \<Rightarrow> bool \<Rightarrow> ('w, unit) psys" where
  "ensure_build_tools be pm user_scope m =
     (if user_scope then
        (case filter (\<lambda>t. \<not> command_available (be_os be) t m) build_tools of
           [] \<Rightarrow> Some (Inr (), m)
         | t # _ \<Rightarrow> Some (Inl (missing_tool t), m))
      else
        bindP (wrapP ''failed to install git'' (pm_install pm ''git'' [])) (\<lambda>_.
        bindP (wrapP ''failed to install nodejs'' (pm_install pm ''nodejs'' [])) (\<lambda>_.
        bindP (wrapP ''failed to install golang'' (pm_install pm ''go'' [])) (\<lambda>_ m.
          Some (Inr (), be_update_path be m)))) m)"

definition build_styles :: "'w build_env \<Rightarrow> string \<Rightarrow> ('w, unit) sys" where
  "build_styles be path =
     (let frontend = path_join [path, ''web'', ''frontend''] in
      bindE (wrapE ''failed to install dependencies'' (be_run_in be frontend [''npm'', ''install''])) (\<lambda>_.
        wrapE ''failed to build nodejs application'' (be_run_in be frontend [''npm'', ''run'', ''build'', ''--if-present''])))"

definition build_go_panel :: "'w build_env \<Rightarrow> string \<Rightarrow> string \<Rightarrow> ('w, unit) sys" where
  "build_go_panel be path output =
     (let output = or_default output default_binary_path; dir = path_dir output in
      bindE (if dir \<noteq> [] then wrapE (''failed to create output directory '' @ dir) (mkdir_all (be_os be) dir) else retE ()) (\<lambda>_.
        wrapE ''failed to build go app''
          (be_run_in be (path_join [path, ''cmd'', ''gameap'']) [''go'', ''build'', ''-o'', output, ''.''])))"

definition setup_from_github :: "'w build_env \<Rightarrow> 'w package_manager \<Rightarrow> string \<Rightarrow> string \<Rightarrow> bool \<Rightarrow> ('w, unit) psys" where
  "setup_from_github be pm branch output user_scope =
     bindP (ensure_build_tools be pm user_scope) (\<lambda>_. liftP
       (bindE (wrapE ''failed to create temp dir'' (be_mkdtemp be ''gameapctl'')) (\<lambda>path.
          finallyE
            (bindE (wrapE ''failed to clone gameap from github''
               (ho_exec (be_host be) [''git'', ''clone'', ''-b'', branch, github_panel_repository, path])) (\<lambda>_.
             bindE (wrapE ''failed to build styles'' (build_styles be path)) (\<lambda>_.
               wrapE ''failed to build game ap'' (build_go_panel be path output))))
            (quietly (be_remove_all be path)))))"

section \<open>Asking the panel\<close>

definition create_health_url :: "string \<Rightarrow> string \<Rightarrow> bool \<Rightarrow> string \<Rightarrow> string" where
  "create_health_url host port https endpoint =
     (let host_port = (if port \<noteq> ''80'' \<and> port \<noteq> ''443'' then host @ '':'' @ port else host) in
      (if https then ''https://'' else ''http://'') @ host_port @ endpoint)"

definition check_answer :: "(string \<Rightarrow> string result) \<Rightarrow> http_answer \<Rightarrow> unit result" where
  "check_answer decode a =
     (if ha_status a \<noteq> 200 then Inl (Err ''unsuccessful response from panel, invalid status code'')
      else case with_message ''failed to read response body'' (ha_body a) of
        Inl e \<Rightarrow> Inl e
      | Inr body \<Rightarrow>
          (case decode body of
             Inl e \<Rightarrow> Inl (WithMessage e ''failed to decode response'')
           | Inr s \<Rightarrow> if s \<noteq> ''ok'' then Inl (Err ''unsuccessful response from panel, invalid status in response'') else Inr ()))"

definition check_installation :: "'w build_env \<Rightarrow> string \<Rightarrow> string \<Rightarrow> bool \<Rightarrow> ('w, unit) sys" where
  "check_installation be host port https =
     bindE (be_request be (create_health_url host port https ''/api/health'')) (\<lambda>a m. (check_answer (be_status be) a, m))"

end
