(* ===== verification/PanelUpdate.thy ===== *)
theory PanelUpdate
  imports PanelBuild PanelPassword
begin

text \<open>
  The update of a panel of version 4 (\<open>panel_update_v4.go\<close> and the version detection of
  \<open>panel_update.go\<close>): the new binary is put in place of the old one, which is kept as a backup
  until the new one has answered, and comes back when it does not.
\<close>

section \<open>Environment\<close>

record 'w upgrade_env =
  uv_control :: "'w control_env"
  uv_build :: "'w build_env"
  uv_fs :: "'w fs_lib"
  uv_load_pm :: "'w machine \<Rightarrow> 'w package_manager result"
  uv_find :: "find_options \<Rightarrow> ('w, resolved_release) sys"
  uv_get :: "string \<Rightarrow> string \<Rightarrow> ('w, unit) sys"
  uv_chmod :: "string \<Rightarrow> ('w, unit) sys"
  uv_sleep :: "int \<Rightarrow> 'w machine \<Rightarrow> 'w machine"

abbreviation uv_host :: "'w upgrade_env \<Rightarrow> 'w host" where "uv_host uv \<equiv> co_host (uv_control uv)"
abbreviation uv_os :: "'w upgrade_env \<Rightarrow> 'w os_env" where "uv_os uv \<equiv> co_os (uv_control uv)"

abbreviation uv_start :: "'w upgrade_env \<Rightarrow> panel_paths \<Rightarrow> ('w, unit) sys" where
  "uv_start uv ps \<equiv> panel_start (co_panel (uv_control uv)) (pp_scope ps)"

abbreviation uv_stop :: "'w upgrade_env \<Rightarrow> panel_paths \<Rightarrow> ('w, unit) sys" where
  "uv_stop uv ps \<equiv> panel_stop (co_panel (uv_control uv)) (pp_scope ps)"

section \<open>Which version is installed\<close>

datatype panel_version = V3 | V4

definition version_of_major :: "string \<Rightarrow> string \<Rightarrow> bool" where
  "version_of_major n v \<longleftrightarrow> v = n \<or> v = ''v'' @ n \<or> has_prefix v (''v'' @ n @ ''.'') \<or> has_prefix v (n @ ''.'')"

definition is_state_version_v3 :: "string \<Rightarrow> bool" where "is_state_version_v3 = version_of_major ''3''"
definition is_state_version_v4 :: "string \<Rightarrow> bool" where "is_state_version_v4 = version_of_major ''4''"

definition recorded_version :: "panel_install_record result \<Rightarrow> panel_version option" where
  "recorded_version r =
     (case r of
        Inl _ \<Rightarrow> None
      | Inr st \<Rightarrow>
          if pir_version st = [] then None
          else if is_state_version_v3 (pir_version st) then Some V3
          else if is_state_version_v4 (pir_version st) then Some V4 else None)"

definition v3_files :: "'w os_env \<Rightarrow> panel_install_record result \<Rightarrow> 'w machine \<Rightarrow> bool" where
  "v3_files os r m =
     (case r of
        Inl _ \<Rightarrow> False
      | Inr st \<Rightarrow> pir_path st \<noteq> [] \<and>
          (is_file_exists os (path_join [pir_path st, ''artisan'']) m \<or> is_file_exists os (path_join [pir_path st, ''.env'']) m))"

definition detect_major_version :: "'w control_env \<Rightarrow> panel_paths \<Rightarrow> ('w, panel_version) sys" where
  "detect_major_version co ps m =
     (case load_panel_record co m of (r, t) \<Rightarrow>
        (case recorded_version r of
           Some v \<Rightarrow> Inr v
         | None \<Rightarrow>
             if v3_files (co_os co) r t then Inr V3
             else if is_file_exists (co_os co) (pp_config_file_path ps) t \<or> is_file_exists (co_os co) (pp_binary_path ps) t \<or>
               is_file_exists (co_os co) (pp_data_dir ps) t then Inr V4
             else Inl (Err ''unable to detect GameAP version: no installation markers found''), t))"

section \<open>The binary and its backup\<close>

definition backup_of :: "panel_paths \<Rightarrow> string" where "backup_of ps = pp_binary_path ps @ ''.backup''"

text \<open>\<open>os.Remove\<close> where a missing file is no error.\<close>

definition remove_present :: "'w os_env \<Rightarrow> string \<Rightarrow> ('w, unit) sys" where
  "remove_present os p = catchE (remove_file os p) (\<lambda>e. if is_not_exist e then retE () else failE e)"

definition stat_error :: "'w os_env \<Rightarrow> string \<Rightarrow> 'w machine \<Rightarrow> go_error option" where
  "stat_error os p m =
     (case stat_file os p m of StatOk \<Rightarrow> None | StatMissing \<Rightarrow> Some (NotExist p) | StatFailed e \<Rightarrow> Some e)"

definition restore_backup :: "'w upgrade_env \<Rightarrow> string \<Rightarrow> string \<Rightarrow> ('w, unit) sys" where
  "restore_backup uv backup current m =
     (case stat_error (uv_os uv) backup m of
        Some e \<Rightarrow> (Inl (WithMessage e ''backup file not found''), m)
      | None \<Rightarrow>
          bindE (wrapE ''failed to remove current binary'' (remove_present (uv_os uv) current)) (\<lambda>_.
          bindE (wrapE ''failed to restore backup'' (fl_copy (uv_fs uv) backup current)) (\<lambda>_.
            wrapE ''failed to set executable permissions on restored binary'' (uv_chmod uv current))) m)"

definition backup_and_replace :: "'w upgrade_env \<Rightarrow> string \<Rightarrow> string \<Rightarrow> string \<Rightarrow> ('w, unit) sys" where
  "backup_and_replace uv fresh current backup =
     bindE (wrapE ''failed to create backup'' (fl_copy (uv_fs uv) current backup)) (\<lambda>_.
     bindE (wrapE ''failed to remove old binary'' (remove_present (uv_os uv) current)) (\<lambda>_.
     bindE (catchE (fl_copy (uv_fs uv) fresh current) (\<lambda>e.
              bindE (quietly (restore_backup uv backup current)) (\<lambda>_. failE (WithMessage e ''failed to copy new binary'')))) (\<lambda>_.
       wrapE ''failed to set executable permissions'' (uv_chmod uv current))))"

section \<open>The health check\<close>

fun address_entry :: "string \<times> string \<Rightarrow> string \<times> string \<times> bool \<Rightarrow> string \<times> string \<times> bool" where
  "address_entry (k, v) (host, port, https) =
     (if k = ''HTTP_HOST'' then (or_default v host, port, https)
      else if k = ''HTTP_PORT'' then (host, or_default v port, https)
      else if k = ''HTTPS_ENABLED'' then (host, port, v = ''true'' \<or> v = ''1'')
      else (host, port, https))"

definition default_address :: "string \<times> string \<times> bool" where
  "default_address = (''127.0.0.1'', ''8025'', False)"

definition read_config_env :: "'w os_env \<Rightarrow> string \<Rightarrow> 'w machine \<Rightarrow> (string \<times> string \<times> bool) result" where
  "read_config_env os path m =
     (case fst (read_file os path m) of
        Inl e \<Rightarrow> Inl (WithMessage e ''failed to open config file'')
      | Inr content \<Rightarrow>
          if list_ex (\<lambda>l. 65536 \<le> length l) (raw_lines content)
          then Inl (WithMessage (Err ''bufio.Scanner: token too long'') ''failed to read config file'')
          else Inr (fold address_entry (List.map_filter trimmed_entry (scan_lines content)) default_address))"

definition panel_address :: "'w upgrade_env \<Rightarrow> panel_paths \<Rightarrow> 'w machine \<Rightarrow> string \<times> string \<times> bool" where
  "panel_address uv ps m =
     (case read_config_env (uv_os uv) (pp_config_file_path ps) m of Inl _ \<Rightarrow> default_address | Inr a \<Rightarrow> a)"

definition update_health_retries :: nat where "update_health_retries = 5"
definition health_delay :: int where "health_delay = 2000000000"

fun health_attempts :: "'w upgrade_env \<Rightarrow> string \<times> string \<times> bool \<Rightarrow> nat \<Rightarrow> ('w, unit) sys" where
  "health_attempts uv a 0 m = (Inl (Err ''health check failed after multiple retries''), m)"
| "health_attempts uv a (Suc n) m =
     (case check_installation (uv_build uv) (fst a) (fst (snd a)) (snd (snd a)) m of
        (Inr _, t) \<Rightarrow> (Inr (), t)
      | (Inl _, t) \<Rightarrow> health_attempts uv a n (if n = 0 then t else uv_sleep uv health_delay t))"

definition check_health :: "'w upgrade_env \<Rightarrow> string \<times> string \<times> bool \<Rightarrow> ('w, unit) sys" where
  "check_health uv a = health_attempts uv a update_health_retries"

section \<open>The update\<close>

definition rolled_back :: go_error where "rolled_back = Err ''update failed, rolled back to previous version''"

definition roll_back :: "'w upgrade_env \<Rightarrow> panel_paths \<Rightarrow> ('w, unit) sys" where
  "roll_back uv ps =
     bindE (quietly (uv_stop uv ps)) (\<lambda>_.
     bindE (wrapE ''failed to restore backup'' (restore_backup uv (backup_of ps) (pp_binary_path ps))) (\<lambda>_.
     bindE (wrapE ''failed to start GameAP after rollback'' (uv_start uv ps)) (\<lambda>_. failE rolled_back)))"

definition verify_or_roll_back :: "'w upgrade_env \<Rightarrow> panel_paths \<Rightarrow> ('w, unit) sys" where
  "verify_or_roll_back uv ps m =
     (case check_health uv (panel_address uv ps m) m of
        (Inl _, t) \<Rightarrow> roll_back uv ps t
      | (Inr _, t) \<Rightarrow> quietly (remove_file (uv_os uv) (backup_of ps)) t)"

definition update_panel_state_version :: "'w control_env \<Rightarrow> string \<Rightarrow> ('w, unit) sys" where
  "update_panel_state_version co tag =
     bindE (load_panel_record co) (\<lambda>st.
       if pir_version st = tag then retE ()
       else save_panel_install_state (co_os co) (co_home co) (co_panel_codec co) (st\<lparr>pir_version := tag\<rparr>))"

text \<open>What the search for the binary in the unpacked archive finds.\<close>

definition unpacked_binary :: "'w os_env \<Rightarrow> string \<Rightarrow> 'w machine \<Rightarrow> string result" where
  "unpacked_binary os tmp m =
     (case filter (\<lambda>p. is_file_exists os p m) [path_join [tmp, ''gameap''], path_join [tmp, ''gameap.exe'']] of
        [] \<Rightarrow> Inl (Err ''downloaded binary not found in archive'')
      | p # _ \<Rightarrow> Inr p)"

definition download_release :: "'w upgrade_env \<Rightarrow> string \<Rightarrow> string \<Rightarrow> ('w, string \<times> string \<times> string) sys" where
  "download_release uv tag prefix =
     (let pre = tag \<noteq> [] \<and> (case normalize_tag tag of Inl _ \<Rightarrow> False | Inr t \<Rightarrow> has_prerelease_suffix t) in
      bindE (wrapE ''failed to create temporary directory'' (be_mkdtemp (uv_build uv) ''gameap-update-*'')) (\<lambda>tmp.
      bindE (wrapE ''failed to find release'' (uv_find uv
        \<lparr>opt_tag = tag, opt_tag_prefix = prefix, opt_allow_prerelease = pre, opt_no_retry = False\<rparr>)) (\<lambda>rel.
      bindE (wrapE ''failed to download release''
        (download_with (ho_canceled (uv_host uv)) (\<lambda>url. uv_get uv url tmp) (Some rel))) (\<lambda>_.
      bindE (\<lambda>m. (unpacked_binary (uv_os uv) tmp m, m)) (\<lambda>bin.
        retE (tmp, bin, res_tag rel))))))"

definition replace_panel :: "'w upgrade_env \<Rightarrow> panel_paths \<Rightarrow> string \<Rightarrow> ('w, unit) sys" where
  "replace_panel uv ps bin =
     bindE (wrapE ''failed to stop GameAP'' (uv_stop uv ps)) (\<lambda>_.
     bindE (wrapE ''failed to backup and replace binary''
       (backup_and_replace uv bin (pp_binary_path ps) (backup_of ps))) (\<lambda>_.
     bindE (wrapE ''failed to start GameAP'' (uv_start uv ps)) (\<lambda>_. verify_or_roll_back uv ps)))"

definition update_from_release :: "'w upgrade_env \<Rightarrow> panel_paths \<Rightarrow> string \<Rightarrow> string \<Rightarrow> ('w, unit) sys" where
  "update_from_release uv ps tag prefix =
     bindE (wrapE ''failed to download release'' (download_release uv tag prefix)) (\<lambda>(tmp, bin, resolved).
       finallyE
         (bindE (replace_panel uv ps bin) (\<lambda>_.
            if resolved \<noteq> [] then quietly (update_panel_state_version (uv_control uv) resolved) else retE ()))
         (quietly (fl_remove_all (uv_fs uv) tmp)))"

definition back_up_binary :: "'w upgrade_env \<Rightarrow> panel_paths \<Rightarrow> ('w, unit) sys" where
  "back_up_binary uv ps m =
     (if is_file_exists (uv_os uv) (pp_binary_path ps) m
      then wrapE ''failed to create backup'' (fl_copy (uv_fs uv) (pp_binary_path ps) (backup_of ps)) m
      else (Inr (), m))"

definition give_up_build :: "'w upgrade_env \<Rightarrow> panel_paths \<Rightarrow> go_error \<Rightarrow> ('w, unit) sys" where
  "give_up_build uv ps e =
     bindE (\<lambda>m. if is_file_exists (uv_os uv) (backup_of ps) m
                 then quietly (restore_backup uv (backup_of ps) (pp_binary_path ps)) m else (Inr (), m)) (\<lambda>_.
     bindE (quietly (uv_start uv ps)) (\<lambda>_. failE (WithMessage e ''failed to build GameAP from github'')))"

definition update_from_github :: "'w upgrade_env \<Rightarrow> panel_paths \<Rightarrow> string \<Rightarrow> ('w, unit) psys" where
  "update_from_github uv ps branch m =
     (case uv_load_pm uv m of
        Inl e \<Rightarrow> Some (Inl (WithMessage e ''failed to load package manager''), m)
      | Inr pm \<Rightarrow>
          bindP (liftP (back_up_binary uv ps)) (\<lambda>_.
          bindP (liftP (wrapE ''failed to stop GameAP'' (uv_stop uv ps))) (\<lambda>_.
          bindP (catchP (setup_from_github (uv_build uv) pm branch (pp_binary_path ps) (pp_scope ps = scope_user))
            (\<lambda>e. liftP (give_up_build uv ps e))) (\<lambda>_. liftP
          (bindE (wrapE ''failed to start GameAP'' (uv_start uv ps)) (\<lambda>_. verify_or_roll_back uv ps))))) m)"

definition update_v4 :: "'w upgrade_env \<Rightarrow> panel_paths \<Rightarrow> string \<Rightarrow> string \<Rightarrow> bool \<Rightarrow> string \<Rightarrow> ('w, unit) psys" where
  "update_v4 uv ps tag prefix github branch m =
     (if (tag \<noteq> [] \<or> prefix \<noteq> []) \<and> (github \<or> branch \<noteq> [])
      then Some (Inl (Err ''--version is mutually exclusive with --github and --branch''), m)
      else case load_panel_record (uv_control uv) m of (r, t) \<Rightarrow>
        let inherited = (case r of Inl _ \<Rightarrow> None | Inr st \<Rightarrow> if tag = [] \<and> prefix = [] then Some st else None);
            github = (github \<or> (case inherited of None \<Rightarrow> False | Some st \<Rightarrow> pir_from_github st));
            branch = or_default (or_default branch (case inherited of None \<Rightarrow> [] | Some st \<Rightarrow> pir_branch st)) ''main''
        in if github then update_from_github uv ps branch t
           else liftP (update_from_release uv ps tag prefix) t)"

section \<open>Lemmas\<close>

text \<open>
  What the update relies on: a copy that succeeds has the contents of the original and touches
  no other file; nothing else it calls touches the binary or its backup, but a build, which
  writes the binary.
\<close>

definition upgrade_laws :: "'w upgrade_env \<Rightarrow> panel_paths \<Rightarrow> bool" where
  "upgrade_laws uv ps \<longleftrightarrow>
     (\<forall>a b m t. fl_copy (uv_fs uv) a b m = (Inr (), t) \<longrightarrow> files t b = files m a) \<and>
     (\<forall>a b p. p \<noteq> b \<longrightarrow> leaves p (fl_copy (uv_fs uv) a b)) \<and>
     (\<forall>p \<in> {pp_binary_path ps, backup_of ps}.
        host_leaves (co_panel (uv_control uv)) p \<and> (\<forall>s. panel_unit_path (uv_host uv) s \<noteq> Some p) \<and>
        (\<forall>q. leaves p (uv_chmod uv q)) \<and> (\<forall>d. leaves p (fl_remove_all (uv_fs uv) d)) \<and>
        (\<forall>opts. leaves p (uv_find uv opts)) \<and> (\<forall>url d. leaves p (uv_get uv url d)) \<and>
        (\<forall>url. leaves p (be_request (uv_build uv) url)) \<and> (\<forall>m. files (uv_sleep uv health_delay m) p = files m p) \<and>
        (\<forall>n. leaves p (be_mkdtemp (uv_build uv) n)))"

lemma upgrade_laws_copy:
  "upgrade_laws uv ps \<Longrightarrow> fl_copy (uv_fs uv) a b m = (Inr (), t) \<Longrightarrow> files t b = files m a"
  "upgrade_laws uv ps \<Longrightarrow> p \<noteq> b \<Longrightarrow> leaves p (fl_copy (uv_fs uv) a b)"
  by (simp_all add: upgrade_laws_def)

lemma upgrade_laws_leave:
  assumes "upgrade_laws uv ps" "p = pp_binary_path ps \<or> p = backup_of ps"
  shows "leaves p (uv_start uv qs)" "leaves p (uv_stop uv qs)" "leaves p (uv_chmod uv q)" "leaves p (fl_remove_all (uv_fs uv) d)"
    "leaves p (uv_find uv opts)" "leaves p (uv_get uv url d)" "leaves p (be_request (uv_build uv) url)"
    "files (uv_sleep uv health_delay m) p = files m p" "leaves p (be_mkdtemp (uv_build uv) n)"
proof -
  have h: "host_leaves (co_panel (uv_control uv)) p" "\<And>s. panel_unit_path (uv_host uv) s \<noteq> Some p"
    using assms by (auto simp: upgrade_laws_def)
  show "leaves p (uv_start uv qs)" by (rule panel_start_leaves [OF h])
  show "leaves p (uv_stop uv qs)" by (rule panel_stop_leaves [OF h])
qed (use assms in \<open>auto simp: upgrade_laws_def\<close>)

lemma backup_other [simp]: "backup_of ps \<noteq> pp_binary_path ps" "pp_binary_path ps \<noteq> backup_of ps"
  by (simp_all add: backup_of_def)

lemma remove_present_leaves: "p \<noteq> q \<Longrightarrow> leaves p (remove_present os q)"
  unfolding remove_present_def by (intro leaves_catchE leaves_remove) (auto intro: leaves_basic)

lemma restore_backup_restores:
  assumes laws: "upgrade_laws uv ps" and run: "restore_backup uv (backup_of ps) (pp_binary_path ps) m = (Inr (), t)"
  shows "files t (pp_binary_path ps) = files m (backup_of ps)"
proof -
  from run obtain u v where steps: "remove_present (uv_os uv) (pp_binary_path ps) m = (Inr (), u)"
    "fl_copy (uv_fs uv) (backup_of ps) (pp_binary_path ps) u = (Inr (), v)" "uv_chmod uv (pp_binary_path ps) v = (Inr (), t)"
    by (auto simp: restore_backup_def bindE_Inr_iff split: option.splits)
  have "files t (pp_binary_path ps) = files v (pp_binary_path ps)"
    by (rule leavesD [OF upgrade_laws_leave(3) [OF laws] steps(3)]) simp
  also have "\<dots> = files u (backup_of ps)" by (rule upgrade_laws_copy(1) [OF laws steps(2)])
  also have "\<dots> = files m (backup_of ps)" by (rule leavesD [OF remove_present_leaves steps(1)]) simp
  finally show ?thesis .
qed

lemma health_leaves:
  assumes "upgrade_laws uv ps" "p = pp_binary_path ps \<or> p = backup_of ps"
  shows "leaves p (health_attempts uv a n)"
proof (rule leavesI)
  fix m
  have check: "leaves p (check_installation (uv_build uv) x y z)" for x y z
    unfolding check_installation_def
    by (intro leaves_bindE upgrade_laws_leave(7) [OF assms]) (simp add: leaves_def keeps_def)
  show "files (snd (health_attempts uv a n m)) p = files m p"
  proof (induction n arbitrary: m)
    case (Suc n)
    obtain r t where r: "check_installation (uv_build uv) (fst a) (fst (snd a)) (snd (snd a)) m = (r, t)" by force
    show ?case
      using leavesD [OF check r] Suc upgrade_laws_leave(8) [OF assms] by (cases r) (auto simp: r)
  qed simp
qed

lemma roll_back_restores:
  assumes laws: "upgrade_laws uv ps" and run: "roll_back uv ps m = (Inl rolled_back, t)"
  shows "files t (pp_binary_path ps) = files m (backup_of ps)"
proof -
  from run obtain u v where steps: "u = snd (uv_stop uv ps m)"
    "restore_backup uv (backup_of ps) (pp_binary_path ps) u = (Inr (), v)" "uv_start uv ps v = (Inr (), t)"
    by (auto simp: roll_back_def bindE_Inl_iff wrapE_Inl_iff rolled_back_def failE_def)
  have "files t (pp_binary_path ps) = files v (pp_binary_path ps)"
    by (rule leavesD [OF upgrade_laws_leave(1) [OF laws] steps(3)]) simp
  also have "\<dots> = files u (backup_of ps)" by (rule restore_backup_restores [OF laws steps(2)])
  also have "\<dots> = files m (backup_of ps)"
    using upgrade_laws_leave(2) [OF laws, of "backup_of ps" ps] steps(1) by (simp add: leaves_def keeps_def)
  finally show ?thesis .
qed

lemma verify_restores:
  assumes laws: "upgrade_laws uv ps" and run: "verify_or_roll_back uv ps m = (Inl rolled_back, t)"
  shows "files t (pp_binary_path ps) = files m (backup_of ps)"
proof -
  from run obtain e u where u: "check_health uv (panel_address uv ps m) m = (Inl e, u)" "roll_back uv ps u = (Inl rolled_back, t)"
    by (auto simp: verify_or_roll_back_def split: prod.splits sum.splits)
  have "files u (backup_of ps) = files m (backup_of ps)"
    by (rule leavesD [OF health_leaves [OF laws] u(1) [unfolded check_health_def]]) simp
  with roll_back_restores [OF laws u(2)] show ?thesis by simp
qed

lemma replacement_backs_up:
  assumes laws: "upgrade_laws uv ps"
    and run: "backup_and_replace uv fresh (pp_binary_path ps) (backup_of ps) m = (Inr (), t)"
  shows "files t (backup_of ps) = files m (pp_binary_path ps)"
proof -
  from run obtain u v w where steps: "fl_copy (uv_fs uv) (pp_binary_path ps) (backup_of ps) m = (Inr (), u)"
    "remove_present (uv_os uv) (pp_binary_path ps) u = (Inr (), v)" "fl_copy (uv_fs uv) fresh (pp_binary_path ps) v = (Inr (), w)"
    "uv_chmod uv (pp_binary_path ps) w = (Inr (), t)"
    by (auto simp: backup_and_replace_def bindE_Inr_iff catchE_Inr_iff failE_def)
  have "files t (backup_of ps) = files w (backup_of ps)"
    by (rule leavesD [OF upgrade_laws_leave(3) [OF laws] steps(4)]) simp
  also have "\<dots> = files v (backup_of ps)" by (rule leavesD [OF upgrade_laws_copy(2) [OF laws] steps(3)]) simp
  also have "\<dots> = files u (backup_of ps)" by (rule leavesD [OF remove_present_leaves steps(2)]) simp
  also have "\<dots> = files m (pp_binary_path ps)" by (rule upgrade_laws_copy(1) [OF laws steps(1)])
  finally show ?thesis .
qed

lemma replace_restores:
  assumes laws: "upgrade_laws uv ps" and run: "replace_panel uv ps fresh m = (Inl rolled_back, t)"
  shows "files t (pp_binary_path ps) = files m (pp_binary_path ps)"
proof -
  from run obtain u v w where steps: "uv_stop uv ps m = (Inr (), u)"
    "backup_and_replace uv fresh (pp_binary_path ps) (backup_of ps) u = (Inr (), v)"
    "uv_start uv ps v = (Inr (), w)" "verify_or_roll_back uv ps w = (Inl rolled_back, t)"
    by (auto simp: replace_panel_def bindE_Inl_iff wrapE_Inl_iff rolled_back_def)
  have "files t (pp_binary_path ps) = files w (backup_of ps)" by (rule verify_restores [OF laws steps(4)])
  also have "\<dots> = files v (backup_of ps)" by (rule leavesD [OF upgrade_laws_leave(1) [OF laws] steps(3)]) simp
  also have "\<dots> = files u (pp_binary_path ps)" by (rule replacement_backs_up [OF laws steps(2)])
  also have "\<dots> = files m (pp_binary_path ps)" by (rule leavesD [OF upgrade_laws_leave(2) [OF laws] steps(1)]) simp
  finally show ?thesis .
qed

lemma download_loop_leaves: "(\<And>url. leaves p (dl url)) \<Longrightarrow> leaves p (download_loop cancelled dl err urls)"
proof (induction urls arbitrary: err)
  case Nil
  then show ?case by (cases err) (auto intro: leaves_basic)
next
  case (Cons url urls)
  show ?case
  proof (rule leavesI)
    fix s
    obtain r t where r: "dl url s = (r, t)" by force
    have "files t p = files s p" using leavesD [OF Cons.prems r] .
    moreover have "files (snd (download_loop cancelled dl e urls t)) p = files t p" for e
      using Cons.IH [OF Cons.prems, of e] by (simp add: leaves_def keeps_def)
    ultimately show "files (snd (download_loop cancelled dl err (url # urls) s)) p = files s p"
      by (cases r) (auto simp: r)
  qed
qed

lemma download_release_leaves:
  assumes "upgrade_laws uv ps" "p = pp_binary_path ps \<or> p = backup_of ps"
  shows "leaves p (download_release uv tag prefix)"
proof -
  have "leaves p (download_with c (\<lambda>url. uv_get uv url d) (Some rel))" for c d rel
    unfolding download_with_def by (auto intro: leaves_basic intro!: download_loop_leaves upgrade_laws_leave(6) [OF assms])
  then show ?thesis
    unfolding download_release_def Let_def
    by (intro leaves_bindE leaves_basic upgrade_laws_leave [OF assms]) (auto simp: leaves_def keeps_def)
qed

lemma release_restores:
  assumes laws: "upgrade_laws uv ps" and run: "update_from_release uv ps tag prefix m = (Inl rolled_back, t)"
  shows "files t (pp_binary_path ps) = files m (pp_binary_path ps)"
proof -
  from run obtain tmp bin resolved u v where steps: "download_release uv tag prefix m = (Inr (tmp, bin, resolved), u)"
    "replace_panel uv ps bin u = (Inl rolled_back, v)" "t = snd (quietly (fl_remove_all (uv_fs uv) tmp) v)"
    by (auto simp: update_from_release_def bindE_Inl_iff wrapE_Inl_iff finallyE_eq rolled_back_def quietly_def retE_def
        split: if_splits)
  have "files t (pp_binary_path ps) = files v (pp_binary_path ps)"
    using leaves_basic(4) [OF upgrade_laws_leave(4) [OF laws], of "pp_binary_path ps" tmp] steps(3)
    by (simp add: leaves_def keeps_def)
  also have "\<dots> = files u (pp_binary_path ps)" by (rule replace_restores [OF laws steps(2)])
  also have "\<dots> = files m (pp_binary_path ps)" by (rule leavesD [OF download_release_leaves [OF laws] steps(1)]) simp
  finally show ?thesis .
qed

text \<open>A build touches the backup of the binary as little.\<close>

definition build_laws :: "'w upgrade_env \<Rightarrow> panel_paths \<Rightarrow> bool" where
  "build_laws uv ps \<longleftrightarrow>
     (\<forall>m pm. uv_load_pm uv m = Inr pm \<longrightarrow>
        (\<forall>n vs. keepsP (\<lambda>a b. files b (backup_of ps) = files a (backup_of ps)) (pm_install pm n vs))) \<and>
     (\<forall>d args. leaves (backup_of ps) (be_run_in (uv_build uv) d args)) \<and>
     (\<forall>args. leaves (backup_of ps) (ho_exec (be_host (uv_build uv)) args)) \<and>
     (\<forall>d. leaves (backup_of ps) (be_remove_all (uv_build uv) d)) \<and>
     (\<forall>m. files (be_update_path (uv_build uv) m) (backup_of ps) = files m (backup_of ps))"

lemma keepsP_leaves: "leaves p m \<Longrightarrow> keepsP (\<lambda>a b. files b p = files a p) (liftP m)"
  unfolding leaves_def by (rule keepsP_liftP)

lemma transp_leaves: "transp (\<lambda>a b. files b p = files a p)"
  by (simp add: transp_def)

lemma setup_leaves:
  assumes "upgrade_laws uv ps" "build_laws uv ps" "uv_load_pm uv m = Inr pm"
  shows "keepsP (\<lambda>a b. files b (backup_of ps) = files a (backup_of ps)) (setup_from_github (uv_build uv) pm branch output user)"
proof -
  let ?be = "uv_build uv" and ?p = "backup_of ps"
  have laws: "keepsP (\<lambda>a b. files b ?p = files a ?p) (pm_install pm n vs)" "leaves ?p (be_run_in ?be d args)"
    "leaves ?p (ho_exec (be_host ?be) args)" "leaves ?p (be_remove_all ?be d)" "files (be_update_path ?be m) ?p = files m ?p"
    for n vs d args m
    using assms(2,3) by (auto simp: build_laws_def)
  have update: "keepsP (\<lambda>a b. files b ?p = files a ?p) (\<lambda>m. Some (Inr (), be_update_path ?be m))"
    using laws(5) by (simp add: keepsP_def)
  have tools: "keepsP (\<lambda>a b. files b ?p = files a ?p) (ensure_build_tools ?be pm user)"
  proof (cases user)
    case True
    then show ?thesis by (auto simp: keepsP_def ensure_build_tools_def split: list.splits)
  next
    case False
    have "keepsP (\<lambda>a b. files b ?p = files a ?p)
      (bindP (wrapP ''failed to install git'' (pm_install pm ''git'' [])) (\<lambda>_.
        bindP (wrapP ''failed to install nodejs'' (pm_install pm ''nodejs'' [])) (\<lambda>_.
        bindP (wrapP ''failed to install golang'' (pm_install pm ''go'' [])) (\<lambda>_ m.
          Some (Inr (), be_update_path ?be m)))))"
      by (intro keepsP_bindP transp_leaves keepsP_wrapP laws update)
    with False show ?thesis unfolding ensure_build_tools_def by (simp add: keepsP_def)
  qed
  have build: "leaves ?p (build_styles ?be path)" "leaves ?p (build_go_panel ?be path out)" for path out
    unfolding build_styles_def build_go_panel_def Let_def by (auto intro!: leaves_bindE intro: leaves_basic laws leaves_mkdir)
  show ?thesis
    unfolding setup_from_github_def
    by (intro keepsP_bindP transp_leaves tools keepsP_leaves leaves_bindE leaves_finallyE leaves_basic build laws
        upgrade_laws_leave(9) [OF assms(1)]) simp
qed

lemma gives_up [simp]: "give_up_build uv ps e c \<noteq> (Inr x, d)" "give_up_build uv ps e c \<noteq> (Inl rolled_back, d)"
    "give_up_build uv ps e c \<noteq> (Inl (Err msg), d)"
  by (auto simp: give_up_build_def bindE_Inr_iff bindE_Inl_iff rolled_back_def failE_def split: if_splits)

lemma github_restores:
  assumes laws: "upgrade_laws uv ps" "build_laws uv ps" and stat: "\<And>t. fault (uv_os uv) (OpStat (pp_binary_path ps)) t = None"
    and old: "files m (pp_binary_path ps) \<noteq> None" and run: "update_from_github uv ps branch m = Some (Inl rolled_back, t)"
  shows "files t (pp_binary_path ps) = files m (pp_binary_path ps)"
proof -
  from run obtain pm where pm: "uv_load_pm uv m = Inr pm"
    by (auto simp: update_from_github_def rolled_back_def split: sum.splits)
  define build where "build = setup_from_github (uv_build uv) pm branch (pp_binary_path ps) (pp_scope ps = scope_user)"
  have exists: "is_file_exists (uv_os uv) (pp_binary_path ps) m"
    using stat [of m] old by (simp add: is_file_exists_def stat_file_def path_exists_def)
  from run exists obtain a b x where steps: "fl_copy (uv_fs uv) (pp_binary_path ps) (backup_of ps) m = (Inr (), a)"
    "uv_stop uv ps a = (Inr (), b)"
    and rest: "(case build b of None \<Rightarrow> None | Some (Inl e, c) \<Rightarrow> Some (give_up_build uv ps e c)
        | Some (Inr _, c) \<Rightarrow> Some (bindE (wrapE ''failed to start GameAP'' (uv_start uv ps)) (\<lambda>_. verify_or_roll_back uv ps) c)) =
      Some (Inl rolled_back, t)"
    by (auto simp: update_from_github_def pm build_def bindP_def liftP_def back_up_binary_def wrapE_def with_message_def
        rolled_back_def catchP_def split: option.splits prod.splits sum.splits)
  from rest obtain c d where c: "build b = Some (Inr (), c)" "uv_start uv ps c = (Inr (), d)"
    "verify_or_roll_back uv ps d = (Inl rolled_back, t)"
    by (auto simp: bindE_Inl_iff wrapE_Inl_iff rolled_back_def split: option.splits sum.splits)
  have "files t (pp_binary_path ps) = files d (backup_of ps)" by (rule verify_restores [OF laws(1) c(3)])
  also have "\<dots> = files c (backup_of ps)" by (rule leavesD [OF upgrade_laws_leave(1) [OF laws(1)] c(2)]) simp
  also have "\<dots> = files b (backup_of ps)" using keepsP_D [OF setup_leaves [OF laws pm]] c(1) by (simp add: build_def)
  also have "\<dots> = files a (backup_of ps)" by (rule leavesD [OF upgrade_laws_leave(2) [OF laws(1)] steps(2)]) simp
  also have "\<dots> = files m (pp_binary_path ps)" by (rule upgrade_laws_copy(1) [OF laws(1) steps(1)])
  finally show ?thesis .
qed

section \<open>Properties\<close>

text \<open>
  C26: an update of the panel that reports to have been rolled back has put the old binary in its
  place, whether the new one was downloaded or built.
\<close>

theorem rolled_back_update_restores_binary:
  assumes "upgrade_laws uv ps" and "build_laws uv ps" and "\<And>t. fault (uv_os uv) (OpStat (pp_binary_path ps)) t = None"
    and "files m (pp_binary_path ps) \<noteq> None"
    and "update_v4 uv ps tag prefix github branch m = Some (Inl rolled_back, t)"
  shows "files t (pp_binary_path ps) = files m (pp_binary_path ps)"
proof -
  from assms(5) have ok: "\<not> ((tag \<noteq> [] \<or> prefix \<noteq> []) \<and> (github \<or> branch \<noteq> []))"
  proof (rule contrapos_pn)
    assume "(tag \<noteq> [] \<or> prefix \<noteq> []) \<and> (github \<or> branch \<noteq> [])"
    then have "update_v4 uv ps tag prefix github branch m =
        Some (Inl (Err ''--version is mutually exclusive with --github and --branch''), m)"
      unfolding update_v4_def by (rule if_P)
    then show "update_v4 uv ps tag prefix github branch m \<noteq> Some (Inl rolled_back, t)" by (simp add: rolled_back_def)
  qed
  obtain r u where r: "load_panel_record (uv_control uv) m = (r, u)" by force
  have same: "files u (pp_binary_path ps) = files m (pp_binary_path ps)" by (rule leavesD [OF load_record_leaves r])
  from assms(5) ok r consider b where "update_from_github uv ps b u = Some (Inl rolled_back, t)"
    | "update_from_release uv ps tag prefix u = (Inl rolled_back, t)"
    by (auto simp: update_v4_def Let_def liftP_def split: if_splits)
  then have "files t (pp_binary_path ps) = files u (pp_binary_path ps)"
  proof cases
    case 1
    with assms(4) same show ?thesis by (intro github_restores [OF assms(1-3)]) simp_all
  qed (rule release_restores [OF assms(1)])
  with same show ?thesis by simp
qed

text \<open>
  When the new panel does not even start, nothing is rolled back: the new binary stays in
  place and the old one in the backup, unlike when it starts and does not answer.
\<close>

theorem failed_start_is_not_rolled_back:
  assumes "upgrade_laws uv ps" and "fresh \<notin> {pp_binary_path ps, backup_of ps}"
    and "leaves fresh (uv_stop uv ps)"
    and "replace_panel uv ps fresh m = (Inl (WithMessage e ''failed to start GameAP''), t)"
  shows "files t (pp_binary_path ps) = files m fresh \<and> files t (backup_of ps) = files m (pp_binary_path ps)"
proof -
  note laws = assms(1)
  have no: "verify_or_roll_back uv ps w \<noteq> (Inl (WithMessage e ''failed to start GameAP''), t)" for w
    by (auto simp: verify_or_roll_back_def roll_back_def bindE_Inl_iff wrapE_Inl_iff rolled_back_def failE_def quietly_def
        split: prod.splits sum.splits)
  from assms(4) no obtain u v where steps: "uv_stop uv ps m = (Inr (), u)"
    "backup_and_replace uv fresh (pp_binary_path ps) (backup_of ps) u = (Inr (), v)" "uv_start uv ps v = (Inl e, t)"
    by (auto simp: replace_panel_def bindE_Inl_iff wrapE_Inl_iff)
  from steps(2) obtain a b c where copy: "fl_copy (uv_fs uv) (pp_binary_path ps) (backup_of ps) u = (Inr (), a)"
    "remove_present (uv_os uv) (pp_binary_path ps) a = (Inr (), b)" "fl_copy (uv_fs uv) fresh (pp_binary_path ps) b = (Inr (), c)"
    "uv_chmod uv (pp_binary_path ps) c = (Inr (), v)"
    by (auto simp: backup_and_replace_def bindE_Inr_iff catchE_Inr_iff failE_def)
  have "files t (pp_binary_path ps) = files v (pp_binary_path ps)" "files t (backup_of ps) = files v (backup_of ps)"
    by (rule leavesD [OF upgrade_laws_leave(1) [OF laws] steps(3)], simp)+
  moreover have "files v (backup_of ps) = files m (pp_binary_path ps)"
    using replacement_backs_up [OF laws steps(2)] leavesD [OF upgrade_laws_leave(2) [OF laws] steps(1), of "pp_binary_path ps"] by simp
  moreover have "files v (pp_binary_path ps) = files b fresh"
    using leavesD [OF upgrade_laws_leave(3) [OF laws] copy(4), of "pp_binary_path ps"] upgrade_laws_copy(1) [OF laws copy(3)] by simp
  moreover have "files b fresh = files a fresh" by (rule leavesD [OF remove_present_leaves copy(2)]) (use assms(2) in simp)
  moreover have "files a fresh = files u fresh" by (rule leavesD [OF upgrade_laws_copy(2) [OF laws] copy(1)]) (use assms(2) in simp)
  moreover have "files u fresh = files m fresh" by (rule leavesD [OF assms(3) steps(1)])
  ultimately show ?thesis by simp
qed


text \<open>A new binary that starts and does not answer, and one that does not start.\<close>

definition copy_file :: "string \<Rightarrow> string \<Rightarrow> ('w, unit) sys" where
  "copy_file a b m = (case files m a of None \<Rightarrow> (Inl (NotExist a), m) | Some c \<Rightarrow> (Inr (), put_file b c m))"

definition upgrading :: "nat host \<Rightarrow> nat upgrade_env" where
  "upgrading h =
     \<lparr>uv_control = obedient_control\<lparr>co_panel := (co_panel obedient_control)\<lparr>ph_host := h\<rparr>\<rparr>,
      uv_build = \<lparr>be_host = h, be_run_in = (\<lambda>_ _. retE ()), be_mkdtemp = (\<lambda>_. retE ''/tmp/x''), be_remove_all = (\<lambda>_. retE ()),
        be_update_path = (\<lambda>m. m), be_request = (\<lambda>_. retE \<lparr>ha_status = 500, ha_length = 0, ha_body = Inr []\<rparr>), be_status = Inr\<rparr>,
      uv_fs = (px_fs rootless_env)\<lparr>fl_copy := copy_file\<rparr>, uv_load_pm = (\<lambda>_. Inr \<lparr>pm_search = (\<lambda>_. retE []),
        pm_install = (\<lambda>_ _. liftP (retE ())), pm_check = retE (), pm_remove = (\<lambda>_. retE ()), pm_purge = (\<lambda>_. retE ())\<rparr>),
      uv_find = (\<lambda>_. retE \<lparr>res_tag = ''v4.2.0'', res_asset = ''a'', res_urls = [''u'']\<rparr>),
      uv_get = (\<lambda>_ d m. (Inr (), if d = ''/tmp/x'' then put_file ''/tmp/x/gameap'' ''new'' m else m)), uv_chmod = (\<lambda>_. retE ()),
      uv_sleep = (\<lambda>_ m. m)\<rparr>"

definition user_paths :: panel_paths where "user_paths = user_panel_paths_from_home ''/home/u''"

definition stopping_host :: "nat host" where
  "stopping_host = obedient_host\<lparr>ho_exec := (\<lambda>args. if ''start'' \<in> set args then failE (Err ''exit status 1'') else retE ())\<rparr>"

lemma user_paths_values:
  "pp_binary_path user_paths = ''/home/u/.local/bin/gameap''" "backup_of user_paths = ''/home/u/.local/bin/gameap.backup''"
  "pp_scope user_paths = scope_user"
  by code_simp+

lemma obedient_home: "ho_home obedient_host = Some ''/home/u''" "ho_home stopping_host = Some ''/home/u''"
  by (simp_all add: obedient_host_def stopping_host_def stubborn_host_def)

lemma unit_not_binary:
  assumes "ho_home h = Some ''/home/u''" "p = pp_binary_path user_paths \<or> p = backup_of user_paths"
  shows "panel_unit_path h s \<noteq> Some p"
proof -
  have "pp_systemd_unit_path system_panel_paths \<noteq> ''/home/u/.local/bin/gameap''"
    "pp_systemd_unit_path system_panel_paths \<noteq> ''/home/u/.local/bin/gameap.backup''"
    "pp_systemd_unit_path (user_panel_paths_from_home ''/home/u'') \<noteq> ''/home/u/.local/bin/gameap''"
    "pp_systemd_unit_path (user_panel_paths_from_home ''/home/u'') \<noteq> ''/home/u/.local/bin/gameap.backup''" by code_simp+
  with assms show ?thesis
    by (auto simp: panel_unit_path_def panel_paths_for_scope_def user_home_def user_paths_values split: if_splits)
qed

lemma upgrading_laws:
  assumes "ho_home h = Some ''/home/u''"
    and "\<And>p ph. host_leaves (ph\<lparr>ph_host := h, ph_start_process := (\<lambda>_ _ _. retE 7)\<rparr>) p"
  shows "upgrade_laws (upgrading h) user_paths" "build_laws (upgrading h) user_paths"
proof -
  have ph: "co_panel (uv_control (upgrading h)) = (co_panel obedient_control)\<lparr>ph_host := h, ph_start_process := (\<lambda>_ _ _. retE 7)\<rparr>"
    by (simp add: upgrading_def obedient_control_def)
  have host: "host_leaves (co_panel (uv_control (upgrading h))) p" for p unfolding ph by (rule assms(2))
  have exec: "leaves p (ho_exec h c)" for p c using assms(2) [of undefined p] by (simp add: host_leaves_def)
  have paths: "p \<noteq> ''/tmp/x/gameap''" if "p \<in> {pp_binary_path user_paths, backup_of user_paths}" for p
    using that by (auto simp: user_paths_values)
  show "upgrade_laws (upgrading h) user_paths"
    using unit_not_binary [OF assms(1)] host paths
    by (simp add: upgrade_laws_def) (auto simp: upgrading_def copy_file_def leaves_def keeps_def retE_def rootless_env_def split: option.split)
  show "build_laws (upgrading h) user_paths"
    using exec by (auto simp: build_laws_def upgrading_def keepsP_def liftP_def retE_def leaves_def keeps_def)
qed

theorem rolled_back_update_restores_binary_witness:
  "\<exists>t. update_v4 (upgrading obedient_host) user_paths [] [] False [] panel_host_machine = Some (Inl rolled_back, t) \<and>
     files t ''/home/u/.local/bin/gameap'' = Some ''elf''"
proof -
  have laws: "upgrade_laws (upgrading obedient_host) user_paths" "build_laws (upgrading obedient_host) user_paths"
    by (rule upgrading_laws; simp add: obedient_home host_leaves_def obedient_host_def stubborn_host_def leaves_def keeps_def retE_def)+
  have old: "files panel_host_machine ''/home/u/.local/bin/gameap'' = Some ''elf''" by code_simp
  have "case update_v4 (upgrading obedient_host) user_paths [] [] False [] panel_host_machine of
      None \<Rightarrow> False | Some (r, t) \<Rightarrow> r = Inl rolled_back" by code_simp
  then obtain t where run: "update_v4 (upgrading obedient_host) user_paths [] [] False [] panel_host_machine = Some (Inl rolled_back, t)"
    by (auto split: option.splits)
  have "fault (uv_os (upgrading obedient_host)) (OpStat p) m = None" for p m
    by (simp add: upgrading_def obedient_host_def stubborn_host_def calm_os_def)
  then have "files t (pp_binary_path user_paths) = files panel_host_machine (pp_binary_path user_paths)"
    by (intro rolled_back_update_restores_binary [OF laws _ _ run]) (simp_all add: user_paths_values old)
  with run old show ?thesis by (auto simp: user_paths_values)
qed

theorem failed_start_is_not_rolled_back_witness:
  "\<exists>e t. replace_panel (upgrading stopping_host) user_paths ''/tmp/x/gameap'' (put_file ''/tmp/x/gameap'' ''new'' panel_host_machine) =
       (Inl (WithMessage e ''failed to start GameAP''), t) \<and>
     files t ''/home/u/.local/bin/gameap'' = Some ''new'' \<and> files t ''/home/u/.local/bin/gameap.backup'' = Some ''elf''"
proof -
  let ?uv = "upgrading stopping_host" and ?m = "put_file ''/tmp/x/gameap'' ''new'' panel_host_machine"
  have quiet: "host_leaves (ph\<lparr>ph_host := stopping_host, ph_start_process := (\<lambda>_ _ _. retE 7)\<rparr>) p" for ph p
    by (simp add: host_leaves_def stopping_host_def obedient_host_def stubborn_host_def leaves_def keeps_def retE_def failE_def)
  have laws: "upgrade_laws ?uv user_paths" by (rule upgrading_laws(1)) (simp_all add: obedient_home quiet)
  have old: "files ?m ''/home/u/.local/bin/gameap'' = Some ''elf''" "files ?m ''/tmp/x/gameap'' = Some ''new''" by code_simp+
  have "case fst (replace_panel ?uv user_paths ''/tmp/x/gameap'' ?m) of Inl (WithMessage e msg) \<Rightarrow> msg = ''failed to start GameAP'' | _ \<Rightarrow> False"
    by code_simp
  then obtain e where e: "fst (replace_panel ?uv user_paths ''/tmp/x/gameap'' ?m) = Inl (WithMessage e ''failed to start GameAP'')"
    by (auto split: sum.splits go_error.splits)
  then obtain t where run: "replace_panel ?uv user_paths ''/tmp/x/gameap'' ?m = (Inl (WithMessage e ''failed to start GameAP''), t)"
    by (metis prod.collapse)
  have "co_panel (uv_control ?uv) = (co_panel obedient_control)\<lparr>ph_host := stopping_host, ph_start_process := (\<lambda>_ _ _. retE 7)\<rparr>"
    by (simp add: upgrading_def obedient_control_def)
  then have "host_leaves (co_panel (uv_control ?uv)) p" for p using quiet by metis
  moreover have "panel_unit_path (ph_host (co_panel (uv_control ?uv))) s \<noteq> Some ''/tmp/x/gameap''" for s
  proof -
    have "pp_systemd_unit_path system_panel_paths \<noteq> ''/tmp/x/gameap''"
      "pp_systemd_unit_path (user_panel_paths_from_home ''/home/u'') \<noteq> ''/tmp/x/gameap''" by code_simp+
    then show ?thesis
      by (auto simp: panel_unit_path_def panel_paths_for_scope_def user_home_def upgrading_def obedient_home split: if_splits)
  qed
  ultimately have "leaves ''/tmp/x/gameap'' (uv_stop ?uv user_paths)" by (rule panel_stop_leaves)
  with failed_start_is_not_rolled_back [OF laws _ _ run] run old show ?thesis by (auto simp: user_paths_values)
qed

end
