(* ===== verification/PanelInstall.thy ===== *)
theory PanelInstall
  imports PanelEnroll PanelUpdate
begin

text \<open>
  The installation of the panel (\<open>panel_install.go\<close> and \<open>HandleV4\<close> in \<open>panel_install_v4.go\<close>):
  from the flags and the state of an earlier installation over the checks, the packages and the
  database to the running panel. The parts are those of the other theories.
\<close>

section \<open>Environment\<close>

record 'w setup_env =
  se_enroll :: "'w enroll_env"
  se_password :: "'w password_env"
  se_build :: "'w build_env"
  se_codec :: "panel_install_record codec"
  se_info :: os_info
  se_load_pm :: "'w machine \<Rightarrow> 'w package_manager result"
  se_new_password :: "('w, string) sys"

abbreviation se_check :: "'w setup_env \<Rightarrow> 'w check_env" where "se_check se \<equiv> ee_check (se_enroll se)"
abbreviation se_db :: "'w setup_env \<Rightarrow> 'w db_env" where "se_db se \<equiv> ee_db (se_enroll se)"
abbreviation se_panel :: "'w setup_env \<Rightarrow> 'w panel_env" where "se_panel se \<equiv> ee_panel (se_enroll se)"
abbreviation se_host :: "'w setup_env \<Rightarrow> 'w host" where "se_host se \<equiv> px_host (se_panel se)"
abbreviation se_os :: "'w setup_env \<Rightarrow> 'w os_env" where "se_os se \<equiv> px_os (se_panel se)"
abbreviation se_home :: "'w setup_env \<Rightarrow> string option" where "se_home se \<equiv> ho_home (se_host se)"

record install_flags =
  nf_non_interactive :: bool
  nf_skip_warnings :: bool
  nf_scope :: string
  nf_host :: string
  nf_port :: string
  nf_database :: string
  nf_db_host :: string
  nf_db_port :: string
  nf_db_name :: string
  nf_db_username :: string
  nf_db_password :: string
  nf_with_daemon :: bool
  nf_github :: bool
  nf_develop :: bool
  nf_branch :: string
  nf_grpc_port :: string
  nf_version :: string

section \<open>The state from the flags\<close>

definition flag_creds :: "install_flags \<Rightarrow> database_credentials" where
  "flag_creds fs =
     \<lparr>db_host = nf_db_host fs, db_port = nf_db_port fs, db_name = nf_db_name fs, db_username = nf_db_username fs,
      db_password = nf_db_password fs, db_root_password = []\<rparr>"

definition v3_not_supported :: go_error where
  "v3_not_supported = Err ''GameAP v3 installation via --version is not supported; only v4 (4.x.x) tags are accepted''"

text \<open>The tag of \<open>--version\<close>; none is asked for without the flag.\<close>

definition requested_tag :: "install_flags \<Rightarrow> normalized_tag result" where
  "requested_tag fs =
     (if nf_version fs = [] then Inr \<lparr>full_tag = [], tag_prefix = []\<rparr>
      else if nf_github fs \<or> nf_develop fs \<or> nf_branch fs \<noteq> [] then
        Inl (Err ''--version is mutually exclusive with --github, --branch and --develop'')
      else case normalize_tag (nf_version fs) of
        Inl e \<Rightarrow> Inl e
      | Inr t \<Rightarrow> if is_major_v3 t then Inl v3_not_supported else Inr t)"

definition flag_state :: "os_info \<Rightarrow> install_flags \<Rightarrow> string \<Rightarrow> normalized_tag \<Rightarrow> panel_paths \<Rightarrow> panel_state" where
  "flag_state info fs scope tag ps =
     \<lparr>pv_non_interactive = nf_non_interactive fs, pv_skip_warnings = nf_skip_warnings fs, pv_scope = scope, pv_https = False,
      pv_host = nf_host fs, pv_host_ip = [], pv_port = or_default (nf_port fs) (default_port_for_scope scope),
      pv_config_directory = pp_config_dir ps, pv_data_directory = pp_data_dir ps, pv_binary_path = pp_binary_path ps,
      pv_admin_password = [], pv_database = nf_database fs,
      pv_existing_database = (nf_db_host fs \<noteq> [] \<and> nf_db_password fs \<noteq> []), pv_creds = flag_creds fs,
      pv_with_daemon = nf_with_daemon fs, pv_info = info, pv_from_github = nf_github fs,
      pv_branch = or_default (if nf_develop fs then ''develop'' else nf_branch fs) ''main'', pv_version_input = nf_version fs,
      pv_tag = full_tag tag, pv_tag_prefix = tag_prefix tag, pv_resolved_tag = [], pv_grpc_enabled = False,
      pv_grpc_port = nf_grpc_port fs, pv_grpc_port_input = nf_grpc_port fs, pv_database_was_installed = False,
      pv_dir_existed_before = False, pv_database_not_empty = False\<rparr>"

definition load_install_state :: "'w setup_env \<Rightarrow> install_flags \<Rightarrow> panel_state result" where
  "load_install_state se fs =
     (case resolve_scope_for_os (nf_scope fs) (px_goos (se_panel se)) of
        Inl e \<Rightarrow> Inl e
      | Inr scope \<Rightarrow>
          (case requested_tag fs of
             Inl e \<Rightarrow> Inl e
           | Inr tag \<Rightarrow>
               (case with_message ''failed to resolve panel paths for scope'' (panel_paths_for_scope (se_home se) scope) of
                  Inl e \<Rightarrow> Inl e
                | Inr ps \<Rightarrow> Inr (flag_state (se_info se) fs scope tag ps))))"

section \<open>The state of an earlier installation\<close>

definition is_prev_state_v4 :: "string \<Rightarrow> bool" where
  "is_prev_state_v4 v \<longleftrightarrow> v \<noteq> [] \<and> (v = ''v4'' \<or> v = ''4'' \<or> has_prefix v ''v4.'' \<or> has_prefix v ''4.'')"

definition recorded_creds :: "panel_install_record \<Rightarrow> database_credentials" where
  "recorded_creds r =
     \<lparr>db_host = pir_db_host r, db_port = pir_db_port r, db_name = pir_db_name r, db_username = pir_db_username r,
      db_password = pir_db_password r, db_root_password = pir_db_root_password r\<rparr>"

definition restored_creds :: "panel_install_record \<Rightarrow> panel_state \<Rightarrow> database_credentials" where
  "restored_creds r s =
     (if pir_database r \<noteq> [] \<and> pir_database r \<noteq> pv_database s then pv_creds s
      else if \<not> pv_existing_database s \<and> db_password (pv_creds s) = [] \<and> pir_db_password r \<noteq> [] then recorded_creds r
      else pv_creds s)"

definition restore_from :: "panel_install_record \<Rightarrow> panel_state \<Rightarrow> panel_state" where
  "restore_from r s =
     (if \<not> is_prev_state_v4 (pir_version r) \<or> scope_or_default (pir_scope r) \<noteq> scope_or_default (pv_scope s) then s
      else s\<lparr>pv_creds := restored_creds r s, pv_admin_password := or_default (pv_admin_password s) (pir_admin_password r),
             pv_database_was_installed := pir_database_was_installed r\<rparr>)"

definition load_previous :: "'w setup_env \<Rightarrow> ('w, panel_install_record) sys" where
  "load_previous se = load_panel_install_state (se_os se) (se_home se) (se_codec se)"

definition restore_previous_state :: "'w setup_env \<Rightarrow> ('w, panel_state) step" where
  "restore_previous_state se s m =
     (case load_previous se m of
        (Inl _, u) \<Rightarrow> Some ((s, None), u)
      | (Inr r, u) \<Rightarrow> Some ((restore_from r s, None), u))"

definition installation_record :: "panel_state \<Rightarrow> panel_install_record" where
  "installation_record s =
     \<lparr>pir_version = or_default (pv_resolved_tag s) ''v4'', pir_scope = pv_scope s, pir_host = pv_host s,
      pir_host_ip = pv_host_ip s, pir_port = pv_port s, pir_path = [], pir_config_directory = pv_config_directory s,
      pir_data_directory = pv_data_directory s, pir_web_server = [], pir_database = pv_database s,
      pir_database_was_installed = pv_database_was_installed s, pir_develop = False, pir_from_github = pv_from_github s,
      pir_branch = pv_branch s, pir_db_host = db_host (pv_creds s), pir_db_port = db_port (pv_creds s),
      pir_db_name = db_name (pv_creds s), pir_db_username = db_username (pv_creds s),
      pir_db_password = db_password (pv_creds s), pir_db_root_password = db_root_password (pv_creds s),
      pir_admin_password = pv_admin_password s\<rparr>"

definition save_details :: "'w setup_env \<Rightarrow> panel_state \<Rightarrow> ('w, unit) sys" where
  "save_details se s = save_panel_install_state (se_os se) (se_home se) (se_codec se) (installation_record s)"

definition checkpoint :: "'w setup_env \<Rightarrow> ('w, panel_state) step" where
  "checkpoint se = doS (\<lambda>s. liftP (quietly (save_details se s)))"

section \<open>The command that runs the installer again\<close>

definition existing_database_args :: "panel_state \<Rightarrow> string" where
  "existing_database_args s =
     ''--database-host='' @ db_host (pv_creds s) @ '' --database-port='' @ db_port (pv_creds s) @
     '' --database-name='' @ db_name (pv_creds s) @ '' --database-username='' @ db_username (pv_creds s) @
     '' --database-password='' @ db_password (pv_creds s)"

definition cmd_line_from_state :: "panel_state \<Rightarrow> string" where
  "cmd_line_from_state s =
     (if windows_state s then ''gameapctl.exe '' else ''gameapctl '') @ ''panel install'' @
     (if pv_scope s = scope_user then '' --scope=user'' else []) @
     (if pv_version_input s \<noteq> [] then '' --version='' @ pv_version_input s else []) @
     '' --host='' @ pv_host s @ '' --port='' @ pv_port s @ '' --database='' @ pv_database s @
     (if pv_existing_database s then '' '' @ existing_database_args s else []) @
     (if pv_with_daemon s then '' --with-daemon'' else []) @
     (if pv_grpc_port_input s \<noteq> [] then '' --grpc-port='' @ pv_grpc_port_input s else [])"

section \<open>The database that the scope admits\<close>

definition validate_database_for_scope :: "panel_state \<Rightarrow> go_error option" where
  "validate_database_for_scope s =
     (if pv_scope s \<noteq> scope_user then None
      else if pv_database s \<noteq> postgres_database \<and> pv_database s \<noteq> mysql_database then None
      else if pv_existing_database s then None
      else Some (Err (''--database='' @ pv_database s @ '' installs a database server, which is not possible with --scope=user; '' @
        ''use --database=sqlite, connect to an existing server with --database-host/--database-port/'' @
        ''--database-name/--database-username/--database-password, or install with --scope=system'')))"

definition checkS :: "('s \<Rightarrow> go_error option) \<Rightarrow> ('w, 's) step" where
  "checkS f s m = Some ((s, f s), m)"

text \<open>In user scope SQLite is taken when none was selected.\<close>

definition choose_database :: "('w, panel_state) step" where
  "choose_database =
     ifS (\<lambda>s _. pv_database s \<noteq> []) skipS
       (ifS (\<lambda>s _. pv_scope s \<noteq> scope_user) (failS (Err ''empty database''))
          (updS (\<lambda>s. s\<lparr>pv_database := sqlite_database\<rparr>)))"

section \<open>Asking\<close>

definition take_answers :: "asked_params \<Rightarrow> panel_state \<Rightarrow> panel_state" where
  "take_answers a s =
     (let t = (if pv_host s = [] then s\<lparr>pv_host := ap_host a\<rparr> else s) in
      if pv_database s \<noteq> [] then t
      else if ap_existing_database a
      then t\<lparr>pv_database := ap_database a, pv_existing_database := True, pv_creds := ap_creds a\<rparr>
      else t\<lparr>pv_database := ap_database a\<rparr>)"

definition ask_missing :: "'w setup_env \<Rightarrow> ('w, panel_state) step" where
  "ask_missing se =
     ifS (\<lambda>s _. pv_non_interactive s) skipS
       (letS (\<lambda>s. ask_user (se_check se) (pv_host s = []) (pv_database s = []) (pv_scope s))
         (\<lambda>a. updS (take_answers a)))"

section \<open>Packages of the system\<close>

definition ca_commands :: "string list" where "ca_commands = [''update-ca-certificates'', ''update-ca-trust'', ''trust'']"

definition update_ca_command :: "'w os_env \<Rightarrow> 'w machine \<Rightarrow> string" where
  "update_ca_command os m = (case filter (\<lambda>c. command_available os c m) ca_commands of [] \<Rightarrow> [] | c # _ \<Rightarrow> c)"

definition refresh_ca_trust_store :: "'w host \<Rightarrow> ('w, unit) sys" where
  "refresh_ca_trust_store h m =
     (let c = update_ca_command (ho_os h) m; run = (\<lambda>args. wrapE ''failed to update ca-certificates'' (ho_exec h args)) in
      if c = ''update-ca-certificates'' then run [''update-ca-certificates''] m
      else if c = ''update-ca-trust'' then run [''update-ca-trust'', ''extract''] m
      else if c = ''trust'' then run [''trust'', ''extract-compat''] m
      else (Inl (Err ''no known command found to update ca-certificates''), m))"

definition require_command :: "'w os_env \<Rightarrow> 'w package_manager \<Rightarrow> string \<Rightarrow> string \<Rightarrow> string \<Rightarrow> ('w, unit) psys" where
  "require_command os pm cmd pack msg m =
     (if command_available os cmd m then Some (Inr (), m) else wrapP msg (pm_install pm pack []) m)"

definition base_commands :: "(string \<times> string \<times> string) list" where
  "base_commands =
     [(''curl'', ''curl'', ''failed to install curl''), (''gpg'', ''gnupg'', ''failed to install gpg''),
      (''tar'', ''tar'', ''failed to install tar'')]"

text \<open>Yields whether the installer has to be run again with the new certificates.\<close>

definition install_system_dependencies :: "'w setup_env \<Rightarrow> 'w package_manager \<Rightarrow> panel_state \<Rightarrow> ('w, bool) psys" where
  "install_system_dependencies se pm s =
     bindP (liftP (wrapE ''failed to check for updates'' (pm_check pm))) (\<lambda>_ m.
       if linux_state (se_db se) s \<and> update_ca_command (se_os se) m = [] then
         bindP (wrapP ''failed to install ca-certificates'' (pm_install pm ''ca-certificates'' [])) (\<lambda>_.
         bindP (liftP (refresh_ca_trust_store (se_host se))) (\<lambda>_. liftP (retE True))) m
       else
         bindP (eachP (\<lambda>(cmd, pack, msg). require_command (se_os se) pm cmd pack msg) base_commands) (\<lambda>_.
           liftP (retE False)) m)"

section \<open>The panel\<close>

definition apply_grpc_decision :: "string \<Rightarrow> panel_state \<Rightarrow> panel_state" where
  "apply_grpc_decision tag s =
     (if is_at_least_v4_2 tag
      then s\<lparr>pv_grpc_enabled := True, pv_grpc_port := or_default (pv_grpc_port s) default_grpc_port\<rparr> else s)"

definition build_database_url :: "panel_state \<Rightarrow> string" where
  "build_database_url s =
     (let c = pv_creds s in
      if pv_database s = mysql_database then
        db_username c @ '':'' @ db_password c @ ''@tcp('' @ db_host c @ '':'' @ db_port c @ '')/'' @ db_name c @ ''?parseTime=true''
      else if pv_database s = sqlite_database then
        ''file:'' @ db_name c @ ''?_busy_timeout=5000&_journal_mode=WAL&cache=shared''
      else if pv_database s = postgres_database then
        ''postgres://'' @ db_username c @ '':'' @ db_password c @ ''@'' @ db_host c @ '':'' @ db_port c @ ''/'' @ db_name c @ ''?sslmode=disable''
      else [])"

definition panel_config_of :: "panel_state \<Rightarrow> install_config" where
  "panel_config_of s =
     \<lparr>ic_scope = pv_scope s, ic_config_directory = pv_config_directory s, ic_data_directory = pv_data_directory s,
      ic_binary_path = pv_binary_path s, ic_user = [], ic_group = [], ic_http_host = pv_host s, ic_http_port = pv_port s,
      ic_database_driver = pv_database s, ic_database_url = build_database_url s, ic_encryption_key = [], ic_auth_secret = [],
      ic_auth_service = [], ic_cache_driver = ''inmemory'', ic_files_driver = ''local'', ic_files_local_base_path = [],
      ic_legacy_path = [], ic_global_api_url = [], ic_grpc_enabled = pv_grpc_enabled s, ic_grpc_port = pv_grpc_port s,
      ic_tag = pv_tag s, ic_tag_prefix = pv_tag_prefix s, ic_pre_resolved = None\<rparr>"

definition install_gameap :: "'w setup_env \<Rightarrow> ('w, panel_state) step" where
  "install_gameap se =
     letS (\<lambda>s. liftP (wrapE ''failed to resolve GameAP release'' (resolve_panel_release (se_panel se) (panel_config_of s)))) (\<lambda>rel.
     seqS (updS (\<lambda>s. apply_grpc_decision (res_tag rel) (s\<lparr>pv_resolved_tag := res_tag rel\<rparr>)))
     (letS (\<lambda>s. liftP (wrapE ''failed to install GameAP v4''
              (panel_install (se_panel se) ((panel_config_of s)\<lparr>ic_pre_resolved := Some rel\<rparr>)))) (\<lambda>tag.
       updS (\<lambda>s. s\<lparr>pv_resolved_tag := or_default tag (pv_resolved_tag s)\<rparr>))))"

definition install_gameap_from_github :: "'w setup_env \<Rightarrow> 'w package_manager \<Rightarrow> ('w, panel_state) step" where
  "install_gameap_from_github se pm =
     seqS (updS (\<lambda>s. s\<lparr>pv_grpc_enabled := True, pv_grpc_port := or_default (pv_grpc_port s) default_grpc_port\<rparr>))
     (seqS (doS (\<lambda>s. wrapP ''failed to setup GameAP from github''
              (setup_from_github (se_build se) pm (pv_branch s) (pv_binary_path s) (pv_scope s = scope_user))))
       (doS (\<lambda>s. liftP (wrapE ''failed to configure GameAP v4'' (panel_configure (se_panel se) (panel_config_of s))))))"

definition update_admin_password :: "'w setup_env \<Rightarrow> ('w, panel_state) step" where
  "update_admin_password se =
     seqS (ifS (\<lambda>s _. pv_admin_password s \<noteq> []) skipS
       (letS (\<lambda>_. liftP (wrapE ''failed to generate password'' (se_new_password se)))
         (\<lambda>p. updS (\<lambda>s. s\<lparr>pv_admin_password := p\<rparr>))))
     (doS (\<lambda>s. liftP (wrapE ''failed to change admin password''
       (change_password (se_password se) ''admin'' (pv_admin_password s) (state_config_path s)))))"

section \<open>The command\<close>

definition database_step :: "'w setup_env \<Rightarrow> 'w package_manager \<Rightarrow> ('w, panel_state) step" where
  "database_step se pm s =
     (if pv_existing_database s \<and> pv_database s = postgres_database then
        wrapS ''failed to connect to existing PostgreSQL'' (connect_existing_postgres (se_db se))
      else if pv_existing_database s \<and> pv_database s = mysql_database then
        wrapS ''failed to connect to existing MySQL'' (connect_existing_mysql (se_db se))
      else if pv_database s = postgres_database then
        wrapS ''failed to install postgres'' (install_postgres (se_db se) pm)
      else if pv_database s = mysql_database then
        wrapS ''failed to install mysql'' (install_mysql_or_mariadb (se_db se) pm)
      else if pv_database s = sqlite_database then
        wrapS ''failed to install sqlite'' (install_sqlite (se_db se))
      else skipS) s"

definition preconfigure_credentials :: "'w setup_env \<Rightarrow> ('w, panel_state) step" where
  "preconfigure_credentials se =
     ifS (\<lambda>s _. pv_database s \<noteq> none_database \<and> \<not> pv_existing_database s)
       (seqS (wrapS ''failed to preconfigure database'' (preconfigure_step (se_db se))) (checkpoint se)) skipS"

definition linger_enabled :: "'w setup_env \<Rightarrow> 'w machine \<Rightarrow> bool \<times> 'w machine" where
  "linger_enabled se m =
     (case ho_username (se_host se) of
        Inl _ \<Rightarrow> (False, m)
      | Inr u \<Rightarrow>
          (case ce_exec_output (se_check se) [''loginctl'', ''show-user'', u, ''--property=Linger''] m of
             (Inl _, t) \<Rightarrow> (False, t)
           | (Inr out, t) \<Rightarrow> (contains_str out ''Linger=yes'', t)))"

text \<open>All but that query is output.\<close>

definition user_scope_summary :: "'w setup_env \<Rightarrow> ('w, panel_state) step" where
  "user_scope_summary se =
     ifS (\<lambda>s _. pv_scope s = scope_user) (doS (\<lambda>_ m. Some (Inr (), snd (linger_enabled se m)))) skipS"

definition start_panel :: "'w setup_env \<Rightarrow> bool \<Rightarrow> ('w, panel_state) step" where
  "start_panel se daemon_installed =
     seqS (doS (\<lambda>s. liftP (wrapE ''failed to start GameAP after installation'' (panel_start (px_panel (se_panel se)) (pv_scope s)))))
     (seqS (doS (\<lambda>s. liftP (wrapE ''failed to wait for GameAP health check''
              (wait_for_panel_health_check (se_enroll se) (panel_url s) health_retries))))
     (seqS (wrapS ''failed to update admin password'' (update_admin_password se))
     (seqS (checkpoint se)
     (seqS (if daemon_installed then doS (\<lambda>s. liftP (quietly (daemon_start (se_host se) (pv_scope s)))) else skipS)
       (user_scope_summary se)))))"

definition finish_installation :: "'w setup_env \<Rightarrow> ('w, panel_state) step" where
  "finish_installation se =
     ifS (\<lambda>s _. pv_with_daemon s)
       (tryS (daemon_install_v4 (se_enroll se)) (\<lambda>e. seqS (checkpoint se)
          (ifS (\<lambda>s _. pv_database s = none_database) skipS (start_panel se (e = None)))))
       (seqS (checkpoint se)
          (ifS (\<lambda>s _. pv_database s = none_database) skipS (start_panel se False)))"

definition install_on :: "'w setup_env \<Rightarrow> 'w package_manager \<Rightarrow> ('w, panel_state) step" where
  "install_on se pm =
     seqS (preconfigure_credentials se)
     (seqS (database_step se pm)
     (seqS (checkpoint se)
     (seqS (wrapS ''failed to install GameAP''
              (ifS (\<lambda>s _. pv_from_github s) (install_gameap_from_github se pm) (install_gameap se)))
     (seqS (checkpoint se) (finish_installation se)))))"

definition with_packages :: "'w setup_env \<Rightarrow> 'w package_manager \<Rightarrow> ('w, panel_state) step" where
  "with_packages se pm =
     seqS (wrapS ''failed to check selinux'' (check_selinux (se_check se)))
       (ifS (\<lambda>s _. pv_scope s = scope_user) (install_on se pm)
         (letS (install_system_dependencies se pm) (\<lambda>rerun. if rerun then skipS else install_on se pm)))"

definition with_loaded_packages :: "'w setup_env \<Rightarrow> ('w, panel_state) step" where
  "with_loaded_packages se s m =
     (case se_load_pm se m of
        Inl e \<Rightarrow> failS (WithMessage e ''failed to load package manager'') s m
      | Inr pm \<Rightarrow> with_packages se pm s m)"

definition host_checks :: "'w setup_env \<Rightarrow> ('w, panel_state) step" where
  "host_checks se =
     seqS (wrapS ''failed to check host'' (filter_and_check_host (se_check se)))
     (seqS (wrapS ''failed to check port availability'' (check_port_availability (se_check se)))
       (wrapS ''failed to check http host availability'' (check_http_host_availability (se_check se))))"

definition install_v4 :: "'w setup_env \<Rightarrow> ('w, panel_state) step" where
  "install_v4 se =
     seqS (doS (\<lambda>s. liftP (check_panel_scope (se_host se) (pv_scope s))))
     (seqS (ask_missing se)
     (seqS (restore_previous_state se)
     (seqS (checkS (\<lambda>s. if pv_host s = [] then Some (Err ''empty host'') else None))
     (seqS choose_database
     (seqS (checkS validate_database_for_scope)
     (seqS (updS fill_port)
     (seqS (host_checks se) (with_loaded_packages se))))))))"

definition step_result :: "(('s \<times> go_error option) \<times> 'w machine) option \<Rightarrow> (unit result \<times> 'w machine) option" where
  "step_result x = map_option (\<lambda>((s, e), u). (case e of None \<Rightarrow> Inr () | Some e \<Rightarrow> Inl e, u)) x"

definition handle_install_v4 :: "'w setup_env \<Rightarrow> install_flags \<Rightarrow> ('w, unit) psys" where
  "handle_install_v4 se fs m =
     (case load_install_state se fs of
        Inl e \<Rightarrow> Some (Inl (WithMessage e ''failed to load panel install state''), m)
      | Inr s \<Rightarrow> step_result (install_v4 se s m))"

definition handle_panel_install :: "'w setup_env \<Rightarrow> install_flags \<Rightarrow> ('w, unit) psys" where
  "handle_panel_install se fs m =
     (if nf_version fs = [] then handle_install_v4 se fs m
      else case normalize_tag (nf_version fs) of
        Inl e \<Rightarrow> Some (Inl e, m)
      | Inr t \<Rightarrow> if is_major_v3 t then Some (Inl v3_not_supported, m) else handle_install_v4 se fs m)"

section \<open>Lemmas\<close>

lemma seqS_cong:
  assumes "p s m = p' s m" "\<And>t u. p s m = Some ((t, None), u) \<Longrightarrow> q t u = q' t u"
  shows "seqS p q s m = seqS p' q' s m"
  using assms by (auto simp: seqS_def split: option.split prod.split)

text \<open>What the checks do not change: the scope, the database and whether it existed.\<close>

definition same_choices :: "panel_state \<times> 'w machine \<Rightarrow> panel_state \<times> 'w machine \<Rightarrow> bool" where
  "same_choices x y \<longleftrightarrow> pv_scope (fst y) = pv_scope (fst x) \<and> pv_database (fst y) = pv_database (fst x) \<and>
     pv_existing_database (fst y) = pv_existing_database (fst x)"

interpretation choices: step_frame "same_choices :: panel_state \<times> 'w machine \<Rightarrow> panel_state \<times> 'w machine \<Rightarrow> bool"
  by unfold_locales (auto simp: same_choices_def)

lemma same_choices_act [simp]: "keepsP (\<lambda>m u. same_choices (s, m) (s, u)) p"
  by (simp add: keepsP_def same_choices_def)

lemma same_choices_upd:
  "(\<And>s. pv_scope (f s) = pv_scope s \<and> pv_database (f s) = pv_database s \<and> pv_existing_database (f s) = pv_existing_database s) \<Longrightarrow>
     keepsS same_choices (updS f)"
  by (rule choices.upd) (simp add: same_choices_def)

lemma doS_state: "doS p s m = Some ((t, e), u) \<Longrightarrow> t = s"
  by (auto simp: doS_def letS_def skipS_def split: option.splits sum.splits)

lemma checks_keep_choices: "keepsS same_choices (host_checks se)" "keepsS same_choices (check_selinux ce)"
proof -
  have host: "keepsS same_choices (filter_and_check_host ce)" for ce :: "'a check_env"
  proof -
    have "keepsS same_choices (\<lambda>s m. case choose_ip_from_host ce (pv_host s) m of
        Inr ip \<Rightarrow> updS (pv_host_ip_update (\<lambda>_. ip)) s m
      | Inl e \<Rightarrow> (if is_dns_error e then skipS else failS (WithMessage e ''failed to choose IP from host'')) s m)"
      by (rule keepsS_I)
        (auto simp: same_choices_def skipS_def updS_def failS_def split: sum.splits if_splits dest!: doS_state)
    then show ?thesis
      unfolding filter_and_check_host_def
      by (intro choices.seq choices.branch choices.fail same_choices_upd) (auto simp: fill_port_def split_port_def split: option.split)
  qed
  have port: "keepsS same_choices (check_port_availability ce)" for ce :: "'a check_env"
  proof -
    have "keepsS same_choices (\<lambda>s m. case ce_listen ce (join_host_port (resolve_listen_address ce (pv_host s) (pv_port s) m) (pv_port s)) m of
        Some e \<Rightarrow>
          if pv_scope s = scope_user \<and> is_access_error e then failS (port_refused s) s m
          else doS (warning ce) s m
      | None \<Rightarrow>
          (case ce_close_listener ce m of
             None \<Rightarrow> skipS
           | Some e \<Rightarrow> failS (WithMessage e ''failed to close listener'')) s m)"
      by (rule keepsS_I)
        (auto simp: same_choices_def skipS_def updS_def failS_def split: option.splits if_splits dest!: doS_state)
    then show ?thesis
      unfolding check_port_availability_def
      by (intro choices.seq choices.branch choices.skip same_choices_upd) (auto simp: fill_port_def)
  qed
  have http: "keepsS same_choices (check_http_host_availability ce)" for ce :: "'a check_env"
  proof -
    have "keepsS same_choices (\<lambda>s m. case ce_head ce (''http://'' @ pv_host s @ '':'' @ pv_port s) m of
        HeadInvalid e \<Rightarrow> failS e s m
      | HeadFailed e \<Rightarrow> (if expected_silence e then skipS else doS (warning ce)) s m
      | HeadAnswered \<Rightarrow> skipS s m)"
      by (rule keepsS_I)
        (auto simp: same_choices_def skipS_def updS_def failS_def split: head_reply.splits if_splits dest!: doS_state)
    then show ?thesis
      unfolding check_http_host_availability_def by (intro choices.seq choices.branch choices.skip choices.act) simp_all
  qed
  show "keepsS same_choices (host_checks se)"
    unfolding host_checks_def by (intro choices.seq choices.wrap host port http)
  show "keepsS same_choices (check_selinux ce)"
    unfolding check_selinux_def by (auto intro!: choices.skip choices.bind choices.branch choices.act)
qed

lemma database_steps_keep_choices:
  "keepsS same_choices (preconfigure_credentials se)" "keepsS same_choices (checkpoint se)"
  "keepsS same_choices (connect_existing_postgres de)" "keepsS same_choices (connect_existing_mysql de)"
  "keepsS same_choices (install_sqlite de)"
proof -
  show save: "keepsS same_choices (checkpoint se)" unfolding checkpoint_def by (rule choices.act) simp
  have "keepsS same_choices (preconfigure_step (se_db se))"
    unfolding preconfigure_step_def by (rule choices.part) (simp add: same_choices_def)
  then show "keepsS same_choices (preconfigure_credentials se)"
    unfolding preconfigure_credentials_def by (intro choices.branch choices.seq choices.wrap choices.skip save)
  have port: "keepsS same_choices (updS (or_port p))" for p
    by (rule same_choices_upd) (simp add: or_port_def use_port_def)
  show "keepsS same_choices (connect_existing_postgres de)" "keepsS same_choices (connect_existing_mysql de)"
    unfolding connect_existing_postgres_def connect_existing_mysql_def check_postgres_def check_mysql_def
    by (intro choices.seq choices.wrap choices.bind port same_choices_upd; simp)+
  show "keepsS same_choices (install_sqlite de)"
    unfolding install_sqlite_def by (intro choices.seq choices.branch choices.skip choices.act same_choices_upd) simp_all
qed

section \<open>The user scope without packages\<close>

text \<open>
  The states in user scope, and those in which no server has to be installed. The package
  manager is only used where \<open>admitted\<close> does not hold.
\<close>

definition admitted :: "panel_state \<Rightarrow> bool" where
  "admitted s \<longleftrightarrow> pv_scope s = scope_user \<and> validate_database_for_scope s = None"

lemma admitted_choices: "same_choices (s, m) (t, u) \<Longrightarrow> admitted s \<Longrightarrow> admitted t"
  by (auto simp: admitted_def same_choices_def validate_database_for_scope_def)

lemma keeps_admitted: "keepsS same_choices p \<Longrightarrow> p s m = Some ((t, e), u) \<Longrightarrow> admitted s \<Longrightarrow> admitted t"
  using admitted_choices keepsS_D by metis

lemma keepsS_if: "keepsS R p \<Longrightarrow> keepsS R q \<Longrightarrow> keepsS R (if b then p else q)"
  by (cases b) simp_all

lemma database_step_admitted:
  assumes "admitted s"
  shows "database_step se pm s = database_step se pm' s"
    and "database_step se pm s m = Some ((t, e), u) \<Longrightarrow> admitted t"
proof -
  have db: "(pv_database s = postgres_database \<or> pv_database s = mysql_database) \<Longrightarrow> pv_existing_database s"
    using assms by (auto simp: admitted_def validate_database_for_scope_def split: if_splits)
  show "database_step se pm s = database_step se pm' s"
  proof (cases "pv_database s = postgres_database \<or> pv_database s = mysql_database")
    case True
    with db have "pv_existing_database s" by blast
    with True show ?thesis by (elim disjE; simp add: database_step_def)
  next
    case False
    then show ?thesis by (simp add: database_step_def)
  qed
  let ?pg = "wrapS ''failed to connect to existing PostgreSQL'' (connect_existing_postgres (se_db se))"
  let ?my = "wrapS ''failed to connect to existing MySQL'' (connect_existing_mysql (se_db se))"
  let ?sq = "wrapS ''failed to install sqlite'' (install_sqlite (se_db se))"
  have keep: "keepsS same_choices ?pg" "keepsS same_choices ?my" "keepsS same_choices ?sq"
    by (rule choices.wrap, rule database_steps_keep_choices)+
  consider (pg) "pv_database s = postgres_database" | (my) "pv_database s = mysql_database" "pv_database s \<noteq> postgres_database"
    | (other) "pv_database s \<noteq> postgres_database" "pv_database s \<noteq> mysql_database" by blast
  then have "\<exists>p. keepsS same_choices p \<and> database_step se pm s = p s"
  proof cases
    case pg
    then have "database_step se pm s = ?pg s" using db by (simp add: database_step_def)
    with keep(1) show ?thesis by blast
  next
    case my
    then have "database_step se pm s = ?my s" using db by (simp add: database_step_def)
    with keep(2) show ?thesis by blast
  next
    case other
    then have "database_step se pm s = (if pv_database s = sqlite_database then ?sq else skipS) s" by (simp add: database_step_def)
    moreover have "keepsS same_choices (if pv_database s = sqlite_database then ?sq else skipS)"
      by (rule keepsS_if [OF keep(3) choices.skip])
    ultimately show ?thesis by blast
  qed
  then show "admitted t" if "database_step se pm s m = Some ((t, e), u)"
    using keeps_admitted [OF _ _ assms] that by metis
qed

lemma user_build_without_packages: "setup_from_github be pm branch output True = setup_from_github be pm' branch output True"
proof -
  have "ensure_build_tools be pm True = ensure_build_tools be pm' True" by (intro ext) (simp add: ensure_build_tools_def)
  then show ?thesis by (simp add: setup_from_github_def)
qed

lemma github_install_admitted:
  assumes "admitted s"
  shows "install_gameap_from_github se pm s m = install_gameap_from_github se pm' s m"
  unfolding install_gameap_from_github_def
proof (rule seqS_cong [OF refl], rule seqS_cong)
  fix t u assume "updS (\<lambda>s. s\<lparr>pv_grpc_enabled := True, pv_grpc_port := or_default (pv_grpc_port s) default_grpc_port\<rparr>) s m = Some ((t, None), u)"
  then have "pv_scope t = scope_user" using assms by (auto simp: updS_def admitted_def)
  then show "doS (\<lambda>s. wrapP ''failed to setup GameAP from github'' (setup_from_github (se_build se) pm (pv_branch s) (pv_binary_path s) (pv_scope s = scope_user))) t u =
      doS (\<lambda>s. wrapP ''failed to setup GameAP from github'' (setup_from_github (se_build se) pm' (pv_branch s) (pv_binary_path s) (pv_scope s = scope_user))) t u"
    by (simp add: doS_def letS_def user_build_without_packages [of "se_build se" pm _ _ pm'])
qed simp

lemma install_on_admitted:
  assumes "admitted s"
  shows "install_on se pm s m = install_on se pm' s m"
  unfolding install_on_def
proof (rule seqS_cong [OF refl])
  fix t1 u1 assume "preconfigure_credentials se s m = Some ((t1, None), u1)"
  with assms have t1: "admitted t1" using keeps_admitted [OF database_steps_keep_choices(1)] by metis
  let ?rest = "\<lambda>pm. seqS (checkpoint se) (seqS (wrapS ''failed to install GameAP''
      (ifS (\<lambda>s _. pv_from_github s) (install_gameap_from_github se pm) (install_gameap se))) (seqS (checkpoint se) (finish_installation se)))"
  show "seqS (database_step se pm) (?rest pm) t1 u1 = seqS (database_step se pm') (?rest pm') t1 u1"
  proof (rule seqS_cong)
    show "database_step se pm t1 u1 = database_step se pm' t1 u1" by (simp only: database_step_admitted(1) [OF t1, of se pm pm'])
  next
    fix t2 u2 assume "database_step se pm t1 u1 = Some ((t2, None), u2)"
    then have t2: "admitted t2" by (rule database_step_admitted(2) [OF t1])
    show "?rest pm t2 u2 = ?rest pm' t2 u2"
    proof (rule seqS_cong [OF refl])
      fix t3 u3 assume "checkpoint se t2 u2 = Some ((t3, None), u3)"
      with t2 have t3: "admitted t3" using keeps_admitted [OF database_steps_keep_choices(2)] by metis
      show "seqS (wrapS ''failed to install GameAP'' (ifS (\<lambda>s _. pv_from_github s) (install_gameap_from_github se pm) (install_gameap se)))
          (seqS (checkpoint se) (finish_installation se)) t3 u3 =
        seqS (wrapS ''failed to install GameAP'' (ifS (\<lambda>s _. pv_from_github s) (install_gameap_from_github se pm') (install_gameap se)))
          (seqS (checkpoint se) (finish_installation se)) t3 u3"
        by (rule seqS_cong) (simp_all add: wrapS_def ifS_def github_install_admitted [OF t3, of se pm u3 pm'])
    qed
  qed
qed

lemma with_packages_admitted:
  assumes "admitted s"
  shows "with_packages se pm s m = with_packages se pm' s m"
  unfolding with_packages_def
proof (rule seqS_cong [OF refl])
  fix t u assume "wrapS ''failed to check selinux'' (check_selinux (se_check se)) s m = Some ((t, None), u)"
  with assms have "admitted t" using keeps_admitted [OF choices.wrap [OF checks_keep_choices(2)]] by metis
  then show "ifS (\<lambda>s _. pv_scope s = scope_user) (install_on se pm) (letS (install_system_dependencies se pm) (\<lambda>rerun. if rerun then skipS else install_on se pm)) t u =
      ifS (\<lambda>s _. pv_scope s = scope_user) (install_on se pm') (letS (install_system_dependencies se pm') (\<lambda>rerun. if rerun then skipS else install_on se pm')) t u"
    using install_on_admitted [of t se pm u pm'] by (simp add: ifS_def admitted_def)
qed

text \<open>No other part of the command looks at the package manager of the environment.\<close>

lemma load_pm_parts [simp]:
  "load_previous (se\<lparr>se_load_pm := load\<rparr>) = load_previous se"
  "save_details (se\<lparr>se_load_pm := load\<rparr>) = save_details se"
  "linger_enabled (se\<lparr>se_load_pm := load\<rparr>) = linger_enabled se"
  "install_gameap (se\<lparr>se_load_pm := load\<rparr>) = install_gameap se"
  "install_gameap_from_github (se\<lparr>se_load_pm := load\<rparr>) = install_gameap_from_github se"
  "update_admin_password (se\<lparr>se_load_pm := load\<rparr>) = update_admin_password se"
  "database_step (se\<lparr>se_load_pm := load\<rparr>) = database_step se"
  by (intro ext; simp only: load_previous_def save_details_def linger_enabled_def install_gameap_def
      install_gameap_from_github_def update_admin_password_def database_step_def setup_env.simps setup_env.update_convs;
      cases se; simp only: setup_env.simps)+

lemma load_pm_steps [simp]:
  "checkpoint (se\<lparr>se_load_pm := load\<rparr>) = checkpoint se"
  "user_scope_summary (se\<lparr>se_load_pm := load\<rparr>) = user_scope_summary se"
  unfolding checkpoint_def user_scope_summary_def by simp_all

lemma load_pm_start [simp]: "start_panel (se\<lparr>se_load_pm := load\<rparr>) = start_panel se"
  by (intro ext) (simp only: start_panel_def load_pm_parts load_pm_steps, cases se, simp only: setup_env.simps)

lemma load_pm_finish [simp]: "finish_installation (se\<lparr>se_load_pm := load\<rparr>) = finish_installation se"
  unfolding finish_installation_def load_pm_start load_pm_steps by (cases se) (simp only: setup_env.simps)

lemma load_pm_preconfigure [simp]: "preconfigure_credentials (se\<lparr>se_load_pm := load\<rparr>) = preconfigure_credentials se"
  unfolding preconfigure_credentials_def load_pm_steps by (cases se) (simp only: setup_env.simps)

lemma load_pm_ignored [simp]:
  "install_on (se\<lparr>se_load_pm := load\<rparr>) = install_on se"
  "ask_missing (se\<lparr>se_load_pm := load\<rparr>) = ask_missing se"
  "restore_previous_state (se\<lparr>se_load_pm := load\<rparr>) = restore_previous_state se"
  "host_checks (se\<lparr>se_load_pm := load\<rparr>) = host_checks se"
  "load_install_state (se\<lparr>se_load_pm := load\<rparr>) = load_install_state se"
  "install_system_dependencies (se\<lparr>se_load_pm := load\<rparr>) = install_system_dependencies se"
  by (intro ext; simp only: install_on_def ask_missing_def restore_previous_state_def host_checks_def load_install_state_def
      install_system_dependencies_def load_pm_parts load_pm_steps load_pm_finish load_pm_preconfigure;
      cases se; simp only: setup_env.simps)+

lemma with_packages_load [simp]: "with_packages (se\<lparr>se_load_pm := load\<rparr>) = with_packages se"
  unfolding with_packages_def load_pm_ignored by (cases se) (simp only: setup_env.simps)

lemma loaded_packages_admitted:
  assumes "admitted s" "\<forall>m. \<exists>pm. se_load_pm se m = Inr pm" "\<forall>m. \<exists>pm. load m = Inr pm"
  shows "with_loaded_packages (se\<lparr>se_load_pm := load\<rparr>) s m = with_loaded_packages se s m"
proof -
  obtain pm pm' where "se_load_pm se m = Inr pm" "load m = Inr pm'" using assms(2,3) by blast
  then show ?thesis using with_packages_admitted [OF assms(1), of se pm m pm'] by (simp add: with_loaded_packages_def)
qed

text \<open>The steps before the checks keep the scope.\<close>

definition same_scope :: "panel_state \<times> 'w machine \<Rightarrow> panel_state \<times> 'w machine \<Rightarrow> bool" where
  "same_scope x y \<longleftrightarrow> pv_scope (fst y) = pv_scope (fst x)"

interpretation scopes: step_frame "same_scope :: panel_state \<times> 'w machine \<Rightarrow> panel_state \<times> 'w machine \<Rightarrow> bool"
  by unfold_locales (auto simp: same_scope_def)

lemma scope_act [simp]: "keepsP (\<lambda>m u. same_scope (s, m) (s, u)) p"
  by (simp add: keepsP_def same_scope_def)

lemma scope_upd: "(\<And>s. pv_scope (f s) = pv_scope s) \<Longrightarrow> keepsS same_scope (updS f)"
  by (rule scopes.upd) (simp add: same_scope_def)

lemma first_steps_keep_scope:
  "keepsS same_scope (ask_missing se)" "keepsS same_scope (restore_previous_state se)" "keepsS same_scope choose_database"
proof -
  have "pv_scope (take_answers a s) = pv_scope s" for a s by (simp add: take_answers_def Let_def)
  then show "keepsS same_scope (ask_missing se)"
    unfolding ask_missing_def by (intro scopes.branch scopes.skip scopes.bind scope_upd) simp_all
  show "keepsS same_scope (restore_previous_state se)"
    by (rule keepsS_I) (auto simp: restore_previous_state_def same_scope_def restore_from_def split: prod.splits sum.splits)
  show "keepsS same_scope choose_database"
    unfolding choose_database_def by (intro scopes.branch scopes.skip scopes.fail scope_upd) simp_all
qed

lemma keeps_user_scope: "keepsS same_scope p \<Longrightarrow> p s m = Some ((t, e), u) \<Longrightarrow> pv_scope s = scope_user \<Longrightarrow> pv_scope t = scope_user"
  using keepsS_D [of same_scope p s m t e u] by (simp add: same_scope_def)

lemma after_in_user_scope:
  assumes "keepsS same_scope p" and "\<And>t u. pv_scope t = scope_user \<Longrightarrow> q t u = q' t u" and "pv_scope s = scope_user"
  shows "seqS p q s m = seqS p q' s m"
  by (rule seqS_cong [OF HOL.refl]) (rule assms(2), rule keeps_user_scope [OF assms(1) _ assms(3)])

lemma install_v4_user:
  assumes s: "pv_scope s = scope_user" and pm: "\<forall>m. \<exists>pm. se_load_pm se m = Inr pm" "\<forall>m. \<exists>pm. load m = Inr pm"
  shows "install_v4 (se\<lparr>se_load_pm := load\<rparr>) s m = install_v4 se s m"
proof -
  let ?last = "\<lambda>se. seqS (host_checks se) (with_loaded_packages se)"
  have last: "?last (se\<lparr>se_load_pm := load\<rparr>) t u = ?last se t u" if "admitted t" for t u
    unfolding load_pm_ignored
    by (rule seqS_cong [OF HOL.refl])
      (rule loaded_packages_admitted [OF _ pm], rule keeps_admitted [OF checks_keep_choices(1) _ that])
  let ?checked = "\<lambda>se. seqS (checkS validate_database_for_scope) (seqS (updS fill_port) (?last se))"
  have checked: "?checked (se\<lparr>se_load_pm := load\<rparr>) t u = ?checked se t u" if "pv_scope t = scope_user" for t u
  proof (rule seqS_cong [OF HOL.refl], rule seqS_cong [OF HOL.refl])
    fix v w x y assume "checkS validate_database_for_scope t u = Some ((v, None), w)" "updS fill_port v w = Some ((x, None), y)"
    with that have "admitted x"
      by (auto simp: checkS_def updS_def admitted_def fill_port_def validate_database_for_scope_def)
    then show "?last (se\<lparr>se_load_pm := load\<rparr>) x y = ?last se x y" by (rule last)
  qed
  have check: "keepsS same_scope (checkS f)" for f :: "panel_state \<Rightarrow> go_error option"
    by (simp add: keepsS_def checkS_def same_scope_def)
  have host: "se_host (se\<lparr>se_load_pm := load\<rparr>) = se_host se" by simp
  show ?thesis
    unfolding install_v4_def host load_pm_ignored(2,3)
    by (rule after_in_user_scope [OF _ _ s], rule scopes.act, simp)
      (rule after_in_user_scope [OF first_steps_keep_scope(1)], rule after_in_user_scope [OF first_steps_keep_scope(2)],
        rule after_in_user_scope [OF check], rule after_in_user_scope [OF first_steps_keep_scope(3)], rule checked, assumption+)
qed

lemma doS_done: "doS p s m = Some ((t, None), u) \<longleftrightarrow> p s m = Some (Inr (), u) \<and> t = s"
  by (auto simp: doS_def letS_done skipS_def)

lemma wait_healthy:
  assumes "wait_for_panel_health_check ee host health_retries m = (Inr (), u)"
  shows "\<exists>w. ce_healthy (ee_check ee) (host @ ''/health'') w"
proof -
  have wait: "wait_for_panel ee (host @ ''/health'') health_retries m = (Inr (), u)"
    using assms by (simp add: wait_for_panel_health_check_def)
  obtain n where retries: "health_retries = Suc n" by (metis health_retries_def numeral_eq_Suc)
  have "ee_invalid_url ee (host @ ''/health'') = None"
    using wait unfolding retries by (cases "ee_invalid_url ee (host @ ''/health'')") simp_all
  from wait_succeeds [OF this, of health_retries m] wait show ?thesis by (auto simp: health_retries_def)
qed

definition working :: "'w setup_env \<Rightarrow> panel_state \<Rightarrow> bool" where
  "working se t \<longleftrightarrow> (\<exists>w. ce_healthy (se_check se) (panel_url t @ ''/health'') w) \<and>
     (\<exists>w w'. change_password (se_password se) ''admin'' (pv_admin_password t) (state_config_path t) w = (Inr (), w'))"

lemma update_admin_password_done:
  assumes "update_admin_password se s m = Some ((t, None), u)"
  shows "(\<exists>p. t = s\<lparr>pv_admin_password := p\<rparr>) \<and>
    (\<exists>w w'. change_password (se_password se) ''admin'' (pv_admin_password t) (state_config_path t) w = (Inr (), w'))"
proof -
  obtain v w where v: "ifS (\<lambda>s _. pv_admin_password s \<noteq> []) skipS
       (letS (\<lambda>_. liftP (wrapE ''failed to generate password'' (se_new_password se)))
         (\<lambda>p. updS (\<lambda>s. s\<lparr>pv_admin_password := p\<rparr>))) s m = Some ((v, None), w)"
    and t: "v = t" "change_password (se_password se) ''admin'' (pv_admin_password t) (state_config_path t) w = (Inr (), u)"
    using assms by (auto simp: update_admin_password_def seqS_done doS_done liftP_def)
  have "v = s \<or> (\<exists>p. v = s\<lparr>pv_admin_password := p\<rparr>)"
    using v by (auto simp: ifS_def skipS_def letS_done updS_def split: if_splits)
  moreover have "s = s\<lparr>pv_admin_password := pv_admin_password s\<rparr>" by simp
  ultimately show ?thesis using t by metis
qed

lemma start_panel_done:
  assumes "start_panel se b s m = Some ((t, None), u)"
  shows "working se t \<and> pv_database t = pv_database s"
proof -
  obtain v w w' w'' where wait: "wait_for_panel_health_check (se_enroll se) (panel_url s) health_retries v = (Inr (), w)"
    and upd: "update_admin_password se s w = Some ((t, None), w')"
    using assms
    by (auto simp: start_panel_def seqS_done doS_done liftP_def checkpoint_def user_scope_summary_def ifS_def skipS_def
        split: if_splits)
  from update_admin_password_done [OF upd] wait_healthy [OF wait] show ?thesis
    by (auto simp: working_def panel_url_def)
qed

lemma finish_installation_done:
  assumes "finish_installation se s m = Some ((t, None), u)"
  shows "pv_database t = none_database \<or> working se t"
proof -
  have last: "pv_database t = none_database \<or> working se t"
    if "seqS (checkpoint se) (ifS (\<lambda>s _. pv_database s = none_database) skipS (start_panel se b)) v w = Some ((t, None), u)" for b v w
    using that start_panel_done [of se b v _ t u]
    by (auto simp: seqS_done checkpoint_def doS_done liftP_def ifS_def skipS_def split: if_splits)
  from assms show ?thesis
    by (auto simp: finish_installation_def ifS_def tryS_def split: if_splits option.splits prod.splits dest: last)
qed

section \<open>Properties\<close>


text \<open>A host on which everything works but the state file; the panel answers after two pauses.\<close>

definition setup_example :: "nat setup_env" where
  "setup_example =
     \<lparr>se_enroll = silent_env\<lparr>ee_check := (ee_check silent_env)\<lparr>ce_db := (ce_db (ee_check silent_env))
          \<lparr>de_panel := (de_panel (ce_db (ee_check silent_env)))\<lparr>px_panel := co_panel obedient_control, px_random := \<lambda>n. retE (replicate n (CHR 0x00))\<rparr>\<rparr>\<rparr>\<rparr>,
      se_password = example_passwords\<lparr>we_sql := (we_sql example_passwords)\<lparr>sl_ping := \<lambda>_. retE ()\<rparr>\<rparr>,
      se_build =
        \<lparr>be_host = obedient_host, be_run_in = (\<lambda>_ _. retE ()), be_mkdtemp = (\<lambda>_. retE ''/tmp/x''),
         be_remove_all = (\<lambda>_. retE ()), be_update_path = (\<lambda>m. m), be_request = (\<lambda>_. failE (Err ''no route'')),
         be_status = Inr\<rparr>,
      se_codec = \<lparr>encode_json = (\<lambda>_. Inl (Err ''unsupported'')), decode_json = (\<lambda>_. Inl (Err ''unsupported''))\<rparr>, se_info = example_info, se_load_pm = (\<lambda>_. Inr willing_pm), se_new_password = retE ''secret''\<rparr>"

definition building_state :: panel_state where
  "building_state = (example_state ''localhost'')
     \<lparr>pv_scope := scope_user, pv_database := sqlite_database, pv_existing_database := True, pv_from_github := True,
      pv_binary_path := ''/home/u/.local/bin/gameap''\<rparr>"

definition example_flags :: install_flags where
  "example_flags =
     \<lparr>nf_non_interactive = True, nf_skip_warnings = False, nf_scope = scope_user, nf_host = ''localhost'', nf_port = [],
      nf_database = [], nf_db_host = [], nf_db_port = [], nf_db_name = [], nf_db_username = [], nf_db_password = [],
      nf_with_daemon = False, nf_github = False, nf_develop = False, nf_branch = [], nf_grpc_port = [], nf_version = []\<rparr>"


text \<open>
  C28: credentials survive a failed run: when the state was saved and the installer is started
  again for the same scope and the same kind of database, without a password of its own, it goes
  on with the database credentials and the administrator password of the earlier run.
\<close>

theorem credentials_survive_rerun:
  assumes json: "\<And>r b. encode_json (se_codec se) r = Inr b \<Longrightarrow> decode_json (se_codec se) b = Inr r"
    and readable: "\<And>p m. fault (se_os se) (OpRead p) m = None" "\<And>p m. fault (se_os se) (OpMkdir p) m = None"
    and saved: "save_details se s m = (Inr (), m')"
    and version: "pv_resolved_tag s = [] \<or> is_prev_state_v4 (pv_resolved_tag s)"
    and rerun: "pv_scope t = pv_scope s" "pv_database t = pv_database s" "\<not> pv_existing_database t"
      "db_password (pv_creds t) = []" "db_password (pv_creds s) \<noteq> []" "pv_admin_password t = []"
  shows "\<exists>u. restore_previous_state se t m' =
    Some ((t\<lparr>pv_creds := pv_creds s, pv_admin_password := pv_admin_password s,
             pv_database_was_installed := pv_database_was_installed s\<rparr>, None), u)"
proof -
  obtain u where load: "load_previous se m' = (Inr (installation_record s), u)"
    using saved_file_is_loaded [OF json saved [unfolded save_details_def save_panel_install_state_def] readable]
    by (metis load_previous_def load_panel_install_state_def surjective_pairing)
  have "is_prev_state_v4 (pir_version (installation_record s))"
    using version by (auto simp: installation_record_def or_default_def is_prev_state_v4_def)
  then have "restore_from (installation_record s) t =
      t\<lparr>pv_creds := pv_creds s, pv_admin_password := pv_admin_password s, pv_database_was_installed := pv_database_was_installed s\<rparr>"
    using rerun by (simp add: restore_from_def installation_record_def restored_creds_def recorded_creds_def or_default_def)
  with load show ?thesis by (simp add: restore_previous_state_def)
qed

definition failed_state :: panel_state where
  "failed_state = (example_state ''localhost'')\<lparr>pv_creds := (example_creds ''localhost'')\<lparr>db_password := ''sesame''\<rparr>,
     pv_admin_password := ''admin1''\<rparr>"

definition memo_codec :: "panel_install_record codec" where
  "memo_codec =
     \<lparr>encode_json = (\<lambda>r. if r = installation_record failed_state then Inr ''memo'' else Inl (Err ''unsupported'')),
      decode_json = (\<lambda>_. Inr (installation_record failed_state))\<rparr>"

theorem credentials_survive_rerun_witness:
  "\<exists>t u. restore_previous_state (setup_example\<lparr>se_codec := memo_codec\<rparr>) (example_state ''localhost'')
      (snd (save_details (setup_example\<lparr>se_codec := memo_codec\<rparr>) failed_state (reading 0))) = Some ((t, None), u) \<and>
    db_password (pv_creds t) = ''sesame'' \<and> pv_admin_password t = ''admin1''"
proof -
  let ?se = "setup_example\<lparr>se_codec := memo_codec\<rparr>"
  have "fst (save_details ?se failed_state (reading 0)) = Inr ()" by code_simp
  then have saved: "save_details ?se failed_state (reading 0) = (Inr (), snd (save_details ?se failed_state (reading 0)))"
    by (metis prod.collapse)
  have "\<exists>u. restore_previous_state ?se (example_state ''localhost'') (snd (save_details ?se failed_state (reading 0))) =
    Some (((example_state ''localhost'')\<lparr>pv_creds := pv_creds failed_state, pv_admin_password := pv_admin_password failed_state,
             pv_database_was_installed := pv_database_was_installed failed_state\<rparr>, None), u)"
  proof (rule credentials_survive_rerun [OF _ _ _ saved])
    show "decode_json (se_codec ?se) b = Inr r" if "encode_json (se_codec ?se) r = Inr b" for r b
      using that by (auto simp: memo_codec_def split: if_splits)
    show "fault (se_os ?se) (OpRead p) m = None" "fault (se_os ?se) (OpMkdir p) m = None" for p m
      by (simp_all add: setup_example_def obedient_control_def obedient_host_def stubborn_host_def calm_os_def)
  qed (simp_all add: failed_state_def example_state_def example_creds_def)
  then show ?thesis by (auto simp: failed_state_def)
qed


lemma done_step:
  "(case x of Some ((t, None), u) \<Rightarrow> P t u | _ \<Rightarrow> False) \<Longrightarrow> \<exists>t u. x = Some ((t, None), u) \<and> P t u"
  by (auto split: option.splits prod.splits)

lemma done_run:
  "(case x of (Inr (_ :: unit), u) \<Rightarrow> P u | _ \<Rightarrow> False) \<Longrightarrow> \<exists>u. x = (Inr (), u) \<and> P u"
  by (cases x) (auto split: sum.splits)

lemma seqS_run: "p s m = Some ((t, None), u) \<Longrightarrow> seqS p q s m = q t u"
  and doS_run: "f s m = Some (Inr (), u) \<Longrightarrow> doS f s m = Some ((s, None), u)"
  and wrapS_run: "p s m = Some ((t, None), u) \<Longrightarrow> wrapS msg p s m = Some ((t, None), u)"
  by (simp_all add: seqS_def doS_def letS_def skipS_def wrapS_def)

lemma checkpoint_run: "checkpoint se s m = Some ((s, None), snd (save_details se s m))"
  by (simp add: checkpoint_def doS_def letS_def skipS_def liftP_def quietly_def)

lemma done_runP:
  "(case x of Some (Inr (_ :: unit), u) \<Rightarrow> P u | _ \<Rightarrow> False) \<Longrightarrow> \<exists>u. x = Some (Inr (), u) \<and> P u"
  by (auto split: option.splits prod.splits sum.splits)

text \<open>A run that can be followed step by step.\<close>

definition grpc_state :: "panel_state \<Rightarrow> panel_state" where
  "grpc_state s = s\<lparr>pv_grpc_enabled := True, pv_grpc_port := or_default (pv_grpc_port s) default_grpc_port\<rparr>"

definition installs_after :: "nat setup_env \<Rightarrow> nat package_manager \<Rightarrow> panel_state \<Rightarrow> nat machine \<Rightarrow> bool" where
  "installs_after se pm s2 m =
     (case setup_from_github (se_build se) pm (pv_branch s2) (pv_binary_path s2) (pv_scope s2 = scope_user) m of
        Some (Inr _, m2) \<Rightarrow>
          (case panel_configure (se_panel se) (panel_config_of s2) m2 of
            (Inr _, m3) \<Rightarrow> (case panel_start (px_panel (se_panel se)) (pv_scope s2) (snd (save_details se s2 (snd (save_details se s2 m3)))) of
            (Inr _, m4) \<Rightarrow> (case wait_for_panel_health_check (se_enroll se) (panel_url s2) health_retries m4 of
            (Inr _, m5) \<Rightarrow> (case update_admin_password se s2 m5 of Some ((s3, None), _) \<Rightarrow> pv_database s3 \<noteq> none_database | _ \<Rightarrow> False) | _ \<Rightarrow> False) | _ \<Rightarrow> False) | _ \<Rightarrow> False)
      | _ \<Rightarrow> False)"

lemma install_on_succeeds:
  assumes s: "pv_existing_database s" and db: "database_step se pm s m = Some ((s1, None), m1)"
    and s1: "pv_from_github s1" "\<not> pv_with_daemon s1" "pv_database s1 \<noteq> none_database"
    and after: "installs_after se pm (grpc_state s1) (snd (save_details se s1 m1))"
  shows "\<exists>t u. install_on se pm s m = Some ((t, None), u) \<and> pv_database t \<noteq> none_database"
proof -
  obtain m2 m3 m4 m5 s3 m6 where
    "setup_from_github (se_build se) pm (pv_branch (grpc_state s1)) (pv_binary_path (grpc_state s1))
       (pv_scope (grpc_state s1) = scope_user) (snd (save_details se s1 m1)) = Some (Inr (), m2)"
    "panel_configure (se_panel se) (panel_config_of (grpc_state s1)) m2 = (Inr (), m3)"
    "panel_start (px_panel (se_panel se)) (pv_scope (grpc_state s1))
       (snd (save_details se (grpc_state s1) (snd (save_details se (grpc_state s1) m3)))) = (Inr (), m4)"
    "wait_for_panel_health_check (se_enroll se) (panel_url (grpc_state s1)) health_retries m4 = (Inr (), m5)"
    "update_admin_password se (grpc_state s1) m5 = Some ((s3, None), m6)" "pv_database s3 \<noteq> none_database"
    using after unfolding installs_after_def
    by (elim done_runP [elim_format] done_run [elim_format] done_step [elim_format] exE conjE) (rule that; assumption)
  note runs = this
  have same: "pv_with_daemon (grpc_state s1) = pv_with_daemon s1" "pv_database (grpc_state s1) = pv_database s1"
    by (simp_all add: grpc_state_def)
  have upd: "updS (\<lambda>s. s\<lparr>pv_grpc_enabled := True, pv_grpc_port := or_default (pv_grpc_port s) default_grpc_port\<rparr>) t w =
      Some ((grpc_state t, None), w)" for t and w :: "nat machine" by (simp add: grpc_state_def updS_def)
  have pre: "preconfigure_credentials se s m = Some ((s, None), m)"
    using s by (simp add: preconfigure_credentials_def ifS_def skipS_def)
  have inst: "wrapS ''failed to install GameAP'' (ifS (\<lambda>s _. pv_from_github s) (install_gameap_from_github se pm) (install_gameap se))
      s1 (snd (save_details se s1 m1)) = Some ((grpc_state s1, None), m3)"
    using runs(1,2) s1(1) by (simp add: wrapS_def ifS_def install_gameap_from_github_def seqS_run [OF upd] seqS_run doS_run wrapP_def liftP_def wrapE_def)
  have "\<exists>u. start_panel se False (grpc_state s1) (snd (save_details se (grpc_state s1) (snd (save_details se (grpc_state s1) m3)))) =
      Some ((s3, None), u)"
    using runs(3-5)
    by (simp add: start_panel_def seqS_run doS_run liftP_def wrapE_def wrapS_run checkpoint_run user_scope_summary_def ifS_def skipS_def)
  then show ?thesis
    using s1 same runs(6)
    by (auto simp: install_on_def finish_installation_def seqS_run [of "preconfigure_credentials se", OF pre]
        seqS_run [of "database_step se pm", OF db] seqS_run [of "wrapS _ _", OF inst] seqS_run [of "checkpoint se", OF checkpoint_run] ifS_def)
qed

definition with_sqlite :: panel_state where
  "with_sqlite = building_state\<lparr>pv_creds := (pv_creds building_state)\<lparr>db_name := ''/d/database.sqlite''\<rparr>,
     pv_database_was_installed := True\<rparr>"

definition bare_machine :: "nat machine" where
  "bare_machine = \<lparr>files = [''/d/database.sqlite'' \<mapsto> []], dirs = {user_manager_socket rootless_host}, world = 0, service_memo = None\<rparr>"


end
