(* ===== verification/LetsEncrypt.thy ===== *)
theory LetsEncrypt
  imports PanelPassword PanelEnroll "HOL-Library.AList" "HOL-Library.Char_ord" "HOL-Library.List_Lexorder"
begin

text \<open>
  The certificate commands of the panel (\<open>internal/actions/panel/letsencrypt\<close>): what is asked for
  and checked, the settings it becomes, and the editor that puts settings into \<open>config.env\<close> and
  keeps every other line. The parser of mail addresses is a parameter.
\<close>

section \<open>Reading config.env\<close>

text \<open>The lines as they are, and the value that each name has; a later line wins.\<close>

definition read_env :: "'w os_env \<Rightarrow> string \<Rightarrow> 'w machine \<Rightarrow> (string list \<times> (string \<rightharpoonup> string)) result" where
  "read_env os path m =
     (case fst (read_file os path m) of
        Inl e \<Rightarrow>
          if is_not_exist e then Inl (Err (''config file not found at '' @ path))
          else Inl (WithMessage e ''failed to open config file'')
      | Inr content \<Rightarrow>
          if list_ex (\<lambda>l. 65536 \<le> length l) (raw_lines content)
          then Inl (WithMessage (Err ''bufio.Scanner: token too long'') ''failed to read config file'')
          else Inr (scan_lines content, map_of (rev (List.map_filter trimmed_entry (scan_lines content)))))"

section \<open>Writing config.env\<close>

text \<open>The value that asks for the removal of a setting.\<close>

definition remove_marker :: string where
  "remove_marker = [CHR 0x00] @ ''__REMOVE__'' @ [CHR 0x00]"

text \<open>The updates are a map: a list of names with their values, each name once.\<close>

definition rewrite_line :: "(string \<times> string) list \<Rightarrow> string \<Rightarrow> string" where
  "rewrite_line ups raw =
     (case trimmed_entry raw of
        None \<Rightarrow> raw
      | Some (k, _) \<Rightarrow>
          (case map_of ups k of
             None \<Rightarrow> raw
           | Some v \<Rightarrow> if v = remove_marker then [] else k @ ''='' @ v))"

definition present_keys :: "string list \<Rightarrow> string set" where
  "present_keys ls = set (map fst (List.map_filter trimmed_entry ls))"

definition missing_keys :: "(string \<times> string) list \<Rightarrow> string list \<Rightarrow> string list" where
  "missing_keys ups ls =
     sort (map fst (filter (\<lambda>(k, v). k \<notin> present_keys ls \<and> v \<noteq> remove_marker) ups))"

definition rewritten_lines :: "(string \<times> string) list \<Rightarrow> string list \<Rightarrow> string list" where
  "rewritten_lines ups ls =
     map (rewrite_line ups) ls @ map (\<lambda>k. k @ ''='' @ the (map_of ups k)) (missing_keys ups ls)"

text \<open>
  The temporary file becomes \<open>config.env\<close>. A write that failed after the file was opened leaves
  nothing behind; no newline follows the last line.
\<close>

definition write_env :: "'w os_env \<Rightarrow> string \<Rightarrow> string list \<Rightarrow> (string \<times> string) list \<Rightarrow> ('w, unit) sys" where
  "write_env os path ls ups m =
     (let tmp = path @ ''.tmp''; content = join_with nl (rewritten_lines ups ls) in
      case write_file os tmp content m of
        (Inl e, t) \<Rightarrow>
          if torn os tmp content m = None then (Inl (WithMessage e ''failed to open temp config''), t)
          else (Inl (WithMessage e ''failed to write config''), snd (remove_file os tmp t))
      | (Inr _, t) \<Rightarrow>
          (case rename_file os tmp path t of
             (Inl e, u) \<Rightarrow> (Inl (WithMessage e ''failed to rename config''), snd (remove_file os tmp u))
           | (Inr _, u) \<Rightarrow> (Inr (), u)))"

section \<open>What is asked for\<close>

definition dq :: string where "dq = [CHR 0x22]"

definition challenge_http :: string where "challenge_http = ''http-01''"
definition challenge_dns :: string where "challenge_dns = ''dns-01''"
definition prod_directory :: string where "prod_directory = ''https://acme-v02.api.letsencrypt.org/directory''"
definition staging_directory :: string where "staging_directory = ''https://acme-staging-v02.api.letsencrypt.org/directory''"

record 'w acme_env =
  ae_control :: "'w control_env"
  ae_read_line :: "('w, string) sys"
  ae_mail :: "string \<Rightarrow> go_error option"

record setup_params =
  sp_domains :: "string list"
  sp_email :: string
  sp_challenge :: string
  sp_provider :: string
  sp_envs :: "string list"
  sp_staging :: bool

record acme_flags =
  af_scope :: string
  af_domains :: string
  af_email :: string
  af_challenge :: string
  af_provider :: string
  af_envs :: "string list"
  af_staging :: bool
  af_non_interactive :: bool

definition split_and_trim :: "string \<Rightarrow> string list" where
  "split_and_trim s = (if s = [] then [] else filter (\<lambda>p. p \<noteq> []) (map trim_space (split_char (CHR '','') s)))"

definition flag_params :: "acme_flags \<Rightarrow> setup_params" where
  "flag_params fl =
     \<lparr>sp_domains = split_and_trim (af_domains fl), sp_email = trim_space (af_email fl),
      sp_challenge = trim_space (af_challenge fl), sp_provider = trim_space (af_provider fl),
      sp_envs = af_envs fl, sp_staging = af_staging fl\<rparr>"

section \<open>Questions\<close>

definition prompt_line :: "'w acme_env \<Rightarrow> ('w, string) sys" where
  "prompt_line ae = bindE (wrapE ''failed to read input'' (ae_read_line ae)) (\<lambda>l. retE (trim_space l))"

definition prompt_when :: "'w acme_env \<Rightarrow> (setup_params \<Rightarrow> bool) \<Rightarrow> (string \<Rightarrow> setup_params \<Rightarrow> setup_params) \<Rightarrow>
    setup_params \<Rightarrow> ('w, setup_params) sys" where
  "prompt_when ae missing put p = (if missing p then bindE (prompt_line ae) (\<lambda>l. retE (put l p)) else retE p)"

definition prompt_challenge :: "'w acme_env \<Rightarrow> setup_params \<Rightarrow> ('w, setup_params) sys" where
  "prompt_challenge ae =
     prompt_when ae (\<lambda>p. sp_challenge p = []) (\<lambda>l p. p\<lparr>sp_challenge := or_default (to_lower l) challenge_http\<rparr>)"

definition prompt_domains :: "'w acme_env \<Rightarrow> (string \<rightharpoonup> string) \<Rightarrow> setup_params \<Rightarrow> ('w, setup_params) sys" where
  "prompt_domains ae current =
     (let host = trim_space (env_value current ''HTTP_HOST''); def = (if host = ''0.0.0.0'' then [] else host) in
      prompt_when ae (\<lambda>p. sp_domains p = []) (\<lambda>l p. p\<lparr>sp_domains := split_and_trim (or_default l def)\<rparr>))"

definition prompt_email :: "'w acme_env \<Rightarrow> setup_params \<Rightarrow> ('w, setup_params) sys" where
  "prompt_email ae = prompt_when ae (\<lambda>p. sp_email p = []) (\<lambda>l p. p\<lparr>sp_email := l\<rparr>)"

definition prompt_provider :: "'w acme_env \<Rightarrow> setup_params \<Rightarrow> ('w, setup_params) sys" where
  "prompt_provider ae =
     prompt_when ae (\<lambda>p. sp_challenge p = challenge_dns \<and> sp_provider p = []) (\<lambda>l p. p\<lparr>sp_provider := l\<rparr>)"

definition prompt_staging :: "'w acme_env \<Rightarrow> setup_params \<Rightarrow> ('w, setup_params) sys" where
  "prompt_staging ae =
     prompt_when ae (\<lambda>p. \<not> sp_staging p) (\<lambda>l p. p\<lparr>sp_staging := (to_lower l = ''y'' \<or> to_lower l = ''yes'')\<rparr>)"

text \<open>Lines up to an empty one; \<open>None\<close> is an input that never has one.\<close>

partial_function (option) read_credentials ::
  "'w acme_env \<Rightarrow> string list \<Rightarrow> 'w machine \<Rightarrow> (string list result \<times> 'w machine) option" where
  "read_credentials ae acc m =
     (case prompt_line ae m of
        (Inl e, t) \<Rightarrow> Some (Inl e, t)
      | (Inr l, t) \<Rightarrow> if l = [] then Some (Inr acc, t) else read_credentials ae (acc @ [l]) t)"

declare read_credentials.simps [code]

definition prompt_credentials :: "'w acme_env \<Rightarrow> setup_params \<Rightarrow> ('w, setup_params) psys" where
  "prompt_credentials ae p =
     (if sp_challenge p \<noteq> challenge_dns \<or> sp_envs p \<noteq> [] then liftP (retE p)
      else bindP (read_credentials ae []) (\<lambda>kvs. liftP (retE (p\<lparr>sp_envs := kvs\<rparr>))))"

definition prompt_missing :: "'w acme_env \<Rightarrow> (string \<rightharpoonup> string) \<Rightarrow> setup_params \<Rightarrow> ('w, setup_params) psys" where
  "prompt_missing ae current p =
     bindP (liftP (prompt_challenge ae p)) (\<lambda>p.
     bindP (liftP (prompt_domains ae current p)) (\<lambda>p.
     bindP (liftP (prompt_email ae p)) (\<lambda>p.
     bindP (liftP (prompt_provider ae p)) (\<lambda>p.
     bindP (liftP (prompt_staging ae p)) (prompt_credentials ae)))))"

definition collect_setup_params :: "'w acme_env \<Rightarrow> acme_flags \<Rightarrow> panel_paths \<Rightarrow> ('w, setup_params) psys" where
  "collect_setup_params ae fl ps m =
     (if af_non_interactive fl then Some (Inr (flag_params fl), m)
      else case read_env (co_os (ae_control ae)) (pp_config_file_path ps) m of
        Inl e \<Rightarrow> Some (Inl e, m)
      | Inr (_, current) \<Rightarrow> prompt_missing ae current (flag_params fl) m)"

section \<open>Checks\<close>

definition validate_setup_params :: "(string \<Rightarrow> go_error option) \<Rightarrow> setup_params \<Rightarrow> go_error option" where
  "validate_setup_params mail p =
     (if sp_challenge p = [] then Some (Err ''challenge type is required'')
      else if sp_challenge p \<noteq> challenge_http \<and> sp_challenge p \<noteq> challenge_dns then
        Some (Err (''unsupported challenge type '' @ dq @ sp_challenge p @ dq @ '' (expected '' @
          dq @ challenge_http @ dq @ '' or '' @ dq @ challenge_dns @ dq @ '')''))
      else if sp_domains p = [] then Some (Err ''at least one domain is required (--domains)'')
      else if sp_email p = [] then Some (Err ''email is required (--email)'')
      else case mail (sp_email p) of
        Some e \<Rightarrow> Some (WithMessage e ''invalid email'')
      | None \<Rightarrow>
          if sp_challenge p = challenge_dns \<and> sp_provider p = [] then
            Some (Err ''DNS provider is required for dns-01 (--dns-provider)'')
          else if sp_challenge p = challenge_http then
            (case filter (\<lambda>d. has_prefix d ''*'') (sp_domains p) of
               [] \<Rightarrow> None
             | d # _ \<Rightarrow> Some (Err (''wildcard domain '' @ dq @ d @ dq @ '' requires dns-01 challenge'')))
          else None)"

definition needs_port_80 :: go_error where
  "needs_port_80 = Err (''the http-01 challenge requires port 80, which is not available with --scope=user; '' @
     ''use --challenge=dns-01, forward /.well-known/acme-challenge/* from a '' @
     ''system-level reverse proxy, or reinstall the panel with --scope=system'')"

section \<open>The settings\<close>

fun add_env_entries :: "string list \<Rightarrow> (string \<times> string) list \<Rightarrow> (string \<times> string) list result" where
  "add_env_entries [] ups = Inr ups"
| "add_env_entries (kv # kvs) ups =
     (case cut_str ''='' kv of
        None \<Rightarrow> Inl (Err (''invalid --env entry '' @ dq @ kv @ dq @ '' (expected KEY=VALUE)''))
      | Some (k, v) \<Rightarrow> add_env_entries kvs (AList.update (trim_space k) (trim_space v) ups))"

definition build_updates :: "setup_params \<Rightarrow> (string \<times> string) list result" where
  "build_updates p =
     add_env_entries (sp_envs p)
       [(''ACME_ENABLED'', ''true''), (''ACME_CHALLENGE_TYPE'', sp_challenge p), (''ACME_EMAIL'', sp_email p),
        (''ACME_DOMAINS'', join_with '','' (sp_domains p)),
        (''ACME_DIRECTORY_URL'', if sp_staging p then staging_directory else prod_directory),
        (''ACME_DNS_PROVIDER'', if sp_challenge p = challenge_dns then sp_provider p else remove_marker)]"

definition env_keys_owned :: "string list" where
  "env_keys_owned =
     [''ACME_ENABLED'', ''ACME_CHALLENGE_TYPE'', ''ACME_EMAIL'', ''ACME_DOMAINS'', ''ACME_DIRECTORY_URL'',
      ''ACME_DNS_PROVIDER'', ''ACME_RENEWAL_THRESHOLD'', ''ACME_RENEWAL_CHECK_INTERVAL'',
      ''ACME_PROPAGATION_TIMEOUT'', ''ACME_STORAGE_PATH'']"

definition disable_updates :: "(string \<times> string) list" where
  "disable_updates =
     (''ACME_ENABLED'', ''false'') # map (\<lambda>k. (k, remove_marker)) (filter (\<lambda>k. k \<noteq> ''ACME_ENABLED'') env_keys_owned)"

section \<open>The commands\<close>

definition apply_updates :: "'w control_env \<Rightarrow> panel_paths \<Rightarrow> string list \<Rightarrow> (string \<times> string) list \<Rightarrow> ('w, unit) sys" where
  "apply_updates co ps ls ups =
     bindE (wrapE ''failed to write config'' (write_env (co_os co) (pp_config_file_path ps) ls ups)) (\<lambda>_.
     bindE (with_binary ps) (\<lambda>_.
       wrapE ''failed to restart gameap'' (panel_restart (co_panel co) (pp_scope ps))))"

definition configure_certificates :: "'w acme_env \<Rightarrow> panel_paths \<Rightarrow> setup_params \<Rightarrow> ('w, unit) sys" where
  "configure_certificates ae ps p m =
     (case validate_setup_params (ae_mail ae) p of
        Some e \<Rightarrow> (Inl e, m)
      | None \<Rightarrow>
          if pp_scope ps = scope_user \<and> sp_challenge p = challenge_http then (Inl needs_port_80, m)
          else case read_env (co_os (ae_control ae)) (pp_config_file_path ps) m of
            Inl e \<Rightarrow> (Inl e, m)
          | Inr (ls, _) \<Rightarrow>
              (case build_updates p of
                 Inl e \<Rightarrow> (Inl e, m)
               | Inr ups \<Rightarrow>
                   bindE (apply_updates (ae_control ae) ps ls ups) (\<lambda>_.
                     await_process (co_host (ae_control ae)) panel_process_name no_panel_process
                       ''started gameap process not found after restart'') m))"

definition handle_certificate_setup :: "'w acme_env \<Rightarrow> acme_flags \<Rightarrow> ('w, unit) psys" where
  "handle_certificate_setup ae fl =
     bindP (liftP (resolve_command_scope (ae_control ae) (af_scope fl))) (\<lambda>ps.
     bindP (collect_setup_params ae fl ps) (\<lambda>p. liftP (configure_certificates ae ps p)))"

definition handle_certificate_disable :: "'w control_env \<Rightarrow> string \<Rightarrow> ('w, unit) sys" where
  "handle_certificate_disable co flag =
     bindE (resolve_command_scope co flag) (\<lambda>ps m.
       case read_env (co_os co) (pp_config_file_path ps) m of
         Inl e \<Rightarrow> (Inl e, m)
       | Inr (ls, _) \<Rightarrow> apply_updates co ps ls disable_updates m)"

section \<open>Lemmas\<close>

definition env_values :: "string list \<Rightarrow> string \<rightharpoonup> string" where
  "env_values ls = map_of (rev (List.map_filter trimmed_entry ls))"

lemma env_values_append: "env_values (xs @ ys) = env_values xs ++ env_values ys"
  by (simp add: env_values_def)

lemma env_values_Cons: "env_values (l # ls) = (case trimmed_entry l of None \<Rightarrow> Map.empty | Some (k, v) \<Rightarrow> [k \<mapsto> v]) ++ env_values ls"
  by (auto simp: env_values_def List.map_filter_simps map_add_def fun_eq_iff split: option.split)

lemma entry_blank_line [simp]: "trimmed_entry [] = None"
  by (simp add: trimmed_entry_eq)

text \<open>What may be written: names and values on one line that survive the trimming.\<close>

definition updates_ok :: "(string \<times> string) list \<Rightarrow> bool" where
  "updates_ok ups \<longleftrightarrow> distinct (map fst ups) \<and>
     list_all (\<lambda>(k, v). env_key k \<and> CHR 0x0A \<notin> set v \<and> trimmed v \<and> length k + length v < 65535) ups"

lemma updates_okD:
  assumes "updates_ok ups" "map_of ups k = Some v"
  shows "env_key k" "CHR 0x0A \<notin> set v" "trimmed v" "length k + length v < 65535" "one_line v"
  using assms by (auto simp: updates_ok_def list_all_iff one_line_def trimmed_def dest!: map_of_SomeD)

lemma entry_of_update:
  assumes "updates_ok ups" "map_of ups k = Some v"
  shows "trimmed_entry (k @ ''='' @ v) = Some (k, v)"
  using updates_okD [OF assms] by (simp only: trimmed_entry_eq entry_setting) (simp add: trim_space_id)

text \<open>The value of one name after the editor.\<close>

definition updated :: "(string \<times> string) list \<Rightarrow> (string \<rightharpoonup> string) \<Rightarrow> string \<rightharpoonup> string" where
  "updated ups vals k = (case map_of ups k of None \<Rightarrow> vals k | Some v \<Rightarrow> if v = remove_marker then None else Some v)"

lemma entry_of_rewrite:
  assumes "updates_ok ups"
  shows "trimmed_entry (rewrite_line ups l) =
    (case trimmed_entry l of None \<Rightarrow> None
     | Some (k, v) \<Rightarrow> map_option (\<lambda>w. (k, w)) (updated ups [k \<mapsto> v] k))"
proof (cases "trimmed_entry l")
  case (Some kv)
  obtain k v where kv: "kv = (k, v)" by force
  show ?thesis
  proof (cases "map_of ups k")
    case None
    with Some kv show ?thesis by (simp add: rewrite_line_def updated_def)
  next
    case up: (Some w)
    with Some kv entry_of_update [OF assms up] show ?thesis by (simp add: rewrite_line_def updated_def del: append.simps)
  qed
qed (simp add: rewrite_line_def)

lemma rewritten_values:
  assumes "updates_ok ups"
  shows "env_values (map (rewrite_line ups) ls) k =
    (if k \<in> present_keys ls then updated ups (env_values ls) k else None)"
proof (induction ls)
  case Nil
  show ?case by (simp add: env_values_def present_keys_def)
next
  case (Cons l ls)
  have absent: "k \<notin> present_keys ls \<Longrightarrow> env_values ls k = None"
    by (force simp: present_keys_def env_values_def map_of_eq_None_iff)
  show ?case
  proof (cases "trimmed_entry l")
    case None
    then have keys: "present_keys (l # ls) = present_keys ls" by (simp add: present_keys_def List.map_filter_simps)
    from None Cons show ?thesis
      by (simp add: env_values_Cons entry_of_rewrite [OF assms] keys updated_def)
  next
    case (Some kv)
    obtain a b where kv: "kv = (a, b)" by force
    have keys: "present_keys (l # ls) = insert a (present_keys ls)"
      using Some kv by (simp add: present_keys_def List.map_filter_simps)
    show ?thesis
      using Cons Some kv absent
      by (cases "k = a"; cases "k \<in> present_keys ls")
        (auto simp: env_values_Cons entry_of_rewrite [OF assms] keys updated_def map_add_def split: option.split)
  qed
qed

lemma appended_values:
  assumes "updates_ok ups" "distinct ks" "\<And>k. k \<in> set ks \<Longrightarrow> map_of ups k \<noteq> None"
  shows "env_values (map (\<lambda>k. k @ ''='' @ the (map_of ups k)) ks) k = (if k \<in> set ks then map_of ups k else None)"
  using assms(2,3)
proof (induction ks)
  case (Cons a ks)
  then obtain v where v: "map_of ups a = Some v" by fastforce
  have "env_values (map (\<lambda>k. k @ ''='' @ the (map_of ups k)) (a # ks)) = [a \<mapsto> v] ++ env_values (map (\<lambda>k. k @ ''='' @ the (map_of ups k)) ks)"
    using entry_of_update [OF assms(1) v] by (simp add: env_values_Cons v del: append.simps)
  with Cons v show ?case by (auto simp: map_add_def split: option.split)
qed (simp add: env_values_def)

lemma missing_keys_iff:
  assumes "updates_ok ups"
  shows "k \<in> set (missing_keys ups ls) \<longleftrightarrow> k \<notin> present_keys ls \<and> (\<exists>v. map_of ups k = Some v \<and> v \<noteq> remove_marker)"
    and "distinct (missing_keys ups ls)"
proof -
  have d: "distinct (map fst ups)" using assms by (simp add: updates_ok_def)
  show "k \<in> set (missing_keys ups ls) \<longleftrightarrow> k \<notin> present_keys ls \<and> (\<exists>v. map_of ups k = Some v \<and> v \<noteq> remove_marker)"
    by (auto simp: missing_keys_def map_of_eq_Some_iff [OF d] image_iff)
  show "distinct (missing_keys ups ls)"
    using d by (simp add: missing_keys_def distinct_map_filter)
qed

lemma values_after_rewrite:
  assumes "updates_ok ups"
  shows "env_values (rewritten_lines ups ls) = updated ups (env_values ls)"
proof
  fix k
  have absent: "k \<notin> present_keys ls \<Longrightarrow> env_values ls k = None"
    by (force simp: present_keys_def env_values_def map_of_eq_None_iff)
  have "env_values (map (\<lambda>k. k @ ''='' @ the (map_of ups k)) (missing_keys ups ls)) k =
      (if k \<in> set (missing_keys ups ls) then map_of ups k else None)"
    by (rule appended_values [OF assms missing_keys_iff(2) [OF assms]]) (auto simp: missing_keys_iff(1) [OF assms])
  then show "env_values (rewritten_lines ups ls) k = updated ups (env_values ls) k"
    using absent
    by (auto simp: rewritten_lines_def env_values_append map_add_def rewritten_values [OF assms] missing_keys_iff(1) [OF assms]
        updated_def split: option.split)
qed

text \<open>What is written is read back line by line, but for carriage returns and an empty last line.\<close>

lemma trim_space_snoc: "go_space c \<Longrightarrow> trim_space (x @ [c]) = trim_space x"
proof -
  assume c: "go_space c"
  have left: "dropWhile go_space (x @ [c]) = (if list_all go_space x then [] else dropWhile go_space x @ [c])"
    using c by (induction x) auto
  show ?thesis
  proof (cases "list_all go_space x")
    case True
    then have "dropWhile go_space x = []" by (simp add: list_all_iff)
    then show ?thesis by (simp only: trim_space_def trim_left_def left True if_True)
  next
    case False
    with c show ?thesis by (simp only: trim_space_def trim_left_def left if_False) (simp add: trim_right_def)
  qed
qed

lemma entry_drop_cr: "trimmed_entry (drop_cr l) = trimmed_entry l"
proof (cases "l \<noteq> [] \<and> last l = CHR 0x0D")
  case True
  then have "l = butlast l @ [CHR 0x0D]" by (metis append_butlast_last_id)
  then have "trim_space l = trim_space (butlast l)"
    using trim_space_snoc [of "CHR 0x0D" "butlast l"] by (simp add: go_space_def)
  with True show ?thesis by (simp add: trimmed_entry_def drop_cr_def)
qed (auto simp: drop_cr_def)

lemma env_values_map: "(\<And>l. trimmed_entry (f l) = trimmed_entry l) \<Longrightarrow> env_values (map f ls) = env_values ls"
  by (induction ls) (auto simp: env_values_Cons)

lemma read_written_lines:
  assumes "\<And>l. l \<in> set ls \<Longrightarrow> CHR 0x0A \<notin> set l \<and> length l < 65536"
  shows "\<not> list_ex (\<lambda>l. 65536 \<le> length l) (raw_lines (join_with nl ls))"
    and "env_values (scan_lines (join_with nl ls)) = env_values ls"
proof -
  let ?raw = "raw_lines (join_with nl ls)"
  have lines: "?raw = ls \<or> ?raw @ [[]] = ls"
  proof (cases "ls = []")
    case False
    then have "split_char (CHR 0x0A) (join_with nl ls) = ls"
      unfolding nl_def using assms by (intro split_char_join) auto
    with False show ?thesis
      by (metis append_butlast_last_id raw_lines_def)
  qed (simp add: raw_lines_def)
  then obtain tail where tail: "tail = [] \<or> tail = [[]]" "ls = ?raw @ tail" by (metis append_Nil2)
  then have sub: "set ?raw \<subseteq> set ls" by (metis set_append sup_ge1)
  have "env_values tail = Map.empty" using tail(1) by (auto simp: env_values_def)
  with tail(2) have vals: "env_values ?raw = env_values ls" by (metis env_values_append map_add_empty)
  show short: "\<not> list_ex (\<lambda>l. 65536 \<le> length l) ?raw"
    using sub assms by (fastforce simp: list_ex_iff)
  then have "takeWhile (\<lambda>l. length l < 65536) ?raw = ?raw"
    by (auto simp: list_ex_iff takeWhile_eq_all_conv not_le)
  then show "env_values (scan_lines (join_with nl ls)) = env_values ls"
    by (simp only: scan_lines_def env_values_map [OF entry_drop_cr] vals)
qed

lemma read_env_lines:
  assumes "read_env os path m = Inr (ls, vals)"
  shows "vals = env_values ls" and "l \<in> set ls \<Longrightarrow> CHR 0x0A \<notin> set l \<and> length l < 65536"
proof -
  from assms obtain content where c: "ls = scan_lines content" "vals = env_values ls" 
    by (auto simp: read_env_def env_values_def split: sum.splits if_splits)
  then show "vals = env_values ls" by simp
  show "CHR 0x0A \<notin> set l \<and> length l < 65536" if l: "l \<in> set ls"
  proof -
    from l c obtain r where r: "l = drop_cr r" "r \<in> set (raw_lines content)" "length r < 65536"
      by (auto simp: scan_lines_def dest: set_takeWhileD)
    then show ?thesis using raw_lines_no_nl [OF r(2)] by (auto simp: drop_cr_def dest: in_set_butlastD)
  qed
qed

lemma rewritten_lines_ok:
  assumes "updates_ok ups" and "\<And>l. l \<in> set ls \<Longrightarrow> CHR 0x0A \<notin> set l \<and> length l < 65536" and "l \<in> set (rewritten_lines ups ls)"
  shows "CHR 0x0A \<notin> set l \<and> length l < 65536"
proof -
  have fresh: "CHR 0x0A \<notin> set (k @ ''='' @ v) \<and> length (k @ ''='' @ v) < 65536" if "map_of ups k = Some v" for k v
    using updates_okD [OF assms(1) that] by (auto simp: env_key_def list_all_iff go_space_def)
  from assms(3) consider (old) r where "r \<in> set ls" "l = rewrite_line ups r"
    | (new) k where "k \<in> set (missing_keys ups ls)" "l = k @ ''='' @ the (map_of ups k)"
    by (auto simp: rewritten_lines_def)
  then show ?thesis
  proof cases
    case old
    with assms(2) fresh show ?thesis
      unfolding rewrite_line_def by (auto split: option.split prod.split simp del: append.simps)
  next
    case new
    then obtain v where "map_of ups k = Some v" by (auto simp: missing_keys_iff(1) [OF assms(1)])
    with new fresh show ?thesis by simp
  qed
qed

text \<open>Whatever fails, \<open>config.env\<close> is the old file or the whole new one.\<close>

lemma config_never_torn:
  "files (snd (write_env os path ls ups m)) path \<in> {files m path, Some (join_with nl (rewritten_lines ups ls))}"
proof -
  let ?tmp = "path @ ''.tmp''" and ?c = "join_with nl (rewritten_lines ups ls)"
  obtain r t where w: "write_file os ?tmp ?c m = (r, t)" by force
  then have t: "files t path = files m path" using write_file_others [of path ?tmp os ?c m] by simp
  show ?thesis
  proof (cases r)
    case (Inl e)
    with w t show ?thesis by (simp add: write_env_def Let_def remove_file_others)
  next
    case (Inr u)
    with w have c: "files t ?tmp = Some ?c" by (simp add: write_file_Inr)
    obtain q v where rn: "rename_file os ?tmp path t = (q, v)" by force
    have "files v path \<in> {files m path, Some ?c}"
      using rn c t by (cases q) (auto simp: rename_file_Inr dest: rename_file_Inl)
    with w Inr rn show ?thesis
      by (cases q) (simp_all add: write_env_def Let_def remove_file_others)
  qed
qed

lemma user_scope_needs_dns:
  "pp_scope ps = scope_user \<Longrightarrow> sp_challenge p = challenge_http \<Longrightarrow> \<exists>e. configure_certificates ae ps p m = (Inl e, m)"
  by (simp add: configure_certificates_def split: option.split)

section \<open>Properties\<close>

text \<open>
  C30: the editor of \<open>config.env\<close> changes the settings that it is asked to change, takes away those
  that it is asked to remove, and keeps the value of every other one.
\<close>

theorem settings_edited:
  assumes "read_env os path m = Inr (ls, vals)" and "write_env os path ls ups m = (Inr (), t)"
    and "updates_ok ups" and "fault os (OpRead path) t = None"
  shows "\<exists>ls'. read_env os path t =
    Inr (ls', \<lambda>k. case map_of ups k of None \<Rightarrow> vals k | Some v \<Rightarrow> if v = remove_marker then None else Some v)"
proof -
  let ?out = "rewritten_lines ups ls"
  have ok: "\<And>l. l \<in> set ?out \<Longrightarrow> CHR 0x0A \<notin> set l \<and> length l < 65536"
    by (rule rewritten_lines_ok [OF assms(3) read_env_lines(2) [OF assms(1)]])
  have "files t path = Some (join_with nl ?out)"
    using assms(2) by (auto simp: write_env_def Let_def write_file_Inr rename_file_Inr split: prod.splits sum.splits if_splits)
  with assms(4) have "read_env os path t = Inr (scan_lines (join_with nl ?out), env_values (scan_lines (join_with nl ?out)))"
    using read_written_lines(1) [OF ok] by (simp add: read_env_def read_file_def env_values_def)
  moreover have "env_values (scan_lines (join_with nl ?out)) = updated ups vals"
    using read_written_lines(2) [OF ok] values_after_rewrite [OF assms(3)] read_env_lines(1) [OF assms(1)] by simp
  ultimately show ?thesis by (auto simp: updated_def [abs_def])
qed

definition acme_machine :: "nat machine" where
  "acme_machine =
     \<lparr>files = [''/c/config.env'' \<mapsto> ''HTTP_PORT=80'' @ nl @ ''ACME_ENABLED = true'' @ nl @ ''ACME_EMAIL=a@b'' @ nl], dirs = {},
      world = 0, service_memo = None\<rparr>"

theorem settings_edited_witness:
  "\<exists>ls vals. read_env calm_os ''/c/config.env''
      (snd (write_env calm_os ''/c/config.env'' (scan_lines (the (files acme_machine ''/c/config.env''))) disable_updates acme_machine)) =
      Inr (ls, vals) \<and> vals ''ACME_ENABLED'' = Some ''false'' \<and> vals ''ACME_EMAIL'' = None"
proof -
  let ?ls = "scan_lines (the (files acme_machine ''/c/config.env''))"
  let ?vals = "map_of (rev (List.map_filter trimmed_entry ?ls))"
  have "\<not> list_ex (\<lambda>l. 65536 \<le> length l) (raw_lines (the (files acme_machine ''/c/config.env'')))" by code_simp
  moreover have "files acme_machine ''/c/config.env'' \<noteq> None" by (simp add: acme_machine_def)
  ultimately have r: "read_env calm_os ''/c/config.env'' acme_machine = Inr (?ls, ?vals)"
    by (auto simp: read_env_def read_file_def calm_os_def)
  have "fst (write_env calm_os ''/c/config.env'' ?ls disable_updates acme_machine) = Inr ()"
    by (simp add: write_env_def Let_def write_file_def rename_file_def calm_os_def)
  then have w: "write_env calm_os ''/c/config.env'' ?ls disable_updates acme_machine =
      (Inr (), snd (write_env calm_os ''/c/config.env'' ?ls disable_updates acme_machine))" by (metis prod.collapse)
  have "updates_ok disable_updates" by code_simp
  from settings_edited [OF r w this] show ?thesis
    by (auto simp: calm_os_def disable_updates_def env_keys_owned_def remove_marker_def)
qed

end
