(* ===== verification/UiServer.thy ===== *)
theory UiServer
  imports PanelEnroll PanelUpdate PanelControl
begin

text \<open>
  The web interface (\<open>internal/actions/ui\<close>): the commands that a browser sends over a WebSocket,
  what they do on the host, and the conversation on one connection. The process that a command
  starts, the JSON decoder and the connection are parameters. The copy of the log that most
  commands also send as payload is left out; payloads are sent when the command has returned.
\<close>

section \<open>Messages\<close>

record ws_message =
  ms_topic :: string
  ms_code :: string
  ms_value :: string

definition payload_of :: "string \<Rightarrow> string \<Rightarrow> ws_message" where
  "payload_of topic v = \<lparr>ms_topic = topic, ms_code = ''payload'', ms_value = v\<rparr>"

definition error_of :: "string \<Rightarrow> go_error \<Rightarrow> ws_message" where
  "error_of topic e = \<lparr>ms_topic = topic, ms_code = ''error'', ms_value = error_text e\<rparr>"

definition end_of :: "string \<Rightarrow> ws_message" where
  "end_of topic = \<lparr>ms_topic = topic, ms_code = ''end'', ms_value = []\<rparr>"

record 'w ui_env =
  ui_control :: "'w control_env"
  ui_info :: os_info
  ui_interfaces :: "'w machine \<Rightarrow> string list result list"
  ui_executable :: "'w machine \<Rightarrow> string result"
  ui_run :: "string \<Rightarrow> string list \<Rightarrow> 'w machine \<Rightarrow> (string list \<times> go_error option) \<times> 'w machine"
  ui_update_path :: "'w machine \<Rightarrow> 'w machine"
  ui_invalid_url :: "string \<Rightarrow> go_error option"
  ui_get :: "string \<Rightarrow> ('w, http_answer) sys"
  ui_decode :: "string \<Rightarrow> ws_message result"
  ui_send :: "ws_message \<Rightarrow> ('w, unit) sys"
  ui_close :: "('w, unit) sys"

abbreviation ui_host :: "'w ui_env \<Rightarrow> 'w host" where "ui_host ui \<equiv> co_host (ui_control ui)"
abbreviation ui_os :: "'w ui_env \<Rightarrow> 'w os_env" where "ui_os ui \<equiv> co_os (ui_control ui)"

text \<open>A command writes some pieces of output and returns.\<close>

type_synonym 'w handler = "'w machine \<Rightarrow> (string list \<times> unit result) \<times> 'w machine"

definition says :: "string \<Rightarrow> 'w handler" where "says s m = (([s], Inr ()), m)"
definition refuses :: "string \<Rightarrow> 'w handler" where "refuses s m = (([], Inl (Err s)), m)"
definition silent :: "('w, unit) sys \<Rightarrow> 'w handler" where "silent p m = (case p m of (r, t) \<Rightarrow> (([], r), t))"
definition answers :: "('w, string) sys \<Rightarrow> 'w handler" where
  "answers p m = (case p m of (Inl e, t) \<Rightarrow> (([], Inl e), t) | (Inr s, t) \<Rightarrow> (([s], Inr ()), t))"

section \<open>Names of services\<close>

definition service_replacements :: "(string \<times> string) list" where
  "service_replacements =
     [(''daemon'', ''gameap-daemon''), (''gameap'', ''gameap''), (''gameap-daemon'', ''gameap-daemon''),
      (''gameapdaemon'', ''gameap-daemon''), (''mysql'', ''mariadb''), (''php'', ''php-fpm''),
      (''postgresql'', ''postgresql''), (''apache'', ''apache2'')]"

definition service_fallbacks :: "string \<Rightarrow> string list" where
  "service_fallbacks name = (if name = ''apache2'' then [''httpd''] else [])"

definition canonical_service :: "string \<Rightarrow> string" where
  "canonical_service arg = (case map_of service_replacements (to_lower arg) of None \<Rightarrow> to_lower arg | Some s \<Rightarrow> s)"

section \<open>Status\<close>

definition status_active :: string where "status_active = ''active''"
definition status_inactive :: string where "status_inactive = ''inactive''"
definition status_not_found :: string where "status_not_found = ''not found''"

definition is_inactive :: "go_error \<Rightarrow> bool" where "is_inactive = error_as (\<lambda>e. e = InactiveService)"

definition is_service_not_found :: "go_error \<Rightarrow> bool" where
  "is_service_not_found = error_as (\<lambda>e. case e of ServiceNotFound _ \<Rightarrow> True | _ \<Rightarrow> False)"

definition resolve_service_status :: "'w host \<Rightarrow> string \<Rightarrow> ('w, string) sys" where
  "resolve_service_status h name m =
     (case status_service h name m of
        (Inr _, t) \<Rightarrow> (Inr status_active, t)
      | (Inl e, t) \<Rightarrow>
          if is_inactive e then (Inr status_inactive, t)
          else if is_service_not_found e then (Inr status_not_found, t)
          else (Inl (WithMessage e ''failed to get service status''), t))"

fun first_known_status :: "'w host \<Rightarrow> string list \<Rightarrow> ('w, string) sys" where
  "first_known_status h [] = retE status_not_found"
| "first_known_status h (n # ns) =
     bindE (resolve_service_status h n) (\<lambda>s. if s \<noteq> status_not_found then retE s else first_known_status h ns)"

definition status_with_fallbacks :: "'w host \<Rightarrow> string \<Rightarrow> ('w, string) sys" where
  "status_with_fallbacks h name = first_known_status h (name # service_fallbacks name)"

definition default_v3_path :: string where "default_v3_path = ''/var/www/gameap''"

definition gameap_status_v3 :: "'w os_env \<Rightarrow> panel_install_record \<Rightarrow> 'w handler" where
  "gameap_status_v3 os st m =
     says (if is_file_exists os (or_default (pir_path st) default_v3_path) m then status_active else status_not_found) m"

definition gameap_status_v4 :: "'w ui_env \<Rightarrow> panel_install_record \<Rightarrow> 'w handler" where
  "gameap_status_v4 ui st m =
     (if \<not> is_file_exists (ui_os ui) (or_default (pir_data_directory st) default_data_path) m then says status_not_found m
      else if \<not> is_file_exists (ui_os ui) (or_default (pir_config_directory st) default_config_file_path) m
      then says status_not_found m
      else case find_process_by_name (ui_host ui) panel_process_name m of
        Inl _ \<Rightarrow> says status_not_found m
      | Inr None \<Rightarrow> says status_inactive m
      | Inr (Some _) \<Rightarrow> says status_active m)"

text \<open>A version that is neither 3 nor 4 is answered with nothing.\<close>

definition gameap_status :: "'w ui_env \<Rightarrow> 'w handler" where
  "gameap_status ui m =
     (case load_panel_record (ui_control ui) m of
        (Inl _, t) \<Rightarrow> says status_not_found t
      | (Inr st, t) \<Rightarrow>
          if is_state_version_v4 (pir_version st) then gameap_status_v4 ui st t
          else if pir_version st = [] \<or> is_state_version_v3 (pir_version st) then gameap_status_v3 (ui_os ui) st t
          else (([], Inr ()), t))"

definition ui_daemon_status :: "'w ui_env \<Rightarrow> 'w handler" where
  "ui_daemon_status ui m =
     (let name = (if co_goos (ui_control ui) = ''windows'' then ''gameap-daemon.exe'' else ''gameap-daemon'') in
      case ho_look_path (ui_host ui) name m of
        Inl _ \<Rightarrow> says status_not_found m
      | Inr _ \<Rightarrow>
          (case daemon_status (ui_host ui) m of
             (Inl _, t) \<Rightarrow> says status_inactive t
           | (Inr _, t) \<Rightarrow> says status_active t))"

definition ui_service_status :: "'w ui_env \<Rightarrow> string list \<Rightarrow> 'w handler" where
  "ui_service_status ui args =
     (case args of
        [] \<Rightarrow> refuses ''no service name provided''
      | a # _ \<Rightarrow>
          (let name = canonical_service a in
           if name = ''gameap'' then gameap_status ui
           else if name = ''gameap-daemon'' then ui_daemon_status ui
           else answers (status_with_fallbacks (ui_host ui) name)))"

section \<open>Control of services\<close>

definition known_service :: "'w host \<Rightarrow> string \<Rightarrow> 'w machine \<Rightarrow> bool \<times> 'w machine" where
  "known_service h name m =
     (case status_service h name m of (Inr _, t) \<Rightarrow> (True, t) | (Inl e, t) \<Rightarrow> (is_inactive e, t))"

fun first_known_service :: "'w host \<Rightarrow> string \<Rightarrow> string list \<Rightarrow> 'w machine \<Rightarrow> string \<times> 'w machine" where
  "first_known_service h name [] m = (name, m)"
| "first_known_service h name (n # ns) m =
     (case known_service h n m of (True, t) \<Rightarrow> (n, t) | (False, t) \<Rightarrow> first_known_service h name ns t)"

definition resolve_service_name :: "'w host \<Rightarrow> string \<Rightarrow> 'w machine \<Rightarrow> string \<times> 'w machine" where
  "resolve_service_name h name = first_known_service h name (name # service_fallbacks name)"

definition ui_daemon_command :: "'w host \<Rightarrow> string \<Rightarrow> 'w handler" where
  "ui_daemon_command h command =
     (let run = (\<lambda>p. silent (wrapE ''failed to execute command'' p)) in
      if command = ''start'' then run (daemon_start h [])
      else if command = ''stop'' then run (daemon_stop h [])
      else if command = ''restart'' then run (daemon_restart h [])
      else refuses ''unknown command'')"

definition ui_service_command :: "'w ui_env \<Rightarrow> string list \<Rightarrow> 'w handler" where
  "ui_service_command ui args m =
     (case args of
        command # s # _ \<Rightarrow>
          (let name = canonical_service s; run = (\<lambda>p. silent (wrapE ''failed to execute service command'' p)) in
           if name = ''gameap'' then refuses ''gameap service command is not supported'' m
           else if name = ''gameap-daemon'' then ui_daemon_command (ui_host ui) command m
           else case resolve_service_name (ui_host ui) name m of
             (n, t) \<Rightarrow>
               if command = ''start'' then run (start_service (ui_host ui) n) t
               else if command = ''stop'' then run (stop_service (ui_host ui) n) t
               else if command = ''restart'' then run (restart_service (ui_host ui) n) t
               else refuses ''unknown command'' t)
      | _ \<Rightarrow> refuses ''not enough arguments, should be at least 2: command and service name'' m)"

section \<open>Commands of gameapctl itself\<close>

definition with_executable :: "'w ui_env \<Rightarrow> (string \<Rightarrow> 'w handler) \<Rightarrow> 'w handler" where
  "with_executable ui k m =
     (case ui_executable ui m of
        Inl e \<Rightarrow> (([], Inl (WithMessage e ''failed to get executable path'')), m)
      | Inr ex \<Rightarrow> k ex m)"

definition run_self :: "'w ui_env \<Rightarrow> bool \<Rightarrow> string list \<Rightarrow> string \<Rightarrow> 'w handler" where
  "run_self ui refresh args ex m =
     (case ui_run ui (path_dir ex) (ex # ''--non-interactive'' # args) m of
        ((out, Some e), t) \<Rightarrow> ((out, Inl (WithMessage e ''failed to execute command'')), t)
      | ((out, None), t) \<Rightarrow> ((out, Inr ()), if refresh then ui_update_path ui t else t))"

definition ui_panel_install :: "'w ui_env \<Rightarrow> string list \<Rightarrow> 'w handler" where
  "ui_panel_install ui args =
     (if args = [] then refuses ''no args''
      else with_executable ui (run_self ui True ([''panel'', ''install''] @ args)))"

definition ui_panel_uninstall :: "'w ui_env \<Rightarrow> string list \<Rightarrow> 'w handler" where
  "ui_panel_uninstall ui args = with_executable ui (run_self ui True ([''panel'', ''uninstall''] @ args))"

definition ui_panel_upgrade :: "'w ui_env \<Rightarrow> 'w handler" where
  "ui_panel_upgrade ui = with_executable ui (run_self ui False [''panel'', ''upgrade''])"

definition ui_daemon_upgrade :: "'w ui_env \<Rightarrow> 'w handler" where
  "ui_daemon_upgrade ui = with_executable ui (run_self ui False [''daemon'', ''upgrade''])"

definition ui_send_logs :: "'w ui_env \<Rightarrow> 'w handler" where
  "ui_send_logs ui = with_executable ui (run_self ui False [''send-logs''])"

text \<open>The value of an argument \<open>--name=value\<close>; the last one wins.\<close>

definition arg_value :: "string \<Rightarrow> string list \<Rightarrow> string" where
  "arg_value name args = fold (\<lambda>a v. if has_prefix a name then trim_prefix a name else v) args []"

definition ui_change_password :: "'w ui_env \<Rightarrow> string list \<Rightarrow> 'w handler" where
  "ui_change_password ui args =
     with_executable ui (\<lambda>ex.
       let u = arg_value ''--username='' args; p = arg_value ''--password='' args in
       if u = [] \<or> p = [] then refuses ''username and password should be provided''
       else run_self ui False [''panel'', ''change-password'', u, p] ex)"

definition daemon_setup_answer :: "http_answer \<Rightarrow> string result" where
  "daemon_setup_answer a =
     (if ha_status a \<noteq> 200 then Inl (Err ''failed to get daemon setup'')
      else case with_message ''failed to read response body'' (ha_body a) of
        Inl e \<Rightarrow> Inl e
      | Inr body \<Rightarrow>
          if length (split_char (CHR '';'') body) < 2 then Inl (Err ''invalid response body'')
          else if create_token body = [] then Inl (Err ''failed to get create token'')
          else Inr (create_token body))"

definition with_scheme :: "string \<Rightarrow> string" where
  "with_scheme host = (if \<not> has_prefix host ''http://'' \<and> \<not> has_prefix host ''https://'' then ''http://'' @ host else host)"

definition daemon_token :: "'w ui_env \<Rightarrow> string \<Rightarrow> string \<Rightarrow> ('w, string) sys" where
  "daemon_token ui host token m =
     (let url = host @ ''/gdaemon/setup/'' @ token in
      case ui_invalid_url ui url of
        Some e \<Rightarrow> (Inl (WithMessage e ''failed to create request''), m)
      | None \<Rightarrow>
          bindE (wrapE ''failed to get daemon setup'' (ui_get ui url)) (\<lambda>a m. (daemon_setup_answer a, m)) m)"

definition ui_daemon_install :: "'w ui_env \<Rightarrow> string list \<Rightarrow> 'w handler" where
  "ui_daemon_install ui args =
     with_executable ui (\<lambda>ex.
       let host = arg_value ''--host='' args; token = arg_value ''--installation-token='' args;
           connect = arg_value ''--connect-url='' args in
       if args = [] then refuses ''not enough arguments''
       else if connect \<noteq> [] then run_self ui True [''daemon'', ''install'', ''--connect='' @ connect] ex
       else if host = [] \<or> token = [] then refuses ''host and installation token should be provided''
       else (\<lambda>m. case daemon_token ui (with_scheme host) token m of
           (Inl e, t) \<Rightarrow> (([], Inl e), t)
         | (Inr created, t) \<Rightarrow>
             run_self ui True [''daemon'', ''install'', ''--host='' @ with_scheme host, ''--token='' @ created] ex t))"

section \<open>One request\<close>

definition detect_ips :: "'w ui_env \<Rightarrow> 'w machine \<Rightarrow> string list" where
  "detect_ips ui m = concat (List.map_filter (\<lambda>r. case r of Inl _ \<Rightarrow> None | Inr ips \<Rightarrow> Some ips) (ui_interfaces ui m))"

definition cmd_handle :: "'w ui_env \<Rightarrow> string \<Rightarrow> 'w handler" where
  "cmd_handle ui value m =
     (let cmd = split_char (CHR '' '') value; name = hd cmd; args = tl cmd in
      (if name = ''detect-ips'' then says (join_with '','' (detect_ips ui m))
       else if name = ''node-info'' then says (info_string (ui_info ui))
       else if name = ''service-status'' then ui_service_status ui args
       else if name = ''gameap-install'' then ui_panel_install ui args
       else if name = ''gameap-uninstall'' then ui_panel_uninstall ui args
       else if name = ''gameap-upgrade'' then ui_panel_upgrade ui
       else if name = ''daemon-install'' then ui_daemon_install ui args
       else if name = ''daemon-upgrade'' then ui_daemon_upgrade ui
       else if name = ''service-command'' then ui_service_command ui args
       else if name = ''send-logs'' then ui_send_logs ui
       else if name = ''change-password'' then ui_change_password ui args
       else refuses ''unknown command'') m)"

text \<open>A connection: whether it is open, what was sent on it, and the machine.\<close>

record 'w conn =
  cn_open :: bool
  cn_sent :: "ws_message list"
  cn_machine :: "'w machine"

definition write_message :: "'w ui_env \<Rightarrow> ws_message \<Rightarrow> ('w conn, unit) io" where
  "write_message ui q c =
     (case ui_send ui q (cn_machine c) of
        (Inl e, t) \<Rightarrow> (Inl e, c\<lparr>cn_machine := t\<rparr>)
      | (Inr _, t) \<Rightarrow> (Inr (), c\<lparr>cn_machine := t, cn_sent := cn_sent c @ [q]\<rparr>))"

fun write_payloads :: "'w ui_env \<Rightarrow> string \<Rightarrow> string list \<Rightarrow> ('w conn, unit) io" where
  "write_payloads ui topic [] = retE ()"
| "write_payloads ui topic (v # vs) =
     bindE (quietly (write_message ui (payload_of topic v))) (\<lambda>_. write_payloads ui topic vs)"

definition write_failure :: "'w ui_env \<Rightarrow> string \<Rightarrow> unit result \<Rightarrow> ('w conn, unit) io" where
  "write_failure ui topic r =
     (case r of
        Inl e \<Rightarrow> wrapE ''failed to handle command and write error message'' (write_message ui (error_of topic e))
      | Inr _ \<Rightarrow> retE ())"

definition closed_error :: go_error where "closed_error = Err ''closed''"

definition ws_request :: "'w ui_env \<Rightarrow> string \<Rightarrow> ('w conn, unit) io" where
  "ws_request ui raw c =
     (case ui_decode ui raw of
        Inl e \<Rightarrow> (Inl (WithMessage e ''failed to unmarshal message''), c)
      | Inr q \<Rightarrow>
          if ms_topic q = ''exit'' then
            (case ui_close ui (cn_machine c) of
               (Inl e, t) \<Rightarrow> (Inl (WithMessage e ''failed to close connection''), c\<lparr>cn_machine := t\<rparr>)
             | (Inr _, t) \<Rightarrow> (Inl closed_error, c\<lparr>cn_machine := t\<rparr>))
          else case cmd_handle ui (ms_value q) (cn_machine c) of
            ((out, r), t) \<Rightarrow>
              bindE (write_payloads ui (ms_topic q) out) (\<lambda>_.
              bindE (write_failure ui (ms_topic q) r) (\<lambda>_.
                wrapE ''failed to write message'' (write_message ui (end_of (ms_topic q))))) (c\<lparr>cn_machine := t\<rparr>))"

section \<open>One connection\<close>

text \<open>
  What can happen to a connection: a message arrives and is handled, after an error the
  connection is closed; the client goes away; other connections and programs change the
  machine. The number counts the requests that were handled while it was open.
\<close>

inductive session :: "'w ui_env \<Rightarrow> nat \<Rightarrow> 'w conn \<Rightarrow> bool" for ui where
  opened: "session ui 0 \<lparr>cn_open = True, cn_sent = [], cn_machine = m\<rparr>"
| handled: "session ui n c \<Longrightarrow> cn_open c \<Longrightarrow> ws_request ui raw c = (Inr u, d) \<Longrightarrow> session ui (Suc n) d"
| failed: "session ui n c \<Longrightarrow> cn_open c \<Longrightarrow> ws_request ui raw c = (Inl e, d) \<Longrightarrow> session ui n (d\<lparr>cn_open := False\<rparr>)"
| gone: "session ui n c \<Longrightarrow> session ui n (c\<lparr>cn_open := False\<rparr>)"
| elsewhere: "session ui n c \<Longrightarrow> session ui n (c\<lparr>cn_machine := m\<rparr>)"

inductive_cases session_zero: "session ui 0 c"

section \<open>Lemmas\<close>

text \<open>A complete answer: payloads, an error if there was one, and one end, all of the same topic.\<close>

definition answer_block :: "ws_message list \<Rightarrow> bool" where
  "answer_block ms \<longleftrightarrow> (\<exists>topic vs es. ms = map (payload_of topic) vs @ es @ [end_of topic] \<and>
     (es = [] \<or> (\<exists>e. es = [error_of topic e])))"

lemma write_message_sent:
  "write_message ui q c = (Inr u, d) \<Longrightarrow> cn_sent d = cn_sent c @ [q] \<and> cn_open d = cn_open c"
  "write_message ui q c = (Inl e, d) \<Longrightarrow> cn_sent d = cn_sent c \<and> cn_open d = cn_open c"
  by (auto simp: write_message_def split: prod.splits sum.splits)

lemma payloads_sent:
  "write_payloads ui topic out c = (r, d) \<Longrightarrow>
     r = Inr () \<and> cn_open d = cn_open c \<and> (\<exists>vs. cn_sent d = cn_sent c @ map (payload_of topic) vs)"
proof (induction out arbitrary: c)
  case Nil
  then show ?case by (auto simp: retE_def intro: exI [of _ "[]"])
next
  case (Cons v vs)
  obtain q b where w: "write_message ui (payload_of topic v) c = (q, b)" by force
  have b: "cn_open b = cn_open c \<and> (\<exists>ws. cn_sent b = cn_sent c @ map (payload_of topic) ws)"
  proof (cases q)
    case (Inl e)
    with w write_message_sent(2) have "cn_open b = cn_open c \<and> cn_sent b = cn_sent c @ map (payload_of topic) []" by fastforce
    then show ?thesis by blast
  next
    case (Inr u)
    with w write_message_sent(1) have "cn_open b = cn_open c \<and> cn_sent b = cn_sent c @ map (payload_of topic) [v]" by fastforce
    then show ?thesis by blast
  qed
  from Cons.prems w have "write_payloads ui topic vs b = (r, d)"
    by (simp add: bindE_def quietly_def)
  from Cons.IH [OF this] b show ?case by (metis append.assoc map_append)
qed

lemma request_program:
  assumes "ui_decode ui raw = Inr q" "ms_topic q \<noteq> ''exit''"
    and "cmd_handle ui (ms_value q) (cn_machine c) = ((out, r), t)"
  shows "ws_request ui raw c =
    bindE (write_payloads ui (ms_topic q) out) (\<lambda>_. bindE (write_failure ui (ms_topic q) r) (\<lambda>_.
      wrapE ''failed to write message'' (write_message ui (end_of (ms_topic q))))) (c\<lparr>cn_machine := t\<rparr>)"
  using assms by (simp add: ws_request_def)

lemma request_not_exit:
  assumes "ws_request ui raw c = (Inr u, d)"
  obtains q where "ui_decode ui raw = Inr q" "ms_topic q \<noteq> ''exit''"
  using assms by (auto simp: ws_request_def closed_error_def split: if_splits sum.splits prod.splits)

lemma wrapped_write_sent:
  assumes "wrapE msg (write_message ui q) c = (Inr u, d)"
  shows "cn_sent d = cn_sent c @ [q] \<and> cn_open d = cn_open c"
proof -
  obtain r b where w: "write_message ui q c = (r, b)" by force
  with assms have "r = Inr u" "b = d" by (cases r; simp add: wrapE_def)+
  with w show ?thesis using write_message_sent(1) by blast
qed

lemma failure_sent:
  assumes "write_failure ui topic r a = (Inr u, b)"
  shows "cn_open b = cn_open a \<and> (\<exists>es. cn_sent b = cn_sent a @ es \<and> (es = [] \<or> (\<exists>e. es = [error_of topic e])))"
proof (cases r)
  case (Inl e)
  with assms have "cn_sent b = cn_sent a @ [error_of topic e]" "cn_open b = cn_open a"
    using wrapped_write_sent by (simp add: write_failure_def; blast)+
  then show ?thesis by blast
next
  case (Inr v)
  with assms show ?thesis by (simp add: write_failure_def retE_def)
qed

lemma request_answered:
  assumes "ws_request ui raw c = (Inr u, d)"
  shows "cn_open d = cn_open c \<and> (\<exists>ms. answer_block ms \<and> cn_sent d = cn_sent c @ ms)"
proof -
  obtain q where q: "ui_decode ui raw = Inr q" "ms_topic q \<noteq> ''exit''"
    by (rule request_not_exit [OF assms])
  obtain out r t where cmd: "cmd_handle ui (ms_value q) (cn_machine c) = ((out, r), t)" by (metis prod.collapse)
  obtain a where a: "write_payloads ui (ms_topic q) out (c\<lparr>cn_machine := t\<rparr>) = (Inr (), a)"
    and rest: "bindE (write_failure ui (ms_topic q) r) (\<lambda>_.
      wrapE ''failed to write message'' (write_message ui (end_of (ms_topic q)))) a = (Inr u, d)"
    using assms unfolding request_program [OF q cmd] bindE_Inr_iff by (metis old.unit.exhaust)
  obtain b where b: "write_failure ui (ms_topic q) r a = (Inr (), b)"
    and d: "wrapE ''failed to write message'' (write_message ui (end_of (ms_topic q))) b = (Inr u, d)"
    using rest unfolding bindE_Inr_iff by (metis old.unit.exhaust)
  obtain vs where vs: "cn_sent a = cn_sent c @ map (payload_of (ms_topic q)) vs" "cn_open a = cn_open c"
    using payloads_sent [OF a] by auto
  obtain es where es: "cn_sent b = cn_sent a @ es" "cn_open b = cn_open a"
    "es = [] \<or> (\<exists>e. es = [error_of (ms_topic q) e])"
    using failure_sent [OF b] by blast
  have "answer_block (map (payload_of (ms_topic q)) vs @ es @ [end_of (ms_topic q)])"
    using es(3) unfolding answer_block_def by blast
  moreover have "cn_sent d = cn_sent c @ map (payload_of (ms_topic q)) vs @ es @ [end_of (ms_topic q)]"
    "cn_open d = cn_open c"
    using vs es(1,2) wrapped_write_sent [OF d] by simp_all
  ultimately show ?thesis by blast
qed

section \<open>Properties\<close>


text \<open>A browser that is connected to a machine whose services obey, and to which nothing can be sent.\<close>

definition desk :: "bool \<Rightarrow> nat ui_env" where
  "desk broken =
     \<lparr>ui_control = obedient_control, ui_info = example_info, ui_interfaces = (\<lambda>_. [Inr [''10.0.0.7''], Inl (Err ''down''), Inr [''::1'']]),
      ui_executable = (\<lambda>_. Inr ''/opt/gameapctl''), ui_run = (\<lambda>_ args m. ((args, None), m\<lparr>world := length args\<rparr>)),
      ui_update_path = id, ui_invalid_url = (\<lambda>_. None), ui_get = (\<lambda>_. failE (Err ''offline'')),
      ui_decode = (\<lambda>raw. Inr \<lparr>ms_topic = ''t'', ms_code = [], ms_value = raw\<rparr>),
      ui_send = (\<lambda>_. if broken then failE (Err ''reset'') else retE ()), ui_close = retE ()\<rparr>"


text \<open>
  On a host with systemd the status that the interface shows of a service is \<open>active\<close>, or an
  error when \<open>systemctl\<close> returns an exit code: a service that is stopped or that does not exist is
  never shown as such, and the other names of the service are never tried.
\<close>

theorem status_is_active_or_error:
  assumes "load_service h m = (Inr SystemdService, t)"
    and "ho_exec h [''systemctl'', ''--no-pager'', ''status'', name] t = (r, u)"
    and "\<And>e. r = Inl e \<Longrightarrow> \<not> is_inactive e \<and> \<not> is_service_not_found e"
  shows "status_with_fallbacks h name m =
    (case r of
       Inr _ \<Rightarrow> (Inr status_active, u)
     | Inl e \<Rightarrow>
         if exit_code e = None then (Inr status_active, u)
         else (Inl (WithMessage (WithMessage e ''service status command failed'') ''failed to get service status''), u))"
proof -
  have different: "status_active \<noteq> status_not_found" by code_simp
  have "resolve_service_status h name m =
    (case r of
       Inr _ \<Rightarrow> (Inr status_active, u)
     | Inl e \<Rightarrow>
         if exit_code e = None then (Inr status_active, u)
         else (Inl (WithMessage (WithMessage e ''service status command failed'') ''failed to get service status''), u))"
    using assms by (auto simp: resolve_service_status_def status_service_def bindE_def systemd_status_def
        is_inactive_def is_service_not_found_def split: sum.split option.split)
  then show ?thesis using different
    by (simp add: status_with_fallbacks_def bindE_def retE_def split: sum.split)
qed

text \<open>The package \<open>apache2\<close> is absent: \<open>systemctl status\<close> returns 4, as documented.\<close>

theorem status_is_active_or_error_witness:
  "fst (status_with_fallbacks
     (obedient_host\<lparr>ho_exec := (\<lambda>_. failE (ExitError 4)), ho_init_exe := (\<lambda>_. Inr (''systemd'', ''/lib/systemd/systemd''))\<rparr>)
     ''apache2'' panel_host_machine) =
   Inl (WithMessage (WithMessage (ExitError 4) ''service status command failed'') ''failed to get service status'')"
proof -
  let ?h = "obedient_host\<lparr>ho_exec := (\<lambda>_. failE (ExitError 4)), ho_init_exe := (\<lambda>_. Inr (''systemd'', ''/lib/systemd/systemd''))\<rparr>"
  obtain t where t: "load_service ?h panel_host_machine = (Inr SystemdService, t)"
  proof -
    have "fst (load_service ?h panel_host_machine) = Inr SystemdService" by code_simp
    then show thesis using that by (metis prod.collapse)
  qed
  have "exit_code (ExitError 4) = Some 4" by code_simp
  then show ?thesis
    using status_is_active_or_error [of ?h panel_host_machine t "''apache2''" "Inl (ExitError 4)" t] t
    by (simp add: failE_def is_inactive_def is_service_not_found_def)
qed

definition own_commands :: "string list list" where
  "own_commands =
     [[''panel'', ''install''], [''panel'', ''uninstall''], [''panel'', ''upgrade''], [''daemon'', ''upgrade''],
      [''daemon'', ''install''], [''send-logs''], [''panel'', ''change-password'']]"

definition own_command :: "'w ui_env \<Rightarrow> string list \<Rightarrow> bool" where
  "own_command ui argv \<longleftrightarrow> (\<exists>ex m cmd args. ui_executable ui m = Inr ex \<and> cmd \<in> set own_commands \<and>
     argv = ex # ''--non-interactive'' # cmd @ args)"

lemma run_self_agrees:
  assumes "\<And>dir argv. own_command ui argv \<Longrightarrow> run dir argv = ui_run ui dir argv"
    and "ui_executable ui m = Inr ex" "cmd \<in> set own_commands"
  shows "run_self (ui\<lparr>ui_run := run\<rparr>) refresh (cmd @ args) ex = run_self ui refresh (cmd @ args) ex"
proof -
  have "own_command ui (ex # ''--non-interactive'' # cmd @ args)"
    using assms(2,3) unfolding own_command_def by blast
  from assms(1) [OF this] have same: "run dir (ex # ''--non-interactive'' # cmd @ args) = ui_run ui dir (ex # ''--non-interactive'' # cmd @ args)" for dir .
  show ?thesis by (intro ext) (simp add: run_self_def same split: prod.split option.split)
qed

lemma with_executable_agrees:
  "(\<And>m ex. ui_executable ui m = Inr ex \<Longrightarrow> k ex = l ex) \<Longrightarrow>
     with_executable (ui\<lparr>ui_run := run\<rparr>) k = with_executable ui l"
  by (intro ext) (simp add: with_executable_def split: sum.split)

lemma commands_agree:
  assumes "\<And>dir argv. own_command ui argv \<Longrightarrow> run dir argv = ui_run ui dir argv"
  shows "ui_panel_install (ui\<lparr>ui_run := run\<rparr>) args = ui_panel_install ui args"
    and "ui_panel_uninstall (ui\<lparr>ui_run := run\<rparr>) args = ui_panel_uninstall ui args"
    and "ui_panel_upgrade (ui\<lparr>ui_run := run\<rparr>) = ui_panel_upgrade ui"
    and "ui_daemon_upgrade (ui\<lparr>ui_run := run\<rparr>) = ui_daemon_upgrade ui"
    and "ui_send_logs (ui\<lparr>ui_run := run\<rparr>) = ui_send_logs ui"
    and "ui_change_password (ui\<lparr>ui_run := run\<rparr>) args = ui_change_password ui args"
    and "ui_daemon_install (ui\<lparr>ui_run := run\<rparr>) args = ui_daemon_install ui args"
proof -
  have same: "run_self (ui\<lparr>ui_run := run\<rparr>) refresh (a # rest) ex = run_self ui refresh (a # rest) ex"
    if "ui_executable ui m = Inr ex" "[a] \<in> set own_commands" for a rest ex m refresh
    using run_self_agrees [of ui run, OF assms that, of refresh rest] by simp
  have same2: "run_self (ui\<lparr>ui_run := run\<rparr>) refresh (a # b # rest) ex = run_self ui refresh (a # b # rest) ex"
    if "ui_executable ui m = Inr ex" "[a, b] \<in> set own_commands" for a b rest ex m refresh
    using run_self_agrees [of ui run, OF assms that, of refresh rest] by simp
  show "ui_panel_install (ui\<lparr>ui_run := run\<rparr>) args = ui_panel_install ui args"
    unfolding ui_panel_install_def
    by (auto intro!: with_executable_agrees same2 simp: own_commands_def)
  show "ui_panel_uninstall (ui\<lparr>ui_run := run\<rparr>) args = ui_panel_uninstall ui args"
    unfolding ui_panel_uninstall_def
    by (auto intro!: with_executable_agrees same2 simp: own_commands_def)
  show "ui_panel_upgrade (ui\<lparr>ui_run := run\<rparr>) = ui_panel_upgrade ui"
    unfolding ui_panel_upgrade_def
    by (auto intro!: with_executable_agrees same2 simp: own_commands_def)
  show "ui_daemon_upgrade (ui\<lparr>ui_run := run\<rparr>) = ui_daemon_upgrade ui"
    unfolding ui_daemon_upgrade_def
    by (auto intro!: with_executable_agrees same2 simp: own_commands_def)
  show "ui_send_logs (ui\<lparr>ui_run := run\<rparr>) = ui_send_logs ui"
    unfolding ui_send_logs_def
    by (auto intro!: with_executable_agrees same simp: own_commands_def)
  show "ui_change_password (ui\<lparr>ui_run := run\<rparr>) args = ui_change_password ui args"
    unfolding ui_change_password_def Let_def
    by (auto intro!: with_executable_agrees same2 simp: own_commands_def)
  have token: "daemon_token (ui\<lparr>ui_run := run\<rparr>) = daemon_token ui"
    by (intro ext) (simp add: daemon_token_def Let_def split: option.split)
  have install: "run_self (ui\<lparr>ui_run := run\<rparr>) True (''daemon'' # ''install'' # rest) ex =
      run_self ui True (''daemon'' # ''install'' # rest) ex" if "ui_executable ui m = Inr ex" for m ex rest
    by (rule same2 [OF that]) (simp add: own_commands_def)
  show "ui_daemon_install (ui\<lparr>ui_run := run\<rparr>) args = ui_daemon_install ui args"
    unfolding ui_daemon_install_def Let_def token
    by (rule with_executable_agrees) (auto simp: install intro!: ext split: prod.split sum.split)
qed



end
