(* ===== verification/DistroConfig.thy ===== *)
theory DistroConfig
  imports PackageManagers
begin

text \<open>
  Where the configuration of a package is on this distribution (\<open>configurator.go\<close>): a table of
  fixed paths, and the search for the socket of PHP. The entries of the second table for nginx on
  Windows are left out: the first table has entries of the same names and comes first
  (\<open>nginx_entries_are_static\<close>).
\<close>

section \<open>Fixed paths\<close>

definition nginx_conf_name :: string where "nginx_conf_name = ''nginx_conf''"
definition host_conf_name :: string where "host_conf_name = ''gameap_host_conf''"
definition fpm_sock_name :: string where "fpm_sock_name = ''fpm_sock''"

type_synonym 'a config_table = "(string \<times> (string \<times> (string \<times> 'a) list) list) list"

text \<open>A missing inner map reads as an empty one.\<close>

definition table_entry :: "'a config_table \<Rightarrow> string \<Rightarrow> string \<Rightarrow> string \<Rightarrow> 'a option" where
  "table_entry tab pack distribution name =
     (case map_of tab pack of
        None \<Rightarrow> None
      | Some by_distribution \<Rightarrow>
          (case map_of by_distribution distribution of None \<Rightarrow> None | Some entries \<Rightarrow> map_of entries name))"

definition unix_nginx :: "(string \<times> string) list" where
  "unix_nginx = [(nginx_conf_name, ''/etc/nginx/nginx.conf''), (host_conf_name, ''/etc/nginx/conf.d/gameap.conf'')]"

definition unix_apache :: "(string \<times> string) list" where
  "unix_apache = [(host_conf_name, ''/etc/apache2/sites-available/gameap.conf'')]"

definition windows_path :: "string list \<Rightarrow> string" where
  "windows_path = join_with [CHR 0x5C]"

definition static_configs :: "string config_table" where
  "static_configs =
     [(''nginx'',
        [(''default'', unix_nginx), (''debian'', unix_nginx), (''ubuntu'', unix_nginx),
         (''windows'', [(nginx_conf_name, windows_path [''C:'', ''gameap'', ''tools'', ''nginx'', ''conf'', ''nginx.conf'']),
                        (host_conf_name, windows_path [''C:'', ''gameap'', ''tools'', ''nginx'', ''conf'', ''gameap.conf''])])]),
      (''apache2'',
        [(''default'', unix_apache), (''debian'', unix_apache), (''ubuntu'', unix_apache),
         (''windows'', [(host_conf_name, windows_path [''C:'', ''gameap'', ''tools'', ''apache2'', ''sites-available'', ''gameap.conf''])])]),
      (''php'', [(''windows'', [(fpm_sock_name, ''127.0.0.1:9934'')])])]"

section \<open>The socket of PHP\<close>

definition first_existing :: "'w os_env \<Rightarrow> string list \<Rightarrow> ('w, string) sys" where
  "first_existing os ps m =
     (case filter (\<lambda>p. is_file_exists os p m) ps of
        [] \<Rightarrow> (Inl FailedToConfigure, m)
      | p # _ \<Rightarrow> (Inr (''unix:'' @ p), m))"

definition common_sockets :: "string list" where
  "common_sockets = [''/etc/alternatives/php-fpm.sock'', ''/var/run/php-fpm/www.sock'', ''/var/run/php/php-fpm.sock'']"

definition chroot_socket :: string where "chroot_socket = ''unix:'' @ chroot_php_path @ ''/php-fpm.sock''"

definition fpm_socket :: "'w pm_env \<Rightarrow> ('w, string) sys" where
  "fpm_socket pe m =
     (if is_file_exists (pe_os pe) chroot_php_mark m then (Inr chroot_socket, m)
      else bindE (define_php_version pe) (\<lambda>v.
        first_existing (pe_os pe)
          ([''/var/run/php/php'' @ v @ ''-fpm.sock'', ''/run/php/php'' @ v @ ''-fpm.sock''] @ common_sockets)) m)"

definition fpm_socket_centos :: "'w pm_env \<Rightarrow> ('w, string) sys" where
  "fpm_socket_centos pe m =
     (if is_file_exists (pe_os pe) chroot_php_mark m then (Inr chroot_socket, m)
      else if oi_codename (pe_info pe) = ''7'' then (Inr ''127.0.0.1:9000'', m)
      else first_existing (pe_os pe) common_sockets m)"

definition dynamic_config :: "'w pm_env \<Rightarrow> ('w, string) sys config_table" where
  "dynamic_config pe =
     [(''php'', [(''default'', [(fpm_sock_name, fpm_socket pe)]), (''centos'', [(fpm_sock_name, fpm_socket_centos pe)]),
                 (''debian'', [(fpm_sock_name, fpm_socket pe)]), (''ubuntu'', [(fpm_sock_name, fpm_socket pe)])])]"

section \<open>The lookup\<close>

fun dynamic_search :: "('w, string) sys option list \<Rightarrow> ('w, string) sys" where
  "dynamic_search [] = failE ConfigNotFound"
| "dynamic_search (None # fs) = dynamic_search fs"
| "dynamic_search (Some f # fs) =
     bindE (wrapE ''failed to get dynamic config'' f) (\<lambda>c. if c \<noteq> [] then retE c else dynamic_search fs)"

definition config_for_distro :: "'w pm_env \<Rightarrow> string \<Rightarrow> string \<Rightarrow> ('w, string) sys" where
  "config_for_distro pe pack name =
     (let d = oi_distribution (pe_info pe) in
      case table_entry static_configs pack d name of
        Some c \<Rightarrow> retE c
      | None \<Rightarrow>
          (case table_entry static_configs pack ''default'' name of
             Some c \<Rightarrow> retE c
           | None \<Rightarrow>
               dynamic_search [table_entry (dynamic_config pe) pack d name, table_entry (dynamic_config pe) pack ''default'' name]))"

section \<open>Lemmas\<close>

lemma nginx_entries_are_static:
  "table_entry static_configs ''nginx'' ''windows'' nginx_conf_name \<noteq> None"
  "table_entry static_configs ''nginx'' ''windows'' host_conf_name \<noteq> None"
  by code_simp+

definition host_conf_path :: "string \<Rightarrow> string \<Rightarrow> string" where
  "host_conf_path pack distribution =
     (case table_entry static_configs pack distribution host_conf_name of
        Some c \<Rightarrow> c
      | None \<Rightarrow> the (table_entry static_configs pack ''default'' host_conf_name))"

text \<open>The configuration of the panel in a web server has a fixed place on every distribution.\<close>

lemma host_conf_found:
  assumes "pack = ''nginx'' \<or> pack = ''apache2''"
  shows "config_for_distro pe pack host_conf_name = retE (host_conf_path pack (oi_distribution (pe_info pe)))"
proof -
  have "table_entry static_configs pack ''default'' host_conf_name \<noteq> None"
    using assms by (elim disjE; simp only:; code_simp)
  then show ?thesis by (auto simp: config_for_distro_def host_conf_path_def Let_def split: option.split)
qed

text \<open>A socket is never the empty string, so that the second entry is only searched when there is no first.\<close>

lemma first_existing_not_empty: "first_existing os ps m \<noteq> (Inr [], t)"
  by (auto simp: first_existing_def split: list.splits)

end
