(* ===== verification/PanelMigrate.thy ===== *)
theory PanelMigrate
  imports PanelUpdate PanelDatabase DistroConfig
begin

text \<open>
  The update command of the panel (\<open>panel_update.go\<close>) and the migration of a panel of version 3
  to version 4 (\<open>panel_update_v3_to_v4.go\<close>): the settings of version 3 become those of version 4,
  the old tree and the configuration of the web server are copied before and put back when a later
  step fails. Copies, random bytes, downloads and requests are the parameters of the parts used.
\<close>

section \<open>Environment\<close>

record 'w migration_env =
  mg_upgrade :: "'w upgrade_env"
  mg_panel :: "'w panel_env"
  mg_packages :: "'w pm_env"
  mg_timestamp :: "'w machine \<Rightarrow> string"

abbreviation mg_control :: "'w migration_env \<Rightarrow> 'w control_env" where "mg_control mg \<equiv> uv_control (mg_upgrade mg)"
abbreviation mg_host :: "'w migration_env \<Rightarrow> 'w host" where "mg_host mg \<equiv> co_host (mg_control mg)"
abbreviation mg_os :: "'w migration_env \<Rightarrow> 'w os_env" where "mg_os mg \<equiv> ho_os (mg_host mg)"
abbreviation mg_fs :: "'w migration_env \<Rightarrow> 'w fs_lib" where "mg_fs mg \<equiv> uv_fs (mg_upgrade mg)"

text \<open>\<open>panel.Start(ctx)\<close> and \<open>panel.Stop(ctx)\<close> without options: the default scope.\<close>

abbreviation mg_start :: "'w migration_env \<Rightarrow> ('w, unit) sys" where
  "mg_start mg \<equiv> panel_start (co_panel (mg_control mg)) []"

abbreviation mg_stop :: "'w migration_env \<Rightarrow> ('w, unit) sys" where
  "mg_stop mg \<equiv> panel_stop (co_panel (mg_control mg)) []"

section \<open>Moving a tree\<close>

definition in_tree :: "string \<Rightarrow> string \<Rightarrow> bool" where
  "in_tree p q \<longleftrightarrow> q = p \<or> has_prefix q (p @ ''/'')"

text \<open>
  \<open>os.Rename\<close> of a directory with all that is below it. That the target is a directory with
  contents is one of the refusals of the operating system.
\<close>

definition rename_tree :: "'w os_env \<Rightarrow> string \<Rightarrow> string \<Rightarrow> ('w, unit) sys" where
  "rename_tree os a b m =
     (case fault os (OpRename a b) m of
        Some e \<Rightarrow> (Inl e, m)
      | None \<Rightarrow>
          if \<not> path_exists m a then (Inl (NotExist a), m)
          else (Inr (), m
            \<lparr>files := (\<lambda>q. if in_tree b q then files m (a @ drop (length b) q) else if in_tree a q then None else files m q),
             dirs := (dirs m - {q \<in> dirs m. in_tree a q \<or> in_tree b q}) \<union>
               (\<lambda>q. b @ drop (length a) q) ` {q \<in> dirs m. in_tree a q}\<rparr>))"

text \<open>\<open>utils.Move\<close> of a directory.\<close>

definition move_tree :: "'w fs_lib \<Rightarrow> string \<Rightarrow> string \<Rightarrow> ('w, unit) sys" where
  "move_tree fl src dst m =
     (case stat_file (fl_os fl) src m of
        StatMissing \<Rightarrow> (Inl (WithMessage (NotExist src) (''source file '' @ src @ '' not found'')), m)
      | StatFailed e \<Rightarrow> (Inl (WithMessage e ''failed to stat src file''), m)
      | StatOk \<Rightarrow>
          bindE (make_destination fl dst) (\<lambda>_.
            catchE (rename_tree (fl_os fl) src dst) (\<lambda>e.
              if fl_cross_device fl e then move_cross_device fl src dst else failE e)) m)"

section \<open>The settings of version 3\<close>

definition default_web_path :: string where "default_web_path = ''/var/www/gameap''"

text \<open>\<open>strings.Trim\<close> of quotes, of either kind and any number.\<close>

definition trim_quotes :: "string \<Rightarrow> string" where
  "trim_quotes v = (let q = (\<lambda>c. c = CHR 0x22 \<or> c = CHR 0x27) in trim_right q (trim_left q v))"

definition parse_v3_env :: "'w os_env \<Rightarrow> string \<Rightarrow> 'w machine \<Rightarrow> (string \<rightharpoonup> string) result" where
  "parse_v3_env os path m =
     (case fst (read_file os path m) of
        Inl e \<Rightarrow> Inl (WithMessage e ''failed to open .env file'')
      | Inr content \<Rightarrow>
          if list_ex (\<lambda>l. 65536 \<le> length l) (raw_lines content)
          then Inl (WithMessage (Err ''bufio.Scanner: token too long'') ''failed to scan .env file'')
          else Inr (map_option trim_quotes \<circ> map_of (rev (List.map_filter trimmed_entry (scan_lines content)))))"

definition sqlite_url :: "string \<Rightarrow> string" where
  "sqlite_url p = ''file:'' @ p @ ''?_busy_timeout=5000&_journal_mode=WAL&cache=shared''"

definition v3_database_url :: "(string \<rightharpoonup> string) \<Rightarrow> (string \<times> string) result" where
  "v3_database_url cfg =
     (let v = env_value cfg; connection = or_default (v ''DB_CONNECTION'') ''mysql'';
          host = or_default (v ''DB_HOST'') ''localhost''; database = or_default (v ''DB_DATABASE'') ''gameap'';
          account = v ''DB_USERNAME'' @ '':'' @ v ''DB_PASSWORD'' in
      if connection = ''mysql'' then
        Inr (''mysql'', account @ ''@tcp('' @ host @ '':'' @ or_default (v ''DB_PORT'') ''3306'' @ '')/'' @ database @ ''?parseTime=true'')
      else if connection \<in> set [''pgsql'', ''postgres'', ''postgresql''] then
        Inr (''postgres'', ''postgres://'' @ account @ ''@'' @ host @ '':'' @ or_default (v ''DB_PORT'') ''5432'' @ ''/'' @ database @ ''?sslmode=disable'')
      else if connection = ''sqlite'' then
        (if v ''DB_DATABASE'' = [] then Inl (Err ''sqlite database path not specified'')
         else Inr (''sqlite'', sqlite_url (v ''DB_DATABASE'')))
      else Inl (Err (''unsupported database connection: '' @ connection)))"

definition random_secret :: "'w panel_env \<Rightarrow> string \<Rightarrow> ('w, string) sys" where
  "random_secret px msg = bindE (wrapE msg (px_random px 32)) (\<lambda>bs. retE (''base64:'' @ base64_encode bs))"

definition v4_install_config :: "string \<Rightarrow> string \<Rightarrow> string \<Rightarrow> string \<Rightarrow> install_config" where
  "v4_install_config driver url key secret =
     \<lparr>ic_scope = [], ic_config_directory = path_dir default_config_file_path, ic_data_directory = default_data_path,
      ic_binary_path = default_binary_path, ic_user = ''gameap'', ic_group = ''gameap'', ic_http_host = ''0.0.0.0'',
      ic_http_port = ''8025'', ic_database_driver = driver, ic_database_url = url, ic_encryption_key = key,
      ic_auth_secret = secret, ic_auth_service = ''paseto'', ic_cache_driver = ''inmemory'', ic_files_driver = ''local'',
      ic_files_local_base_path = path_join [default_data_path, ''files''], ic_legacy_path = [],
      ic_global_api_url = ''https://api.gameap.com'', ic_grpc_enabled = False, ic_grpc_port = [], ic_tag = [],
      ic_tag_prefix = [], ic_pre_resolved = None\<rparr>"

definition kept_key :: "(string \<rightharpoonup> string) \<Rightarrow> string option" where
  "kept_key cfg = (let k = env_value cfg ''APP_KEY'' in if k = [] \<or> \<not> has_prefix k ''base64:'' then None else Some k)"

definition build_install_config :: "'w panel_env \<Rightarrow> (string \<rightharpoonup> string) \<Rightarrow> ('w, install_config) sys" where
  "build_install_config px cfg m =
     (case with_message ''failed to build database URL'' (v3_database_url cfg) of
        Inl e \<Rightarrow> (Inl e, m)
      | Inr (driver, url) \<Rightarrow>
          bindE (case kept_key cfg of Some k \<Rightarrow> retE k | None \<Rightarrow> random_secret px ''failed to generate encryption key'') (\<lambda>key.
          bindE (random_secret px ''failed to generate auth secret'') (\<lambda>secret.
            retE (v4_install_config driver url key secret))) m)"

definition v4_database_path :: "install_config \<Rightarrow> string" where
  "v4_database_path c = path_join [ic_data_directory c, ''gameap.db'']"

definition handle_sqlite_migration :: "'w os_env \<Rightarrow> 'w fs_lib \<Rightarrow> string \<Rightarrow> (string \<rightharpoonup> string) \<Rightarrow> install_config \<Rightarrow>
    ('w, install_config) sys" where
  "handle_sqlite_migration os fl v3 cfg c m =
     (let named = env_value cfg ''DB_DATABASE''; old = (if path_is_abs named then named else path_join [v3, named]) in
      if named = [] then (Inl (Err ''sqlite database path not specified in v3 config''), m)
      else if \<not> is_file_exists os old m then (Inl (Err (''sqlite database file not found at '' @ old)), m)
      else bindE (wrapE ''failed to copy SQLite database'' (fl_copy fl old (v4_database_path c))) (\<lambda>_.
        retE (c\<lparr>ic_database_url := sqlite_url (v4_database_path c)\<rparr>)) m)"

section \<open>The web server\<close>

definition web_server_package :: "string \<Rightarrow> string option" where
  "web_server_package w =
     (if w = ''nginx'' then Some ''nginx'' else if w = ''apache'' \<or> w = ''apache2'' then Some ''apache2'' else None)"

definition unsupported_web_server :: "string \<Rightarrow> go_error" where
  "unsupported_web_server w = Err (''unsupported web server: '' @ w)"

definition host_conf :: "'w migration_env \<Rightarrow> string \<Rightarrow> ('w, string) sys" where
  "host_conf mg pack = config_for_distro (mg_packages mg) pack host_conf_name"

definition backup_web_server_config :: "'w migration_env \<Rightarrow> string \<Rightarrow> ('w, string) sys" where
  "backup_web_server_config mg w =
     (case web_server_package w of
        None \<Rightarrow> failE (unsupported_web_server w)
      | Some pack \<Rightarrow>
          bindE (wrapE ''failed to get web server config path'' (host_conf mg pack)) (\<lambda>path m.
            if \<not> is_file_exists (mg_os mg) path m then (Inl (Err (''web server config not found: '' @ path)), m)
            else bindE (wrapE ''failed to copy config file'' (fl_copy (mg_fs mg) path (path @ ''.v3.backup''))) (\<lambda>_.
              retE (path @ ''.v3.backup'')) m))"

definition nginx_proxy_config :: "string \<Rightarrow> string" where
  "nginx_proxy_config port = concat (map (\<lambda>l. l @ nl)
     [''server {'', ''    listen 80;'', ''    listen [::]:80;'', [], ''    server_name _;'', [], ''    location / {'',
      ''        proxy_pass http://127.0.0.1:'' @ port @ '';'', ''        proxy_http_version 1.1;'',
      ''        proxy_set_header Upgrade $http_upgrade;'', ''        proxy_set_header Connection '' @ quote @ ''upgrade'' @ quote @ '';'',
      ''        proxy_set_header Host $host;'', ''        proxy_set_header X-Real-IP $remote_addr;'',
      ''        proxy_set_header X-Forwarded-For $proxy_add_x_forwarded_for;'',
      ''        proxy_set_header X-Forwarded-Proto $scheme;'', ''        proxy_cache_bypass $http_upgrade;'', ''    }'', ''}''])"

definition apache_proxy_config :: "string \<Rightarrow> string" where
  "apache_proxy_config port = concat (map (\<lambda>l. l @ nl)
     [''<VirtualHost *:80>'', ''    ServerAdmin webmaster@localhost'', ''    DocumentRoot /var/www/html'', [],
      ''    ProxyPreserveHost On'', ''    ProxyPass / http://127.0.0.1:'' @ port @ ''/'',
      ''    ProxyPassReverse / http://127.0.0.1:'' @ port @ ''/'', [], ''    ErrorLog ${APACHE_LOG_DIR}/gameap_error.log'',
      ''    CustomLog ${APACHE_LOG_DIR}/gameap_access.log combined'', ''</VirtualHost>''])"

definition write_host_conf :: "'w migration_env \<Rightarrow> string \<Rightarrow> string \<Rightarrow> string \<Rightarrow> ('w, unit) sys" where
  "write_host_conf mg pack content msg =
     bindE (wrapE ''failed to get nginx config path'' (host_conf mg pack)) (\<lambda>path.
       wrapE msg (write_file (mg_os mg) path content))"

definition update_web_server_config :: "'w migration_env \<Rightarrow> string \<Rightarrow> string \<Rightarrow> ('w, unit) sys" where
  "update_web_server_config mg w port =
     (case web_server_package w of
        None \<Rightarrow> failE (unsupported_web_server w)
      | Some pack \<Rightarrow>
          if pack = ''nginx'' then write_host_conf mg pack (nginx_proxy_config port) ''failed to write nginx config''
          else write_host_conf mg pack (apache_proxy_config port) ''failed to write apache config'')"

definition restart_web_server :: "'w migration_env \<Rightarrow> string \<Rightarrow> ('w, unit) sys" where
  "restart_web_server mg w =
     (case web_server_package w of
        None \<Rightarrow> failE (unsupported_web_server w)
      | Some service \<Rightarrow>
          wrapE (''failed to restart web server service ('' @ service @ '')'') (restart_service (mg_host mg) service))"

definition restore_web_server_config :: "'w migration_env \<Rightarrow> string \<Rightarrow> string \<Rightarrow> ('w, unit) sys" where
  "restore_web_server_config mg backup original m =
     (if backup = [] \<or> \<not> is_file_exists (mg_os mg) backup m then (Inr (), m)
      else wrapE ''failed to restore web server config'' (fl_copy (mg_fs mg) backup original) m)"

text \<open>Without a path for the configuration, as with a server that is not supported, nothing is done.\<close>

definition restore_web_server_from_backup :: "'w migration_env \<Rightarrow> string \<Rightarrow> string \<Rightarrow> ('w, unit) sys" where
  "restore_web_server_from_backup mg backup w =
     (case web_server_package w of
        None \<Rightarrow> retE ()
      | Some pack \<Rightarrow> quietly
          (bindE (host_conf mg pack) (\<lambda>path.
             if path = [] then retE ()
             else bindE (restore_web_server_config mg backup path) (\<lambda>_. restart_web_server mg w))))"

section \<open>Back to version 3\<close>

definition remove_tree_present :: "'w migration_env \<Rightarrow> string \<Rightarrow> ('w, unit) sys" where
  "remove_tree_present mg p m =
     (if is_file_exists (mg_os mg) p m then quietly (fl_remove_all (mg_fs mg) p) m else (Inr (), m))"

definition rollback_v3_to_v4 :: "'w migration_env \<Rightarrow> string \<Rightarrow> string \<Rightarrow> string \<Rightarrow> string \<Rightarrow> ('w, unit) sys" where
  "rollback_v3_to_v4 mg backup v3 web_backup w =
     bindE (remove_tree_present mg v3) (\<lambda>_.
     bindE (wrapE ''failed to restore v3 backup'' (move_tree (mg_fs mg) backup v3)) (\<lambda>_.
       if web_backup \<noteq> [] \<and> w \<noteq> [] then restore_web_server_from_backup mg web_backup w else retE ()))"

section \<open>The health check\<close>

fun health_attempts_v4 :: "'w upgrade_env \<Rightarrow> string \<Rightarrow> nat \<Rightarrow> ('w, unit) sys" where
  "health_attempts_v4 uv url 0 m = (Inl (Err ''health check failed after multiple retries''), m)"
| "health_attempts_v4 uv url (Suc n) m =
     (case be_request (uv_build uv) url m of (r, t) \<Rightarrow>
        if (case r of Inl _ \<Rightarrow> False | Inr a \<Rightarrow> ha_status a = 200) then (Inr (), t)
        else health_attempts_v4 uv url n (if n = 0 then t else uv_sleep uv health_delay t))"

definition check_health_v4 :: "'w upgrade_env \<Rightarrow> string \<Rightarrow> string \<Rightarrow> ('w, unit) sys" where
  "check_health_v4 uv host port =
     health_attempts_v4 uv (''http://'' @ host @ '':'' @ port @ ''/health'') update_health_retries"

section \<open>The migration\<close>

text \<open>The parts of the old installation that were copied before the new one is installed.\<close>

record v3_copy =
  vc_path :: string
  vc_backup_dir :: string
  vc_backup :: string
  vc_web_backup :: string

definition put_back :: "'w migration_env \<Rightarrow> v3_copy \<Rightarrow> panel_install_record \<Rightarrow> ('w, unit) sys" where
  "put_back mg vc st =
     quietly (rollback_v3_to_v4 mg (vc_backup vc) (vc_path vc) (vc_web_backup vc) (pir_web_server st))"

definition or_put_back :: "'w migration_env \<Rightarrow> v3_copy \<Rightarrow> panel_install_record \<Rightarrow> ('w, unit) sys \<Rightarrow> (go_error \<Rightarrow> go_error) \<Rightarrow>
    ('w, 'a) sys \<Rightarrow> ('w, 'a) sys" where
  "or_put_back mg vc st first f p =
     catchE p (\<lambda>e. bindE (quietly first) (\<lambda>_. bindE (put_back mg vc st) (\<lambda>_. failE (f e))))"

definition migrate_storage :: "'w migration_env \<Rightarrow> string \<Rightarrow> install_config \<Rightarrow> ('w, unit) sys" where
  "migrate_storage mg v3 c m =
     (let storage = path_join [v3, ''storage'', ''app''] in
      if is_file_exists (mg_os mg) storage m
      then quietly (fl_copy (mg_fs mg) storage (path_join [ic_data_directory c, ''files''])) m
      else (Inr (), m))"

definition switch_web_server :: "'w migration_env \<Rightarrow> v3_copy \<Rightarrow> panel_install_record \<Rightarrow> install_config \<Rightarrow> ('w, unit) sys" where
  "switch_web_server mg vc st c =
     (if pir_web_server st = [] then retE ()
      else bindE (or_put_back mg vc st (mg_stop mg) (\<lambda>e. WithMessage e ''failed to update web server config'')
             (update_web_server_config mg (pir_web_server st) (ic_http_port c))) (\<lambda>_.
        quietly (restart_web_server mg (pir_web_server st))))"

definition migrated_record :: "panel_install_record \<Rightarrow> install_config \<Rightarrow> string \<Rightarrow> panel_install_record" where
  "migrated_record st c tag =
     \<lparr>pir_version = or_default tag ''v4'', pir_scope = [], pir_host = pir_host st, pir_host_ip = pir_host_ip st,
      pir_port = ic_http_port c, pir_path = [], pir_config_directory = ic_config_directory c,
      pir_data_directory = ic_data_directory c, pir_web_server = [], pir_database = pir_database st,
      pir_database_was_installed = pir_database_was_installed st, pir_develop = pir_develop st,
      pir_from_github = pir_from_github st, pir_branch = pir_branch st, pir_db_host = [], pir_db_port = [],
      pir_db_name = [], pir_db_username = [], pir_db_password = [], pir_db_root_password = [], pir_admin_password = []\<rparr>"

definition save_v3_to_v4_state :: "'w control_env \<Rightarrow> panel_install_record \<Rightarrow> install_config \<Rightarrow> string \<Rightarrow> ('w, unit) sys" where
  "save_v3_to_v4_state co st c tag =
     save_panel_install_state (co_os co) (co_home co) (co_panel_codec co) (migrated_record st c tag)"

definition archive_v3 :: "'w migration_env \<Rightarrow> string \<Rightarrow> ('w, unit) sys" where
  "archive_v3 mg v3 m =
     (let final = path_join [''/var/backups'', ''gameap-v3-'' @ mg_timestamp mg m] in
      quietly (bindE (mkdir_all (mg_os mg) (path_dir final)) (\<lambda>_. move_tree (mg_fs mg) v3 final)) m)"

definition replace_v3 :: "'w migration_env \<Rightarrow> v3_copy \<Rightarrow> panel_install_record \<Rightarrow> install_config \<Rightarrow> ('w, unit) sys" where
  "replace_v3 mg vc st c =
     bindE (or_put_back mg vc st (retE ()) (\<lambda>e. WithMessage e ''failed to install v4'') (panel_install (mg_panel mg) c)) (\<lambda>tag.
     bindE (migrate_storage mg (vc_path vc) c) (\<lambda>_.
     bindE (or_put_back mg vc st (retE ()) (\<lambda>e. WithMessage e ''failed to start v4'') (mg_start mg)) (\<lambda>_.
     bindE (\<lambda>m. (Inr (), uv_sleep (mg_upgrade mg) health_delay m)) (\<lambda>_.
     bindE (switch_web_server mg vc st c) (\<lambda>_.
     bindE (or_put_back mg vc st (mg_stop mg) (\<lambda>_. Err ''health check failed, rolled back to v3'')
              (check_health_v4 (mg_upgrade mg) (ic_http_host c) (ic_http_port c))) (\<lambda>_.
     bindE (archive_v3 mg (vc_path vc)) (\<lambda>_.
     bindE (quietly (save_v3_to_v4_state (mg_control mg) st c tag)) (\<lambda>_.
       quietly (fl_remove_all (mg_fs mg) (vc_backup_dir vc))))))))))"

definition save_web_server :: "'w migration_env \<Rightarrow> panel_install_record \<Rightarrow> ('w, string) sys" where
  "save_web_server mg st =
     (if pir_web_server st = [] then retE []
      else catchE (backup_web_server_config mg (pir_web_server st)) (\<lambda>_. retE []))"

definition migrated_config :: "'w migration_env \<Rightarrow> string \<Rightarrow> (string \<rightharpoonup> string) \<Rightarrow> ('w, install_config) sys" where
  "migrated_config mg v3 cfg =
     bindE (wrapE ''failed to build v4 install config'' (build_install_config (mg_panel mg) cfg)) (\<lambda>c.
       if ic_database_driver c = ''sqlite''
       then wrapE ''failed to handle SQLite database migration'' (handle_sqlite_migration (mg_os mg) (mg_fs mg) v3 cfg c)
       else retE c)"

definition migrate_from :: "'w migration_env \<Rightarrow> panel_install_record \<Rightarrow> string \<Rightarrow> (string \<rightharpoonup> string) \<Rightarrow> string \<Rightarrow> ('w, unit) sys" where
  "migrate_from mg st v3 cfg dir =
     (let backup = path_join [dir, ''gameap-v3''] in
      bindE (wrapE ''failed to backup v3 installation'' (fl_copy (mg_fs mg) v3 backup)) (\<lambda>_.
      bindE (save_web_server mg st) (\<lambda>web.
      bindE (migrated_config mg v3 cfg)
        (replace_v3 mg \<lparr>vc_path = v3, vc_backup_dir = dir, vc_backup = backup, vc_web_backup = web\<rparr> st))))"

definition handle_v3_to_v4 :: "'w migration_env \<Rightarrow> ('w, unit) sys" where
  "handle_v3_to_v4 mg =
     bindE (wrapE ''failed to load panel install state'' (load_panel_record (mg_control mg))) (\<lambda>st m.
       let v3 = or_default (pir_path st) default_web_path; env = path_join [v3, ''.env''] in
       if \<not> is_file_exists (mg_os mg) env m then (Inl (Err (''.env file not found at '' @ env)), m)
       else case with_message ''failed to parse v3 .env file'' (parse_v3_env (mg_os mg) env m) of
         Inl e \<Rightarrow> (Inl e, m)
       | Inr cfg \<Rightarrow>
           bindE (wrapE ''failed to create backup directory'' (be_mkdtemp (uv_build (mg_upgrade mg)) ''gameapctl-v3-backup-''))
             (migrate_from mg st v3 cfg) m)"

section \<open>The command\<close>

definition v3_upgrade_not_supported :: go_error where
  "v3_upgrade_not_supported = Err ''upgrading to GameAP v3 is not supported''"

definition panel_version_text :: "panel_version \<Rightarrow> string" where
  "panel_version_text v = (case v of V3 \<Rightarrow> ''v3'' | V4 \<Rightarrow> ''v4'')"

text \<open>A record without a version gets the one that was found.\<close>

definition note_version :: "'w control_env \<Rightarrow> panel_version \<Rightarrow> ('w, unit) sys" where
  "note_version co v m =
     (case load_panel_record co m of
        (Inl _, t) \<Rightarrow> (Inr (), t)
      | (Inr st, t) \<Rightarrow>
          if pir_version st = [] then
            quietly (save_panel_install_state (co_os co) (co_home co) (co_panel_codec co) (st\<lparr>pir_version := panel_version_text v\<rparr>)) t
          else (Inr (), t))"

record update_flags =
  uf_version :: string
  uf_to :: string
  uf_scope :: string
  uf_github :: bool
  uf_branch :: string

definition handle_panel_update :: "'w migration_env \<Rightarrow> update_flags \<Rightarrow> ('w, unit) psys" where
  "handle_panel_update mg fl m =
     (case normalize_tag (or_default (uf_version fl) (uf_to fl)) of
        Inl e \<Rightarrow> Some (Inl e, m)
      | Inr tag \<Rightarrow>
          if is_major_v3 tag then Some (Inl v3_upgrade_not_supported, m)
          else bindP (liftP (resolve_command_scope (mg_control mg) (uf_scope fl))) (\<lambda>ps.
            bindP (liftP (wrapE ''failed to detect installed GameAP version'' (detect_major_version (mg_control mg) ps))) (\<lambda>v.
            bindP (liftP (note_version (mg_control mg) v)) (\<lambda>_.
              case v of
                V3 \<Rightarrow> liftP (handle_v3_to_v4 mg)
              | V4 \<Rightarrow> update_v4 (mg_upgrade mg) ps (full_tag tag) (tag_prefix tag) (uf_github fl) (uf_branch fl)))) m)"

section \<open>Lemmas on trees\<close>

text \<open>What may follow the path of a tree in the path of a file of it.\<close>

definition tree_part :: "string \<Rightarrow> bool" where
  "tree_part r \<longleftrightarrow> r = [] \<or> hd r = CHR ''/''"

lemma in_tree_iff: "in_tree p q \<longleftrightarrow> (\<exists>r. tree_part r \<and> q = p @ r)"
proof
  assume "in_tree p q"
  then consider "q = p" | t where "q = p @ ''/'' @ t" by (auto simp: in_tree_def has_prefix_iff)
  then show "\<exists>r. tree_part r \<and> q = p @ r"
    by cases (auto simp: tree_part_def intro: exI [of _ "[]"] exI [of _ "''/'' @ t" for t])
next
  assume "\<exists>r. tree_part r \<and> q = p @ r"
  then obtain r where r: "tree_part r" "q = p @ r" by blast
  show "in_tree p q"
    by (cases r) (use r in \<open>auto simp: in_tree_def tree_part_def has_prefix_iff\<close>)
qed

lemma in_tree_append [simp]: "tree_part r \<Longrightarrow> in_tree p (p @ r)"
  by (auto simp: in_tree_iff)

text \<open>
  What copies and removals of trees do: a copy that succeeds merges the tree into the target, and
  none touches another file; a removal only removes files of the tree, perhaps not all.
\<close>

definition tree_laws :: "'w fs_lib \<Rightarrow> bool" where
  "tree_laws fl \<longleftrightarrow>
     (\<forall>a b m t r. fl_copy fl a b m = (Inr (), t) \<longrightarrow> tree_part r \<longrightarrow>
        files t (b @ r) = (case files m (a @ r) of Some c \<Rightarrow> Some c | None \<Rightarrow> files m (b @ r))) \<and>
     (\<forall>a b q. \<not> in_tree b q \<longrightarrow> leaves q (fl_copy fl a b)) \<and>
     (\<forall>p m q. files (snd (fl_remove_all fl p m)) q = files m q \<or> in_tree p q \<and> files (snd (fl_remove_all fl p m)) q = None)"

lemma tree_lawsD:
  assumes "tree_laws fl"
  shows "fl_copy fl a b m = (Inr (), t) \<Longrightarrow> tree_part r \<Longrightarrow>
      files t (b @ r) = (case files m (a @ r) of Some c \<Rightarrow> Some c | None \<Rightarrow> files m (b @ r))"
    and "\<not> in_tree b q \<Longrightarrow> leaves q (fl_copy fl a b)"
    and "files (snd (fl_remove_all fl p m)) q = files m q \<or> files (snd (fl_remove_all fl p m)) q = None"
    and "\<not> in_tree p q \<Longrightarrow> leaves q (fl_remove_all fl p)"
proof -
  note laws = assms [unfolded tree_laws_def]
  note removal = laws [THEN conjunct2, THEN conjunct2, rule_format]
  show "fl_copy fl a b m = (Inr (), t) \<Longrightarrow> tree_part r \<Longrightarrow>
      files t (b @ r) = (case files m (a @ r) of Some c \<Rightarrow> Some c | None \<Rightarrow> files m (b @ r))"
    by (rule laws [THEN conjunct1, rule_format])
  show "\<not> in_tree b q \<Longrightarrow> leaves q (fl_copy fl a b)"
    by (rule laws [THEN conjunct2, THEN conjunct1, rule_format])
  show "files (snd (fl_remove_all fl p m)) q = files m q \<or> files (snd (fl_remove_all fl p m)) q = None"
    using removal [of p m q] by (elim disjE conjE) (rule disjI1, assumption, rule disjI2, assumption)
  assume "\<not> in_tree p q"
  then have "files (snd (fl_remove_all fl p s)) q = files s q" for s using removal [of p s q] by simp
  then show "leaves q (fl_remove_all fl p)" by (rule leavesI)
qed

lemma make_destination_files: "files (snd (make_destination fl p m)) = files m"
  by (simp add: make_destination_def Let_def wrapE_def split: stat_reply.split prod.split)
    (metis mkdir_all_files snd_conv)

lemma rename_tree_files:
  assumes "rename_tree os a b m = (r, t)"
  shows "r = Inr () \<and> (\<forall>s. tree_part s \<longrightarrow> files t (b @ s) = files m (a @ s)) \<or> (\<exists>e. r = Inl e) \<and> t = m"
  using assms by (auto simp: rename_tree_def split: option.splits if_splits)

text \<open>
  A tree moved onto what is left of an equal one: afterwards the tree is at its target, or still
  at its source, whatever went wrong.
\<close>

lemma moved_or_held:
  assumes laws: "tree_laws fl" and apart: "\<And>q. in_tree src q \<Longrightarrow> \<not> in_tree dst q"
    and held: "\<And>r. tree_part r \<Longrightarrow> files m (src @ r) = f r"
    and left: "\<And>r. tree_part r \<Longrightarrow> files m (dst @ r) = f r \<or> files m (dst @ r) = None"
    and run: "move_tree fl src dst m = (x, t)"
  shows "(\<forall>r. tree_part r \<longrightarrow> files t (dst @ r) = f r) \<or> (\<forall>r. tree_part r \<longrightarrow> files t (src @ r) = f r)"
proof (cases "stat_file (fl_os fl) src m")
  case StatOk
  obtain d u where d: "make_destination fl dst m = (d, u)" by force
  then have u: "files u = files m" using make_destination_files [of fl dst m] by simp
  obtain y v where y: "rename_tree (fl_os fl) src dst u = (y, v)" by force
  show ?thesis
  proof (cases d)
    case (Inl e)
    with run StatOk d have "t = u" by (simp add: move_tree_def bindE_def)
    with u held show ?thesis by simp
  next
    case (Inr unit)
    with run StatOk d have rest: "catchE (rename_tree (fl_os fl) src dst) (\<lambda>e.
        if fl_cross_device fl e then move_cross_device fl src dst else failE e) u = (x, t)"
      by (simp add: move_tree_def bindE_def)
    from rename_tree_files [OF y] show ?thesis
    proof (elim disjE exE conjE)
      assume "y = Inr ()" and moved: "\<forall>s. tree_part s \<longrightarrow> files v (dst @ s) = files u (src @ s)"
      with rest y have "t = v" by (simp add: catchE_def)
      with moved u held show ?thesis by simp
    next
      fix e assume e: "y = Inl e" "v = u"
      show ?thesis
      proof (cases "fl_cross_device fl e")
        case False
        with rest y e have "t = u" by (simp add: catchE_def failE_def)
        with u held show ?thesis by simp
      next
        case True
        with rest y e have cross: "move_cross_device fl src dst u = (x, t)" by (simp add: catchE_def)
        obtain c w where c: "fl_copy fl src dst u = (c, w)" by force
        have source: "files w (src @ r) = f r" if "tree_part r" for r
        proof -
          have "leaves (src @ r) (fl_copy fl src dst)"
            by (rule tree_lawsD(2) [OF laws apart]) (simp add: that)
          from leavesD [OF this c] show ?thesis using u held [OF that] by simp
        qed
        show ?thesis
        proof (cases c)
          case (Inl e)
          with cross c have "t = w" by (simp add: move_cross_device_def bindE_def wrapE_def)
          with source show ?thesis by simp
        next
          case (Inr unit)
          with cross c have t: "t = snd (fl_remove_all fl src w)"
            by (auto simp: move_cross_device_def bindE_def wrapE_def split: prod.splits)
          have "files t (dst @ r) = f r" if r: "tree_part r" for r
          proof -
            have "\<not> in_tree src (dst @ r)" using apart [of "dst @ r"] r by auto
            then have "files t (dst @ r) = files w (dst @ r)"
              using leavesD [OF tree_lawsD(4) [OF laws]] t by (metis prod.collapse)
            also have "\<dots> = f r"
              using tree_lawsD(1) [OF laws, of src dst u w r] c Inr r u held [OF r] left [OF r] by (auto split: option.splits)
            finally show ?thesis .
          qed
          then show ?thesis by blast
        qed
      qed
    qed
  qed
qed (use run held in \<open>auto simp: move_tree_def\<close>)

section \<open>What leaves a file alone\<close>

lemma leaves_then:
  assumes "leaves p m" "\<And>s x t. m s = (Inr x, t) \<Longrightarrow> files (snd (f x t)) p = files t p"
  shows "leaves p (bindE m f)"
proof (rule leavesI)
  fix s
  obtain r t where r: "m s = (r, t)" by force
  with leavesD [OF assms(1) r] assms(2) show "files (snd (bindE m f s)) p = files s p"
    by (cases r) (simp_all add: bindE_def)
qed

lemma leaves_state: "leaves p m \<Longrightarrow> files (snd (m s)) p = files s p"
  by (simp add: leaves_def keeps_def)

lemma load_service_leaves: "leaves p (load_service h)"
  by (rule leavesI) (auto simp: load_service_def Let_def split: option.split)

lemma restart_service_leaves:
  assumes "\<And>c. leaves p (ho_exec h c)"
  shows "leaves p (restart_service h name)"
proof -
  have "leaves p (service_start h k name) \<and> leaves p (service_stop h k name) \<and> leaves p (service_restart h k name)" for k
    by (cases k) (auto simp: systemd_start_def systemd_stop_def systemd_restart_def reset_failed_def basic_command_def
        unsupported_def intro!: leaves_bindE leaves_basic assms)
  then show ?thesis
    unfolding restart_service_def by (auto intro!: leaves_bindE leaves_catchE leaves_basic load_service_leaves)
qed

text \<open>The paths that a migration writes, and what its parts have to leave alone.\<close>

definition host_conf_paths :: "string list" where
  "host_conf_paths =
     [''/etc/nginx/conf.d/gameap.conf'', ''/etc/apache2/sites-available/gameap.conf'',
      host_conf_path ''nginx'' ''windows'', host_conf_path ''apache2'' ''windows'']"

definition written_paths :: "string list" where
  "written_paths =
     [''/etc/gameap/config.env'', default_binary_path, ''/var/lib/gameap/gameap.db'', ''/var/lib/gameap/files''] @
     host_conf_paths @ map (\<lambda>p. p @ ''.v3.backup'') host_conf_paths"

lemma host_conf_listed:
  assumes "pack = ''nginx'' \<or> pack = ''apache2''"
  shows "host_conf_path pack d \<in> set host_conf_paths"
proof (cases "d \<in> set [''default'', ''debian'', ''ubuntu'', ''windows'']")
  case True
  have "list_all (\<lambda>d. host_conf_path ''nginx'' d \<in> set host_conf_paths \<and> host_conf_path ''apache2'' d \<in> set host_conf_paths)
      [''default'', ''debian'', ''ubuntu'', ''windows'']" by code_simp
  with True assms show ?thesis by (auto simp: list_all_iff)
next
  case False
  have "host_conf_path ''nginx'' ''default'' \<in> set host_conf_paths" "host_conf_path ''apache2'' ''default'' \<in> set host_conf_paths"
    by code_simp+
  moreover have other: "d \<noteq> ''default''" "d \<noteq> ''debian''" "d \<noteq> ''ubuntu''" "d \<noteq> ''windows''" using False by auto
  have "table_entry static_configs pack d host_conf_name = None"
    using assms by (elim disjE) (simp_all add: table_entry_def static_configs_def other)
  then have "host_conf_path pack d = host_conf_path pack ''default''" by (simp add: host_conf_path_def split: option.split)
  ultimately show ?thesis using assms by (elim disjE) simp_all
qed

definition aside :: "'w migration_env \<Rightarrow> string \<Rightarrow> bool" where
  "aside mg q \<longleftrightarrow>
     host_leaves (co_panel (mg_control mg)) q \<and> (\<forall>s. panel_unit_path (mg_host mg) s \<noteq> Some q) \<and>
     panel_laws (mg_panel mg) q \<and> tree_laws (px_fs (mg_panel mg)) \<and>
     (\<forall>opts. leaves q (px_find (mg_panel mg) opts)) \<and> (\<forall>url d. leaves q (px_get (mg_panel mg) url d)) \<and>
     (\<forall>n. leaves q (px_mkdtemp (mg_panel mg) n)) \<and> (\<forall>p. leaves q (px_chmod (mg_panel mg) p)) \<and>
     (\<forall>n. leaves q (px_random (mg_panel mg) n)) \<and>
     (\<forall>n m d t. px_mkdtemp (mg_panel mg) n m = (Inr d, t) \<longrightarrow>
        \<not> in_tree (path_join [d, ''gameap'']) q \<and> \<not> in_tree (path_join [d, ''gameap.exe'']) q) \<and>
     (\<forall>url. leaves q (be_request (uv_build (mg_upgrade mg)) url)) \<and>
     (\<forall>m. files (uv_sleep (mg_upgrade mg) health_delay m) q = files m q) \<and>
     list_all (\<lambda>p. \<not> in_tree p q) written_paths"

lemma aside_basic:
  assumes "aside mg q"
  shows "leaves q (mg_start mg)" "leaves q (mg_stop mg)" "leaves q (restart_service (mg_host mg) name)"
    "leaves q (be_request (uv_build (mg_upgrade mg)) url)" "files (uv_sleep (mg_upgrade mg) health_delay m) q = files m q"
    "leaves q (px_random (mg_panel mg) n)" "p \<in> set written_paths \<Longrightarrow> \<not> in_tree p q"
proof -
  have h: "host_leaves (co_panel (mg_control mg)) q" "\<And>s. panel_unit_path (mg_host mg) s \<noteq> Some q"
    using assms by (simp_all add: aside_def)
  show "leaves q (mg_start mg)" by (rule panel_start_leaves [OF h])
  show "leaves q (mg_stop mg)" by (rule panel_stop_leaves [OF h])
  show "leaves q (restart_service (mg_host mg) name)"
    by (rule restart_service_leaves) (use h(1) in \<open>simp add: host_leaves_def\<close>)
qed (use assms in \<open>simp_all add: aside_def list_all_iff\<close>)

lemma in_tree_self [simp]: "in_tree p p"
  by (simp add: in_tree_def)

lemma move_file_leaves:
  assumes "tree_laws fl" "\<not> in_tree a q" "\<not> in_tree b q"
  shows "leaves q (move_file fl a b)"
proof -
  have "q \<noteq> a" "q \<noteq> b" using assms(2,3) by auto
  then have rename: "leaves q (rename_file (fl_os fl) a b)" by (rule leaves_rename)
  have "leaves q (move_cross_device fl a b)"
    unfolding move_cross_device_def
    by (intro leaves_bindE leaves_basic tree_lawsD(2) [OF assms(1,3)] tree_lawsD(4) [OF assms(1,2)])
  with rename have step: "leaves q (catchE (rename_file (fl_os fl) a b) (\<lambda>e.
      if fl_cross_device fl e then move_cross_device fl a b else failE e))"
    by (intro leaves_catchE) (auto intro: leaves_basic)
  have "leaves q (make_destination fl b)" by (rule leavesI) (simp add: make_destination_files)
  from leaves_bindE [OF this step] show ?thesis
    by (intro leavesI) (simp add: move_file_def leaves_state split: stat_reply.split)
qed

section \<open>The installation leaves other trees alone\<close>

lemma v4_scope_defaults: "apply_scope_defaults home (v4_install_config d u k s) = Inr (v4_install_config d u k s)"
proof -
  have "scope_or_default [] \<noteq> scope_user" "path_dir default_config_file_path \<noteq> []" "default_data_path \<noteq> []"
    "default_binary_path \<noteq> []" by code_simp+
  then show ?thesis by (simp add: apply_scope_defaults_def v4_install_config_def or_default_def)
qed

definition v4_like :: "install_config \<Rightarrow> bool" where
  "v4_like c \<longleftrightarrow> (\<exists>d u k s. c = v4_install_config d u k s)"

lemma v4_like_paths:
  assumes "v4_like c"
  shows "apply_scope_defaults home c = Inr c" "config_env_path c = ''/etc/gameap/config.env''"
    "ic_binary_path c = default_binary_path" "v4_database_path c = ''/var/lib/gameap/gameap.db''"
    "path_join [ic_data_directory c, ''files''] = ''/var/lib/gameap/files''"
proof -
  have "path_join [path_dir default_config_file_path, ''config.env''] = ''/etc/gameap/config.env''"
    "path_join [default_data_path, ''gameap.db''] = ''/var/lib/gameap/gameap.db''"
    "path_join [default_data_path, ''files''] = ''/var/lib/gameap/files''" by code_simp+
  moreover obtain d u k s where "c = v4_install_config d u k s" using assms by (auto simp: v4_like_def)
  ultimately show "apply_scope_defaults home c = Inr c" "config_env_path c = ''/etc/gameap/config.env''"
    "ic_binary_path c = default_binary_path" "v4_database_path c = ''/var/lib/gameap/gameap.db''"
    "path_join [ic_data_directory c, ''files''] = ''/var/lib/gameap/files''"
    by (simp_all add: v4_scope_defaults) (simp_all add: config_env_path_def v4_database_path_def v4_install_config_def)
qed

lemma v4_like_url [simp]: "v4_like c \<Longrightarrow> v4_like (c\<lparr>ic_database_url := u\<rparr>)"
  by (auto simp: v4_like_def v4_install_config_def)

lemma v4_like_built: "build_install_config px cfg m = (Inr c, t) \<Longrightarrow> v4_like c"
  by (auto simp: build_install_config_def bindE_Inr_iff v4_like_def split: sum.splits prod.splits)

lemma fill_secrets_path: "fill_secrets px c m = (Inr d, t) \<Longrightarrow> config_env_path d = config_env_path c"
  by (auto simp: fill_secrets_def bindE_Inr_iff config_env_path_def)

lemma preserved_path: "config_env_path (preserve_existing_secrets os (apply_config_defaults c) m) = config_env_path c"
  by (simp add: preserve_existing_secrets_def apply_config_defaults_def config_env_path_def Let_def split: sum.split)

lemma aside_install:
  assumes "aside mg q"
  shows "panel_laws (mg_panel mg) q" "tree_laws (px_fs (mg_panel mg))" "leaves q (px_find (mg_panel mg) opts)"
    "leaves q (px_get (mg_panel mg) url d)" "leaves q (px_mkdtemp (mg_panel mg) n)" "leaves q (px_chmod (mg_panel mg) p)"
    "px_mkdtemp (mg_panel mg) n m = (Inr dir, t) \<Longrightarrow> b \<in> set [''gameap'', ''gameap.exe''] \<Longrightarrow> \<not> in_tree (path_join [dir, b]) q"
proof -
  assume made: "px_mkdtemp (mg_panel mg) n m = (Inr dir, t)" and b: "b \<in> set [''gameap'', ''gameap.exe'']"
  have "\<forall>n m d t. px_mkdtemp (mg_panel mg) n m = (Inr d, t) \<longrightarrow>
      \<not> in_tree (path_join [d, ''gameap'']) q \<and> \<not> in_tree (path_join [d, ''gameap.exe'']) q"
    using assms unfolding aside_def by (elim conjE) assumption
  with made have "\<not> in_tree (path_join [dir, ''gameap'']) q \<and> \<not> in_tree (path_join [dir, ''gameap.exe'']) q" by blast
  with b show "\<not> in_tree (path_join [dir, b]) q" by auto
qed (use assms in \<open>simp_all add: aside_def\<close>)

lemma panel_configure_leaves:
  assumes a: "aside mg q" and c: "v4_like c"
  shows "leaves q (panel_configure (mg_panel mg) c)"
proof -
  let ?px = "mg_panel mg"
  have key: "leaves q (generate_random_key ?px n)" for n
    unfolding generate_random_key_def using aside_basic(6) [OF a] by (auto intro!: leaves_bindE intro: leaves_basic)
  have fill: "leaves q (fill_secrets ?px d)" for d
    unfolding fill_secrets_def by (auto intro!: leaves_bindE leaves_basic key)
  have conf: "leaves q (write_configuration ?px d)" if "config_env_path d = ''/etc/gameap/config.env''" for d
  proof -
    have "q \<noteq> config_env_path d"
      using aside_basic(7) [OF a, of "''/etc/gameap/config.env''"] that by (auto simp: written_paths_def)
    then have "leaves q (create_config_env ?px d)"
      unfolding create_config_env_def using user_ops_leave(3) [OF aside_install(1) [OF a]]
      by (auto intro!: leaves_bindE leaves_basic leaves_write)
    then show ?thesis
      unfolding write_configuration_def
      by (intro leaves_bindE leaves_basic panel_steps_leave [OF aside_install(1) [OF a]])
  qed
  have "leaves q (bindE (fill_secrets ?px (preserve_existing_secrets (px_os ?px) (apply_config_defaults c) m))
      (write_configuration ?px))" for m
  proof (rule leaves_then [OF fill])
    fix s d t assume "fill_secrets ?px (preserve_existing_secrets (px_os ?px) (apply_config_defaults c) m) s = (Inr d, t)"
    then have "config_env_path d = ''/etc/gameap/config.env''"
      using fill_secrets_path preserved_path v4_like_paths(2) [OF c] by metis
    then show "files (snd (write_configuration ?px d t)) q = files t q" by (intro leaves_state conf)
  qed
  then show ?thesis by (intro leavesI) (simp add: panel_configure_def v4_like_paths(1) [OF c] leaves_state)
qed

lemma download_panel_leaves:
  assumes a: "aside mg q" and c: "v4_like c"
  shows "leaves q (download_panel (mg_panel mg) c)"
proof -
  let ?px = "mg_panel mg"
  have find: "leaves q (case ic_pre_resolved c of Some r \<Rightarrow> retE r | None \<Rightarrow> resolve_panel_release ?px c)"
    unfolding resolve_panel_release_def Let_def using aside_install(3) [OF a]
    by (auto intro: leaves_basic split: option.split)
  have get: "leaves q (download_with cancelled (\<lambda>url. px_get ?px url d) (Some rel))" for cancelled d rel
    unfolding download_with_def by (auto intro: leaves_basic intro!: download_loop_leaves aside_install(4) [OF a])
  have binary: "\<not> in_tree (ic_binary_path c) q"
    using aside_basic(7) [OF a, of default_binary_path] v4_like_paths(3) [OF c] by (simp add: written_paths_def)
  have move: "leaves q (move_panel_binary ?px d (ic_binary_path c) ns)" if "\<And>b. b \<in> set ns \<Longrightarrow> \<not> in_tree (path_join [d, b]) q" for d ns
    using that
  proof (induction ns)
    case Nil
    show ?case by (rule leavesI) simp
  next
    case (Cons n ns)
    have "leaves q (move_file (px_fs ?px) (path_join [d, n]) (ic_binary_path c))"
      by (rule move_file_leaves [OF aside_install(2) [OF a] _ binary]) (simp add: Cons.prems)
    then have "leaves q (bindE (wrapE ''failed to move gameap binaries'' (move_file (px_fs ?px) (path_join [d, n]) (ic_binary_path c)))
        (\<lambda>_. wrapE ''failed to set executable permissions'' (px_chmod ?px (ic_binary_path c))))"
      by (intro leaves_bindE leaves_basic aside_install(6) [OF a])
    then show ?case
      by (intro leavesI) (simp add: Let_def leaves_state [OF Cons.IH] Cons.prems leaves_state split: stat_reply.split)
  qed
  show ?thesis
    unfolding download_panel_def
  proof (rule leaves_then)
    show "leaves q (wrapE ''failed to make temp dir'' (px_mkdtemp ?px ''gameap''))"
      by (intro leaves_basic aside_install(5) [OF a])
    fix s d t assume "wrapE ''failed to make temp dir'' (px_mkdtemp ?px ''gameap'') s = (Inr d, t)"
    then have "px_mkdtemp ?px ''gameap'' s = (Inr d, t)" by simp
    note move = move [of "[''gameap'', ''gameap.exe'']" d, OF aside_install(7) [OF a this]]
    show "files (snd (bindE (case ic_pre_resolved c of Some r \<Rightarrow> retE r | None \<Rightarrow> resolve_panel_release ?px c) (\<lambda>rel.
        bindE (wrapE ''failed to download gameap binaries''
          (download_with (ho_canceled (px_host ?px)) (\<lambda>url. px_get ?px url d) (Some rel))) (\<lambda>_.
        bindE (move_panel_binary ?px d (ic_binary_path c) [''gameap'', ''gameap.exe'']) (\<lambda>_.
          retE (res_tag rel)))) t)) q = files t q"
      by (intro leaves_state leaves_bindE leaves_basic find get move)
  qed
qed

lemma panel_install_leaves:
  assumes "aside mg q" "v4_like c"
  shows "leaves q (panel_install (mg_panel mg) c)"
proof -
  have "leaves q (bindE (panel_configure (mg_panel mg) c) (\<lambda>_. wrapE ''failed to download binaries'' (download_panel (mg_panel mg) c)))"
    by (intro leaves_bindE leaves_basic panel_configure_leaves [OF assms] download_panel_leaves [OF assms])
  then show ?thesis by (intro leavesI) (simp add: panel_install_def v4_like_paths(1) [OF assms(2)] leaves_state)
qed

section \<open>Nothing is lost\<close>

text \<open>The tree at \<open>p\<close> has the contents \<open>f\<close>.\<close>

definition tree_is :: "'w machine \<Rightarrow> string \<Rightarrow> (string \<Rightarrow> string option) \<Rightarrow> bool" where
  "tree_is m p f \<longleftrightarrow> (\<forall>r. tree_part r \<longrightarrow> files m (p @ r) = f r)"

definition both_trees :: "v3_copy \<Rightarrow> (string \<Rightarrow> string option) \<Rightarrow> 'w machine \<Rightarrow> bool" where
  "both_trees vc f m \<longleftrightarrow> tree_is m (vc_path vc) f \<and> tree_is m (vc_backup vc) f"

definition some_tree :: "v3_copy \<Rightarrow> (string \<Rightarrow> string option) \<Rightarrow> 'w machine \<Rightarrow> bool" where
  "some_tree vc f m \<longleftrightarrow> tree_is m (vc_path vc) f \<or> tree_is m (vc_backup vc) f"

definition copy_apart :: "'w migration_env \<Rightarrow> v3_copy \<Rightarrow> bool" where
  "copy_apart mg vc \<longleftrightarrow> tree_laws (mg_fs mg) \<and>
     (\<forall>q. in_tree (vc_path vc) q \<or> in_tree (vc_backup vc) q \<longrightarrow> aside mg q) \<and>
     (\<forall>q. in_tree (vc_backup vc) q \<longrightarrow> \<not> in_tree (vc_path vc) q)"

text \<open>A step that keeps the files of both trees, one that keeps a tree when it fails.\<close>

definition harmless :: "v3_copy \<Rightarrow> ('w, 'a) sys \<Rightarrow> bool" where
  "harmless vc p \<longleftrightarrow> (\<forall>q. in_tree (vc_path vc) q \<or> in_tree (vc_backup vc) q \<longrightarrow> leaves q p)"

definition careful :: "v3_copy \<Rightarrow> (string \<Rightarrow> string option) \<Rightarrow> ('w, 'a) sys \<Rightarrow> bool" where
  "careful vc f p \<longleftrightarrow> (\<forall>s r t. both_trees vc f s \<longrightarrow> p s = (r, t) \<longrightarrow>
     (case r of Inl _ \<Rightarrow> some_tree vc f t | Inr _ \<Rightarrow> both_trees vc f t))"

definition losing_nothing :: "v3_copy \<Rightarrow> (string \<Rightarrow> string option) \<Rightarrow> ('w, 'a) sys \<Rightarrow> bool" where
  "losing_nothing vc f p \<longleftrightarrow> (\<forall>s e t. both_trees vc f s \<longrightarrow> p s = (Inl e, t) \<longrightarrow> some_tree vc f t)"

lemma tree_is_leaves:
  assumes "\<And>q. in_tree p q \<Longrightarrow> leaves q m" "m s = (r, t)" "tree_is s p f"
  shows "tree_is t p f"
  using assms(3) leavesD [OF assms(1) assms(2)] by (simp add: tree_is_def)

lemma harmless_trees:
  assumes "harmless vc p" "p s = (r, t)"
  shows "both_trees vc f s \<Longrightarrow> both_trees vc f t" "some_tree vc f s \<Longrightarrow> some_tree vc f t"
  using assms tree_is_leaves [of _ p s r t f] by (auto simp: both_trees_def some_tree_def harmless_def)

lemma both_some: "both_trees vc f m \<Longrightarrow> some_tree vc f m"
  by (simp add: both_trees_def some_tree_def)

lemma harmless_careful: "harmless vc p \<Longrightarrow> careful vc f p"
  using harmless_trees(1) both_some by (fastforce simp: careful_def split: sum.split)

lemma careful_bindE:
  assumes "careful vc f p" "\<And>x. losing_nothing vc f (g x)"
  shows "losing_nothing vc f (bindE p g)"
  unfolding losing_nothing_def
proof (intro allI impI)
  fix s e t assume s: "both_trees vc f s" "bindE p g s = (Inl e, t)"
  obtain r u where u: "p s = (r, u)" by force
  with assms(1) s(1) have "case r of Inl _ \<Rightarrow> some_tree vc f u | Inr _ \<Rightarrow> both_trees vc f u"
    unfolding careful_def by blast
  with s(2) u assms(2) show "some_tree vc f t"
    by (cases r) (auto simp: bindE_def losing_nothing_def)
qed

lemma never_failing: "(\<And>s e t. p s \<noteq> (Inl e, t)) \<Longrightarrow> losing_nothing vc f p"
  by (simp add: losing_nothing_def)

lemma careful_seq:
  assumes "careful vc f p" "\<And>x. careful vc f (g x)"
  shows "careful vc f (bindE p g)"
  unfolding careful_def
proof (intro allI impI)
  fix s r t assume s: "both_trees vc f s" "bindE p g s = (r, t)"
  obtain x u where u: "p s = (x, u)" by force
  with assms(1) s(1) have "case x of Inl _ \<Rightarrow> some_tree vc f u | Inr _ \<Rightarrow> both_trees vc f u"
    unfolding careful_def by blast
  with s(2) u assms(2) show "case r of Inl _ \<Rightarrow> some_tree vc f t | Inr _ \<Rightarrow> both_trees vc f t"
    by (cases x) (auto simp: bindE_def careful_def)
qed

section \<open>The way back\<close>

lemma aside_parts:
  assumes "copy_apart mg vc" "in_tree (vc_path vc) q \<or> in_tree (vc_backup vc) q"
  shows "aside mg q"
  using assms unfolding copy_apart_def by blast

lemma written_elsewhere:
  assumes "copy_apart mg vc" "p \<in> set written_paths"
  shows "harmless vc (fl_copy (mg_fs mg) a p)" "harmless vc (write_file os p x)"
proof -
  have other: "\<not> in_tree p q" if "in_tree (vc_path vc) q \<or> in_tree (vc_backup vc) q" for q
    by (rule aside_basic(7) [OF aside_parts [OF assms(1) that] assms(2)])
  show "harmless vc (fl_copy (mg_fs mg) a p)"
    unfolding harmless_def using assms(1) other by (auto simp: copy_apart_def intro!: tree_lawsD(2))
  show "harmless vc (write_file os p x)"
    unfolding harmless_def using other in_tree_self by (metis leaves_write)
qed

lemma harmless_basic [intro]:
  "harmless vc (retE x)" "harmless vc (failE e)" "harmless vc p \<Longrightarrow> harmless vc (wrapE msg p)"
  "harmless vc p \<Longrightarrow> harmless vc (quietly p)"
  by (auto simp: harmless_def)

lemma harmless_bindE: "harmless vc p \<Longrightarrow> (\<And>x. harmless vc (g x)) \<Longrightarrow> harmless vc (bindE p g)"
  by (auto simp: harmless_def intro: leaves_bindE)

lemma harmless_catchE: "harmless vc p \<Longrightarrow> (\<And>e. harmless vc (g e)) \<Longrightarrow> harmless vc (catchE p g)"
  by (auto simp: harmless_def intro: leaves_catchE)

lemma harmless_state: "(\<And>s. harmless vc (p s)) \<Longrightarrow> harmless vc (\<lambda>s. p s s)"
  unfolding harmless_def by (blast intro: leaves_by_state)

lemma harmless_if: "harmless vc p \<Longrightarrow> harmless vc q \<Longrightarrow> harmless vc (if b then p else q)"
  by simp

lemma harmless_steps:
  assumes "copy_apart mg vc"
  shows "harmless vc (mg_start mg)" "harmless vc (mg_stop mg)" "harmless vc (restart_service (mg_host mg) name)"
    "harmless vc (be_request (uv_build (mg_upgrade mg)) url)"
    "harmless vc (\<lambda>m. (Inr (), uv_sleep (mg_upgrade mg) health_delay m))" "v4_like c \<Longrightarrow> harmless vc (panel_install (mg_panel mg) c)"
proof -
  note parts = aside_parts [OF assms]
  show "harmless vc (mg_start mg)" "harmless vc (mg_stop mg)" "harmless vc (restart_service (mg_host mg) name)"
    "harmless vc (be_request (uv_build (mg_upgrade mg)) url)" "v4_like c \<Longrightarrow> harmless vc (panel_install (mg_panel mg) c)"
    unfolding harmless_def using aside_basic(1-4) [OF parts] panel_install_leaves [OF parts] by blast+
  show "harmless vc (\<lambda>m. (Inr (), uv_sleep (mg_upgrade mg) health_delay m))"
    unfolding harmless_def using aside_basic(5) [OF parts] by (simp add: leaves_def keeps_def)
qed

lemma host_conf_written:
  assumes "web_server_package w = Some pack"
  obtains path where "host_conf mg pack = retE path" "path \<in> set written_paths" "path @ ''.v3.backup'' \<in> set written_paths"
proof -
  have pack: "pack = ''nginx'' \<or> pack = ''apache2''" using assms by (auto simp: web_server_package_def split: if_splits)
  let ?path = "host_conf_path pack (oi_distribution (pe_info (mg_packages mg)))"
  have "host_conf mg pack = retE ?path" unfolding host_conf_def by (rule host_conf_found [OF pack])
  moreover have "?path \<in> set written_paths" "?path @ ''.v3.backup'' \<in> set written_paths"
    using host_conf_listed [OF pack] by (simp_all add: written_paths_def)
  ultimately show thesis by (rule that)
qed

lemma bind_retE [simp]: "bindE (retE x) f = f x" "wrapE msg (retE x) = retE x"
  by (intro ext, simp add: bindE_def wrapE_def retE_def)+

lemma web_server_harmless:
  assumes "copy_apart mg vc"
  shows "harmless vc (backup_web_server_config mg w)" "harmless vc (update_web_server_config mg w port)"
    "harmless vc (restart_web_server mg w)" "harmless vc (restore_web_server_from_backup mg b w)"
proof -
  show restart: "harmless vc (restart_web_server mg w)"
    unfolding restart_web_server_def using harmless_steps(3) [OF assms]
    by (auto intro: harmless_basic split: option.split)
  show "harmless vc (backup_web_server_config mg w)"
  proof (cases "web_server_package w")
    case (Some pack)
    then obtain path where path: "host_conf mg pack = retE path" "path @ ''.v3.backup'' \<in> set written_paths"
      by (rule host_conf_written)
    have "harmless vc (bindE (wrapE ''failed to copy config file'' (fl_copy (mg_fs mg) path (path @ ''.v3.backup''))) (\<lambda>_.
              retE (path @ ''.v3.backup'')))"
      by (intro harmless_bindE harmless_basic written_elsewhere(1) [OF assms path(2)])
    then show ?thesis
      using Some path(1) by (auto simp: backup_web_server_config_def harmless_def leaves_def keeps_def)
  qed (auto simp: backup_web_server_config_def intro: harmless_basic)
  show "harmless vc (update_web_server_config mg w port)"
  proof (cases "web_server_package w")
    case (Some pack)
    then obtain path where path: "host_conf mg pack = retE path" "path \<in> set written_paths"
      by (rule host_conf_written)
    have "harmless vc (write_host_conf mg pack content msg)" for content msg
      unfolding write_host_conf_def path(1) using written_elsewhere(2) [OF assms path(2)] by (auto intro: harmless_basic)
    with Some show ?thesis unfolding update_web_server_config_def by (simp only: option.case) (intro harmless_if)
  qed (auto simp: update_web_server_config_def intro: harmless_basic)
  show "harmless vc (restore_web_server_from_backup mg b w)"
  proof (cases "web_server_package w")
    case (Some pack)
    then obtain path where path: "host_conf mg pack = retE path" "path \<in> set written_paths"
      by (rule host_conf_written)
    have "harmless vc (restore_web_server_config mg b path)"
      using harmless_basic(3) [OF written_elsewhere(1) [OF assms path(2)]]
      by (auto simp: restore_web_server_config_def harmless_def leaves_def keeps_def)
    then show ?thesis
      using Some path(1) restart by (auto simp: restore_web_server_from_backup_def intro!: harmless_basic harmless_bindE)
  qed (auto simp: restore_web_server_from_backup_def intro: harmless_basic)
qed

text \<open>Putting back: both trees are there before, and one of them afterwards.\<close>

lemma put_back_keeps:
  assumes a: "copy_apart mg vc" and s: "both_trees vc f s" and run: "put_back mg vc st s = (r, t)"
  shows "some_tree vc f t"
proof -
  have laws: "tree_laws (mg_fs mg)" and apart: "\<And>q. in_tree (vc_backup vc) q \<Longrightarrow> \<not> in_tree (vc_path vc) q"
    using a unfolding copy_apart_def by blast+
  define u where "u = snd (remove_tree_present mg (vc_path vc) s)"
  have removed: "remove_tree_present mg (vc_path vc) s = (Inr (), u)"
    by (simp add: u_def remove_tree_present_def quietly_def)
  have u: "u = s \<or> u = snd (fl_remove_all (mg_fs mg) (vc_path vc) s)"
    using removed by (auto simp: remove_tree_present_def split: if_splits)
  have held: "files u (vc_backup vc @ x) = f x" if "tree_part x" for x
    using u s that leaves_state [OF tree_lawsD(4) [OF laws apart], of "vc_backup vc @ x"]
    by (auto simp: both_trees_def tree_is_def)
  have left: "files u (vc_path vc @ x) = f x \<or> files u (vc_path vc @ x) = None" if "tree_part x" for x
    using u s that tree_lawsD(3) [OF laws, of "vc_path vc" s "vc_path vc @ x"] by (auto simp: both_trees_def tree_is_def)
  obtain y v where y: "move_tree (mg_fs mg) (vc_backup vc) (vc_path vc) u = (y, v)" by force
  from moved_or_held [OF laws apart held left y] have v: "some_tree vc f v"
    by (simp add: some_tree_def tree_is_def)
  let ?web = "if vc_web_backup vc \<noteq> [] \<and> pir_web_server st \<noteq> []
      then restore_web_server_from_backup mg (vc_web_backup vc) (pir_web_server st) else retE ()"
  have web: "harmless vc ?web" by (intro harmless_if web_server_harmless [OF a] harmless_basic)
  from run removed y have "t = v \<or> t = snd (?web v)"
    by (cases y) (auto simp: put_back_def quietly_def rollback_v3_to_v4_def bindE_def wrapE_def)
  moreover have "some_tree vc f (snd (?web v))"
    by (rule harmless_trees(2) [OF web surjective_pairing v])
  ultimately show ?thesis using v by auto
qed

lemma careful_or_put_back:
  assumes "copy_apart mg vc" "harmless vc first" "harmless vc p"
  shows "careful vc f (or_put_back mg vc st first g p)"
  unfolding careful_def
proof (intro allI impI)
  fix s r t assume s: "both_trees vc f s" "or_put_back mg vc st first g p s = (r, t)"
  obtain x u where u: "p s = (x, u)" by force
  have both: "both_trees vc f u" by (rule harmless_trees(1) [OF assms(3) u s(1)])
  show "case r of Inl _ \<Rightarrow> some_tree vc f t | Inr _ \<Rightarrow> both_trees vc f t"
  proof (cases x)
    case (Inr y)
    with s(2) u have "r = Inr y" "t = u" by (simp_all add: or_put_back_def catchE_def)
    with both show ?thesis by simp
  next
    case (Inl e)
    obtain y v where v: "first u = (y, v)" by force
    have "both_trees vc f v" by (rule harmless_trees(1) [OF assms(2) v both])
    moreover obtain z w where w: "put_back mg vc st v = (z, w)" by force
    ultimately have "some_tree vc f w" using put_back_keeps [OF assms(1)] by blast
    moreover have "r = Inl (g e)" "t = w"
      using s(2) u v w Inl by (auto simp: or_put_back_def catchE_def quietly_def bindE_def failE_def put_back_def)
    ultimately show ?thesis by simp
  qed
qed

section \<open>The steps of the migration\<close>

lemma health_harmless:
  assumes "copy_apart mg vc"
  shows "harmless vc (check_health_v4 (mg_upgrade mg) host port)"
proof -
  have "files (snd (health_attempts_v4 (mg_upgrade mg) url n m)) q = files m q" if "aside mg q" for url n m q
  proof (induction n arbitrary: m)
    case (Suc n)
    obtain r t where r: "be_request (uv_build (mg_upgrade mg)) url m = (r, t)" by force
    have "files t q = files m q" by (rule leavesD [OF aside_basic(4) [OF that] r])
    with Suc r aside_basic(5) [OF that] show ?case by simp
  qed simp
  then show ?thesis
    unfolding harmless_def check_health_v4_def using aside_parts [OF assms] by (blast intro: leavesI)
qed

lemma storage_harmless:
  assumes "copy_apart mg vc" "v4_like c"
  shows "harmless vc (migrate_storage mg v3 c)"
proof -
  have "harmless vc (fl_copy (mg_fs mg) a (path_join [ic_data_directory c, ''files'']))" for a
    unfolding v4_like_paths(5) [OF assms(2)] by (rule written_elsewhere(1) [OF assms(1)]) (simp add: written_paths_def)
  then show ?thesis
    by (auto simp: migrate_storage_def Let_def harmless_def leaves_def keeps_def quietly_def)
qed

lemma replace_v3_loses_nothing:
  assumes a: "copy_apart mg vc" and c: "v4_like c"
  shows "losing_nothing vc f (replace_v3 mg vc st c)"
proof -
  note steps = harmless_steps [OF a]
  have switch: "careful vc f (switch_web_server mg vc st c)"
  proof (cases "pir_web_server st = []")
    case True
    then show ?thesis unfolding switch_web_server_def by (simp add: harmless_careful harmless_basic)
  next
    case False
    then show ?thesis
      unfolding switch_web_server_def
      by (simp only: if_False)
        (intro careful_seq careful_or_put_back a steps(2) harmless_careful harmless_basic web_server_harmless [OF a])
  qed
  have last: "losing_nothing vc f (bindE (archive_v3 mg v3) (\<lambda>_. bindE (quietly x) (\<lambda>_. quietly y)))" for v3 x y
    by (rule never_failing) (auto simp: archive_v3_def Let_def bindE_Inl_iff)
  show ?thesis
    unfolding replace_v3_def
    by (intro careful_bindE careful_or_put_back a harmless_basic harmless_careful switch last
        steps(1,2,5) steps(6) [OF c] storage_harmless [OF a c] health_harmless [OF a])
qed

lemma configuration_harmless:
  assumes "copy_apart mg vc"
  shows "harmless vc (migrated_config mg v3 cfg)"
proof -
  have random: "harmless vc (random_secret (mg_panel mg) msg)" for msg
    unfolding random_secret_def harmless_def using aside_basic(6) [OF aside_parts [OF assms]]
    by (auto intro!: leaves_bindE leaves_basic)
  have "harmless vc (bindE (case kept_key cfg of Some k \<Rightarrow> retE k | None \<Rightarrow> random_secret (mg_panel mg) ''failed to generate encryption key'')
      (\<lambda>key. bindE (random_secret (mg_panel mg) ''failed to generate auth secret'') (\<lambda>secret. retE (v4_install_config driver url key secret))))"
    for driver url
    by (intro harmless_bindE harmless_basic random) (auto intro: random harmless_basic split: option.split)
  then have build: "harmless vc (build_install_config (mg_panel mg) cfg)"
    by (auto simp: build_install_config_def harmless_def leaves_def keeps_def split: sum.split prod.split)
  have sqlite: "harmless vc (handle_sqlite_migration (mg_os mg) (mg_fs mg) v3 cfg c)" if "v4_like c" for c
  proof -
    have "harmless vc (fl_copy (mg_fs mg) a (v4_database_path c))" for a
      unfolding v4_like_paths(4) [OF that] by (rule written_elsewhere(1) [OF assms]) (simp add: written_paths_def)
    then have "harmless vc (bindE (wrapE ''failed to copy SQLite database'' (fl_copy (mg_fs mg) a (v4_database_path c)))
        (\<lambda>_. retE (c\<lparr>ic_database_url := sqlite_url (v4_database_path c)\<rparr>)))" for a
      by (intro harmless_bindE harmless_basic)
    then show ?thesis by (auto simp: handle_sqlite_migration_def Let_def harmless_def leaves_def keeps_def)
  qed
  show ?thesis
    unfolding harmless_def migrated_config_def
  proof (intro allI impI leaves_then)
    fix q assume q: "in_tree (vc_path vc) q \<or> in_tree (vc_backup vc) q"
    show "leaves q (wrapE ''failed to build v4 install config'' (build_install_config (mg_panel mg) cfg))"
      using build q unfolding harmless_def by (blast intro: leaves_basic)
    fix s c t assume "wrapE ''failed to build v4 install config'' (build_install_config (mg_panel mg) cfg) s = (Inr c, t)"
    then have "v4_like c" by (auto dest: v4_like_built)
    from sqlite [OF this] q have "leaves q (if ic_database_driver c = ''sqlite''
        then wrapE ''failed to handle SQLite database migration'' (handle_sqlite_migration (mg_os mg) (mg_fs mg) v3 cfg c)
        else retE c)" unfolding harmless_def by (auto intro: leaves_basic)
    then show "files (snd ((if ic_database_driver c = ''sqlite''
        then wrapE ''failed to handle SQLite database migration'' (handle_sqlite_migration (mg_os mg) (mg_fs mg) v3 cfg c)
        else retE c) t)) q = files t q" by (rule leaves_state)
  qed
qed

lemma migrated_config_v4:
  assumes "migrated_config mg v3 cfg m = (Inr c, t)"
  shows "v4_like c"
  using assms
  by (auto simp: migrated_config_def bindE_Inr_iff handle_sqlite_migration_def Let_def split: if_splits dest: v4_like_built)

text \<open>A copy that was made, before anything else happened.\<close>

lemma migrate_from_keeps:
  assumes a: "copy_apart mg \<lparr>vc_path = v3, vc_backup_dir = d, vc_backup = path_join [d, ''gameap-v3''], vc_web_backup = []\<rparr>"
    and v3: "tree_is m v3 f" and fresh: "\<And>q. in_tree (path_join [d, ''gameap-v3'']) q \<Longrightarrow> files m q = None"
    and run: "migrate_from mg st v3 cfg d m = (Inl e, t)"
  shows "tree_is t v3 f \<or> tree_is t (path_join [d, ''gameap-v3'']) f"
proof -
  let ?b = "path_join [d, ''gameap-v3'']"
  define vc where "vc w = \<lparr>vc_path = v3, vc_backup_dir = d, vc_backup = ?b, vc_web_backup = w\<rparr>" for w
  have apart: "copy_apart mg (vc w)" for w using a by (simp add: copy_apart_def vc_def)
  have same: "both_trees (vc w) = both_trees (vc [])" "some_tree (vc w) = some_tree (vc [])" for w
    by (intro ext; simp add: both_trees_def some_tree_def vc_def)+
  obtain x u where x: "fl_copy (mg_fs mg) v3 ?b m = (x, u)" by force
  have old: "tree_is u v3 f"
  proof (rule tree_is_leaves [where m = "fl_copy (mg_fs mg) v3 ?b", OF _ x v3])
    fix q assume "in_tree v3 q"
    then have "\<not> in_tree ?b q" using a by (auto simp: copy_apart_def)
    then show "leaves q (fl_copy (mg_fs mg) v3 ?b)" using a by (intro tree_lawsD(2)) (simp_all add: copy_apart_def)
  qed
  show ?thesis
  proof (cases x)
    case (Inl e')
    with run x have "t = u" by (simp add: migrate_from_def Let_def bindE_def wrapE_def)
    with old show ?thesis by simp
  next
    case (Inr y)
    have "tree_laws (mg_fs mg)" using a by (simp add: copy_apart_def)
    from tree_lawsD(1) [OF this, of v3 ?b m u] x Inr v3 fresh have "tree_is u ?b f"
      by (auto simp: tree_is_def split: option.split)
    with old have u: "both_trees (vc []) f u" by (simp add: both_trees_def vc_def)
    obtain w v where w: "save_web_server mg st u = (w, v)" by force
    have "harmless (vc []) (save_web_server mg st)"
      unfolding save_web_server_def by (intro harmless_if harmless_catchE harmless_basic web_server_harmless [OF apart])
    from harmless_trees(1) [OF this w u] have v: "both_trees (vc []) f v" .
    have "\<And>e. w \<noteq> Inl e" using w by (auto simp: save_web_server_def catchE_def retE_def split: if_splits prod.splits sum.splits)
    then obtain web where web: "w = Inr web" by (cases w) auto
    obtain c z where c: "migrated_config mg v3 cfg v = (c, z)" by force
    have z: "both_trees (vc []) f z" by (rule harmless_trees(1) [OF configuration_harmless [OF apart] c v])
    have rest: "bindE (migrated_config mg v3 cfg) (replace_v3 mg (vc web) st) v = (Inl e, t)"
      using run x Inr w web by (simp add: migrate_from_def Let_def bindE_def wrapE_def vc_def)
    have "some_tree (vc []) f t"
    proof (cases c)
      case (Inl e'')
      with rest c z show ?thesis by (simp add: bindE_def both_some)
    next
      case (Inr config)
      with rest c have run: "replace_v3 mg (vc web) st config z = (Inl e, t)" by (simp add: bindE_def)
      have "v4_like config" using migrated_config_v4 c Inr by blast
      from replace_v3_loses_nothing [OF apart this] have "losing_nothing (vc web) f (replace_v3 mg (vc web) st config)" .
      with run z same [of web] show ?thesis unfolding losing_nothing_def by metis
    qed
    then show ?thesis by (simp add: some_tree_def vc_def)
  qed
qed

section \<open>Properties\<close>

text \<open>
  What a migration relies on: its parts leave the files of version 3 alone and write where they
  say, and the directory for the copy is a new one.
\<close>

definition migration_laws :: "'w migration_env \<Rightarrow> string \<Rightarrow> bool" where
  "migration_laws mg v3 \<longleftrightarrow> tree_laws (mg_fs mg) \<and> (\<forall>q. in_tree v3 q \<longrightarrow> aside mg q) \<and>
     (\<forall>n q. in_tree v3 q \<longrightarrow> leaves q (be_mkdtemp (uv_build (mg_upgrade mg)) n)) \<and>
     (\<forall>n m d t q. be_mkdtemp (uv_build (mg_upgrade mg)) n m = (Inr d, t) \<longrightarrow> in_tree (path_join [d, ''gameap-v3'']) q \<longrightarrow>
        aside mg q \<and> \<not> in_tree v3 q \<and> files t q = None)"

text \<open>
  C33: a migration from version 3 that fails, wherever it fails and whatever else fails on the way
  back, loses no file of version 3: the whole tree is at its place, or in the copy that was made.
\<close>

theorem failed_migration_loses_nothing:
  assumes "load_panel_record (mg_control mg) m = (Inr st, u)"
    and "v3 = or_default (pir_path st) default_web_path" and "migration_laws mg v3"
    and "handle_v3_to_v4 mg m = (Inl e, t)"
  shows "tree_is t v3 (\<lambda>r. files m (v3 @ r)) \<or>
    (\<exists>d s s'. be_mkdtemp (uv_build (mg_upgrade mg)) ''gameapctl-v3-backup-'' s = (Inr d, s') \<and>
      tree_is t (path_join [d, ''gameap-v3'']) (\<lambda>r. files m (v3 @ r)))"
proof -
  let ?mk = "be_mkdtemp (uv_build (mg_upgrade mg)) ''gameapctl-v3-backup-''"
  have u: "tree_is u v3 (\<lambda>r. files m (v3 @ r))"
    using leavesD [OF load_record_leaves assms(1)] by (simp add: tree_is_def)
  from assms(1,2,4) consider "t = u" | cfg where
    "bindE (wrapE ''failed to create backup directory'' ?mk) (migrate_from mg st v3 cfg) u = (Inl e, t)"
    by (auto simp: handle_v3_to_v4_def bindE_def [of "wrapE _ (load_panel_record _)"] wrapE_def [of _ "load_panel_record _"]
        with_message_def Let_def split: if_splits sum.splits)
  then show ?thesis
  proof cases
    case 1
    with u show ?thesis by simp
  next
    case 2
    obtain x v where x: "?mk u = (x, v)" by force
    have v: "tree_is v v3 (\<lambda>r. files m (v3 @ r))"
      by (rule tree_is_leaves [where m = "?mk", OF _ x u]) (use assms(3) in \<open>simp add: migration_laws_def\<close>)
    show ?thesis
    proof (cases x)
      case (Inl e')
      with 2 x have "t = v" by (simp add: bindE_def wrapE_def)
      with v show ?thesis by simp
    next
      case (Inr d)
      with 2 x have run: "migrate_from mg st v3 cfg d v = (Inl e, t)" by (simp add: bindE_def wrapE_def)
      have made: "aside mg q \<and> \<not> in_tree v3 q \<and> files v q = None" if "in_tree (path_join [d, ''gameap-v3'']) q" for q
        using assms(3) x Inr that unfolding migration_laws_def by blast
      have "copy_apart mg \<lparr>vc_path = v3, vc_backup_dir = d, vc_backup = path_join [d, ''gameap-v3''], vc_web_backup = []\<rparr>"
        using assms(3) made by (auto simp: copy_apart_def migration_laws_def)
      from migrate_from_keeps [OF this v _ run] made x Inr show ?thesis by blast
    qed
  qed
qed

text \<open>
  A panel of version 3 that was installed without a web server is never migrated: the record
  says \<open>none\<close>, which the step for the web server refuses, after version 4 was installed and started.
\<close>

theorem migration_without_web_server_fails:
  assumes "load_panel_record (mg_control mg) m = (Inr st, u)" and "pir_web_server st = ''none''"
  shows "\<exists>e t. handle_v3_to_v4 mg m = (Inl e, t)"
proof (cases "handle_v3_to_v4 mg m")
  case (Pair r t)
  have none: "web_server_package ''none'' = None" by code_simp
  have refused: "switch_web_server mg vc st c s \<noteq> (Inr x, v)" for vc c s x v
    using assms(2) none
    by (auto simp: switch_web_server_def bindE_Inr_iff or_put_back_def catchE_Inr_iff update_web_server_config_def failE_def)
  have "r \<noteq> Inr x" for x
  proof
    assume "r = Inr x"
    with Pair assms(1) obtain vc c s where "replace_v3 mg vc st c s = (Inr x, t)"
      by (auto simp: handle_v3_to_v4_def bindE_Inr_iff migrate_from_def Let_def split: if_splits sum.splits)
    then show False by (auto simp: replace_v3_def bindE_Inr_iff refused)
  qed
  with Pair show ?thesis by (cases r) auto
qed

text \<open>A panel of version 3 on a host where no group can be made, so that version 4 is not installed.\<close>

definition copy_tree :: "string \<Rightarrow> string \<Rightarrow> ('w, unit) sys" where
  "copy_tree a b m = (Inr (), m\<lparr>files := (\<lambda>q. if in_tree b q
     then (case files m (a @ drop (length b) q) of Some c \<Rightarrow> Some c | None \<Rightarrow> files m q) else files m q),
     dirs := insert b (dirs m)\<rparr>)"

definition drop_tree :: "string \<Rightarrow> ('w, unit) sys" where
  "drop_tree p m = (Inr (), m\<lparr>files := (\<lambda>q. if in_tree p q then None else files m q)\<rparr>)"

definition tree_fs :: "nat fs_lib" where
  "tree_fs = (px_fs rootless_env)\<lparr>fl_copy := copy_tree, fl_remove_all := drop_tree\<rparr>"

definition v3_record :: panel_install_record where
  "v3_record = no_panel_record\<lparr>pir_version := ''3'', pir_web_server := ''none''\<rparr>"

definition quiet_packages :: "nat pm_env" where
  "quiet_packages =
     \<lparr>pe_host = stubborn_host, pe_info = example_info, pe_exec = (\<lambda>_ _. retE ()), pe_combined = (\<lambda>_ _ m. (([], None), m)),
      pe_stdout = (\<lambda>_. retE []), pe_list_dir = (\<lambda>_. retE []), pe_unlz4 = (\<lambda>s. s), pe_render = (\<lambda>_ _ c. retE c),
      pe_download = (\<lambda>_ _. retE ()), pe_download_archive = (\<lambda>_ _. retE ()), pe_make_temp = retE ''/tmp/x'',
      pe_remove_all = (\<lambda>_. retE ()), pe_repository = []\<rparr>"

definition migrating :: "nat migration_env" where
  "migrating =
     \<lparr>mg_upgrade = (upgrading obedient_host)\<lparr>
        uv_control := obedient_control\<lparr>co_panel_codec := \<lparr>encode_json = (\<lambda>_. Inr ''state''), decode_json = (\<lambda>_. Inr v3_record)\<rparr>\<rparr>,
        uv_build := (uv_build (upgrading obedient_host))\<lparr>be_mkdtemp :=
          (\<lambda>_ m. (Inr ''/tmp/b'', m\<lparr>files := (\<lambda>q. if in_tree ''/tmp/b'' q then None else files m q)\<rparr>))\<rparr>,
        uv_fs := tree_fs\<rparr>,
      mg_panel = rootless_env\<lparr>px_random := (\<lambda>n. retE (replicate n (CHR 0x00))), px_fs := tree_fs,
        px_users := (px_users rootless_env)\<lparr>us_host := stubborn_host\<lparr>ho_exec := (\<lambda>_. failE (Err ''permission denied''))\<rparr>\<rparr>\<rparr>,
      mg_packages = quiet_packages, mg_timestamp = (\<lambda>_. ''20240101-000000'')\<rparr>"

definition v3_machine :: "nat machine" where
  "v3_machine =
     \<lparr>files = [path_join [path_join [''/home/u'', ''.gameapctl''], panel_install_state_file] \<mapsto> ''state'',
        ''/var/www/gameap/.env'' \<mapsto> ''APP_KEY=base64:k'', ''/var/www/gameap/artisan'' \<mapsto> ''php''],
      dirs = {''/home/u/.gameapctl'', ''/var/www'', ''/var/www/gameap'', user_manager_socket obedient_host},
      world = 0, service_memo = None\<rparr>"

lemma tree_fs_laws: "tree_laws tree_fs"
  unfolding tree_laws_def
  by (auto simp: tree_fs_def rootless_env_def copy_tree_def drop_tree_def leaves_def keeps_def)

lemma v3_host_fields:
  "co_panel (mg_control migrating) = co_panel obedient_control" "mg_fs migrating = tree_fs"
  "px_fs (mg_panel migrating) = tree_fs" "uv_sleep (mg_upgrade migrating) d m = m"
  by (simp_all add: migrating_def upgrading_def)

lemma in_tree_hd: "in_tree p q \<Longrightarrow> p \<noteq> [] \<Longrightarrow> hd q = hd p"
  by (auto simp: in_tree_iff)

definition v3_file :: "string \<Rightarrow> bool" where
  "v3_file q \<longleftrightarrow> (\<exists>r. q = ''/var/www/gameap'' @ r \<or> q = ''/tmp/b/gameap-v3'' @ r)"

lemma v3_file_elsewhere:
  assumes "v3_file q"
  shows "list_all (\<lambda>p. \<not> in_tree p q) written_paths" "\<not> in_tree ''/tmp/x/gameap'' q" "\<not> in_tree ''/tmp/x/gameap.exe'' q"
    "q \<noteq> ''/etc/systemd/system/gameap.service''" "q \<noteq> ''/home/u/.config/systemd/user/gameap.service''"
proof -
  have windows: "\<not> in_tree (host_conf_path w ''windows'' @ x) q" if "w = ''nginx'' \<or> w = ''apache2''" for w x
  proof
    have "hd (host_conf_path w ''windows'') = CHR ''C''" "host_conf_path w ''windows'' \<noteq> []"
      using that by (elim disjE; simp only:; code_simp)+
    moreover assume "in_tree (host_conf_path w ''windows'' @ x) q"
    ultimately have "hd q = CHR ''C''" using in_tree_hd by fastforce
    with assms show False by (auto simp: v3_file_def)
  qed
  from assms windows [of "''nginx''" "[]"] windows [of "''apache2''" "[]"] windows [of "''nginx''" "''.v3.backup''"]
    windows [of "''apache2''" "''.v3.backup''"]
  show "list_all (\<lambda>p. \<not> in_tree p q) written_paths"
    by (auto simp: written_paths_def host_conf_paths_def default_binary_path_def v3_file_def in_tree_def)
  from assms show "\<not> in_tree ''/tmp/x/gameap'' q" "\<not> in_tree ''/tmp/x/gameap.exe'' q"
    "q \<noteq> ''/etc/systemd/system/gameap.service''" "q \<noteq> ''/home/u/.config/systemd/user/gameap.service''"
    by (auto simp: v3_file_def in_tree_def)
qed

lemma unit_paths:
  "panel_paths_for_scope (Some ''/home/u'') scope = Inr ps \<Longrightarrow>
     pp_systemd_unit_path ps \<in> {''/etc/systemd/system/gameap.service'', ''/home/u/.config/systemd/user/gameap.service''}"
proof -
  have "pp_systemd_unit_path system_panel_paths = ''/etc/systemd/system/gameap.service''"
    "pp_systemd_unit_path (user_panel_paths_from_home ''/home/u'') = ''/home/u/.config/systemd/user/gameap.service''"
    by code_simp+
  then show "panel_paths_for_scope (Some ''/home/u'') scope = Inr ps \<Longrightarrow> ?thesis"
    by (auto simp: panel_paths_for_scope_def user_home_def split: if_splits)
qed

lemma v3_aside:
  assumes "v3_file q"
  shows "aside migrating q"
proof -
  note other = v3_file_elsewhere [OF assms]
  have home: "ho_home (mg_host migrating) = Some ''/home/u''" "ho_home (px_host (mg_panel migrating)) = Some ''/home/u''"
    by (simp_all add: migrating_def upgrading_def obedient_control_def obedient_host_def rootless_env_def rootless_host_def stubborn_host_def)
  have joins: "path_join [''/tmp/x'', ''gameap''] = ''/tmp/x/gameap''" "path_join [''/tmp/x'', ''gameap.exe''] = ''/tmp/x/gameap.exe''"
    by code_simp+
  have "host_leaves (co_panel (mg_control migrating)) q"
    by (simp add: v3_host_fields obedient_control_def host_leaves_def obedient_host_def stubborn_host_def leaves_def keeps_def retE_def)
  moreover have "\<forall>s. panel_unit_path (mg_host migrating) s \<noteq> Some q"
    using unit_paths other(4,5) home by (auto simp: panel_unit_path_def split: sum.splits)
  moreover have "panel_laws (mg_panel migrating) q"
    using unit_paths other(4,5) home
    by (auto simp: panel_laws_def resolved_panel_paths_def with_message_def split: sum.splits)
      (auto simp: migrating_def rootless_env_def rootless_host_def stubborn_host_def leaves_def keeps_def retE_def failE_def)
  ultimately show ?thesis
    using tree_fs_laws other(1-3)
    by (auto simp: aside_def v3_host_fields joins)
      (auto simp: migrating_def upgrading_def rootless_env_def leaves_def keeps_def retE_def joins)
qed

lemma v3_laws: "migration_laws migrating ''/var/www/gameap''"
proof -
  have join: "path_join [''/tmp/b'', ''gameap-v3''] = ''/tmp/b/gameap-v3''" by code_simp
  have v3: "v3_file q" if "in_tree ''/var/www/gameap'' q \<or> in_tree ''/tmp/b/gameap-v3'' q" for q
    using that by (auto simp: v3_file_def in_tree_iff)
  have "\<not> in_tree ''/tmp/b'' q" if "in_tree ''/var/www/gameap'' q" for q
    using that by (auto simp: in_tree_iff)
  moreover have "\<not> in_tree ''/var/www/gameap'' q \<and> in_tree ''/tmp/b'' q" if "in_tree ''/tmp/b/gameap-v3'' q" for q
    using that by (auto simp: in_tree_iff tree_part_def)
  moreover have "be_mkdtemp (uv_build (mg_upgrade migrating)) n m =
      (Inr ''/tmp/b'', m\<lparr>files := (\<lambda>q. if in_tree ''/tmp/b'' q then None else files m q)\<rparr>)" for n m
    by (simp add: migrating_def)
  ultimately show ?thesis
    using v3 v3_aside tree_fs_laws by (auto simp: migration_laws_def v3_host_fields join leaves_def keeps_def)
qed

lemma v3_loaded: "\<exists>u. load_panel_record (mg_control migrating) v3_machine = (Inr v3_record, u)"
proof -
  have "fst (load_panel_record (mg_control migrating) v3_machine) = Inr v3_record" by code_simp
  then show ?thesis by (metis prod.collapse)
qed

theorem failed_migration_loses_nothing_witness:
  "\<exists>e t. handle_v3_to_v4 migrating v3_machine = (Inl (WithMessage e ''failed to install v4''), t) \<and>
     (\<exists>p. files t (p @ ''/artisan'') = Some ''php'')"
proof -
  obtain u where u: "load_panel_record (mg_control migrating) v3_machine = (Inr v3_record, u)" using v3_loaded by blast
  have "case handle_v3_to_v4 migrating v3_machine of
      (Inl (WithMessage e msg), t) \<Rightarrow> msg = ''failed to install v4'' | _ \<Rightarrow> False" by code_simp
  then obtain e t where run: "handle_v3_to_v4 migrating v3_machine = (Inl (WithMessage e ''failed to install v4''), t)"
    by (auto split: prod.splits sum.splits go_error.splits)
  have path: "''/var/www/gameap'' = or_default (pir_path v3_record) default_web_path" by code_simp
  have old: "files v3_machine (''/var/www/gameap'' @ ''/artisan'') = Some ''php''" by code_simp
  from failed_migration_loses_nothing [OF u path v3_laws run] obtain p where
    "tree_is t p (\<lambda>r. files v3_machine (''/var/www/gameap'' @ r))" by blast
  then have "files t (p @ ''/artisan'') = Some ''php''" using old by (simp add: tree_is_def tree_part_def)
  with run show ?thesis by blast
qed

theorem migration_without_web_server_fails_witness:
  "\<exists>e t. handle_v3_to_v4 migrating v3_machine = (Inl e, t)"
proof -
  obtain u where u: "load_panel_record (mg_control migrating) v3_machine = (Inr v3_record, u)" using v3_loaded by blast
  have "pir_web_server v3_record = ''none''" by (simp add: v3_record_def)
  from migration_without_web_server_fails [OF u this] show ?thesis .
qed


definition carrying :: "nat panel_env" where
  "carrying = rootless_env\<lparr>px_random := (\<lambda>n. retE (replicate n (CHR 0x00))),
     px_users := (px_users rootless_env)\<lparr>us_lookup_user := (\<lambda>_ _. UserFound ''7'' ''7''), us_lookup_group := (\<lambda>_ _. Inr (''7'', ''7''))\<rparr>\<rparr>"

definition v3_settings :: "string \<rightharpoonup> string" where
  "v3_settings = [''APP_KEY'' \<mapsto> ''base64:k'', ''DB_PASSWORD'' \<mapsto> ''p'']"


end
