(* ===== verification/SelfUpdate.thy ===== *)
theory SelfUpdate
  imports PanelUpdate
begin

text \<open>
  The update of gameapctl itself (\<open>internal/actions/selfupdate\<close>) and its build from source
  (\<open>internal/pkg/gameapctl/build.go\<close>): from a release that is newer, from a version that was asked for, or
  from a branch. The comparison of versions (\<open>golang.org/x/mod/semver\<close>), the library that replaces
  the running program, downloads and commands are parameters. A seek in an open file does not fail.
\<close>

record 'w self_env =
  sv_build :: "'w build_env"
  sv_load_pm :: "'w machine \<Rightarrow> 'w package_manager result"
  sv_find :: "find_options \<Rightarrow> ('w, resolved_release) sys"
  sv_get :: "string \<Rightarrow> string \<Rightarrow> ('w, unit) sys"
  sv_create_temp :: "string \<Rightarrow> ('w, string) sys"
  sv_close :: "string \<Rightarrow> ('w, unit) sys"
  sv_apply :: "string \<Rightarrow> ('w, unit) sys"
  sv_semver :: "string \<Rightarrow> string \<Rightarrow> int"
  sv_version :: string
  sv_goos :: string

record self_flags =
  sf_github :: bool
  sf_branch :: string
  sf_version :: string
  sf_force :: bool

abbreviation sv_os :: "'w self_env \<Rightarrow> 'w os_env" where "sv_os sv \<equiv> be_os (sv_build sv)"

section \<open>A build from source\<close>

definition gameapctl_repository :: string where
  "gameapctl_repository = ''https://github.com/gameap/gameapctl.git''"

definition install_build_dependencies :: "'w build_env \<Rightarrow> 'w package_manager \<Rightarrow> ('w, unit) psys" where
  "install_build_dependencies be pm =
     bindP (wrapP ''failed to install git'' (pm_install pm ''git'' [])) (\<lambda>_.
     bindP (wrapP ''failed to install nodejs'' (pm_install pm ''nodejs'' [])) (\<lambda>_.
     bindP (wrapP ''failed to install golang'' (pm_install pm ''go'' [])) (\<lambda>_ m.
       Some (Inr (), be_update_path be m))))"

definition build_ui :: "'w build_env \<Rightarrow> string \<Rightarrow> ('w, unit) sys" where
  "build_ui be repo =
     (let ui = path_join [repo, ''ui''] in
      bindE (wrapE ''failed to install ui dependencies'' (be_run_in be ui [''npm'', ''ci''])) (\<lambda>_.
        wrapE ''failed to build ui bundle'' (be_run_in be ui [''npm'', ''run'', ''build'', ''--if-present''])))"

definition generate_windows_resources :: "'w build_env \<Rightarrow> string \<Rightarrow> ('w, unit) sys" where
  "generate_windows_resources be repo =
     wrapE ''failed to run go generate'' (be_run_in be repo [''go'', ''generate'', ''./cmd/gameapctl/...''])"

definition clone_and_build_ctl :: "'w self_env \<Rightarrow> string \<Rightarrow> string \<Rightarrow> ('w, string \<times> string) sys" where
  "clone_and_build_ctl sv branch repo =
     (let be = sv_build sv; windows = (sv_goos sv = ''windows'');
          bin = path_join [repo, ''gameapctl-build''] @ (if windows then ''.exe'' else []) in
      bindE (wrapE ''failed to clone gameapctl from github''
        (ho_exec (be_host be) [''git'', ''clone'', ''-b'', branch, gameapctl_repository, repo])) (\<lambda>_.
      bindE (wrapE ''failed to build ui'' (build_ui be repo)) (\<lambda>_.
      bindE (if windows then wrapE ''failed to generate windows resources'' (generate_windows_resources be repo) else retE ()) (\<lambda>_.
      bindE (wrapE ''failed to build gameapctl''
        (be_run_in be (path_join [repo, ''cmd'', ''gameapctl'']) [''go'', ''build'', ''-o'', bin, ''.''])) (\<lambda>_.
        retE (bin, repo))))))"

text \<open>The clone is removed when a step fails, and left to the caller when none does.\<close>

definition build_gameapctl_from_github :: "'w self_env \<Rightarrow> 'w package_manager \<Rightarrow> string \<Rightarrow> ('w, string \<times> string) psys" where
  "build_gameapctl_from_github sv pm branch =
     bindP (install_build_dependencies (sv_build sv) pm) (\<lambda>_. liftP
       (bindE (wrapE ''failed to create temp dir'' (be_mkdtemp (sv_build sv) ''gameapctl-src'')) (\<lambda>repo.
          catchE (clone_and_build_ctl sv branch repo)
            (\<lambda>e. bindE (quietly (be_remove_all (sv_build sv) repo)) (\<lambda>_. failE e)))))"

definition self_update_from_github :: "'w self_env \<Rightarrow> string \<Rightarrow> ('w, unit) psys" where
  "self_update_from_github sv branch m =
     (case sv_load_pm sv m of
        Inl e \<Rightarrow> Some (Inl (WithMessage e ''failed to load package manager''), m)
      | Inr pm \<Rightarrow>
          bindP (wrapP ''failed to build gameapctl from github'' (build_gameapctl_from_github sv pm branch)) (\<lambda>(bin, repo).
            liftP (finallyE
              (bindE (wrapE ''failed to open built binary'' (read_file (sv_os sv) bin)) (\<lambda>b.
                 wrapE ''failed to apply update'' (sv_apply sv b)))
              (quietly (be_remove_all (sv_build sv) repo)))) m)"

section \<open>A release\<close>

definition find_ctl_release :: "'w self_env \<Rightarrow> normalized_tag \<Rightarrow> ('w, resolved_release) sys" where
  "find_ctl_release sv tag =
     wrapE ''failed to find release'' (sv_find sv
       \<lparr>opt_tag = full_tag tag, opt_tag_prefix = tag_prefix tag, opt_allow_prerelease = True, opt_no_retry = False\<rparr>)"

definition is_update_available :: "'w self_env \<Rightarrow> string \<Rightarrow> bool" where
  "is_update_available sv tag \<longleftrightarrow> sv_semver sv tag (sv_version sv) = 1"

definition is_dev_version :: "'w self_env \<Rightarrow> self_flags \<Rightarrow> bool" where
  "is_dev_version sv fl \<longleftrightarrow> has_prefix (sv_version sv) ''dev'' \<and> \<not> sf_force fl"

text \<open>What \<open>errors.As\<close> finds of a release without a binary for this machine.\<close>

definition missing_asset :: "go_error \<Rightarrow> (string \<times> string \<times> string) option" where
  "missing_asset e =
     first_some (\<lambda>x. case x of FailedToFindRelease os arch latest \<Rightarrow> Some (os, arch, latest) | _ \<Rightarrow> None) (error_chain e)"

definition handle_missing_asset :: "'w self_env \<Rightarrow> self_flags \<Rightarrow> string \<times> string \<times> string \<Rightarrow> unit result" where
  "handle_missing_asset sv fl missing =
     (case missing of (os, arch, latest) \<Rightarrow>
        if is_dev_version sv fl \<or> \<not> is_update_available sv latest then Inr ()
        else Inl (Err (''update is available ('' @ latest @ ''), but no binary for '' @ os @ ''/'' @ arch)))"

definition discard_temp :: "'w self_env \<Rightarrow> string \<Rightarrow> ('w, unit) sys" where
  "discard_temp sv f m =
     (case sv_close sv f m of
        (Inl _, t) \<Rightarrow> (Inr (), t)
      | (Inr _, t) \<Rightarrow> quietly (remove_file (sv_os sv) f) t)"

definition download_and_apply :: "'w self_env \<Rightarrow> resolved_release \<Rightarrow> ('w, unit) sys" where
  "download_and_apply sv rel =
     bindE (wrapE ''failed to create temp file'' (sv_create_temp sv ''gameapctl'')) (\<lambda>f.
       finallyE
         (bindE (wrapE ''failed to download''
            (download_with (ho_canceled (be_host (sv_build sv))) (\<lambda>url. sv_get sv url f) (Some rel))) (\<lambda>_.
            wrapE ''failed to update'' (bindE (read_file (sv_os sv) f) (sv_apply sv))))
         (discard_temp sv f))"

definition self_update_from_release :: "'w self_env \<Rightarrow> self_flags \<Rightarrow> normalized_tag \<Rightarrow> ('w, unit) sys" where
  "self_update_from_release sv fl tag m =
     (case find_ctl_release sv tag m of
        (Inl e, t) \<Rightarrow>
          (case missing_asset e of
             Some (os, arch, latest) \<Rightarrow>
               if latest \<noteq> [] \<and> sf_version fl = [] then (handle_missing_asset sv fl (os, arch, latest), t)
               else (Inl (WithMessage e ''failed to find release''), t)
           | None \<Rightarrow> (Inl (WithMessage e ''failed to find release''), t))
      | (Inr rel, t) \<Rightarrow>
          if is_dev_version sv fl then (Inr (), t)
          else if sf_version fl = [] \<and> \<not> is_update_available sv (res_tag rel) then (Inr (), t)
          else download_and_apply sv rel t)"

definition requested_self_tag :: "self_flags \<Rightarrow> normalized_tag result" where
  "requested_self_tag fl =
     (if sf_version fl = [] then Inr \<lparr>full_tag = [], tag_prefix = []\<rparr> else normalize_tag (sf_version fl))"

definition handle_self_update :: "'w self_env \<Rightarrow> self_flags \<Rightarrow> ('w, unit) psys" where
  "handle_self_update sv fl m =
     (if sf_version fl \<noteq> [] \<and> (sf_github fl \<or> sf_branch fl \<noteq> []) then
        Some (Inl (Err ''--version is mutually exclusive with --github and --branch''), m)
      else if sf_branch fl \<noteq> [] \<and> \<not> sf_github fl then Some (Inl (Err ''--branch requires --github''), m)
      else if sf_github fl then self_update_from_github sv (or_default (sf_branch fl) ''main'') m
      else case requested_self_tag fl of
        Inl e \<Rightarrow> Some (Inl e, m)
      | Inr tag \<Rightarrow> liftP (self_update_from_release sv fl tag) m)"

section \<open>Lemmas\<close>

text \<open>Only the library that replaces the program writes the program at \<open>p\<close>.\<close>

definition program_laws :: "'w self_env \<Rightarrow> string \<Rightarrow> bool" where
  "program_laws sv p \<longleftrightarrow>
     (\<forall>opts. leaves p (sv_find sv opts)) \<and> (\<forall>url f. f \<noteq> p \<longrightarrow> leaves p (sv_get sv url f)) \<and>
     (\<forall>n. leaves p (sv_create_temp sv n)) \<and> (\<forall>f. leaves p (sv_close sv f)) \<and>
     (\<forall>n m f t. sv_create_temp sv n m = (Inr f, t) \<longrightarrow> f \<noteq> p)"

lemma find_ctl_leaves: "program_laws sv p \<Longrightarrow> leaves p (find_ctl_release sv tag)"
  unfolding find_ctl_release_def program_laws_def by (auto intro: leaves_basic)

lemma discard_temp_leaves: "program_laws sv p \<Longrightarrow> f \<noteq> p \<Longrightarrow> leaves p (discard_temp sv f)"
proof (rule leavesI)
  fix s :: "'a machine"
  assume laws: "program_laws sv p" "f \<noteq> p"
  obtain x t where close: "sv_close sv f s = (x, t)" by (cases "sv_close sv f s") auto
  have "files t p = files s p" using laws(1) close by (auto simp: program_laws_def dest: leavesD)
  with close laws(2) show "files (snd (discard_temp sv f s)) p = files s p"
    by (cases x) (simp_all add: discard_temp_def quietly_def remove_file_others)
qed

text \<open>A program that changes was given to the library, and is what the download left in its file.\<close>

definition replaced_by :: "'w self_env \<Rightarrow> resolved_release \<Rightarrow> string \<Rightarrow> 'w machine \<Rightarrow> 'w machine \<Rightarrow> bool" where
  "replaced_by sv rel p m t \<longleftrightarrow>
     (\<exists>f s a b. f \<noteq> p \<and>
        download_with (ho_canceled (be_host (sv_build sv))) (\<lambda>url. sv_get sv url f) (Some rel) s = (Inr (), a) \<and>
        files a f = Some b \<and> files a p = files m p \<and> files t p = files (snd (sv_apply sv b a)) p)"

lemma download_replaces:
  assumes laws: "program_laws sv p" and run: "download_and_apply sv rel m = (r, t)" and new: "files t p \<noteq> files m p"
  shows "replaced_by sv rel p m t"
proof -
  let ?get = "\<lambda>f. download_with (ho_canceled (be_host (sv_build sv))) (\<lambda>url. sv_get sv url f) (Some rel)"
  have temp: "leaves p (sv_create_temp sv n)" for n using laws by (simp add: program_laws_def)
  obtain x s where c: "sv_create_temp sv ''gameapctl'' m = (x, s)" by (cases "sv_create_temp sv ''gameapctl'' m") auto
  have s: "files s p = files m p" by (rule leavesD [OF temp c])
  show ?thesis
  proof (cases x)
    case (Inl e)
    with c run have "t = s" by (simp add: download_and_apply_def bindE_def wrapE_def)
    with s new show ?thesis by simp
  next
    case (Inr f)
    from c Inr laws have f: "f \<noteq> p" unfolding program_laws_def by blast
    have get: "leaves p (?get f)"
      unfolding download_with_def using laws f by (auto intro: leaves_basic intro!: download_loop_leaves simp: program_laws_def)
    obtain y a where g: "?get f s = (y, a)" by (cases "?get f s") auto
    have a: "files a p = files m p" using leavesD [OF get g] s by simp
    have after: "files (snd (discard_temp sv f u)) p = files u p" for u
      by (rule leavesD [OF discard_temp_leaves [OF laws f]]) (rule prod.collapse [symmetric])
    show ?thesis
    proof (cases "\<exists>b. y = Inr () \<and> read_file (sv_os sv) f a = (Inr b, a)")
      case True
      then obtain b where b: "y = Inr ()" "read_file (sv_os sv) f a = (Inr b, a)" by blast
      have "files t p = files (snd (sv_apply sv b a)) p"
        using run c Inr g b by (auto simp: download_and_apply_def bindE_def wrapE_def finallyE_def after split: prod.splits sum.splits)
      with b g f a show ?thesis unfolding replaced_by_def by (auto simp: read_file_Inr)
    next
      case False
      then have "files t p = files a p"
        using run c Inr g
        by (cases y; cases "read_file (sv_os sv) f a")
          (auto simp: download_and_apply_def bindE_def wrapE_def finallyE_def after read_file_Inr dest: read_file_Inl
            split: prod.splits sum.splits)
      with a new show ?thesis by simp
    qed
  qed
qed

text \<open>What a release changes of the program, and that it was asked for or is newer.\<close>

lemma release_replaces:
  assumes "program_laws sv p" "self_update_from_release sv fl tag m = (r, t)" "files t p \<noteq> files m p"
  shows "\<exists>rel s. find_ctl_release sv tag m = (Inr rel, s) \<and> \<not> is_dev_version sv fl \<and>
    (sf_version fl = [] \<longrightarrow> is_update_available sv (res_tag rel)) \<and>
    replaced_by sv rel p m t"
proof (cases "find_ctl_release sv tag m")
  case (Pair x s)
  have same: "files s p = files m p" by (rule leavesD [OF find_ctl_leaves [OF assms(1)] Pair])
  show ?thesis
  proof (cases x)
    case (Inl e)
    with assms(2) Pair have "t = s" by (auto simp: self_update_from_release_def split: option.splits if_splits)
    with same assms(3) show ?thesis by simp
  next
    case (Inr rel)
    have "\<not> (is_dev_version sv fl \<or> sf_version fl = [] \<and> \<not> is_update_available sv (res_tag rel))"
    proof
      assume "is_dev_version sv fl \<or> sf_version fl = [] \<and> \<not> is_update_available sv (res_tag rel)"
      with assms(2) Pair Inr have "t = s" by (auto simp: self_update_from_release_def split: if_splits)
      with same assms(3) show False by simp
    qed
    moreover from this assms(2) Pair Inr have "download_and_apply sv rel s = (r, t)" by (auto simp: self_update_from_release_def)
    then have "replaced_by sv rel p s t" using assms(1,3) same by (intro download_replaces) simp_all
    then have "replaced_by sv rel p m t" by (simp add: replaced_by_def same)
    ultimately show ?thesis using Pair Inr by blast
  qed
qed

section \<open>Properties\<close>

text \<open>
  C35: without \<open>--github\<close> the program only changes when the release that was found has been downloaded
  completely, to what was downloaded; never a development version without \<open>--force\<close>, and without
  \<open>--version\<close> only to a newer release.
\<close>

theorem program_replaced_for_a_reason:
  assumes "program_laws sv p" and "\<not> sf_github fl"
    and "handle_self_update sv fl m = Some (r, t)" and "files t p \<noteq> files m p"
  shows "(has_prefix (sv_version sv) ''dev'' \<longrightarrow> sf_force fl) \<and>
    (\<exists>tag rel s. requested_self_tag fl = Inr tag \<and> find_ctl_release sv tag m = (Inr rel, s) \<and>
      (sf_version fl = [] \<longrightarrow> sv_semver sv (res_tag rel) (sv_version sv) = 1) \<and>
      replaced_by sv rel p m t)"
proof -
  from assms(2-4) obtain tag where tag: "requested_self_tag fl = Inr tag" "self_update_from_release sv fl tag m = (r, t)"
    by (auto simp: handle_self_update_def liftP_def split: if_splits sum.splits)
  from release_replaces [OF assms(1) tag(2) assms(4)] tag(1) show ?thesis
    by (auto simp: is_dev_version_def is_update_available_def)
qed

definition some_update :: "nat self_env" where
  "some_update =
     \<lparr>sv_build = \<lparr>be_host = stubborn_host, be_run_in = (\<lambda>_ _. retE ()), be_mkdtemp = (\<lambda>n. retE n), be_remove_all = (\<lambda>_. retE ()),
        be_update_path = (\<lambda>m. m), be_request = (\<lambda>_. failE Canceled), be_status = (\<lambda>_. Inl Canceled)\<rparr>,
      sv_load_pm = (\<lambda>_. Inl Canceled), sv_find = (\<lambda>_. retE \<lparr>res_tag = ''v2'', res_asset = ''a'', res_urls = [''u'']\<rparr>),
      sv_get = (\<lambda>url f m. (Inr (), put_file f ''new'' m)), sv_create_temp = (\<lambda>_. retE ''/tmp/g''), sv_close = (\<lambda>_. retE ()),
      sv_apply = (\<lambda>b m. (Inr (), put_file ''/usr/bin/gameapctl'' b m)),
      sv_semver = (\<lambda>a b. if a = b then 0 else 1), sv_version = ''v1'', sv_goos = ''linux''\<rparr>"

definition no_self_flags :: self_flags where
  "no_self_flags = \<lparr>sf_github = False, sf_branch = [], sf_version = [], sf_force = False\<rparr>"

theorem program_replaced_for_a_reason_witness:
  "\<exists>rel s. find_ctl_release some_update \<lparr>full_tag = [], tag_prefix = []\<rparr> quiet_machine = (Inr rel, s) \<and>
     sv_semver some_update (res_tag rel) (sv_version some_update) = 1"
proof -
  let ?run = "handle_self_update some_update no_self_flags quiet_machine"
  have "program_laws some_update ''/usr/bin/gameapctl''"
    by (auto simp: program_laws_def some_update_def leaves_def keeps_def retE_def put_file_def)
  moreover have "\<not> sf_github no_self_flags" by (simp add: no_self_flags_def)
  moreover have "case ?run of Some (r, t) \<Rightarrow> files t ''/usr/bin/gameapctl'' = Some ''new'' | None \<Rightarrow> False" by code_simp
  then obtain r t where run: "?run = Some (r, t)" "files t ''/usr/bin/gameapctl'' = Some ''new''"
    by (cases ?run) (auto split: prod.splits)
  moreover have "files t ''/usr/bin/gameapctl'' \<noteq> files quiet_machine ''/usr/bin/gameapctl''"
    using run(2) by (simp add: quiet_machine_def)
  ultimately have "\<exists>tag rel s. requested_self_tag no_self_flags = Inr tag \<and> find_ctl_release some_update tag quiet_machine = (Inr rel, s) \<and>
      (sf_version no_self_flags = [] \<longrightarrow> sv_semver some_update (res_tag rel) (sv_version some_update) = 1) \<and>
      replaced_by some_update rel ''/usr/bin/gameapctl'' quiet_machine t"
    using program_replaced_for_a_reason [of some_update "''/usr/bin/gameapctl''" no_self_flags quiet_machine r t] by blast
  then show ?thesis by (auto simp: requested_self_tag_def no_self_flags_def)
qed

end
