(* ===== verification/WindowsService.thy ===== *)
theory WindowsService
  imports Services
begin

text \<open>
  Services on Windows (\<open>pkg/service/service_windows.go\<close>): starting and stopping by \<open>sc\<close>, with waits
  for the state that was asked for, other names of a service, and the state of a service.
  The service control manager is a parameter.
\<close>

section \<open>The service control manager\<close>

text \<open>The states of \<open>golang.org/x/sys/windows/svc\<close>, with their numbers; \<open>NoState\<close> is the zero that \<open>findService\<close> returns.\<close>

datatype svc_state =
  NoState | Stopped | StartPending | StopPending | Running | ContinuePending | PausePending | Paused

fun svc_code :: "svc_state \<Rightarrow> nat" where
  "svc_code NoState = 0"
| "svc_code Stopped = 1"
| "svc_code StartPending = 2"
| "svc_code StopPending = 3"
| "svc_code Running = 4"
| "svc_code ContinuePending = 5"
| "svc_code PausePending = 6"
| "svc_code Paused = 7"

text \<open>
  \<open>sm_connect\<close> is the error of \<open>mgr.Connect\<close>, \<open>sm_open\<close> whether \<open>OpenService\<close> succeeds and \<open>sm_query\<close>
  what \<open>Query\<close> gives; \<open>sm_text\<close> is \<open>Error()\<close>, and \<open>sm_split\<close> the split of a command line.
\<close>

record 'w scm =
  sm_host :: "'w host"
  sm_connect :: "'w machine \<Rightarrow> go_error option"
  sm_open :: "string \<Rightarrow> 'w machine \<Rightarrow> bool"
  sm_query :: "string \<Rightarrow> 'w machine \<Rightarrow> svc_state result"
  sm_text :: "go_error \<Rightarrow> string"
  sm_split :: "string \<Rightarrow> string list result"

definition service_exists :: "'w scm \<Rightarrow> string \<Rightarrow> 'w machine \<Rightarrow> bool" where
  "service_exists sm name m \<longleftrightarrow> sm_connect sm m = None \<and> sm_open sm name m"

definition find_service :: "'w scm \<Rightarrow> string \<Rightarrow> 'w machine \<Rightarrow> svc_state result" where
  "find_service sm name m =
     (case sm_connect sm m of
        Some e \<Rightarrow> Inl (WithMessage e ''failed to connect to service manager'')
      | None \<Rightarrow>
          if \<not> sm_open sm name m then Inr NoState
          else with_message ''failed to query service status'' (sm_query sm name m))"

section \<open>Waiting\<close>

definition is_pending :: "svc_state \<Rightarrow> bool" where
  "is_pending st \<longleftrightarrow> st \<in> set [StartPending, StopPending, ContinuePending, PausePending]"

definition not_pending_error :: "svc_state \<Rightarrow> go_error" where
  "not_pending_error st =
     WithMessage (Err ''failed to wait service status, service state is not pending'')
       (''current service state: '' @ itoa_nat (svc_code st))"

text \<open>\<open>waitStatus\<close>: a tick before each check.\<close>

fun wait_checks :: "'w scm \<Rightarrow> string \<Rightarrow> svc_state \<Rightarrow> nat \<Rightarrow> ('w, unit) sys" where
  "wait_checks sm name want 0 m = (Inl (Err ''failed to wait service status''), m)"
| "wait_checks sm name want (Suc n) m =
     (if ho_canceled (sm_host sm) m then (Inl Canceled, m)
      else let t = ho_tick (sm_host sm) m in
        case find_service sm name t of
          Inl _ \<Rightarrow> (Inl (ServiceNotFound name), t)
        | Inr st \<Rightarrow>
            if st = NoState then (Inl (ServiceNotFound name), t)
            else if st = want then (Inr (), t)
            else if \<not> is_pending st then (Inl (not_pending_error st), t)
            else wait_checks sm name want n t)"

definition status_checks :: nat where "status_checks = 15"

definition wait_status :: "'w scm \<Rightarrow> string \<Rightarrow> svc_state \<Rightarrow> ('w, unit) sys" where
  "wait_status sm name want = wait_checks sm name want status_checks"

section \<open>Start and stop\<close>

definition settle :: "'w scm \<Rightarrow> string \<Rightarrow> svc_state \<Rightarrow> ('w, unit) sys" where
  "settle sm name want m =
     (case find_service sm name m of
        Inl e \<Rightarrow> (Inl e, m)
      | Inr st \<Rightarrow> if st \<noteq> StartPending then wait_status sm name want m else (Inr (), m))"

definition win_start :: "'w scm \<Rightarrow> string \<Rightarrow> ('w, unit) sys" where
  "win_start sm name m =
     (case find_service sm name m of
        Inl _ \<Rightarrow> (Inl (ServiceNotFound name), m)
      | Inr NoState \<Rightarrow> (Inl (ServiceNotFound name), m)
      | Inr StartPending \<Rightarrow> wait_status sm name Running m
      | Inr st \<Rightarrow>
          bindE (if st = Running then retE () else ho_exec (sm_host sm) [''sc'', ''start'', name])
            (\<lambda>_. settle sm name Running) m)"

definition win_stop :: "'w scm \<Rightarrow> string \<Rightarrow> ('w, unit) sys" where
  "win_stop sm name m =
     (case find_service sm name m of
        Inl _ \<Rightarrow> (Inl (ServiceNotFound name), m)
      | Inr NoState \<Rightarrow> (Inl (ServiceNotFound name), m)
      | Inr StopPending \<Rightarrow> wait_status sm name Stopped m
      | Inr st \<Rightarrow>
          bindE (if st = Running \<or> st = StartPending then ho_exec (sm_host sm) [''sc'', ''stop'', name] else retE ())
            (\<lambda>_. settle sm name Stopped) m)"

text \<open>The other names of a service, and the commands for services that are none: there are no such.\<close>

definition windows_aliases :: "string \<Rightarrow> string list option" where
  "windows_aliases name = (if name = ''mysql'' then Some [''mariadb'', ''mysql57'', ''mysql80''] else None)"

definition windows_commands :: "string \<Rightarrow> (string \<times> string) option" where
  "windows_commands = Map.empty"

text \<open>The aliases one after the other: \<open>err\<close> is the error so far, the last one is returned.\<close>

fun first_alias :: "(string \<Rightarrow> ('w, unit) sys) \<Rightarrow> go_error \<Rightarrow> string list \<Rightarrow> ('w, unit) sys" where
  "first_alias act err [] m = (Inl err, m)"
| "first_alias act err (a # as) m =
     (case act a m of
        (Inr _, t) \<Rightarrow> (Inr (), t)
      | (Inl e, t) \<Rightarrow> first_alias act e as t)"

text \<open>No command is blank, so that there is a first word.\<close>

definition run_split :: "'w scm \<Rightarrow> string list \<Rightarrow> ('w, unit) sys" where
  "run_split sm argv = (if argv = [] then failE (Panic ''index out of range'') else ho_exec (sm_host sm) argv)"

definition start_by_command :: "'w scm \<Rightarrow> string \<Rightarrow> ('w, unit) sys" where
  "start_by_command sm line = (case sm_split sm line of Inl e \<Rightarrow> failE e | Inr argv \<Rightarrow> run_split sm argv)"

definition commands_of :: "string list \<Rightarrow> (string \<times> string) list" where
  "commands_of names = List.map_filter windows_commands names"

text \<open>
  \<open>Start\<close>: the name, then its aliases, then its command, then the commands of its aliases. \<open>Stop\<close> is
  alike, but for the commands of aliases, where a line that could be split leaves no error and the
  next one is tried.
\<close>

definition windows_start :: "'w scm \<Rightarrow> string \<Rightarrow> ('w, unit) sys" where
  "windows_start sm name =
     catchE (win_start sm name) (\<lambda>err.
       let aliases = windows_aliases name; command = windows_commands name in
       if contains_str (sm_text sm err) ''already running'' then retE ()
       else if aliases = None \<and> command = None then failE err
       else catchE (first_alias (win_start sm) err (case aliases of None \<Rightarrow> [] | Some as \<Rightarrow> as)) (\<lambda>err.
         catchE (case command of None \<Rightarrow> failE err | Some (start, stop) \<Rightarrow> start_by_command sm start) (\<lambda>err.
           first_alias (start_by_command sm) err (map fst (commands_of (case aliases of None \<Rightarrow> [] | Some as \<Rightarrow> as))))))"

fun stop_alias_commands :: "'w scm \<Rightarrow> unit result \<Rightarrow> string list \<Rightarrow> ('w, unit) sys" where
  "stop_alias_commands sm r [] m = (r, m)"
| "stop_alias_commands sm r (line # ls) m =
     (case sm_split sm line of
        Inl _ \<Rightarrow> (case run_split sm [] m of (Inr _, t) \<Rightarrow> (Inr (), t) | (Inl e, t) \<Rightarrow> (Inl e, t))
      | Inr _ \<Rightarrow> stop_alias_commands sm (Inr ()) ls m)"

definition windows_stop :: "'w scm \<Rightarrow> string \<Rightarrow> ('w, unit) sys" where
  "windows_stop sm name =
     catchE (win_stop sm name) (\<lambda>err.
       let aliases = windows_aliases name; command = windows_commands name in
       if contains_str (sm_text sm err) ''already running'' then retE ()
       else if aliases = None \<and> command = None then failE err
       else catchE (first_alias (win_stop sm) err (case aliases of None \<Rightarrow> [] | Some as \<Rightarrow> as)) (\<lambda>err.
         catchE (case command of None \<Rightarrow> failE err | Some (start, stop) \<Rightarrow> start_by_command sm stop) (\<lambda>err.
           stop_alias_commands sm (Inl err) (map snd (commands_of (case aliases of None \<Rightarrow> [] | Some as \<Rightarrow> as))))))"

definition windows_restart :: "string \<Rightarrow> ('w, unit) sys" where
  "windows_restart name = failE (Err ''use stop and start instead of restart'')"

definition windows_status :: "'w scm \<Rightarrow> string \<Rightarrow> ('w, unit) sys" where
  "windows_status sm name m =
     (case find_service sm name m of
        Inl _ \<Rightarrow> (Inl (ServiceNotFound name), m)
      | Inr st \<Rightarrow>
          if st = NoState then (Inl (ServiceNotFound name), m)
          else if st \<noteq> Running \<and> st \<noteq> StartPending then (Inl InactiveService, m)
          else (Inr (), m))"

section \<open>Lemmas\<close>

lemma wait_checks_found:
  "wait_checks sm name want n m = (Inr (), t) \<Longrightarrow> find_service sm name t = Inr want"
  by (induction sm name want n m rule: wait_checks.induct)
    (auto simp: Let_def split: if_splits sum.splits)

lemma wait_checks_ticks:
  "wait_checks sm name want n m = (r, t) \<Longrightarrow> \<exists>k \<le> n. t = (ho_tick (sm_host sm) ^^ k) m"
proof (induction n arbitrary: m)
  case 0
  then show ?case by (auto intro: exI [of _ 0])
next
  case (Suc n)
  let ?tick = "ho_tick (sm_host sm)"
  show ?case
  proof (cases "wait_checks sm name want n (?tick m) = (r, t)")
    case True
    from Suc.IH [OF this] obtain k where "k \<le> n" "t = (?tick ^^ k) (?tick m)" by blast
    then show ?thesis by (intro exI [of _ "Suc k"]) (simp add: funpow_swap1)
  next
    case False
    with Suc.prems have "t = m \<or> t = ?tick m" by (auto simp: Let_def split: if_splits sum.splits)
    then show ?thesis by (auto intro: exI [of _ 0] exI [of _ "Suc 0"])
  qed
qed

lemma settle_found:
  "settle sm name want m = (Inr (), t) \<Longrightarrow> find_service sm name t \<in> {Inr want, Inr StartPending}"
  by (auto simp: settle_def wait_status_def dest: wait_checks_found split: sum.splits if_splits)

lemma win_start_found: "win_start sm name m = (Inr (), t) \<Longrightarrow> find_service sm name t \<in> {Inr Running, Inr StartPending}"
  unfolding win_start_def wait_status_def
  by (auto simp: bindE_Inr_iff dest: wait_checks_found settle_found split: sum.splits svc_state.splits if_splits)

lemma win_stop_found: "win_stop sm name m = (Inr (), t) \<Longrightarrow> find_service sm name t \<in> {Inr Stopped, Inr StartPending}"
  unfolding win_stop_def wait_status_def
  by (auto simp: bindE_Inr_iff dest: wait_checks_found settle_found split: sum.splits svc_state.splits if_splits)

lemma first_alias_found:
  "first_alias act err names m = (Inr (), t) \<Longrightarrow> \<exists>a \<in> set names. \<exists>s. act a s = (Inr (), t)"
  by (induction act err names m rule: first_alias.induct) (auto split: prod.splits sum.splits)

text \<open>What is common to start and stop: \<open>act\<close> is tried with every name.\<close>

definition tried_names :: "string \<Rightarrow> string list" where
  "tried_names name = name # (case windows_aliases name of None \<Rightarrow> [] | Some as \<Rightarrow> as)"

lemma no_commands [simp]: "windows_commands name = None" "commands_of names = []"
  by (simp_all add: windows_commands_def commands_of_def List.map_filter_def)

lemma act_on_names:
  assumes "catchE (act name) (\<lambda>err.
       if already err then retE ()
       else if windows_aliases name = None then failE err
       else first_alias act err (case windows_aliases name of None \<Rightarrow> [] | Some as \<Rightarrow> as)) m = (Inr (), t)"
  shows "(\<exists>a \<in> set (tried_names name). \<exists>s. act a s = (Inr (), t)) \<or> (\<exists>e s. act name m = (Inl e, s) \<and> already e)"
proof (cases "act name m")
  case (Pair r s)
  show ?thesis
  proof (cases r)
    case (Inr u)
    with assms Pair show ?thesis by (auto simp: catchE_def tried_names_def)
  next
    case (Inl e)
    with assms Pair show ?thesis
      by (auto simp: catchE_def tried_names_def failE_def retE_def split: if_splits dest!: first_alias_found)
  qed
qed

lemma catch_fail [simp]: "catchE m failE = m"
  by (rule ext) (auto simp: catchE_def failE_def split: prod.split sum.split)

lemma failE_fold: "(\<lambda>m. (Inl e, m)) = failE e"
  by (rule ext) (simp add: failE_def)

lemma stop_no_commands [simp]: "stop_alias_commands sm r [] = (\<lambda>m. (r, m))" "first_alias act err [] = failE err"
  by (auto simp: fun_eq_iff failE_def)

lemma start_names:
  "windows_start sm name = catchE (win_start sm name) (\<lambda>err.
       if contains_str (sm_text sm err) ''already running'' then retE ()
       else if windows_aliases name = None then failE err
       else first_alias (win_start sm) err (case windows_aliases name of None \<Rightarrow> [] | Some as \<Rightarrow> as))"
  by (simp add: windows_start_def Let_def cong: if_cong)

lemma stop_names:
  "windows_stop sm name = catchE (win_stop sm name) (\<lambda>err.
       if contains_str (sm_text sm err) ''already running'' then retE ()
       else if windows_aliases name = None then failE err
       else first_alias (win_stop sm) err (case windows_aliases name of None \<Rightarrow> [] | Some as \<Rightarrow> as))"
  by (simp add: windows_stop_def Let_def failE_fold cong: if_cong)

text \<open>A service that is still starting counts as started, without a wait.\<close>

lemma starting_counts_as_started:
  assumes "find_service sm name m = Inr Stopped" "ho_exec (sm_host sm) [''sc'', ''start'', name] m = (Inr (), t)"
    "find_service sm name t = Inr StartPending"
  shows "windows_start sm name m = (Inr (), t)"
  using assms by (simp add: start_names catchE_def win_start_def bindE_def settle_def)

lemma stop_reports_stopped_or_starting:
  assumes "windows_stop sm name m = (Inr (), t)"
  shows "(\<exists>a \<in> set (tried_names name). find_service sm a t \<in> {Inr Stopped, Inr StartPending}) \<or>
     (\<exists>e s. win_stop sm name m = (Inl e, s) \<and> contains_str (sm_text sm e) ''already running'')"
  using act_on_names [OF assms [unfolded stop_names]] by (blast dest: win_stop_found)

section \<open>Properties\<close>

text \<open>
  C36: a start on Windows that reports success left the service, or one with another name of it, running
  or still starting, unless its failure said that it runs already.
\<close>

theorem start_reports_running_or_starting:
  assumes "windows_start sm name m = (Inr (), t)"
  shows "(\<exists>a \<in> set (tried_names name). find_service sm a t \<in> {Inr Running, Inr StartPending}) \<or>
     (\<exists>e s. win_start sm name m = (Inl e, s) \<and> contains_str (sm_text sm e) ''already running'')"
  using act_on_names [OF assms [unfolded start_names]] by (blast dest: win_start_found)

text \<open>Of the names of \<open>mysql\<close> only \<open>mariadb\<close> is installed; it runs at the second look.\<close>

definition some_scm :: "nat scm" where
  "some_scm =
     \<lparr>sm_host = stubborn_host\<lparr>ho_tick := (\<lambda>m. m\<lparr>world := world m + 1\<rparr>)\<rparr>, sm_connect = (\<lambda>_. None),
      sm_open = (\<lambda>n _. n = ''mariadb''), sm_query = (\<lambda>_ m. Inr (if world m = 0 then Stopped else if world m = 1 then StopPending else Running)),
      sm_text = (\<lambda>_. ''failed''), sm_split = (\<lambda>s. Inr [s])\<rparr>"

theorem start_reports_running_or_starting_witness:
  "find_service some_scm ''mariadb'' (snd (windows_start some_scm ''mysql'' quiet_machine)) \<in> {Inr Running, Inr StartPending}"
proof -
  let ?t = "snd (windows_start some_scm ''mysql'' quiet_machine)"
  have start: "windows_start some_scm ''mysql'' quiet_machine = (Inr (), ?t)"
    by (rule prod_eqI) (simp, code_simp, simp)
  have words: "\<not> contains_str (sm_text some_scm e) ''already running''" for e
    by (simp add: some_scm_def)
  have others: "find_service some_scm n t = Inr NoState" if "n \<in> {''mysql'', ''mysql57'', ''mysql80''}" for n t
    using that by (auto simp: find_service_def some_scm_def)
  from start_reports_running_or_starting [OF start] words
  obtain a where "a \<in> set (tried_names ''mysql'')" "find_service some_scm a ?t \<in> {Inr Running, Inr StartPending}" by blast
  moreover from this others [of _ ?t] have "a = ''mariadb''"
    unfolding tried_names_def windows_aliases_def by (cases "a = ''mariadb''") auto
  ultimately show ?thesis by simp
qed

end
