(* ===== verification/WindowsPackages.thy ===== *)
theory WindowsPackages
  imports PackageConfig
begin

text \<open>
  The packages for Windows (\<open>pkg/package_manager/windows\<close>): their configuration, which files are
  read, and how the values of the system and the variables of the environment get into them.
  The embedded files, their YAML decoder and \<open>time.ParseDuration\<close> are parameters.
\<close>

section \<open>Packages\<close>

text \<open>A duration is a number of nanoseconds.\<close>

definition one_hour :: int where "one_hour = 3600 * 10 ^ 9"

text \<open>\<open>DurationWithDefault\<close>: what is not a string, is empty or is no duration is an hour.\<close>

definition duration_with_default :: "(string \<Rightarrow> int result) \<Rightarrow> string result \<Rightarrow> int" where
  "duration_with_default parse r =
     (case r of
        Inl _ \<Rightarrow> one_hour
      | Inr s \<Rightarrow> if s = [] then one_hour else (case parse s of Inl _ \<Rightarrow> one_hour | Inr d \<Rightarrow> d))"

record environment_var =
  ev_name :: string
  ev_value :: string

definition environment_entry :: "environment_var \<Rightarrow> string" where
  "environment_entry e = ev_name e @ ''='' @ ev_value e"

record permission =
  gp_path :: string
  gp_user :: string
  gp_access :: string

record condition =
  cond_file_exists :: string
  cond_file_not_exists :: string
  cond_service_exists :: string
  cond_service_not_exists :: string

record win_pre_install =
  wp_conditions :: "condition list"
  wp_permissions :: "permission list"
  wp_commands :: "string list"

record win_install_step =
  ws_conditions :: "condition list"
  ws_permissions :: "permission list"
  ws_commands :: "string list"
  ws_env :: "environment_var list"
  ws_exit_codes :: "int list"
  ws_wait_service :: string
  ws_wait_files :: "string list"

record win_uninstall_step =
  wu_conditions :: "condition list"
  wu_commands :: "string list"
  wu_exit_codes :: "int list"

record service_on_failure =
  of_action :: string
  of_delay :: int

record service_account =
  sa_username :: string
  sa_password :: string

record win_service =
  wv_id :: string
  wv_name :: string
  wv_executable :: string
  wv_arguments :: string
  wv_working_directory :: string
  wv_log_directory :: string
  wv_stop_executable :: string
  wv_stop_arguments :: string
  wv_on_failure :: "service_on_failure list"
  wv_reset_failure :: int
  wv_account :: "service_account option"
  wv_env :: "environment_var list"

record win_package =
  wk_name :: string
  wk_lookup_paths :: "string list"
  wk_download_urls :: "string list"
  wk_install_path :: string
  wk_pre_install :: "win_pre_install list"
  wk_install :: "win_install_step list"
  wk_path_env :: "string list"
  wk_uninstall :: "win_uninstall_step list"
  wk_dependencies :: "string list"
  wk_service :: "win_service option"

type_synonym win_packages = "string \<rightharpoonup> win_package"

section \<open>Variables of the environment\<close>

text \<open>\<open>os.ExpandEnv\<close>: the name after a dollar sign and the number of characters it takes.\<close>

definition shell_special :: "char \<Rightarrow> bool" where
  "shell_special c \<longleftrightarrow> c \<in> set ''*#$@!?-0123456789''"

definition shell_alnum :: "char \<Rightarrow> bool" where
  "shell_alnum c \<longleftrightarrow> c \<in> set ''_0123456789abcdefghijklmnopqrstuvwxyzABCDEFGHIJKLMNOPQRSTUVWXYZ''"

definition shell_name :: "string \<Rightarrow> string \<times> nat" where
  "shell_name s =
     (case s of
        [] \<Rightarrow> ([], 0)
      | c # cs \<Rightarrow>
          if c = CHR ''{'' then
            (let name = takeWhile (\<lambda>x. x \<noteq> CHR ''}'') cs in
             if 1 < length cs \<and> shell_special (cs ! 0) \<and> cs ! 1 = CHR ''}'' then ([cs ! 0], 3)
             else if name = cs then ([], 1)
             else if name = [] then ([], 2)
             else (name, length name + 2))
          else if shell_special c then ([c], 1)
          else (let name = takeWhile shell_alnum s in (name, length name)))"

function expand_env :: "(string \<Rightarrow> string) \<Rightarrow> string \<Rightarrow> string" where
  "expand_env env [] = []"
| "expand_env env (c # cs) =
     (if c = CHR ''$'' \<and> cs \<noteq> [] then
        (case shell_name cs of (name, w) \<Rightarrow>
           (if name = [] then (if 0 < w then [] else ''$'') else env name) @ expand_env env (drop w cs))
      else c # expand_env env cs)"
  by pat_completeness auto
termination
  by (relation "measure (\<lambda>(env, s). length s)") auto

section \<open>Values of the system\<close>

definition replace_values :: "os_info \<Rightarrow> string \<Rightarrow> string \<Rightarrow> string" where
  "replace_values info install_path s =
     (let r = replace_all ''{{architecture}}'' (oi_platform info) s;
          r = replace_all ''{{distname}}'' (oi_distribution info) r;
          r = replace_all ''{{distversion}}'' (oi_version info) r;
          r = replace_all ''{{codename}}'' (oi_codename info) r
      in replace_all ''{{package_install_path}}'' install_path r)"

definition replace_values_slice :: "os_info \<Rightarrow> string \<Rightarrow> string list \<Rightarrow> string list" where
  "replace_values_slice info install_path = map (replace_values info install_path)"

definition expand_env_slice :: "(string \<Rightarrow> string) \<Rightarrow> string list \<Rightarrow> string list" where
  "expand_env_slice env = map (expand_env env)"

text \<open>\<open>normalizeCommand\<close> is a copy of the function for Linux.\<close>

definition normalize_windows_command :: "string \<Rightarrow> string" where
  "normalize_windows_command s = normalize_command s"

definition normalize_commands :: "string list \<Rightarrow> string list" where
  "normalize_commands = map normalize_windows_command"

definition replace_and_expand :: "(string \<Rightarrow> string) \<Rightarrow> os_info \<Rightarrow> string \<Rightarrow> string \<Rightarrow> string" where
  "replace_and_expand env info install_path s = expand_env env (replace_values info install_path s)"

definition replace_values_in_condition ::
  "(string \<Rightarrow> string) \<Rightarrow> os_info \<Rightarrow> string \<Rightarrow> condition \<Rightarrow> condition" where
  "replace_values_in_condition env info install_path c =
     (let r = replace_and_expand env info install_path in
      \<lparr>cond_file_exists = r (cond_file_exists c), cond_file_not_exists = r (cond_file_not_exists c),
       cond_service_exists = r (cond_service_exists c), cond_service_not_exists = r (cond_service_not_exists c)\<rparr>)"

definition prepared_commands :: "(string \<Rightarrow> string) \<Rightarrow> os_info \<Rightarrow> string \<Rightarrow> string list \<Rightarrow> string list" where
  "prepared_commands env info install_path cmds =
     normalize_commands (expand_env_slice env (replace_values_slice info install_path cmds))"

text \<open>The lists come before the path of the installation: they see it as it is written in the file.\<close>

definition replace_values_in_package :: "(string \<Rightarrow> string) \<Rightarrow> os_info \<Rightarrow> win_package \<Rightarrow> win_package" where
  "replace_values_in_package env info p =
     (let raw = wk_install_path p;
          path = replace_and_expand env info raw raw;
          cond = replace_values_in_condition env info path;
          cmds = prepared_commands env info path;
          perm = (\<lambda>g. g\<lparr>gp_path := replace_and_expand env info path (gp_path g)\<rparr>)
      in p\<lparr>wk_lookup_paths := expand_env_slice env (replace_values_slice info raw (wk_lookup_paths p)),
           wk_download_urls := replace_values_slice info raw (wk_download_urls p),
           wk_path_env := expand_env_slice env (replace_values_slice info raw (wk_path_env p)),
           wk_install_path := path,
           wk_pre_install := map (\<lambda>s. s\<lparr>wp_conditions := map cond (wp_conditions s), wp_commands := cmds (wp_commands s),
             wp_permissions := map perm (wp_permissions s)\<rparr>) (wk_pre_install p),
           wk_install := map (\<lambda>s. s\<lparr>ws_conditions := map cond (ws_conditions s), ws_commands := cmds (ws_commands s),
             ws_wait_files := expand_env_slice env (replace_values_slice info path (ws_wait_files s)),
             ws_env := map (\<lambda>e. e\<lparr>ev_value := replace_and_expand env info path (ev_value e)\<rparr>) (ws_env s),
             ws_permissions := map perm (ws_permissions s)\<rparr>) (wk_install p),
           wk_uninstall := map (\<lambda>s. s\<lparr>wu_conditions := map cond (wu_conditions s),
             wu_commands := cmds (wu_commands s)\<rparr>) (wk_uninstall p)\<rparr>)"

section \<open>Loading\<close>

definition windows_files :: "os_info \<Rightarrow> string list" where
  "windows_files info =
     (let distribution = oi_distribution info; low = to_lower distribution; version = oi_version info;
          codename = oi_codename info; arch = oi_platform info
      in [''default.yaml''] @
         (if arch \<noteq> [] then [''default_'' @ arch @ ''.yaml''] else []) @
         (if distribution \<noteq> [] then [low @ ''.yaml''] else []) @
         (if distribution \<noteq> [] \<and> version \<noteq> [] then [low @ ''_'' @ version @ ''.yaml''] else []) @
         (if distribution \<noteq> [] \<and> version \<noteq> [] \<and> arch \<noteq> [] then [low @ ''_'' @ version @ ''_'' @ arch @ ''.yaml''] else []) @
         (if distribution \<noteq> [] \<and> codename \<noteq> [] \<and> arch \<noteq> [] then [low @ ''_'' @ codename @ ''_'' @ arch @ ''.yaml''] else []))"

definition add_packages :: "(string \<Rightarrow> string) \<Rightarrow> os_info \<Rightarrow> win_package list \<Rightarrow> win_packages \<Rightarrow> win_packages" where
  "add_packages env info cs ps = fold (\<lambda>p ps. ps(wk_name p \<mapsto> replace_values_in_package env info p)) cs ps"

fun load_windows_files ::
  "(string \<Rightarrow> string option) \<Rightarrow> (string \<Rightarrow> win_package list result) \<Rightarrow> (string \<Rightarrow> string) \<Rightarrow> os_info \<Rightarrow>
   string list \<Rightarrow> win_packages \<Rightarrow> win_packages result" where
  "load_windows_files embedded decode env info [] ps = Inr ps"
| "load_windows_files embedded decode env info (f # fs) ps =
     (case embedded f of
        None \<Rightarrow> load_windows_files embedded decode env info fs ps
      | Some data \<Rightarrow>
          (case decode data of
             Inl e \<Rightarrow> Inl (WithMessage e (''failed to unmarshal '' @ f))
           | Inr cs \<Rightarrow> load_windows_files embedded decode env info fs (add_packages env info cs ps)))"

definition windows_cache_key :: "os_info \<Rightarrow> string" where
  "windows_cache_key info =
     oi_distribution info @ ''_'' @ oi_version info @ ''_'' @ oi_codename info @ ''_'' @ oi_platform info"

definition load_windows_packages ::
  "(string \<Rightarrow> string option) \<Rightarrow> (string \<Rightarrow> win_package list result) \<Rightarrow> (string \<Rightarrow> string) \<Rightarrow> os_info \<Rightarrow>
   (string \<rightharpoonup> win_packages) \<Rightarrow> win_packages result \<times> (string \<rightharpoonup> win_packages)" where
  "load_windows_packages embedded decode env info cache =
     (let key = windows_cache_key info in
      case cache key of
        Some ps \<Rightarrow> (Inr ps, cache)
      | None \<Rightarrow>
          (case load_windows_files embedded decode env info (windows_files info) Map.empty of
             Inl e \<Rightarrow> (Inl e, cache)
           | Inr ps \<Rightarrow> (Inr ps, cache(key \<mapsto> ps))))"

section \<open>Lemmas\<close>

lemma expand_env_plain: "CHR ''$'' \<notin> set s \<Longrightarrow> expand_env env s = s"
  by (induction s) auto

text \<open>A command has no line ends, and no blanks at its ends or next to each other.\<close>

definition single_line :: "string \<Rightarrow> bool" where
  "single_line s \<longleftrightarrow> set s \<inter> {CHR 0x0A, CHR 0x0D, CHR 0x09} = {} \<and> trimmed s \<and> \<not> contains_str s ''  ''"

lemma squeeze_chars: "set (squeeze prev s) \<subseteq> insert (CHR '' '') (set s - {CHR 0x09})"
  by (induction prev s rule: squeeze.induct) auto

lemma squeeze_single: "\<not> contains_str (squeeze prev s) ''  '' \<and> (prev \<longrightarrow> \<not> has_prefix (squeeze prev s) '' '')"
  by (induction prev s rule: squeeze.induct) (auto simp: has_prefix_iff)

lemma trim_space_infix: "\<exists>a b. s = a @ trim_space s @ b"
proof -
  have "s = takeWhile go_space s @ trim_left go_space s" by (simp add: trim_left_def)
  moreover obtain b where "trim_left go_space s = trim_space s @ b"
    unfolding trim_space_def using trim_right_prefix by blast
  ultimately show ?thesis by metis
qed

lemma contains_infix: "contains_str s sub \<Longrightarrow> contains_str (a @ s @ b) sub"
  unfolding contains_str_iff by (metis append.assoc)

lemma normalized_single_line: "single_line (normalize_command s)"
proof -
  define r where "r = replace_all [CHR 0x0D] '' '' (replace_all [CHR 0x0A] '' '' (replace_all [CHR 0x0D, CHR 0x0A] '' '' s))"
  have n: "normalize_command s = trim_space (squeeze False r)" by (simp add: normalize_command_def r_def)
  have "CHR 0x0D \<notin> set r" unfolding r_def by (rule replace_all_char_gone) simp
  moreover have "CHR 0x0A \<notin> set (replace_all [CHR 0x0A] '' '' (replace_all [CHR 0x0D, CHR 0x0A] '' '' s))"
    by (rule replace_all_char_gone) simp
  then have "CHR 0x0A \<notin> set r" unfolding r_def using set_replace_all by fastforce
  ultimately have "set (squeeze False r) \<inter> {CHR 0x0A, CHR 0x0D, CHR 0x09} = {}"
    using squeeze_chars [of False r] by auto
  then have "set (normalize_command s) \<inter> {CHR 0x0A, CHR 0x0D, CHR 0x09} = {}"
    unfolding n using set_trim_space [of "squeeze False r"] by blast
  moreover have "\<not> contains_str (normalize_command s) ''  ''"
    unfolding n using squeeze_single [of False r] trim_space_infix [of "squeeze False r"] contains_infix by metis
  ultimately show ?thesis by (simp add: single_line_def n)
qed

text \<open>All commands of a package.\<close>

definition all_commands :: "win_package \<Rightarrow> string list" where
  "all_commands p =
     concat (map wp_commands (wk_pre_install p)) @ concat (map ws_commands (wk_install p)) @
     concat (map wu_commands (wk_uninstall p))"

lemma prepared_single_line: "c \<in> set (prepared_commands env info path cmds) \<Longrightarrow> single_line c"
  by (auto simp: prepared_commands_def normalize_commands_def normalize_windows_command_def normalized_single_line)

lemma prepared_package_single_line: "c \<in> set (all_commands (replace_values_in_package env info p)) \<Longrightarrow> single_line c"
  by (auto simp: all_commands_def replace_values_in_package_def Let_def dest!: prepared_single_line)

text \<open>What holds of every package that was prepared, with its name, holds of every one that is loaded.\<close>

lemma add_packages_all:
  assumes "\<forall>n p. ps n = Some p \<longrightarrow> P n p" "\<And>c. P (wk_name c) (replace_values_in_package env info c)"
  shows "add_packages env info cs ps n = Some p \<Longrightarrow> P n p"
  using assms(1) by (induction cs arbitrary: ps) (auto simp: add_packages_def assms(2) split: if_splits)

lemma load_windows_files_all:
  assumes "load_windows_files embedded decode env info fs ps = Inr qs"
    "\<And>c. P (wk_name c) (replace_values_in_package env info c)" "\<forall>n p. ps n = Some p \<longrightarrow> P n p" "qs n = Some p"
  shows "P n p"
  using assms
proof (induction embedded decode env info fs ps rule: load_windows_files.induct)
  case (2 embedded decode env info f fs ps)
  show ?case
  proof (cases "embedded f")
    case None
    with 2 show ?thesis by simp
  next
    case (Some data)
    with 2(3) obtain cs where cs: "decode data = Inr cs"
      "load_windows_files embedded decode env info fs (add_packages env info cs ps) = Inr qs"
      by (auto split: sum.splits)
    have "\<forall>n p. add_packages env info cs ps n = Some p \<longrightarrow> P n p"
      using add_packages_all [of ps P env info cs] 2(4,5) by blast
    from 2(2) [OF Some cs 2(4) this 2(6)] show ?thesis .
  qed
qed auto

lemma loaded_all:
  assumes "load_windows_packages embedded decode env info Map.empty = (Inr ps, cache)"
    "\<And>c. P (wk_name c) (replace_values_in_package env info c)" "ps n = Some p"
  shows "P n p"
proof -
  have "load_windows_files embedded decode env info (windows_files info) Map.empty = Inr ps"
    using assms(1) by (auto simp: load_windows_packages_def Let_def split: sum.splits)
  from load_windows_files_all [OF this, of P, OF assms(2) _ assms(3)] show ?thesis by simp
qed

lemma loaded_name:
  "load_windows_packages embedded decode env info Map.empty = (Inr ps, cache) \<Longrightarrow> ps n = Some p \<Longrightarrow> wk_name p = n"
  by (erule loaded_all [where P = "\<lambda>n p. wk_name p = n"]) (simp_all add: replace_values_in_package_def Let_def)

section \<open>Properties\<close>

text \<open>
  Every command of a package for Windows that is loaded is one line without tabs, without blanks at its
  ends and without two blanks in a row, however it was folded in the file.
\<close>

theorem loaded_commands_are_one_line:
  assumes "load_windows_packages embedded decode env info Map.empty = (Inr ps, cache)" "ps n = Some p"
    "c \<in> set (all_commands p)"
  shows "single_line c"
  using loaded_all [OF assms(1), of "\<lambda>_ p. \<forall>c \<in> set (all_commands p). single_line c", OF _ assms(2)] assms(3)
  by (blast dest: prepared_package_single_line)

definition folded_package :: win_package where
  "folded_package =
     \<lparr>wk_name = ''go'', wk_lookup_paths = [''go''], wk_download_urls = [], wk_install_path = ''${ProgramFiles}/Go'', wk_pre_install = [],
      wk_install = [\<lparr>ws_conditions = [], ws_permissions = [], ws_commands = [''msiexec   /i'' @ [CHR 0x0A] @ '' go.msi '' @ [CHR 0x0A]],
        ws_env = [], ws_exit_codes = [], ws_wait_service = [], ws_wait_files = []\<rparr>],
      wk_path_env = [], wk_uninstall = [], wk_dependencies = [], wk_service = None\<rparr>"

definition windows_info :: os_info where
  "windows_info =
     \<lparr>oi_kernel = ''Windows'', oi_core = ''10'', oi_distribution = ''windows'', oi_version = [], oi_codename = [], oi_platform = ''amd64'',
      oi_os = ''Windows'', oi_hostname = ''h'', oi_cpus = 2\<rparr>"

theorem loaded_commands_are_one_line_witness:
  "\<exists>ps cache p. load_windows_packages (\<lambda>f. if f = ''default.yaml'' then Some ''y'' else None) (\<lambda>_. Inr [folded_package])
       (\<lambda>_. ''C:'') windows_info Map.empty = (Inr ps, cache) \<and>
     ps ''go'' = Some p \<and> all_commands p = [''msiexec /i go.msi''] \<and> single_line ''msiexec /i go.msi''"
proof -
  let ?load = "load_windows_packages (\<lambda>f. if f = ''default.yaml'' then Some ''y'' else None) (\<lambda>_. Inr [folded_package])
       (\<lambda>_. ''C:'') windows_info Map.empty"
  have "case ?load of (Inr ps, cache) \<Rightarrow> map_option all_commands (ps ''go'') = Some [''msiexec /i go.msi''] | _ \<Rightarrow> False"
    by code_simp
  then obtain ps cache p where load: "?load = (Inr ps, cache)" "ps ''go'' = Some p" "all_commands p = [''msiexec /i go.msi'']"
    by (auto split: prod.splits sum.splits)
  with loaded_commands_are_one_line [OF load(1,2)] show ?thesis by auto
qed

end
