(* ===== verification/WindowsManager.thy ===== *)
theory WindowsManager
  imports PackageManagers WindowsService WindowsPackages
begin

text \<open>
  The package manager for Windows (\<open>pkg/package_manager/windows.go\<close>, \<open>env_path_windows.go\<close>, the grants of
  \<open>pkg/oscore/chown_windows.go\<close>): installing a package with its dependencies, its service by \<open>shawl\<close>, removing
  it, and the search path. The two other wrappers of services in the source have no caller. Paths of Windows,
  downloads, templates, commands and the YAML encoder are parameters.
\<close>

section \<open>The environment\<close>

text \<open>
  The packages are shared: the manager and the cache have the same map, and the steps of its packages are
  the same arrays. The search path is that of the process.
\<close>

record 'w win_world =
  ww_world :: 'w
  ww_packages :: win_packages
  ww_path :: string

record runtime_variables =
  rv_lookups :: "(string \<times> string) list"
  rv_options :: config_values
  rv_install_path :: string

record 'w win_env =
  wi_scm :: "'w win_world scm"
  wi_output :: "string list \<Rightarrow> ('w win_world, string) sys"
  wi_stdout :: "string list \<Rightarrow> ('w win_world, string) sys"
  wi_run_in :: "string \<Rightarrow> string list \<Rightarrow> string list \<Rightarrow> ('w win_world, unit) sys"
  wi_render :: "runtime_variables \<Rightarrow> string \<Rightarrow> ('w win_world, string) sys"
  wi_mkdtemp :: "string \<Rightarrow> ('w win_world, string) sys"
  wi_url_path :: "string \<Rightarrow> string result"
  wi_download :: "string \<Rightarrow> string \<Rightarrow> ('w win_world, unit) sys"
  wi_download_file :: "string \<Rightarrow> string \<Rightarrow> ('w win_world, unit) sys"
  wi_get_file :: "string \<Rightarrow> string \<Rightarrow> ('w win_world, unit) sys"
  wi_encode :: "win_service \<Rightarrow> string result"
  wi_join :: "string list \<Rightarrow> string"
  wi_dir :: "string \<Rightarrow> string"
  wi_walk :: "win_packages \<Rightarrow> win_package list"
  wi_list_dir :: "string \<Rightarrow> 'w win_world machine \<Rightarrow> (string \<times> bool) list result"
  wi_setenv :: "string \<Rightarrow> go_error option"
  wi_fs :: "'w win_world fs_lib"
  wi_regex :: "string \<Rightarrow> string \<Rightarrow> bool result"
  wi_order :: "(string \<times> string) list \<Rightarrow> (string \<times> string) list"

abbreviation wi_host :: "'w win_env \<Rightarrow> 'w win_world host" where "wi_host we \<equiv> sm_host (wi_scm we)"
abbreviation wi_os :: "'w win_env \<Rightarrow> 'w win_world os_env" where "wi_os we \<equiv> ho_os (wi_host we)"

definition backslash :: string where "backslash = [CHR 0x5C]"

definition windows_dirs :: "string list \<Rightarrow> string" where
  "windows_dirs ds = join_with backslash (''C:'' # ds)"

definition services_config_path :: string where
  "services_config_path = windows_dirs [''gameap'', ''services'']"

section \<open>The search path\<close>

definition set_path :: "'w win_env \<Rightarrow> string \<Rightarrow> ('w win_world, unit) sys" where
  "set_path we v m =
     (case wi_setenv we v of
        Some e \<Rightarrow> (Inl e, m)
      | None \<Rightarrow> (Inr (), m\<lparr>world := (world m)\<lparr>ww_path := v\<rparr>\<rparr>))"

definition path_entries :: "'w win_world machine \<Rightarrow> string list" where
  "path_entries m = split_char (CHR '';'') (ww_path (world m))"

definition append_path_env :: "'w win_env \<Rightarrow> string list \<Rightarrow> ('w win_world, unit) sys" where
  "append_path_env we paths m =
     (let current = path_entries m;
          new = fold (\<lambda>p new. if \<not> is_file_exists (wi_os we) p m \<or> p \<in> set current \<or> p \<in> set new then new else new @ [p]) paths []
      in if new = [] then (Inr (), m)
         else wrapE ''failed to set PATH env variable'' (set_path we (join_with '';'' (current @ new))) m)"

definition remove_path_env :: "'w win_env \<Rightarrow> string list \<Rightarrow> ('w win_world, unit) sys" where
  "remove_path_env we paths m =
     (let current = path_entries m; new = filter (\<lambda>p. \<not> list_ex (equal_fold p) paths) current
      in if length new = length current then (Inr (), m)
         else wrapE ''failed to set PATH env variable'' (set_path we (join_with '';'' new)) m)"

text \<open>
  \<open>UpdateEnvPath\<close>: the directories of the packages, the directories under the tools, and that of the
  daemon. The packages have been loaded by the manager before. The separator is added in any case.
\<close>

definition add_path_entry :: "'w win_env \<Rightarrow> 'w win_world machine \<Rightarrow> string \<Rightarrow> string list \<Rightarrow> string list" where
  "add_path_entry we m p new =
     (if p = [] \<or> \<not> is_file_exists (wi_os we) p m \<or> p \<in> set (path_entries m) \<or> p \<in> set new then new else new @ [p])"

definition windows_tools_path :: string where "windows_tools_path = windows_dirs [''gameap'', ''tools'']"
definition windows_daemon_path :: string where
  "windows_daemon_path = windows_dirs [''gameap'', ''daemon'', ''gameap-daemon.exe'']"

definition add_tools :: "'w win_env \<Rightarrow> 'w win_world machine \<Rightarrow> string list \<Rightarrow> string list" where
  "add_tools we m new =
     (if \<not> is_file_exists (wi_os we) windows_tools_path m then new
      else case wi_list_dir we windows_tools_path m of
        Inl _ \<Rightarrow> new
      | Inr entries \<Rightarrow>
          fold (\<lambda>(n, d) new. if d then add_path_entry we m (wi_join we [windows_tools_path, n]) new else new) entries
            (add_path_entry we m windows_tools_path new))"

definition update_windows_path :: "'w win_env \<Rightarrow> 'w win_world machine \<Rightarrow> 'w win_world machine" where
  "update_windows_path we m =
     (let packages = wi_walk we (ww_packages (world m));
          new = fold (\<lambda>p. add_path_entry we m (wk_install_path p)) packages [];
          new = fold (\<lambda>p new. fold (add_path_entry we m) (wk_path_env p) new) packages new;
          new = add_tools we m new;
          new = add_path_entry we m (wi_dir we windows_daemon_path) new
      in snd (set_path we (ww_path (world m) @ '';'' @ join_with '';'' new) m))"

section \<open>Conditions, permissions and commands\<close>

definition condition_holds :: "'w win_env \<Rightarrow> 'w win_world machine \<Rightarrow> condition \<Rightarrow> bool" where
  "condition_holds we m c \<longleftrightarrow>
     (cond_file_exists c \<noteq> [] \<longrightarrow> stat_file (wi_os we) (cond_file_exists c) m \<noteq> StatMissing) \<and>
     (cond_file_not_exists c \<noteq> [] \<longrightarrow> stat_file (wi_os we) (cond_file_not_exists c) m \<noteq> StatOk) \<and>
     (cond_service_exists c \<noteq> [] \<longrightarrow> service_exists (wi_scm we) (cond_service_exists c) m) \<and>
     (cond_service_not_exists c \<noteq> [] \<longrightarrow> \<not> service_exists (wi_scm we) (cond_service_not_exists c) m)"

definition conditions_hold :: "'w win_env \<Rightarrow> condition list \<Rightarrow> 'w win_world machine \<Rightarrow> bool" where
  "conditions_hold we cs m \<longleftrightarrow> list_all (condition_holds we m) cs"

definition access_flag :: "string \<Rightarrow> string" where
  "access_flag access =
     (let a = to_lower access in
      if a \<in> set [''r'', ''read''] then ''R''
      else if a \<in> set [''rx'', ''read-execute'', ''readexecute''] then ''RX''
      else if a \<in> set [''w'', ''write''] then ''W''
      else if a \<in> set [''m'', ''modify''] then ''M''
      else if a \<in> set [''f'', ''full-control'', ''fullcontrol''] then ''F''
      else ''R'')"

definition user_identifier :: "string \<Rightarrow> string" where
  "user_identifier user =
     (if user = ''NT AUTHORITY'' @ backslash @ ''NETWORK SERVICE'' then ''*S-1-5-20''
      else if user = ''NT AUTHORITY'' @ backslash @ ''LOCAL SERVICE'' then ''*S-1-5-19''
      else if user = ''NT AUTHORITY'' @ backslash @ ''SYSTEM'' then ''*S-1-5-18''
      else user)"

definition grant :: "'w win_env \<Rightarrow> string \<Rightarrow> string \<Rightarrow> string \<Rightarrow> ('w win_world, unit) sys" where
  "grant we path user flag =
     (let user = trim_space user in
      wrapE (''failed to grant '' @ flag @ '' permissions to user '' @ user @ '' on path '' @ path)
        (bindE (wi_output we [''icacls'', path, ''/grant'', user_identifier user @ '':(OI)(CI)'' @ flag, ''/T'']) (\<lambda>_. retE ())))"

definition grant_permissions :: "'w win_env \<Rightarrow> permission list \<Rightarrow> ('w win_world, unit) sys" where
  "grant_permissions we ps =
     eachE (\<lambda>p. wrapE (''failed to grant '' @ gp_access p @ '' to '' @ gp_user p @ '' for '' @ gp_path p)
       (grant we (gp_path p) (gp_user p) (access_flag (gp_access p)))) ps"

text \<open>
  A line without words is no error: \<open>errors.WithMessagef\<close> of no error is no error.
\<close>

definition win_execute :: "'w win_env \<Rightarrow> string \<Rightarrow> ('w win_world, unit) sys" where
  "win_execute we line =
     (let c = trim_space line in
      if c = [] then retE ()
      else case sm_split (wi_scm we) c of
        Inl e \<Rightarrow> failE (WithMessage e (''failed to parse command: '' @ c))
      | Inr [] \<Rightarrow> retE ()
      | Inr ws \<Rightarrow> ho_exec (wi_host we) (''cmd'' # ''/C'' # ws))"

definition in_quotes :: "string \<Rightarrow> string" where "in_quotes s = [CHR 0x27] @ s @ [CHR 0x27]"

definition pre_installation_steps :: "'w win_env \<Rightarrow> win_package \<Rightarrow> ('w win_world, unit) sys" where
  "pre_installation_steps we p =
     eachE (\<lambda>s m.
       if \<not> conditions_hold we (wp_conditions s) m then (Inr (), m)
       else bindE (wrapE (''failed to grant permissions for package '' @ in_quotes (wk_name p))
              (grant_permissions we (wp_permissions s))) (\<lambda>_.
              eachE (\<lambda>c. wrapE (''failed to execute pre install command for package '' @ in_quotes (wk_name p) @ '': '' @ c)
                (win_execute we c)) (wp_commands s)) m) (wk_pre_install p)"

text \<open>\<open>waitUntil\<close>: ten looks, five seconds after each.\<close>

fun wait_tries :: "'w win_env \<Rightarrow> ('w win_world machine \<Rightarrow> bool) \<Rightarrow> nat \<Rightarrow> ('w win_world, unit) sys" where
  "wait_tries we P 0 m = (Inl (Err ''timeout waiting for install command to finish''), m)"
| "wait_tries we P (Suc n) m =
     (if P m then (Inr (), m)
      else if ho_canceled (wi_host we) m then (Inl (Err ''timeout waiting for install command to finish''), m)
      else wait_tries we P n (ho_tick (wi_host we) m))"

definition wait_tries_max :: nat where "wait_tries_max = 10"

definition wait_until :: "'w win_env \<Rightarrow> ('w win_world machine \<Rightarrow> bool) \<Rightarrow> ('w win_world, unit) sys" where
  "wait_until we P = wait_tries we P wait_tries_max"

section \<open>Downloads\<close>

text \<open>\<open>filepath.Ext\<close> of the path of an address.\<close>

definition file_extension :: "string \<Rightarrow> string" where
  "file_extension s =
     (let base = rev (takeWhile (\<lambda>c. c \<noteq> CHR ''/'' \<and> c \<noteq> CHR 0x5C) (rev s));
          ext = rev (takeWhile (\<lambda>c. c \<noteq> CHR ''.'') (rev base))
      in if CHR ''.'' \<in> set base then ''.'' @ ext else [])"

definition download_package :: "'w win_env \<Rightarrow> string \<Rightarrow> string \<Rightarrow> string \<Rightarrow> ('w win_world, unit) sys" where
  "download_package we dir url path =
     (if file_extension path = ''.msi'' then wi_download_file we url (wi_join we [dir, path_base path])
      else wi_download we url dir)"

fun download_first :: "'w win_env \<Rightarrow> string \<Rightarrow> go_error option \<Rightarrow> string list \<Rightarrow> ('w win_world, unit) sys" where
  "download_first we dir err [] m =
     (case err of None \<Rightarrow> (Inr (), m) | Some e \<Rightarrow> (Inl (WithMessage e ''failed to download file''), m))"
| "download_first we dir err (url # urls) m =
     (case wi_url_path we url of
        Inl e \<Rightarrow> download_first we dir (Some e) urls m
      | Inr path \<Rightarrow>
          (case download_package we dir url path m of
             (Inl e, t) \<Rightarrow> download_first we dir (Some e) urls t
           | (Inr _, t) \<Rightarrow> (Inr (), t)))"

section \<open>Install steps\<close>

text \<open>\<open>False\<close>: the installation ends here, without an error.\<close>

fun eachB :: "('a \<Rightarrow> ('s, bool) io) \<Rightarrow> 'a list \<Rightarrow> ('s, bool) io" where
  "eachB f [] = retE True"
| "eachB f (x # xs) = bindE (f x) (\<lambda>go_on. if go_on then eachB f xs else retE False)"

definition run_install_command :: "'w win_env \<Rightarrow> string \<Rightarrow> win_install_step \<Rightarrow> string \<Rightarrow> ('w win_world, bool) sys" where
  "run_install_command we dir step cmd =
     (case sm_split (wi_scm we) cmd of
        Inl e \<Rightarrow> failE (WithMessage e (''failed to parse install command: '' @ cmd))
      | Inr [] \<Rightarrow> retE False
      | Inr ws \<Rightarrow>
          catchE (bindE (wi_run_in we dir (map environment_entry (ws_env step)) (''cmd'' # ''/C'' # ws)) (\<lambda>_. retE True)) (\<lambda>e.
            let code = (case exit_code e of Some c \<Rightarrow> c | None \<Rightarrow> - 1) in
            if ws_exit_codes step \<noteq> [] \<and> code \<in> set (ws_exit_codes step) then retE True
            else failE (WithMessage e ''failed to execute install command'')))"

definition run_install_step :: "'w win_env \<Rightarrow> win_package \<Rightarrow> string \<Rightarrow> win_install_step \<Rightarrow> ('w win_world, bool) sys" where
  "run_install_step we p dir step m =
     (if \<not> conditions_hold we (ws_conditions step) m then (Inr True, m)
      else bindE (wrapE (''failed to grant permissions for package '' @ in_quotes (wk_name p))
             (grant_permissions we (ws_permissions step))) (\<lambda>_.
           bindE (eachB (run_install_command we dir step) (ws_commands step)) (\<lambda>go_on.
             if \<not> go_on then retE False
             else bindE (if ws_wait_service step = [] then retE ()
                         else wrapE (''failed to wait for service '' @ in_quotes (ws_wait_service step))
                           (wait_until we (service_exists (wi_scm we) (ws_wait_service step)))) (\<lambda>_.
                  bindE (if ws_wait_files step = [] then retE ()
                         else wrapE (''failed to wait for files '' @ in_quotes (''['' @ join_with '' '' (ws_wait_files step) @ '']''))
                           (wait_until we (\<lambda>m. list_all (\<lambda>f. is_file_exists (wi_os we) f m) (ws_wait_files step)))) (\<lambda>_.
                  retE True)))) m)"

end
