(* ===== verification/WindowsInstall.thy ===== *)
theory WindowsInstall
  imports WindowsManager
begin

text \<open>
  Installing and removing a package on Windows (\<open>pkg/package_manager/windows.go\<close>): templates, which are
  rendered in place, the service of a package by \<open>shawl\<close>, dependencies, and removal.
\<close>

section \<open>Changes in place\<close>

text \<open>
  A change of a value that may stop with an error: what has been changed stays changed. The steps of a
  package are slices that its copies share, so that this is seen by all of them.
\<close>

type_synonym ('s, 'a) change = "'a \<Rightarrow> 's \<Rightarrow> ('a \<times> go_error option) \<times> 's"

definition unchanged :: "('s, 'a) change" where
  "unchanged x s = ((x, None), s)"

definition change_then :: "('s, 'a) change \<Rightarrow> ('s, 'a) change \<Rightarrow> ('s, 'a) change" where
  "change_then u v x s =
     (case u x s of
        ((y, Some e), t) \<Rightarrow> ((y, Some e), t)
      | ((y, None), t) \<Rightarrow> v y t)"

definition change_all :: "('s, 'a) change list \<Rightarrow> ('s, 'a) change" where
  "change_all us = foldr change_then us unchanged"

text \<open>The message is made of the changed value.\<close>

definition change_msg :: "('a \<Rightarrow> string) \<Rightarrow> ('s, 'a) change \<Rightarrow> ('s, 'a) change" where
  "change_msg msg u x s =
     (case u x s of
        ((y, Some e), t) \<Rightarrow> ((y, Some (WithMessage e (msg y))), t)
      | ((y, None), t) \<Rightarrow> ((y, None), t))"

definition change_field :: "('a \<Rightarrow> 'b) \<Rightarrow> ('b \<Rightarrow> 'a \<Rightarrow> 'a) \<Rightarrow> ('s, 'b) change \<Rightarrow> ('s, 'a) change" where
  "change_field get put u x s = (case u (get x) s of ((y, r), t) \<Rightarrow> ((put y x, r), t))"

fun change_each :: "(nat \<Rightarrow> ('s, 'a) change) \<Rightarrow> nat \<Rightarrow> ('s, 'a list) change" where
  "change_each u i [] s = (([], None), s)"
| "change_each u i (x # xs) s =
     (case u i x s of
        ((y, Some e), t) \<Rightarrow> ((y # xs, Some e), t)
      | ((y, None), t) \<Rightarrow> (case change_each u (Suc i) xs t of ((ys, r), t') \<Rightarrow> ((y # ys, r), t')))"

section \<open>Templates\<close>

text \<open>A template that fails leaves the empty string.\<close>

definition render :: "'w win_env \<Rightarrow> runtime_variables \<Rightarrow> ('w win_world machine, string) change" where
  "render we vars s m =
     (case wi_render we vars s m of
        (Inl e, t) \<Rightarrow> (([], Some e), t)
      | (Inr s', t) \<Rightarrow> ((s', None), t))"

definition render_condition :: "'w win_env \<Rightarrow> runtime_variables \<Rightarrow> nat \<Rightarrow> ('w win_world machine, condition) change" where
  "render_condition we vars i =
     change_then
       (change_msg (\<lambda>_. ''failed to replace runtimeTemplateVariables in condition '' @ itoa_nat i @ '' FileExists'')
         (change_field cond_file_exists (\<lambda>y c. c\<lparr>cond_file_exists := y\<rparr>) (render we vars)))
       (change_msg (\<lambda>_. ''failed to replace runtimeTemplateVariables in condition '' @ itoa_nat i @ '' FileNotExists'')
         (change_field cond_file_not_exists (\<lambda>y c. c\<lparr>cond_file_not_exists := y\<rparr>) (render we vars)))"

definition render_conditions :: "'w win_env \<Rightarrow> runtime_variables \<Rightarrow> ('w win_world machine, condition list) change" where
  "render_conditions we vars = change_each (render_condition we vars) 0"

definition variables_message :: "string \<Rightarrow> string \<Rightarrow> string" where
  "variables_message what name = ''failed to replace runtimeTemplateVariables in '' @ what @ '' for package '' @ in_quotes name"

definition render_pre_install ::
  "'w win_env \<Rightarrow> runtime_variables \<Rightarrow> string \<Rightarrow> nat \<Rightarrow> ('w win_world machine, win_pre_install) change" where
  "render_pre_install we vars name i =
     change_then
       (change_msg (\<lambda>_. variables_message (''pre install step '' @ itoa_nat i @ '' conditions'') name)
         (change_field wp_conditions (\<lambda>y s. s\<lparr>wp_conditions := y\<rparr>) (render_conditions we vars)))
       (change_field wp_commands (\<lambda>y s. s\<lparr>wp_commands := y\<rparr>)
         (change_each (\<lambda>j. change_msg (\<lambda>_. variables_message (''pre install step '' @ itoa_nat i @ '' command '' @ itoa_nat j) name)
           (render we vars)) 0))"

text \<open>
  In an install step all that is rendered besides its conditions is rendered in the loop over its
  commands: once for each of them, and not at all when there is none.
\<close>

definition render_command :: "'w win_env \<Rightarrow> runtime_variables \<Rightarrow> nat \<Rightarrow> ('w win_world machine, win_install_step) change" where
  "render_command we vars j =
     change_field (\<lambda>s. ws_commands s ! j) (\<lambda>y s. s\<lparr>ws_commands := (ws_commands s)[j := y]\<rparr>) (render we vars)"

definition render_step_fields ::
  "'w win_env \<Rightarrow> runtime_variables \<Rightarrow> string \<Rightarrow> nat \<Rightarrow> ('w win_world machine, win_install_step) change" where
  "render_step_fields we vars name i =
     (let step = ''install step '' @ itoa_nat i in
      change_all
        [change_field ws_env (\<lambda>y s. s\<lparr>ws_env := y\<rparr>)
           (change_each (\<lambda>k. change_msg (\<lambda>e. variables_message (step @ '' env variable '' @ in_quotes (ev_name e)) name)
             (change_field ev_value (\<lambda>y e. e\<lparr>ev_value := y\<rparr>) (render we vars))) 0),
         change_field ws_wait_files (\<lambda>y s. s\<lparr>ws_wait_files := y\<rparr>)
           (change_each (\<lambda>k. change_msg (\<lambda>f. variables_message (step @ '' wait for file '' @ in_quotes f) name) (render we vars)) 0),
         change_msg (\<lambda>s. variables_message (step @ '' wait for service '' @ in_quotes (ws_wait_service s)) name)
           (change_field ws_wait_service (\<lambda>y s. s\<lparr>ws_wait_service := y\<rparr>) (render we vars)),
         change_field ws_permissions (\<lambda>y s. s\<lparr>ws_permissions := y\<rparr>)
           (change_each (\<lambda>k. change_msg (\<lambda>g. variables_message (step @ '' grant permission path '' @ in_quotes (gp_path g)) name)
             (change_field gp_path (\<lambda>y g. g\<lparr>gp_path := y\<rparr>) (render we vars))) 0)])"

definition render_install_step ::
  "'w win_env \<Rightarrow> runtime_variables \<Rightarrow> string \<Rightarrow> nat \<Rightarrow> ('w win_world machine, win_install_step) change" where
  "render_install_step we vars name i step =
     change_then
       (change_msg (\<lambda>_. variables_message (''install step '' @ itoa_nat i @ '' conditions'') name)
         (change_field ws_conditions (\<lambda>y s. s\<lparr>ws_conditions := y\<rparr>) (render_conditions we vars)))
       (change_all (map (\<lambda>j. change_then
          (change_msg (\<lambda>_. variables_message (''install step '' @ itoa_nat i @ '' command '' @ itoa_nat j) name) (render_command we vars j))
          (render_step_fields we vars name i)) [0..<length (ws_commands step)])) step"

definition render_uninstall_step ::
  "'w win_env \<Rightarrow> runtime_variables \<Rightarrow> string \<Rightarrow> nat \<Rightarrow> ('w win_world machine, win_uninstall_step) change" where
  "render_uninstall_step we vars name i =
     change_then
       (change_msg (\<lambda>_. variables_message (''uninstall step '' @ itoa_nat i @ '' conditions'') name)
         (change_field wu_conditions (\<lambda>y s. s\<lparr>wu_conditions := y\<rparr>) (render_conditions we vars)))
       (change_field wu_commands (\<lambda>y s. s\<lparr>wu_commands := y\<rparr>)
         (change_each (\<lambda>j. change_msg (\<lambda>_. variables_message (''uninstall step '' @ itoa_nat i @ '' command '' @ itoa_nat j) name)
           (render we vars)) 0))"

definition service_message :: "string \<Rightarrow> string" where
  "service_message what = ''failed to replace runtimeTemplateVariables in service '' @ what"

definition render_service :: "'w win_env \<Rightarrow> runtime_variables \<Rightarrow> ('w win_world machine, win_service) change" where
  "render_service we vars =
     change_all
       [change_msg (\<lambda>_. service_message ''executable'')
          (change_field wv_executable (\<lambda>y s. s\<lparr>wv_executable := y\<rparr>) (render we vars)),
        change_msg (\<lambda>_. service_message ''arguments'')
          (change_field wv_arguments (\<lambda>y s. s\<lparr>wv_arguments := y\<rparr>) (render we vars)),
        change_msg (\<lambda>_. service_message ''working directory'')
          (change_field wv_working_directory (\<lambda>y s. s\<lparr>wv_working_directory := y\<rparr>) (render we vars)),
        change_msg (\<lambda>_. service_message ''stop executable'')
          (change_field wv_stop_executable (\<lambda>y s. s\<lparr>wv_stop_executable := y\<rparr>) (render we vars)),
        change_field wv_env (\<lambda>y s. s\<lparr>wv_env := y\<rparr>)
          (change_each (\<lambda>k. change_msg (\<lambda>e. service_message (''env variable '' @ in_quotes (ev_name e)))
            (change_field ev_value (\<lambda>y e. e\<lparr>ev_value := y\<rparr>) (render we vars))) 0)]"

fun change_option :: "('s, 'a) change \<Rightarrow> ('s, 'a option) change" where
  "change_option u None s = ((None, None), s)"
| "change_option u (Some x) s = (case u x s of ((y, r), t) \<Rightarrow> ((Some y, r), t))"

definition package_changes ::
  "'w win_env \<Rightarrow> runtime_variables \<Rightarrow> string \<Rightarrow> ('w win_world machine, win_package) change" where
  "package_changes we vars name =
     change_all
       [change_field wk_pre_install (\<lambda>y p. p\<lparr>wk_pre_install := y\<rparr>) (change_each (render_pre_install we vars name) 0),
        change_field wk_install (\<lambda>y p. p\<lparr>wk_install := y\<rparr>) (change_each (render_install_step we vars name) 0),
        change_field wk_uninstall (\<lambda>y p. p\<lparr>wk_uninstall := y\<rparr>) (change_each (render_uninstall_step we vars name) 0),
        change_field wk_service (\<lambda>y p. p\<lparr>wk_service := y\<rparr>) (change_option (render_service we vars))]"

definition replace_runtime_variables ::
  "'w win_env \<Rightarrow> runtime_variables \<Rightarrow> ('w win_world machine, win_package) change" where
  "replace_runtime_variables we vars p = package_changes we vars (wk_name p) p"

text \<open>The package of the map is changed with its copy, also when the change stops.\<close>

definition store_package :: "win_package \<Rightarrow> 'w win_world machine \<Rightarrow> 'w win_world machine" where
  "store_package p m = m\<lparr>world := (world m)\<lparr>ww_packages := (ww_packages (world m))(wk_name p \<mapsto> p)\<rparr>\<rparr>"

definition rendered_package :: "'w win_env \<Rightarrow> runtime_variables \<Rightarrow> win_package \<Rightarrow> ('w win_world, win_package) sys" where
  "rendered_package we vars p m =
     (case replace_runtime_variables we vars p m of
        ((q, Some e), t) \<Rightarrow> (Inl (WithMessage e ''failed to replace runtimeTemplateVariables variables in package''), store_package q t)
      | ((q, None), t) \<Rightarrow> (Inr q, store_package q t))"

section \<open>The PHP extensions\<close>

definition php_extension_names :: "string list" where
  "php_extension_names =
     [''bz2'', ''curl'', ''fileinfo'', ''gd'', ''gmp'', ''intl'', ''mbstring'', ''openssl'', ''pdo_mysql'', ''pdo_sqlite'', ''zip'']"

definition extension_line :: "string \<Rightarrow> string \<times> string" where
  "extension_line e = ('';?'' @ backslash @ ''s*extension='' @ e @ backslash @ ''s*'', ''extension='' @ e)"

definition php_ini_lines :: "(string \<times> string) list" where
  "php_ini_lines =
     map extension_line [''bz2'', ''curl'', ''fileinfo'', ''gd'', ''gmp'', ''intl'', ''mbstring'', ''openssl'', ''pdo_mysql'', ''pdo_sqlite''] @
     [(fst (extension_line ''sqlite''), ''extension=sqlite3'')] @ map extension_line [''sockets'', ''zip'']"

definition certificate_line :: "string \<Rightarrow> string \<Rightarrow> string \<Rightarrow> string \<times> string" where
  "certificate_line section_name key path =
     ('';?'' @ backslash @ ''s*'' @ section_name @ backslash @ ''.'' @ key @ backslash @ ''s*'',
      section_name @ ''.'' @ key @ ''='' @ [CHR 0x22] @ path @ [CHR 0x22])"

definition first_line :: "string \<Rightarrow> string" where
  "first_line s = trim_space (hd (split_char (CHR 0x0A) s))"

definition php_ini_path :: "'w win_env \<Rightarrow> string \<Rightarrow> string \<Rightarrow> string" where
  "php_ini_path we package_path loaded =
     (if loaded \<noteq> [] then loaded
      else if package_path = [] then wi_join we [windows_dirs [''php''], ''php.ini'']
      else wi_join we [wi_dir we package_path, ''php.ini''])"

text \<open>
  The line editor on Windows: there \<open>Move\<close> copies and removes, and there are no owners.
\<close>

definition windows_move :: "'w win_env \<Rightarrow> string \<Rightarrow> string \<Rightarrow> ('w win_world, unit) sys" where
  "windows_move we src dst m =
     (case stat_file (wi_os we) src m of
        StatMissing \<Rightarrow> (Inl (WithMessage (NotExist src) (''source file '' @ src @ '' not found'')), m)
      | StatFailed e \<Rightarrow> (Inl (WithMessage e ''failed to stat src file''), m)
      | StatOk \<Rightarrow>
          bindE (case stat_file (wi_os we) (wi_dir we dst) m of
              StatOk \<Rightarrow> retE ()
            | StatMissing \<Rightarrow> wrapE (''failed to create destination directory '' @ dst) (mkdir_all (wi_os we) (wi_dir we dst))
            | StatFailed e \<Rightarrow> failE (WithMessage e ''failed to stat destination directory'')) (\<lambda>_.
            move_cross_device (wi_fs we) src dst) m)"

definition edit_windows_file :: "'w win_env \<Rightarrow> string \<Rightarrow> (string \<times> string) list \<Rightarrow> ('w win_world, unit) sys" where
  "edit_windows_file we path kvs =
     bindE (read_file (wi_os we) path) (\<lambda>content.
     bindE (fl_create_temp (wi_fs we) ''find-and-replace'') (\<lambda>tmp.
       case find_line_and_replace_or_add (wi_regex we) (wi_order we) kvs True content of
         Inl e \<Rightarrow> failE e
       | Inr new \<Rightarrow> bindE (write_file (wi_os we) tmp new) (\<lambda>_. windows_move we tmp path)))"

text \<open>
  The pre processor of \<open>php-extensions\<close>. The output of PHP always has a first line, so that the files
  of the extensions are written into the directory of that line even when it is empty.
\<close>

definition enable_php_extensions :: "'w win_env \<Rightarrow> string \<Rightarrow> ('w win_world, unit) sys" where
  "enable_php_extensions we package_path =
     bindE (wrapE ''failed to get scanned files'' (wi_stdout we [''php'', ''-r'', ''echo php_ini_scanned_files();''])) (\<lambda>scanned.
     bindE (eachE (\<lambda>e. wrapE (''failed to create ini for '' @ in_quotes e @ '' php extension'')
       (write_file (wi_os we) (wi_join we [wi_dir we (first_line scanned), e @ ''.ini'']) (''extension='' @ e))) php_extension_names) (\<lambda>_.
     bindE (wrapE ''failed to get ini loaded file from php'' (wi_stdout we [''php'', ''-r'', ''echo php_ini_loaded_file();''])) (\<lambda>loaded.
       let ini = php_ini_path we package_path (first_line loaded); cacert = wi_join we [wi_dir we ini, ''cacert.pem''];
           edit = edit_windows_file we ini in
       bindE (\<lambda>m. if is_file_exists (wi_os we) ini m then (Inr (), m) else write_file (wi_os we) ini [] m) (\<lambda>_.
         if ini = [] then failE (Err ''failed to find config edition way to enable php extensions'')
         else bindE (wrapE ''failed to update extensions to php.ini'' (edit php_ini_lines)) (\<lambda>_.
              bindE (wrapE ''failed to download cacert.pem'' (wi_get_file we ''https://curl.se/ca/cacert.pem'' cacert)) (\<lambda>_.
              wrapE ''failed to update cacert.pem path in php.ini''
                (edit [certificate_line ''curl'' ''cainfo'' cacert, certificate_line ''openssl'' ''cafile'' cacert])))))))"

definition pre_process :: "'w win_env \<Rightarrow> string \<Rightarrow> string \<Rightarrow> ('w win_world, unit) sys" where
  "pre_process we name package_path =
     (if name = ''php-extensions'' then enable_php_extensions we package_path else retE ())"

section \<open>The service of a package\<close>

definition shawl_name :: "string \<Rightarrow> string" where
  "shawl_name name = replace_all '' '' ''_'' name"

definition milliseconds :: "int \<Rightarrow> string" where
  "milliseconds d = itoa_nat (nat (d div 10 ^ 6))"

definition restart_args :: "service_on_failure list \<Rightarrow> string list" where
  "restart_args failures =
     (if failures = [] then []
      else ''--restart'' # (case filter (\<lambda>f. 0 < of_delay f) failures of
        [] \<Rightarrow> [] | f # _ \<Rightarrow> [''--restart-delay'', milliseconds (of_delay f)]))"

definition service_name :: "win_service \<Rightarrow> string" where
  "service_name sv = (if wv_name sv = [] then wv_id sv else wv_name sv)"

definition shawl_args :: "win_service \<Rightarrow> string list" where
  "shawl_args sv =
     [''run'', ''--name'', shawl_name (service_name sv)] @ restart_args (wv_on_failure sv) @
     [''--stop-timeout'', ''10000''] @
     (if wv_working_directory sv = [] then [] else [''--cwd'', wv_working_directory sv]) @
     [''--log-dir'', if wv_log_directory sv = [] then windows_dirs [''gameap'', ''logs''] else wv_log_directory sv] @
     [''--log-as'', shawl_name (service_name sv) @ ''.log'', ''--log-rotate'', ''daily'', ''--log-retain'', ''60''] @
     concat (map (\<lambda>e. [''--env'', environment_entry e]) (wv_env sv)) @
     [''--'', wv_executable sv] @
     (if wv_arguments sv = [] then [] else split_char (CHR '' '') (wv_arguments sv))"

definition failure_action :: "service_on_failure \<Rightarrow> string" where
  "failure_action f =
     (if of_action f \<in> set [''restart'', ''reboot'', ''run''] then of_action f else []) @ ''/'' @
     (if 0 < of_delay f then milliseconds (of_delay f) else ''0'')"

text \<open>\<open>int(d.Seconds())\<close>, the rounding of floating point numbers apart.\<close>

definition seconds_text :: "int \<Rightarrow> string" where
  "seconds_text d =
     (let s = \<bar>d\<bar> div 10 ^ 9 in (if d < 0 \<and> 0 < s then ''-'' else []) @ itoa_nat (nat s))"

definition configure_failure_actions ::
  "'w win_env \<Rightarrow> string \<Rightarrow> service_on_failure list \<Rightarrow> int \<Rightarrow> ('w win_world, unit) sys" where
  "configure_failure_actions we name failures reset =
     (if failures = [] then retE ()
      else wrapE ''failed to configure service failure actions'' (ho_exec (wi_host we)
        [''sc'', ''failure'', name, ''reset='' @ seconds_text (if reset = 0 then one_hour else reset),
         ''actions='' @ join_with ''/'' (map failure_action failures)]))"

definition service_config_file :: "'w win_env \<Rightarrow> string \<Rightarrow> string" where
  "service_config_file we name = wi_join we [services_config_path, name @ ''.yaml'']"

definition sc_create_args :: "string \<Rightarrow> win_service \<Rightarrow> string list" where
  "sc_create_args shawl sv =
     [''sc'', ''create'', service_name sv, ''start=auto''] @
     (case wv_account sv of
        None \<Rightarrow> []
      | Some a \<Rightarrow> if sa_username a = [] then [] else [''obj='' @ sa_username a]) @
     [''binPath='' @ shawl @ '' '' @ join_with '' '' (shawl_args sv)]"

definition create_shawl_service :: "'w win_env \<Rightarrow> string \<Rightarrow> win_service \<Rightarrow> ('w win_world, unit) sys" where
  "create_shawl_service we shawl sv =
     (let name = service_name sv in
      bindE (\<lambda>m. if is_file_exists (wi_os we) services_config_path m then (Inr (), m)
                 else wrapE ''failed to create services config directory'' (mkdir_all (wi_os we) services_config_path) m) (\<lambda>_.
      case wi_encode we sv of
        Inl e \<Rightarrow> failE (WithMessage e ''failed to marshal service config to YAML'')
      | Inr yaml \<Rightarrow>
          bindE (wrapE (''failed to save config for service '' @ in_quotes name)
            (write_file (wi_os we) (service_config_file we name) yaml)) (\<lambda>_.
          bindE (wrapE (''failed to install service '' @ in_quotes name) (ho_exec (wi_host we) (sc_create_args shawl sv))) (\<lambda>_.
            if wv_on_failure sv = [] then retE ()
            else wrapE (''failed to configure failure actions for service '' @ in_quotes name)
              (configure_failure_actions we name (wv_on_failure sv) (wv_reset_failure sv))))))"

definition install_shawl_service :: "'w win_env \<Rightarrow> win_service \<Rightarrow> ('w win_world, unit) sys" where
  "install_shawl_service we sv m =
     (if service_exists (wi_scm we) (wv_id sv) m \<or> service_exists (wi_scm we) (wv_name sv) m then (Inr (), m)
      else case ho_look_path (wi_host we) ''shawl'' m of
        Inl e \<Rightarrow> (Inl (WithMessage e ''failed to find shawl executable''), m)
      | Inr shawl \<Rightarrow>
          if shawl = [] then (Inl (Err ''shawl executable not found''), m)
          else create_shawl_service we shawl sv m)"

section \<open>Installing\<close>

definition lookup_results :: "'w win_env \<Rightarrow> string list \<Rightarrow> 'w win_world machine \<Rightarrow> (string \<times> string result) list" where
  "lookup_results we paths m = map (\<lambda>c. (c, ho_look_path (wi_host we) c m)) paths"

definition found_lookups :: "'w win_env \<Rightarrow> (string \<times> string result) list \<Rightarrow> (string \<times> string) list" where
  "found_lookups we rs =
     List.map_filter (\<lambda>(c, r). case r of Inl _ \<Rightarrow> None | Inr q \<Rightarrow> Some (c, wi_dir we q)) rs"

text \<open>What the last look-up of the loop found.\<close>

definition resolved_path :: "(string \<times> string result) list \<Rightarrow> string" where
  "resolved_path rs = (if rs = [] then [] else case snd (last rs) of Inl _ \<Rightarrow> [] | Inr q \<Rightarrow> q)"

definition all_found :: "'w win_env \<Rightarrow> (string \<times> string result) list \<Rightarrow> bool" where
  "all_found we rs \<longleftrightarrow> rs \<noteq> [] \<and> length (found_lookups we rs) \<ge> length rs"

definition make_install_dir :: "'w win_env \<Rightarrow> string \<Rightarrow> ('w win_world, unit) sys" where
  "make_install_dir we dir m =
     (if is_file_exists (wi_os we) dir m then (Inr (), m)
      else wrapE ''failed to make directory'' (mkdir_all (wi_os we) dir) m)"

definition install_in :: "'w win_env \<Rightarrow> win_package \<Rightarrow> string \<Rightarrow> ('w win_world, unit) sys" where
  "install_in we p dir =
     bindE (make_install_dir we dir) (\<lambda>_.
     bindE (wrapE ''failed to run pre installation steps'' (pre_installation_steps we p)) (\<lambda>_.
     bindE (download_first we dir None (wk_download_urls p)) (\<lambda>_.
     bindE (eachB (run_install_step we p dir) (wk_install p)) (\<lambda>go_on.
       if \<not> go_on then retE ()
       else bindE (if wk_path_env p = [] then retE () else append_path_env we (wk_path_env p)) (\<lambda>_.
         case wk_service p of
           None \<Rightarrow> retE ()
         | Some sv \<Rightarrow> wrapE ''failed to install service'' (install_shawl_service we sv))))))"

text \<open>When everything is found and the service exists, only the log says that the installation is skipped.\<close>

definition install_package :: "'w win_env \<Rightarrow> config_values \<Rightarrow> win_package \<Rightarrow> ('w win_world, unit) sys" where
  "install_package we opts p m =
     (let rs = lookup_results we (wk_lookup_paths p) m;
          vars = \<lparr>rv_lookups = found_lookups we rs, rv_options = opts, rv_install_path = wk_install_path p\<rparr> in
      if all_found we rs \<and> wk_service p = None then (Inr (), m)
      else bindE (rendered_package we vars p) (\<lambda>p.
           bindE (pre_process we (wk_name p) (resolved_path rs)) (\<lambda>_.
             if wk_install_path p \<noteq> [] then install_in we p (wk_install_path p)
             else bindE (wrapE ''failed to make temp directory'' (wi_mkdtemp we ''install'')) (\<lambda>dir.
               finallyE (install_in we p dir) (quietly (fl_remove_all (wi_fs we) dir))))) m)"

definition install_known :: "'w win_env \<Rightarrow> config_values \<Rightarrow> string \<Rightarrow> ('w win_world, unit) sys" where
  "install_known we opts pack m =
     (case ww_packages (world m) pack of
        None \<Rightarrow> (Inr (), m)
      | Some p \<Rightarrow> bindE (install_package we opts p) (\<lambda>_ m. (Inr (), update_windows_path we m)) m)"

definition win_dependencies ::
  "(string \<Rightarrow> ('w win_world, unit) psys) \<Rightarrow> string \<Rightarrow> ('w win_world, unit) psys" where
  "win_dependencies install pack m =
     (case ww_packages (world m) pack of
        None \<Rightarrow> Some (Inr (), m)
      | Some p \<Rightarrow>
          if pack \<in> set (wk_dependencies p) then
            Some (Inl (WithMessage CannotDependOnSelf (''failed to resolve dependencies for package '' @ in_quotes pack)), m)
          else eachP (\<lambda>d. wrapP ''failed to install dependencies'' (install d)) (wk_dependencies p) m)"

text \<open>Dependencies that depend on each other are not found out: this may not return.\<close>

lemma eachP_wrapP_mono [partial_function_mono]:
  assumes "\<And>x m. mono_option (\<lambda>F. B F x m)"
  shows "mono_option (\<lambda>F. eachP (\<lambda>x. wrapP msg (B F x)) xs m)"
proof (induction xs arbitrary: m)
  case Nil
  then show ?case by (simp add: option.const_mono)
next
  case (Cons x xs)
  have "eachP (\<lambda>x. wrapP msg (B F x)) (x # xs) m =
      Option.bind (B F x m) (\<lambda>(r, t). case r of
        Inl e \<Rightarrow> Some (Inl (WithMessage e msg), t) | Inr _ \<Rightarrow> eachP (\<lambda>x. wrapP msg (B F x)) xs t)" for F
    by (cases "B F x m") (auto simp: bindP_def wrapP_def split: sum.split)
  moreover have "mono_option (\<lambda>F. case y of (r, t) \<Rightarrow> (case r of
        Inl e \<Rightarrow> Some (Inl (WithMessage e msg), t) | Inr _ \<Rightarrow> eachP (\<lambda>x. wrapP msg (B F x)) xs t))" for y
    by (cases y; cases "fst y") (auto intro: option.const_mono Cons)
  ultimately show ?case by (simp only:) (intro bind_mono assms)
qed

lemma win_dependencies_mono [partial_function_mono]:
  assumes "\<And>x m. mono_option (\<lambda>F. B F x m)"
  shows "mono_option (\<lambda>F. win_dependencies (B F) pack m)"
  unfolding win_dependencies_def
  by (cases "ww_packages (world m) pack"; cases "pack \<in> set (wk_dependencies (the (ww_packages (world m) pack)))")
    (simp_all add: option.const_mono eachP_wrapP_mono assms)

partial_function (option) windows_install ::
  "'w win_env \<Rightarrow> config_values \<Rightarrow> string \<Rightarrow> ('w win_world, unit) psys" where
  "windows_install we opts pack m =
     Option.bind (win_dependencies (\<lambda>d. windows_install we opts d) pack m) (\<lambda>(r, t). case r of
       Inl e \<Rightarrow> Some (Inl (WithMessage e ''failed to install dependencies''), t)
     | Inr _ \<Rightarrow> Some (install_known we opts pack t))"

section \<open>Removing\<close>

definition remove_service_config :: "'w win_env \<Rightarrow> string \<Rightarrow> ('w win_world, unit) sys" where
  "remove_service_config we name m =
     (if is_file_exists (wi_os we) (service_config_file we name) m
      then quietly (remove_file (wi_os we) (service_config_file we name)) m else (Inr (), m))"

definition remove_windows_service :: "'w win_env \<Rightarrow> win_service \<Rightarrow> ('w win_world, unit) sys" where
  "remove_windows_service we sv m =
     (let name = service_name sv in
      if \<not> service_exists (wi_scm we) name m \<and> \<not> service_exists (wi_scm we) (wv_id sv) m then (Inr (), m)
      else bindE (quietly (windows_stop (wi_scm we) name)) (\<lambda>_.
           bindE (wrapE (''failed to delete service '' @ in_quotes name) (ho_exec (wi_host we) [''sc'', ''delete'', name])) (\<lambda>_.
           remove_service_config we name)) m)"

definition run_uninstall_step :: "'w win_env \<Rightarrow> win_uninstall_step \<Rightarrow> ('w win_world, unit) sys" where
  "run_uninstall_step we s m =
     (if \<not> conditions_hold we (wu_conditions s) m then (Inr (), m)
      else eachE (\<lambda>c. quietly (win_execute we c)) (wu_commands s) m)"

definition remove_package :: "'w win_env \<Rightarrow> win_package \<Rightarrow> ('w win_world, unit) sys" where
  "remove_package we p =
     bindE (case wk_service p of None \<Rightarrow> retE () | Some sv \<Rightarrow> wrapE ''failed to remove service'' (remove_windows_service we sv)) (\<lambda>_.
     bindE (eachE (run_uninstall_step we) (wk_uninstall p)) (\<lambda>_.
     if wk_path_env p = [] then retE () else quietly (remove_path_env we (wk_path_env p))))"

definition windows_remove :: "'w win_env \<Rightarrow> string list \<Rightarrow> ('w win_world, unit) sys" where
  "windows_remove we packs =
     eachE (\<lambda>n m. case ww_packages (world m) n of
       None \<Rightarrow> (Inr (), m)
     | Some p \<Rightarrow> wrapE (''failed to remove package '' @ in_quotes n) (remove_package we p) m) packs"

section \<open>The interface\<close>

definition new_windows_packages ::
  "(string \<Rightarrow> string option) \<Rightarrow> (string \<Rightarrow> win_package list result) \<Rightarrow> (string \<Rightarrow> string) \<Rightarrow> os_info \<Rightarrow>
   (string \<rightharpoonup> win_packages) \<Rightarrow> win_packages result \<times> (string \<rightharpoonup> win_packages)" where
  "new_windows_packages embedded decode env info cache =
     (case load_windows_packages embedded decode env info cache of
        (r, cache) \<Rightarrow> (with_message ''failed to load windows packages'' r, cache))"

definition windows_manager :: "'w win_env \<Rightarrow> 'w win_world package_manager" where
  "windows_manager we =
     \<lparr>pm_search = (\<lambda>_. retE []), pm_install = (\<lambda>pack opts. windows_install we opts pack), pm_check = retE (),
      pm_remove = windows_remove we, pm_purge = windows_remove we\<rparr>"

end
