(* ===== verification/WindowsFacts.thy ===== *)
theory WindowsFacts
  imports WindowsInstall
begin

text \<open>
  What holds of the package manager for Windows: its installations end when the dependencies are ranked and
  not when they are cyclic, the values of the first installation of a package stay in its steps, and what is
  added to the search path is removed again.
\<close>

section \<open>Lemmas\<close>

subsection \<open>What leaves the packages alone\<close>

definition same_packages :: "'w win_world machine \<Rightarrow> 'w win_world machine \<Rightarrow> bool" where
  "same_packages m t \<longleftrightarrow> ww_packages (world t) = ww_packages (world m)"

text \<open>The map of the packages is inside the process: nothing of its environment changes it.\<close>

definition packages_private :: "'w win_env \<Rightarrow> bool" where
  "packages_private we \<longleftrightarrow>
     (\<forall>c. keeps same_packages (ho_exec (wi_host we) c)) \<and> (\<forall>m. same_packages m (ho_tick (wi_host we) m)) \<and>
     (\<forall>c. keeps same_packages (wi_output we c)) \<and> (\<forall>c. keeps same_packages (wi_stdout we c)) \<and>
     (\<forall>d e c. keeps same_packages (wi_run_in we d e c)) \<and> (\<forall>v s. keeps same_packages (wi_render we v s)) \<and>
     (\<forall>n. keeps same_packages (wi_mkdtemp we n)) \<and> (\<forall>u d. keeps same_packages (wi_download we u d)) \<and>
     (\<forall>u d. keeps same_packages (wi_download_file we u d)) \<and> (\<forall>u d. keeps same_packages (wi_get_file we u d)) \<and>
     (\<forall>a b. keeps same_packages (fl_copy (wi_fs we) a b)) \<and> (\<forall>d. keeps same_packages (fl_remove_all (wi_fs we) d)) \<and>
     (\<forall>n. keeps same_packages (fl_create_temp (wi_fs we) n))"

lemma same_packages_rel [simp]: "reflp same_packages" "transp same_packages"
  by (simp_all add: same_packages_def reflp_def transp_def)

lemma keeps_sum: "(\<And>e. keeps R (f e)) \<Longrightarrow> (\<And>x. keeps R (g x)) \<Longrightarrow> keeps R (case y of Inl e \<Rightarrow> f e | Inr x \<Rightarrow> g x)"
  by (cases y) auto

lemma keeps_if: "keeps R p \<Longrightarrow> keeps R q \<Longrightarrow> keeps R (if b then p else q)"
  by simp

lemma keeps_case_state:
  assumes "\<And>e m. keeps R (f e m)" "\<And>x m. keeps R (g x m)"
  shows "keeps R (\<lambda>m. case y m of Inl e \<Rightarrow> f e m m | Inr x \<Rightarrow> g x m m)"
  using assms by (auto simp: keeps_def split: sum.split)

lemma keeps_Pair: "reflp R \<Longrightarrow> keeps R (\<lambda>m. (f m, m))"
  by (simp add: keeps_def reflpD)

lemma quietly_keeps: "keeps R p \<Longrightarrow> keeps R (quietly p)"
  by (simp add: keeps_def quietly_def)

lemma file_ops_private [simp]:
  "keeps same_packages (read_file os p)" "keeps same_packages (write_file os p c)" "keeps same_packages (remove_file os p)"
  "keeps same_packages (mkdir_all os p)"
  by (auto simp: keeps_def same_packages_def read_file_def write_file_def remove_file_def mkdir_all_def put_file_def split: option.splits)

lemma set_path_private [simp]: "keeps same_packages (set_path we v)"
  by (auto simp: keeps_def same_packages_def set_path_def split: option.splits)

lemmas private_basic =
  keeps_retE keeps_failE keeps_bindE keeps_wrapE keeps_catchE keeps_finallyE keeps_eachE keeps_sum keeps_if
  keeps_Pair quietly_keeps

lemma eachB_keeps: "reflp R \<Longrightarrow> transp R \<Longrightarrow> (\<And>x. keeps R (f x)) \<Longrightarrow> keeps R (eachB f xs)"
  by (induction xs) (auto intro!: private_basic)

lemma update_path_private: "same_packages m (update_windows_path we m)"
  unfolding update_windows_path_def Let_def by (rule keepsD) simp

lemma env_private:
  assumes "packages_private we"
  shows "keeps same_packages (ho_exec (wi_host we) c)" "keeps same_packages (wi_output we c)" "keeps same_packages (wi_stdout we c)"
    "keeps same_packages (wi_run_in we d e c)" "keeps same_packages (wi_mkdtemp we n)" "keeps same_packages (wi_download we u d)"
    "keeps same_packages (wi_download_file we u d)" "keeps same_packages (wi_get_file we u d)"
    "keeps same_packages (fl_copy (wi_fs we) a b)" "keeps same_packages (fl_remove_all (wi_fs we) d)"
    "keeps same_packages (fl_create_temp (wi_fs we) n)" "keeps same_packages (wi_render we v s)"
    "same_packages m (ho_tick (wi_host we) m)"
  using assms by (simp_all add: packages_private_def)

lemmas privately = private_basic env_private

lemma grant_private: "packages_private we \<Longrightarrow> keeps same_packages (grant_permissions we ps)"
  unfolding grant_permissions_def grant_def Let_def by (auto intro!: privately)

lemma execute_private: "packages_private we \<Longrightarrow> keeps same_packages (win_execute we c)"
  unfolding win_execute_def Let_def by (auto intro!: privately split: sum.split list.split)

lemma pre_install_private: "packages_private we \<Longrightarrow> keeps same_packages (pre_installation_steps we p)"
  unfolding pre_installation_steps_def
  by (intro keeps_eachE same_packages_rel keeps_choose keeps_Pair keeps_bindE keeps_wrapE grant_private execute_private)

lemma wait_private: "packages_private we \<Longrightarrow> keeps same_packages (wait_tries we P n)"
proof (induction n)
  case (Suc n)
  have "same_packages m (snd (wait_tries we P n (ho_tick (wi_host we) m)))" for m
    using keepsD [OF Suc.IH [OF Suc.prems], of "ho_tick (wi_host we) m"] env_private(13) [OF Suc.prems]
    by (simp add: same_packages_def)
  then show ?case by (auto simp: keeps_def same_packages_def)
qed (auto simp: keeps_def same_packages_def)

lemma download_private: "packages_private we \<Longrightarrow> keeps same_packages (download_first we dir err urls)"
proof (induction urls arbitrary: err)
  case (Cons u us)
  have one: "keeps same_packages (download_package we dir u path)" for path
    unfolding download_package_def by (auto intro!: privately Cons.prems)
  have "same_packages m (snd (download_first we dir err (u # us) m))" for m
  proof (cases "wi_url_path we u")
    case (Inl e)
    then show ?thesis using keepsD [OF Cons.IH [OF Cons.prems], of m] by simp
  next
    case (Inr path)
    obtain r t where d: "download_package we dir u path m = (r, t)" by fastforce
    have t: "same_packages m t" using keepsD [OF one, of m] d by (metis snd_conv)
    show ?thesis
      using Inr d t keepsD [OF Cons.IH [OF Cons.prems], of t]
      by (cases r) (auto simp: same_packages_def)
  qed
  then show ?case by (simp add: keeps_def)
qed (auto simp: keeps_def same_packages_def split: option.splits)

lemma install_step_private: "packages_private we \<Longrightarrow> keeps same_packages (run_install_step we p dir step)"
proof -
  assume p: "packages_private we"
  have cmd: "keeps same_packages (run_install_command we dir step c)" for c
    unfolding run_install_command_def Let_def by (auto intro!: privately p split: sum.split list.split)
  show ?thesis
    unfolding run_install_step_def wait_until_def
    by (intro keeps_choose keeps_Pair keeps_bindE keeps_wrapE keeps_if keeps_retE eachB_keeps cmd same_packages_rel
        grant_private wait_private p)
qed

lemma path_private: "keeps same_packages (append_path_env we ps)"
  by (intro keepsI) (simp add: append_path_env_def Let_def same_packages_def keepsD [OF set_path_private, unfolded same_packages_def])

lemma php_private: "packages_private we \<Longrightarrow> keeps same_packages (pre_process we name path)"
proof -
  assume p: "packages_private we"
  have dirs: "keeps same_packages (bindE (case r of StatOk \<Rightarrow> retE () | StatMissing \<Rightarrow> wrapE msg (mkdir_all os d)
        | StatFailed e \<Rightarrow> failE (WithMessage e msg')) (\<lambda>_. move_cross_device (wi_fs we) a b))" for r msg os d msg' a b
    unfolding move_cross_device_def by (cases r) (auto intro!: privately p)
  have move: "keeps same_packages (windows_move we a b)" for a b
    using keepsD [OF dirs] by (intro keepsI) (simp add: windows_move_def same_packages_def split: stat_reply.split)
  have edit: "keeps same_packages (edit_windows_file we ini kvs)" for ini kvs
    unfolding edit_windows_file_def by (intro keeps_sum keeps_bindE keeps_failE move file_ops_private env_private p same_packages_rel)
  show ?thesis
    unfolding pre_process_def enable_php_extensions_def Let_def
    by (intro keeps_if keeps_retE keeps_bindE keeps_wrapE keeps_eachE keeps_choose keeps_Pair keeps_failE edit file_ops_private
        env_private p same_packages_rel)
qed

lemma shawl_private: "packages_private we \<Longrightarrow> keeps same_packages (install_shawl_service we sv)"
proof -
  assume p: "packages_private we"
  have create: "keeps same_packages (create_shawl_service we shawl sv)" for shawl
    unfolding create_shawl_service_def configure_failure_actions_def Let_def
    by (intro keeps_sum keeps_if keeps_retE keeps_bindE keeps_wrapE keeps_choose keeps_Pair keeps_failE file_ops_private
        env_private p same_packages_rel)
  then show ?thesis
    unfolding install_shawl_service_def
    by (intro keeps_choose keeps_Pair keeps_case_state same_packages_rel)
      (auto simp: keeps_def same_packages_def)
qed

lemma install_in_private: "packages_private we \<Longrightarrow> keeps same_packages (install_in we p dir)"
proof -
  assume p: "packages_private we"
  have sv: "keeps same_packages (case s of None \<Rightarrow> retE () | Some sv \<Rightarrow> wrapE msg (install_shawl_service we sv))" for s msg
    by (cases s) (auto intro!: privately shawl_private p)
  show ?thesis
    unfolding install_in_def make_install_dir_def
    by (intro keeps_bindE keeps_if keeps_retE keeps_choose keeps_Pair keeps_wrapE eachB_keeps sv file_ops_private pre_install_private
        download_private install_step_private path_private p same_packages_rel)
qed

subsection \<open>Changes that keep a relation and part of a value\<close>

definition change_keeps :: "('s \<Rightarrow> 's \<Rightarrow> bool) \<Rightarrow> ('s, 'a) change \<Rightarrow> bool" where
  "change_keeps R u \<longleftrightarrow> (\<forall>x s. R s (snd (u x s)))"

lemma change_then_keeps: "transp R \<Longrightarrow> change_keeps R u \<Longrightarrow> change_keeps R v \<Longrightarrow> change_keeps R (change_then u v)"
  unfolding change_keeps_def change_then_def
  by (auto split: prod.split option.split) (metis snd_conv transpD)+

lemma change_all_keeps: "reflp R \<Longrightarrow> transp R \<Longrightarrow> (\<And>u. u \<in> set us \<Longrightarrow> change_keeps R u) \<Longrightarrow> change_keeps R (change_all us)"
proof (induction us)
  case Nil
  then show ?case by (simp add: change_all_def change_keeps_def unchanged_def reflpD)
next
  case (Cons u us)
  then show ?case by (simp add: change_all_def change_then_keeps)
qed

lemma change_msg_keeps: "change_keeps R u \<Longrightarrow> change_keeps R (change_msg msg u)"
  unfolding change_keeps_def change_msg_def by (auto split: prod.split option.split) (metis snd_conv)+

lemma change_field_keeps: "change_keeps R u \<Longrightarrow> change_keeps R (change_field get put u)"
  unfolding change_keeps_def change_field_def by (auto split: prod.split) (metis snd_conv)

lemma change_each_keeps:
  assumes "reflp R" "transp R" "\<And>i. change_keeps R (u i)"
  shows "change_keeps R (change_each u i)"
proof -
  have "R s (snd (change_each u i xs s))" for xs s
  proof (induction xs arbitrary: i s)
    case Nil
    then show ?case using assms(1) by (simp add: reflpD)
  next
    case (Cons x xs)
    obtain y r t where u: "u i x s = ((y, r), t)" by (metis prod.collapse)
    then have "R s t" using assms(3) unfolding change_keeps_def by (metis snd_conv)
    with Cons.IH [where i = "Suc i" and s = t] u assms(2) show ?case
      by (cases r) (auto split: prod.split dest: transpD)
  qed
  then show ?thesis by (simp add: change_keeps_def)
qed

lemma change_option_keeps: "reflp R \<Longrightarrow> change_keeps R u \<Longrightarrow> change_keeps R (change_option u)"
proof -
  assume a: "reflp R" "change_keeps R u"
  have "R s (snd (change_option u x s))" for x s
    using a by (cases x) (auto simp: change_keeps_def reflpD split: prod.split, metis snd_conv)
  then show ?thesis by (simp add: change_keeps_def)
qed

lemma render_keeps: "packages_private we \<Longrightarrow> change_keeps same_packages (render we vars)"
  unfolding change_keeps_def render_def
  by (auto split: prod.split sum.split) (metis env_private(12) keepsD snd_conv)+

lemmas changes_keep =
  change_then_keeps change_all_keeps change_msg_keeps change_field_keeps change_each_keeps change_option_keeps
  render_keeps same_packages_rel

lemma replace_keeps: "packages_private we \<Longrightarrow> change_keeps same_packages (replace_runtime_variables we vars)"
proof -
  assume p: "packages_private we"
  have conds: "change_keeps same_packages (render_conditions we vars)"
    unfolding render_conditions_def render_condition_def by (intro changes_keep p)
  have fields: "change_keeps same_packages (render_step_fields we vars name i)" for name i
    unfolding render_step_fields_def Let_def by (auto intro!: changes_keep p)
  have step: "change_keeps same_packages (render_install_step we vars name i)" for name i
  proof -
    have "same_packages s (snd (render_install_step we vars name i x s))" for x s
    proof -
      have "change_keeps same_packages (change_then
         (change_msg (\<lambda>_. variables_message (''install step '' @ itoa_nat i @ '' conditions'') name)
           (change_field ws_conditions (\<lambda>y s. s\<lparr>ws_conditions := y\<rparr>) (render_conditions we vars)))
         (change_all (map (\<lambda>j. change_then
            (change_msg (\<lambda>_. variables_message (''install step '' @ itoa_nat i @ '' command '' @ itoa_nat j) name) (render_command we vars j))
            (render_step_fields we vars name i)) [0..<length (ws_commands x)])))"
        unfolding render_command_def by (auto intro!: changes_keep p conds fields)
      then show ?thesis by (simp add: change_keeps_def render_install_step_def)
    qed
    then show ?thesis by (simp add: change_keeps_def)
  qed
  have parts: "change_keeps same_packages (render_pre_install we vars name i)"
    "change_keeps same_packages (render_uninstall_step we vars name i)" "change_keeps same_packages (render_service we vars)" for name i
    unfolding render_pre_install_def render_uninstall_step_def render_service_def by (auto intro!: changes_keep p conds)
  have "change_keeps same_packages (package_changes we vars name)" for name
    unfolding package_changes_def by (rule change_all_keeps) (auto intro!: changes_keep parts step)
  then show ?thesis by (simp add: change_keeps_def replace_runtime_variables_def)
qed

text \<open>The name of a package and what it depends on are not changed.\<close>

definition value_keeps :: "('a \<Rightarrow> 'c) \<Rightarrow> ('s, 'a) change \<Rightarrow> bool" where
  "value_keeps f u \<longleftrightarrow> (\<forall>x s. f (fst (fst (u x s))) = f x)"

lemma value_then_keeps: "value_keeps f u \<Longrightarrow> value_keeps f v \<Longrightarrow> value_keeps f (change_then u v)"
  unfolding value_keeps_def change_then_def by (auto split: prod.split option.split) (metis fst_conv)+

lemma value_all_keeps: "(\<And>u. u \<in> set us \<Longrightarrow> value_keeps f u) \<Longrightarrow> value_keeps f (change_all us)"
  by (induction us) (simp_all add: change_all_def value_keeps_def unchanged_def value_then_keeps [unfolded value_keeps_def])

lemma value_field_keeps: "(\<And>x y. f (put y x) = f x) \<Longrightarrow> value_keeps f (change_field get put u)"
  by (simp add: value_keeps_def change_field_def split: prod.split)

lemma value_package_keeps:
  assumes "\<And>x y. f (x\<lparr>wk_pre_install := y\<rparr>) = f x" "\<And>x y. f (x\<lparr>wk_install := y\<rparr>) = f x"
    "\<And>x y. f (x\<lparr>wk_uninstall := y\<rparr>) = f x" "\<And>x y. f (x\<lparr>wk_service := y\<rparr>) = f x"
  shows "f (fst (fst (replace_runtime_variables we vars p m))) = f p"
proof -
  have "value_keeps f (package_changes we vars name)" for name
    unfolding package_changes_def using assms by (intro value_all_keeps) (auto intro: value_field_keeps)
  then show ?thesis by (simp add: value_keeps_def replace_runtime_variables_def)
qed

lemma replaced_identity [simp]:
  "wk_name (fst (fst (replace_runtime_variables we vars p m))) = wk_name p"
  "wk_dependencies (fst (fst (replace_runtime_variables we vars p m))) = wk_dependencies p"
  by (rule value_package_keeps; simp)+

subsection \<open>The end of an installation\<close>

text \<open>Every package is known by its own name, and the dependencies are \<open>deps\<close>.\<close>

definition named_with :: "(string \<Rightarrow> string list option) \<Rightarrow> 'w win_world machine \<Rightarrow> bool" where
  "named_with deps m \<longleftrightarrow>
     (\<forall>n. map_option wk_dependencies (ww_packages (world m) n) = deps n) \<and>
     (\<forall>n p. ww_packages (world m) n = Some p \<longrightarrow> wk_name p = n)"

lemma named_same: "same_packages m t \<Longrightarrow> named_with deps t = named_with deps m"
  by (simp add: named_with_def same_packages_def)

lemma rendered_named:
  assumes "packages_private we" "named_with deps m" "ww_packages (world m) n = Some p"
  shows "named_with deps (snd (rendered_package we vars p m))"
proof -
  obtain q r t where q: "replace_runtime_variables we vars p m = ((q, r), t)" by (metis prod.collapse)
  have "same_packages m t" using replace_keeps [OF assms(1)] q unfolding change_keeps_def by (metis snd_conv)
  then have t: "named_with deps t" using assms(2) by (simp add: named_same)
  have id: "wk_name q = wk_name p" "wk_dependencies q = wk_dependencies p"
    using replaced_identity [of we vars p m] q by simp_all
  have name: "wk_name p = n" and deps: "deps n = Some (wk_dependencies p)"
    using assms(2,3) by (auto simp: named_with_def dest: spec [of _ n])
  have "named_with deps (store_package q t)"
    using t name deps id by (simp add: named_with_def store_package_def)
  then show ?thesis using q by (cases r) (simp_all add: rendered_package_def)
qed

lemma install_package_named:
  assumes "packages_private we" "named_with deps m" "ww_packages (world m) n = Some p"
  shows "named_with deps (snd (install_package we opts p m))"
proof -
  define rs where "rs = lookup_results we (wk_lookup_paths p) m"
  define vars where "vars = \<lparr>rv_lookups = found_lookups we rs, rv_options = opts, rv_install_path = wk_install_path p\<rparr>"
  define after :: "win_package \<Rightarrow> ('a win_world, unit) sys" where
    "after = (\<lambda>p. bindE (pre_process we (wk_name p) (resolved_path rs)) (\<lambda>_.
             if wk_install_path p \<noteq> [] then install_in we p (wk_install_path p)
             else bindE (wrapE ''failed to make temp directory'' (wi_mkdtemp we ''install'')) (\<lambda>dir.
               finallyE (install_in we p dir) (quietly (fl_remove_all (wi_fs we) dir)))))"
  have after: "keeps same_packages (after q)" for q
    unfolding after_def
    by (intro keeps_bindE keeps_if keeps_wrapE keeps_finallyE quietly_keeps php_private install_in_private
        env_private assms(1) same_packages_rel)
  have run: "install_package we opts p m =
      (if all_found we rs \<and> wk_service p = None then (Inr (), m) else bindE (rendered_package we vars p) after m)"
    by (simp add: install_package_def Let_def rs_def vars_def after_def)
  obtain r t where r: "rendered_package we vars p m = (r, t)" by fastforce
  with rendered_named [OF assms, of vars] have t: "named_with deps t" by simp
  show ?thesis
  proof (cases r)
    case (Inl e)
    with run r t assms(2) show ?thesis by (simp add: bindE_def)
  next
    case (Inr q)
    with run r assms(2) show ?thesis using named_same [OF keepsD [OF after, of t q]] t by (simp add: bindE_def)
  qed
qed

lemma install_known_named:
  assumes "packages_private we" "named_with deps m"
  shows "named_with deps (snd (install_known we opts pack m))"
proof (cases "ww_packages (world m) pack")
  case None
  with assms(2) show ?thesis by (simp add: install_known_def)
next
  case (Some p)
  obtain r t where r: "install_package we opts p m = (r, t)" by fastforce
  with install_package_named [OF assms Some, of opts] have "named_with deps t" by simp
  then have "named_with deps (update_windows_path we t)" using named_same [OF update_path_private] by blast
  with Some r \<open>named_with deps t\<close> show ?thesis by (cases r) (simp_all add: install_known_def bindE_def)
qed

lemma eachP_returns:
  assumes "\<And>x m. x \<in> set xs \<Longrightarrow> I m \<Longrightarrow> \<exists>r t. f x m = Some (r, t) \<and> I t"
  shows "I m \<Longrightarrow> \<exists>r t. eachP f xs m = Some (r, t) \<and> I t"
  using assms
proof (induction xs arbitrary: m)
  case Nil
  then show ?case by (simp add: liftP_def retE_def)
next
  case (Cons x xs)
  from Cons.prems(2) [of x m] Cons.prems(1) obtain r t where f: "f x m = Some (r, t)" "I t" by auto
  show ?case
  proof (cases r)
    case (Inl e)
    with f show ?thesis by (simp add: bindP_def)
  next
    case (Inr u)
    from Cons.IH [OF f(2)] Cons.prems(2) obtain r' t' where "eachP f xs t = Some (r', t')" "I t'" by auto
    with f Inr show ?thesis by (simp add: bindP_def)
  qed
qed

lemma win_dependencies_returns:
  assumes "named_with deps m"
    and "\<And>ds d m. deps pack = Some ds \<Longrightarrow> d \<in> set ds \<Longrightarrow> named_with deps m \<Longrightarrow> \<exists>r t. inst d m = Some (r, t) \<and> named_with deps t"
  shows "\<exists>r t. win_dependencies inst pack m = Some (r, t) \<and> named_with deps t"
proof (cases "ww_packages (world m) pack")
  case None
  with assms(1) show ?thesis by (simp add: win_dependencies_def)
next
  case (Some p)
  with assms(1) have ds: "deps pack = Some (wk_dependencies p)" by (auto simp: named_with_def dest: spec [of _ pack])
  have "\<exists>r t. eachP (\<lambda>d. wrapP ''failed to install dependencies'' (inst d)) (wk_dependencies p) m = Some (r, t) \<and> named_with deps t"
  proof (rule eachP_returns [where I = "named_with deps", OF _ assms(1)])
    fix d and m :: "'a win_world machine"
    assume "d \<in> set (wk_dependencies p)" "named_with deps m"
    with assms(2) [OF ds] obtain r t where "inst d m = Some (r, t)" "named_with deps t" by blast
    then show "\<exists>r t. wrapP ''failed to install dependencies'' (inst d) m = Some (r, t) \<and> named_with deps t"
      by (simp add: wrapP_def)
  qed
  with Some assms(1) show ?thesis by (simp add: win_dependencies_def)
qed

lemma windows_install_named:
  fixes rank :: "string \<Rightarrow> nat"
  assumes "packages_private we" "\<And>n ds d. deps n = Some ds \<Longrightarrow> d \<in> set ds \<Longrightarrow> rank d < rank n"
  shows "named_with deps m \<Longrightarrow> \<exists>r t. windows_install we opts pack m = Some (r, t) \<and> named_with deps t"
proof (induction "rank pack" arbitrary: pack m rule: less_induct)
  case less
  have "\<exists>r t. win_dependencies (\<lambda>d. windows_install we opts d) pack m = Some (r, t) \<and> named_with deps t"
    by (rule win_dependencies_returns [OF less.prems]) (use less.hyps assms(2) in blast)
  then obtain r t where d: "win_dependencies (\<lambda>d. windows_install we opts d) pack m = Some (r, t)" "named_with deps t" by blast
  show ?case
  proof (cases r)
    case (Inl e)
    with d show ?thesis by (subst windows_install.simps) simp
  next
    case (Inr u)
    obtain r' t' where "install_known we opts pack t = (r', t')" by fastforce
    with install_known_named [OF assms(1) d(2), of opts pack] d(1) Inr show ?thesis
      by (subst windows_install.simps) simp
  qed
qed

text \<open>Packages whose first dependencies lead back to each other are installed for ever.\<close>

lemma cyclic_dependencies_never_end:
  assumes cycle: "\<And>n. n \<in> C \<Longrightarrow> \<exists>p d ds. ww_packages (world m) n = Some p \<and> wk_dependencies p = d # ds \<and> n \<notin> set (d # ds) \<and> d \<in> C"
    and "pack \<in> C"
  shows "windows_install we opts pack m = None"
proof (rule ccontr)
  assume "windows_install we opts pack m \<noteq> None"
  then obtain r where ret: "windows_install we opts pack m = Some r" by blast
  let ?P = "\<lambda>we' opts' n m' r. m' = m \<longrightarrow> n \<notin> C"
  have "?P we opts pack m r"
  proof (rule windows_install.raw_induct [where P = ?P, OF _ ret])
    fix f :: "'a win_env \<Rightarrow> config_values \<Rightarrow> string \<Rightarrow> 'a win_world machine \<Rightarrow> (unit result \<times> 'a win_world machine) option"
    fix we opts n m' r
    assume IH: "\<And>we opts n m' r. f we opts n m' = Some r \<Longrightarrow> m' = m \<longrightarrow> n \<notin> C"
      and eq: "Option.bind (win_dependencies (\<lambda>d. f we opts d) n m') (\<lambda>(r, t). case r of
        Inl e \<Rightarrow> Some (Inl (WithMessage e ''failed to install dependencies''), t)
      | Inr _ \<Rightarrow> Some (install_known we opts n t)) = Some r"
    show "m' = m \<longrightarrow> n \<notin> C"
    proof (intro impI notI)
      assume m: "m' = m" and "n \<in> C"
      from cycle [OF this(2)] obtain p d ds where p: "ww_packages (world m) n = Some p" "wk_dependencies p = d # ds"
        "n \<notin> set (d # ds)" "d \<in> C" by blast
      from IH [of we opts d m] p(4) have "f we opts d m = None" by (cases "f we opts d m") auto
      with p eq m show False by (simp add: win_dependencies_def bindP_def wrapP_def)
    qed
  qed
  with assms(2) show False by simp
qed

subsection \<open>Rendered packages\<close>

definition plain :: "string \<Rightarrow> bool" where
  "plain s \<longleftrightarrow> \<not> contains_str s ''{{''"

text \<open>As \<open>text/template\<close> documents it: text outside of actions is copied to the output.\<close>

definition copies_plain_text :: "'w win_env \<Rightarrow> bool" where
  "copies_plain_text we \<longleftrightarrow> (\<forall>vars s m. plain s \<longrightarrow> wi_render we vars s m = (Inr s, m))"

definition plain_conditions :: "condition list \<Rightarrow> bool" where
  "plain_conditions cs \<longleftrightarrow> list_all (\<lambda>c. plain (cond_file_exists c) \<and> plain (cond_file_not_exists c)) cs"

definition plain_step :: "win_install_step \<Rightarrow> bool" where
  "plain_step s \<longleftrightarrow> plain_conditions (ws_conditions s) \<and> list_all plain (ws_commands s) \<and>
     list_all (\<lambda>e. plain (ev_value e)) (ws_env s) \<and> list_all plain (ws_wait_files s) \<and> plain (ws_wait_service s) \<and>
     list_all (\<lambda>g. plain (gp_path g)) (ws_permissions s)"

definition plain_service :: "win_service \<Rightarrow> bool" where
  "plain_service sv \<longleftrightarrow> plain (wv_executable sv) \<and> plain (wv_arguments sv) \<and> plain (wv_working_directory sv) \<and>
     plain (wv_stop_executable sv) \<and> list_all (\<lambda>e. plain (ev_value e)) (wv_env sv)"

definition plain_package :: "win_package \<Rightarrow> bool" where
  "plain_package p \<longleftrightarrow>
     list_all (\<lambda>s. plain_conditions (wp_conditions s) \<and> list_all plain (wp_commands s)) (wk_pre_install p) \<and>
     list_all plain_step (wk_install p) \<and>
     list_all (\<lambda>s. plain_conditions (wu_conditions s) \<and> list_all plain (wu_commands s)) (wk_uninstall p) \<and>
     (case wk_service p of None \<Rightarrow> True | Some sv \<Rightarrow> plain_service sv)"

definition settled :: "('s, 'a) change \<Rightarrow> 'a \<Rightarrow> bool" where
  "settled u x \<longleftrightarrow> (\<forall>s. u x s = ((x, None), s))"

lemma settled_then: "settled u x \<Longrightarrow> settled v x \<Longrightarrow> settled (change_then u v) x"
  by (simp add: settled_def change_then_def)

lemma settled_all: "(\<And>u. u \<in> set us \<Longrightarrow> settled u x) \<Longrightarrow> settled (change_all us) x"
  by (induction us) (simp_all add: change_all_def settled_then, simp add: settled_def unchanged_def)

lemma settled_msg: "settled u x \<Longrightarrow> settled (change_msg msg u) x"
  by (simp add: settled_def change_msg_def)

lemma settled_field: "settled u (get x) \<Longrightarrow> put (get x) x = x \<Longrightarrow> settled (change_field get put u) x"
  by (simp add: settled_def change_field_def)

lemma settled_each: "(\<And>i x. x \<in> set xs \<Longrightarrow> settled (u i) x) \<Longrightarrow> settled (change_each u i) xs"
  by (induction xs arbitrary: i) (auto simp: settled_def)

lemma settled_option: "(\<And>y. x = Some y \<Longrightarrow> settled u y) \<Longrightarrow> settled (change_option u) x"
  by (cases x) (auto simp: settled_def)

lemma settled_render: "copies_plain_text we \<Longrightarrow> plain s \<Longrightarrow> settled (render we vars) s"
  by (simp add: settled_def copies_plain_text_def render_def)

lemmas settling = settled_then settled_all settled_msg settled_field settled_each settled_option settled_render

lemma settled_conditions: "copies_plain_text we \<Longrightarrow> plain_conditions cs \<Longrightarrow> settled (render_conditions we vars) cs"
  unfolding render_conditions_def render_condition_def
  by (auto intro!: settling simp: plain_conditions_def list_all_iff)

lemma settled_step: "copies_plain_text we \<Longrightarrow> plain_step s \<Longrightarrow> settled (render_install_step we vars name i) s"
proof -
  assume c: "copies_plain_text we" "plain_step s"
  have fields: "settled (render_step_fields we vars name i) s"
    unfolding render_step_fields_def Let_def using c
    by (auto intro!: settling simp: plain_step_def list_all_iff)
  have command: "settled (render_command we vars j) s" if "j < length (ws_commands s)" for j
    unfolding render_command_def using c that
    by (auto intro!: settling simp: plain_step_def list_all_iff)
  have conditions: "settled (render_conditions we vars) (ws_conditions s)"
    using c by (simp add: settled_conditions plain_step_def)
  have "settled (change_then
       (change_msg (\<lambda>_. variables_message (''install step '' @ itoa_nat i @ '' conditions'') name)
         (change_field ws_conditions (\<lambda>y s. s\<lparr>ws_conditions := y\<rparr>) (render_conditions we vars)))
       (change_all (map (\<lambda>j. change_then
          (change_msg (\<lambda>_. variables_message (''install step '' @ itoa_nat i @ '' command '' @ itoa_nat j) name) (render_command we vars j))
          (render_step_fields we vars name i)) [0..<length (ws_commands s)]))) s"
    by (auto intro!: settled_then settled_msg settled_field settled_all fields command conditions)
  then show ?thesis by (simp add: settled_def render_install_step_def)
qed

lemma settled_service: "copies_plain_text we \<Longrightarrow> plain_service sv \<Longrightarrow> settled (render_service we vars) sv"
  unfolding render_service_def by (auto intro!: settling simp: plain_service_def list_all_iff)

lemma settled_package:
  assumes "copies_plain_text we" "plain_package p"
  shows "settled (replace_runtime_variables we vars) p"
proof -
  have pre: "settled (render_pre_install we vars name i) s" if "s \<in> set (wk_pre_install p)" for name i s
    unfolding render_pre_install_def using assms that
    by (auto intro!: settling settled_conditions simp: plain_package_def list_all_iff)
  have un: "settled (render_uninstall_step we vars name i) s" if "s \<in> set (wk_uninstall p)" for name i s
    unfolding render_uninstall_step_def using assms that
    by (auto intro!: settling settled_conditions simp: plain_package_def list_all_iff)
  have step: "settled (render_install_step we vars name i) s" if "s \<in> set (wk_install p)" for name i s
    using assms that by (auto intro: settled_step simp: plain_package_def list_all_iff)
  have sv: "settled (render_service we vars) y" if "wk_service p = Some y" for y
    using assms that by (auto intro: settled_service simp: plain_package_def)
  have "settled (package_changes we vars name) p" for name
    unfolding package_changes_def
    by (rule settled_all) (auto intro!: settled_field settled_each settled_option pre un step sv)
  then show ?thesis by (simp add: settled_def replace_runtime_variables_def)
qed

subsection \<open>Other facts\<close>

text \<open>A command without words ends the installation as a success, before its service is made.\<close>

lemma blank_command_ends_installation:
  assumes "make_install_dir we dir m = (Inr (), a)" "pre_installation_steps we p a = (Inr (), b)"
    "download_first we dir None (wk_download_urls p) b = (Inr (), c)"
    "wk_install p = s # steps" "ws_conditions s = []" "ws_permissions s = []" "ws_commands s = cmd # cmds"
    "sm_split (wi_scm we) cmd = Inr []"
  shows "install_in we p dir m = (Inr (), c)"
  using assms
  by (simp add: install_in_def bindE_def wrapE_def retE_def run_install_step_def run_install_command_def conditions_hold_def
      grant_permissions_def)

text \<open>
  A package whose commands are all found and whose service exists is installed like any other: all of
  the steps run again, but for the service itself.
\<close>

lemma found_package_is_installed_again:
  assumes "wk_service p = Some sv" "wk_install_path p \<noteq> []"
    "rendered_package we \<lparr>rv_lookups = found_lookups we (lookup_results we (wk_lookup_paths p) m), rv_options = opts,
       rv_install_path = wk_install_path p\<rparr> p m = (Inr p, a)"
    "pre_process we (wk_name p) (resolved_path (lookup_results we (wk_lookup_paths p) m)) a = (Inr (), b)"
  shows "install_package we opts p m = install_in we p (wk_install_path p) b"
  using assms by (simp add: install_package_def Let_def bindE_def)

lemma join_path: "join_with '';'' (split_char (CHR '';'') s) = s"
  using join_split_char [of "CHR '';''" s] by simp

text \<open>What was appended to the search path is removed again.\<close>

lemma path_restored:
  assumes "wi_setenv we = (\<lambda>_. None)" "\<forall>p \<in> set paths. CHR '';'' \<notin> set p"
    "\<forall>e \<in> set (path_entries m). \<not> list_ex (equal_fold e) paths"
    "append_path_env we paths m = (Inr (), t)" "remove_path_env we paths t = (Inr (), u)"
  shows "ww_path (world u) = ww_path (world m)"
proof -
  define add where "add = (\<lambda>p new. if \<not> is_file_exists (wi_os we) p m \<or> p \<in> set (path_entries m) \<or> p \<in> set new then new else new @ [p])"
  define new where "new = fold add paths []"
  have one: "set (add p ns) \<subseteq> insert p (set ns)" for p ns by (auto simp: add_def)
  have "set (fold add ps ns) \<subseteq> set ns \<union> set ps" for ps ns
  proof (induction ps arbitrary: ns)
    case (Cons p ps)
    from Cons.IH [of "add p ns"] one [of p ns] show ?case by auto
  qed simp
  then have new: "set new \<subseteq> set paths" unfolding new_def by fastforce
  have run: "append_path_env we paths m = (if new = [] then (Inr (), m)
      else wrapE ''failed to set PATH env variable'' (set_path we (join_with '';'' (path_entries m @ new))) m)"
    by (simp add: append_path_env_def Let_def new_def add_def)
  have kept: "filter (\<lambda>p. \<not> list_ex (equal_fold p) paths) (path_entries m) = path_entries m"
    using assms(3) by (simp add: filter_id_conv)
  show ?thesis
  proof (cases "new = []")
    case True
    with run assms(4) have "t = m" by simp
    with assms(5) kept show ?thesis by (simp add: remove_path_env_def Let_def)
  next
    case False
    with run assms(1,4) have t: "ww_path (world t) = join_with '';'' (path_entries m @ new)"
      by (auto simp: wrapE_def set_path_def)
    have "list_all (\<lambda>e. CHR '';'' \<notin> set e) (path_entries m @ new)"
      using assms(2) new split_char_no_sep by (auto simp: list_all_iff path_entries_def)
    then have entries: "path_entries t = path_entries m @ new"
      unfolding path_entries_def t using False by (intro split_char_join) (auto simp: list_all_iff)
    have "filter (\<lambda>p. \<not> list_ex (equal_fold p) paths) new = []"
      using new by (auto simp: filter_empty_conv list_ex_iff equal_fold_def)
    then have "filter (\<lambda>p. \<not> list_ex (equal_fold p) paths) (path_entries t) = path_entries m"
      using entries kept by simp
    moreover have "length (path_entries m) \<noteq> length (path_entries t)" using entries False by simp
    ultimately have "u = t\<lparr>world := (world t)\<lparr>ww_path := join_with '';'' (path_entries m)\<rparr>\<rparr>"
      using assms(1,5) by (simp add: remove_path_env_def Let_def wrapE_def set_path_def)
    then show ?thesis by (simp add: path_entries_def join_path)
  qed
qed

section \<open>Properties\<close>

text \<open>
  C37: on Windows the installation of a package returns, whatever fails, when no package depends on itself
  through others: when the packages can be ranked such that dependencies have lower ranks.
\<close>

theorem windows_install_ends:
  fixes rank :: "string \<Rightarrow> nat"
  assumes "packages_private we"
    and "\<And>n p. ww_packages (world m) n = Some p \<Longrightarrow> wk_name p = n"
    and "\<And>n p d. ww_packages (world m) n = Some p \<Longrightarrow> d \<in> set (wk_dependencies p) \<Longrightarrow> rank d < rank n"
  shows "windows_install we opts pack m \<noteq> None"
proof -
  define deps where "deps = (\<lambda>n. map_option wk_dependencies (ww_packages (world m) n))"
  have m: "named_with deps m" using assms(2) by (simp add: named_with_def deps_def)
  have "rank d < rank n" if "deps n = Some ds" "d \<in> set ds" for n ds d
    using that assms(3) by (auto simp: deps_def)
  from windows_install_named [OF assms(1) this m] show ?thesis by force
qed

text \<open>
  C38: the steps of a package are shared with the cache and rendered in place: after the first installation
  they have its values, and a later one with other values runs with those of the first.
\<close>

theorem first_values_stay:
  assumes "copies_plain_text we" "rendered_package we vars p m = (Inr q, t)" "plain_package q"
  shows "ww_packages (world t) (wk_name p) = Some q \<and> rendered_package we other_vars q t = (Inr q, t)"
proof -
  obtain u where u: "replace_runtime_variables we vars p m = ((q, None), u)" "t = store_package q u"
    using assms(2) by (auto simp: rendered_package_def split: prod.splits option.splits)
  have name: "wk_name q = wk_name p" using replaced_identity(1) [of we vars p m] u(1) by simp
  have stored: "ww_packages (world t) (wk_name q) = Some q" using u(2) by (simp add: store_package_def)
  then have "store_package q t = t" by (simp add: store_package_def fun_upd_idem)
  with settled_package [OF assms(1,3), of other_vars] stored name show ?thesis
    by (simp add: settled_def rendered_package_def)
qed


section \<open>An example\<close>

definition windows_host :: "nat win_world host" where
  "windows_host =
     \<lparr>ho_os = calm_os, ho_exec = (\<lambda>_. retE ()), ho_look_path = (\<lambda>n _. Inl (NotExist n)), ho_distribution = ''windows'',
      ho_home = None, ho_runtime_dir = [], ho_username = Inr ''u'', ho_euid = 0, ho_init_exe = (\<lambda>_. Inl Canceled),
      ho_processes = (\<lambda>_. Inr []), ho_terminate = (\<lambda>_. retE ()), ho_kill = (\<lambda>_. retE ()), ho_is_running = (\<lambda>_ _. (False, None)),
      ho_status = (\<lambda>_ _. Inr []), ho_tick = (\<lambda>m. m), ho_canceled = (\<lambda>_. False), ho_start_process = (\<lambda>_ _. retE 7)\<rparr>"

definition windows_env :: "nat win_env" where
  "windows_env =
     \<lparr>wi_scm = \<lparr>sm_host = windows_host, sm_connect = (\<lambda>_. None), sm_open = (\<lambda>_ _. False), sm_query = (\<lambda>_ _. Inr Stopped),
        sm_text = (\<lambda>_. []), sm_split = (\<lambda>s. Inr (split_char (CHR '' '') s))\<rparr>,
      wi_output = (\<lambda>_. retE []), wi_stdout = (\<lambda>_. retE []), wi_run_in = (\<lambda>_ _ _. retE ()),
      wi_render = (\<lambda>v s m. (Inr (if plain s then s else rv_install_path v), m)), wi_mkdtemp = (\<lambda>_. retE ''T''),
      wi_url_path = (\<lambda>u. Inr u), wi_download = (\<lambda>_ _. retE ()), wi_download_file = (\<lambda>_ _. retE ()), wi_get_file = (\<lambda>_ _. retE ()),
      wi_encode = (\<lambda>_. Inr []), wi_join = concat, wi_dir = (\<lambda>p. p), wi_walk = (\<lambda>_. []), wi_list_dir = (\<lambda>_ _. Inr []),
      wi_setenv = (\<lambda>_. None),
      wi_fs = \<lparr>fl_os = calm_os, fl_copy = (\<lambda>_ _. retE ()), fl_remove_all = (\<lambda>_. retE ()), fl_cross_device = (\<lambda>_. False),
        fl_owner = (\<lambda>_ _. (0, 0)), fl_chown = (\<lambda>_ _ _. retE ()), fl_create_temp = (\<lambda>_. retE ''T'')\<rparr>,
      wi_regex = (\<lambda>_ _. Inr False), wi_order = (\<lambda>x. x)\<rparr>"

definition templated_package :: "string \<Rightarrow> string list \<Rightarrow> win_package" where
  "templated_package name deps =
     \<lparr>wk_name = name, wk_lookup_paths = [name], wk_download_urls = [], wk_install_path = ''C'', wk_pre_install = [],
      wk_install = [], wk_path_env = [], wk_uninstall = [\<lparr>wu_conditions = [], wu_commands = [''{{.InstallPath}}''], wu_exit_codes = []\<rparr>],
      wk_dependencies = deps, wk_service = None\<rparr>"

definition windows_machine :: "string list \<Rightarrow> nat win_world machine" where
  "windows_machine fs =
     \<lparr>files = (\<lambda>f. if f \<in> set fs then Some [] else None), dirs = {},
      world = \<lparr>ww_world = 0, ww_packages = [''php'' \<mapsto> templated_package ''php'' [''shawl''], ''shawl'' \<mapsto> templated_package ''shawl'' []], ww_path = ''W;S''\<rparr>,
      service_memo = None\<rparr>"

lemma windows_env_private: "packages_private windows_env"
  by (simp add: packages_private_def windows_env_def windows_host_def keeps_def same_packages_def retE_def)

theorem windows_install_ends_witness:
  "windows_install windows_env [] ''php'' (windows_machine []) \<noteq> None"
  by (rule windows_install_ends [OF windows_env_private, where rank = "\<lambda>n. if n = ''php'' then 1 else 0"])
    (auto simp: windows_machine_def templated_package_def split: if_splits)

theorem first_values_stay_witness:
  "\<exists>q t. rendered_package windows_env \<lparr>rv_lookups = [], rv_options = [], rv_install_path = ''C''\<rparr> (templated_package ''shawl'' []) (windows_machine []) = (Inr q, t) \<and>
     rendered_package windows_env \<lparr>rv_lookups = [], rv_options = [], rv_install_path = ''D''\<rparr> q t = (Inr q, t)"
proof -
  let ?run = "rendered_package windows_env \<lparr>rv_lookups = [], rv_options = [], rv_install_path = ''C''\<rparr> (templated_package ''shawl'' []) (windows_machine [])"
  have "case ?run of (Inr q, t) \<Rightarrow> plain_package q | _ \<Rightarrow> False" by code_simp
  then obtain q t where q: "?run = (Inr q, t)" "plain_package q" by (auto split: prod.splits sum.splits)
  have "copies_plain_text windows_env" by (simp add: copies_plain_text_def windows_env_def)
  from first_values_stay [OF this q] q(1) show ?thesis by blast
qed


end
