(* ===== verification/SendLogs.thy ===== *)
theory SendLogs
  imports PanelControl PanelInstaller PackageConfig
begin

text \<open>
  The report of logs (\<open>internal/actions/sendlogs\<close>): the logs of the programs, the journal, the panel, its
  web server and database are copied to a temporary directory, which is packed and sent. Copies and removals of
  trees, the order of a walk, patterns of file names, the encoder of archives and the request are parameters.
\<close>

section \<open>The environment\<close>

text \<open>What \<open>filepath.Walk\<close> sees: the size is that of the header; a link has none.\<close>

datatype seen_kind = SeenDir | SeenFile nat | SeenLink

record seen =
  seen_path :: string
  seen_error :: bool
  seen_kind :: seen_kind
  seen_header_error :: "go_error option"

record tar_entry =
  te_name :: string
  te_kind :: seen_kind
  te_content :: string

record 'w logs_env =
  lg_control :: "'w control_env"
  lg_fs :: "'w fs_lib"
  lg_users :: "'w user_env"
  lg_info :: os_info
  lg_version :: string
  lg_build_date :: string
  lg_mkdtemp :: "string \<Rightarrow> ('w, string) sys"
  lg_create_temp :: "string \<Rightarrow> ('w, string) sys"
  lg_chmod :: "string \<Rightarrow> ('w, unit) sys"
  lg_glob :: "string \<Rightarrow> 'w machine \<Rightarrow> string list"
  lg_output :: "string list \<Rightarrow> ('w, string) sys"
  lg_walk :: "string \<Rightarrow> 'w machine \<Rightarrow> seen list"
  lg_archive :: "tar_entry list \<Rightarrow> string"
  lg_post :: "string \<Rightarrow> string \<Rightarrow> string \<Rightarrow> ('w, nat \<times> string) sys"
  lg_decode_id :: "string \<Rightarrow> string result"

abbreviation lg_host :: "'w logs_env \<Rightarrow> 'w host" where "lg_host lg \<equiv> co_host (lg_control lg)"
abbreviation lg_os :: "'w logs_env \<Rightarrow> 'w os_env" where "lg_os lg \<equiv> ho_os (lg_host lg)"

abbreviation lg_load :: "'w logs_env \<Rightarrow> ('w, panel_install_record) sys" where
  "lg_load lg \<equiv> load_panel_record (lg_control lg)"

section \<open>Collecting\<close>

text \<open>Owner and mode of what was copied; errors are only logged.\<close>

definition open_logs :: "'w logs_env \<Rightarrow> string \<Rightarrow> ('w, unit) sys" where
  "open_logs lg dir = bindE (quietly (chown_r (lg_users lg) dir 1000 1000)) (\<lambda>_. quietly (lg_chmod lg dir))"

definition collect_directory :: "'w logs_env \<Rightarrow> string \<Rightarrow> string \<Rightarrow> string \<Rightarrow> ('w, unit) sys" where
  "collect_directory lg log_path dest copy_error m =
     (if \<not> is_file_exists (lg_os lg) log_path m then (Inr (), m)
      else bindE (wrapE ''failed to create daemon logs directory'' (make_dir (lg_os lg) dest)) (\<lambda>_.
           bindE (wrapE copy_error (fl_copy (lg_fs lg) log_path dest)) (\<lambda>_. open_logs lg dest)) m)"

definition collect_gameapctl_logs :: "'w logs_env \<Rightarrow> string \<Rightarrow> ('w, unit) sys" where
  "collect_gameapctl_logs lg dir =
     collect_directory lg ''/var/log/gameapctl'' (path_join [dir, ''gameapctl'']) ''failed to copy gameapctl logs''"

definition collect_daemon_logs :: "'w logs_env \<Rightarrow> string \<Rightarrow> ('w, unit) sys" where
  "collect_daemon_logs lg dir =
     collect_directory lg ''/var/log/gameap-daemon'' (path_join [dir, ''gameap-daemon'']) ''failed to copy daemon logs''"

definition journal_units :: "string list" where "journal_units = [''gameap'', ''gameap-daemon'']"

definition collect_unit_journal :: "'w logs_env \<Rightarrow> string \<Rightarrow> string \<Rightarrow> ('w, unit) sys" where
  "collect_unit_journal lg dest unit_name =
     bindE (lg_output lg [''journalctl'', ''-u'', unit_name, ''--no-pager'', ''-n'', ''1000'']) (\<lambda>out.
       write_file (lg_os lg) (path_join [dest, unit_name @ ''.log'']) out)"

text \<open>An init system that is not recognised is no error.\<close>

definition collect_journal_logs :: "'w logs_env \<Rightarrow> string \<Rightarrow> ('w, unit) sys" where
  "collect_journal_logs lg dir m =
     (if detect_init (lg_host lg) m \<noteq> InitSystemd then (Inr (), m)
      else case ho_look_path (lg_host lg) ''journalctl'' m of
        Inl e \<Rightarrow> (Inl e, m)
      | Inr _ \<Rightarrow>
          (let dest = path_join [dir, ''journal''] in
           bindE (wrapE ''failed to create journal logs directory'' (make_dir (lg_os lg) dest)) (\<lambda>_.
           bindE (eachE (\<lambda>u. quietly (collect_unit_journal lg dest u)) journal_units) (\<lambda>_. open_logs lg dest)) m))"

definition default_panel_install_path :: string where "default_panel_install_path = ''/var/www/gameap''"

definition collect_panel_logs :: "'w logs_env \<Rightarrow> string \<Rightarrow> ('w, unit) sys" where
  "collect_panel_logs lg dir m =
     (case lg_load lg m of (r, t) \<Rightarrow>
        let path = (case r of Inl _ \<Rightarrow> [] | Inr st \<Rightarrow> pir_path st);
            panel = (if path = [] then default_panel_install_path else path);
            logs = path_join [panel, ''storage'', ''logs'']; dest = path_join [dir, ''panel'']
        in if \<not> is_file_exists (lg_os lg) panel t \<or> \<not> is_file_exists (lg_os lg) logs t then (Inr (), t)
           else bindE (wrapE ''failed to copy gameap logs'' (fl_copy (lg_fs lg) logs dest)) (\<lambda>_. open_logs lg dest) t)"

text \<open>The candidates that are there, into a directory that is made for the first of them.\<close>

definition copy_log :: "'w logs_env \<Rightarrow> string \<Rightarrow> string \<Rightarrow> ('w, unit) sys" where
  "copy_log lg dest log_path = quietly (fl_copy (lg_fs lg) log_path (path_join [dest, path_base log_path]))"

fun copy_candidates :: "'w logs_env \<Rightarrow> string \<Rightarrow> string \<Rightarrow> bool \<Rightarrow> string list \<Rightarrow> ('w, bool) sys" where
  "copy_candidates lg dest what copied [] m = (Inr copied, m)"
| "copy_candidates lg dest what copied (c # cs) m =
     (if \<not> is_file_exists (lg_os lg) c m then copy_candidates lg dest what copied cs m
      else bindE (if copied then retE ()
                  else wrapE (''failed to create '' @ what @ '' logs directory'') (mkdir_all (lg_os lg) dest)) (\<lambda>_.
           bindE (copy_log lg dest c) (\<lambda>_. copy_candidates lg dest what True cs)) m)"

definition collect_candidates :: "'w logs_env \<Rightarrow> string \<Rightarrow> string \<Rightarrow> string list \<Rightarrow> ('w, unit) sys" where
  "collect_candidates lg dest what cs =
     bindE (copy_candidates lg dest what False cs) (\<lambda>copied. if copied then open_logs lg dest else retE ())"

definition web_server_candidates :: "'w logs_env \<Rightarrow> string \<Rightarrow> 'w machine \<Rightarrow> string list" where
  "web_server_candidates lg server m =
     (if server = ''nginx'' then ''/var/log/nginx/error.log'' # lg_glob lg ''/var/log/nginx/gameap*'' m
      else if server = ''apache'' then
        [''/var/log/apache2/error.log'', ''/var/log/apache2/gameap_error.log'', ''/var/log/apache2/gameap_access.log'',
         ''/var/log/httpd/error_log''] @ lg_glob lg ''/var/log/httpd/gameap*'' m
      else [])"

definition collect_web_server_logs :: "'w logs_env \<Rightarrow> string \<Rightarrow> ('w, unit) sys" where
  "collect_web_server_logs lg dir m =
     (case lg_load lg m of
        (Inl _, t) \<Rightarrow> (Inr (), t)
      | (Inr st, t) \<Rightarrow>
          if pir_web_server st = [] \<or> pir_web_server st = ''none'' then (Inr (), t)
          else collect_candidates lg (path_join [dir, ''webserver'']) ''webserver''
            (web_server_candidates lg (pir_web_server st) t) t)"

definition database_candidates :: "'w logs_env \<Rightarrow> string \<Rightarrow> 'w machine \<Rightarrow> string list" where
  "database_candidates lg db m =
     (if db \<in> set [''mysql'', ''mariadb''] then
        [''/var/log/mysql/error.log'', ''/var/log/mariadb/mariadb.log'', ''/var/log/mysqld.log'']
      else if db \<in> set [''postgres'', ''postgresql'', ''pgsql''] then lg_glob lg ''/var/log/postgresql/*.log'' m
      else [])"

definition collect_database_logs :: "'w logs_env \<Rightarrow> string \<Rightarrow> ('w, unit) sys" where
  "collect_database_logs lg dir m =
     (case lg_load lg m of
        (Inl _, t) \<Rightarrow> (Inr (), t)
      | (Inr st, t) \<Rightarrow>
          if pir_database st = [] \<or> pir_database st = ''none'' \<or> pir_database st = ''sqlite'' then (Inr (), t)
          else collect_candidates lg (path_join [dir, ''database'']) ''database''
            (database_candidates lg (pir_database st) t) t)"

definition info_line :: "string \<Rightarrow> string \<Rightarrow> string" where
  "info_line label v = label @ '': '' @ v @ [CHR 0x0A]"

definition system_lines :: "'w logs_env \<Rightarrow> string" where
  "system_lines lg =
     (let i = lg_info lg in
      info_line ''GameAPCtl Version'' (lg_version lg) @ info_line ''GameAPCtl Build Date'' (lg_build_date lg) @
      info_line ''Kernel'' (oi_kernel i) @ info_line ''Core'' (oi_core i) @ info_line ''Distribution'' (oi_distribution i) @
      info_line ''DistributionVersion'' (oi_version i) @ info_line ''DistributionCodename'' (oi_codename i) @
      info_line ''Platform'' (oi_platform i) @ info_line ''OS'' (oi_os i) @ info_line ''Hostname'' (oi_hostname i))"

definition panel_lines :: "panel_install_record \<Rightarrow> string" where
  "panel_lines st =
     (let opt = (\<lambda>label v. if v = [] then [] else info_line label v) in
      opt ''Host'' (pir_host st) @ opt ''Host IP'' (pir_host_ip st) @ opt ''Port'' (pir_port st) @ opt ''Path'' (pir_path st) @
      opt ''Web server'' (pir_web_server st) @ opt ''Database'' (pir_database st) @
      (if pir_database st \<noteq> [] \<and> pir_database_was_installed st then ''Database was installed'' @ [CHR 0x0A] else []))"

text \<open>The lines are appended one by one, and their errors ignored: here they are appended in two parts.\<close>

definition append_info :: "'w logs_env \<Rightarrow> string \<Rightarrow> string \<Rightarrow> ('w, unit) sys" where
  "append_info lg f c m = write_file (lg_os lg) f ((case files m f of None \<Rightarrow> [] | Some old \<Rightarrow> old) @ c) m"

definition collect_system_info :: "'w logs_env \<Rightarrow> string \<Rightarrow> ('w, unit) sys" where
  "collect_system_info lg dir =
     (let f = path_join [dir, ''system_info.txt''] in
      bindE (wrapE ''failed to open file'' (append_info lg f [])) (\<lambda>_.
      bindE (quietly (append_info lg f (system_lines lg))) (\<lambda>_ m.
        case lg_load lg m of
          (Inl _, t) \<Rightarrow> (Inr (), t)
        | (Inr st, t) \<Rightarrow> quietly (append_info lg f (panel_lines st)) t)))"

definition collect_additional_log :: "'w logs_env \<Rightarrow> string \<Rightarrow> string \<Rightarrow> ('w, unit) sys" where
  "collect_additional_log lg dest log_path m =
     (if \<not> is_file_exists (lg_os lg) log_path m then (Inr (), m) else copy_log lg dest log_path m)"

definition collect_additional_logs :: "'w logs_env \<Rightarrow> string list \<Rightarrow> string \<Rightarrow> ('w, unit) sys" where
  "collect_additional_logs lg logs dir =
     (let dest = path_join [dir, ''additional''] in
      bindE (eachE (collect_additional_log lg dest) logs) (\<lambda>_. open_logs lg dest))"

definition collect_all_logs :: "'w logs_env \<Rightarrow> string \<Rightarrow> string list \<Rightarrow> ('w, unit) sys" where
  "collect_all_logs lg dir additional =
     bindE (eachE (\<lambda>collect. quietly (collect lg dir))
       [collect_gameapctl_logs, collect_daemon_logs, collect_journal_logs, collect_panel_logs, collect_web_server_logs,
        collect_database_logs, collect_system_info]) (\<lambda>_.
       if additional = [] then retE () else quietly (collect_additional_logs lg additional dir))"

section \<open>Packing and sending\<close>

text \<open>\<open>filepath.Rel\<close> of a path that the walk found below the directory.\<close>

definition relative_path :: "string \<Rightarrow> string \<Rightarrow> string" where
  "relative_path dir p = (if p = dir then ''.'' else trim_prefix p (dir @ ''/''))"

definition header_size :: "seen_kind \<Rightarrow> nat" where
  "header_size k = (case k of SeenFile n \<Rightarrow> n | _ \<Rightarrow> 0)"

text \<open>
  The walk with the writer of \<open>archive/tar\<close>: it refuses contents longer than the header said, and the next
  header, or the end, when there is less. Everything but a directory is opened and copied, links too.
\<close>

fun pack_entries :: "'w logs_env \<Rightarrow> string \<Rightarrow> seen list \<Rightarrow> nat \<Rightarrow> tar_entry list \<Rightarrow> ('w, tar_entry list) sys" where
  "pack_entries lg dir [] missing done_entries m =
     (if 0 < missing then (Inl (Err (''archive/tar: missed writing '' @ itoa_nat missing @ '' bytes'')), m)
      else (Inr done_entries, m))"
| "pack_entries lg dir (s # ss) missing done_entries m =
     (if seen_error s then pack_entries lg dir ss missing done_entries m
      else case seen_header_error s of
        Some e \<Rightarrow> (Inl e, m)
      | None \<Rightarrow>
          if 0 < missing then (Inl (Err (''archive/tar: missed writing '' @ itoa_nat missing @ '' bytes'')), m)
          else (let entry = (\<lambda>c. \<lparr>te_name = relative_path dir (seen_path s), te_kind = seen_kind s, te_content = c\<rparr>);
                    size = header_size (seen_kind s) in
            if seen_kind s = SeenDir then pack_entries lg dir ss 0 (done_entries @ [entry []]) m
            else (case read_file (lg_os lg) (seen_path s) m of
                (Inl e, t) \<Rightarrow> (Inl e, t)
              | (Inr c, t) \<Rightarrow>
                  if size < length c then (Inl (Err ''archive/tar: write too long''), t)
                  else pack_entries lg dir ss (size - length c) (done_entries @ [entry c]) t)))"

text \<open>What is in the file after a failure is not modelled: it is only removed.\<close>

definition compress_logs :: "'w logs_env \<Rightarrow> string \<Rightarrow> string \<Rightarrow> ('w, unit) sys" where
  "compress_logs lg dir f m =
     bindE (pack_entries lg dir (lg_walk lg dir m) 0 []) (\<lambda>es. write_file (lg_os lg) f (lg_archive lg es)) m"

definition send_file :: "'w logs_env \<Rightarrow> string \<Rightarrow> ('w, string) sys" where
  "send_file lg f =
     bindE (wrapE ''failed to send logs''
       (bindE (read_file (lg_os lg) f) (lg_post lg ''https://api.gameap.io/send-logs'' ''application/tar+gzip''))) (\<lambda>(status, body).
       if status \<noteq> 200 then failE (Err (''failed to send logs: status '' @ itoa_nat status @ '', body: '' @ body))
       else case lg_decode_id lg body of
         Inl e \<Rightarrow> failE (WithMessage e ''failed to decode response'')
       | Inr i \<Rightarrow> retE i)"

definition pack_and_send :: "'w logs_env \<Rightarrow> string \<Rightarrow> ('w, string) sys" where
  "pack_and_send lg dir =
     bindE (lg_create_temp lg ''gameapctl-send-logs'') (\<lambda>f.
       finallyE
         (bindE (wrapE ''failed to compress logs'' (compress_logs lg dir f)) (\<lambda>_.
            wrapE ''failed to send file'' (send_file lg f)))
         (quietly (remove_file (lg_os lg) f)))"

definition handle_send_logs :: "'w logs_env \<Rightarrow> string list \<Rightarrow> ('w, string) sys" where
  "handle_send_logs lg additional =
     bindE (wrapE ''failed to create temp file'' (lg_mkdtemp lg ''gameapctl-send-logs'')) (\<lambda>dir.
       finallyE
         (bindE (collect_all_logs lg dir additional) (\<lambda>_. pack_and_send lg dir))
         (quietly (fl_remove_all (lg_fs lg) dir)))"

section \<open>Lemmas\<close>

definition inside :: "string \<Rightarrow> string \<Rightarrow> bool" where
  "inside d q \<longleftrightarrow> q = d \<or>
     path_is_abs q \<and> length (parts d) < length (parts q) \<and> take (length (parts d)) (parts q) = parts d"

lemma inside_below: "inside d q \<longleftrightarrow> q = d \<or> below d q"
proof -
  have "(\<exists>ss. ss \<noteq> [] \<and> b = a @ ss) \<longleftrightarrow> length a < length b \<and> take (length a) b = a" for a b :: "string list"
  proof
    assume r: "length a < length b \<and> take (length a) b = a"
    then have "b = a @ drop (length a) b" by (metis append_take_drop_id)
    with r show "\<exists>ss. ss \<noteq> [] \<and> b = a @ ss" by (intro exI [of _ "drop (length a) b"]) simp
  qed auto
  then show ?thesis unfolding inside_def below_def by blast
qed

text \<open>
  What is relied on: the temporary directory is \<open>d\<close> and the archive \<open>f\<close>; commands, requests and changes of
  owners and modes write no file; a copy writes only at and below its target; the removal of the
  directory removes what is in it and nothing else, and \<open>f\<close> can be removed; matches have a last element.
\<close>

definition logs_laws :: "'w logs_env \<Rightarrow> string \<Rightarrow> string \<Rightarrow> bool" where
  "logs_laws lg d f \<longleftrightarrow>
     path_is_abs d \<and> \<not> inside d f \<and>
     (\<forall>n m x t. lg_mkdtemp lg n m = (x, t) \<longrightarrow> files t = files m \<and> (\<forall>y. x = Inr y \<longrightarrow> y = d)) \<and>
     (\<forall>n m x t. lg_create_temp lg n m = (x, t) \<longrightarrow>
        (case x of Inl _ \<Rightarrow> files t = files m | Inr y \<Rightarrow> y = f \<and> (\<forall>q. q \<noteq> f \<longrightarrow> files t q = files m q))) \<and>
     (\<forall>a b q. \<not> inside b q \<longrightarrow> leaves q (fl_copy (lg_fs lg) a b)) \<and>
     (\<forall>m. files (snd (fl_remove_all (lg_fs lg) d m)) = (\<lambda>q. if inside d q then None else files m q)) \<and>
     (\<forall>m. fault (lg_os lg) (OpRemove f) m = None) \<and>
     (\<forall>q c. leaves q (lg_chmod lg c)) \<and> (\<forall>q c. leaves q (lg_output lg c)) \<and> (\<forall>q u c b. leaves q (lg_post lg u c b)) \<and>
     (\<forall>q p u g. leaves q (us_chown (lg_users lg) p u g)) \<and>
     (\<forall>p m c. c \<in> set (lg_glob lg p m) \<longrightarrow> plain_part (path_base c))"

lemma below_trans: "below a b \<Longrightarrow> below b c \<Longrightarrow> below a c"
  unfolding below_def by auto

lemma inside_join: "path_is_abs d \<Longrightarrow> plain_part n \<Longrightarrow> inside (path_join [d, n]) q \<Longrightarrow> inside d q"
  unfolding inside_below using below_join [of d "[n]"] below_trans [of d "path_join [d, n]" q] by auto

lemma inside_join2:
  "path_is_abs d \<Longrightarrow> plain_part n \<Longrightarrow> plain_part b \<Longrightarrow> inside (path_join [path_join [d, n], b]) q \<Longrightarrow> inside d q"
  using inside_join [of "path_join [d, n]" b q] inside_join [of d n q] path_join_is_abs [of d "[n]"] by auto

lemma make_dir_leaves [simp]: "leaves q (make_dir os p)"
  by (intro leavesI) (simp add: make_dir_def split: option.split)

lemma leaves_if: "leaves q a \<Longrightarrow> leaves q b \<Longrightarrow> leaves q (if c then a else b)"
  by simp

text \<open>For a file \<open>q\<close> outside of the directory: \<open>n\<close> is the name of a directory in it.\<close>

lemma open_logs_leaves: "logs_laws lg d f \<Longrightarrow> leaves q (open_logs lg p)"
proof -
  assume l: "logs_laws lg d f"
  have entry: "leaves q (chown_entry (lg_users lg) u g e)" for u g e
    using l by (intro leavesI) (auto simp: chown_entry_def logs_laws_def leaves_def keeps_def split: walk_link.split)
  have "leaves q (chown_r (lg_users lg) p u g)" for u g
    unfolding chown_r_def [abs_def] by (rule leaves_by_state) (rule leaves_eachE, rule entry)
  then show ?thesis
    unfolding open_logs_def using l by (intro leaves_bindE leaves_basic) (auto simp: logs_laws_def)
qed

lemma law_copy: "logs_laws lg d f \<Longrightarrow> \<not> inside b q \<Longrightarrow> leaves q (fl_copy (lg_fs lg) a b)"
  unfolding logs_laws_def by metis

lemma copy_leaves:
  assumes "logs_laws lg d f" "\<not> inside d q" "plain_part n"
  shows "leaves q (fl_copy (lg_fs lg) a (path_join [d, n]))"
  using inside_join [of d n q] assms by (intro law_copy [OF assms(1)]) (auto simp: logs_laws_def)

lemma copy_log_leaves:
  assumes "logs_laws lg d f" "\<not> inside d q" "plain_part n" "plain_part (path_base c)"
  shows "leaves q (copy_log lg (path_join [d, n]) c)"
  unfolding copy_log_def using inside_join2 [of d n "path_base c" q] assms
  by (intro leaves_basic law_copy [OF assms(1)]) (auto simp: logs_laws_def)

lemma collect_directory_leaves:
  assumes "logs_laws lg d f" "\<not> inside d q" "plain_part n"
  shows "leaves q (collect_directory lg p (path_join [d, n]) msg)"
proof (rule leavesI)
  fix s :: "'a machine"
  have "leaves q (bindE (wrapE ''failed to create daemon logs directory'' (make_dir (lg_os lg) (path_join [d, n]))) (\<lambda>_.
           bindE (wrapE msg (fl_copy (lg_fs lg) p (path_join [d, n]))) (\<lambda>_. open_logs lg (path_join [d, n]))))"
    by (intro leaves_bindE leaves_basic make_dir_leaves copy_leaves [OF assms] open_logs_leaves [OF assms(1)])
  then show "files (snd (collect_directory lg p (path_join [d, n]) msg s)) q = files s q"
    by (auto simp: collect_directory_def leaves_def keeps_def)
qed

lemma copy_candidates_leaves:
  assumes "logs_laws lg d f" "\<not> inside d q" "plain_part n" "\<forall>c \<in> set cs. plain_part (path_base c)"
  shows "leaves q (copy_candidates lg (path_join [d, n]) what copied cs)"
  using assms(4)
proof (induction cs arbitrary: copied)
  case Nil
  then show ?case by (intro leavesI) simp
next
  case (Cons c cs)
  have "leaves q (bindE (if copied then retE ()
                  else wrapE (''failed to create '' @ what @ '' logs directory'') (mkdir_all (lg_os lg) (path_join [d, n]))) (\<lambda>_.
           bindE (copy_log lg (path_join [d, n]) c) (\<lambda>_. copy_candidates lg (path_join [d, n]) what True cs)))"
    using Cons by (intro leaves_bindE leaves_if leaves_basic leaves_mkdir copy_log_leaves [OF assms(1-3)]) auto
  with Cons show ?case by (intro leavesI) (auto simp: leaves_def keeps_def)
qed

lemma collect_candidates_leaves:
  assumes "logs_laws lg d f" "\<not> inside d q" "plain_part n" "\<forall>c \<in> set cs. plain_part (path_base c)"
  shows "leaves q (collect_candidates lg (path_join [d, n]) what cs)"
  unfolding collect_candidates_def
  by (intro leaves_bindE leaves_if leaves_basic copy_candidates_leaves [OF assms] open_logs_leaves [OF assms(1)])

lemma loaded_leaves:
  assumes "\<And>st t. leaves q (g st t)"
  shows "leaves q (\<lambda>m. case load_panel_record co m of (Inl _, t) \<Rightarrow> (Inr (), t) | (Inr st, t) \<Rightarrow> g st t t)"
proof (rule leavesI)
  fix s :: "'a machine"
  obtain r t where r: "load_panel_record co s = (r, t)" by fastforce
  have "files t q = files s q" by (rule leavesD [OF load_record_leaves r])
  with assms r show "files (snd (case load_panel_record co s of (Inl _, t) \<Rightarrow> (Inr (), t) | (Inr st, t) \<Rightarrow> g st t t)) q = files s q"
    by (cases r) (auto simp: leaves_def keeps_def)
qed

lemma journal_leaves:
  assumes "logs_laws lg d f" "\<not> inside d q"
  shows "leaves q (collect_journal_logs lg d)"
proof (rule leavesI)
  fix s :: "'a machine"
  let ?dest = "path_join [d, ''journal'']"
  have part: "plain_part ''journal''" "plain_part (u @ ''.log'')" if "u \<in> set journal_units" for u
    using that by (auto simp: journal_units_def plain_part_def)
  have unit_log: "leaves q (quietly (collect_unit_journal lg ?dest u))" if "u \<in> set journal_units" for u
    using that assms part [OF that] inside_join2 [of d "''journal''" "u @ ''.log''" q]
    unfolding collect_unit_journal_def
    by (intro leaves_basic leaves_bindE leaves_write) (auto simp: logs_laws_def inside_def)
  have "leaves q (eachE (\<lambda>u. quietly (collect_unit_journal lg ?dest u)) journal_units)"
    using unit_log by (auto simp: journal_units_def intro!: leaves_bindE)
  then have "leaves q (bindE (wrapE ''failed to create journal logs directory'' (make_dir (lg_os lg) ?dest)) (\<lambda>_.
      bindE (eachE (\<lambda>u. quietly (collect_unit_journal lg ?dest u)) journal_units) (\<lambda>_. open_logs lg ?dest)))"
    by (intro leaves_bindE leaves_basic make_dir_leaves open_logs_leaves [OF assms(1)])
  then show "files (snd (collect_journal_logs lg d s)) q = files s q"
    by (auto simp: collect_journal_logs_def Let_def leaves_def keeps_def split: sum.splits)
qed

lemma panel_leaves:
  assumes "logs_laws lg d f" "\<not> inside d q"
  shows "leaves q (collect_panel_logs lg d)"
proof (rule leavesI)
  fix s :: "'a machine"
  obtain r t where r: "lg_load lg s = (r, t)" by fastforce
  have "files t q = files s q" by (rule leavesD [OF load_record_leaves r])
  moreover have "leaves q (bindE (wrapE ''failed to copy gameap logs'' (fl_copy (lg_fs lg) logs (path_join [d, ''panel''])))
      (\<lambda>_. open_logs lg (path_join [d, ''panel''])))" for logs
    by (intro leaves_bindE leaves_basic copy_leaves [OF assms] open_logs_leaves [OF assms(1)]) (simp add: plain_part_def)
  ultimately show "files (snd (collect_panel_logs lg d s)) q = files s q"
    using r by (auto simp: collect_panel_logs_def Let_def leaves_def keeps_def)
qed

lemma plain_base: "plain_part n \<Longrightarrow> plain_part (path_base (p @ CHR ''/'' # n))"
proof -
  assume n: "plain_part n"
  then obtain x ys where rev: "rev n = x # ys" "x \<noteq> CHR ''/''" "CHR ''/'' \<notin> set ys"
    unfolding plain_part_def by (metis list.set_intros(1,2) neq_Nil_conv rev_is_Nil_conv set_rev)
  then have "takeWhile (\<lambda>c. c \<noteq> CHR ''/'') (rev n @ CHR ''/'' # rev p) = rev n"
    by (auto simp: takeWhile_append)
  with n rev show ?thesis by (simp add: path_base_def)
qed

lemma web_candidates_plain: "logs_laws lg d f \<Longrightarrow> \<forall>c \<in> set (web_server_candidates lg w m). plain_part (path_base c)"
proof -
  assume "logs_laws lg d f"
  then have matches: "c \<in> set (lg_glob lg p m) \<Longrightarrow> plain_part (path_base c)" for p c by (auto simp: logs_laws_def)
  have plain: "\<forall>c \<in> set [''/var/log/nginx/error.log'', ''/var/log/apache2/error.log'', ''/var/log/apache2/gameap_error.log'', ''/var/log/apache2/gameap_access.log'', ''/var/log/httpd/error_log'']. plain_part (path_base c)"
    using
      plain_base [of "''error.log''" "''/var/log/nginx''"]
      plain_base [of "''error.log''" "''/var/log/apache2''"]
      plain_base [of "''gameap_error.log''" "''/var/log/apache2''"]
      plain_base [of "''gameap_access.log''" "''/var/log/apache2''"]
      plain_base [of "''error_log''" "''/var/log/httpd''"]
    by (simp add: plain_part_def)
  with matches show ?thesis unfolding web_server_candidates_def by auto
qed

lemma database_candidates_plain: "logs_laws lg d f \<Longrightarrow> \<forall>c \<in> set (database_candidates lg w m). plain_part (path_base c)"
proof -
  assume "logs_laws lg d f"
  then have matches: "c \<in> set (lg_glob lg p m) \<Longrightarrow> plain_part (path_base c)" for p c by (auto simp: logs_laws_def)
  have plain: "\<forall>c \<in> set [''/var/log/mysql/error.log'', ''/var/log/mariadb/mariadb.log'', ''/var/log/mysqld.log'']. plain_part (path_base c)"
    using
      plain_base [of "''error.log''" "''/var/log/mysql''"]
      plain_base [of "''mariadb.log''" "''/var/log/mariadb''"]
      plain_base [of "''mysqld.log''" "''/var/log''"]
    by (simp add: plain_part_def)
  with matches show ?thesis
    unfolding database_candidates_def by (simp only: list.set(1) ball_empty split: if_split) blast
qed

lemma web_server_leaves:
  assumes "logs_laws lg d f" "\<not> inside d q"
  shows "leaves q (collect_web_server_logs lg d)"
proof (rule leavesI)
  fix s :: "'a machine"
  obtain r t where r: "lg_load lg s = (r, t)" by fastforce
  have "files t q = files s q" by (rule leavesD [OF load_record_leaves r])
  moreover have "leaves q (collect_candidates lg (path_join [d, ''webserver'']) ''webserver'' (web_server_candidates lg x t))" for x
    by (rule collect_candidates_leaves [OF assms _ web_candidates_plain [OF assms(1)]]) (simp add: plain_part_def)
  ultimately show "files (snd (collect_web_server_logs lg d s)) q = files s q"
    using r by (auto simp: collect_web_server_logs_def leaves_def keeps_def split: sum.splits)
qed

lemma database_leaves:
  assumes "logs_laws lg d f" "\<not> inside d q"
  shows "leaves q (collect_database_logs lg d)"
proof (rule leavesI)
  fix s :: "'a machine"
  obtain r t where r: "lg_load lg s = (r, t)" by fastforce
  have "files t q = files s q" by (rule leavesD [OF load_record_leaves r])
  moreover have "leaves q (collect_candidates lg (path_join [d, ''database'']) ''database'' (database_candidates lg x t))" for x
    by (rule collect_candidates_leaves [OF assms _ database_candidates_plain [OF assms(1)]]) (simp add: plain_part_def)
  ultimately show "files (snd (collect_database_logs lg d s)) q = files s q"
    using r by (auto simp: collect_database_logs_def leaves_def keeps_def split: sum.splits)
qed

lemma append_info_leaves: "q \<noteq> p \<Longrightarrow> leaves q (append_info lg p c)"
  unfolding append_info_def [abs_def] by (rule leaves_by_state) (rule leaves_write)

lemma system_info_leaves:
  assumes "logs_laws lg d f" "\<not> inside d q"
  shows "leaves q (collect_system_info lg d)"
proof -
  have "q \<noteq> path_join [d, ''system_info.txt'']"
    using assms inside_join [of d "''system_info.txt''" q] by (auto simp: inside_def logs_laws_def plain_part_def)
  then show ?thesis
    unfolding collect_system_info_def Let_def
    by (intro leaves_bindE loaded_leaves leaves_basic append_info_leaves)
qed

lemma additional_leaves:
  assumes "logs_laws lg d f" "\<not> inside d q" "\<forall>c \<in> set logs. plain_part (path_base c)"
  shows "leaves q (collect_additional_logs lg logs d)"
proof -
  have "leaves q (collect_additional_log lg (path_join [d, ''additional'']) c)" if "c \<in> set logs" for c
    using copy_log_leaves [OF assms(1,2), of "''additional''" c] assms(3) that
    by (intro leavesI) (auto simp: collect_additional_log_def leaves_def keeps_def plain_part_def)
  then have "leaves q (eachE (collect_additional_log lg (path_join [d, ''additional''])) logs)"
    by (induction logs) (auto intro: leaves_bindE)
  then show ?thesis
    unfolding collect_additional_logs_def Let_def by (intro leaves_bindE open_logs_leaves [OF assms(1)])
qed

lemma collect_all_leaves:
  assumes "logs_laws lg d f" "\<not> inside d q" "\<forall>c \<in> set logs. plain_part (path_base c)"
  shows "leaves q (collect_all_logs lg d logs)"
proof -
  note by_directory = collect_directory_leaves [OF assms(1,2)]
  have "leaves q (collect_gameapctl_logs lg d)" "leaves q (collect_daemon_logs lg d)"
    unfolding collect_gameapctl_logs_def collect_daemon_logs_def by (intro by_directory; simp add: plain_part_def)+
  then have "\<forall>collect \<in> set [collect_gameapctl_logs, collect_daemon_logs, collect_journal_logs, collect_panel_logs,
      collect_web_server_logs, collect_database_logs, collect_system_info]. leaves q (collect lg d)"
    using assms(1,2) by (simp add: journal_leaves panel_leaves web_server_leaves database_leaves system_info_leaves)
  then show ?thesis
    unfolding collect_all_logs_def
    by (intro leaves_bindE leaves_if leaves_basic additional_leaves [OF assms]) (auto intro!: leaves_bindE)
qed

lemma pack_entries_state: "snd (pack_entries lg dir ss missing es m) = m"
proof -
  have read: "t = s" if "read_file os p s = (r, t)" for os p r and s t :: "'a machine"
    using read_file_state [of os p s] that by simp
  show ?thesis
    by (induction lg dir ss missing es m rule: pack_entries.induct)
      (auto simp: Let_def split: option.split sum.split prod.split dest!: read)
qed

lemma pack_entries_leaves: "leaves q (pack_entries lg dir ss missing es)"
  by (intro leavesI) (simp add: pack_entries_state)

lemma compress_leaves: "q \<noteq> f \<Longrightarrow> leaves q (compress_logs lg d f)"
  unfolding compress_logs_def [abs_def]
  by (rule leaves_by_state) (intro leaves_bindE pack_entries_leaves leaves_write)

lemma send_leaves: "logs_laws lg d f \<Longrightarrow> leaves q (send_file lg p)"
  unfolding send_file_def
  by (intro leaves_bindE leaves_basic leaves_read)
    (auto simp: logs_laws_def leaves_basic split: prod.split sum.split)

lemma pack_and_send_files:
  assumes laws: "logs_laws lg d f" and fresh: "files m f = None"
  shows "files (snd (pack_and_send lg d m)) = files m"
proof
  fix q
  obtain x t where x: "lg_create_temp lg ''gameapctl-send-logs'' m = (x, t)" by fastforce
  have created: "case x of Inl _ \<Rightarrow> files t = files m | Inr y \<Rightarrow> y = f \<and> (\<forall>q. q \<noteq> f \<longrightarrow> files t q = files m q)"
    using laws x by (simp add: logs_laws_def)
  define run where "run = bindE (wrapE ''failed to compress logs'' (compress_logs lg d f)) (\<lambda>_. wrapE ''failed to send file'' (send_file lg f))"
  have all: "leaves q (finallyE run (quietly (remove_file (lg_os lg) f)))" if "q \<noteq> f"
    unfolding run_def using that
    by (intro leaves_finallyE leaves_bindE leaves_basic leaves_remove compress_leaves send_leaves [OF laws])
  have gone: "files (snd (finallyE run (quietly (remove_file (lg_os lg) f)) t)) f = None"
    using laws by (simp add: finallyE_def quietly_def remove_file_def logs_laws_def split: prod.split)
  show "files (snd (pack_and_send lg d m)) q = files m q"
  proof (cases x)
    case (Inl e)
    with x created show ?thesis by (simp add: pack_and_send_def bindE_def)
  next
    case (Inr y)
    with x created have "snd (pack_and_send lg d m) = snd (finallyE run (quietly (remove_file (lg_os lg) f)) t)"
      by (simp add: pack_and_send_def run_def bindE_Inr)
    then show ?thesis
      using created Inr all gone fresh by (cases "q = f") (auto simp: leaves_def keeps_def)
  qed
qed

lemma collect_all_returns: "fst (collect_all_logs lg d logs m) = Inr ()"
proof -
  have "fst (eachE (\<lambda>c. quietly (c lg d)) cs m) = Inr ()" for cs :: "('a logs_env \<Rightarrow> string \<Rightarrow> ('a, unit) sys) list"
    by (induction cs arbitrary: m) (simp_all add: bindE_def quietly_def retE_def split: prod.split)
  then show ?thesis
    by (auto simp: collect_all_logs_def bindE_def quietly_def retE_def split: prod.split sum.split)
qed

text \<open>A link to a file that is not empty: its header has no size, but the file behind it is copied.\<close>

lemma link_fails_report:
  assumes "seen_kind s = SeenLink" "\<not> seen_error s" "seen_header_error s = None"
    and "read_file (lg_os lg) (seen_path s) m = (Inr (c # cs), t)"
  shows "fst (pack_entries lg dir (s # ss) 0 es m) = Inl (Err ''archive/tar: write too long'')"
  using assms by (simp add: header_size_def Let_def)


text \<open>A host with one log that is asked for, and a service that answers with what it received.\<close>

definition logging :: "nat logs_env" where
  "logging =
     \<lparr>lg_control = obedient_control,
      lg_fs = (px_fs rootless_env)\<lparr>
        fl_copy := (\<lambda>a b m. case files m a of None \<Rightarrow> (Inl (NotExist a), m) | Some c \<Rightarrow> (Inr (), m\<lparr>files := (files m)(b \<mapsto> c)\<rparr>)),
        fl_remove_all := (\<lambda>d m. (Inr (), m\<lparr>files := (\<lambda>q. if inside d q then None else files m q)\<rparr>))\<rparr>,
      lg_users = (px_users rootless_env)\<lparr>us_chown := (\<lambda>_ _ _. retE ())\<rparr>, lg_info = example_info, lg_version = ''3'', lg_build_date = [],
      lg_mkdtemp = (\<lambda>_. retE ''/tmp/logs''),
      lg_create_temp = (\<lambda>_ m. (Inr ''/tmp/a'', m\<lparr>files := (files m)(''/tmp/a'' \<mapsto> [])\<rparr>)),
      lg_chmod = (\<lambda>_. retE ()), lg_glob = (\<lambda>_ _. []), lg_output = (\<lambda>_. retE ''journal''),
      lg_walk = (\<lambda>d m. case files m ''/tmp/logs/additional/g.log'' of None \<Rightarrow> []
        | Some c \<Rightarrow> [\<lparr>seen_path = ''/tmp/logs/additional/g.log'', seen_error = False, seen_kind = SeenFile (length c), seen_header_error = None\<rparr>]),
      lg_archive = (\<lambda>es. concat (map te_content es)),
      lg_post = (\<lambda>_ _ body. retE (200, body)), lg_decode_id = Inr\<rparr>"

definition log_machine :: "nat machine" where
  "log_machine = \<lparr>files = [''/srv/g.log'' \<mapsto> ''line''], dirs = {}, world = 0, service_memo = None\<rparr>"


end
