(* ===== verification/Spec2Isabelle.thy ===== *)
theory Spec2Isabelle
  imports ReleaseSource ConnectAddress Scopes DaemonSetup DaemonUpdate FileUtils PackageManagers DaemonInstall PanelInstaller PanelDatabase PanelChecks PanelEnroll PanelControl PanelPassword PanelUninstall PanelBuild PanelUpdate PanelInstall LetsEncrypt UiServer PanelMigrate SelfUpdate WindowsFacts SendLogs
begin

text \<open>
  A model of gameapctl, the command line tool that installs, updates and removes the game panel
  GameAP and its daemon.

  The program. A command of \<open>internal/app/app.go\<close> ends in one action of \<open>internal/actions\<close>: the
  installation, update, switch to gRPC, start, stop and status of the daemon; the installation,
  update, migration, removal, control, certificates and passwords of the panel; the web interface
  that starts these commands for a browser; the update of the tool itself and the report of logs. The actions rest on packages under
  \<open>pkg\<close>: release search and download, network addresses, scopes and paths, services and processes,
  users and ownership, package managers, and on the records of earlier installations and the
  configuration files of daemon and panel under \<open>internal/pkg\<close>.

  How it is modelled. A Go function that may fail returns \<open>Inl\<close> an error or \<open>Inr\<close> a value; the
  errors are the constructors of \<open>go_error\<close> that the program inspects, wrapped as the code wraps
  them. A function that acts on the machine has the type \<open>('w, 'a) sys\<close>: it maps a machine (files
  with contents, directories, the memory of the service manager and the rest of the world \<open>'w\<close>) to a
  result and a machine. Every early return is a branch. Functions that may not return have the type
  \<open>('w, 'a) psys\<close>, where \<open>None\<close> is a run that does not end, and functions that return their state
  next to an error are the steps of theory Steps. What is not in the repository (the kernel's
  refusals, commands, HTTP, YAML and JSON, SQL drivers, cryptography, randomness, clocks, the copy and
  removal of directory trees) is a field of an environment record; what a proof needs of it is a named
  predicate such as \<open>upgrade_laws\<close> or \<open>migration_laws\<close>, which the witnesses show of a concrete environment.
  Output to the terminal and the log is left out everywhere, and so are file modes.

  The theories, from the bottom up:
  \<^item> Prelude, GoStrings: errors, results, operations, sequences; the string functions of Go, on ASCII.
  \<^item> System, Scopes, FileUtils, Partial, Steps: the machine and its file operations, \<open>path/filepath\<close>,
    \<open>pkg/gameap\<close> (scopes and paths), \<open>pkg/utils/fs.go\<close> (moving files, the line editor); operations that
    may not end; operations that carry a state.
  \<^item> ReleaseFinder, ReleaseSource: \<open>pkg/releasefinder\<close>, \<open>pkg/releasesource\<close>. Version strings, choice of
    release and asset, retries at rate limits, order of sources, download.
  \<^item> NetAddr, ConnectAddress: addresses as Go's \<open>net\<close> and \<open>net/url\<close> read and print them, and
    \<open>connect_url.go\<close>, \<open>resolve_address.go\<close> of the daemon installation with the heap behind the choice of
    an address.
  \<^item> Services, Users, OsInfo: \<open>pkg/service\<close>, \<open>pkg/systemd\<close>, \<open>pkg/oscore\<close>, \<open>pkg/daemon\<close>, \<open>pkg/os_info\<close>.
  \<^item> PackageConfig, PackageParsers, PackageManagers, DistroConfig: \<open>pkg/package_manager\<close> for Linux.
    Merged configurations and their cache, listings, the four managers with the wrapper, the chroot
    packages and the fallback, and the paths of configuration files.
  \<^item> DaemonConfig, DaemonSetup, InstallState: the daemon's YAML file, its first version, the
    records in \<open>~/.gameapctl\<close>.
  \<^item> SwitchToGrpc, DaemonUpdate, DaemonInstall: the actions on the daemon.
  \<^item> PanelService, PanelInstaller, PanelBuild: \<open>pkg/panel\<close>, \<open>internal/pkg/panel\<close>. The panel as a
    service, its files and \<open>config.env\<close>, the build from source and the health request.
  \<^item> PanelDatabase, PanelChecks, PanelEnroll, PanelInstall: the installation of the panel in version 4
    (\<open>internal/actions/panel/install\<close>), its database, questions and checks, and the daemon that comes with it.
  \<^item> PanelControl, PanelPassword, PanelUninstall, PanelUpdate, PanelMigrate, LetsEncrypt: the other
    actions on the panel, with the migration from version 3.
  \<^item> UiServer: \<open>internal/actions/ui\<close>. What a browser can ask for, and the conversation on a connection.
  \<^item> SelfUpdate: \<open>internal/actions/selfupdate\<close>, \<open>internal/pkg/gameapctl/build.go\<close>.
  \<^item> WindowsService, WindowsPackages, WindowsManager, WindowsInstall, WindowsFacts: \<open>service_windows.go\<close>
    and the package manager for Windows with its packages, whose map is part of the state because
    installations change it; WindowsFacts has the lemmas.
  \<^item> SendLogs: \<open>internal/actions/sendlogs\<close>. What is collected, the archive and its delivery.

  Interfaces. \<open>service_ops\<close> and \<open>scoped_unit\<close> (Services) say what the operations of a service may do
  and are interpreted for the service managers, the daemon and the panel; \<open>record_scanner\<close>
  (PackageParsers) is the loop that reads a listing, with one interpretation for each format;
  \<open>confined_manager\<close>, \<open>wrapped_manager\<close> and \<open>two_managers\<close> (PackageManagers) are the interface
  \<open>PackageManager\<close> and what wrapping and falling back preserve; \<open>max_queue\<close> (ConnectAddress) is a
  priority queue, interpreted by Go's binary heap; \<open>step_frame\<close> (Steps) is what a sequence of steps keeps of a state.

  What the lemmas show. Functional: what release, address or configuration is chosen, which settings
  a migration carries over. Round trips: what is printed, saved or edited (URLs, records, listings,
  \<open>config.env\<close>, credentials) is read back. Safety: a failed or rolled-back change leaves the old binary,
  configuration or tree; operations in user scope never act outside it; keys never stay
  behind. Termination and bounds: which waits and searches end, and after how many attempts. Errors:
  which failures are reported, and the cases where the code fails or reports otherwise than it means to.

  Bounds. Loops with a counter in the code are recursions on that counter with the code's own values:
  10 attempts to verify the switch to gRPC, 30 health checks after an installation and 5 after an
  update or a migration (\<open>health_retries\<close>, \<open>update_health_retries\<close>), the retries of releases and the
  waits for processes; on Windows 15 checks of a service (\<open>status_checks\<close>) and 10 tries for the conditions of
  an installation step (\<open>wait_tries_max\<close>). There is no other fuel. Loops without a bound are \<open>partial_function (option)\<close>:
  the questions (\<open>ask\<close>, \<open>ask_database_credentials\<close>, \<open>read_credentials\<close>), the search for PHP
  (\<open>find_php_version\<close>) and the dependencies of packages on Windows (\<open>windows_install\<close>); where the code relies on their end, it is proved or refuted as a property.

  Not modelled. macOS; of Windows the users, the processes and the variants of the actions behind build
  tags, beyond the service manager, the package manager and the paths and tables that shared code has. The installation of version 3, which
  no command reaches any more, but for the database functions that version 4 uses. The table of commands
  and flags in \<open>app.go\<close>, which is declarative, and the HTTP server of the interface, which hands requests on to the library. The
  TLS probe, the SELinux library, shell quoting and random strings, which wrap libraries. Runes beyond ASCII, file modes and owners (but
  for the calls that set them), and concurrent processes other than as arbitrary changes of the machine.
\<close>

end
